(* ===== verification/Prelude.thy ===== *)
theory Prelude
  imports Main "HOL-Library.Word" "HOL-Library.Monad_Syntax"
begin

section \<open>Prelude: machine types, bounds-checked memory, shared lemmas\<close>

text \<open>
  What every component shares: the names of C's integer types (an LP64 host: \<open>int\<close> has
  32 bits, \<open>long\<close> has 64), reads and writes of a C buffer that fail when they leave it,
  the collections of rewrite rules the component proofs use, and the interface of a
  codec with the lemmas that follow from it.

  The result type \<open>'a option\<close> of an operation on memory means: \<open>None\<close> is undefined
  behaviour of the C program (a read or write outside a buffer, a null or dangling pointer
  followed, an uninitialised value used), \<open>Some\<close> is what the code computes. Errors the
  code reports itself are values of the error types of their components.
\<close>

unbundle bit_operations_syntax

type_synonym u8 = "8 word"
type_synonym u16 = "16 word"
type_synonym u32 = "32 word"
type_synonym u64 = "64 word"

named_theorems codec_simps \<open>unfolding rules of encoders and decoders\<close>
named_theorems buffer_simps \<open>reads and writes of buffers\<close>

subsection \<open>Buffers\<close>

definition buf_get :: "'a list \<Rightarrow> nat \<Rightarrow> 'a option" where
  "buf_get xs i = (if i < length xs then Some (xs ! i) else None)"

definition buf_set :: "'a list \<Rightarrow> nat \<Rightarrow> 'a \<Rightarrow> 'a list option" where
  "buf_set xs i v = (if i < length xs then Some (xs[i := v]) else None)"

definition buf_read :: "'a list \<Rightarrow> nat \<Rightarrow> nat \<Rightarrow> 'a list option" where
  "buf_read xs off n = (if off + n \<le> length xs then Some (take n (drop off xs)) else None)"

definition buf_write :: "'a list \<Rightarrow> nat \<Rightarrow> 'a list \<Rightarrow> 'a list option" where
  "buf_write xs off ys =
     (if off + length ys \<le> length xs
      then Some (take off xs @ ys @ drop (off + length ys) xs) else None)"

lemma buf_get_in [buffer_simps]: "i < length xs \<Longrightarrow> buf_get xs i = Some (xs ! i)"
  by (simp add: buf_get_def)

lemma buf_get_out [buffer_simps]: "length xs \<le> i \<Longrightarrow> buf_get xs i = None"
  by (simp add: buf_get_def)

lemma buf_get_Some_iff: "buf_get xs i = Some v \<longleftrightarrow> i < length xs \<and> v = xs ! i"
  by (auto simp: buf_get_def)

lemma buf_set_in [buffer_simps]: "i < length xs \<Longrightarrow> buf_set xs i v = Some (xs[i := v])"
  by (simp add: buf_set_def)

lemma buf_read_in [buffer_simps]:
  "off + n \<le> length xs \<Longrightarrow> buf_read xs off n = Some (take n (drop off xs))"
  by (simp add: buf_read_def)

lemma buf_read_out [buffer_simps]: "length xs < off + n \<Longrightarrow> buf_read xs off n = None"
  by (simp add: buf_read_def)

lemma buf_read_length: "buf_read xs off n = Some ys \<Longrightarrow> length ys = n"
  by (auto simp: buf_read_def split: if_splits)

lemma buf_write_length: "buf_write xs off ys = Some zs \<Longrightarrow> length zs = length xs"
  by (auto simp: buf_write_def split: if_splits)

lemma buf_write_read:
  "buf_write xs off ys = Some zs \<Longrightarrow> buf_read zs off (length ys) = Some ys"
  by (auto simp: buf_write_def buf_read_def split: if_splits)

subsection \<open>Results of code that may end the process\<close>

datatype 'a exits = Exits | Continues 'a

subsection \<open>Option chains\<close>

lemma bind_Some_iff: "Option.bind m f = Some y \<longleftrightarrow> (\<exists>x. m = Some x \<and> f x = Some y)"
  by (cases m) auto

subsection \<open>Bytes of machine words\<close>

lemma unat_u8_less [simp]: "unat (b :: u8) < 256"
  using unsigned_less [of b] by simp

lemma unat_u16_less [simp]: "unat (b :: u16) < 65536"
  using unsigned_less [of b] by simp

lemma unat_u32_less [simp]: "unat (b :: u32) < 4294967296"
  using unsigned_less [of b] by simp

lemma unat_of_nat_u32: "n < 4294967296 \<Longrightarrow> unat (word_of_nat n :: u32) = n"
  by (simp add: unsigned_of_nat take_bit_nat_eq_self)

lemma unat_of_nat_u16: "n < 65536 \<Longrightarrow> unat (word_of_nat n :: u16) = n"
  by (simp add: unsigned_of_nat take_bit_nat_eq_self)

lemma unat_ucast_u32 [simp]: "unat (ucast (x :: u32) :: u64) = unat x"
proof -
  have "unat x < 2 ^ 64" by (rule less_trans [OF unat_u32_less]) simp
  then show ?thesis by (simp add: unsigned_ucast_eq take_bit_nat_eq_self)
qed

lemma ucast_u32_u64: "(ucast x :: u64) = ucast y \<longleftrightarrow> x = (y :: u32)"
  by (metis unat_ucast_u32 unsigned_word_eqI)

lemma unat_suc:
  assumes "unat (w :: u32) < unat (b :: u32)"
  shows "unat (w + 1) = unat w + 1"
proof -
  have "unat w + 1 < 4294967296" using assms unat_u32_less [of b] by linarith
  then show ?thesis by (simp add: unat_word_ariths)
qed

subsection \<open>The interface of a codec\<close>

text \<open>
  A provider encodes values into bytes and decodes bytes, failing with \<open>None\<close>; decoding
  what was encoded from a valid value gives the value back. Every wire format of the
  program is an instance (see \<open>Byte_Util\<close>, \<open>Sci\<close>, \<open>Module\<close>).
\<close>

locale codec =
  fixes enc :: "'a \<Rightarrow> 'b"
    and dec :: "'b \<Rightarrow> 'a option"
    and valid :: "'a \<Rightarrow> bool"
  assumes dec_enc: "valid x \<Longrightarrow> dec (enc x) = Some x"
begin

lemma enc_inj: "valid x \<Longrightarrow> valid y \<Longrightarrow> enc x = enc y \<Longrightarrow> x = y"
  using dec_enc by (metis option.inject)

lemma enc_inj_on: "inj_on enc {x. valid x}"
  by (rule inj_onI) (auto intro: enc_inj)

lemma dec_on_image: "valid x \<Longrightarrow> \<exists>y. dec (enc x) = Some y \<and> enc y = enc x"
  using dec_enc by blast

end

end
