(* ===== verification/Byte_Util.thy ===== *)
theory Byte_Util
  imports Prelude
begin

section \<open>Byte order helpers (rastautil.c, rastamodule.c)\<close>

text \<open>
  The conversions between machine words and byte arrays that every packet format uses.
  The code asks the host for its byte order (\<open>isBigEndian\<close>); the model keeps both branches,
  and the lemmas below hold for either answer, so nothing depends on the host chosen in
  \<open>host_int_bytes\<close> (a little-endian one, as every platform of the build files).
\<close>

definition host_int_bytes :: "u32 \<Rightarrow> u8 list" where
  "host_int_bytes v = [ucast v, ucast (drop_bit 8 v), ucast (drop_bit 16 v), ucast (drop_bit 24 v)]"

definition isBigEndian :: bool where
  "isBigEndian \<longleftrightarrow> host_int_bytes 1 ! 0 = 0"

definition shortToBytes :: "u16 \<Rightarrow> u8 list" where
  "shortToBytes v =
     (if \<not> isBigEndian then [ucast (v AND 0xFF), ucast (drop_bit 8 v AND 0xFF)]
      else [ucast (drop_bit 8 v AND 0xFF), ucast (v AND 0xFF)])"

definition bytesToShort :: "u8 list \<Rightarrow> u16" where
  "bytesToShort v =
     (if \<not> isBigEndian then push_bit 8 (ucast (v ! 1)) + ucast (v ! 0)
      else push_bit 8 (ucast (v ! 0)) + ucast (v ! 1))"

definition longToBytes :: "u32 \<Rightarrow> u8 list" where
  "longToBytes v =
     (if \<not> isBigEndian
      then [ucast (v AND 0xFF), ucast (drop_bit 8 v AND 0xFF),
            ucast (drop_bit 16 v AND 0xFF), ucast (drop_bit 24 v AND 0xFF)]
      else [ucast (drop_bit 24 v AND 0xFF), ucast (drop_bit 16 v AND 0xFF),
            ucast (drop_bit 8 v AND 0xFF), ucast (v AND 0xFF)])"

definition bytesToLong :: "u8 list \<Rightarrow> u32" where
  "bytesToLong v =
     (if \<not> isBigEndian
      then push_bit 24 (ucast (v ! 3)) + push_bit 16 (ucast (v ! 2))
           + push_bit 8 (ucast (v ! 1)) + ucast (v ! 0)
      else push_bit 24 (ucast (v ! 0)) + push_bit 16 (ucast (v ! 1))
           + push_bit 8 (ucast (v ! 2)) + ucast (v ! 3))"

lemma length_shortToBytes [simp]: "length (shortToBytes v) = 2"
  by (simp add: shortToBytes_def)

lemma length_longToBytes [simp]: "length (longToBytes v) = 4"
  by (simp add: longToBytes_def)

subsection \<open>Round trips\<close>

lemma and_255_mod: "(w :: 'a::len word) AND 0xFF = take_bit 8 w"
proof -
  have "(0xFF :: 'a word) = mask 8" by (simp add: mask_eq_exp_minus_1)
  then show ?thesis by (simp add: take_bit_eq_mask)
qed

lemma disjoint_add: "a AND b = 0 \<Longrightarrow> a + b = a OR (b :: 'a::len word)"
  by (simp add: disjunctive_add_eq_or)

lemma join16: "push_bit 8 (ucast (ucast (drop_bit 8 v AND 0xFF) :: u8)) + ucast (ucast (v AND 0xFF) :: u8) = (v :: u16)"
  apply (subst disjoint_add)
   apply (rule bit_eqI) 
   apply (auto simp: and_255_mod bit_simps)
  apply (rule bit_eqI) 
  apply (auto simp: and_255_mod bit_simps)
  done

lemma join32:
  "push_bit 24 (ucast (ucast (drop_bit 24 v AND 0xFF) :: u8))
   + push_bit 16 (ucast (ucast (drop_bit 16 v AND 0xFF) :: u8))
   + push_bit 8 (ucast (ucast (drop_bit 8 v AND 0xFF) :: u8))
   + ucast (ucast (v AND 0xFF) :: u8) = (v :: u32)"
  apply (subst disjoint_add, rule bit_eqI, force simp: and_255_mod bit_simps)
  apply (subst disjoint_add, rule bit_eqI, force simp: and_255_mod bit_simps)
  apply (subst disjoint_add, rule bit_eqI, force simp: and_255_mod bit_simps)
  apply (rule bit_eqI)
  subgoal for n
    by (cases "n < 8"; cases "n < 16"; cases "n < 24") (auto simp: and_255_mod bit_simps)
  done

lemma bytesToLong_longToBytes [simp]: "bytesToLong (longToBytes v) = v"
  by (simp add: bytesToLong_def longToBytes_def join32)

lemma bytesToShort_shortToBytes [simp]: "bytesToShort (shortToBytes v) = v"
  by (simp add: bytesToShort_def shortToBytes_def join16)

lemma bytesToShort_append: "length xs = 2 \<Longrightarrow> bytesToShort (xs @ ys) = bytesToShort xs"
  by (simp add: bytesToShort_def nth_append)

lemma bytesToLong_append: "length xs = 4 \<Longrightarrow> bytesToLong (xs @ ys) = bytesToLong xs"
  by (simp add: bytesToLong_def nth_append)

lemma bytesToShort_app [simp]: "bytesToShort (shortToBytes v @ xs) = v"
  by (simp add: bytesToShort_append)

lemma bytesToLong_app [simp]: "bytesToLong (longToBytes v @ xs) = v"
  by (simp add: bytesToLong_append)

lemma byte_bits: "bit (b :: u8) n \<Longrightarrow> n < 8"
  using bit_imp_le_length [of b n] by simp

lemma join_or: "(push_bit 8 (ucast (a :: u8)) + ucast (b :: u8) :: u16) = push_bit 8 (ucast a) OR ucast b"
  by (rule disjoint_add, rule bit_eqI) (auto simp: bit_simps dest: byte_bits)

lemma low_byte: "ucast ((push_bit 8 (ucast (a :: u8)) + ucast (b :: u8) :: u16) AND 0xFF) = b"
  unfolding join_or by (rule bit_eqI) (auto simp: and_255_mod bit_simps dest: byte_bits)

lemma high_byte: "ucast (drop_bit 8 (push_bit 8 (ucast (a :: u8)) + ucast (b :: u8) :: u16) AND 0xFF) = a"
  unfolding join_or by (rule bit_eqI) (auto simp: and_255_mod bit_simps dest: byte_bits)

lemma length2_cases: "length xs = 2 \<Longrightarrow> xs = [xs ! 0, xs ! 1]"
  by (cases xs; cases "tl xs") auto

lemma shortToBytes_bytesToShort: "length xs = 2 \<Longrightarrow> shortToBytes (bytesToShort xs) = xs"
  by (subst (3) length2_cases) (auto simp: shortToBytes_def bytesToShort_def low_byte high_byte)

text \<open>The 16-bit and 32-bit fields as instances of the codec interface.\<close>

interpretation short_codec: codec shortToBytes
  "\<lambda>bs. if length bs = 2 then Some (bytesToShort bs) else None" "\<lambda>_. True"
  by unfold_locales simp

interpretation long_codec: codec longToBytes
  "\<lambda>bs. if length bs = 4 then Some (bytesToLong bs) else None" "\<lambda>_. True"
  by unfold_locales simp

lemma shortToBytes_inj [simp]: "shortToBytes v = shortToBytes w \<longleftrightarrow> v = w"
  using short_codec.enc_inj by blast

lemma longToBytes_inj [simp]: "longToBytes v = longToBytes w \<longleftrightarrow> v = w"
  using long_codec.enc_inj by blast

text \<open>On the host of \<open>host_int_bytes\<close> the wire order is little endian.\<close>

lemma not_isBigEndian: "\<not> isBigEndian"
  by (simp add: isBigEndian_def host_int_bytes_def)

end
