(* ===== verification/C_Text.thy ===== *)
theory C_Text
  imports Prelude
begin

section \<open>Characters and strings of the C library\<close>

text \<open>
  A C string is the list of its bytes before the terminator. The character classes are those of
  the C locale, in which only ASCII letters are letters.
\<close>

type_synonym cstring = "u8 list"

definition cstr :: "string \<Rightarrow> cstring" where
  "cstr s = map of_char s"

definition strlen :: "cstring \<Rightarrow> nat" where
  "strlen s = length s"

definition is_space :: "u8 \<Rightarrow> bool" where
  "is_space b \<longleftrightarrow> b = 0x20 \<or> (0x09 \<le> b \<and> b \<le> 0x0D)"

definition is_digit :: "u8 \<Rightarrow> bool" where
  "is_digit b \<longleftrightarrow> 0x30 \<le> b \<and> b \<le> 0x39"

fun digits_value :: "nat \<Rightarrow> u8 list \<Rightarrow> nat" where
  "digits_value a [] = a"
| "digits_value a (d # ds) = digits_value (a * 10 + (unat d - 48)) ds"

definition is_alpha :: "u8 \<Rightarrow> bool" where
  "is_alpha b \<longleftrightarrow> 0x41 \<le> b \<and> b \<le> 0x5A \<or> 0x61 \<le> b \<and> b \<le> 0x7A"

definition to_upper :: "u8 \<Rightarrow> u8" where
  "to_upper b = (if 0x61 \<le> b \<and> b \<le> 0x7A then b - 0x20 else b)"

definition to_lower :: "u8 \<Rightarrow> u8" where
  "to_lower b = (if 0x41 \<le> b \<and> b \<le> 0x5A then b + 0x20 else b)"

text \<open>The string in an array; an array without a terminator is read past its end.\<close>

definition string_in :: "u8 list \<Rightarrow> cstring option" where
  "string_in xs = (if 0 \<in> set xs then Some (takeWhile (\<lambda>b. b \<noteq> 0) xs) else None)"

text \<open>\<open>strcpy\<close> into an array.\<close>

definition strcpy :: "u8 list \<Rightarrow> cstring \<Rightarrow> u8 list option" where
  "strcpy xs s = buf_write xs 0 (s @ [0])"

lemma digits_value_append: "digits_value a (xs @ ys) = digits_value (digits_value a xs) ys"
  by (induction xs arbitrary: a) auto

lemma string_in_terminated: "0 \<notin> set s \<Longrightarrow> string_in (s @ 0 # xs) = Some s"
  by (simp add: string_in_def takeWhile_append takeWhile_eq_all_conv)

lemma is_digit_simps [simp]: "is_digit 0x2D = False" "is_digit 0x20 = False" "is_digit 0x0A = False" "is_digit 0x3D = False"
  "is_digit 0x22 = False" "is_digit 0x7D = False" "is_digit 0x3B = False"
  by (simp_all add: is_digit_def)

lemma is_digit_iff: "is_digit b \<longleftrightarrow> 48 \<le> unat b \<and> unat b \<le> 57"
  by (simp add: is_digit_def word_le_nat_alt)

lemma to_upper_idem [simp]: "to_upper (to_upper b) = to_upper b"
proof (cases "0x61 \<le> b \<and> b \<le> 0x7A")
  case True
  then have "unat (b - 0x20) = unat b - 32" by (simp add: unat_sub word_le_nat_alt)
  then show ?thesis using True by (auto simp: to_upper_def word_le_nat_alt)
qed (simp add: to_upper_def)

end
