(* ===== verification/Sci.thy ===== *)
theory Sci
  imports Byte_Util C_Text
begin

section \<open>SCI telegrams (sci.h, sci.c, sci_telegram_factory.c)\<close>

text \<open>
  The application telegram of the interlocking: a protocol byte, a message type of two
  bytes, two names of 20 bytes padded with underscores, and up to 85 payload bytes. The
  functions below are the setters, the encoder and decoder of \<open>sci.c\<close> and the telegram
  constructors and parsers of \<open>sci_telegram_factory.c\<close>. A C string is the list of its
  bytes before the terminator. \<open>sci_decode_telegram\<close> takes as its first argument the
  indeterminate content of the local variable \<open>payload\<close> of the C function; the facts
  below hold for every such content.
\<close>

subsection \<open>Data\<close>

definition SCI_MAX_TELEGRAM_LENGTH :: nat where "SCI_MAX_TELEGRAM_LENGTH = 128"
definition SCI_TELEGRAM_LENGTH_WITHOUT_PAYLOAD :: nat where
  "SCI_TELEGRAM_LENGTH_WITHOUT_PAYLOAD = 43"
definition SCI_NAME_PADDING_CHAR :: u8 where "SCI_NAME_PADDING_CHAR = 0x5F"
definition SCI_NAME_LENGTH :: nat where "SCI_NAME_LENGTH = 20"
definition SCI_PAYLOAD_CAPACITY :: nat where "SCI_PAYLOAD_CAPACITY = 85"

lemmas sci_sizes = SCI_MAX_TELEGRAM_LENGTH_def SCI_TELEGRAM_LENGTH_WITHOUT_PAYLOAD_def
  SCI_NAME_PADDING_CHAR_def SCI_NAME_LENGTH_def SCI_PAYLOAD_CAPACITY_def

datatype protocol_type = SCI_PROTOCOL_P | SCI_PROTOCOL_LS

fun protocol_byte :: "protocol_type \<Rightarrow> u8" where
  "protocol_byte SCI_PROTOCOL_P = 0x40"
| "protocol_byte SCI_PROTOCOL_LS = 0x30"

datatype sci_return_code = UNKNOWN_SCI_NAME | INVALID_SCI_NAME | SUCCESS

datatype sci_version_check_result =
    SCI_VERSION_CHECK_RESULT_NOT_ALLOWED_TO_USE
  | SCI_VERSION_CHECK_RESULT_VERSIONS_ARE_NOT_EQUAL
  | SCI_VERSION_CHECK_RESULT_VERSIONS_ARE_EQUAL
  | VERSION_CHECK_OTHER u8 \<comment> \<open>a byte that no enumerator names, cast to the enum\<close>

fun version_check_byte :: "sci_version_check_result \<Rightarrow> u8" where
  "version_check_byte SCI_VERSION_CHECK_RESULT_NOT_ALLOWED_TO_USE = 0x00"
| "version_check_byte SCI_VERSION_CHECK_RESULT_VERSIONS_ARE_NOT_EQUAL = 0x01"
| "version_check_byte SCI_VERSION_CHECK_RESULT_VERSIONS_ARE_EQUAL = 0x02"
| "version_check_byte (VERSION_CHECK_OTHER b) = b"

definition version_check_of_byte :: "u8 \<Rightarrow> sci_version_check_result" where
  "version_check_of_byte b =
     (if b = 0x00 then SCI_VERSION_CHECK_RESULT_NOT_ALLOWED_TO_USE
      else if b = 0x01 then SCI_VERSION_CHECK_RESULT_VERSIONS_ARE_NOT_EQUAL
      else if b = 0x02 then SCI_VERSION_CHECK_RESULT_VERSIONS_ARE_EQUAL
      else VERSION_CHECK_OTHER b)"

record sci_payload =
  payload_data :: "u8 list"
  used_bytes :: nat

record sci_telegram =
  t_protocol :: protocol_type
  t_message_type :: "u8 list"
  t_sender :: "u8 list"
  t_receiver :: "u8 list"
  t_payload :: sci_payload

definition wf_telegram :: "sci_telegram \<Rightarrow> bool" where
  "wf_telegram t \<longleftrightarrow> length (t_message_type t) = 2 \<and> length (t_sender t) = SCI_NAME_LENGTH \<and>
     length (t_receiver t) = SCI_NAME_LENGTH \<and>
     length (payload_data (t_payload t)) = SCI_PAYLOAD_CAPACITY \<and>
     used_bytes (t_payload t) \<le> SCI_PAYLOAD_CAPACITY"

definition zero_tail :: "sci_telegram \<Rightarrow> bool" where
  "zero_tail t \<longleftrightarrow> (\<forall>b \<in> set (drop (used_bytes (t_payload t)) (payload_data (t_payload t))). b = 0)"

subsection \<open>sci.c\<close>

definition pad_name :: "cstring \<Rightarrow> u8 list option" where
  "pad_name name =
     (let field = replicate SCI_NAME_LENGTH SCI_NAME_PADDING_CHAR
      in buf_write field 0 (take (strlen name) name))"

definition sci_set_sender :: "sci_telegram \<Rightarrow> cstring \<Rightarrow> sci_telegram option" where
  "sci_set_sender t name = do { f \<leftarrow> pad_name name; Some (t\<lparr>t_sender := f\<rparr>) }"

definition sci_set_receiver :: "sci_telegram \<Rightarrow> cstring \<Rightarrow> sci_telegram option" where
  "sci_set_receiver t name = do { f \<leftarrow> pad_name name; Some (t\<lparr>t_receiver := f\<rparr>) }"

definition sci_get_name_string :: "u8 list \<Rightarrow> cstring option" where
  "sci_get_name_string field =
     do { bs \<leftarrow> buf_read field 0 SCI_NAME_LENGTH; Some (takeWhile (\<lambda>b. b \<noteq> 0) bs) }"

definition sci_set_message_type :: "sci_telegram \<Rightarrow> u16 \<Rightarrow> sci_telegram" where
  "sci_set_message_type t m = t\<lparr>t_message_type := shortToBytes m\<rparr>"

definition sci_get_message_type :: "sci_telegram \<Rightarrow> u16" where
  "sci_get_message_type t = bytesToShort (t_message_type t)"

definition sci_encode_telegram :: "sci_telegram \<Rightarrow> u8 list option" where
  "sci_encode_telegram t =
     do { mt \<leftarrow> buf_read (t_message_type t) 0 2;
          sn \<leftarrow> buf_read (t_sender t) 0 SCI_NAME_LENGTH;
          rc \<leftarrow> buf_read (t_receiver t) 0 SCI_NAME_LENGTH;
          pl \<leftarrow> (if used_bytes (t_payload t) > 0
                then buf_read (payload_data (t_payload t)) 0 (used_bytes (t_payload t))
                else Some []);
          Some ([protocol_byte (t_protocol t)] @ mt @ sn @ rc @ pl) }"

definition sci_decode_telegram :: "u8 list \<Rightarrow> u8 list \<Rightarrow> sci_telegram option" where
  "sci_decode_telegram junk bytes =
     (if SCI_MAX_TELEGRAM_LENGTH < length bytes \<or>
         length bytes < SCI_TELEGRAM_LENGTH_WITHOUT_PAYLOAD then None
      else if \<not> (bytes ! 0 = protocol_byte SCI_PROTOCOL_P \<or>
                 bytes ! 0 = protocol_byte SCI_PROTOCOL_LS) then None
      else
        let payload_size = length bytes - SCI_TELEGRAM_LENGTH_WITHOUT_PAYLOAD
        in Some \<lparr>t_protocol = (if bytes ! 0 = protocol_byte SCI_PROTOCOL_P then SCI_PROTOCOL_P
                             else SCI_PROTOCOL_LS),
                t_message_type = take 2 (drop 1 bytes),
                t_sender = take SCI_NAME_LENGTH (drop 3 bytes),
                t_receiver = take SCI_NAME_LENGTH (drop 23 bytes),
                t_payload =
                  (if payload_size > 0
                   then \<lparr>payload_data = take payload_size (drop 43 bytes) @ drop payload_size junk,
                         used_bytes = payload_size\<rparr>
                   else \<lparr>payload_data = replicate SCI_PAYLOAD_CAPACITY 0, used_bytes = 0\<rparr>)\<rparr>)"

subsection \<open>sci_telegram_factory.c\<close>

definition SCI_MESSAGE_TYPE_VERSION_REQUEST :: u16 where "SCI_MESSAGE_TYPE_VERSION_REQUEST = 0x2400"
definition SCI_MESSAGE_TYPE_VERSION_RESPONSE :: u16 where "SCI_MESSAGE_TYPE_VERSION_RESPONSE = 0x2500"
definition SCI_MESSAGE_TYPE_STATUS_REQUEST :: u16 where "SCI_MESSAGE_TYPE_STATUS_REQUEST = 0x2100"
definition SCI_MESSAGE_TYPE_STATUS_BEGIN :: u16 where "SCI_MESSAGE_TYPE_STATUS_BEGIN = 0x2200"
definition SCI_MESSAGE_TYPE_STATUS_FINISH :: u16 where "SCI_MESSAGE_TYPE_STATUS_FINISH = 0x2300"

lemmas sci_message_types = SCI_MESSAGE_TYPE_VERSION_REQUEST_def
  SCI_MESSAGE_TYPE_VERSION_RESPONSE_def SCI_MESSAGE_TYPE_STATUS_REQUEST_def
  SCI_MESSAGE_TYPE_STATUS_BEGIN_def SCI_MESSAGE_TYPE_STATUS_FINISH_def

datatype sci_parse_result =
  SCI_PARSE_INVALID_PAYLOAD_LENGTH | SCI_PARSE_INVALID_MESSAGE_TYPE | SCI_PARSE_SUCCESS

definition sci_create_base_telegram ::
  "protocol_type \<Rightarrow> cstring \<Rightarrow> cstring \<Rightarrow> u16 \<Rightarrow> sci_telegram option" where
  "sci_create_base_telegram p snd_name rcv_name m =
     do { sn \<leftarrow> pad_name snd_name;
          rc \<leftarrow> pad_name rcv_name;
          Some \<lparr>t_protocol = p, t_message_type = shortToBytes m, t_sender = sn, t_receiver = rc,
                t_payload = \<lparr>payload_data = replicate 85 0, used_bytes = 0\<rparr>\<rparr> }"

definition set_payload :: "sci_telegram \<Rightarrow> u8 list \<Rightarrow> sci_telegram option" where
  "set_payload t bs =
     do { d \<leftarrow> buf_write (payload_data (t_payload t)) 0 bs;
          Some (t\<lparr>t_payload := \<lparr>payload_data = d, used_bytes = length bs\<rparr>\<rparr>) }"

definition sci_create_version_request ::
  "protocol_type \<Rightarrow> cstring \<Rightarrow> cstring \<Rightarrow> u8 \<Rightarrow> sci_telegram option" where
  "sci_create_version_request p s r version =
     do { t \<leftarrow> sci_create_base_telegram p s r SCI_MESSAGE_TYPE_VERSION_REQUEST;
          set_payload t [version] }"

definition sci_create_version_response ::
  "protocol_type \<Rightarrow> cstring \<Rightarrow> cstring \<Rightarrow> u8 \<Rightarrow> sci_version_check_result \<Rightarrow> u8 \<Rightarrow> u8 list \<Rightarrow>
   sci_telegram option" where
  "sci_create_version_response p s r version result checksum_len checksum =
     do { t \<leftarrow> sci_create_base_telegram p s r SCI_MESSAGE_TYPE_VERSION_RESPONSE;
          cs \<leftarrow> buf_read checksum 0 (unat checksum_len);
          set_payload t ([version_check_byte result, version, checksum_len] @ cs) }"

definition sci_create_status_request ::
  "protocol_type \<Rightarrow> cstring \<Rightarrow> cstring \<Rightarrow> sci_telegram option" where
  "sci_create_status_request p s r = sci_create_base_telegram p s r SCI_MESSAGE_TYPE_STATUS_REQUEST"

definition sci_create_status_begin ::
  "protocol_type \<Rightarrow> cstring \<Rightarrow> cstring \<Rightarrow> sci_telegram option" where
  "sci_create_status_begin p s r = sci_create_base_telegram p s r SCI_MESSAGE_TYPE_STATUS_BEGIN"

definition sci_create_status_finish ::
  "protocol_type \<Rightarrow> cstring \<Rightarrow> cstring \<Rightarrow> sci_telegram option" where
  "sci_create_status_finish p s r = sci_create_base_telegram p s r SCI_MESSAGE_TYPE_STATUS_FINISH"

text \<open>A parser returns its code and the values its out parameters have afterwards.\<close>

definition sci_parse_version_request_payload ::
  "sci_telegram \<Rightarrow> u8 \<Rightarrow> (sci_parse_result \<times> u8) option" where
  "sci_parse_version_request_payload t estw_version =
     (if sci_get_message_type t \<noteq> SCI_MESSAGE_TYPE_VERSION_REQUEST
      then Some (SCI_PARSE_INVALID_MESSAGE_TYPE, estw_version)
      else do { v \<leftarrow> buf_get (payload_data (t_payload t)) 0; Some (SCI_PARSE_SUCCESS, v) })"

record version_response_out =
  out_btp_version :: u8
  out_result :: sci_version_check_result
  out_checksum_len :: u8
  out_checksum :: "u8 list"

definition sci_parse_version_response_payload ::
  "sci_telegram \<Rightarrow> version_response_out \<Rightarrow> (sci_parse_result \<times> version_response_out) option" where
  "sci_parse_version_response_payload t out =
     (if sci_get_message_type t \<noteq> SCI_MESSAGE_TYPE_VERSION_RESPONSE
      then Some (SCI_PARSE_INVALID_MESSAGE_TYPE, out)
      else if used_bytes (t_payload t) < 4 \<or> 128 < used_bytes (t_payload t)
      then Some (SCI_PARSE_INVALID_PAYLOAD_LENGTH, out)
      else do {
        r \<leftarrow> buf_get (payload_data (t_payload t)) 0;
        v \<leftarrow> buf_get (payload_data (t_payload t)) 1;
        n \<leftarrow> buf_get (payload_data (t_payload t)) 2;
        let out' = out\<lparr>out_result := version_check_of_byte r, out_btp_version := v,
                       out_checksum_len := n\<rparr>
        in if used_bytes (t_payload t) - 3 < unat n
           then Some (SCI_PARSE_INVALID_PAYLOAD_LENGTH, out')
           else do { cs \<leftarrow> buf_read (payload_data (t_payload t)) 3 (unat n);
                     d \<leftarrow> buf_write (out_checksum out') 0 cs;
                     Some (SCI_PARSE_SUCCESS, out'\<lparr>out_checksum := d\<rparr>) } })"

subsection \<open>Names\<close>

lemma pad_name_fits:
  "length n \<le> SCI_NAME_LENGTH \<Longrightarrow>
   pad_name n = Some (n @ replicate (SCI_NAME_LENGTH - length n) SCI_NAME_PADDING_CHAR)"
  by (simp add: pad_name_def strlen_def buf_write_def Let_def)

lemma pad_name_overflow: "SCI_NAME_LENGTH < length n \<Longrightarrow> pad_name n = None"
  by (simp add: pad_name_def strlen_def buf_write_def Let_def)

lemma pad_name_length: "pad_name n = Some f \<Longrightarrow> length f = SCI_NAME_LENGTH"
  by (auto simp: pad_name_def Let_def dest: buf_write_length)

lemma create_base_fits:
  assumes "length s \<le> SCI_NAME_LENGTH" and "length r \<le> SCI_NAME_LENGTH"
  shows "sci_create_base_telegram p s r m =
     Some \<lparr>t_protocol = p, t_message_type = shortToBytes m,
           t_sender = s @ replicate (SCI_NAME_LENGTH - length s) SCI_NAME_PADDING_CHAR,
           t_receiver = r @ replicate (SCI_NAME_LENGTH - length r) SCI_NAME_PADDING_CHAR,
           t_payload = \<lparr>payload_data = replicate 85 0, used_bytes = 0\<rparr>\<rparr>"
  using assms by (simp add: sci_create_base_telegram_def pad_name_fits)

lemma create_base_wf: "sci_create_base_telegram p s r m = Some t \<Longrightarrow> wf_telegram t \<and> zero_tail t"
  by (auto simp: sci_create_base_telegram_def bind_Some_iff wf_telegram_def zero_tail_def
      sci_sizes(4,5) dest!: pad_name_length)

lemma create_base_type [simp]:
  "sci_create_base_telegram p s r m = Some t \<Longrightarrow> sci_get_message_type t = m"
  by (auto simp: sci_create_base_telegram_def bind_Some_iff sci_get_message_type_def)

lemma set_payload_fits:
  "wf_telegram t \<Longrightarrow> length bs \<le> SCI_PAYLOAD_CAPACITY \<Longrightarrow>
   set_payload t bs = Some (t\<lparr>t_payload := \<lparr>payload_data = bs @ drop (length bs) (payload_data (t_payload t)),
                                       used_bytes = length bs\<rparr>\<rparr>)"
  by (simp add: set_payload_def buf_write_def wf_telegram_def)

lemma set_payload_wf: "wf_telegram t \<Longrightarrow> set_payload t bs = Some t' \<Longrightarrow> wf_telegram t'"
  by (auto simp: set_payload_def bind_Some_iff wf_telegram_def buf_write_def split: if_splits)

subsection \<open>Encoding and decoding\<close>

lemma encode_wf:
  assumes "wf_telegram t"
  shows "sci_encode_telegram t =
     Some ([protocol_byte (t_protocol t)] @ t_message_type t @ t_sender t @ t_receiver t @
           take (used_bytes (t_payload t)) (payload_data (t_payload t)))"
  using assms by (simp add: sci_encode_telegram_def wf_telegram_def buf_read_def)

lemma protocol_byte_inj [simp]: "protocol_byte p = protocol_byte q \<longleftrightarrow> p = q"
  by (cases p; cases q) auto

definition telegram_view :: "sci_telegram \<Rightarrow> protocol_type \<times> u8 list \<times> u8 list \<times> u8 list \<times> u8 list" where
  "telegram_view t = (t_protocol t, t_message_type t, t_sender t, t_receiver t,
     take (used_bytes (t_payload t)) (payload_data (t_payload t)))"

lemma decode_parts:
  assumes "length mt = 2" and "length sn = 20" and "length rc = 20"
    and "length pl \<le> 85" and "length junk = 85"
  shows "sci_decode_telegram junk ([protocol_byte p] @ mt @ sn @ rc @ pl) =
     Some \<lparr>t_protocol = p, t_message_type = mt, t_sender = sn, t_receiver = rc,
           t_payload = \<lparr>payload_data = (if pl = [] then replicate 85 0 else pl @ drop (length pl) junk),
                        used_bytes = length pl\<rparr>\<rparr>"
proof -
  have "p = SCI_PROTOCOL_P \<or> p = SCI_PROTOCOL_LS" by (cases p) auto
  then show ?thesis
    using assms by (auto simp: sci_decode_telegram_def sci_sizes Let_def)
qed

lemma decode_encode_view:
  assumes t: "wf_telegram t" and j: "length junk = SCI_PAYLOAD_CAPACITY"
    and e: "sci_encode_telegram t = Some bs"
  shows "\<exists>t'. sci_decode_telegram junk bs = Some t' \<and> telegram_view t' = telegram_view t \<and>
     used_bytes (t_payload t') = used_bytes (t_payload t)"
proof -
  let ?pl = "take (used_bytes (t_payload t)) (payload_data (t_payload t))"
  have len: "length ?pl = used_bytes (t_payload t)" and le: "used_bytes (t_payload t) \<le> 85"
    using t by (simp_all add: wf_telegram_def sci_sizes)
  have bs: "bs = [protocol_byte (t_protocol t)] @ t_message_type t @ t_sender t @ t_receiver t @ ?pl"
    using e by (simp add: encode_wf [OF t])
  show ?thesis
    unfolding bs
    using t j len le
    by (subst decode_parts) (auto simp: wf_telegram_def sci_sizes telegram_view_def)
qed

lemma decode_fields:
  assumes d: "sci_decode_telegram junk bs = Some t" and j: "length junk = SCI_PAYLOAD_CAPACITY"
  shows "wf_telegram t" and "43 \<le> length bs" and "length bs \<le> 128"
    and "used_bytes (t_payload t) = length bs - 43"
    and "take (used_bytes (t_payload t)) (payload_data (t_payload t)) = drop 43 bs"
  using d j
  by (auto simp: sci_decode_telegram_def wf_telegram_def sci_sizes Let_def split: if_splits)

lemma split_at_43:
  assumes "43 \<le> length bs"
  shows "[bs ! 0] @ take 2 (drop 1 bs) @ take 20 (drop 3 bs) @ take 20 (drop 23 bs) @ drop 43 bs = bs"
proof -
  have s1: "bs = take 1 bs @ drop 1 bs" by simp
  have h: "take 1 bs = [bs ! 0]" using assms by (cases bs) auto
  have s2: "drop 1 bs = take 2 (drop 1 bs) @ drop 3 bs"
    using append_take_drop_id [of 2 "drop 1 bs"] by simp
  have s3: "drop 3 bs = take 20 (drop 3 bs) @ drop 23 bs"
    using append_take_drop_id [of 20 "drop 3 bs"] by simp
  have s4: "drop 23 bs = take 20 (drop 23 bs) @ drop 43 bs"
    using append_take_drop_id [of 20 "drop 23 bs"] by simp
  show ?thesis using s1 h s2 s3 s4 by metis
qed

lemma encode_decode:
  assumes d: "sci_decode_telegram junk bs = Some t" and j: "length junk = SCI_PAYLOAD_CAPACITY"
  shows "sci_encode_telegram t = Some bs"
proof -
  note f = decode_fields [OF d j]
  have p: "protocol_byte (t_protocol t) = bs ! 0" and m: "t_message_type t = take 2 (drop 1 bs)"
    and s: "t_sender t = take 20 (drop 3 bs)" and r: "t_receiver t = take 20 (drop 23 bs)"
    using d by (auto simp: sci_decode_telegram_def sci_sizes Let_def split: if_splits)
  show ?thesis
    unfolding encode_wf [OF f(1)] f(5) p m s r
    using split_at_43 [OF f(2)] by simp
qed

text \<open>The telegrams the factory builds (nothing after the used bytes) form a codec.\<close>

lemma zero_tail_split:
  assumes "wf_telegram t" and "zero_tail t"
  shows "payload_data (t_payload t) =
    take (used_bytes (t_payload t)) (payload_data (t_payload t)) @
    replicate (85 - used_bytes (t_payload t)) 0"
proof -
  let ?d = "payload_data (t_payload t)" and ?n = "used_bytes (t_payload t)"
  have "length (drop ?n ?d) = 85 - ?n" using assms by (simp add: wf_telegram_def sci_sizes)
  then have "drop ?n ?d = replicate (85 - ?n) 0"
    using assms(2) by (metis replicate_length_same zero_tail_def)
  then show ?thesis by (metis append_take_drop_id)
qed

interpretation sci_codec: codec sci_encode_telegram
  "\<lambda>w. Option.bind w (sci_decode_telegram (replicate 85 0))" "\<lambda>t. wf_telegram t \<and> zero_tail t"
proof
  fix t assume t: "wf_telegram t \<and> zero_tail t"
  let ?pl = "take (used_bytes (t_payload t)) (payload_data (t_payload t))"
  have len: "length ?pl = used_bytes (t_payload t)" and le: "used_bytes (t_payload t) \<le> 85"
    using t by (simp_all add: wf_telegram_def sci_sizes)
  have tail: "payload_data (t_payload t) = ?pl @ replicate (85 - used_bytes (t_payload t)) 0"
    using t zero_tail_split by blast
  have "sci_decode_telegram (replicate 85 0)
      ([protocol_byte (t_protocol t)] @ t_message_type t @ t_sender t @ t_receiver t @ ?pl) = Some t"
    using t len le tail
    by (subst decode_parts) (auto simp: wf_telegram_def sci_sizes)
  then show "Option.bind (sci_encode_telegram t) (sci_decode_telegram (replicate 85 0)) = Some t"
    using t by (simp add: encode_wf)
qed

end
