(* ===== verification/Ip_Data.thy ===== *)
theory Ip_Data
  imports Prelude
begin

section \<open>Addresses of transport channels (config.h)\<close>

text \<open>An address as the character array of 16 bytes, with the port as the C \<open>int\<close>.\<close>

record RastaIPData =
  ip :: "u8 list"
  port :: int

end
