(* ===== verification/Pdi_Config.thy ===== *)
theory Pdi_Config
  imports Sci Ip_Data
begin

section \<open>Settings of the Cloud IXL from the environment (main.c)\<close>

text \<open>
  The two addresses and ports of the object controller, read from environment variables
  with defaults. The environment is a parameter (\<open>getenv\<close>); \<open>strtoul\<close> with base 10 is
  modelled as the C library defines it on a host with 64-bit \<open>unsigned long\<close>. An address
  is the character array \<open>ip\<close> with its 16 bytes.
\<close>

type_synonym environment = "cstring \<Rightarrow> cstring option"

definition env_or_default :: "environment \<Rightarrow> cstring \<Rightarrow> cstring \<Rightarrow> cstring" where
  "env_or_default getenv env_name default_value =
     (case getenv env_name of
        None \<Rightarrow> default_value
      | Some v \<Rightarrow> if v = [] then default_value else v)"

text \<open>The flag, and the destination afterwards; the copy includes the terminating zero.\<close>

definition read_ip_setting ::
  "environment \<Rightarrow> u8 list \<Rightarrow> nat \<Rightarrow> cstring \<Rightarrow> cstring \<Rightarrow> (bool \<times> u8 list) option" where
  "read_ip_setting getenv destination destination_size env_name default_value =
     (let v = env_or_default getenv env_name default_value
      in if destination_size \<le> strlen v then Some (False, destination)
         else do { d \<leftarrow> buf_write destination 0 (v @ [0]); Some (True, d) })"

subsection \<open>strtoul with base 10\<close>

definition skip_sign :: "u8 list \<Rightarrow> bool \<times> u8 list" where
  "skip_sign s =
     (case s of
        [] \<Rightarrow> (False, [])
      | c # cs \<Rightarrow> if c = 0x2D then (True, cs) else if c = 0x2B then (False, cs) else (False, s))"

record strtoul_result =
  st_value :: nat
  st_end :: "u8 list"  \<comment> \<open>the characters from \<open>end\<close> on\<close>
  st_consumed :: bool  \<comment> \<open>\<open>end != value\<close>\<close>
  st_range :: bool     \<comment> \<open>\<open>errno == ERANGE\<close>\<close>

definition strtoul10 :: "cstring \<Rightarrow> strtoul_result" where
  "strtoul10 s =
     (let (neg, t) = skip_sign (dropWhile is_space s);
          ds = takeWhile is_digit t;
          n = digits_value 0 ds
      in if ds = [] then \<lparr>st_value = 0, st_end = s, st_consumed = False, st_range = False\<rparr>
         else \<lparr>st_value = (if 2 ^ 64 \<le> n then 2 ^ 64 - 1
                           else if neg then (2 ^ 64 - n) mod 2 ^ 64 else n),
               st_end = dropWhile is_digit t, st_consumed = True, st_range = (2 ^ 64 \<le> n)\<rparr>)"

definition read_port_setting ::
  "environment \<Rightarrow> int option \<Rightarrow> cstring \<Rightarrow> int \<Rightarrow> bool \<times> int option" where
  "read_port_setting getenv destination env_name default_value =
     (case destination of
        None \<Rightarrow> (False, None)
      | Some d \<Rightarrow>
          (case getenv env_name of
             None \<Rightarrow> (True, Some default_value)
           | Some v \<Rightarrow>
               if v = [] then (True, Some default_value)
               else
                 let p = strtoul10 v
                 in if st_range p \<or> \<not> st_consumed p \<or> st_end p \<noteq> [] \<or>
                       st_value p = 0 \<or> 65535 < st_value p
                    then (False, Some d)
                    else (True, Some (int (st_value p)))))"

definition DEFAULT_OC_CH1_IP :: cstring where "DEFAULT_OC_CH1_IP = cstr ''192.168.0.152''"
definition DEFAULT_OC_CH1_PORT :: int where "DEFAULT_OC_CH1_PORT = 8888"
definition DEFAULT_OC_CH2_IP :: cstring where "DEFAULT_OC_CH2_IP = cstr ''192.168.0.152''"
definition DEFAULT_OC_CH2_PORT :: int where "DEFAULT_OC_CH2_PORT = 8889"

definition set_ip :: "RastaIPData list \<Rightarrow> nat \<Rightarrow> u8 list \<Rightarrow> RastaIPData list" where
  "set_ip channels i d = channels[i := (channels ! i)\<lparr>ip := d\<rparr>]"

definition set_port :: "RastaIPData list \<Rightarrow> nat \<Rightarrow> int option \<Rightarrow> RastaIPData list" where
  "set_port channels i p = (case p of Some v \<Rightarrow> channels[i := (channels ! i)\<lparr>port := v\<rparr>] | None \<Rightarrow> channels)"

definition configure_oc_channels ::
  "environment \<Rightarrow> RastaIPData list option \<Rightarrow> (bool \<times> RastaIPData list option) option" where
  "configure_oc_channels getenv channels =
     (case channels of
        None \<Rightarrow> Some (False, None)
      | Some c0 \<Rightarrow> do {
          (ok1, d1) \<leftarrow> read_ip_setting getenv (ip (c0 ! 0)) 16 (cstr ''CLOUD_IXL_OC_CH1_IP'') DEFAULT_OC_CH1_IP;
          let c1 = set_ip c0 0 d1
          in if \<not> ok1 then Some (False, Some c1)
             else
               let (ok2, p1) = read_port_setting getenv (Some (port (c1 ! 0)))
                                 (cstr ''CLOUD_IXL_OC_CH1_PORT'') DEFAULT_OC_CH1_PORT;
                   c2 = set_port c1 0 p1
               in if \<not> ok2 then Some (False, Some c2)
                  else do {
                    (ok3, d2) \<leftarrow> read_ip_setting getenv (ip (c2 ! 1)) 16 (cstr ''CLOUD_IXL_OC_CH2_IP'') DEFAULT_OC_CH2_IP;
                    let c3 = set_ip c2 1 d2
                    in if \<not> ok3 then Some (False, Some c3)
                       else
                         let (ok4, p2) = read_port_setting getenv (Some (port (c3 ! 1)))
                                           (cstr ''CLOUD_IXL_OC_CH2_PORT'') DEFAULT_OC_CH2_PORT
                         in Some (ok4, Some (set_port c3 1 p2)) } })"

subsection \<open>Every configured channel is usable\<close>

definition ip_string :: "u8 list \<Rightarrow> cstring" where
  "ip_string d = takeWhile (\<lambda>b. b \<noteq> 0) d"

definition channel_ok :: "RastaIPData \<Rightarrow> bool" where
  "channel_ok c \<longleftrightarrow> length (ip c) = 16 \<and> 0 \<in> set (ip c) \<and> 0 < port c \<and> port c \<le> 65535"

lemma read_ip_total:
  assumes "length d = n"
  shows "\<exists>ok d'. read_ip_setting getenv d n e v = Some (ok, d') \<and> length d' = n \<and>
     (ok \<longrightarrow> 0 \<in> set d') \<and> (\<not> ok \<longrightarrow> d' = d \<and> n \<le> length (env_or_default getenv e v))"
  using assms by (auto simp: read_ip_setting_def Let_def buf_write_def strlen_def)

lemma read_ip_string:
  assumes "length d = n" and "length s < n" and "env_or_default getenv e v = s" and "0 \<notin> set s"
  shows "\<exists>d'. read_ip_setting getenv d n e v = Some (True, d') \<and> length d' = n \<and> ip_string d' = s"
  using assms by (auto simp: read_ip_setting_def Let_def buf_write_def strlen_def ip_string_def
      takeWhile_append takeWhile_eq_all_conv)

lemma read_port_range:
  assumes "0 < v" "v \<le> 65535" and "read_port_setting getenv (Some d) e v = (ok, p)"
  shows "(ok \<longrightarrow> (\<exists>q. p = Some q \<and> 0 < q \<and> q \<le> 65535)) \<and> (\<not> ok \<longrightarrow> p = Some d)"
  using assms by (auto simp: read_port_setting_def Let_def split: option.splits if_splits)

lemma configure_ok:
  assumes c: "length c0 = 2" "length (ip (c0 ! 0)) = 16" "length (ip (c0 ! 1)) = 16"
  shows "\<exists>ok c'. configure_oc_channels getenv (Some c0) = Some (ok, Some c') \<and> length c' = 2 \<and>
    (\<forall>x \<in> set c'. length (ip x) = 16) \<and> (ok \<longrightarrow> (\<forall>x \<in> set c'. channel_ok x))"
proof -
  obtain x0 x1 where c0: "c0 = [x0, x1]" and l: "length (ip x0) = 16" "length (ip x1) = 16"
  proof -
    have "c0 = [c0 ! 0, c0 ! 1]" using c(1) by (intro nth_equalityI) (auto simp: less_2_cases_iff)
    then show ?thesis using that c by blast
  qed
  let ?r1 = "read_ip_setting getenv (ip x0) 16 (cstr ''CLOUD_IXL_OC_CH1_IP'') DEFAULT_OC_CH1_IP"
  let ?r2 = "read_ip_setting getenv (ip x1) 16 (cstr ''CLOUD_IXL_OC_CH2_IP'') DEFAULT_OC_CH2_IP"
  obtain ok1 d1 where r1: "?r1 = Some (ok1, d1)" "length d1 = 16" "ok1 \<longrightarrow> 0 \<in> set d1"
    using read_ip_total [OF l(1)] by metis
  obtain ok3 d2 where r2: "?r2 = Some (ok3, d2)" "length d2 = 16" "ok3 \<longrightarrow> 0 \<in> set d2"
    using read_ip_total [OF l(2)] by metis
  obtain ok2 p1 where p1: "read_port_setting getenv (Some (port x0)) (cstr ''CLOUD_IXL_OC_CH1_PORT'')
      DEFAULT_OC_CH1_PORT = (ok2, p1)" by fastforce
  obtain ok4 p2 where p2: "read_port_setting getenv (Some (port x1)) (cstr ''CLOUD_IXL_OC_CH2_PORT'')
      DEFAULT_OC_CH2_PORT = (ok4, p2)" by fastforce
  note q1 = read_port_range [OF _ _ p1] and q2 = read_port_range [OF _ _ p2]
  have d: "0 < DEFAULT_OC_CH1_PORT" "DEFAULT_OC_CH1_PORT \<le> 65535"
    "0 < DEFAULT_OC_CH2_PORT" "DEFAULT_OC_CH2_PORT \<le> 65535"
    by (simp_all add: DEFAULT_OC_CH1_PORT_def DEFAULT_OC_CH2_PORT_def)
  show ?thesis
    using q1 [OF d(1,2)] q2 [OF d(3,4)] r1 r2 l
    by (cases ok1; cases ok2; cases ok3; cases ok4)
       (auto simp: configure_oc_channels_def c0 p1 p2 set_ip_def set_port_def channel_ok_def)
qed

end
