(* ===== verification/Ixl_Types.thy ===== *)
theory Ixl_Types
  imports Prelude
begin

section \<open>Data of the Cloud IXL (cloud_ixl_types.h, cloud_ixl_routes, cloud_ixl_state)\<close>

text \<open>
  The enumerations of the interlocking, its route table and its state. The counters that
  close an enumeration (\<open>ROUTE_COUNT\<close> and so on) are enumerators of the C type too, so
  they are constructors here; the arrays of the state are lists indexed by the position
  of the enumerator.
\<close>

datatype SectionState = S_FREE | S_OCCUPIED | S_UNKNOWN | S_FAILED

datatype SignalId = LS_01 | SIGNAL_COUNT

datatype PointId = P_01 | POINT_COUNT

datatype SectionId = CV_01 | CV_02 | CV_03 | SECTION_COUNT

datatype RouteId = RUTA_AB | RUTA_AC | ROUTE_COUNT

datatype PointState = LEFT | RIGHT | UNINTENDED | MOVING | NO_END

datatype SignalAspect =
    VIA_LIBRE | PARADA | ANUNCIO_PARADA | ANUNCIO_PRECAUCION | REBASE
  | PARADA_SELECTIVA_N2 | REBASE_AUTORIZADO | APAGADA
  | OTHER_ASPECT nat \<comment> \<open>a value of the enum type that no enumerator names, such as 3 or 8\<close>

datatype SignalLuminosity = SIGNAL_LUMINOSITY_DAY | SIGNAL_LUMINOSITY_NIGHT

datatype RouteState = FREE | WRONG_POINTS | RESERVED | OCCUPIED | REQUESTED | INVALID

datatype RouteDecision = STOP | GO

datatype RouteCommand =
    ROUTE_COMMAND_REQUEST | ROUTE_COMMAND_RELEASE | ROUTE_COMMAND_SIGNAL_ASPECT
  | ROUTE_COMMAND_LUMINOSITY | ROUTE_COMMAND_QUIT

record RouteRequest =
  rr_command :: RouteCommand
  rr_route_id :: RouteId
  rr_aspect :: SignalAspect
  rr_luminosity :: SignalLuminosity

fun section_index :: "SectionId \<Rightarrow> nat" where
  "section_index CV_01 = 0"
| "section_index CV_02 = 1"
| "section_index CV_03 = 2"
| "section_index SECTION_COUNT = 3"

fun point_index :: "PointId \<Rightarrow> nat" where
  "point_index P_01 = 0"
| "point_index POINT_COUNT = 1"

fun signal_index :: "SignalId \<Rightarrow> nat" where
  "signal_index LS_01 = 0"
| "signal_index SIGNAL_COUNT = 1"

fun route_index :: "RouteId \<Rightarrow> nat" where
  "route_index RUTA_AB = 0"
| "route_index RUTA_AC = 1"
| "route_index ROUTE_COUNT = 2"

text \<open>The cast \<open>(RouteId)other_index\<close> of the code, on the indices its loops run over.\<close>

definition route_of_index :: "nat \<Rightarrow> RouteId" where
  "route_of_index i = (if i = 0 then RUTA_AB else if i = 1 then RUTA_AC else ROUTE_COUNT)"

subsection \<open>The route table (cloud_ixl_routes.c)\<close>

record RouteDefinition =
  rd_id :: RouteId
  required_sections :: "SectionId list"
  required_points :: "PointId list"
  required_point_states :: "PointState list"

definition route_definitions :: "RouteDefinition list" where
  "route_definitions =
     [\<lparr>rd_id = RUTA_AB, required_sections = [CV_01, CV_02],
       required_points = [P_01], required_point_states = [LEFT]\<rparr>,
      \<lparr>rd_id = RUTA_AC, required_sections = [CV_01, CV_03],
       required_points = [P_01], required_point_states = [RIGHT]\<rparr>]"

definition cloud_ixl_get_route_definition :: "RouteId \<Rightarrow> RouteDefinition option" where
  "cloud_ixl_get_route_definition r = find (\<lambda>d. rd_id d = r) route_definitions"

subsection \<open>The state (cloud_ixl_state.c)\<close>

record IXL_state =
  ixl_section :: "SectionState list"
  ixl_point :: "PointState list"
  ixl_signal :: "SignalAspect list"
  ixl_route :: "RouteState list"

definition cloud_ixl_state_init :: "IXL_state option \<Rightarrow> IXL_state option" where
  "cloud_ixl_state_init state =
     (case state of
        None \<Rightarrow> None
      | Some _ \<Rightarrow> Some \<lparr>ixl_section = replicate (section_index SECTION_COUNT) S_FREE,
                       ixl_point = replicate (point_index POINT_COUNT) LEFT,
                       ixl_signal = replicate (signal_index SIGNAL_COUNT) PARADA,
                       ixl_route = replicate (route_index ROUTE_COUNT) FREE\<rparr>)"

definition wf_ixl :: "IXL_state \<Rightarrow> bool" where
  "wf_ixl s \<longleftrightarrow> length (ixl_section s) = 3 \<and> length (ixl_point s) = 1 \<and>
     length (ixl_signal s) = 1 \<and> length (ixl_route s) = 2"

lemma state_init_wf: "cloud_ixl_state_init (Some s0) = Some s \<Longrightarrow> wf_ixl s"
  by (auto simp: cloud_ixl_state_init_def wf_ixl_def)

lemma route_definition_cases:
  "cloud_ixl_get_route_definition r = Some d \<Longrightarrow>
     (r = RUTA_AB \<and> d = route_definitions ! 0) \<or> (r = RUTA_AC \<and> d = route_definitions ! 1)"
  by (cases r) (auto simp: cloud_ixl_get_route_definition_def route_definitions_def)

lemma route_definition_simps [simp]:
  "cloud_ixl_get_route_definition RUTA_AB = Some (route_definitions ! 0)"
  "cloud_ixl_get_route_definition RUTA_AC = Some (route_definitions ! 1)"
  "cloud_ixl_get_route_definition ROUTE_COUNT = None"
  by (simp_all add: cloud_ixl_get_route_definition_def route_definitions_def)

text \<open>Every identifier in the table is a real one, and the two point arrays have one length.\<close>

lemma route_table_in_range:
  "d \<in> set route_definitions \<Longrightarrow>
     (\<forall>c \<in> set (required_sections d). section_index c < 3) \<and>
     (\<forall>p \<in> set (required_points d). point_index p < 1) \<and>
     length (required_point_states d) = length (required_points d) \<and>
     length (required_sections d) \<le> 8 \<and> length (required_points d) \<le> 8"
  by (auto simp: route_definitions_def)

end
