(* ===== verification/Sci_Ls_Icd.thy ===== *)
theory Sci_Ls_Icd
  imports Sci
begin

section \<open>The project's SCI-LS interface contract (sci_ls_icd.h, sci_ls_icd.c)\<close>

text \<open>
  The validating constructors and parsers of the light-signal telegrams. A pointer
  argument is an \<open>option\<close>: \<open>None\<close> is \<open>NULL\<close>, \<open>Some v\<close> points to the value \<open>v\<close>; an out
  parameter is returned with the value it has after the call. The outer \<open>option\<close> of a
  constructor is undefined behaviour of the calls it makes, the inner one the \<open>NULL\<close> the
  code returns.
\<close>

definition SCI_LS_ICD_SIGNAL_ASPECT_PAYLOAD_SIZE :: nat where
  "SCI_LS_ICD_SIGNAL_ASPECT_PAYLOAD_SIZE = 18"
definition SCI_LS_ICD_VERSION_RESPONSE_PAYLOAD_SIZE :: nat where
  "SCI_LS_ICD_VERSION_RESPONSE_PAYLOAD_SIZE = 3"
definition SCI_LS_ICD_LUMINOSITY_COMMAND_PAYLOAD_SIZE :: nat where
  "SCI_LS_ICD_LUMINOSITY_COMMAND_PAYLOAD_SIZE = 1"
definition SCI_LS_ICD_LUMINOSITY_STATUS_PAYLOAD_SIZE :: nat where
  "SCI_LS_ICD_LUMINOSITY_STATUS_PAYLOAD_SIZE = 1"
definition SCI_LS_ICD_EXECUTION_ERROR_PAYLOAD_SIZE :: nat where
  "SCI_LS_ICD_EXECUTION_ERROR_PAYLOAD_SIZE = 1 + SCI_LS_ICD_SIGNAL_ASPECT_PAYLOAD_SIZE"

lemmas icd_sizes = SCI_LS_ICD_SIGNAL_ASPECT_PAYLOAD_SIZE_def
  SCI_LS_ICD_VERSION_RESPONSE_PAYLOAD_SIZE_def SCI_LS_ICD_LUMINOSITY_COMMAND_PAYLOAD_SIZE_def
  SCI_LS_ICD_LUMINOSITY_STATUS_PAYLOAD_SIZE_def SCI_LS_ICD_EXECUTION_ERROR_PAYLOAD_SIZE_def

definition SCI_LS_ICD_MESSAGE_TYPE_SHOW_SIGNAL_ASPECT :: u16 where
  "SCI_LS_ICD_MESSAGE_TYPE_SHOW_SIGNAL_ASPECT = 0x0100"
definition SCI_LS_ICD_MESSAGE_TYPE_CHANGE_LUMINOSITY :: u16 where
  "SCI_LS_ICD_MESSAGE_TYPE_CHANGE_LUMINOSITY = 0x0200"
definition SCI_LS_ICD_MESSAGE_TYPE_SIGNAL_ASPECT_STATUS :: u16 where
  "SCI_LS_ICD_MESSAGE_TYPE_SIGNAL_ASPECT_STATUS = 0x0300"
definition SCI_LS_ICD_MESSAGE_TYPE_LUMINOSITY_STATUS :: u16 where
  "SCI_LS_ICD_MESSAGE_TYPE_LUMINOSITY_STATUS = 0x0400"
definition SCI_LS_ICD_MESSAGE_TYPE_EXECUTION_ERROR :: u16 where
  "SCI_LS_ICD_MESSAGE_TYPE_EXECUTION_ERROR = 0x0700"

lemmas icd_message_types = SCI_LS_ICD_MESSAGE_TYPE_SHOW_SIGNAL_ASPECT_def
  SCI_LS_ICD_MESSAGE_TYPE_CHANGE_LUMINOSITY_def SCI_LS_ICD_MESSAGE_TYPE_SIGNAL_ASPECT_STATUS_def
  SCI_LS_ICD_MESSAGE_TYPE_LUMINOSITY_STATUS_def SCI_LS_ICD_MESSAGE_TYPE_EXECUTION_ERROR_def

definition SCI_LS_ICD_LUMINOSITY_DAY :: u8 where "SCI_LS_ICD_LUMINOSITY_DAY = 0x01"
definition SCI_LS_ICD_LUMINOSITY_NIGHT :: u8 where "SCI_LS_ICD_LUMINOSITY_NIGHT = 0x02"
definition SCI_LS_ICD_EXECUTION_ERROR_LAMP_FAILURE :: u8 where
  "SCI_LS_ICD_EXECUTION_ERROR_LAMP_FAILURE = 0x01"
definition SCI_LS_ICD_EXECUTION_ERROR_UNKNOWN_SIGNAL_VECTOR :: u8 where
  "SCI_LS_ICD_EXECUTION_ERROR_UNKNOWN_SIGNAL_VECTOR = 0x02"
definition SCI_LS_ICD_EXECUTION_ERROR_INVALID_HEADER_RECEIVER_OR_TYPE :: u8 where
  "SCI_LS_ICD_EXECUTION_ERROR_INVALID_HEADER_RECEIVER_OR_TYPE = 0x03"
definition SCI_LS_ICD_EXECUTION_ERROR_INVALID_LUMINOSITY :: u8 where
  "SCI_LS_ICD_EXECUTION_ERROR_INVALID_LUMINOSITY = 0x04"

datatype sci_ls_icd_parse_result =
    SCI_LS_ICD_PARSE_SUCCESS
  | SCI_LS_ICD_PARSE_INVALID_ARGUMENT
  | SCI_LS_ICD_PARSE_INVALID_PROTOCOL
  | SCI_LS_ICD_PARSE_INVALID_MESSAGE_TYPE
  | SCI_LS_ICD_PARSE_INVALID_PAYLOAD_LENGTH
  | SCI_LS_ICD_PARSE_INVALID_RESULT

record sci_ls_icd_version_response =
  requested_version :: u8
  supported_version :: u8
  icd_result :: sci_version_check_result

record sci_ls_icd_execution_error =
  error_code :: u8
  current_signal_aspect_payload :: "u8 list"

subsection \<open>Validation\<close>

definition is_valid_sci_name :: "cstring option \<Rightarrow> bool" where
  "is_valid_sci_name name =
     (case name of None \<Rightarrow> False | Some n \<Rightarrow> n \<noteq> [] \<and> strlen n \<le> SCI_NAME_LENGTH)"

definition is_icd_version_result :: "sci_version_check_result \<Rightarrow> bool" where
  "is_icd_version_result r \<longleftrightarrow>
     r = SCI_VERSION_CHECK_RESULT_VERSIONS_ARE_NOT_EQUAL \<or>
     r = SCI_VERSION_CHECK_RESULT_VERSIONS_ARE_EQUAL"

definition is_icd_luminosity :: "u8 \<Rightarrow> bool" where
  "is_icd_luminosity l \<longleftrightarrow> l = SCI_LS_ICD_LUMINOSITY_DAY \<or> l = SCI_LS_ICD_LUMINOSITY_NIGHT"

definition is_icd_execution_error_code :: "u8 \<Rightarrow> bool" where
  "is_icd_execution_error_code c \<longleftrightarrow>
     c = SCI_LS_ICD_EXECUTION_ERROR_LAMP_FAILURE \<or>
     c = SCI_LS_ICD_EXECUTION_ERROR_UNKNOWN_SIGNAL_VECTOR \<or>
     c = SCI_LS_ICD_EXECUTION_ERROR_INVALID_HEADER_RECEIVER_OR_TYPE \<or>
     c = SCI_LS_ICD_EXECUTION_ERROR_INVALID_LUMINOSITY"

subsection \<open>Parsers\<close>

definition sci_ls_icd_parse_signal_aspect_status ::
  "sci_telegram option \<Rightarrow> u8 list option \<Rightarrow> (sci_ls_icd_parse_result \<times> u8 list option) option" where
  "sci_ls_icd_parse_signal_aspect_status telegram payload =
     (case (telegram, payload) of
        (Some t, Some out) \<Rightarrow>
          if t_protocol t \<noteq> SCI_PROTOCOL_LS then Some (SCI_LS_ICD_PARSE_INVALID_PROTOCOL, payload)
          else if sci_get_message_type t \<noteq> SCI_LS_ICD_MESSAGE_TYPE_SIGNAL_ASPECT_STATUS
          then Some (SCI_LS_ICD_PARSE_INVALID_MESSAGE_TYPE, payload)
          else if used_bytes (t_payload t) \<noteq> SCI_LS_ICD_SIGNAL_ASPECT_PAYLOAD_SIZE
          then Some (SCI_LS_ICD_PARSE_INVALID_PAYLOAD_LENGTH, payload)
          else do {
            bs \<leftarrow> buf_read (payload_data (t_payload t)) 0 SCI_LS_ICD_SIGNAL_ASPECT_PAYLOAD_SIZE;
            out' \<leftarrow> buf_write out 0 bs;
            Some (SCI_LS_ICD_PARSE_SUCCESS, Some out') }
      | _ \<Rightarrow> Some (SCI_LS_ICD_PARSE_INVALID_ARGUMENT, payload))"

definition sci_ls_icd_parse_luminosity_status ::
  "sci_telegram option \<Rightarrow> u8 option \<Rightarrow> (sci_ls_icd_parse_result \<times> u8 option) option" where
  "sci_ls_icd_parse_luminosity_status telegram luminosity =
     (case (telegram, luminosity) of
        (Some t, Some out) \<Rightarrow>
          if t_protocol t \<noteq> SCI_PROTOCOL_LS then Some (SCI_LS_ICD_PARSE_INVALID_PROTOCOL, luminosity)
          else if sci_get_message_type t \<noteq> SCI_LS_ICD_MESSAGE_TYPE_LUMINOSITY_STATUS
          then Some (SCI_LS_ICD_PARSE_INVALID_MESSAGE_TYPE, luminosity)
          else if used_bytes (t_payload t) \<noteq> SCI_LS_ICD_LUMINOSITY_STATUS_PAYLOAD_SIZE
          then Some (SCI_LS_ICD_PARSE_INVALID_PAYLOAD_LENGTH, luminosity)
          else do {
            b \<leftarrow> buf_get (payload_data (t_payload t)) 0;
            if \<not> is_icd_luminosity b then Some (SCI_LS_ICD_PARSE_INVALID_RESULT, luminosity)
            else Some (SCI_LS_ICD_PARSE_SUCCESS, Some b) }
      | _ \<Rightarrow> Some (SCI_LS_ICD_PARSE_INVALID_ARGUMENT, luminosity))"

definition sci_ls_icd_parse_execution_error ::
  "sci_telegram option \<Rightarrow> sci_ls_icd_execution_error option \<Rightarrow>
   (sci_ls_icd_parse_result \<times> sci_ls_icd_execution_error option) option" where
  "sci_ls_icd_parse_execution_error telegram error =
     (case (telegram, error) of
        (Some t, Some out) \<Rightarrow>
          if t_protocol t \<noteq> SCI_PROTOCOL_LS then Some (SCI_LS_ICD_PARSE_INVALID_PROTOCOL, error)
          else if sci_get_message_type t \<noteq> SCI_LS_ICD_MESSAGE_TYPE_EXECUTION_ERROR
          then Some (SCI_LS_ICD_PARSE_INVALID_MESSAGE_TYPE, error)
          else if used_bytes (t_payload t) \<noteq> SCI_LS_ICD_EXECUTION_ERROR_PAYLOAD_SIZE
          then Some (SCI_LS_ICD_PARSE_INVALID_PAYLOAD_LENGTH, error)
          else do {
            c \<leftarrow> buf_get (payload_data (t_payload t)) 0;
            if \<not> is_icd_execution_error_code c then Some (SCI_LS_ICD_PARSE_INVALID_RESULT, error)
            else do {
              bs \<leftarrow> buf_read (payload_data (t_payload t)) 1 SCI_LS_ICD_SIGNAL_ASPECT_PAYLOAD_SIZE;
              p \<leftarrow> buf_write (current_signal_aspect_payload out) 0 bs;
              Some (SCI_LS_ICD_PARSE_SUCCESS,
                    Some (out\<lparr>error_code := c, current_signal_aspect_payload := p\<rparr>)) } }
      | _ \<Rightarrow> Some (SCI_LS_ICD_PARSE_INVALID_ARGUMENT, error))"

definition sci_ls_icd_parse_version_response ::
  "sci_telegram option \<Rightarrow> sci_ls_icd_version_response option \<Rightarrow>
   (sci_ls_icd_parse_result \<times> sci_ls_icd_version_response option) option" where
  "sci_ls_icd_parse_version_response telegram response =
     (case (telegram, response) of
        (Some t, Some out) \<Rightarrow>
          if t_protocol t \<noteq> SCI_PROTOCOL_LS then Some (SCI_LS_ICD_PARSE_INVALID_PROTOCOL, response)
          else if sci_get_message_type t \<noteq> SCI_MESSAGE_TYPE_VERSION_RESPONSE
          then Some (SCI_LS_ICD_PARSE_INVALID_MESSAGE_TYPE, response)
          else if used_bytes (t_payload t) \<noteq> SCI_LS_ICD_VERSION_RESPONSE_PAYLOAD_SIZE
          then Some (SCI_LS_ICD_PARSE_INVALID_PAYLOAD_LENGTH, response)
          else do {
            r \<leftarrow> buf_get (payload_data (t_payload t)) 2;
            let result = version_check_of_byte r
            in if \<not> is_icd_version_result result then Some (SCI_LS_ICD_PARSE_INVALID_RESULT, response)
               else do {
                 rq \<leftarrow> buf_get (payload_data (t_payload t)) 0;
                 sv \<leftarrow> buf_get (payload_data (t_payload t)) 1;
                 Some (SCI_LS_ICD_PARSE_SUCCESS,
                       Some (out\<lparr>requested_version := rq, supported_version := sv,
                                 icd_result := result\<rparr>)) } }
      | _ \<Rightarrow> Some (SCI_LS_ICD_PARSE_INVALID_ARGUMENT, response))"

subsection \<open>Constructors\<close>

definition sci_ls_icd_create_luminosity_command ::
  "cstring option \<Rightarrow> cstring option \<Rightarrow> u8 \<Rightarrow> sci_telegram option option" where
  "sci_ls_icd_create_luminosity_command s r luminosity =
     (if \<not> is_valid_sci_name s \<or> \<not> is_valid_sci_name r \<or> \<not> is_icd_luminosity luminosity
      then Some None
      else do {
        t \<leftarrow> sci_create_base_telegram SCI_PROTOCOL_LS (the s) (the r)
               SCI_LS_ICD_MESSAGE_TYPE_CHANGE_LUMINOSITY;
        t' \<leftarrow> set_payload t [luminosity];
        Some (Some t') })"

definition sci_ls_icd_create_version_response ::
  "cstring option \<Rightarrow> cstring option \<Rightarrow> u8 \<Rightarrow> u8 \<Rightarrow> sci_version_check_result \<Rightarrow>
   sci_telegram option option" where
  "sci_ls_icd_create_version_response s r requested supported result =
     (if \<not> is_valid_sci_name s \<or> \<not> is_valid_sci_name r \<or> \<not> is_icd_version_result result
      then Some None
      else do {
        t \<leftarrow> sci_create_base_telegram SCI_PROTOCOL_LS (the s) (the r)
               SCI_MESSAGE_TYPE_VERSION_RESPONSE;
        t' \<leftarrow> set_payload t [requested, supported, version_check_byte result];
        Some (Some t') })"

subsection \<open>Every parser: defined on well-formed telegrams, silent on failure\<close>

lemma buf_write_full:
  "length out = length bs \<Longrightarrow> buf_write out 0 bs = Some bs"
  by (simp add: buf_write_def)

lemmas wf_payload = wf_telegram_def sci_sizes

lemma parse_aspect_total:
  assumes "wf_telegram t" and "length out = 18"
  shows "sci_ls_icd_parse_signal_aspect_status (Some t) (Some out) =
    Some (if t_protocol t \<noteq> SCI_PROTOCOL_LS then (SCI_LS_ICD_PARSE_INVALID_PROTOCOL, Some out)
      else if sci_get_message_type t \<noteq> SCI_LS_ICD_MESSAGE_TYPE_SIGNAL_ASPECT_STATUS
      then (SCI_LS_ICD_PARSE_INVALID_MESSAGE_TYPE, Some out)
      else if used_bytes (t_payload t) \<noteq> 18 then (SCI_LS_ICD_PARSE_INVALID_PAYLOAD_LENGTH, Some out)
      else (SCI_LS_ICD_PARSE_SUCCESS, Some (take 18 (payload_data (t_payload t)))))"
  using assms
  by (simp add: sci_ls_icd_parse_signal_aspect_status_def wf_payload icd_sizes buf_read_def buf_write_full)

lemma parse_luminosity_total:
  assumes "wf_telegram t"
  shows "sci_ls_icd_parse_luminosity_status (Some t) (Some out) =
    Some (if t_protocol t \<noteq> SCI_PROTOCOL_LS then (SCI_LS_ICD_PARSE_INVALID_PROTOCOL, Some out)
      else if sci_get_message_type t \<noteq> SCI_LS_ICD_MESSAGE_TYPE_LUMINOSITY_STATUS
      then (SCI_LS_ICD_PARSE_INVALID_MESSAGE_TYPE, Some out)
      else if used_bytes (t_payload t) \<noteq> 1 then (SCI_LS_ICD_PARSE_INVALID_PAYLOAD_LENGTH, Some out)
      else if \<not> is_icd_luminosity (payload_data (t_payload t) ! 0)
      then (SCI_LS_ICD_PARSE_INVALID_RESULT, Some out)
      else (SCI_LS_ICD_PARSE_SUCCESS, Some (payload_data (t_payload t) ! 0)))"
  using assms
  by (simp add: sci_ls_icd_parse_luminosity_status_def wf_payload icd_sizes buf_get_def)

lemma parse_error_total:
  assumes "wf_telegram t" and "length (current_signal_aspect_payload out) = 18"
  shows "sci_ls_icd_parse_execution_error (Some t) (Some out) =
    Some (if t_protocol t \<noteq> SCI_PROTOCOL_LS then (SCI_LS_ICD_PARSE_INVALID_PROTOCOL, Some out)
      else if sci_get_message_type t \<noteq> SCI_LS_ICD_MESSAGE_TYPE_EXECUTION_ERROR
      then (SCI_LS_ICD_PARSE_INVALID_MESSAGE_TYPE, Some out)
      else if used_bytes (t_payload t) \<noteq> 19 then (SCI_LS_ICD_PARSE_INVALID_PAYLOAD_LENGTH, Some out)
      else if \<not> is_icd_execution_error_code (payload_data (t_payload t) ! 0)
      then (SCI_LS_ICD_PARSE_INVALID_RESULT, Some out)
      else (SCI_LS_ICD_PARSE_SUCCESS,
            Some (out\<lparr>error_code := payload_data (t_payload t) ! 0,
                      current_signal_aspect_payload := take 18 (drop 1 (payload_data (t_payload t)))\<rparr>)))"
  using assms
  by (simp add: sci_ls_icd_parse_execution_error_def wf_payload icd_sizes buf_get_def buf_read_def
      buf_write_full)

lemma parse_version_total:
  assumes "wf_telegram t"
  shows "sci_ls_icd_parse_version_response (Some t) (Some out) =
    Some (if t_protocol t \<noteq> SCI_PROTOCOL_LS then (SCI_LS_ICD_PARSE_INVALID_PROTOCOL, Some out)
      else if sci_get_message_type t \<noteq> SCI_MESSAGE_TYPE_VERSION_RESPONSE
      then (SCI_LS_ICD_PARSE_INVALID_MESSAGE_TYPE, Some out)
      else if used_bytes (t_payload t) \<noteq> 3 then (SCI_LS_ICD_PARSE_INVALID_PAYLOAD_LENGTH, Some out)
      else if \<not> is_icd_version_result (version_check_of_byte (payload_data (t_payload t) ! 2))
      then (SCI_LS_ICD_PARSE_INVALID_RESULT, Some out)
      else (SCI_LS_ICD_PARSE_SUCCESS,
            Some (out\<lparr>requested_version := payload_data (t_payload t) ! 0,
                      supported_version := payload_data (t_payload t) ! 1,
                      icd_result := version_check_of_byte (payload_data (t_payload t) ! 2)\<rparr>)))"
  using assms
  by (simp add: sci_ls_icd_parse_version_response_def wf_payload icd_sizes buf_get_def Let_def)

lemmas parse_totals = parse_aspect_total parse_luminosity_total parse_error_total parse_version_total

lemma version_byte_of_result:
  "is_icd_version_result r \<Longrightarrow> version_check_of_byte (version_check_byte r) = r"
  by (auto simp: is_icd_version_result_def version_check_of_byte_def)

subsection \<open>What is built is what is parsed\<close>

lemma valid_name_fits: "is_valid_sci_name s \<Longrightarrow> \<exists>n. s = Some n \<and> length n \<le> SCI_NAME_LENGTH"
  by (auto simp: is_valid_sci_name_def strlen_def split: option.splits)

lemma base_telegram_payload:
  assumes "is_valid_sci_name s" and "is_valid_sci_name r" and "length bs \<le> 85"
  shows "\<exists>t t'. sci_create_base_telegram p (the s) (the r) m = Some t \<and> set_payload t bs = Some t' \<and>
     wf_telegram t' \<and> t_protocol t' = p \<and> sci_get_message_type t' = m \<and>
     used_bytes (t_payload t') = length bs \<and>
     take (length bs) (payload_data (t_payload t')) = bs \<and> zero_tail t'"
proof -
  obtain n1 n2 where n: "s = Some n1" "r = Some n2" and l: "length n1 \<le> SCI_NAME_LENGTH"
    "length n2 \<le> SCI_NAME_LENGTH"
    using assms valid_name_fits by blast
  let ?t = "\<lparr>t_protocol = p, t_message_type = shortToBytes m,
           t_sender = n1 @ replicate (SCI_NAME_LENGTH - length n1) SCI_NAME_PADDING_CHAR,
           t_receiver = n2 @ replicate (SCI_NAME_LENGTH - length n2) SCI_NAME_PADDING_CHAR,
           t_payload = \<lparr>payload_data = replicate 85 0, used_bytes = 0\<rparr>\<rparr>"
  have c: "sci_create_base_telegram p (the s) (the r) m = Some ?t"
    using create_base_fits [OF l] n by simp
  have w: "wf_telegram ?t" using create_base_wf [OF c] by simp
  have b: "length bs \<le> SCI_PAYLOAD_CAPACITY" using assms(3) by (simp add: sci_sizes)
  show ?thesis
    using c set_payload_fits [OF w b] set_payload_wf [OF w set_payload_fits [OF w b]]
    by (auto simp: sci_get_message_type_def zero_tail_def)
qed

end
