(* ===== verification/Hashmap.thy ===== *)
theory Hashmap
  imports Sci
begin

section \<open>The name registry (hashmap.h, hashmap.c)\<close>

text \<open>
  The open-addressing hash table that maps SCI names to RaSTA identifiers. A slot is
  \<open>None\<close> when \<open>in_use\<close> is 0 and holds the key and the value otherwise. The C code probes
  at most eight slots from the hash of the key and doubles the table when it finds no
  place; the number of doublings the allocator serves in a row is the fuel of
  \<open>hashmap_put\<close>, and running out of it is the \<open>MAP_OMEM\<close> of the code. The interface
  \<open>registry\<close> states what the SCI-LS layer relies on, and the table is an instance of it.
\<close>

datatype map_status = MAP_MISSING | MAP_FULL | MAP_OMEM | MAP_OK

definition INITIAL_SIZE :: nat where "INITIAL_SIZE = 256"
definition MAX_CHAIN_LENGTH :: nat where "MAX_CHAIN_LENGTH = 8"

record 'v hashmap_map =
  table_size :: nat
  hm_size :: nat
  hm_data :: "(cstring \<times> 'v) option list"

definition hashmap_new :: "'v hashmap_map" where
  "hashmap_new = \<lparr>table_size = INITIAL_SIZE, hm_size = 0, hm_data = replicate INITIAL_SIZE None\<rparr>"

definition rastac_crc32_tab :: "u64 list" where
  "rastac_crc32_tab = [
   0x00000000, 0x77073096, 0xee0e612c, 0x990951ba, 0x076dc419, 0x706af48f, 0xe963a535, 0x9e6495a3,
   0x0edb8832, 0x79dcb8a4, 0xe0d5e91e, 0x97d2d988, 0x09b64c2b, 0x7eb17cbd, 0xe7b82d07, 0x90bf1d91,
   0x1db71064, 0x6ab020f2, 0xf3b97148, 0x84be41de, 0x1adad47d, 0x6ddde4eb, 0xf4d4b551, 0x83d385c7,
   0x136c9856, 0x646ba8c0, 0xfd62f97a, 0x8a65c9ec, 0x14015c4f, 0x63066cd9, 0xfa0f3d63, 0x8d080df5,
   0x3b6e20c8, 0x4c69105e, 0xd56041e4, 0xa2677172, 0x3c03e4d1, 0x4b04d447, 0xd20d85fd, 0xa50ab56b,
   0x35b5a8fa, 0x42b2986c, 0xdbbbc9d6, 0xacbcf940, 0x32d86ce3, 0x45df5c75, 0xdcd60dcf, 0xabd13d59,
   0x26d930ac, 0x51de003a, 0xc8d75180, 0xbfd06116, 0x21b4f4b5, 0x56b3c423, 0xcfba9599, 0xb8bda50f,
   0x2802b89e, 0x5f058808, 0xc60cd9b2, 0xb10be924, 0x2f6f7c87, 0x58684c11, 0xc1611dab, 0xb6662d3d,
   0x76dc4190, 0x01db7106, 0x98d220bc, 0xefd5102a, 0x71b18589, 0x06b6b51f, 0x9fbfe4a5, 0xe8b8d433,
   0x7807c9a2, 0x0f00f934, 0x9609a88e, 0xe10e9818, 0x7f6a0dbb, 0x086d3d2d, 0x91646c97, 0xe6635c01,
   0x6b6b51f4, 0x1c6c6162, 0x856530d8, 0xf262004e, 0x6c0695ed, 0x1b01a57b, 0x8208f4c1, 0xf50fc457,
   0x65b0d9c6, 0x12b7e950, 0x8bbeb8ea, 0xfcb9887c, 0x62dd1ddf, 0x15da2d49, 0x8cd37cf3, 0xfbd44c65,
   0x4db26158, 0x3ab551ce, 0xa3bc0074, 0xd4bb30e2, 0x4adfa541, 0x3dd895d7, 0xa4d1c46d, 0xd3d6f4fb,
   0x4369e96a, 0x346ed9fc, 0xad678846, 0xda60b8d0, 0x44042d73, 0x33031de5, 0xaa0a4c5f, 0xdd0d7cc9,
   0x5005713c, 0x270241aa, 0xbe0b1010, 0xc90c2086, 0x5768b525, 0x206f85b3, 0xb966d409, 0xce61e49f,
   0x5edef90e, 0x29d9c998, 0xb0d09822, 0xc7d7a8b4, 0x59b33d17, 0x2eb40d81, 0xb7bd5c3b, 0xc0ba6cad,
   0xedb88320, 0x9abfb3b6, 0x03b6e20c, 0x74b1d29a, 0xead54739, 0x9dd277af, 0x04db2615, 0x73dc1683,
   0xe3630b12, 0x94643b84, 0x0d6d6a3e, 0x7a6a5aa8, 0xe40ecf0b, 0x9309ff9d, 0x0a00ae27, 0x7d079eb1,
   0xf00f9344, 0x8708a3d2, 0x1e01f268, 0x6906c2fe, 0xf762575d, 0x806567cb, 0x196c3671, 0x6e6b06e7,
   0xfed41b76, 0x89d32be0, 0x10da7a5a, 0x67dd4acc, 0xf9b9df6f, 0x8ebeeff9, 0x17b7be43, 0x60b08ed5,
   0xd6d6a3e8, 0xa1d1937e, 0x38d8c2c4, 0x4fdff252, 0xd1bb67f1, 0xa6bc5767, 0x3fb506dd, 0x48b2364b,
   0xd80d2bda, 0xaf0a1b4c, 0x36034af6, 0x41047a60, 0xdf60efc3, 0xa867df55, 0x316e8eef, 0x4669be79,
   0xcb61b38c, 0xbc66831a, 0x256fd2a0, 0x5268e236, 0xcc0c7795, 0xbb0b4703, 0x220216b9, 0x5505262f,
   0xc5ba3bbe, 0xb2bd0b28, 0x2bb45a92, 0x5cb36a04, 0xc2d7ffa7, 0xb5d0cf31, 0x2cd99e8b, 0x5bdeae1d,
   0x9b64c2b0, 0xec63f226, 0x756aa39c, 0x026d930a, 0x9c0906a9, 0xeb0e363f, 0x72076785, 0x05005713,
   0x95bf4a82, 0xe2b87a14, 0x7bb12bae, 0x0cb61b38, 0x92d28e9b, 0xe5d5be0d, 0x7cdcefb7, 0x0bdbdf21,
   0x86d3d2d4, 0xf1d4e242, 0x68ddb3f8, 0x1fda836e, 0x81be16cd, 0xf6b9265b, 0x6fb077e1, 0x18b74777,
   0x88085ae6, 0xff0f6a70, 0x66063bca, 0x11010b5c, 0x8f659eff, 0xf862ae69, 0x616bffd3, 0x166ccf45,
   0xa00ae278, 0xd70dd2ee, 0x4e048354, 0x3903b3c2, 0xa7672661, 0xd06016f7, 0x4969474d, 0x3e6e77db,
   0xaed16a4a, 0xd9d65adc, 0x40df0b66, 0x37d83bf0, 0xa9bcae53, 0xdebb9ec5, 0x47b2cf7f, 0x30b5ffe9,
   0xbdbdf21c, 0xcabac28a, 0x53b39330, 0x24b4a3a6, 0xbad03605, 0xcdd70693, 0x54de5729, 0x23d967bf,
   0xb3667a2e, 0xc4614ab8, 0x5d681b02, 0x2a6f2b94, 0xb40bbe37, 0xc30c8ea1, 0x5a05df1b, 0x2d02ef8d]"

fun crc32_loop :: "u64 \<Rightarrow> u8 list \<Rightarrow> u64" where
  "crc32_loop v [] = v"
| "crc32_loop v (b # bs) =
     crc32_loop (rastac_crc32_tab ! unat ((v XOR ucast b) AND 0xff) XOR drop_bit 8 v) bs"

definition rastac_crc32 :: "u8 list \<Rightarrow> u64" where
  "rastac_crc32 s = crc32_loop 0 s"

definition hashmap_hash_int :: "'v hashmap_map \<Rightarrow> cstring \<Rightarrow> nat" where
  "hashmap_hash_int m keystring =
     (let key = rastac_crc32 keystring;
          key = key + push_bit 12 key;
          key = key XOR drop_bit 22 key;
          key = key + push_bit 4 key;
          key = key XOR drop_bit 9 key;
          key = key + push_bit 10 key;
          key = key XOR drop_bit 2 key;
          key = key + push_bit 7 key;
          key = key XOR drop_bit 12 key;
          key = drop_bit 3 key * 2654435761
      in unat key mod table_size m)"

fun probe_free :: "'v hashmap_map \<Rightarrow> cstring \<Rightarrow> nat \<Rightarrow> nat \<Rightarrow> nat option" where
  "probe_free m key pos 0 = None"
| "probe_free m key pos (Suc n) =
     (case hm_data m ! pos of
        None \<Rightarrow> Some pos
      | Some (k, _) \<Rightarrow> if k = key then Some pos
                      else probe_free m key ((pos + 1) mod table_size m) n)"

fun probe_get :: "'v hashmap_map \<Rightarrow> cstring \<Rightarrow> nat \<Rightarrow> nat \<Rightarrow> 'v option" where
  "probe_get m key pos 0 = None"
| "probe_get m key pos (Suc n) =
     (case hm_data m ! pos of
        Some (k, v) \<Rightarrow> if k = key then Some v
                       else probe_get m key ((pos + 1) mod table_size m) n
      | None \<Rightarrow> probe_get m key ((pos + 1) mod table_size m) n)"

text \<open>The index of the slot for a key; \<open>None\<close> is \<open>MAP_FULL\<close>.\<close>

definition hashmap_hash :: "'v hashmap_map \<Rightarrow> cstring \<Rightarrow> nat option" where
  "hashmap_hash m key =
     (if table_size m div 2 \<le> hm_size m then None
      else probe_free m key (hashmap_hash_int m key) MAX_CHAIN_LENGTH)"

definition store_at :: "'v hashmap_map \<Rightarrow> nat \<Rightarrow> cstring \<Rightarrow> 'v \<Rightarrow> 'v hashmap_map" where
  "store_at m i key v = m\<lparr>hm_data := (hm_data m)[i := Some (key, v)], hm_size := hm_size m + 1\<rparr>"

text \<open>\<open>hashmap_rehash\<close>: every element of the old table is put into one of twice the size.\<close>

fun rehash_loop ::
  "('v hashmap_map \<Rightarrow> cstring \<Rightarrow> 'v \<Rightarrow> map_status \<times> 'v hashmap_map) \<Rightarrow> 'v hashmap_map \<Rightarrow>
   (cstring \<times> 'v) option list \<Rightarrow> map_status \<times> 'v hashmap_map" where
  "rehash_loop put m [] = (MAP_OK, m)"
| "rehash_loop put m (None # es) = rehash_loop put m es"
| "rehash_loop put m (Some (k, v) # es) =
     (case put m k v of
        (MAP_OK, m') \<Rightarrow> rehash_loop put m' es
      | (status, m') \<Rightarrow> (status, m'))"

definition doubled_table :: "'v hashmap_map \<Rightarrow> 'v hashmap_map" where
  "doubled_table m = \<lparr>table_size = 2 * table_size m, hm_size = 0,
                      hm_data = replicate (2 * table_size m) None\<rparr>"

fun hashmap_put :: "nat \<Rightarrow> 'v hashmap_map \<Rightarrow> cstring \<Rightarrow> 'v \<Rightarrow> map_status \<times> 'v hashmap_map" where
  "hashmap_put 0 m key v =
     (case hashmap_hash m key of
        Some i \<Rightarrow> (MAP_OK, store_at m i key v)
      | None \<Rightarrow> (MAP_OMEM, m))"
| "hashmap_put (Suc mem) m key v =
     (case hashmap_hash m key of
        Some i \<Rightarrow> (MAP_OK, store_at m i key v)
      | None \<Rightarrow>
          (case rehash_loop (hashmap_put mem) (doubled_table m) (hm_data m) of
             (MAP_OK, m') \<Rightarrow> hashmap_put mem m' key v
           | (status, m') \<Rightarrow> (status, m')))"

definition hashmap_get :: "'v hashmap_map \<Rightarrow> cstring \<Rightarrow> map_status \<times> 'v option" where
  "hashmap_get m key =
     (case probe_get m key (hashmap_hash_int m key) MAX_CHAIN_LENGTH of
        Some v \<Rightarrow> (MAP_OK, Some v)
      | None \<Rightarrow> (MAP_MISSING, None))"

fun remove_loop :: "'v hashmap_map \<Rightarrow> cstring \<Rightarrow> nat \<Rightarrow> nat \<Rightarrow> map_status \<times> 'v hashmap_map" where
  "remove_loop m key pos 0 = (MAP_MISSING, m)"
| "remove_loop m key pos (Suc n) =
     (case hm_data m ! pos of
        Some (k, v) \<Rightarrow>
          if k = key
          then (MAP_OK, m\<lparr>hm_data := (hm_data m)[pos := None], hm_size := hm_size m - 1\<rparr>)
          else remove_loop m key ((pos + 1) mod table_size m) n
      | None \<Rightarrow> remove_loop m key ((pos + 1) mod table_size m) n)"

definition hashmap_remove :: "'v hashmap_map \<Rightarrow> cstring \<Rightarrow> map_status \<times> 'v hashmap_map" where
  "hashmap_remove m key = remove_loop m key (hashmap_hash_int m key) MAX_CHAIN_LENGTH"

definition hashmap_length :: "'v hashmap_map option \<Rightarrow> nat" where
  "hashmap_length m = (case m of Some m \<Rightarrow> hm_size m | None \<Rightarrow> 0)"

text \<open>
  \<open>hashmap_iterate\<close> applies a function to the values in slot order until one call does not
  return \<open>MAP_OK\<close>. The function may change the state \<open>s\<close> behind the item pointer.
\<close>

fun iterate_loop :: "('s \<Rightarrow> 'v \<Rightarrow> map_status \<times> 's) \<Rightarrow> (cstring \<times> 'v) option list \<Rightarrow> 's \<Rightarrow> map_status \<times> 's" where
  "iterate_loop f [] s = (MAP_OK, s)"
| "iterate_loop f (None # es) s = iterate_loop f es s"
| "iterate_loop f (Some (k, v) # es) s =
     (case f s v of
        (MAP_OK, s) \<Rightarrow> iterate_loop f es s
      | (status, s) \<Rightarrow> (status, s))"

definition hashmap_iterate ::
  "'v hashmap_map option \<Rightarrow> ('s \<Rightarrow> 'v \<Rightarrow> map_status \<times> 's) \<Rightarrow> 's \<Rightarrow> (map_status \<times> 's) option" where
  "hashmap_iterate m f s =
     (if hashmap_length m \<le> 0 then Some (MAP_MISSING, s)
      else do { m \<leftarrow> m; Some (iterate_loop f (hm_data m) s) })"

subsection \<open>The table invariant\<close>

text \<open>
  Every stored key is the first slot its own probe sequence stops at: the probe never
  crosses a hole or an earlier copy of the key.
\<close>

definition slot_of :: "'v hashmap_map \<Rightarrow> cstring \<Rightarrow> nat option" where
  "slot_of m k = probe_free m k (hashmap_hash_int m k) MAX_CHAIN_LENGTH"

definition hm_inv :: "'v hashmap_map \<Rightarrow> bool" where
  "hm_inv m \<longleftrightarrow> 0 < table_size m \<and> length (hm_data m) = table_size m \<and>
     (\<forall>i < table_size m. \<forall>k v. hm_data m ! i = Some (k, v) \<longrightarrow> slot_of m k = Some i)"

definition hm_lookup :: "'v hashmap_map \<Rightarrow> cstring \<Rightarrow> 'v option" where
  "hm_lookup m k = snd (hashmap_get m k)"

lemma hash_int_less: "0 < table_size m \<Longrightarrow> hashmap_hash_int m k < table_size m"
  by (simp add: hashmap_hash_int_def Let_def)

lemma hash_int_cong: "table_size m = table_size m' \<Longrightarrow> hashmap_hash_int m k = hashmap_hash_int m' k"
  by (simp add: hashmap_hash_int_def Let_def)

lemma probe_free_less:
  "probe_free m k c n = Some i \<Longrightarrow> c < table_size m \<Longrightarrow> i < table_size m"
  by (induction m k c n rule: probe_free.induct) (auto split: option.splits if_splits)

lemma probe_free_slot:
  "probe_free m k c n = Some i \<Longrightarrow> hm_data m ! i = None \<or> (\<exists>v. hm_data m ! i = Some (k, v))"
  by (induction m k c n rule: probe_free.induct) (auto split: option.splits if_splits)

lemma probe_get_hit:
  "probe_free m k c n = Some i \<Longrightarrow> hm_data m ! i = Some (k, v) \<Longrightarrow> probe_get m k c n = Some v"
  by (induction m k c n rule: probe_free.induct) (auto split: option.splits if_splits)

lemma probe_get_stored:
  "probe_get m k c n = Some v \<Longrightarrow> c < table_size m \<Longrightarrow>
   \<exists>i < table_size m. hm_data m ! i = Some (k, v)"
  by (induction m k c n rule: probe_get.induct) (auto split: option.splits if_splits)

lemma hm_inv_slot:
  "hm_inv m \<Longrightarrow> i < table_size m \<Longrightarrow> hm_data m ! i = Some (k, v) \<Longrightarrow> slot_of m k = Some i"
  by (auto simp: hm_inv_def)

lemma lookup_iff:
  assumes "hm_inv m"
  shows "hm_lookup m k = Some v \<longleftrightarrow> (\<exists>i < table_size m. hm_data m ! i = Some (k, v))"
proof -
  have start: "hashmap_hash_int m k < table_size m"
    using assms by (intro hash_int_less) (simp add: hm_inv_def)
  show ?thesis
    using probe_get_stored [OF _ start] hm_inv_slot [OF assms] probe_get_hit
    by (force simp: hm_lookup_def hashmap_get_def slot_of_def split: option.splits)
qed

lemma probe_free_store_same:
  "probe_free m k c n = Some i \<Longrightarrow> i < length (hm_data m) \<Longrightarrow>
   probe_free (store_at m i k v) k c n = Some i"
  by (induction m k c n rule: probe_free.induct)
     (auto simp: store_at_def nth_list_update split: option.splits if_splits)

lemma probe_free_store_other:
  assumes "probe_free m k' c n = Some i'" and "i' \<noteq> i" and "k' \<noteq> k"
    and "i < length (hm_data m)"
  shows "probe_free (store_at m i k v) k' c n = Some i'"
  using assms
  by (induction m k' c n rule: probe_free.induct)
     (auto simp: store_at_def nth_list_update split: option.splits if_splits)

lemma store_at_simps [simp]:
  "table_size (store_at m i k v) = table_size m"
  "length (hm_data (store_at m i k v)) = length (hm_data m)"
  "hashmap_hash_int (store_at m i k v) k' = hashmap_hash_int m k'"
  by (simp_all add: store_at_def hashmap_hash_int_def Let_def)

lemma store_at_inv:
  assumes inv: "hm_inv m" and s: "slot_of m k = Some i"
  shows "hm_inv (store_at m i k v)"
proof -
  have i: "i < table_size m"
    using s inv by (auto simp: slot_of_def hm_inv_def intro: probe_free_less hash_int_less)
  have "slot_of (store_at m i k v) k' = Some j"
    if j: "j < table_size m" and d: "hm_data (store_at m i k v) ! j = Some (k', v')" for j k' v'
  proof (cases "j = i")
    case True
    then have "k' = k" using d i inv by (simp add: store_at_def hm_inv_def)
    then show ?thesis
      using probe_free_store_same [of m k "hashmap_hash_int m k" MAX_CHAIN_LENGTH i v] s i inv True
      by (simp add: slot_of_def hm_inv_def)
  next
    case False
    then have old: "hm_data m ! j = Some (k', v')" using d by (simp add: store_at_def)
    then have sj: "slot_of m k' = Some j" using hm_inv_slot [OF inv j] by simp
    then have "k' \<noteq> k" using s False by auto
    then show ?thesis using sj False i inv
      by (simp add: slot_of_def probe_free_store_other hm_inv_def)
  qed
  then show ?thesis using inv by (simp add: hm_inv_def)
qed

lemma store_at_lookup:
  assumes inv: "hm_inv m" and s: "slot_of m k = Some i"
  shows "hm_lookup (store_at m i k v) = (hm_lookup m)(k \<mapsto> v)"
proof -
  have i: "i < table_size m"
    using s inv by (auto simp: slot_of_def hm_inv_def intro: probe_free_less hash_int_less)
  have inv': "hm_inv (store_at m i k v)" by (rule store_at_inv [OF inv s])
  have di: "hm_data (store_at m i k v) ! j = (if j = i then Some (k, v) else hm_data m ! j)" for j
    using i inv by (simp add: store_at_def hm_inv_def)
  have slot: "hm_data m ! i = None \<or> (\<exists>w. hm_data m ! i = Some (k, w))"
    using s probe_free_slot by (simp add: slot_of_def)
  have "hm_lookup (store_at m i k v) k' = Some w \<longleftrightarrow> ((hm_lookup m)(k \<mapsto> v)) k' = Some w" for k' w
  proof (cases "k' = k")
    case True
    then have "hm_lookup (store_at m i k v) k = Some v" using lookup_iff [OF inv'] i di by auto
    then show ?thesis using True by auto
  next
    case False
    have "hm_data (store_at m i k v) ! j = Some (k', w) \<longleftrightarrow> hm_data m ! j = Some (k', w)" for j
      using False slot di by (cases "j = i") auto
    then show ?thesis using lookup_iff [OF inv'] lookup_iff [OF inv] False by simp
  qed
  then show ?thesis by (intro ext) (metis not_None_eq)
qed

lemma hash_slot: "hashmap_hash m k = Some i \<Longrightarrow> slot_of m k = Some i"
  by (simp add: hashmap_hash_def slot_of_def split: if_splits)

lemma empty_table_inv: "0 < n \<Longrightarrow> hm_inv \<lparr>table_size = n, hm_size = 0, hm_data = replicate n None\<rparr>"
  by (simp add: hm_inv_def)

lemma empty_table_lookup:
  assumes "0 < n"
  shows "hm_lookup \<lparr>table_size = n, hm_size = 0, hm_data = replicate n None\<rparr> = Map.empty"
proof
  fix k
  show "hm_lookup \<lparr>table_size = n, hm_size = 0, hm_data = replicate n None\<rparr> k = None"
    using lookup_iff [OF empty_table_inv [OF assms]] by (metis (no_types, lifting) hashmap_map.select_convs(1,3)
        not_None_eq nth_replicate option.distinct(1))
qed

subsection \<open>Insertion, with and without a rehash\<close>

definition put_ok ::
  "('v hashmap_map \<Rightarrow> cstring \<Rightarrow> 'v \<Rightarrow> map_status \<times> 'v hashmap_map) \<Rightarrow> bool" where
  "put_ok put \<longleftrightarrow> (\<forall>m k v m'. hm_inv m \<longrightarrow> put m k v = (MAP_OK, m') \<longrightarrow>
     hm_inv m' \<and> hm_lookup m' = (hm_lookup m)(k \<mapsto> v))"

lemma put_okD:
  assumes "put_ok put" and "hm_inv m" and "put m k v = (MAP_OK, m')"
  shows "hm_inv m'" and "hm_lookup m' = (hm_lookup m)(k \<mapsto> v)"
  using assms unfolding put_ok_def by blast+

definition entries :: "(cstring \<times> 'v) option list \<Rightarrow> (cstring \<times> 'v) list" where
  "entries es = map the (filter (\<lambda>e. e \<noteq> None) es)"

lemma entries_simps [simp]:
  "entries [] = []" "entries (None # es) = entries es" "entries (Some kv # es) = kv # entries es"
  by (simp_all add: entries_def)

lemma rehash_loop_ok:
  "put_ok put \<Longrightarrow> hm_inv m \<Longrightarrow> rehash_loop put m es = (MAP_OK, m') \<Longrightarrow>
   hm_inv m' \<and> hm_lookup m' = hm_lookup m ++ map_of (rev (entries es))"
proof (induction put m es rule: rehash_loop.induct)
  case (3 put m k v es)
  then obtain m1 where p: "put m k v = (MAP_OK, m1)" and r: "rehash_loop put m1 es = (MAP_OK, m')"
    by (auto split: prod.splits map_status.splits)
  note q = put_okD [OF "3.prems"(1,2) p]
  show ?case
    using "3.IH" [OF p [symmetric] refl "3.prems"(1) q(1) r] q(2)
    by (auto simp: map_add_def fun_eq_iff split: option.splits)
qed simp_all

lemma map_of_graph:
  assumes "\<And>k v. (k, v) \<in> set xs \<longleftrightarrow> f k = Some v"
  shows "map_of (rev xs) = f"
proof
  fix k
  show "map_of (rev xs) k = f k"
  proof (cases "f k")
    case None
    then show ?thesis
      using assms by (metis map_of_SomeD not_None_eq option.distinct(1) set_rev)
  next
    case (Some v)
    then have "k \<in> fst ` set (rev xs)" using assms by (metis fst_conv image_eqI set_rev)
    then obtain w where "map_of (rev xs) k = Some w"
      by (metis map_of_eq_None_iff not_None_eq)
    then show ?thesis using assms map_of_SomeD by fastforce
  qed
qed

lemma entries_set: "kv \<in> set (entries es) \<longleftrightarrow> Some kv \<in> set es"
proof (induction es)
  case (Cons e es)
  then show ?case by (cases e) auto
qed simp

lemma entries_lookup:
  assumes "hm_inv m"
  shows "map_of (rev (entries (hm_data m))) = hm_lookup m"
proof (rule map_of_graph)
  fix k v
  have "(k, v) \<in> set (entries (hm_data m)) \<longleftrightarrow> (\<exists>i < table_size m. hm_data m ! i = Some (k, v))"
    using assms by (simp only: entries_set) (auto simp: in_set_conv_nth hm_inv_def)
  then show "(k, v) \<in> set (entries (hm_data m)) \<longleftrightarrow> hm_lookup m k = Some v"
    using lookup_iff [OF assms] by simp
qed

lemma put_direct:
  assumes "hm_inv m" and "hashmap_hash m k = Some i"
  shows "hm_inv (store_at m i k v)" and "hm_lookup (store_at m i k v) = (hm_lookup m)(k \<mapsto> v)"
  by (rule store_at_inv [OF assms(1) hash_slot [OF assms(2)]],
      rule store_at_lookup [OF assms(1) hash_slot [OF assms(2)]])

lemma hashmap_put_ok: "put_ok (hashmap_put mem)"
proof (induction mem)
  case 0
  show ?case by (auto simp: put_ok_def put_direct split: option.splits)
next
  case (Suc mem)
  show ?case
    unfolding put_ok_def
  proof (intro allI impI)
    fix m :: "'a hashmap_map" and k v m'
    assume inv: "hm_inv m" and p: "hashmap_put (Suc mem) m k v = (MAP_OK, m')"
    show "hm_inv m' \<and> hm_lookup m' = (hm_lookup m)(k \<mapsto> v)"
    proof (cases "hashmap_hash m k")
      case (Some i)
      then show ?thesis using p put_direct [OF inv] by auto
    next
      case None
      then obtain m1 where r: "rehash_loop (hashmap_put mem) (doubled_table m) (hm_data m) = (MAP_OK, m1)"
        and q: "hashmap_put mem m1 k v = (MAP_OK, m')"
        using p by (auto split: prod.splits map_status.splits)
      have d: "hm_inv (doubled_table m)" "hm_lookup (doubled_table m) = Map.empty"
        using inv by (simp_all add: doubled_table_def empty_table_inv empty_table_lookup hm_inv_def)
      have "hm_inv m1" and "hm_lookup m1 = hm_lookup m"
        using rehash_loop_ok [OF Suc d(1) r] d(2) entries_lookup [OF inv] by simp_all
      then show ?thesis using put_okD [OF Suc _ q] by simp
    qed
  qed
qed

subsection \<open>The interface the SCI-LS layer relies on\<close>

locale registry =
  fixes put :: "'m \<Rightarrow> 'k \<Rightarrow> 'v \<Rightarrow> map_status \<times> 'm"
    and get :: "'m \<Rightarrow> 'k \<Rightarrow> map_status \<times> 'v option"
    and inv :: "'m \<Rightarrow> bool"
  assumes put_inv: "inv m \<Longrightarrow> put m k v = (MAP_OK, m') \<Longrightarrow> inv m'"
    and get_put: "inv m \<Longrightarrow> put m k v = (MAP_OK, m') \<Longrightarrow>
      snd (get m' k') = (if k' = k then Some v else snd (get m k'))"
    and get_status: "fst (get m k) = (if snd (get m k) = None then MAP_MISSING else MAP_OK)"
begin

definition register :: "'m \<Rightarrow> 'k \<Rightarrow> 'v \<Rightarrow> map_status \<times> 'm" where
  "register m k v = (if fst (get m k) = MAP_MISSING then put m k v else (MAP_OK, m))"

lemma register_inv: "inv m \<Longrightarrow> register m k v = (MAP_OK, m') \<Longrightarrow> inv m'"
  by (auto simp: register_def dest: put_inv split: if_splits)

text \<open>The first registration of a name wins and no other name is disturbed.\<close>

lemma register_keeps:
  assumes "inv m" and "register m k v = (MAP_OK, m')" and "snd (get m k') = Some w"
  shows "snd (get m' k') = Some w"
  using assms get_put [of m k v m' k'] by (auto simp: register_def get_status split: if_splits)

lemma register_binds:
  assumes "inv m" and "register m k v = (MAP_OK, m')"
  shows "snd (get m' k) = Some (case snd (get m k) of Some w \<Rightarrow> w | None \<Rightarrow> v)"
  using assms get_put [of m k v m' k] by (auto simp: register_def get_status split: if_splits option.splits)

end

lemma hashmap_get_status:
  "fst (hashmap_get m k) = (if snd (hashmap_get m k) = None then MAP_MISSING else MAP_OK)"
  by (simp add: hashmap_get_def split: option.splits)

interpretation names: registry "hashmap_put mem" hashmap_get hm_inv
proof
  fix m m' :: "'a hashmap_map" and k k' v
  assume m: "hm_inv m" and p: "hashmap_put mem m k v = (MAP_OK, m')"
  show "hm_inv m'" using put_okD [OF hashmap_put_ok m p] by blast
  show "snd (hashmap_get m' k') = (if k' = k then Some v else snd (hashmap_get m k'))"
    using put_okD(2) [OF hashmap_put_ok m p] by (simp add: hm_lookup_def fun_eq_iff)
qed (rule hashmap_get_status)

lemma hashmap_new_inv: "hm_inv hashmap_new"
  by (simp add: hashmap_new_def INITIAL_SIZE_def hm_inv_def)

lemma hashmap_new_lookup: "hm_lookup hashmap_new k = None"
  by (simp add: hashmap_new_def INITIAL_SIZE_def empty_table_lookup)

text \<open>With room in the table one insertion succeeds without any allocation.\<close>

lemma hashmap_put_empty_slot:
  assumes "hm_size m < table_size m div 2" and "slot_of m k \<noteq> None"
  shows "fst (hashmap_put mem m k v) = MAP_OK"
  using assms by (cases mem) (auto simp: hashmap_hash_def slot_of_def)

lemma probe_free_hole: "0 < n \<Longrightarrow> hm_data m ! c = None \<Longrightarrow> probe_free m k c n = Some c"
  by (cases n) simp_all

lemma slot_of_new: "slot_of (hashmap_new :: 'v hashmap_map) k = Some (hashmap_hash_int (hashmap_new :: 'v hashmap_map) k)"
proof -
  have "hashmap_hash_int (hashmap_new :: 'v hashmap_map) k < 256"
    using hash_int_less [of "hashmap_new :: 'v hashmap_map" k]
    by (simp add: hashmap_new_def INITIAL_SIZE_def)
  then have "hm_data (hashmap_new :: 'v hashmap_map) !
      hashmap_hash_int (hashmap_new :: 'v hashmap_map) k = None"
    by (simp add: hashmap_new_def INITIAL_SIZE_def)
  then show ?thesis by (simp add: slot_of_def MAX_CHAIN_LENGTH_def probe_free_hole)
qed

end
