(* ===== verification/Scils.thy ===== *)
theory Scils
  imports Sci_Ls_Icd Hashmap
begin

section \<open>The SCI-LS endpoint (scils.h, scils.c)\<close>

text \<open>
  The endpoint keeps its own SCI name, the registry of the names it can reach and the
  notification pointers. Sending hands an encoded telegram to \<open>sr_send\<close> of the RaSTA
  layer; the model records those calls, in order, in \<open>sr_sent\<close> (the RaSTA identifier and
  the message bytes). A notification pointer is an optional function on the state of the
  application; calling one is applying it.
\<close>

record scils_t =
  sciName :: cstring
  sciNamesToRastaIds :: "u64 hashmap_map"
  sr_sent :: "(u64 \<times> u8 list) list"

record 's scils_notification_ptr =
  on_version_request_received :: "(u8 list \<Rightarrow> u8 \<Rightarrow> 's \<Rightarrow> 's) option"
  on_status_request_received :: "(u8 list \<Rightarrow> 's \<Rightarrow> 's) option"
  on_status_begin_received :: "(u8 list \<Rightarrow> 's \<Rightarrow> 's) option"
  on_status_finish_received :: "(u8 list \<Rightarrow> 's \<Rightarrow> 's) option"

definition scils_init :: "cstring \<Rightarrow> scils_t" where
  "scils_init sci_name =
     \<lparr>sciName = sci_name, sciNamesToRastaIds = hashmap_new, sr_sent = []\<rparr>"

definition scils_send_telegram :: "scils_t \<Rightarrow> sci_telegram \<Rightarrow> (sci_return_code \<times> scils_t) option" where
  "scils_send_telegram ls t =
     do { data \<leftarrow> sci_encode_telegram t;
          name \<leftarrow> sci_get_name_string (t_receiver t);
          case hashmap_get (sciNamesToRastaIds ls) name of
            (_, Some rasta_id) \<Rightarrow>
              Some (SUCCESS, ls\<lparr>sr_sent := sr_sent ls @ [(rasta_id, data)]\<rparr>)
          | (_, None) \<Rightarrow> Some (UNKNOWN_SCI_NAME, ls) }"

definition scils_send_version_request ::
  "scils_t \<Rightarrow> cstring \<Rightarrow> u8 \<Rightarrow> (sci_return_code \<times> scils_t) option" where
  "scils_send_version_request ls receiver requested =
     do { t \<leftarrow> sci_create_version_request SCI_PROTOCOL_LS (sciName ls) receiver requested;
          scils_send_telegram ls t }"

definition scils_send_status_request ::
  "scils_t \<Rightarrow> cstring \<Rightarrow> (sci_return_code \<times> scils_t) option" where
  "scils_send_status_request ls receiver =
     do { t \<leftarrow> sci_create_status_request SCI_PROTOCOL_LS (sciName ls) receiver;
          scils_send_telegram ls t }"

definition scils_send_status_begin ::
  "scils_t \<Rightarrow> cstring \<Rightarrow> (sci_return_code \<times> scils_t) option" where
  "scils_send_status_begin ls receiver =
     do { t \<leftarrow> sci_create_status_begin SCI_PROTOCOL_LS (sciName ls) receiver;
          scils_send_telegram ls t }"

definition scils_send_status_finish ::
  "scils_t \<Rightarrow> cstring \<Rightarrow> (sci_return_code \<times> scils_t) option" where
  "scils_send_status_finish ls receiver =
     do { t \<leftarrow> sci_create_status_finish SCI_PROTOCOL_LS (sciName ls) receiver;
          scils_send_telegram ls t }"

definition handle_version_request ::
  "'s scils_notification_ptr \<Rightarrow> sci_telegram \<Rightarrow> 's \<Rightarrow> 's option" where
  "handle_version_request nf t s =
     do { (r, v) \<leftarrow> sci_parse_version_request_payload t 0;
          case on_version_request_received nf of
            Some f \<Rightarrow> Some (if r = SCI_PARSE_SUCCESS then f (t_sender t) v s else s)
          | None \<Rightarrow> Some s }"

definition notify :: "(u8 list \<Rightarrow> 's \<Rightarrow> 's) option \<Rightarrow> u8 list \<Rightarrow> 's \<Rightarrow> 's" where
  "notify p sndr s = (case p of Some f \<Rightarrow> f sndr s | None \<Rightarrow> s)"

definition scils_on_rasta_receive ::
  "u8 list \<Rightarrow> 's scils_notification_ptr \<Rightarrow> u8 list \<Rightarrow> 's \<Rightarrow> 's option" where
  "scils_on_rasta_receive junk nf message s =
     (case sci_decode_telegram junk message of
        None \<Rightarrow> Some s
      | Some t \<Rightarrow>
          if t_protocol t \<noteq> SCI_PROTOCOL_LS then Some s
          else
            let m = sci_get_message_type t
            in if m = SCI_MESSAGE_TYPE_VERSION_REQUEST then handle_version_request nf t s
               else if m = SCI_MESSAGE_TYPE_STATUS_REQUEST
               then Some (notify (on_status_request_received nf) (t_sender t) s)
               else if m = SCI_MESSAGE_TYPE_STATUS_BEGIN
               then Some (notify (on_status_begin_received nf) (t_sender t) s)
               else if m = SCI_MESSAGE_TYPE_STATUS_FINISH
               then Some (notify (on_status_finish_received nf) (t_sender t) s)
               else Some s)"

definition scils_register_sci_name :: "nat \<Rightarrow> scils_t \<Rightarrow> cstring \<Rightarrow> u64 \<Rightarrow> scils_t option" where
  "scils_register_sci_name mem ls name rasta_id =
     do { field \<leftarrow> pad_name name;
          key \<leftarrow> sci_get_name_string field;
          case hashmap_get (sciNamesToRastaIds ls) key of
            (MAP_MISSING, _) \<Rightarrow>
              Some (ls\<lparr>sciNamesToRastaIds := snd (hashmap_put mem (sciNamesToRastaIds ls) key rasta_id)\<rparr>)
          | _ \<Rightarrow> Some ls }"

subsection \<open>Names on the wire\<close>

definition key_of :: "cstring \<Rightarrow> cstring" where
  "key_of n = takeWhile (\<lambda>b. b \<noteq> 0) (n @ replicate (SCI_NAME_LENGTH - length n) SCI_NAME_PADDING_CHAR)"

lemma name_string_of_padded:
  "length n \<le> SCI_NAME_LENGTH \<Longrightarrow>
   sci_get_name_string (n @ replicate (SCI_NAME_LENGTH - length n) SCI_NAME_PADDING_CHAR) = Some (key_of n)"
  by (simp add: sci_get_name_string_def buf_read_def key_of_def)

lemma send_telegram_wf:
  assumes "wf_telegram t" and "sci_get_name_string (t_receiver t) = Some k"
    and "sci_encode_telegram t = Some d"
  shows "scils_send_telegram ls t =
    Some (case hm_lookup (sciNamesToRastaIds ls) k of
            Some i \<Rightarrow> (SUCCESS, ls\<lparr>sr_sent := sr_sent ls @ [(i, d)]\<rparr>)
          | None \<Rightarrow> (UNKNOWN_SCI_NAME, ls))"
  using assms by (simp add: scils_send_telegram_def hm_lookup_def split: prod.splits option.splits)

lemma register_lookup:
  assumes inv: "hm_inv (sciNamesToRastaIds ls)" and n: "length n \<le> SCI_NAME_LENGTH"
    and r: "scils_register_sci_name mem ls n i = Some ls'"
    and p: "fst (hashmap_put mem (sciNamesToRastaIds ls) (key_of n) i) = MAP_OK"
  shows "hm_inv (sciNamesToRastaIds ls')" and "sciName ls' = sciName ls" and "sr_sent ls' = sr_sent ls"
    and "hm_lookup (sciNamesToRastaIds ls') (key_of n) =
      Some (case hm_lookup (sciNamesToRastaIds ls) (key_of n) of Some j \<Rightarrow> j | None \<Rightarrow> i)"
    and "hm_lookup (sciNamesToRastaIds ls) k = Some j \<Longrightarrow>
      hm_lookup (sciNamesToRastaIds ls') k = Some j"
proof -
  have p': "hashmap_put mem (sciNamesToRastaIds ls) (key_of n) i =
      (MAP_OK, snd (hashmap_put mem (sciNamesToRastaIds ls) (key_of n) i))"
    using p by (metis prod.collapse)
  have step: "names.register mem (sciNamesToRastaIds ls) (key_of n) i = (MAP_OK, sciNamesToRastaIds ls')
      \<and> sciName ls' = sciName ls \<and> sr_sent ls' = sr_sent ls"
    using r p'
    by (auto simp: scils_register_sci_name_def pad_name_fits [OF n] name_string_of_padded [OF n]
        names.register_def split: prod.splits map_status.splits if_splits)
  note reg = conjunct1 [OF step]
  show "hm_inv (sciNamesToRastaIds ls')" by (rule names.register_inv [OF inv reg])
  show "sciName ls' = sciName ls" "sr_sent ls' = sr_sent ls" using step by auto
  show "hm_lookup (sciNamesToRastaIds ls') (key_of n) =
      Some (case hm_lookup (sciNamesToRastaIds ls) (key_of n) of Some j \<Rightarrow> j | None \<Rightarrow> i)"
    using names.register_binds [OF inv reg] by (simp add: hm_lookup_def)
  show "hm_lookup (sciNamesToRastaIds ls') k = Some j"
    if "hm_lookup (sciNamesToRastaIds ls) k = Some j"
    using names.register_keeps [OF inv reg] that by (simp add: hm_lookup_def)
qed

end
