(* ===== verification/Ixl_Adapter.thy ===== *)
theory Ixl_Adapter
  imports Ixl_Types Scils
begin

section \<open>Aspects to telegrams (cloud_ixl_scils_adapter.c)\<close>

text \<open>
  The payload of 18 bytes each signal aspect is ordered with, the command telegrams and
  their sending. The results distinguish a telegram that could not be built from one the
  registry could not route.
\<close>

datatype CloudIxlScilsSendResult =
  CLOUD_IXL_SCILS_BUILD_ERROR | CLOUD_IXL_SCILS_SEND_ERROR | SUCCESS_SCILS

fun is_supported_signal_aspect :: "SignalAspect \<Rightarrow> bool" where
  "is_supported_signal_aspect (OTHER_ASPECT _) = False"
| "is_supported_signal_aspect _ = True"

fun signal_aspect_payloads :: "SignalAspect \<Rightarrow> u8 list" where
  "signal_aspect_payloads VIA_LIBRE =
     [0x01, 0x00, 0x00, 0x00, 0x00, 0x00, 0xFE, 0xFE, 0x01,
      0xFE, 0xFE, 0xFE, 0xFE, 0xFE, 0xFE, 0xFE, 0xFE, 0xFE]"
| "signal_aspect_payloads PARADA =
     [0x02, 0x00, 0x00, 0x00, 0x00, 0x00, 0xFE, 0xFE, 0x01,
      0xFE, 0xFE, 0xFE, 0xFE, 0xFE, 0xFE, 0xFE, 0xFE, 0xFE]"
| "signal_aspect_payloads ANUNCIO_PARADA =
     [0x03, 0x00, 0x00, 0x00, 0x00, 0x00, 0xFE, 0xFE, 0x01,
      0xFE, 0xFE, 0xFE, 0xFE, 0xFE, 0xFE, 0xFE, 0xFE, 0xFE]"
| "signal_aspect_payloads ANUNCIO_PRECAUCION =
     [0x05, 0x00, 0x00, 0x00, 0x00, 0x00, 0xFE, 0xFE, 0x01,
      0xFE, 0xFE, 0xFE, 0xFE, 0xFE, 0xFE, 0xFE, 0xFE, 0xFE]"
| "signal_aspect_payloads REBASE =
     [0xFE, 0x00, 0x00, 0x00, 0x00, 0x00, 0xFE, 0xFE, 0x01,
      0x01, 0xFE, 0xFE, 0xFE, 0xFE, 0xFE, 0xFE, 0xFE, 0xFE]"
| "signal_aspect_payloads PARADA_SELECTIVA_N2 =
     [0xFE, 0x00, 0x00, 0x00, 0x00, 0x00, 0xFE, 0xFE, 0x01,
      0x02, 0xFE, 0xFE, 0xFE, 0xFE, 0xFE, 0xFE, 0xFE, 0xFE]"
| "signal_aspect_payloads REBASE_AUTORIZADO =
     [0xFE, 0x00, 0x00, 0x00, 0x00, 0x00, 0xFE, 0xFE, 0x01,
      0x03, 0xFE, 0xFE, 0xFE, 0xFE, 0xFE, 0xFE, 0xFE, 0xFE]"
| "signal_aspect_payloads APAGADA =
     [0x02, 0x00, 0x00, 0x00, 0x00, 0x00, 0xFE, 0xFE, 0x0F,
      0xFE, 0xFE, 0xFE, 0xFE, 0xFE, 0xFE, 0xFE, 0xFE, 0xFE]"
| "signal_aspect_payloads (OTHER_ASPECT _) = replicate 18 0x00"

text \<open>The destination is a buffer or \<open>NULL\<close>; the result is the flag and what it holds after.\<close>

definition cloud_ixl_build_signal_aspect_payload ::
  "SignalAspect \<Rightarrow> u8 list option \<Rightarrow> (bool \<times> u8 list option) option" where
  "cloud_ixl_build_signal_aspect_payload aspect payload =
     (case payload of
        None \<Rightarrow> Some (False, None)
      | Some d \<Rightarrow>
          if \<not> is_supported_signal_aspect aspect then Some (False, Some d)
          else do { d' \<leftarrow> buf_write d 0 (signal_aspect_payloads aspect); Some (True, Some d') })"

definition cloud_ixl_create_signal_aspect_telegram ::
  "cstring option \<Rightarrow> cstring option \<Rightarrow> SignalAspect \<Rightarrow> sci_telegram option option" where
  "cloud_ixl_create_signal_aspect_telegram sndr receiver aspect =
     do { (ok, payload) \<leftarrow> cloud_ixl_build_signal_aspect_payload aspect
            (Some (replicate SCI_LS_ICD_SIGNAL_ASPECT_PAYLOAD_SIZE 0));
          if \<not> ok then Some None
          else if \<not> is_valid_sci_name sndr \<or> \<not> is_valid_sci_name receiver then Some None
          else do {
            t \<leftarrow> sci_create_base_telegram SCI_PROTOCOL_LS (the sndr) (the receiver)
                   SCI_LS_ICD_MESSAGE_TYPE_SHOW_SIGNAL_ASPECT;
            t' \<leftarrow> set_payload t (the payload);
            Some (Some t') } }"

definition cloud_ixl_scils_send_signal_aspect ::
  "scils_t option \<Rightarrow> cstring option \<Rightarrow> SignalAspect \<Rightarrow>
   (CloudIxlScilsSendResult \<times> scils_t option) option" where
  "cloud_ixl_scils_send_signal_aspect scils receiver aspect =
     (case (scils, receiver) of
        (Some ls, Some _) \<Rightarrow>
          do { telegram \<leftarrow> cloud_ixl_create_signal_aspect_telegram (Some (sciName ls)) receiver aspect;
               case telegram of
                 None \<Rightarrow> Some (CLOUD_IXL_SCILS_BUILD_ERROR, scils)
               | Some t \<Rightarrow>
                   do { (code, ls') \<leftarrow> scils_send_telegram ls t;
                        if code \<noteq> SUCCESS then Some (CLOUD_IXL_SCILS_SEND_ERROR, Some ls')
                        else Some (SUCCESS_SCILS, Some ls') } }
      | _ \<Rightarrow> Some (CLOUD_IXL_SCILS_BUILD_ERROR, scils))"

definition cloud_ixl_scils_send_luminosity ::
  "scils_t option \<Rightarrow> cstring option \<Rightarrow> u8 \<Rightarrow>
   (CloudIxlScilsSendResult \<times> scils_t option) option" where
  "cloud_ixl_scils_send_luminosity scils receiver luminosity =
     (case scils of
        None \<Rightarrow> Some (CLOUD_IXL_SCILS_BUILD_ERROR, None)
      | Some ls \<Rightarrow>
          if \<not> is_valid_sci_name (Some (sciName ls)) \<or> \<not> is_valid_sci_name receiver
          then Some (CLOUD_IXL_SCILS_BUILD_ERROR, scils)
          else do {
            telegram \<leftarrow> sci_ls_icd_create_luminosity_command (Some (sciName ls)) receiver luminosity;
            case telegram of
              None \<Rightarrow> Some (CLOUD_IXL_SCILS_BUILD_ERROR, scils)
            | Some t \<Rightarrow>
                do { (code, ls') \<leftarrow> scils_send_telegram ls t;
                     if code \<noteq> SUCCESS then Some (CLOUD_IXL_SCILS_SEND_ERROR, Some ls')
                     else Some (SUCCESS_SCILS, Some ls') } })"

subsection \<open>Payloads\<close>

lemma payload_length [simp]: "length (signal_aspect_payloads a) = 18"
  by (cases a) simp_all

lemma build_payload_supported:
  "is_supported_signal_aspect a \<Longrightarrow> length d = 18 \<Longrightarrow>
   cloud_ixl_build_signal_aspect_payload a (Some d) = Some (True, Some (signal_aspect_payloads a))"
  by (simp add: cloud_ixl_build_signal_aspect_payload_def buf_write_full)

lemma build_payload_unsupported:
  "\<not> is_supported_signal_aspect a \<Longrightarrow>
   cloud_ixl_build_signal_aspect_payload a p = Some (False, p)"
  by (simp add: cloud_ixl_build_signal_aspect_payload_def split: option.splits)

lemma payload_inj:
  "is_supported_signal_aspect a \<Longrightarrow> is_supported_signal_aspect b \<Longrightarrow>
   signal_aspect_payloads a = signal_aspect_payloads b \<Longrightarrow> a = b"
  by (cases a; cases b) simp_all

lemma create_aspect_telegram_ok:
  assumes "is_supported_signal_aspect a" and "is_valid_sci_name s" and "is_valid_sci_name r"
  shows "\<exists>t. cloud_ixl_create_signal_aspect_telegram s r a = Some (Some t) \<and> wf_telegram t \<and>
     zero_tail t \<and> t_protocol t = SCI_PROTOCOL_LS \<and>
     sci_get_message_type t = SCI_LS_ICD_MESSAGE_TYPE_SHOW_SIGNAL_ASPECT \<and>
     used_bytes (t_payload t) = 18 \<and>
     take 18 (payload_data (t_payload t)) = signal_aspect_payloads a"
  using assms base_telegram_payload [OF assms(2,3), of "signal_aspect_payloads a"]
    build_payload_supported [OF assms(1)]
  by (force simp: cloud_ixl_create_signal_aspect_telegram_def icd_sizes)

lemma create_aspect_telegram_none:
  assumes "\<not> (is_supported_signal_aspect a \<and> is_valid_sci_name s \<and> is_valid_sci_name r)"
  shows "cloud_ixl_create_signal_aspect_telegram s r a = Some None"
  using assms
  by (cases "is_supported_signal_aspect a")
     (auto simp: cloud_ixl_create_signal_aspect_telegram_def build_payload_supported
        build_payload_unsupported icd_sizes)

end
