(* ===== verification/Runs.thy ===== *)
theory Runs
  imports Main "HOL-Library.Monad_Syntax"
begin

section \<open>Runs of a component\<close>

text \<open>
  A component as a function of an operation and its state that may be undefined, its runs over a
  list of operations, and the interface under which a run is defined and follows an abstract one.
\<close>

fun run_steps :: "('a \<Rightarrow> 's \<Rightarrow> 's option) \<Rightarrow> 'a list \<Rightarrow> 's \<Rightarrow> 's option" where
  "run_steps step [] s = Some s"
| "run_steps step (x # xs) s = Option.bind (step x s) (run_steps step xs)"

lemma run_steps_append:
  "run_steps step (xs @ ys) s = Option.bind (run_steps step xs s) (run_steps step ys)"
proof (induction xs arbitrary: s)
  case (Cons x xs)
  then show ?case by (cases "step x s") simp_all
qed simp

fun allowed_run :: "('a \<Rightarrow> 'b \<Rightarrow> bool) \<Rightarrow> ('a \<Rightarrow> 'b \<Rightarrow> 'b) \<Rightarrow> 'a list \<Rightarrow> 'b \<Rightarrow> bool" where
  "allowed_run allowed astep [] b \<longleftrightarrow> True"
| "allowed_run allowed astep (x # xs) b \<longleftrightarrow> allowed x b \<and> allowed_run allowed astep xs (astep x b)"

lemma allowed_run_plain [simp]: "allowed_run (\<lambda>x _. P x) astep xs b \<longleftrightarrow> list_all P xs"
  by (induction xs arbitrary: b) simp_all

lemma fold_keep [simp]: "fold (\<lambda>_ b. b) xs b = b"
  by (induction xs) simp_all

lemma all_allowed [simp]: "list_all (\<lambda>_. True) xs"
  by (induction xs) simp_all

locale simulation =
  fixes step :: "'a \<Rightarrow> 's \<Rightarrow> 's option"
    and inv :: "'s \<Rightarrow> bool"
    and abs :: "'s \<Rightarrow> 'b"
    and astep :: "'a \<Rightarrow> 'b \<Rightarrow> 'b"
    and allowed :: "'a \<Rightarrow> 'b \<Rightarrow> bool"
  assumes simulates: "inv s \<Longrightarrow> allowed x (abs s) \<Longrightarrow> \<exists>s'. step x s = Some s' \<and> inv s' \<and> abs s' = astep x (abs s)"
begin

text \<open>Every allowed run is defined and ends where the abstract run ends.\<close>

lemma run_refines:
  "inv s \<Longrightarrow> allowed_run allowed astep xs (abs s) \<Longrightarrow>
   \<exists>s'. run_steps step xs s = Some s' \<and> inv s' \<and> abs s' = fold astep xs (abs s)"
proof (induction xs arbitrary: s)
  case (Cons x xs)
  obtain s1 where s1: "step x s = Some s1" "inv s1" "abs s1 = astep x (abs s)"
    using simulates [OF Cons.prems(1)] Cons.prems(2) by auto
  then show ?case using Cons.IH [OF s1(2)] Cons.prems(2) by simp
qed simp

text \<open>What the abstract steps keep holds at the end of every allowed run.\<close>

lemma run_keeps:
  assumes "inv s" "allowed_run allowed astep xs (abs s)" "P (abs s)"
    and "\<And>x b. P b \<Longrightarrow> allowed x b \<Longrightarrow> P (astep x b)"
  shows "\<exists>s'. run_steps step xs s = Some s' \<and> inv s' \<and> P (abs s')"
proof -
  have "allowed_run allowed astep xs b \<Longrightarrow> P b \<Longrightarrow> P (fold astep xs b)" for b
    by (induction xs arbitrary: b) (auto intro: assms(4))
  then show ?thesis using run_refines [OF assms(1,2)] assms(2,3) by force
qed

end

end
