(* ===== verification/Fifo.thy ===== *)
theory Fifo
  imports Prelude Runs
begin

section \<open>The bounded FIFO (fifo.h, fifo.c)\<close>

text \<open>
  The linked queue of the RaSTA layers. The cells live in the store \<open>cells\<close> of the queue:
  an allocated cell has an address, its data and the address of the next cell; \<open>rmalloc\<close>
  takes the address \<open>fresh\<close>, which no cell uses, and \<open>rfree\<close> removes a cell. Following an
  address that is not allocated is undefined behaviour (\<open>None\<close>). The mutex of the C code
  makes every operation atomic, so each operation is one step here.

  \<open>fifo_abs\<close> reads the queue as a list, and the interface \<open>queue\<close> states what its clients
  rely on.
\<close>

type_synonym addr = nat

record 'a fifo_t =
  f_size :: u32
  f_max_size :: u32
  f_head :: "addr option"
  f_tail :: "addr option"
  f_cells :: "addr \<Rightarrow> ('a \<times> addr option) option"
  f_fresh :: addr

definition fifo_init :: "u32 \<Rightarrow> 'a fifo_t" where
  "fifo_init max_size = \<lparr>f_size = 0, f_max_size = max_size, f_head = None, f_tail = None,
                         f_cells = (\<lambda>_. None), f_fresh = 0\<rparr>"

definition fifo_pop :: "'a fifo_t \<Rightarrow> ('a option \<times> 'a fifo_t) option" where
  "fifo_pop f =
     (case (f_head f, f_tail f) of
        (Some h, Some _) \<Rightarrow>
          if f_size f > 0
          then (case f_cells f h of
                  None \<Rightarrow> None
                | Some (d, nxt) \<Rightarrow>
                    Some (Some d, f\<lparr>f_head := nxt,
                                    f_tail := (if f_size f = 1 then None else f_tail f),
                                    f_cells := (f_cells f)(h := None),
                                    f_size := f_size f - 1\<rparr>))
          else Some (None, f)
      | _ \<Rightarrow> Some (None, f))"

definition fifo_push :: "'a fifo_t \<Rightarrow> 'a option \<Rightarrow> 'a fifo_t option" where
  "fifo_push f element =
     (case element of
        None \<Rightarrow> Some f
      | Some d \<Rightarrow>
          if f_size f = f_max_size f then Some f
          else
            let a = f_fresh f; cs = (f_cells f)(a := Some (d, None))
            in if f_size f = 0
               then Some (f\<lparr>f_cells := cs, f_fresh := a + 1, f_head := Some a, f_tail := Some a,
                            f_size := f_size f + 1\<rparr>)
               else (case f_tail f of
                       None \<Rightarrow> None
                     | Some t \<Rightarrow>
                         (case cs t of
                            None \<Rightarrow> None
                          | Some (e, _) \<Rightarrow>
                              Some (f\<lparr>f_cells := cs(t := Some (e, Some a)), f_fresh := a + 1,
                                      f_tail := Some a, f_size := f_size f + 1\<rparr>))))"

definition fifo_get_size :: "'a fifo_t \<Rightarrow> u32" where
  "fifo_get_size f = f_size f"

text \<open>
  \<open>fifo_destroy\<close> pops while its counter is below the size, which shrinks as the counter
  grows; the queue it frees afterwards is returned, and the cells left in it are leaked.
\<close>

function fifo_destroy_loop :: "u32 \<Rightarrow> 'a fifo_t \<Rightarrow> 'a fifo_t option" where
  "fifo_destroy_loop i f =
     (if i < f_size f
      then (case fifo_pop f of None \<Rightarrow> None | Some (_, f') \<Rightarrow> fifo_destroy_loop (i + 1) f')
      else Some f)"
  by pat_completeness auto
termination
proof (relation "measure (\<lambda>(i, f). unat (f_size f) - unat i)", simp, clarsimp)
  fix i :: u32 and f :: "'a fifo_t" and x f'
  assume lt: "i < f_size f" and p: "fifo_pop f = Some (x, f')"
  have "unat i < unat (f_size f)" using lt by (simp add: word_less_nat_alt)
  then have "unat i + 1 < 4294967296" using unat_u32_less [of "f_size f"] by linarith
  then have "unat (i + 1) = unat i + 1" by (simp add: unat_word_ariths)
  moreover have "unat (f_size f') \<le> unat (f_size f)"
    using p by (auto simp: fifo_pop_def unat_minus_one word_gt_0 split: option.splits if_splits)
  ultimately show "unat (f_size f') - unat (i + 1) < unat (f_size f) - unat i"
    using lt by (simp add: word_less_nat_alt)
qed

declare fifo_destroy_loop.simps [simp del]

definition fifo_destroy :: "'a fifo_t \<Rightarrow> 'a fifo_t option" where
  "fifo_destroy f = fifo_destroy_loop 0 f"

subsection \<open>The list the cells represent\<close>

fun chain :: "(addr \<Rightarrow> ('a \<times> addr option) option) \<Rightarrow> addr option \<Rightarrow> addr list \<Rightarrow> 'a list \<Rightarrow> bool" where
  "chain cs p [] xs \<longleftrightarrow> p = None \<and> xs = []"
| "chain cs p (a # as) [] \<longleftrightarrow> False"
| "chain cs p (a # as) (x # xs) \<longleftrightarrow> p = Some a \<and> (\<exists>n. cs a = Some (x, n) \<and> chain cs n as xs)"

definition fifo_rep :: "'a fifo_t \<Rightarrow> addr list \<Rightarrow> 'a list \<Rightarrow> bool" where
  "fifo_rep f as xs \<longleftrightarrow> chain (f_cells f) (f_head f) as xs \<and> distinct as \<and>
     unat (f_size f) = length as \<and> length as \<le> unat (f_max_size f) \<and>
     f_tail f = (if as = [] then None else Some (last as)) \<and>
     (\<forall>a. f_cells f a \<noteq> None \<longleftrightarrow> a \<in> set as) \<and> (\<forall>a \<in> set as. a < f_fresh f)"

definition fifo_inv :: "'a fifo_t \<Rightarrow> bool" where
  "fifo_inv f \<longleftrightarrow> (\<exists>as xs. fifo_rep f as xs)"

fun walk :: "nat \<Rightarrow> (addr \<Rightarrow> ('a \<times> addr option) option) \<Rightarrow> addr option \<Rightarrow> 'a list" where
  "walk (Suc n) cs (Some a) = (case cs a of Some (x, nxt) \<Rightarrow> x # walk n cs nxt | None \<Rightarrow> [])"
| "walk _ cs _ = []"

definition fifo_abs :: "'a fifo_t \<Rightarrow> 'a list" where
  "fifo_abs f = walk (unat (f_size f)) (f_cells f) (f_head f)"

lemma chain_length: "chain cs p as xs \<Longrightarrow> length xs = length as"
  by (induction cs p as xs rule: chain.induct) auto

lemma chain_walk: "chain cs p as xs \<Longrightarrow> walk (length as) cs p = xs"
  by (induction cs p as xs rule: chain.induct) auto

lemma rep_abs: "fifo_rep f as xs \<Longrightarrow> fifo_abs f = xs"
  by (simp add: fifo_rep_def fifo_abs_def chain_walk)

lemma chain_upd: "a \<notin> set as \<Longrightarrow> chain (cs(a := c)) p as xs \<longleftrightarrow> chain cs p as xs"
  by (induction cs p as xs rule: chain.induct) auto

lemma chain_snoc:
  "chain cs p as xs \<Longrightarrow> as \<noteq> [] \<Longrightarrow> distinct as \<Longrightarrow> a \<notin> set as \<Longrightarrow> cs (last as) = Some (e, n) \<Longrightarrow>
   chain (cs(a := Some (d, None), last as := Some (e, Some a))) p (as @ [a]) (xs @ [d])"
proof (induction cs p as xs rule: chain.induct)
  case (3 cs p b as x xs)
  show ?case
  proof (cases "as = []")
    case True
    then show ?thesis using "3.prems" by (auto dest: chain_length)
  next
    case False
    then have "b \<noteq> last as" "last (b # as) = last as" using "3.prems" by auto
    moreover obtain m where "cs b = Some (x, m)" "chain cs m as xs" using "3.prems" by auto
    ultimately show ?thesis using "3.IH" [of m] "3.prems" False by auto
  qed
qed auto

subsection \<open>Operations on the represented list\<close>

lemma init_rep: "fifo_rep (fifo_init n) [] []"
  by (simp add: fifo_rep_def fifo_init_def)

lemma pop_rep_Cons:
  assumes "fifo_rep f (a # as) (x # xs)"
  shows "\<exists>f'. fifo_pop f = Some (Some x, f') \<and> fifo_rep f' as xs \<and> f_max_size f' = f_max_size f"
proof -
  obtain n where h: "f_head f = Some a" "f_cells f a = Some (x, n)" "chain (f_cells f) n as xs"
    using assms by (auto simp: fifo_rep_def)
  have sz: "unat (f_size f) = Suc (length as)" and t: "f_tail f = Some (last (a # as))"
    using assms by (simp_all add: fifo_rep_def)
  have pos: "f_size f > 0" using sz by (metis unat_gt_0 word_gt_0 zero_less_Suc)
  have one: "f_size f = 1 \<longleftrightarrow> as = []" using sz by (metis One_nat_def length_0_conv old.nat.inject unat_1 unsigned_word_eqI)
  have dec: "unat (f_size f - 1) = length as" using sz pos by (simp add: unat_minus_one word_gt_0)
  have p: "fifo_pop f = Some (Some x, f\<lparr>f_head := n, f_tail := (if as = [] then None else Some (last as)),
      f_cells := (f_cells f)(a := None), f_size := f_size f - 1\<rparr>)"
    using h t pos one by (simp add: fifo_pop_def)
  have d: "a \<notin> set as" "distinct as" using assms by (auto simp: fifo_rep_def)
  then show ?thesis
    using assms h dec by (subst p) (auto simp: fifo_rep_def chain_upd)
qed

lemma pop_rep_Nil: "fifo_rep f [] [] \<Longrightarrow> fifo_pop f = Some (None, f)"
  by (simp add: fifo_pop_def fifo_rep_def)

lemma push_rep_full:
  "fifo_rep f as xs \<Longrightarrow> length xs = unat (f_max_size f) \<Longrightarrow> fifo_push f (Some d) = Some f"
  by (auto simp: fifo_push_def fifo_rep_def dest!: chain_length intro: unsigned_word_eqI)

lemma push_rep_room:
  assumes r: "fifo_rep f as xs" and room: "length xs < unat (f_max_size f)"
  shows "\<exists>f' as'. fifo_push f (Some d) = Some f' \<and> fifo_rep f' as' (xs @ [d]) \<and>
     f_max_size f' = f_max_size f"
proof -
  let ?a = "f_fresh f"
  have len: "length xs = length as" and sz: "unat (f_size f) = length as"
    using r by (auto simp: fifo_rep_def dest: chain_length)
  have ne: "f_size f \<noteq> f_max_size f" using room len sz by auto
  have fresh: "?a \<notin> set as" using r by (auto simp: fifo_rep_def)
  have "unat (f_size f) + 1 < 4294967296"
    using room len sz unat_u32_less [of "f_max_size f"] by linarith
  then have inc: "unat (f_size f + 1) = length as + 1" using sz by (simp add: unat_word_ariths)
  show ?thesis
  proof (cases "as = []")
    case True
    then have z: "f_size f = 0" using sz by (simp add: unat_eq_0)
    have "xs = []" using len True by simp
    then have "fifo_rep (f\<lparr>f_cells := (f_cells f)(?a := Some (d, None)), f_fresh := ?a + 1,
        f_head := Some ?a, f_tail := Some ?a, f_size := f_size f + 1\<rparr>) [?a] (xs @ [d])"
      using r True inc room by (auto simp: fifo_rep_def)
    then show ?thesis using ne z by (auto simp: fifo_push_def Let_def)
  next
    case False
    then have nz: "f_size f \<noteq> 0" using sz by auto
    have t: "f_tail f = Some (last as)" using r False by (simp add: fifo_rep_def)
    have "last as \<in> set as" using False by simp
    then obtain e n where e: "f_cells f (last as) = Some (e, n)"
      using r by (fastforce simp: fifo_rep_def)
    have la: "last as \<noteq> ?a" using fresh \<open>last as \<in> set as\<close> by metis
    let ?cs = "(f_cells f)(?a := Some (d, None), last as := Some (e, Some ?a))"
    have "chain ?cs (f_head f) (as @ [?a]) (xs @ [d])"
      using r False fresh e by (intro chain_snoc) (auto simp: fifo_rep_def)
    then have "fifo_rep (f\<lparr>f_cells := ?cs, f_fresh := ?a + 1, f_tail := Some ?a,
        f_size := f_size f + 1\<rparr>) (as @ [?a]) (xs @ [d])"
      using r False inc room len fresh la by (auto simp: fifo_rep_def)
    then show ?thesis using ne nz t e la by (auto simp: fifo_push_def Let_def)
  qed
qed

subsection \<open>The interface\<close>

locale queue =
  fixes push :: "'q \<Rightarrow> 'a option \<Rightarrow> 'q option"
    and pop :: "'q \<Rightarrow> ('a option \<times> 'q) option"
    and len :: "'q \<Rightarrow> nat"
    and bound :: "'q \<Rightarrow> nat"
    and abs :: "'q \<Rightarrow> 'a list"
    and inv :: "'q \<Rightarrow> bool"
  assumes push_null: "inv q \<Longrightarrow> push q None = Some q"
    and push_some: "inv q \<Longrightarrow> \<exists>q'. push q (Some x) = Some q' \<and> inv q' \<and> bound q' = bound q \<and>
      abs q' = (if length (abs q) < bound q then abs q @ [x] else abs q)"
    and pop_spec: "inv q \<Longrightarrow> \<exists>q'. inv q' \<and> bound q' = bound q \<and>
      (case abs q of [] \<Rightarrow> pop q = Some (None, q') \<and> abs q' = []
       | x # xs \<Rightarrow> pop q = Some (Some x, q') \<and> abs q' = xs)"
    and len_abs: "inv q \<Longrightarrow> len q = length (abs q)"
    and bounded: "inv q \<Longrightarrow> length (abs q) \<le> bound q"
begin

fun push_list :: "'q \<Rightarrow> 'a list \<Rightarrow> 'q option" where
  "push_list q [] = Some q"
| "push_list q (x # xs) = (case push q (Some x) of None \<Rightarrow> None | Some q' \<Rightarrow> push_list q' xs)"

fun pop_list :: "nat \<Rightarrow> 'q \<Rightarrow> ('a option list \<times> 'q) option" where
  "pop_list 0 q = Some ([], q)"
| "pop_list (Suc n) q =
     (case pop q of None \<Rightarrow> None
      | Some (x, q') \<Rightarrow> (case pop_list n q' of None \<Rightarrow> None | Some (ys, q'') \<Rightarrow> Some (x # ys, q'')))"

text \<open>Pushing a batch keeps what fits; popping returns the oldest elements in order.\<close>

lemma push_list_spec:
  "inv q \<Longrightarrow> \<exists>q'. push_list q xs = Some q' \<and> inv q' \<and> bound q' = bound q \<and>
     abs q' = abs q @ take (bound q - length (abs q)) xs"
proof (induction xs arbitrary: q)
  case (Cons x xs)
  obtain q1 where q1: "push q (Some x) = Some q1" "inv q1" "bound q1 = bound q"
    "abs q1 = (if length (abs q) < bound q then abs q @ [x] else abs q)"
    using push_some [OF Cons.prems, of x] by blast
  obtain q2 where "push_list q1 xs = Some q2" "inv q2" "bound q2 = bound q1"
    "abs q2 = abs q1 @ take (bound q1 - length (abs q1)) xs"
    using Cons.IH [OF q1(2)] by blast
  then show ?case using q1 by (auto simp: take_Cons')
qed simp

lemma pop_list_spec:
  "inv q \<Longrightarrow> n \<le> length (abs q) \<Longrightarrow>
   \<exists>q'. pop_list n q = Some (map Some (take n (abs q)), q') \<and> inv q' \<and> bound q' = bound q \<and>
     abs q' = drop n (abs q)"
proof (induction n arbitrary: q)
  case (Suc n)
  then obtain x xs where a: "abs q = x # xs" by (cases "abs q") auto
  obtain q1 where "pop q = Some (Some x, q1)" "inv q1" "bound q1 = bound q" "abs q1 = xs"
    using pop_spec [OF Suc.prems(1)] a by auto
  then show ?case using Suc.IH [of q1] Suc.prems(2) a by auto
qed auto

lemma fifo_order:
  assumes "inv q" and "abs q = []" and "length xs \<le> bound q"
  shows "\<exists>q' q''. push_list q xs = Some q' \<and> pop_list (length xs) q' = Some (map Some xs, q'') \<and>
     abs q'' = []"
proof -
  obtain q' where q': "push_list q xs = Some q'" "inv q'" "abs q' = xs"
    using push_list_spec [OF assms(1), of xs] assms(2,3) by auto
  then show ?thesis using pop_list_spec [OF q'(2), of "length xs"] by auto
qed

end

text \<open>Any sequence of operations, with what the removals returned, follows the bounded list.\<close>

datatype 'a queue_op = Push "'a option" | Pop

fun queue_step ::
  "('q \<Rightarrow> 'a option \<Rightarrow> 'q option) \<Rightarrow> ('q \<Rightarrow> ('a option \<times> 'q) option) \<Rightarrow> 'a queue_op \<Rightarrow>
   'q \<times> 'a option list \<Rightarrow> ('q \<times> 'a option list) option" where
  "queue_step push pop (Push x) (q, out) = do { q \<leftarrow> push q x; Some (q, out) }"
| "queue_step push pop Pop (q, out) = do { (x, q) \<leftarrow> pop q; Some (q, out @ [x]) }"

fun list_step :: "nat \<Rightarrow> 'a queue_op \<Rightarrow> 'a list \<times> 'a option list \<Rightarrow> 'a list \<times> 'a option list" where
  "list_step n (Push None) (xs, out) = (xs, out)"
| "list_step n (Push (Some x)) (xs, out) = (if length xs < n then xs @ [x] else xs, out)"
| "list_step n Pop ([], out) = ([], out @ [None])"
| "list_step n Pop (x # xs, out) = (xs, out @ [Some x])"

sublocale queue \<subseteq> runs: simulation "queue_step push pop" "\<lambda>(q, out). inv q \<and> bound q = n"
  "\<lambda>(q, out). (abs q, out)" "list_step n" "\<lambda>_ _. True" for n
proof
  fix s :: "'q \<times> 'a option list" and x
  assume s: "case s of (q, out) \<Rightarrow> inv q \<and> bound q = n"
  obtain q out where q: "s = (q, out)" "inv q" "bound q = n" using s by (cases s) auto
  have "\<exists>q' out'. queue_step push pop x (q, out) = Some (q', out') \<and> inv q' \<and> bound q' = n \<and>
      (abs q', out') = list_step n x (abs q, out)"
  proof (cases x)
    case (Push y)
    show ?thesis
    proof (cases y)
      case None
      then show ?thesis using q push_null [OF q(2)] Push by simp
    next
      case (Some v)
      obtain q' where "push q (Some v) = Some q'" "inv q'" "bound q' = bound q"
        "abs q' = (if length (abs q) < bound q then abs q @ [v] else abs q)"
        using push_some [OF q(2), of v] by blast
      then show ?thesis using q Push Some by simp
    qed
  next
    case Pop
    obtain q' where "inv q'" "bound q' = bound q" "case abs q of [] \<Rightarrow> pop q = Some (None, q') \<and> abs q' = []
        | x # xs \<Rightarrow> pop q = Some (Some x, q') \<and> abs q' = xs"
      using pop_spec [OF q(2)] by blast
    then show ?thesis using q Pop by (cases "abs q") simp_all
  qed
  then show "\<exists>s'. queue_step push pop x s = Some s' \<and> (case s' of (q, out) \<Rightarrow> inv q \<and> bound q = n) \<and>
      (case s' of (q, out) \<Rightarrow> (abs q, out)) = list_step n x (case s of (q, out) \<Rightarrow> (abs q, out))"
    using q(1) by auto
qed

lemma fifo_push_spec:
  assumes "fifo_inv f"
  shows "\<exists>f'. fifo_push f (Some x) = Some f' \<and> fifo_inv f' \<and> f_max_size f' = f_max_size f \<and>
    fifo_abs f' = (if length (fifo_abs f) < unat (f_max_size f) then fifo_abs f @ [x] else fifo_abs f)"
proof -
  obtain as xs where r: "fifo_rep f as xs" using assms by (auto simp: fifo_inv_def)
  have le: "length xs \<le> unat (f_max_size f)"
    using r by (auto simp: fifo_rep_def dest: chain_length)
  show ?thesis
  proof (cases "length xs < unat (f_max_size f)")
    case True
    then obtain f' as' where f': "fifo_push f (Some x) = Some f'" "fifo_rep f' as' (xs @ [x])"
      "f_max_size f' = f_max_size f"
      using push_rep_room [OF r True] by blast
    then show ?thesis using True rep_abs [OF r] rep_abs [OF f'(2)] by (auto simp: fifo_inv_def)
  next
    case False
    then have "fifo_push f (Some x) = Some f" using push_rep_full [OF r] le by simp
    then show ?thesis using False rep_abs [OF r] assms by auto
  qed
qed

lemma fifo_pop_spec:
  assumes "fifo_inv f"
  shows "\<exists>f'. fifo_inv f' \<and> f_max_size f' = f_max_size f \<and>
    (case fifo_abs f of [] \<Rightarrow> fifo_pop f = Some (None, f') \<and> fifo_abs f' = []
     | x # xs \<Rightarrow> fifo_pop f = Some (Some x, f') \<and> fifo_abs f' = xs)"
proof -
  obtain as xs where r: "fifo_rep f as xs" using assms by (auto simp: fifo_inv_def)
  have len: "length xs = length as" using r by (auto simp: fifo_rep_def dest: chain_length)
  show ?thesis
  proof (cases xs)
    case Nil
    then have "fifo_pop f = Some (None, f)" using pop_rep_Nil [of f] r len by simp
    then show ?thesis using Nil rep_abs [OF r] assms by auto
  next
    case (Cons y ys)
    then obtain a bs where "as = a # bs" using len by (cases as) auto
    then obtain f' where f': "fifo_pop f = Some (Some y, f')" "fifo_rep f' bs ys"
      "f_max_size f' = f_max_size f"
      using pop_rep_Cons [of f a bs y ys] r Cons by auto
    then show ?thesis using Cons rep_abs [OF r] rep_abs [OF f'(2)] by (auto simp: fifo_inv_def)
  qed
qed

lemma fifo_len: "fifo_inv f \<Longrightarrow> unat (fifo_get_size f) = length (fifo_abs f)"
proof -
  assume "fifo_inv f"
  then obtain as xs where r: "fifo_rep f as xs" by (auto simp: fifo_inv_def)
  then show ?thesis
    by (simp add: rep_abs [OF r]) (auto simp: fifo_rep_def fifo_get_size_def dest: chain_length)
qed

lemma fifo_bounded: "fifo_inv f \<Longrightarrow> length (fifo_abs f) \<le> unat (f_max_size f)"
  using fifo_len [of f] by (auto simp: fifo_inv_def fifo_rep_def fifo_get_size_def)

interpretation fifo: queue fifo_push fifo_pop "\<lambda>f. unat (fifo_get_size f)"
  "\<lambda>f. unat (f_max_size f)" fifo_abs fifo_inv
proof
  fix q :: "'a fifo_t" and x
  assume q: "fifo_inv q"
  show "fifo_push q None = Some q" by (simp add: fifo_push_def)
  show "\<exists>q'. fifo_push q (Some x) = Some q' \<and> fifo_inv q' \<and> unat (f_max_size q') = unat (f_max_size q) \<and>
      fifo_abs q' = (if length (fifo_abs q) < unat (f_max_size q) then fifo_abs q @ [x] else fifo_abs q)"
    using fifo_push_spec [OF q, of x] by auto
  show "\<exists>q'. fifo_inv q' \<and> unat (f_max_size q') = unat (f_max_size q) \<and>
      (case fifo_abs q of [] \<Rightarrow> fifo_pop q = Some (None, q') \<and> fifo_abs q' = []
       | x # xs \<Rightarrow> fifo_pop q = Some (Some x, q') \<and> fifo_abs q' = xs)"
    using fifo_pop_spec [OF q] by auto
qed (auto simp: fifo_len fifo_bounded)

lemma fifo_init_inv: "fifo_inv (fifo_init n)" and fifo_init_abs: "fifo_abs (fifo_init n) = []"
  using init_rep [of n] rep_abs [OF init_rep [of n]] by (auto simp: fifo_inv_def)

lemma fifo_init_max [simp]: "f_max_size (fifo_init n) = n"
  by (simp add: fifo_init_def)

subsection \<open>Destruction\<close>

lemma destroy_loop_spec:
  "fifo_inv f \<Longrightarrow> \<exists>f'. fifo_destroy_loop i f = Some f' \<and> fifo_inv f' \<and>
     fifo_abs f' = drop (Suc (length (fifo_abs f) - unat i) div 2) (fifo_abs f)"
proof (induction i f rule: fifo_destroy_loop.induct)
  case (1 i f)
  have len: "unat (f_size f) = length (fifo_abs f)"
    using fifo_len [OF "1.prems"] by (simp add: fifo_get_size_def)
  show ?case
  proof (cases "i < f_size f")
    case False
    then have "length (fifo_abs f) - unat i = 0" using len by (simp add: word_less_nat_alt)
    then show ?thesis using False "1.prems" by (subst fifo_destroy_loop.simps) simp
  next
    case True
    then have lt: "unat i < length (fifo_abs f)" using len by (simp add: word_less_nat_alt)
    then obtain x xs where a: "fifo_abs f = x # xs" by (cases "fifo_abs f") auto
    obtain f1 where f1: "fifo_inv f1" "fifo_pop f = Some (Some x, f1)" "fifo_abs f1 = xs"
      using fifo_pop_spec [OF "1.prems"] a by auto
    have i1: "unat (i + 1) = unat i + 1"
    proof -
      have "unat i + 1 < 4294967296" using lt len unat_u32_less [of "f_size f"] by linarith
      then show ?thesis by (simp add: unat_word_ariths)
    qed
    obtain f2 where "fifo_destroy_loop (i + 1) f1 = Some f2" "fifo_inv f2"
      "fifo_abs f2 = drop (Suc (length xs - (unat i + 1)) div 2) xs"
      using "1.IH" [OF True f1(2) refl f1(1)] f1(3) i1 by auto
    moreover have "Suc (length (x # xs) - unat i) div 2 = Suc (Suc (length xs - (unat i + 1)) div 2)"
      if "unat i < length xs"
      using that by simp
    moreover have "Suc (length (x # xs) - unat i) div 2 = 1" if "unat i = length xs"
      using that by simp
    ultimately show ?thesis
      using True f1(2) lt a by (subst fifo_destroy_loop.simps) (cases "unat i = length xs"; auto)
  qed
qed

end
