(* ===== verification/Rasta_State.thy ===== *)
theory Rasta_State
  imports Fifo
begin

section \<open>RaSTA connections and their list (rastalist.h, rastalist.c)\<close>

text \<open>
  The record of one safety-and-retransmission connection and the growing array that holds
  the connections of a node. A byte array of the C code (pointer and length) is the list of
  its bytes. The list of connections is the used part of the array with its capacity; a
  pointer to a connection is its index.
\<close>

datatype rasta_role = RASTA_ROLE_CLIENT | RASTA_ROLE_SERVER

datatype rasta_sr_state =
    RASTA_CONNECTION_CLOSED | RASTA_CONNECTION_DOWN | RASTA_CONNECTION_START
  | RASTA_CONNECTION_UP | RASTA_CONNECTION_RETRREQ | RASTA_CONNECTION_RETRRUN

record rasta_error_counters =
  err_safety :: u32
  err_address :: u32
  err_type :: u32
  err_sn :: u32
  err_cs :: u32

record diagnostic_interval =
  interval_start :: u32
  interval_end :: u32
  message_count :: u32
  t_alive_message_count :: u32

record rastaApplicationMessage =
  app_id :: u64
  appMessage :: "u8 list"

record rasta_connection =
  ts_last_message :: u32
  hb_stopped :: bool
  is_sending :: bool
  hb_locked :: bool
  current_state :: rasta_sr_state
  fifo_app_msg :: "rastaApplicationMessage fifo_t"
  fifo_send :: "(u8 list) fifo_t"
  connected_recv_buffer_size :: int
  role :: rasta_role
  sn_t :: u32
  sn_r :: u32
  cs_t :: u32
  cs_r :: u32
  ts_r :: u32
  cts_r :: u32
  t_i :: u32
  ti_start_time :: u32
  my_id :: u32
  remote_id :: u32
  network_id :: u32
  received_diagnostic_message_count :: u32
  diagnostic_intervals :: "diagnostic_interval list"
  fifo_retr :: "(u8 list) fifo_t"
  errors :: rasta_error_counters

record RastaList =
  rl_data :: "rasta_connection list"
  rl_actual_size :: nat

definition rastalist_create :: "nat \<Rightarrow> RastaList" where
  "rastalist_create initial_size =
     \<lparr>rl_data = [], rl_actual_size = (if initial_size < 2 then 2 else initial_size)\<rparr>"

definition rastalist_change_size :: "RastaList \<Rightarrow> nat \<Rightarrow> RastaList" where
  "rastalist_change_size l n = \<lparr>rl_data = take n (rl_data l), rl_actual_size = n\<rparr>"

definition rastalist_addConnection :: "RastaList \<Rightarrow> rasta_connection \<Rightarrow> nat \<times> RastaList" where
  "rastalist_addConnection l item =
     (let l1 = (if rl_actual_size l \<le> length (rl_data l)
                then rastalist_change_size l (rl_actual_size l * 2) else l);
          l2 = l1\<lparr>rl_data := rl_data l1 @ [item]\<rparr>
      in (length (rl_data l2) - 1, l2))"

fun shift_down :: "rasta_connection list \<Rightarrow> nat \<Rightarrow> nat \<Rightarrow> rasta_connection list" where
  "shift_down d i 0 = d"
| "shift_down d i (Suc n) = shift_down (d[i := d ! (i + 1)]) (i + 1) n"

definition rastalist_remove :: "RastaList \<Rightarrow> nat \<Rightarrow> RastaList" where
  "rastalist_remove l idx =
     (if length (rl_data l) \<le> idx then l
      else let d = shift_down (rl_data l) idx (length (rl_data l) - 1 - idx)
           in l\<lparr>rl_data := take (length (rl_data l) - 1) d\<rparr>)"

definition rastalist_count :: "RastaList \<Rightarrow> nat" where
  "rastalist_count l = length (rl_data l)"

definition rastalist_getConnection :: "RastaList \<Rightarrow> nat \<Rightarrow> nat option" where
  "rastalist_getConnection l idx = (if idx < length (rl_data l) then Some idx else None)"

fun connection_id_loop :: "rasta_connection list \<Rightarrow> nat \<Rightarrow> u64 \<Rightarrow> nat option" where
  "connection_id_loop [] i rid = None"
| "connection_id_loop (c # cs) i rid =
     (if ucast (remote_id c) = rid then Some i else connection_id_loop cs (i + 1) rid)"

definition rastalist_getConnectionId :: "RastaList \<Rightarrow> u64 \<Rightarrow> nat option" where
  "rastalist_getConnectionId l rid = connection_id_loop (rl_data l) 0 rid"

definition rastalist_getConnectionByRemote :: "RastaList \<Rightarrow> u64 \<Rightarrow> nat option" where
  "rastalist_getConnectionByRemote l rid =
     (case rastalist_getConnectionId l rid of
        Some idx \<Rightarrow> rastalist_getConnection l idx
      | None \<Rightarrow> None)"

definition rastalist_free :: "RastaList \<Rightarrow> RastaList" where
  "rastalist_free l =
     (if rl_actual_size l \<noteq> 0 then \<lparr>rl_data = [], rl_actual_size = 0\<rparr> else l)"

subsection \<open>The list as a list\<close>

definition rl_inv :: "RastaList \<Rightarrow> bool" where
  "rl_inv l \<longleftrightarrow> length (rl_data l) \<le> rl_actual_size l \<and> 2 \<le> rl_actual_size l"

lemma create_inv: "rl_inv (rastalist_create n)"
  by (simp add: rl_inv_def rastalist_create_def)

lemma add_spec:
  assumes "rl_inv l" and "rastalist_addConnection l c = (i, l')"
  shows "rl_inv l'" and "rl_data l' = rl_data l @ [c]" and "i = length (rl_data l)"
    and "rastalist_getConnection l' i = Some i"
  using assms
  by (auto simp: rastalist_addConnection_def rl_inv_def rastalist_change_size_def
      rastalist_getConnection_def Let_def split: if_splits)

lemma shift_down_spec:
  "i + n < length d \<Longrightarrow>
   shift_down d i n = take i d @ take n (drop (i + 1) d) @ drop (i + n) d"
proof (induction n arbitrary: d i)
  case 0
  then show ?case by simp
next
  case (Suc n)
  let ?d = "d[i := d ! (i + 1)]"
  have "shift_down ?d (i + 1) n = take (i + 1) ?d @ take n (drop (i + 2) ?d) @ drop (i + 1 + n) ?d"
    using Suc.IH [of "i + 1" ?d] Suc.prems by simp
  moreover have "take (i + 1) ?d = take i d @ [d ! (i + 1)]"
    using Suc.prems by (simp add: take_Suc_conv_app_nth)
  moreover have "drop (i + 2) ?d = drop (i + 2) d" "drop (i + 1 + n) ?d = drop (i + 1 + n) d"
    by simp_all
  moreover have "drop (i + 1) d = d ! (i + 1) # drop (i + 2) d"
    using Suc.prems Cons_nth_drop_Suc [of "i + 1" d] by simp
  ultimately show ?case by simp
qed

lemma remove_spec:
  assumes "idx < length (rl_data l)"
  shows "rl_data (rastalist_remove l idx) = take idx (rl_data l) @ drop (idx + 1) (rl_data l)"
proof -
  let ?d = "rl_data l" let ?n = "length ?d - 1 - idx"
  have "shift_down ?d idx ?n = take idx ?d @ take ?n (drop (idx + 1) ?d) @ drop (idx + ?n) ?d"
    using assms by (intro shift_down_spec) auto
  then show ?thesis using assms by (simp add: rastalist_remove_def Let_def)
qed

lemma connection_id_loop_spec:
  "connection_id_loop cs k rid = Some i \<longleftrightarrow>
     (\<exists>j. i = k + j \<and> j < length cs \<and> ucast (remote_id (cs ! j)) = rid \<and>
        (\<forall>j' < j. ucast (remote_id (cs ! j')) \<noteq> rid))"
proof (induction cs arbitrary: k)
  case (Cons c cs)
  show ?case
  proof (cases "ucast (remote_id c) = rid")
    case True
    then show ?thesis by (auto simp: nth_Cons' intro: exI [of _ 0])
  next
    case False
    have "(\<exists>j. i = k + j \<and> j < length (c # cs) \<and> ucast (remote_id ((c # cs) ! j)) = rid \<and>
        (\<forall>j' < j. ucast (remote_id ((c # cs) ! j')) \<noteq> rid)) \<longleftrightarrow>
      (\<exists>j. i = k + 1 + j \<and> j < length cs \<and> ucast (remote_id (cs ! j)) = rid \<and>
        (\<forall>j' < j. ucast (remote_id (cs ! j')) \<noteq> rid))" (is "?L \<longleftrightarrow> ?R")
    proof
      assume ?L
      then obtain j where j: "i = k + j" "j < length (c # cs)" "ucast (remote_id ((c # cs) ! j)) = rid"
        "\<forall>j' < j. ucast (remote_id ((c # cs) ! j')) \<noteq> rid" by blast
      then obtain m where m: "j = Suc m" using False by (cases j) auto
      have "\<forall>j' < m. ucast (remote_id (cs ! j')) \<noteq> rid" using j(4) m by fastforce
      then show ?R using j m by auto
    next
      assume ?R
      then obtain j where j: "i = k + 1 + j" "j < length cs" "ucast (remote_id (cs ! j)) = rid"
        "\<forall>j' < j. ucast (remote_id (cs ! j')) \<noteq> rid" by blast
      then show ?L using False by (intro exI [of _ "Suc j"]) (auto simp: nth_Cons' less_Suc_eq_0_disj)
    qed
    then show ?thesis using Cons.IH [of "k + 1"] False by simp
  qed
qed simp

lemma get_by_remote_spec:
  "rastalist_getConnectionByRemote l rid = Some i \<longleftrightarrow>
     i < length (rl_data l) \<and> ucast (remote_id (rl_data l ! i)) = rid \<and>
     (\<forall>j < i. ucast (remote_id (rl_data l ! j)) \<noteq> rid)"
  using connection_id_loop_spec [of "rl_data l" 0 rid i]
  by (auto simp: rastalist_getConnectionByRemote_def rastalist_getConnectionId_def
      rastalist_getConnection_def split: option.splits dest: connection_id_loop_spec [THEN iffD1])

end
