(* ===== verification/Pdi.thy ===== *)
theory Pdi
  imports Pdi_Config Ixl_Adapter Rasta_State
begin

section \<open>The process data interface of the Cloud IXL (main.c)\<close>

text \<open>
  The state machine that establishes the SCI-LS dialogue with the object controller and
  supervises one signal command at a time. The global variables \<open>pdi_state\<close>,
  \<open>expected_signal_aspect_payload\<close> and \<open>scils\<close> are the record \<open>pdi_t\<close>; each section
  under \<open>confirmation_lock\<close> is one function on it. \<open>Option\<close> results are \<open>None\<close> where the
  C code would have undefined behaviour.
\<close>

datatype CloudIxlPdiState =
    PDI_DISCONNECTED | PDI_WAIT_RASTA_HANDSHAKE | PDI_WAIT_VERSION_RESPONSE
  | PDI_WAIT_INITIALISATION_START | PDI_RECEIVING_INITIAL_STATUS | PDI_ESTABLISHED
  | PDI_WAIT_CONFIRMATION | PDI_COMMAND_CONFIRMED | PDI_COMMAND_MISMATCH
  | PDI_COMMAND_REJECTED | PDI_FAILED

definition PDI_VERSION :: u8 where "PDI_VERSION = 0x05"
definition OC_RASTA_ID :: u64 where "OC_RASTA_ID = 0x61"
definition OC_SCI_NAME :: cstring where "OC_SCI_NAME = cstr ''LS_OC''"
definition IXL_SCI_NAME :: cstring where "IXL_SCI_NAME = cstr ''IXL_CENTRAL''"
definition DEFAULT_SIGNAL_LUMINOSITY :: u8 where
  "DEFAULT_SIGNAL_LUMINOSITY = SCI_LS_ICD_LUMINOSITY_DAY"

record pdi_t =
  pdi_state :: CloudIxlPdiState
  expected_bytes :: "u8 list"
  pdi_scils :: "scils_t option"

subsection \<open>Header checks and state predicates\<close>

definition sci_name_matches :: "u8 list option \<Rightarrow> cstring option \<Rightarrow> bool option" where
  "sci_name_matches field expected_name =
     (case (field, expected_name) of
        (Some f, Some n) \<Rightarrow>
          let expected_length = strlen n
          in if SCI_NAME_LENGTH < expected_length then Some False
             else do {
               prefix \<leftarrow> buf_read f 0 expected_length;
               rest \<leftarrow> buf_read f expected_length (SCI_NAME_LENGTH - expected_length);
               Some (prefix = n \<and> (\<forall>b \<in> set rest. b = SCI_NAME_PADDING_CHAR)) }
      | _ \<Rightarrow> Some False)"

definition is_expected_oc_to_ixl_header :: "sci_telegram option \<Rightarrow> bool option" where
  "is_expected_oc_to_ixl_header telegram =
     (case telegram of
        None \<Rightarrow> Some False
      | Some t \<Rightarrow>
          if t_protocol t \<noteq> SCI_PROTOCOL_LS then Some False
          else do {
            s \<leftarrow> sci_name_matches (Some (t_sender t)) (Some OC_SCI_NAME);
            if \<not> s then Some False
            else sci_name_matches (Some (t_receiver t)) (Some IXL_SCI_NAME) })"

definition is_empty_payload_common_message :: "u16 \<Rightarrow> bool" where
  "is_empty_payload_common_message m \<longleftrightarrow>
     m = SCI_MESSAGE_TYPE_STATUS_BEGIN \<or> m = SCI_MESSAGE_TYPE_STATUS_FINISH"

definition is_pdi_establishment_terminal :: "CloudIxlPdiState \<Rightarrow> bool" where
  "is_pdi_establishment_terminal s \<longleftrightarrow> s = PDI_ESTABLISHED \<or> s = PDI_FAILED"

definition is_signal_command_result :: "CloudIxlPdiState \<Rightarrow> bool" where
  "is_signal_command_result s \<longleftrightarrow>
     s = PDI_COMMAND_CONFIRMED \<or> s = PDI_COMMAND_MISMATCH \<or> s = PDI_COMMAND_REJECTED"

definition is_luminosity_status_allowed :: "CloudIxlPdiState \<Rightarrow> bool" where
  "is_luminosity_status_allowed s \<longleftrightarrow>
     s = PDI_RECEIVING_INITIAL_STATUS \<or> s = PDI_ESTABLISHED \<or> s = PDI_WAIT_CONFIRMATION \<or>
     s = PDI_COMMAND_CONFIRMED \<or> s = PDI_COMMAND_MISMATCH \<or> s = PDI_COMMAND_REJECTED"

subsection \<open>Sections under the confirmation lock\<close>

definition set_pdi_state :: "CloudIxlPdiState \<Rightarrow> pdi_t \<Rightarrow> pdi_t" where
  "set_pdi_state s p = p\<lparr>pdi_state := s\<rparr>"

definition begin_signal_confirmation :: "pdi_t \<Rightarrow> bool \<times> pdi_t" where
  "begin_signal_confirmation p =
     (let started = (pdi_state p = PDI_ESTABLISHED)
      in (started, if started then set_pdi_state PDI_WAIT_CONFIRMATION p else p))"

definition require_pdi_state :: "CloudIxlPdiState \<Rightarrow> pdi_t \<Rightarrow> bool \<times> pdi_t" where
  "require_pdi_state expected p =
     (let valid = (pdi_state p = expected)
      in (valid, if valid then p else set_pdi_state PDI_FAILED p))"

definition transition_pdi_state ::
  "CloudIxlPdiState \<Rightarrow> CloudIxlPdiState \<Rightarrow> pdi_t \<Rightarrow> bool \<times> pdi_t" where
  "transition_pdi_state expected next p =
     (let transitioned = (pdi_state p = expected)
      in (transitioned, set_pdi_state (if transitioned then next else PDI_FAILED) p))"

definition fail_pending_signal_confirmation :: "pdi_t \<Rightarrow> pdi_t" where
  "fail_pending_signal_confirmation p = set_pdi_state PDI_FAILED p"

definition complete_signal_command :: "CloudIxlPdiState \<Rightarrow> pdi_t \<Rightarrow> pdi_t" where
  "complete_signal_command outcome p =
     (if pdi_state p \<noteq> PDI_WAIT_CONFIRMATION \<or> \<not> is_signal_command_result outcome
      then set_pdi_state PDI_FAILED p
      else set_pdi_state outcome p)"

text \<open>
  The waits of the main thread. \<open>pthread_cond_timedwait\<close> reports nothing, a timeout or
  another error; the function says what the waiting thread does with the state it finds
  when it holds the lock again: \<open>None\<close> means it waits on.
\<close>

datatype wait_result = WAIT_WOKEN | WAIT_ETIMEDOUT | WAIT_ERROR

definition wait_for_pdi_establishment ::
  "wait_result \<Rightarrow> pdi_t \<Rightarrow> (CloudIxlPdiState \<times> pdi_t) option" where
  "wait_for_pdi_establishment w p =
     (case w of
        WAIT_WOKEN \<Rightarrow>
          if is_pdi_establishment_terminal (pdi_state p) then Some (pdi_state p, p) else None
      | _ \<Rightarrow> let p' = set_pdi_state PDI_FAILED p in Some (pdi_state p', p'))"

definition wait_for_signal_confirmation ::
  "wait_result \<Rightarrow> pdi_t \<Rightarrow> (CloudIxlPdiState \<times> pdi_t) option" where
  "wait_for_signal_confirmation w p =
     (let woken = (\<lambda>q. let result = pdi_state q
                       in (result, if is_signal_command_result result
                                   then set_pdi_state PDI_ESTABLISHED q else q))
      in case w of
           WAIT_WOKEN \<Rightarrow> if pdi_state p = PDI_WAIT_CONFIRMATION then None else Some (woken p)
         | _ \<Rightarrow> Some (woken (fail_pending_signal_confirmation p)))"

subsection \<open>Callbacks of the RaSTA layer\<close>

definition on_rasta_handshake :: "u64 \<Rightarrow> pdi_t \<Rightarrow> pdi_t option" where
  "on_rasta_handshake remote p =
     (if remote \<noteq> OC_RASTA_ID then Some (set_pdi_state PDI_FAILED p)
      else
        let p1 = set_pdi_state PDI_WAIT_VERSION_RESPONSE p
        in case pdi_scils p1 of
             None \<Rightarrow> None
           | Some ls \<Rightarrow> do {
               (code, ls') \<leftarrow> scils_send_version_request ls OC_SCI_NAME PDI_VERSION;
               let p2 = p1\<lparr>pdi_scils := Some ls'\<rparr>
               in Some (if code \<noteq> SUCCESS then set_pdi_state PDI_FAILED p2 else p2) })"

definition handle_icd_execution_error :: "sci_ls_icd_execution_error \<Rightarrow> pdi_t \<Rightarrow> pdi_t" where
  "handle_icd_execution_error error p = complete_signal_command PDI_COMMAND_REJECTED p"

definition handle_icd_version_response ::
  "sci_ls_icd_version_response \<Rightarrow> pdi_t \<Rightarrow> pdi_t option" where
  "handle_icd_version_response response p =
     (let (valid, p1) = require_pdi_state PDI_WAIT_VERSION_RESPONSE p
      in if \<not> valid then Some p1
         else if requested_version response \<noteq> PDI_VERSION \<or>
                 supported_version response \<noteq> PDI_VERSION \<or>
                 icd_result response \<noteq> SCI_VERSION_CHECK_RESULT_VERSIONS_ARE_EQUAL
         then Some (set_pdi_state PDI_FAILED p1)
         else
           let p2 = set_pdi_state PDI_WAIT_INITIALISATION_START p1
           in case pdi_scils p2 of
                None \<Rightarrow> None
              | Some ls \<Rightarrow> do {
                  (code, ls') \<leftarrow> scils_send_status_request ls OC_SCI_NAME;
                  let p3 = p2\<lparr>pdi_scils := Some ls'\<rparr>
                  in Some (if code \<noteq> SUCCESS then set_pdi_state PDI_FAILED p3 else p3) })"

definition on_initialisation_start :: "u8 list \<Rightarrow> pdi_t \<Rightarrow> pdi_t" where
  "on_initialisation_start sndr p =
     snd (transition_pdi_state PDI_WAIT_INITIALISATION_START PDI_RECEIVING_INITIAL_STATUS p)"

definition on_initial_aspect_status :: "u8 list \<Rightarrow> pdi_t \<Rightarrow> pdi_t" where
  "on_initial_aspect_status payload p = snd (require_pdi_state PDI_RECEIVING_INITIAL_STATUS p)"

definition on_brightness_status :: "u8 \<Rightarrow> pdi_t \<Rightarrow> pdi_t" where
  "on_brightness_status brightness p =
     (if is_luminosity_status_allowed (pdi_state p) then p else set_pdi_state PDI_FAILED p)"

definition on_initialisation_completed :: "u8 list \<Rightarrow> pdi_t \<Rightarrow> pdi_t" where
  "on_initialisation_completed sndr p =
     snd (transition_pdi_state PDI_RECEIVING_INITIAL_STATUS PDI_ESTABLISHED p)"

definition on_connection_change :: "rasta_sr_state \<Rightarrow> pdi_t \<Rightarrow> pdi_t" where
  "on_connection_change st p =
     (case st of
        RASTA_CONNECTION_CLOSED \<Rightarrow>
          if pdi_state p = PDI_WAIT_CONFIRMATION \<or> pdi_state p = PDI_FAILED
          then fail_pending_signal_confirmation p
          else set_pdi_state PDI_DISCONNECTED p
      | RASTA_CONNECTION_DOWN \<Rightarrow>
          if pdi_state p = PDI_WAIT_CONFIRMATION then fail_pending_signal_confirmation p
          else set_pdi_state PDI_WAIT_RASTA_HANDSHAKE p
      | RASTA_CONNECTION_START \<Rightarrow>
          if pdi_state p = PDI_WAIT_CONFIRMATION then fail_pending_signal_confirmation p
          else set_pdi_state PDI_WAIT_RASTA_HANDSHAKE p
      | _ \<Rightarrow> p)"

definition on_timeout :: "pdi_t \<Rightarrow> pdi_t" where
  "on_timeout p = fail_pending_signal_confirmation p"

definition main_notifications :: "pdi_t scils_notification_ptr" where
  "main_notifications =
     \<lparr>on_version_request_received = None, on_status_request_received = None,
      on_status_begin_received = Some on_initialisation_start,
      on_status_finish_received = Some on_initialisation_completed\<rparr>"

subsection \<open>Received messages\<close>

text \<open>
  \<open>process_received_message\<close> up to the point where it reads whether a confirmation is
  awaited (\<open>receive_head\<close>: \<open>None\<close> in the first component when the message was disposed of)
  and the rest, with the value it read (\<open>receive_body\<close>). Other threads may run in between.
  The message may be decoded a second time, with other indeterminate bytes (\<open>junk2\<close>).
\<close>

definition receive_head :: "u8 list \<Rightarrow> u8 list \<Rightarrow> pdi_t \<Rightarrow> (sci_telegram option \<times> pdi_t) option" where
  "receive_head junk message p =
     (case sci_decode_telegram junk message of
        None \<Rightarrow> Some (None, p)
      | Some t \<Rightarrow> do {
          expected \<leftarrow> is_expected_oc_to_ixl_header (Some t);
          if \<not> expected then Some (None, set_pdi_state PDI_FAILED p)
          else if is_empty_payload_common_message (sci_get_message_type t) \<and>
                  used_bytes (t_payload t) \<noteq> 0
          then Some (None, set_pdi_state PDI_FAILED p)
          else Some (Some t, p) })"

definition receive_body ::
  "u8 list \<Rightarrow> u8 list \<Rightarrow> bool \<Rightarrow> sci_telegram \<Rightarrow> pdi_t \<Rightarrow> pdi_t option" where
  "receive_body junk message waiting t p =
     (let m = sci_get_message_type t
      in if m = SCI_MESSAGE_TYPE_VERSION_RESPONSE
         then do {
           (r, out) \<leftarrow> sci_ls_icd_parse_version_response (Some t)
             (Some \<lparr>requested_version = 0, supported_version = 0,
                    icd_result = SCI_VERSION_CHECK_RESULT_NOT_ALLOWED_TO_USE\<rparr>);
           if r \<noteq> SCI_LS_ICD_PARSE_SUCCESS then Some (set_pdi_state PDI_FAILED p)
           else handle_icd_version_response (the out) p }
         else if m = SCI_LS_ICD_MESSAGE_TYPE_LUMINOSITY_STATUS
         then do {
           (r, out) \<leftarrow> sci_ls_icd_parse_luminosity_status (Some t) (Some 0);
           if r \<noteq> SCI_LS_ICD_PARSE_SUCCESS then Some (fail_pending_signal_confirmation p)
           else Some (on_brightness_status (the out) p) }
         else if m = SCI_LS_ICD_MESSAGE_TYPE_EXECUTION_ERROR
         then do {
           (r, out) \<leftarrow> sci_ls_icd_parse_execution_error (Some t)
             (Some \<lparr>error_code = 0, current_signal_aspect_payload = replicate 18 0\<rparr>);
           if r \<noteq> SCI_LS_ICD_PARSE_SUCCESS then Some (fail_pending_signal_confirmation p)
           else Some (handle_icd_execution_error (the out) p) }
         else if m = SCI_LS_ICD_MESSAGE_TYPE_SIGNAL_ASPECT_STATUS
         then do {
           (r, out) \<leftarrow> sci_ls_icd_parse_signal_aspect_status (Some t) (Some (replicate 18 0));
           if r \<noteq> SCI_LS_ICD_PARSE_SUCCESS then Some (fail_pending_signal_confirmation p)
           else if \<not> waiting then Some (on_initial_aspect_status (the out) p)
           else do {
             e \<leftarrow> buf_read (expected_bytes p) 0 SCI_LS_ICD_SIGNAL_ASPECT_PAYLOAD_SIZE;
             let matched = (e = the out)
             in Some (complete_signal_command
                  (if matched then PDI_COMMAND_CONFIRMED else PDI_COMMAND_MISMATCH) p) } }
         else scils_on_rasta_receive junk main_notifications message p)"

definition process_received_message :: "u8 list \<Rightarrow> u8 list \<Rightarrow> u8 list \<Rightarrow> pdi_t \<Rightarrow> pdi_t option" where
  "process_received_message junk junk2 message p =
     do { (t, p1) \<leftarrow> receive_head junk message p;
          case t of
            None \<Rightarrow> Some p1
          | Some tel \<Rightarrow> receive_body junk2 message (pdi_state p1 = PDI_WAIT_CONFIRMATION) tel p1 }"

subsection \<open>Messages on the wire\<close>

definition padded :: "cstring \<Rightarrow> u8 list" where
  "padded n = n @ replicate (SCI_NAME_LENGTH - length n) SCI_NAME_PADDING_CHAR"

definition telegram_bytes :: "cstring \<Rightarrow> cstring \<Rightarrow> u16 \<Rightarrow> u8 list \<Rightarrow> u8 list" where
  "telegram_bytes s r m payload = [0x30] @ shortToBytes m @ padded s @ padded r @ payload"

definition log_send :: "u64 \<Rightarrow> u8 list \<Rightarrow> scils_t \<Rightarrow> scils_t" where
  "log_send i bs ls = ls\<lparr>sr_sent := sr_sent ls @ [(i, bs)]\<rparr>"

lemma names_fit [simp]: "length OC_SCI_NAME = 5" "length IXL_SCI_NAME = 11"
  by (simp_all add: OC_SCI_NAME_def IXL_SCI_NAME_def cstr_def)

lemma names_valid [simp]: "is_valid_sci_name (Some OC_SCI_NAME)" "is_valid_sci_name (Some IXL_SCI_NAME)"
  by (simp_all add: is_valid_sci_name_def strlen_def sci_sizes length_0_conv [symmetric] del: length_0_conv)

lemma padded_length [simp]: "length n \<le> 20 \<Longrightarrow> length (padded n) = 20"
  by (simp add: padded_def sci_sizes)

lemma send_built:
  assumes s: "length s \<le> 20" and r: "length r \<le> 20" and b: "length bs \<le> 85"
    and k: "hm_lookup (sciNamesToRastaIds ls) (key_of r) = Some i"
  shows "\<exists>t. sci_create_base_telegram SCI_PROTOCOL_LS s r m = Some t \<and>
     (bs = [] \<longrightarrow> scils_send_telegram ls t = Some (SUCCESS, log_send i (telegram_bytes s r m []) ls)) \<and>
     (\<exists>t'. set_payload t bs = Some t' \<and>
        scils_send_telegram ls t' = Some (SUCCESS, log_send i (telegram_bytes s r m bs) ls))"
proof -
  let ?t = "\<lparr>t_protocol = SCI_PROTOCOL_LS, t_message_type = shortToBytes m,
           t_sender = padded s, t_receiver = padded r,
           t_payload = \<lparr>payload_data = replicate 85 0, used_bytes = 0\<rparr>\<rparr>"
  let ?t' = "?t\<lparr>t_payload := \<lparr>payload_data = bs @ replicate (85 - length bs) 0, used_bytes = length bs\<rparr>\<rparr>"
  have c: "sci_create_base_telegram SCI_PROTOCOL_LS s r m = Some ?t"
    using s r by (simp add: create_base_fits sci_sizes padded_def)
  have w: "wf_telegram ?t" using create_base_wf [OF c] by simp
  have p: "set_payload ?t bs = Some ?t'"
    using set_payload_fits [OF w] b by (simp add: sci_sizes)
  have w': "wf_telegram ?t'" using set_payload_wf [OF w p] .
  have n: "sci_get_name_string (padded r) = Some (key_of r)"
    using r name_string_of_padded [of r] by (simp add: padded_def sci_sizes)
  have e: "sci_encode_telegram ?t = Some (telegram_bytes s r m [])"
    by (simp add: encode_wf [OF w] telegram_bytes_def)
  have e': "sci_encode_telegram ?t' = Some (telegram_bytes s r m bs)"
    by (subst encode_wf [OF w']) (simp add: telegram_bytes_def)
  show ?thesis
    using c p k send_telegram_wf [OF w _ e] send_telegram_wf [OF w' _ e'] n
    by (auto simp: log_send_def)
qed

definition pdi_ok :: "pdi_t \<Rightarrow> bool" where
  "pdi_ok p \<longleftrightarrow> length (expected_bytes p) = 18 \<and>
     (\<exists>ls. pdi_scils p = Some ls \<and> sciName ls = IXL_SCI_NAME \<and>
        hm_lookup (sciNamesToRastaIds ls) (key_of OC_SCI_NAME) = Some OC_RASTA_ID)"

definition sent :: "pdi_t \<Rightarrow> (u64 \<times> u8 list) list" where
  "sent p = (case pdi_scils p of Some ls \<Rightarrow> sr_sent ls | None \<Rightarrow> [])"

definition pdi_log :: "u8 list \<Rightarrow> pdi_t \<Rightarrow> pdi_t" where
  "pdi_log bs p = p\<lparr>pdi_scils := map_option (log_send OC_RASTA_ID bs) (pdi_scils p)\<rparr>"

lemma pdi_log_simps [simp]:
  "pdi_state (pdi_log bs p) = pdi_state p" "expected_bytes (pdi_log bs p) = expected_bytes p"
  "pdi_ok p \<Longrightarrow> sent (pdi_log bs p) = sent p @ [(OC_RASTA_ID, bs)]"
  "pdi_ok (pdi_log bs p) = pdi_ok p"
  by (auto simp: pdi_log_def pdi_ok_def sent_def log_send_def split: option.splits)

lemma set_state_simps [simp]:
  "pdi_state (set_pdi_state s p) = s" "expected_bytes (set_pdi_state s p) = expected_bytes p"
  "sent (set_pdi_state s p) = sent p" "pdi_scils (set_pdi_state s p) = pdi_scils p"
  "pdi_ok (set_pdi_state s p) = pdi_ok p"
  by (simp_all add: set_pdi_state_def sent_def pdi_ok_def)

definition VERSION_REQUEST_BYTES :: "u8 list" where
  "VERSION_REQUEST_BYTES =
     telegram_bytes IXL_SCI_NAME OC_SCI_NAME SCI_MESSAGE_TYPE_VERSION_REQUEST [PDI_VERSION]"

definition STATUS_REQUEST_BYTES :: "u8 list" where
  "STATUS_REQUEST_BYTES = telegram_bytes IXL_SCI_NAME OC_SCI_NAME SCI_MESSAGE_TYPE_STATUS_REQUEST []"

lemma handshake_spec:
  assumes "pdi_ok p"
  shows "on_rasta_handshake remote p =
    Some (if remote \<noteq> OC_RASTA_ID then set_pdi_state PDI_FAILED p
          else pdi_log VERSION_REQUEST_BYTES (set_pdi_state PDI_WAIT_VERSION_RESPONSE p))"
proof -
  obtain ls where ls: "pdi_scils p = Some ls" "sciName ls = IXL_SCI_NAME"
    "hm_lookup (sciNamesToRastaIds ls) (key_of OC_SCI_NAME) = Some OC_RASTA_ID"
    using assms by (auto simp: pdi_ok_def)
  have "scils_send_version_request ls OC_SCI_NAME PDI_VERSION =
      Some (SUCCESS, log_send OC_RASTA_ID VERSION_REQUEST_BYTES ls)"
    using send_built [OF _ _ _ ls(3), of IXL_SCI_NAME "[PDI_VERSION]" SCI_MESSAGE_TYPE_VERSION_REQUEST] ls(2)
    by (auto simp: scils_send_version_request_def sci_create_version_request_def VERSION_REQUEST_BYTES_def)
  then show ?thesis
    using ls(1) by (auto simp: on_rasta_handshake_def Let_def set_pdi_state_def pdi_log_def)
qed

lemma version_response_spec:
  assumes "pdi_ok p"
  shows "handle_icd_version_response rsp p =
    Some (if pdi_state p \<noteq> PDI_WAIT_VERSION_RESPONSE then set_pdi_state PDI_FAILED p
          else if requested_version rsp = PDI_VERSION \<and> supported_version rsp = PDI_VERSION \<and>
                  icd_result rsp = SCI_VERSION_CHECK_RESULT_VERSIONS_ARE_EQUAL
          then pdi_log STATUS_REQUEST_BYTES (set_pdi_state PDI_WAIT_INITIALISATION_START p)
          else set_pdi_state PDI_FAILED p)"
proof -
  obtain ls where ls: "pdi_scils p = Some ls" "sciName ls = IXL_SCI_NAME"
    "hm_lookup (sciNamesToRastaIds ls) (key_of OC_SCI_NAME) = Some OC_RASTA_ID"
    using assms by (auto simp: pdi_ok_def)
  have "scils_send_status_request ls OC_SCI_NAME =
      Some (SUCCESS, log_send OC_RASTA_ID STATUS_REQUEST_BYTES ls)"
    using send_built [OF _ _ _ ls(3), of IXL_SCI_NAME "[]" SCI_MESSAGE_TYPE_STATUS_REQUEST] ls(2)
    by (auto simp: scils_send_status_request_def sci_create_status_request_def STATUS_REQUEST_BYTES_def)
  then show ?thesis
    using ls(1)
    by (auto simp: handle_icd_version_response_def require_pdi_state_def Let_def set_pdi_state_def pdi_log_def)
qed

lemma name_matches_iff:
  assumes "length f = 20" and "length n \<le> 20"
  shows "sci_name_matches (Some f) (Some n) = Some (f = padded n)"
proof -
  have "take (length n) f = n \<and> (\<forall>b \<in> set (drop (length n) f). b = SCI_NAME_PADDING_CHAR) \<longleftrightarrow> f = padded n"
  proof
    assume h: "take (length n) f = n \<and> (\<forall>b \<in> set (drop (length n) f). b = SCI_NAME_PADDING_CHAR)"
    then have "drop (length n) f = replicate (20 - length n) SCI_NAME_PADDING_CHAR"
      using assms by (intro replicate_eqI) auto
    then show "f = padded n" using h by (metis append_take_drop_id padded_def sci_sizes(4))
  qed (simp add: padded_def)
  then show ?thesis
    using assms by (simp add: sci_name_matches_def strlen_def sci_sizes Let_def buf_read_def)
qed

lemma header_iff:
  assumes "wf_telegram t"
  shows "is_expected_oc_to_ixl_header (Some t) =
    Some (t_protocol t = SCI_PROTOCOL_LS \<and> t_sender t = padded OC_SCI_NAME \<and>
          t_receiver t = padded IXL_SCI_NAME)"
  using assms by (simp add: is_expected_oc_to_ixl_header_def name_matches_iff wf_telegram_def sci_sizes)

end
