(* ===== verification/Pdi_Spec.thy ===== *)
theory Pdi_Spec
  imports Pdi
begin

section \<open>What the process data interface promises\<close>

text \<open>
  An abstract specification of message handling: the bytes of a message are classified as
  an event of the dialogue, without decoding into the C structures, and the event moves an
  abstract state machine. The handlers of \<open>Pdi\<close> refine it: they are defined for every
  message, and the state, the remembered payload and the messages sent are those of the
  specification, whatever the indeterminate bytes of the decoder hold.
\<close>

datatype oc_event =
    Ev_Ignored
  | Ev_Bad
  | Ev_Version bool
  | Ev_Begin
  | Ev_Finish
  | Ev_Luminosity
  | Ev_Reject
  | Ev_Aspect "u8 list"

definition body_event :: "u16 \<Rightarrow> u8 list \<Rightarrow> oc_event" where
  "body_event m pl =
     (if m = SCI_MESSAGE_TYPE_STATUS_BEGIN then (if pl = [] then Ev_Begin else Ev_Bad)
      else if m = SCI_MESSAGE_TYPE_STATUS_FINISH then (if pl = [] then Ev_Finish else Ev_Bad)
      else if m = SCI_MESSAGE_TYPE_VERSION_RESPONSE
      then (if length pl = 3 \<and> pl ! 2 \<in> {1, 2} then Ev_Version (pl = [5, 5, 2]) else Ev_Bad)
      else if m = SCI_LS_ICD_MESSAGE_TYPE_LUMINOSITY_STATUS
      then (if pl = [1] \<or> pl = [2] then Ev_Luminosity else Ev_Bad)
      else if m = SCI_LS_ICD_MESSAGE_TYPE_EXECUTION_ERROR
      then (if length pl = 19 \<and> pl ! 0 \<in> {1, 2, 3, 4} then Ev_Reject else Ev_Bad)
      else if m = SCI_LS_ICD_MESSAGE_TYPE_SIGNAL_ASPECT_STATUS
      then (if length pl = 18 then Ev_Aspect pl else Ev_Bad)
      else Ev_Ignored)"

definition classify :: "u8 list \<Rightarrow> oc_event" where
  "classify msg =
     (if length msg < 43 \<or> 128 < length msg \<or> msg ! 0 \<notin> {0x30, 0x40} then Ev_Ignored
      else if msg ! 0 = 0x30 \<and> take 20 (drop 3 msg) = padded OC_SCI_NAME \<and>
              take 20 (drop 23 msg) = padded IXL_SCI_NAME
      then body_event (bytesToShort (take 2 (drop 1 msg))) (drop 43 msg)
      else Ev_Bad)"

text \<open>The state machine, given whether a confirmation was awaited when the message came.\<close>

fun ev_next :: "bool \<Rightarrow> u8 list \<Rightarrow> oc_event \<Rightarrow> CloudIxlPdiState \<Rightarrow> CloudIxlPdiState" where
  "ev_next w e Ev_Ignored s = s"
| "ev_next w e Ev_Bad s = PDI_FAILED"
| "ev_next w e (Ev_Version ok) s =
     (if s = PDI_WAIT_VERSION_RESPONSE \<and> ok then PDI_WAIT_INITIALISATION_START else PDI_FAILED)"
| "ev_next w e Ev_Begin s =
     (if s = PDI_WAIT_INITIALISATION_START then PDI_RECEIVING_INITIAL_STATUS else PDI_FAILED)"
| "ev_next w e Ev_Finish s =
     (if s = PDI_RECEIVING_INITIAL_STATUS then PDI_ESTABLISHED else PDI_FAILED)"
| "ev_next w e Ev_Luminosity s = (if is_luminosity_status_allowed s then s else PDI_FAILED)"
| "ev_next w e Ev_Reject s = (if s = PDI_WAIT_CONFIRMATION then PDI_COMMAND_REJECTED else PDI_FAILED)"
| "ev_next w e (Ev_Aspect pl) s =
     (if w then (if s \<noteq> PDI_WAIT_CONFIRMATION then PDI_FAILED
                 else if e = pl then PDI_COMMAND_CONFIRMED else PDI_COMMAND_MISMATCH)
      else if s = PDI_RECEIVING_INITIAL_STATUS then s else PDI_FAILED)"

definition ev_sends :: "oc_event \<Rightarrow> CloudIxlPdiState \<Rightarrow> u8 list list" where
  "ev_sends ev s =
     (if ev = Ev_Version True \<and> s = PDI_WAIT_VERSION_RESPONSE then [STATUS_REQUEST_BYTES] else [])"

definition ev_apply :: "bool \<Rightarrow> oc_event \<Rightarrow> pdi_t \<Rightarrow> pdi_t" where
  "ev_apply w ev p =
     foldr pdi_log (ev_sends ev (pdi_state p))
       (set_pdi_state (ev_next w (expected_bytes p) ev (pdi_state p)) p)"

subsection \<open>Refinement\<close>

lemma set_same_state [simp]: "set_pdi_state (pdi_state p) p = p"
  by (simp add: set_pdi_state_def)

lemma ev_apply_ok [simp]: "pdi_ok (ev_apply w ev p) = pdi_ok p"
  by (simp add: ev_apply_def ev_sends_def)

lemma ev_apply_simps [simp]:
  "pdi_state (ev_apply w ev p) = ev_next w (expected_bytes p) ev (pdi_state p)"
  "expected_bytes (ev_apply w ev p) = expected_bytes p"
  by (simp_all add: ev_apply_def ev_sends_def)

lemma ev_apply_sent:
  "pdi_ok p \<Longrightarrow> sent (ev_apply w ev p) =
     sent p @ map (Pair OC_RASTA_ID) (ev_sends ev (pdi_state p))"
  by (simp add: ev_apply_def ev_sends_def)

lemma ev_apply_silent:
  "ev \<noteq> Ev_Version True \<or> pdi_state p \<noteq> PDI_WAIT_VERSION_RESPONSE \<Longrightarrow>
   ev_apply w ev p = set_pdi_state (ev_next w (expected_bytes p) ev (pdi_state p)) p"
  by (auto simp: ev_apply_def ev_sends_def)

lemmas msg_types = sci_message_types icd_message_types

lemma decode_iff:
  assumes "length junk = 85"
  shows "sci_decode_telegram junk msg = None \<longleftrightarrow>
    length msg < 43 \<or> 128 < length msg \<or> msg ! 0 \<notin> {0x30, 0x40}"
  by (auto simp: sci_decode_telegram_def sci_sizes Let_def)

lemma decode_view:
  assumes d: "sci_decode_telegram junk msg = Some t" and j: "length junk = 85"
  shows "wf_telegram t" and "(t_protocol t = SCI_PROTOCOL_LS) = (msg ! 0 = 0x30)"
    and "t_message_type t = take 2 (drop 1 msg)"
    and "t_sender t = take 20 (drop 3 msg)" and "t_receiver t = take 20 (drop 23 msg)"
    and "used_bytes (t_payload t) = length (drop 43 msg)"
    and "take (used_bytes (t_payload t)) (payload_data (t_payload t)) = drop 43 msg"
proof -
  note f = decode_fields [OF d, unfolded sci_sizes, OF j]
  show "wf_telegram t" by (rule f(1))
  show "used_bytes (t_payload t) = length (drop 43 msg)" using f(4) by simp
  show "take (used_bytes (t_payload t)) (payload_data (t_payload t)) = drop 43 msg" by (rule f(5))
  show "(t_protocol t = SCI_PROTOCOL_LS) = (msg ! 0 = 0x30)"
    "t_message_type t = take 2 (drop 1 msg)"
    "t_sender t = take 20 (drop 3 msg)" "t_receiver t = take 20 (drop 23 msg)"
    using d by (auto simp: sci_decode_telegram_def sci_sizes Let_def split: if_splits)
qed

lemma head_spec:
  assumes j: "length junk = 85"
  shows "receive_head junk msg p =
    (case sci_decode_telegram junk msg of
       None \<Rightarrow> Some (None, p)
     | Some t \<Rightarrow>
         if msg ! 0 = 0x30 \<and> take 20 (drop 3 msg) = padded OC_SCI_NAME \<and>
            take 20 (drop 23 msg) = padded IXL_SCI_NAME \<and>
            (is_empty_payload_common_message (sci_get_message_type t) \<longrightarrow> drop 43 msg = [])
         then Some (Some t, p) else Some (None, set_pdi_state PDI_FAILED p))"
proof (cases "sci_decode_telegram junk msg")
  case (Some t)
  note v = decode_view [OF Some j]
  show ?thesis
    using v(2-6) by (auto simp: receive_head_def Some header_iff [OF v(1)])
qed (simp add: receive_head_def)

lemma version_check_iff:
  "is_icd_version_result (version_check_of_byte b) \<longleftrightarrow> b \<in> {1, 2}"
  "version_check_of_byte b = SCI_VERSION_CHECK_RESULT_VERSIONS_ARE_EQUAL \<longleftrightarrow> b = 2"
  by (auto simp: is_icd_version_result_def version_check_of_byte_def)

lemma list3_iff: "length pl = 3 \<Longrightarrow> pl = [a, b, c] \<longleftrightarrow> pl ! 0 = a \<and> pl ! 1 = b \<and> pl ! 2 = c"
  by (auto simp: length_Suc_conv eval_nat_numeral)

lemma list1_iff: "length pl = 1 \<Longrightarrow> pl = [a] \<longleftrightarrow> pl ! 0 = a"
  by (auto simp: length_Suc_conv)

lemma nth_payload:
  "take n d = pl \<Longrightarrow> n = length pl \<Longrightarrow> i < length pl \<Longrightarrow> d ! i = pl ! i"
  by (metis nth_take)

lemma rasta_receive_spec:
  assumes d: "sci_decode_telegram junk2 msg = Some t" and j: "length junk2 = 85"
    and ls: "msg ! 0 = 0x30"
    and m: "sci_get_message_type t \<notin> {SCI_MESSAGE_TYPE_VERSION_RESPONSE,
      SCI_LS_ICD_MESSAGE_TYPE_LUMINOSITY_STATUS, SCI_LS_ICD_MESSAGE_TYPE_EXECUTION_ERROR,
      SCI_LS_ICD_MESSAGE_TYPE_SIGNAL_ASPECT_STATUS}"
    and e: "is_empty_payload_common_message (sci_get_message_type t) \<longrightarrow> drop 43 msg = []"
  shows "scils_on_rasta_receive junk2 main_notifications msg p =
    Some (ev_apply w (body_event (sci_get_message_type t) (drop 43 msg)) p)"
proof -
  note v = decode_view [OF d j]
  have pl: "length (payload_data (t_payload t)) = 85" using v(1) by (simp add: wf_payload)
  have prot: "t_protocol t = SCI_PROTOCOL_LS" using v(2) ls by simp
  consider (vreq) "sci_get_message_type t = SCI_MESSAGE_TYPE_VERSION_REQUEST"
    | (sreq) "sci_get_message_type t = SCI_MESSAGE_TYPE_STATUS_REQUEST"
    | (beg) "sci_get_message_type t = SCI_MESSAGE_TYPE_STATUS_BEGIN"
    | (fin) "sci_get_message_type t = SCI_MESSAGE_TYPE_STATUS_FINISH"
    | (other) "sci_get_message_type t \<notin> {SCI_MESSAGE_TYPE_VERSION_REQUEST,
        SCI_MESSAGE_TYPE_STATUS_REQUEST, SCI_MESSAGE_TYPE_STATUS_BEGIN, SCI_MESSAGE_TYPE_STATUS_FINISH}"
    by blast
  then show ?thesis
  proof cases
    case vreq
    then show ?thesis
      using pl prot
      by (simp add: msg_types scils_on_rasta_receive_def d handle_version_request_def body_event_def
          sci_parse_version_request_payload_def buf_get_def main_notifications_def ev_apply_silent)
  next
    case sreq
    then show ?thesis
      using prot
      by (simp add: msg_types scils_on_rasta_receive_def d body_event_def notify_def main_notifications_def
          ev_apply_silent)
  next
    case beg
    then have "drop 43 msg = []" using e by (simp add: is_empty_payload_common_message_def)
    then show ?thesis
      using prot beg
      by (simp add: msg_types scils_on_rasta_receive_def d body_event_def notify_def main_notifications_def
          ev_apply_silent on_initialisation_start_def transition_pdi_state_def Let_def)
  next
    case fin
    then have "drop 43 msg = []" using e by (simp add: is_empty_payload_common_message_def)
    then show ?thesis
      using prot fin
      by (simp add: msg_types scils_on_rasta_receive_def d body_event_def notify_def main_notifications_def
          ev_apply_silent on_initialisation_completed_def transition_pdi_state_def Let_def)
  next
    case other
    then show ?thesis
      using m prot
      by (simp add: msg_types scils_on_rasta_receive_def d body_event_def ev_apply_silent Let_def)
  qed
qed

lemma body_version:
  assumes "wf_telegram t" and "t_protocol t = SCI_PROTOCOL_LS" and "pdi_ok p"
    and m: "sci_get_message_type t = SCI_MESSAGE_TYPE_VERSION_RESPONSE"
    and u: "used_bytes (t_payload t) = length pl"
    and pl: "take (used_bytes (t_payload t)) (payload_data (t_payload t)) = pl"
  shows "receive_body junk2 msg w t p = Some (ev_apply w (body_event (sci_get_message_type t) pl) p)"
proof -
  note nth = nth_payload [OF pl u]
  show ?thesis
  proof (cases "length pl = 3 \<and> pl ! 2 \<in> {1, 2}")
    case True
    then have d: "payload_data (t_payload t) ! 0 = pl ! 0" "payload_data (t_payload t) ! 1 = pl ! 1"
      "payload_data (t_payload t) ! 2 = pl ! 2"
      using nth by auto
    show ?thesis
      using True d u assms(1-4)
      by (auto simp: msg_types receive_body_def Let_def parse_version_total version_check_iff body_event_def
          version_response_spec ev_apply_def ev_sends_def PDI_VERSION_def list3_iff)
  next
    case False
    then show ?thesis
      using assms(1-4) u nth [of 2]
      by (auto simp: msg_types receive_body_def Let_def parse_version_total version_check_iff body_event_def
          ev_apply_silent)
  qed
qed

lemma body_luminosity:
  assumes "wf_telegram t" and "t_protocol t = SCI_PROTOCOL_LS" and "pdi_ok p"
    and m: "sci_get_message_type t = SCI_LS_ICD_MESSAGE_TYPE_LUMINOSITY_STATUS"
    and u: "used_bytes (t_payload t) = length pl"
    and pl: "take (used_bytes (t_payload t)) (payload_data (t_payload t)) = pl"
  shows "receive_body junk2 msg w t p = Some (ev_apply w (body_event (sci_get_message_type t) pl) p)"
proof -
  have l: "pl = [1] \<or> pl = [2] \<longleftrightarrow> length pl = 1 \<and> is_icd_luminosity (pl ! 0)"
    by (auto simp: is_icd_luminosity_def SCI_LS_ICD_LUMINOSITY_DAY_def SCI_LS_ICD_LUMINOSITY_NIGHT_def
        length_Suc_conv)
  have "body_event (sci_get_message_type t) pl =
      (if length pl = 1 \<and> is_icd_luminosity (pl ! 0) then Ev_Luminosity else Ev_Bad)"
    unfolding body_event_def m l by (simp add: msg_types)
  moreover have nth0: "length pl = 1 \<Longrightarrow> payload_data (t_payload t) ! 0 = pl ! 0"
    using nth_payload [OF pl u, of 0] by simp
  ultimately show ?thesis
    using assms(1-4) u nth0
    by (auto simp: msg_types receive_body_def Let_def parse_luminosity_total ev_apply_silent
        fail_pending_signal_confirmation_def on_brightness_status_def)
qed

lemma body_error:
  assumes "wf_telegram t" and "t_protocol t = SCI_PROTOCOL_LS" and "pdi_ok p"
    and m: "sci_get_message_type t = SCI_LS_ICD_MESSAGE_TYPE_EXECUTION_ERROR"
    and u: "used_bytes (t_payload t) = length pl"
    and pl: "take (used_bytes (t_payload t)) (payload_data (t_payload t)) = pl"
  shows "receive_body junk2 msg w t p = Some (ev_apply w (body_event (sci_get_message_type t) pl) p)"
proof -
  have l: "pl ! 0 \<in> {1, 2, 3, 4} \<longleftrightarrow> is_icd_execution_error_code (pl ! 0)"
    by (auto simp: is_icd_execution_error_code_def SCI_LS_ICD_EXECUTION_ERROR_LAMP_FAILURE_def
        SCI_LS_ICD_EXECUTION_ERROR_UNKNOWN_SIGNAL_VECTOR_def
        SCI_LS_ICD_EXECUTION_ERROR_INVALID_HEADER_RECEIVER_OR_TYPE_def
        SCI_LS_ICD_EXECUTION_ERROR_INVALID_LUMINOSITY_def)
  have "body_event (sci_get_message_type t) pl =
      (if length pl = 19 \<and> is_icd_execution_error_code (pl ! 0) then Ev_Reject else Ev_Bad)"
    unfolding body_event_def m l by (simp add: msg_types)
  moreover have nth0: "length pl = 19 \<Longrightarrow> payload_data (t_payload t) ! 0 = pl ! 0"
    using nth_payload [OF pl u, of 0] by simp
  ultimately show ?thesis
    using assms(1-4) u nth0
    by (auto simp: msg_types receive_body_def Let_def parse_error_total ev_apply_silent
        fail_pending_signal_confirmation_def handle_icd_execution_error_def complete_signal_command_def
        is_signal_command_result_def)
qed

lemma body_aspect:
  assumes "wf_telegram t" and "t_protocol t = SCI_PROTOCOL_LS" and "pdi_ok p"
    and m: "sci_get_message_type t = SCI_LS_ICD_MESSAGE_TYPE_SIGNAL_ASPECT_STATUS"
    and u: "used_bytes (t_payload t) = length pl"
    and pl: "take (used_bytes (t_payload t)) (payload_data (t_payload t)) = pl"
  shows "receive_body junk2 msg w t p = Some (ev_apply w (body_event (sci_get_message_type t) pl) p)"
proof -
  have "length (expected_bytes p) = 18" using assms(3) by (simp add: pdi_ok_def)
  moreover have "length pl = 18 \<Longrightarrow> take 18 (payload_data (t_payload t)) = pl" using pl u by simp
  ultimately show ?thesis
    using assms(1-4) u
    by (auto simp: msg_types receive_body_def Let_def parse_aspect_total ev_apply_silent body_event_def
        fail_pending_signal_confirmation_def on_initial_aspect_status_def complete_signal_command_def
        is_signal_command_result_def require_pdi_state_def icd_sizes buf_read_def)
qed

lemma body_spec:
  assumes d: "sci_decode_telegram junk msg = Some t" and j: "length junk = 85" "length junk2 = 85"
    and ls: "msg ! 0 = 0x30" and ok: "pdi_ok p"
    and e: "is_empty_payload_common_message (sci_get_message_type t) \<longrightarrow> drop 43 msg = []"
  shows "receive_body junk2 msg w t p =
    Some (ev_apply w (body_event (sci_get_message_type t) (drop 43 msg)) p)"
proof -
  note v = decode_view [OF d j(1)]
  have prot: "t_protocol t = SCI_PROTOCOL_LS" using v(2) ls by simp
  note known = v(1) prot ok _ v(6,7)
  show ?thesis
  proof (cases "sci_get_message_type t \<in> {SCI_MESSAGE_TYPE_VERSION_RESPONSE,
      SCI_LS_ICD_MESSAGE_TYPE_LUMINOSITY_STATUS, SCI_LS_ICD_MESSAGE_TYPE_EXECUTION_ERROR,
      SCI_LS_ICD_MESSAGE_TYPE_SIGNAL_ASPECT_STATUS}")
    case True
    then show ?thesis
      using body_version [OF known] body_luminosity [OF known] body_error [OF known]
        body_aspect [OF known] by blast
  next
    case False
    obtain t2 where d2: "sci_decode_telegram junk2 msg = Some t2"
      using d decode_iff [OF j(1), of msg] decode_iff [OF j(2), of msg] by (cases "sci_decode_telegram junk2 msg") auto
    have m: "sci_get_message_type t2 = sci_get_message_type t"
      using v(3) decode_view(3) [OF d2 j(2)] by (simp add: sci_get_message_type_def)
    show ?thesis
      using False rasta_receive_spec [OF d2 j(2) ls, unfolded m, OF _ e, of p w]
      by (simp add: receive_body_def Let_def)
  qed
qed

text \<open>The whole handler: defined for every message, and equal to the abstract transition.\<close>

lemma process_spec:
  assumes ok: "pdi_ok p" and j: "length junk = 85" "length junk2 = 85"
  shows "process_received_message junk junk2 msg p =
    Some (ev_apply (pdi_state p = PDI_WAIT_CONFIRMATION) (classify msg) p)"
proof (cases "sci_decode_telegram junk msg")
  case None
  then show ?thesis
    using decode_iff [OF j(1), of msg]
    by (auto simp: process_received_message_def head_spec [OF j(1)] classify_def ev_apply_silent)
next
  case (Some t)
  note v = decode_view [OF Some j(1)]
  have cl: "classify msg =
      (if msg ! 0 = 0x30 \<and> take 20 (drop 3 msg) = padded OC_SCI_NAME \<and>
          take 20 (drop 23 msg) = padded IXL_SCI_NAME
       then body_event (sci_get_message_type t) (drop 43 msg) else Ev_Bad)"
    using Some decode_iff [OF j(1), of msg] v(3) by (auto simp: classify_def sci_get_message_type_def)
  show ?thesis
  proof (cases "msg ! 0 = 0x30 \<and> take 20 (drop 3 msg) = padded OC_SCI_NAME \<and>
          take 20 (drop 23 msg) = padded IXL_SCI_NAME")
    case True
    show ?thesis
    proof (cases "is_empty_payload_common_message (sci_get_message_type t) \<longrightarrow> drop 43 msg = []")
      case e: True
      then show ?thesis
        using True body_spec [OF Some j _ ok e] cl
        by (simp add: process_received_message_def head_spec [OF j(1)] Some)
    next
      case e: False
      then have "body_event (sci_get_message_type t) (drop 43 msg) = Ev_Bad"
        by (auto simp: body_event_def is_empty_payload_common_message_def)
      then show ?thesis
        using True e cl
        by (auto simp: process_received_message_def head_spec [OF j(1)] Some ev_apply_silent)
    qed
  next
    case False
    then show ?thesis
      using cl by (auto simp: process_received_message_def head_spec [OF j(1)] Some ev_apply_silent)
  qed
qed

end
