(* ===== verification/Ixl_Logic.thy ===== *)
theory Ixl_Logic
  imports Ixl_Types
begin

section \<open>The interlocking logic (cloud_ixl_logic.c, cloud_ixl_output.c)\<close>

text \<open>
  Route state, route request and route release. The state is passed as a pointer, so it
  is an \<open>option\<close> here; \<open>request_route_decision\<close> and \<open>release_route\<close> return their result
  with the state they leave. The diagnostic output of the C functions is not modelled.
\<close>

definition ls_request_command :: "RouteDecision \<Rightarrow> SignalAspect" where
  "ls_request_command decision = (case decision of GO \<Rightarrow> VIA_LIBRE | STOP \<Rightarrow> PARADA)"

definition route_state_blocks :: "RouteState \<Rightarrow> bool" where
  "route_state_blocks s \<longleftrightarrow> s = RESERVED \<or> s = REQUESTED \<or> s = OCCUPIED"

fun section_in :: "SectionId \<Rightarrow> SectionId list \<Rightarrow> bool" where
  "section_in c [] = False"
| "section_in c (d # ds) = (if c = d then True else section_in c ds)"

fun sections_meet :: "SectionId list \<Rightarrow> SectionId list \<Rightarrow> bool" where
  "sections_meet [] ds = False"
| "sections_meet (c # cs) ds = (if section_in c ds then True else sections_meet cs ds)"

definition routes_share_section :: "RouteDefinition \<Rightarrow> RouteDefinition \<Rightarrow> bool" where
  "routes_share_section left right =
     sections_meet (required_sections left) (required_sections right)"

fun conflict_loop :: "IXL_state \<Rightarrow> RouteId \<Rightarrow> RouteDefinition \<Rightarrow> nat list \<Rightarrow> RouteState" where
  "conflict_loop state route_id route [] = FREE"
| "conflict_loop state route_id route (other_index # rest) =
     (let other_route_id = route_of_index other_index
      in if other_route_id = route_id then conflict_loop state route_id route rest
         else if \<not> route_state_blocks (ixl_route state ! other_index)
         then conflict_loop state route_id route rest
         else (case cloud_ixl_get_route_definition other_route_id of
                 None \<Rightarrow> conflict_loop state route_id route rest
               | Some other \<Rightarrow>
                   if routes_share_section route other then RESERVED
                   else conflict_loop state route_id route rest))"

definition get_conflicting_route_state ::
  "IXL_state \<Rightarrow> RouteId \<Rightarrow> RouteDefinition \<Rightarrow> RouteState" where
  "get_conflicting_route_state state route_id route =
     conflict_loop state route_id route [0..<route_index ROUTE_COUNT]"

fun sections_free :: "IXL_state \<Rightarrow> SectionId list \<Rightarrow> bool" where
  "sections_free state [] = True"
| "sections_free state (c # cs) =
     (if ixl_section state ! section_index c \<noteq> S_FREE then False else sections_free state cs)"

fun points_right :: "IXL_state \<Rightarrow> PointId list \<Rightarrow> PointState list \<Rightarrow> bool" where
  "points_right state (p # ps) (q # qs) =
     (if ixl_point state ! point_index p \<noteq> q then False else points_right state ps qs)"
| "points_right state _ _ = True"

definition get_route_state :: "IXL_state option \<Rightarrow> RouteId \<Rightarrow> RouteState" where
  "get_route_state state route_id =
     (case (state, cloud_ixl_get_route_definition route_id) of
        (None, _) \<Rightarrow> INVALID
      | (_, None) \<Rightarrow> INVALID
      | (Some s, Some route) \<Rightarrow>
          if route_state_blocks (ixl_route s ! route_index route_id)
          then ixl_route s ! route_index route_id
          else if \<not> sections_free s (required_sections route) then OCCUPIED
          else
            let conflict_state = get_conflicting_route_state s route_id route
            in if conflict_state \<noteq> FREE then conflict_state
               else if \<not> points_right s (required_points route) (required_point_states route)
               then WRONG_POINTS
               else FREE)"

definition set_route :: "IXL_state \<Rightarrow> RouteId \<Rightarrow> RouteState \<Rightarrow> IXL_state" where
  "set_route s r v = s\<lparr>ixl_route := (ixl_route s)[route_index r := v]\<rparr>"

definition request_route_decision ::
  "IXL_state option \<Rightarrow> RouteId \<Rightarrow> RouteDecision \<times> IXL_state option" where
  "request_route_decision state route_id =
     (if get_route_state state route_id = FREE
      then (GO, map_option (\<lambda>s. set_route s route_id RESERVED) state)
      else (STOP, state))"

definition release_route :: "IXL_state option \<Rightarrow> RouteId \<Rightarrow> bool \<times> IXL_state option" where
  "release_route state route_id =
     (case (state, cloud_ixl_get_route_definition route_id) of
        (None, _) \<Rightarrow> (False, state)
      | (_, None) \<Rightarrow> (False, state)
      | (Some s, Some _) \<Rightarrow>
          if ixl_route s ! route_index route_id = FREE then (False, state)
          else (True, Some (set_route s route_id FREE)))"

subsection \<open>Specification of the checks\<close>

lemma section_in_iff [simp]: "section_in c ds \<longleftrightarrow> c \<in> set ds"
  by (induction ds) auto

lemma sections_meet_iff [simp]: "sections_meet cs ds \<longleftrightarrow> set cs \<inter> set ds \<noteq> {}"
  by (induction cs) auto

lemma routes_share_iff:
  "routes_share_section a b \<longleftrightarrow> set (required_sections a) \<inter> set (required_sections b) \<noteq> {}"
  by (simp add: routes_share_section_def)

lemma sections_free_iff [simp]:
  "sections_free s cs \<longleftrightarrow> (\<forall>c \<in> set cs. ixl_section s ! section_index c = S_FREE)"
  by (induction cs) auto

lemma points_right_iff:
  "length ps = length qs \<Longrightarrow>
   points_right s ps qs \<longleftrightarrow> (\<forall>(p, q) \<in> set (zip ps qs). ixl_point s ! point_index p = q)"
  by (induction ps qs rule: list_induct2) auto

text \<open>Two routes conflict when they are different and share a track section.\<close>

definition conflicting :: "RouteId \<Rightarrow> RouteId \<Rightarrow> bool" where
  "conflicting a b \<longleftrightarrow> a \<noteq> b \<and>
     (\<exists>da db. cloud_ixl_get_route_definition a = Some da \<and>
        cloud_ixl_get_route_definition b = Some db \<and> routes_share_section da db)"

definition blocked :: "IXL_state \<Rightarrow> RouteId \<Rightarrow> bool" where
  "blocked s r \<longleftrightarrow> cloud_ixl_get_route_definition r \<noteq> None \<and>
     route_state_blocks (ixl_route s ! route_index r)"

lemma conflict_loop_iff:
  "conflict_loop s r d is = FREE \<longleftrightarrow>
     (\<forall>i \<in> set is. \<forall>d'. route_of_index i \<noteq> r \<longrightarrow> route_state_blocks (ixl_route s ! i) \<longrightarrow>
        cloud_ixl_get_route_definition (route_of_index i) = Some d' \<longrightarrow> \<not> routes_share_section d d')"
  by (induction s r d "is" rule: conflict_loop.induct) (auto simp: Let_def split: option.splits)

lemma conflict_state_iff:
  assumes "cloud_ixl_get_route_definition r = Some d"
  shows "get_conflicting_route_state s r d = FREE \<longleftrightarrow> (\<forall>r'. conflicting r r' \<longrightarrow> \<not> blocked s r')"
proof -
  have idx: "{0..<route_index ROUTE_COUNT} = {0, 1}" by auto
  have all: "(\<forall>r'. P r') \<longleftrightarrow> P RUTA_AB \<and> P RUTA_AC \<and> P ROUTE_COUNT" for P
    by (metis RouteId.exhaust)
  show ?thesis
    unfolding get_conflicting_route_state_def conflict_loop_iff set_upt idx all
    using assms
    by (auto simp: route_of_index_def conflicting_def blocked_def)
qed

definition may_set :: "IXL_state \<Rightarrow> RouteId \<Rightarrow> bool" where
  "may_set s r \<longleftrightarrow> (\<exists>d. cloud_ixl_get_route_definition r = Some d \<and> \<not> blocked s r \<and>
     (\<forall>c \<in> set (required_sections d). ixl_section s ! section_index c = S_FREE) \<and>
     (\<forall>r'. conflicting r r' \<longrightarrow> \<not> blocked s r') \<and>
     (\<forall>(p, q) \<in> set (zip (required_points d) (required_point_states d)).
        ixl_point s ! point_index p = q))"

lemma get_route_state_free:
  "get_route_state (Some s) r = FREE \<longleftrightarrow> may_set s r"
proof (cases "cloud_ixl_get_route_definition r")
  case None
  then show ?thesis by (simp add: get_route_state_def may_set_def)
next
  case (Some d)
  have "length (required_points d) = length (required_point_states d)"
    using route_definition_cases [OF Some] by (auto simp: route_definitions_def)
  then show ?thesis
    using Some conflict_state_iff [OF Some]
    by (auto simp: get_route_state_def may_set_def points_right_iff blocked_def Let_def
        route_state_blocks_def)
qed

subsection \<open>Operations and the interlocking invariant\<close>

definition exclusive :: "IXL_state \<Rightarrow> bool" where
  "exclusive s \<longleftrightarrow> (\<forall>a b. conflicting a b \<longrightarrow> \<not> (blocked s a \<and> blocked s b))"

definition ixl_inv :: "IXL_state \<Rightarrow> bool" where
  "ixl_inv s \<longleftrightarrow> wf_ixl s \<and> exclusive s"

lemma conflicting_sym: "conflicting a b \<Longrightarrow> conflicting b a"
  by (auto simp: conflicting_def routes_share_iff)

lemma route_index_less: "cloud_ixl_get_route_definition r \<noteq> None \<Longrightarrow> route_index r < 2"
  by (cases r) auto

lemma route_index_inj: "route_index a = route_index b \<Longrightarrow> a = b"
  by (cases a; cases b) auto

lemma blocked_set_route:
  "wf_ixl s \<Longrightarrow> cloud_ixl_get_route_definition r \<noteq> None \<Longrightarrow>
   blocked (set_route s r v) r' \<longleftrightarrow> (if r' = r then route_state_blocks v else blocked s r')"
  using route_index_less [of r] route_index_inj [of r' r]
  by (auto simp: blocked_def set_route_def wf_ixl_def nth_list_update)

lemma set_route_wf [simp]: "wf_ixl (set_route s r v) = wf_ixl s"
  by (simp add: wf_ixl_def set_route_def)

lemma exclusive_set_route:
  assumes wf: "wf_ixl s" and d: "cloud_ixl_get_route_definition r \<noteq> None" and ex: "exclusive s"
    and ok: "route_state_blocks v \<Longrightarrow> \<forall>r'. conflicting r r' \<longrightarrow> \<not> blocked s r'"
  shows "exclusive (set_route s r v)"
  unfolding exclusive_def
proof (intro allI impI)
  fix a b assume c: "conflicting a b"
  then have ne: "a \<noteq> b" by (simp add: conflicting_def)
  have old: "\<not> (blocked s a \<and> blocked s b)" using ex c by (simp add: exclusive_def)
  have a: "a = r \<Longrightarrow> route_state_blocks v \<Longrightarrow> \<not> blocked s b" using ok c by blast
  have b: "b = r \<Longrightarrow> route_state_blocks v \<Longrightarrow> \<not> blocked s a" using ok conflicting_sym [OF c] by blast
  show "\<not> (blocked (set_route s r v) a \<and> blocked (set_route s r v) b)"
    using ne old a b by (simp only: blocked_set_route [OF wf d] split: if_splits) blast
qed

lemma request_inv:
  assumes inv: "ixl_inv s" and q: "request_route_decision (Some s) r = (dec, Some s')"
  shows "ixl_inv s'"
proof (cases "get_route_state (Some s) r = FREE")
  case True
  then have ok: "may_set s r" and s': "s' = set_route s r RESERVED"
    using q get_route_state_free by (auto simp: request_route_decision_def)
  have "exclusive s'"
    unfolding s' using inv ok by (intro exclusive_set_route) (auto simp: ixl_inv_def may_set_def)
  then show ?thesis using inv by (simp add: s' ixl_inv_def)
next
  case False
  then show ?thesis using inv q by (simp add: request_route_decision_def)
qed

lemma release_cases:
  assumes "release_route (Some s) r = (ok, Some s')"
  shows "(ok \<and> s' = set_route s r FREE \<and> cloud_ixl_get_route_definition r \<noteq> None \<and>
            ixl_route s ! route_index r \<noteq> FREE) \<or> (\<not> ok \<and> s' = s)"
  using assms by (auto simp: release_route_def split: option.splits if_splits)

lemma release_inv:
  assumes inv: "ixl_inv s" and q: "release_route (Some s) r = (ok, Some s')"
  shows "ixl_inv s'"
proof -
  have "exclusive (set_route s r FREE)" if "cloud_ixl_get_route_definition r \<noteq> None"
    using inv that by (intro exclusive_set_route) (auto simp: ixl_inv_def route_state_blocks_def)
  then show ?thesis using release_cases [OF q] inv by (auto simp: ixl_inv_def)
qed

lemma request_frame:
  "request_route_decision (Some s) r = (dec, Some s') \<Longrightarrow>
     ixl_section s' = ixl_section s \<and> ixl_point s' = ixl_point s \<and> ixl_signal s' = ixl_signal s"
  by (auto simp: request_route_decision_def set_route_def split: if_splits)

lemma release_frame:
  "release_route (Some s) r = (ok, Some s') \<Longrightarrow>
     ixl_section s' = ixl_section s \<and> ixl_point s' = ixl_point s \<and> ixl_signal s' = ixl_signal s"
  by (auto simp: release_route_def set_route_def split: option.splits if_splits)

lemma init_inv: "cloud_ixl_state_init (Some s0) = Some s \<Longrightarrow> ixl_inv s"
  using state_init_wf [of s0 s]
  by (auto simp: ixl_inv_def exclusive_def blocked_def cloud_ixl_state_init_def
      route_state_blocks_def nth_Cons' split: if_splits dest!: route_index_less)

end
