(* ===== verification/Ixl_Input.thy ===== *)
theory Ixl_Input
  imports Ixl_Types
begin

section \<open>Operator input (cloud_ixl_input.c)\<close>

text \<open>
  The dialogue with the operator as functions of the characters still to be read from
  standard input; each returns what it read and the rest. \<open>fgets16\<close> is
  \<open>fgets(buffer, 16, stdin)\<close>: at most 15 characters, up to and including the first
  newline, and \<open>NULL\<close> (\<open>None\<close>) at the end of the input.
\<close>

fun line_chunk :: "nat \<Rightarrow> string \<Rightarrow> string \<times> string" where
  "line_chunk 0 s = ([], s)"
| "line_chunk (Suc n) [] = ([], [])"
| "line_chunk (Suc n) (c # s) =
     (if c = CHR 0x0A then ([c], s)
      else let (l, rest) = line_chunk n s in (c # l, rest))"

definition fgets16 :: "string \<Rightarrow> (string \<times> string) option" where
  "fgets16 s = (if s = [] then None else Some (line_chunk 15 s))"

fun first_selection_char :: "string \<Rightarrow> char" where
  "first_selection_char [] = CHR 0x00"
| "first_selection_char (c # cs) =
     (if c = CHR 0x00 then CHR 0x00
      else if c \<noteq> CHR '' '' \<and> c \<noteq> CHR 0x09 \<and> c \<noteq> CHR 0x0A then c
      else first_selection_char cs)"

fun buffer_contains_char :: "string \<Rightarrow> char \<Rightarrow> char \<Rightarrow> bool" where
  "buffer_contains_char [] lower upper = False"
| "buffer_contains_char (c # cs) lower upper =
     (if c = CHR 0x00 then False
      else if c = lower \<or> c = upper then True
      else buffer_contains_char cs lower upper)"

definition route_of_line :: "string \<Rightarrow> RouteId" where
  "route_of_line buffer =
     (let c = first_selection_char buffer
      in if c \<in> {CHR ''2'', CHR ''c'', CHR ''C''} then RUTA_AC
         else if c \<in> {CHR ''1'', CHR ''b'', CHR ''B''} then RUTA_AB
         else if buffer_contains_char buffer (CHR ''c'') (CHR ''C'') then RUTA_AC
         else RUTA_AB)"

definition read_route_id :: "string \<Rightarrow> RouteId \<times> string" where
  "read_route_id stdin =
     (case fgets16 stdin of
        None \<Rightarrow> (RUTA_AB, stdin)
      | Some (buffer, rest) \<Rightarrow> (route_of_line buffer, rest))"

definition aspect_of_char :: "char \<Rightarrow> SignalAspect option" where
  "aspect_of_char c =
     (if c = CHR ''0'' then Some VIA_LIBRE
      else if c = CHR ''1'' then Some PARADA
      else if c = CHR ''2'' then Some ANUNCIO_PARADA
      else if c = CHR ''4'' then Some ANUNCIO_PRECAUCION
      else if c = CHR ''5'' then Some REBASE
      else if c = CHR ''6'' then Some PARADA_SELECTIVA_N2
      else if c = CHR ''7'' then Some REBASE_AUTORIZADO
      else if c = CHR ''9'' then Some APAGADA
      else None)"

lemma line_chunk_rest:
  "line_chunk n s = (l, rest) \<Longrightarrow> s = l @ rest \<and> length l \<le> n \<and> (0 < n \<longrightarrow> s \<noteq> [] \<longrightarrow> l \<noteq> [])"
  by (induction n s arbitrary: l rest rule: line_chunk.induct) (auto split: if_splits prod.splits)

lemma fgets16_shorter: "fgets16 s = Some (l, rest) \<Longrightarrow> length rest < length s"
  using line_chunk_rest [of 15 s l rest] by (auto simp: fgets16_def split: if_splits)

lemma fgets16_fits: "fgets16 s = Some (l, rest) \<Longrightarrow> length l \<le> 15 \<and> s = l @ rest"
  using line_chunk_rest [of 15 s l rest] by (auto simp: fgets16_def split: if_splits)

text \<open>The two loops that repeat the question until the answer is one of the choices.\<close>

function read_signal_aspect :: "string \<Rightarrow> SignalAspect \<times> string" where
  "read_signal_aspect stdin =
     (case fgets16 stdin of
        None \<Rightarrow> (PARADA, stdin)
      | Some (buffer, rest) \<Rightarrow>
          (case aspect_of_char (first_selection_char buffer) of
             Some a \<Rightarrow> (a, rest)
           | None \<Rightarrow> read_signal_aspect rest))"
  by pat_completeness auto
termination
  by (relation "measure length") (auto dest: fgets16_shorter)

declare read_signal_aspect.simps [simp del]

definition luminosity_of_char :: "char \<Rightarrow> SignalLuminosity option" where
  "luminosity_of_char c =
     (if c \<in> {CHR ''2'', CHR ''n'', CHR ''N''} then Some SIGNAL_LUMINOSITY_NIGHT
      else if c \<in> {CHR ''1'', CHR ''d'', CHR ''D''} then Some SIGNAL_LUMINOSITY_DAY
      else None)"

function read_signal_luminosity :: "string \<Rightarrow> SignalLuminosity \<times> string" where
  "read_signal_luminosity stdin =
     (case fgets16 stdin of
        None \<Rightarrow> (SIGNAL_LUMINOSITY_DAY, stdin)
      | Some (buffer, rest) \<Rightarrow>
          (case luminosity_of_char (first_selection_char buffer) of
             Some l \<Rightarrow> (l, rest)
           | None \<Rightarrow> read_signal_luminosity rest))"
  by pat_completeness auto
termination
  by (relation "measure length") (auto dest: fgets16_shorter)

declare read_signal_luminosity.simps [simp del]

definition default_request :: RouteRequest where
  "default_request = \<lparr>rr_command = ROUTE_COMMAND_REQUEST, rr_route_id = RUTA_AB,
                      rr_aspect = PARADA, rr_luminosity = SIGNAL_LUMINOSITY_DAY\<rparr>"

definition receive_route_request :: "string \<Rightarrow> RouteRequest \<times> string" where
  "receive_route_request stdin =
     (case fgets16 stdin of
        None \<Rightarrow> (default_request\<lparr>rr_command := ROUTE_COMMAND_QUIT\<rparr>, stdin)
      | Some (buffer, rest) \<Rightarrow>
          let c = first_selection_char buffer
          in if c \<in> {CHR ''l'', CHR ''L''}
             then let (r, rest') = read_route_id rest
                  in (default_request\<lparr>rr_command := ROUTE_COMMAND_RELEASE, rr_route_id := r\<rparr>, rest')
             else if c \<in> {CHR ''a'', CHR ''A'', CHR ''s'', CHR ''S''}
             then let (a, rest') = read_signal_aspect rest
                  in (default_request\<lparr>rr_command := ROUTE_COMMAND_SIGNAL_ASPECT, rr_aspect := a\<rparr>, rest')
             else if c \<in> {CHR ''b'', CHR ''B''}
             then let (l, rest') = read_signal_luminosity rest
                  in (default_request\<lparr>rr_command := ROUTE_COMMAND_LUMINOSITY, rr_luminosity := l\<rparr>, rest')
             else if c \<in> {CHR ''q'', CHR ''Q''}
             then (default_request\<lparr>rr_command := ROUTE_COMMAND_QUIT\<rparr>, rest)
             else let (r, rest') = read_route_id rest
                  in (default_request\<lparr>rr_command := ROUTE_COMMAND_REQUEST, rr_route_id := r\<rparr>, rest'))"

subsection \<open>What the dialogue can return\<close>

lemma route_of_line_real: "cloud_ixl_get_route_definition (route_of_line b) \<noteq> None"
  by (simp add: route_of_line_def Let_def)

lemma read_route_id_real: "cloud_ixl_get_route_definition (fst (read_route_id s)) \<noteq> None"
  by (simp add: read_route_id_def route_of_line_real [unfolded not_None_eq] split: option.splits prod.splits)

fun named_aspect :: "SignalAspect \<Rightarrow> bool" where
  "named_aspect (OTHER_ASPECT _) = False"
| "named_aspect _ = True"

lemma aspect_of_char_named: "aspect_of_char c = Some a \<Longrightarrow> named_aspect a"
  by (auto simp: aspect_of_char_def split: if_splits)

lemma read_aspect_named: "named_aspect (fst (read_signal_aspect s))"
proof (induction s rule: read_signal_aspect.induct)
  case (1 s)
  then show ?case
    by (subst read_signal_aspect.simps)
       (auto split: option.splits simp: aspect_of_char_named)
qed

lemma read_aspect_rest: "length (snd (read_signal_aspect s)) \<le> length s"
proof (induction s rule: read_signal_aspect.induct)
  case (1 s)
  show ?case
  proof (cases "fgets16 s")
    case (Some lr)
    then obtain l r where lr: "fgets16 s = Some (l, r)" by (cases lr) auto
    then have "length r < length s" by (rule fgets16_shorter)
    moreover have "aspect_of_char (first_selection_char l) = None \<Longrightarrow>
        length (snd (read_signal_aspect r)) \<le> length r"
      using "1.IH" [OF lr refl] by simp
    ultimately show ?thesis
      by (subst read_signal_aspect.simps) (auto simp: lr split: option.splits)
  qed (subst read_signal_aspect.simps, simp)
qed

lemma read_luminosity_rest: "length (snd (read_signal_luminosity s)) \<le> length s"
proof (induction s rule: read_signal_luminosity.induct)
  case (1 s)
  show ?case
  proof (cases "fgets16 s")
    case (Some lr)
    then obtain l r where lr: "fgets16 s = Some (l, r)" by (cases lr) auto
    then have "length r < length s" by (rule fgets16_shorter)
    moreover have "luminosity_of_char (first_selection_char l) = None \<Longrightarrow>
        length (snd (read_signal_luminosity r)) \<le> length r"
      using "1.IH" [OF lr refl] by simp
    ultimately show ?thesis
      by (subst read_signal_luminosity.simps) (auto simp: lr split: option.splits)
  qed (subst read_signal_luminosity.simps, simp)
qed

lemma read_route_rest: "length (snd (read_route_id s)) \<le> length s"
  by (auto simp: read_route_id_def split: option.splits dest: fgets16_shorter)

text \<open>Every request consumes input, except the one that the end of the input becomes.\<close>

lemma request_progress:
  assumes "receive_route_request s = (rq, rest)"
  shows "(s = [] \<and> rr_command rq = ROUTE_COMMAND_QUIT) \<or> length rest < length s"
proof (cases "fgets16 s")
  case None
  then show ?thesis using assms by (auto simp: receive_route_request_def fgets16_def split: if_splits)
next
  case (Some lr)
  then obtain l r where lr: "fgets16 s = Some (l, r)" by (cases lr) auto
  have "length r < length s" using lr by (rule fgets16_shorter)
  moreover have "length rest \<le> length r"
    using assms read_aspect_rest [of r] read_luminosity_rest [of r] read_route_rest [of r]
    by (auto simp: receive_route_request_def lr Let_def split: if_splits prod.splits)
  ultimately show ?thesis by simp
qed

end
