(* ===== verification/Ixl_Main.thy ===== *)
theory Ixl_Main
  imports Pdi_Spec Ixl_Logic Ixl_Input
begin

section \<open>The Cloud IXL process (main, in main.c)\<close>

text \<open>
  The main thread and the callbacks of the RaSTA threads as one transition system. The main
  thread waits for the establishment of the dialogue, reads a command, or waits for the
  feedback to a command; a loop iteration up to its next wait is one function. A callback
  is one step, except a received message, whose handler is two steps: other threads may
  run after it has read whether a confirmation is awaited. \<open>None\<close> is undefined behaviour.
\<close>

datatype main_pc =
    M_Establishing
  | M_Idle
  | M_Waiting RouteRequest
  | M_Done int \<comment> \<open>with the exit code\<close>

record sys =
  sys_pdi :: pdi_t
  sys_ixl :: IXL_state
  sys_pc :: main_pc
  sys_recv :: "(u8 list \<times> sci_telegram \<times> bool) option"
  sys_stdin :: string

subsection \<open>The main thread\<close>

definition cleanup_pdi_resources :: "pdi_t \<Rightarrow> pdi_t" where
  "cleanup_pdi_resources p = p\<lparr>pdi_scils := None\<rparr>"

definition main_exit :: "int \<Rightarrow> sys \<Rightarrow> sys" where
  "main_exit code s = s\<lparr>sys_pc := M_Done code, sys_pdi := cleanup_pdi_resources (sys_pdi s)\<rparr>"

definition main_start :: "environment \<Rightarrow> nat \<Rightarrow> string \<Rightarrow> IXL_state \<Rightarrow> sys option" where
  "main_start getenv mem stdin indeterminate =
     do { (ok, channels) \<leftarrow> configure_oc_channels getenv
            (Some [\<lparr>ip = replicate 16 0, port = 0\<rparr>, \<lparr>ip = replicate 16 0, port = 0\<rparr>]);
          let s0 = \<lparr>sys_pdi = \<lparr>pdi_state = PDI_DISCONNECTED, expected_bytes = replicate 18 0,
                              pdi_scils = None\<rparr>,
                    sys_ixl = indeterminate, sys_pc = M_Done 1, sys_recv = None, sys_stdin = stdin\<rparr>
          in if \<not> ok then Some s0
             else do {
               ls \<leftarrow> scils_register_sci_name mem (scils_init IXL_SCI_NAME) OC_SCI_NAME OC_RASTA_ID;
               Some (s0\<lparr>sys_pdi := set_pdi_state PDI_WAIT_RASTA_HANDSHAKE
                                    ((sys_pdi s0)\<lparr>pdi_scils := Some ls\<rparr>),
                        sys_pc := M_Establishing\<rparr>) } }"

definition send_luminosity :: "u8 \<Rightarrow> sys \<Rightarrow> (CloudIxlScilsSendResult \<times> sys) option" where
  "send_luminosity l s =
     do { (r, ls) \<leftarrow> cloud_ixl_scils_send_luminosity (pdi_scils (sys_pdi s)) (Some OC_SCI_NAME) l;
          Some (r, s\<lparr>sys_pdi := (sys_pdi s)\<lparr>pdi_scils := ls\<rparr>\<rparr>) }"

definition main_established :: "CloudIxlPdiState \<Rightarrow> sys \<Rightarrow> sys option" where
  "main_established established_state s =
     (if established_state \<noteq> PDI_ESTABLISHED then Some (main_exit 1 s)
      else do {
        ixl \<leftarrow> cloud_ixl_state_init (Some (sys_ixl s));
        (r, s') \<leftarrow> send_luminosity DEFAULT_SIGNAL_LUMINOSITY (s\<lparr>sys_ixl := ixl\<rparr>);
        Some (if r = SUCCESS_SCILS then s'\<lparr>sys_pc := M_Idle\<rparr> else main_exit 1 s') })"

definition icd_luminosity_from_signal_luminosity :: "SignalLuminosity \<Rightarrow> u8" where
  "icd_luminosity_from_signal_luminosity l =
     (case l of SIGNAL_LUMINOSITY_NIGHT \<Rightarrow> SCI_LS_ICD_LUMINOSITY_NIGHT
              | SIGNAL_LUMINOSITY_DAY \<Rightarrow> SCI_LS_ICD_LUMINOSITY_DAY)"

text \<open>The aspect a request asks for, and the interlocking state the decision leaves.\<close>

definition requested_aspect :: "RouteRequest \<Rightarrow> IXL_state \<Rightarrow> SignalAspect \<times> IXL_state" where
  "requested_aspect rq ixl =
     (if rr_command rq = ROUTE_COMMAND_SIGNAL_ASPECT then (rr_aspect rq, ixl)
      else if rr_command rq = ROUTE_COMMAND_RELEASE then (ls_request_command STOP, ixl)
      else let (decision, ixl') = request_route_decision (Some ixl) (rr_route_id rq)
           in (ls_request_command decision, the ixl'))"

definition main_command :: "RouteRequest \<Rightarrow> sys \<Rightarrow> sys option" where
  "main_command rq s =
     (if rr_command rq = ROUTE_COMMAND_QUIT then Some (main_exit 0 s)
      else if rr_command rq = ROUTE_COMMAND_LUMINOSITY
      then do {
        (r, s') \<leftarrow> send_luminosity (icd_luminosity_from_signal_luminosity (rr_luminosity rq)) s;
        Some (if r = SUCCESS_SCILS then s' else main_exit 1 s') }
      else
        let (aspect, ixl) = requested_aspect rq (sys_ixl s); s1 = s\<lparr>sys_ixl := ixl\<rparr>
        in do {
          (built, payload) \<leftarrow> cloud_ixl_build_signal_aspect_payload aspect (Some (expected_bytes (sys_pdi s1)));
          let p1 = (sys_pdi s1)\<lparr>expected_bytes := the payload\<rparr>; s2 = s1\<lparr>sys_pdi := p1\<rparr>
          in if \<not> built then Some (main_exit 1 s2)
             else
               let (started, p2) = begin_signal_confirmation p1; s3 = s2\<lparr>sys_pdi := p2\<rparr>
               in if \<not> started then Some (main_exit 1 s3)
                  else do {
                    (r, ls) \<leftarrow> cloud_ixl_scils_send_signal_aspect (pdi_scils p2) (Some OC_SCI_NAME) aspect;
                    let p3 = p2\<lparr>pdi_scils := ls\<rparr>
                    in if r \<noteq> SUCCESS_SCILS
                       then Some (main_exit 1 (s3\<lparr>sys_pdi := fail_pending_signal_confirmation p3\<rparr>))
                       else Some (s3\<lparr>sys_pdi := p3, sys_pc := M_Waiting rq\<rparr>) } })"

definition main_result :: "RouteRequest \<Rightarrow> CloudIxlPdiState \<Rightarrow> sys \<Rightarrow> sys" where
  "main_result rq command_result s =
     (case command_result of
        PDI_COMMAND_CONFIRMED \<Rightarrow>
          if rr_command rq = ROUTE_COMMAND_RELEASE
          then s\<lparr>sys_ixl := the (snd (release_route (Some (sys_ixl s)) (rr_route_id rq))),
                 sys_pc := M_Idle\<rparr>
          else s\<lparr>sys_pc := M_Idle\<rparr>
      | PDI_COMMAND_MISMATCH \<Rightarrow> s\<lparr>sys_pc := M_Idle\<rparr>
      | PDI_COMMAND_REJECTED \<Rightarrow> s\<lparr>sys_pc := M_Idle\<rparr>
      | PDI_FAILED \<Rightarrow> main_exit 1 s
      | _ \<Rightarrow> main_exit 1 (s\<lparr>sys_pdi := set_pdi_state PDI_FAILED (sys_pdi s)\<rparr>))"

subsection \<open>The transition system\<close>

definition running :: "sys \<Rightarrow> bool" where
  "running s \<longleftrightarrow> (\<forall>c. sys_pc s \<noteq> M_Done c)"

definition on_pdi :: "pdi_t \<Rightarrow> sys \<Rightarrow> sys" where
  "on_pdi p s = s\<lparr>sys_pdi := p\<rparr>"

inductive sys_step :: "sys \<Rightarrow> sys \<Rightarrow> bool" where
  establish: "sys_pc s = M_Establishing \<Longrightarrow> wait_for_pdi_establishment w (sys_pdi s) = Some (st, p) \<Longrightarrow>
    main_established st (on_pdi p s) = Some s' \<Longrightarrow> sys_step s s'"
| operator: "sys_pc s = M_Idle \<Longrightarrow> receive_route_request (sys_stdin s) = (rq, rest) \<Longrightarrow>
    main_command rq (s\<lparr>sys_stdin := rest\<rparr>) = Some s' \<Longrightarrow> sys_step s s'"
| feedback: "sys_pc s = M_Waiting rq \<Longrightarrow> wait_for_signal_confirmation w (sys_pdi s) = Some (st, p) \<Longrightarrow>
    s' = main_result rq st (on_pdi p s) \<Longrightarrow> sys_step s s'"
| handshake: "running s \<Longrightarrow> on_rasta_handshake remote (sys_pdi s) = Some p \<Longrightarrow> sys_step s (on_pdi p s)"
| disposed: "running s \<Longrightarrow> sys_recv s = None \<Longrightarrow> length junk = 85 \<Longrightarrow>
    receive_head junk msg (sys_pdi s) = Some (None, p) \<Longrightarrow> sys_step s (on_pdi p s)"
| received: "running s \<Longrightarrow> sys_recv s = None \<Longrightarrow> length junk = 85 \<Longrightarrow>
    receive_head junk msg (sys_pdi s) = Some (Some t, p) \<Longrightarrow>
    sys_step s (on_pdi p s\<lparr>sys_recv := Some (msg, t, pdi_state p = PDI_WAIT_CONFIRMATION)\<rparr>)"
| handled: "running s \<Longrightarrow> sys_recv s = Some (msg, t, w) \<Longrightarrow> length junk = 85 \<Longrightarrow>
    receive_body junk msg w t (sys_pdi s) = Some p \<Longrightarrow> sys_step s (on_pdi p s\<lparr>sys_recv := None\<rparr>)"
| connection: "running s \<Longrightarrow> sys_step s (on_pdi (on_connection_change st (sys_pdi s)) s)"
| timeout: "running s \<Longrightarrow> sys_step s (on_pdi (on_timeout (sys_pdi s)) s)"

inductive sys_reachable :: "sys \<Rightarrow> sys \<Rightarrow> bool" for s0 where
  reach_init: "sys_reachable s0 s0"
| reach_step: "sys_reachable s0 s \<Longrightarrow> sys_step s s' \<Longrightarrow> sys_reachable s0 s'"

end
