(* ===== verification/Ixl_Safety.thy ===== *)
theory Ixl_Safety
  imports Ixl_Main
begin

section \<open>Invariants of the Cloud IXL process\<close>

text \<open>
  What every operation of the main thread does in one equation, and the invariant of all
  reachable states: commands are supervised only while the main thread waits for one, the
  payload awaited is the one of the command, and the route states stay exclusive.
\<close>

subsection \<open>Sending\<close>

definition LUMINOSITY_BYTES :: "u8 \<Rightarrow> u8 list" where
  "LUMINOSITY_BYTES l =
     telegram_bytes IXL_SCI_NAME OC_SCI_NAME SCI_LS_ICD_MESSAGE_TYPE_CHANGE_LUMINOSITY [l]"

definition ASPECT_BYTES :: "SignalAspect \<Rightarrow> u8 list" where
  "ASPECT_BYTES a =
     telegram_bytes IXL_SCI_NAME OC_SCI_NAME SCI_LS_ICD_MESSAGE_TYPE_SHOW_SIGNAL_ASPECT
       (signal_aspect_payloads a)"

lemma adapter_luminosity:
  assumes "sciName ls = IXL_SCI_NAME"
    and k: "hm_lookup (sciNamesToRastaIds ls) (key_of OC_SCI_NAME) = Some OC_RASTA_ID"
  shows "cloud_ixl_scils_send_luminosity (Some ls) (Some OC_SCI_NAME) l =
    Some (if is_icd_luminosity l
          then (SUCCESS_SCILS, Some (log_send OC_RASTA_ID (LUMINOSITY_BYTES l) ls))
          else (CLOUD_IXL_SCILS_BUILD_ERROR, Some ls))"
  using send_built [OF _ _ _ k, of IXL_SCI_NAME "[l]" SCI_LS_ICD_MESSAGE_TYPE_CHANGE_LUMINOSITY] assms(1)
  by (auto simp: cloud_ixl_scils_send_luminosity_def sci_ls_icd_create_luminosity_command_def
      LUMINOSITY_BYTES_def)

lemma adapter_aspect:
  assumes "sciName ls = IXL_SCI_NAME"
    and k: "hm_lookup (sciNamesToRastaIds ls) (key_of OC_SCI_NAME) = Some OC_RASTA_ID"
  shows "cloud_ixl_scils_send_signal_aspect (Some ls) (Some OC_SCI_NAME) a =
    Some (if is_supported_signal_aspect a
          then (SUCCESS_SCILS, Some (log_send OC_RASTA_ID (ASPECT_BYTES a) ls))
          else (CLOUD_IXL_SCILS_BUILD_ERROR, Some ls))"
proof (cases "is_supported_signal_aspect a")
  case True
  then show ?thesis
    using send_built [OF _ _ _ k, of IXL_SCI_NAME "signal_aspect_payloads a"
        SCI_LS_ICD_MESSAGE_TYPE_SHOW_SIGNAL_ASPECT] assms(1)
    by (auto simp: cloud_ixl_scils_send_signal_aspect_def cloud_ixl_create_signal_aspect_telegram_def
        build_payload_supported icd_sizes ASPECT_BYTES_def)
next
  case False
  then show ?thesis
    by (simp add: cloud_ixl_scils_send_signal_aspect_def create_aspect_telegram_none)
qed

lemma pdi_ok_scils:
  assumes "pdi_ok p"
  obtains ls where "pdi_scils p = Some ls" "sciName ls = IXL_SCI_NAME"
    "hm_lookup (sciNamesToRastaIds ls) (key_of OC_SCI_NAME) = Some OC_RASTA_ID"
  using assms by (auto simp: pdi_ok_def)

lemma send_luminosity_spec:
  assumes "pdi_ok (sys_pdi s)"
  shows "send_luminosity l s =
    Some (if is_icd_luminosity l
          then (SUCCESS_SCILS, on_pdi (pdi_log (LUMINOSITY_BYTES l) (sys_pdi s)) s)
          else (CLOUD_IXL_SCILS_BUILD_ERROR, s))"
  by (rule pdi_ok_scils [OF assms])
     (auto simp: send_luminosity_def adapter_luminosity pdi_log_def on_pdi_def)

subsection \<open>The operations of the main thread\<close>

lemma init_state_some: "cloud_ixl_state_init (Some s0) = Some (the (cloud_ixl_state_init (Some s0)))"
  by (simp add: cloud_ixl_state_init_def)

lemma main_established_spec:
  assumes "pdi_ok (sys_pdi s)"
  shows "main_established st s =
    Some (if st = PDI_ESTABLISHED
          then (on_pdi (pdi_log (LUMINOSITY_BYTES DEFAULT_SIGNAL_LUMINOSITY) (sys_pdi s)) s)
                 \<lparr>sys_ixl := the (cloud_ixl_state_init (Some (sys_ixl s))), sys_pc := M_Idle\<rparr>
          else main_exit 1 s)"
proof -
  have "is_icd_luminosity DEFAULT_SIGNAL_LUMINOSITY"
    by (simp add: is_icd_luminosity_def DEFAULT_SIGNAL_LUMINOSITY_def)
  then show ?thesis
    using assms
    by (subst main_established_def, subst init_state_some) (simp add: send_luminosity_spec on_pdi_def)
qed

lemma requested_aspect_frame:
  "requested_aspect rq ixl = (a, ixl') \<Longrightarrow>
     ixl' = ixl \<or> (rr_command rq \<notin> {ROUTE_COMMAND_SIGNAL_ASPECT, ROUTE_COMMAND_RELEASE} \<and> a = VIA_LIBRE \<and>
       get_route_state (Some ixl) (rr_route_id rq) = FREE \<and> ixl' = set_route ixl (rr_route_id rq) RESERVED)"
  by (auto simp: requested_aspect_def request_route_decision_def ls_request_command_def split: if_splits)

lemma main_command_spec:
  assumes ok: "pdi_ok (sys_pdi s)" and c: "rr_command rq \<notin> {ROUTE_COMMAND_QUIT, ROUTE_COMMAND_LUMINOSITY}"
    and a: "requested_aspect rq (sys_ixl s) = (a, ixl)"
  shows "main_command rq s =
    Some (if \<not> is_supported_signal_aspect a then main_exit 1 (s\<lparr>sys_ixl := ixl\<rparr>)
          else
            let p1 = (sys_pdi s)\<lparr>expected_bytes := signal_aspect_payloads a\<rparr>
            in if pdi_state (sys_pdi s) \<noteq> PDI_ESTABLISHED
               then main_exit 1 (s\<lparr>sys_ixl := ixl, sys_pdi := p1\<rparr>)
               else s\<lparr>sys_ixl := ixl, sys_pc := M_Waiting rq,
                      sys_pdi := pdi_log (ASPECT_BYTES a) (set_pdi_state PDI_WAIT_CONFIRMATION p1)\<rparr>)"
proof -
  obtain ls where ls: "pdi_scils (sys_pdi s) = Some ls" "sciName ls = IXL_SCI_NAME"
    "hm_lookup (sciNamesToRastaIds ls) (key_of OC_SCI_NAME) = Some OC_RASTA_ID"
    using pdi_ok_scils [OF ok] by metis
  have e: "length (expected_bytes (sys_pdi s)) = 18" using ok by (simp add: pdi_ok_def)
  show ?thesis
  proof (cases "is_supported_signal_aspect a")
    case True
    then show ?thesis
      using c e ls(1)
      by (auto simp: main_command_def a build_payload_supported begin_signal_confirmation_def Let_def
          adapter_aspect [OF ls(2,3)] set_pdi_state_def pdi_log_def)
  next
    case False
    have "(sys_pdi s)\<lparr>expected_bytes := expected_bytes (sys_pdi s)\<rparr> = sys_pdi s" by simp
    then show ?thesis
      using c False by (auto simp: main_command_def a build_payload_unsupported Let_def)
  qed
qed

lemma main_luminosity_spec:
  assumes "pdi_ok (sys_pdi s)" and "rr_command rq = ROUTE_COMMAND_LUMINOSITY"
  shows "main_command rq s =
    Some (on_pdi (pdi_log (LUMINOSITY_BYTES (icd_luminosity_from_signal_luminosity (rr_luminosity rq)))
      (sys_pdi s)) s)"
proof -
  have "is_icd_luminosity (icd_luminosity_from_signal_luminosity (rr_luminosity rq))"
    by (simp add: icd_luminosity_from_signal_luminosity_def is_icd_luminosity_def split: SignalLuminosity.split)
  then show ?thesis
    using assms by (simp add: main_command_def send_luminosity_spec)
qed

lemma main_quit_spec:
  "rr_command rq = ROUTE_COMMAND_QUIT \<Longrightarrow> main_command rq s = Some (main_exit 0 s)"
  by (simp add: main_command_def)

text \<open>The main thread never runs into undefined behaviour.\<close>

lemma main_command_total: "pdi_ok (sys_pdi s) \<Longrightarrow> \<exists>s'. main_command rq s = Some s'"
  using main_quit_spec main_luminosity_spec main_command_spec
  by (metis insert_iff singletonD surj_pair)

subsection \<open>The invariant\<close>

definition commanding :: "CloudIxlPdiState \<Rightarrow> bool" where
  "commanding st \<longleftrightarrow> st = PDI_WAIT_CONFIRMATION \<or> is_signal_command_result st"

text \<open>The layout of a state: no operation of the process moves the point or occupies a section.\<close>

definition ixl_shape :: "IXL_state \<Rightarrow> bool" where
  "ixl_shape s \<longleftrightarrow> ixl_point s = [LEFT] \<and> ixl_section s = replicate 3 S_FREE \<and>
     (\<forall>v \<in> set (ixl_route s). v = FREE \<or> v = RESERVED)"

definition recv_ok :: "u8 list \<Rightarrow> sci_telegram \<Rightarrow> bool" where
  "recv_ok msg t \<longleftrightarrow> (\<exists>junk. length junk = 85 \<and> sci_decode_telegram junk msg = Some t) \<and>
     msg ! 0 = 0x30 \<and> take 20 (drop 3 msg) = padded OC_SCI_NAME \<and>
     take 20 (drop 23 msg) = padded IXL_SCI_NAME \<and>
     (is_empty_payload_common_message (sci_get_message_type t) \<longrightarrow> drop 43 msg = [])"

definition awaited :: "RouteRequest \<Rightarrow> SignalAspect \<Rightarrow> bool" where
  "awaited rq a \<longleftrightarrow>
     (case rr_command rq of
        ROUTE_COMMAND_SIGNAL_ASPECT \<Rightarrow> a = rr_aspect rq
      | ROUTE_COMMAND_RELEASE \<Rightarrow> a = PARADA
      | ROUTE_COMMAND_REQUEST \<Rightarrow> a = VIA_LIBRE \<or> a = PARADA
      | _ \<Rightarrow> False)"

definition waiting_ok :: "sys \<Rightarrow> bool" where
  "waiting_ok s \<longleftrightarrow> (\<forall>rq. sys_pc s = M_Waiting rq \<longrightarrow>
     (\<exists>a. awaited rq a \<and> is_supported_signal_aspect a \<and>
        expected_bytes (sys_pdi s) = signal_aspect_payloads a))"

definition recv_inv :: "sys \<Rightarrow> bool" where
  "recv_inv s \<longleftrightarrow> (\<forall>msg t w. sys_recv s = Some (msg, t, w) \<longrightarrow> recv_ok msg t \<and>
     (w \<longrightarrow> (\<exists>rq. sys_pc s = M_Waiting rq) \<and> \<not> is_signal_command_result (pdi_state (sys_pdi s))))"

definition sys_inv :: "sys \<Rightarrow> bool" where
  "sys_inv s \<longleftrightarrow>
     (sys_pc s \<noteq> M_Establishing \<longrightarrow> ixl_inv (sys_ixl s) \<and> ixl_shape (sys_ixl s) \<or>
        (\<exists>c. sys_pc s = M_Done c)) \<and>
     (running s \<longrightarrow> pdi_ok (sys_pdi s) \<and>
        (commanding (pdi_state (sys_pdi s)) \<longrightarrow> (\<exists>rq. sys_pc s = M_Waiting rq)) \<and>
        waiting_ok s \<and> recv_inv s)"

lemma running_simps [simp]:
  "sys_pc s = M_Establishing \<Longrightarrow> running s" "sys_pc s = M_Idle \<Longrightarrow> running s"
  "sys_pc s = M_Waiting rq \<Longrightarrow> running s" "\<not> running (main_exit c s)"
  "running (on_pdi p s) = running s" "running (s\<lparr>sys_recv := r\<rparr>) = running s"
  by (auto simp: running_def main_exit_def on_pdi_def)

lemma exit_inv: "sys_inv (main_exit c s)"
  by (simp add: sys_inv_def main_exit_def running_def)

lemma init_ixl: "ixl_inv (the (cloud_ixl_state_init (Some x)))" "ixl_shape (the (cloud_ixl_state_init (Some x)))"
proof -
  show "ixl_inv (the (cloud_ixl_state_init (Some x)))" by (rule init_inv [OF init_state_some])
  show "ixl_shape (the (cloud_ixl_state_init (Some x)))"
    by (simp add: cloud_ixl_state_init_def ixl_shape_def eval_nat_numeral)
qed

lemma set_route_shape:
  "ixl_shape s \<Longrightarrow> v = FREE \<or> v = RESERVED \<Longrightarrow> ixl_shape (set_route s r v)"
  using set_update_subset_insert [of "ixl_route s" "route_index r" v]
  by (auto simp: ixl_shape_def set_route_def)

lemma requested_ixl:
  assumes "ixl_inv ixl" and "ixl_shape ixl" and "requested_aspect rq ixl = (a, ixl')"
  shows "ixl_inv ixl'" and "ixl_shape ixl'"
proof -
  have "ixl' = ixl \<or> request_route_decision (Some ixl) (rr_route_id rq) = (GO, Some ixl') \<and>
      ixl' = set_route ixl (rr_route_id rq) RESERVED"
    using requested_aspect_frame [OF assms(3)] by (auto simp: request_route_decision_def)
  then show "ixl_inv ixl'" "ixl_shape ixl'"
    using assms(1,2) request_inv set_route_shape by auto
qed

lemma requested_awaited:
  assumes "requested_aspect rq ixl = (a, ixl')"
    and "rr_command rq \<notin> {ROUTE_COMMAND_QUIT, ROUTE_COMMAND_LUMINOSITY}"
  shows "awaited rq a"
  using assms
  by (cases "rr_command rq")
     (auto simp: requested_aspect_def awaited_def ls_request_command_def split: RouteDecision.splits prod.splits)

text \<open>A callback keeps the invariant when it does not invent a command state.\<close>

lemma callback_inv:
  assumes i: "sys_inv s" and r: "running s"
    and e: "expected_bytes p = expected_bytes (sys_pdi s)" and ok: "pdi_ok p"
    and st: "commanding (pdi_state p) \<Longrightarrow>
      pdi_state p = pdi_state (sys_pdi s) \<or> pdi_state (sys_pdi s) = PDI_WAIT_CONFIRMATION"
    and v: "\<forall>msg t w. rv = Some (msg, t, w) \<longrightarrow> recv_ok msg t \<and>
      (w \<longrightarrow> (\<exists>rq. sys_pc s = M_Waiting rq) \<and> \<not> is_signal_command_result (pdi_state p))"
  shows "sys_inv (on_pdi p s\<lparr>sys_recv := rv\<rparr>)"
proof -
  have c: "commanding (pdi_state p) \<Longrightarrow> \<exists>rq. sys_pc s = M_Waiting rq"
    using i r st by (auto simp: sys_inv_def commanding_def)
  show ?thesis
    using i r e ok c v
    by (simp add: sys_inv_def on_pdi_def waiting_ok_def recv_inv_def running_def)
qed

lemma callback_inv_same:
  assumes i: "sys_inv s" and r: "running s"
    and e: "expected_bytes p = expected_bytes (sys_pdi s)" and ok: "pdi_ok p"
    and st: "commanding (pdi_state p) \<Longrightarrow> pdi_state p = pdi_state (sys_pdi s)"
  shows "sys_inv (on_pdi p s)"
proof -
  have "\<forall>msg t w. sys_recv s = Some (msg, t, w) \<longrightarrow> recv_ok msg t \<and>
      (w \<longrightarrow> (\<exists>rq. sys_pc s = M_Waiting rq) \<and> \<not> is_signal_command_result (pdi_state p))"
    using i r st by (force simp: sys_inv_def recv_inv_def commanding_def)
  from callback_inv [OF i r e ok _ this] st
  have "sys_inv (on_pdi p s\<lparr>sys_recv := sys_recv s\<rparr>)" by blast
  then show ?thesis by (simp add: on_pdi_def)
qed

lemma not_commanding [simp]:
  "\<not> commanding PDI_FAILED" "\<not> commanding PDI_DISCONNECTED" "\<not> commanding PDI_WAIT_RASTA_HANDSHAKE"
  "\<not> commanding PDI_WAIT_VERSION_RESPONSE" "\<not> commanding PDI_WAIT_INITIALISATION_START"
  "\<not> commanding PDI_RECEIVING_INITIAL_STATUS" "\<not> commanding PDI_ESTABLISHED"
  "commanding PDI_WAIT_CONFIRMATION"
  by (simp_all add: commanding_def is_signal_command_result_def)

lemma ev_next_commanding:
  "commanding (ev_next w e ev st) \<Longrightarrow> ev_next w e ev st = st \<or> st = PDI_WAIT_CONFIRMATION"
  by (cases ev) (auto split: if_splits)

lemma recv_body_spec:
  assumes "recv_ok msg t" and "pdi_ok p" and "length junk = 85"
  shows "receive_body junk msg w t p = Some (ev_apply w (classify msg) p)"
proof -
  obtain j0 where j0: "length j0 = 85" "sci_decode_telegram j0 msg = Some t"
    using assms(1) by (auto simp: recv_ok_def)
  have "classify msg = body_event (sci_get_message_type t) (drop 43 msg)"
    using decode_iff [OF j0(1), of msg] j0(2) decode_view(3) [OF j0(2) j0(1)] assms(1)
    by (simp add: classify_def recv_ok_def sci_get_message_type_def)
  then show ?thesis
    using body_spec [OF j0(2) j0(1) assms(3) _ assms(2)] assms(1) by (simp add: recv_ok_def)
qed

lemma head_some:
  assumes "length junk = 85" and "receive_head junk msg p = Some (Some t, p')"
  shows "p' = p" and "recv_ok msg t"
  using assms by (auto simp: head_spec recv_ok_def split: option.splits if_splits)

lemma head_none:
  assumes "length junk = 85" and "receive_head junk msg p = Some (None, p')"
  shows "p' = p \<or> p' = set_pdi_state PDI_FAILED p"
  using assms by (auto simp: head_spec split: option.splits if_splits)

subsection \<open>Every step keeps it\<close>

lemma idle_facts:
  assumes "sys_inv s" and "sys_pc s = M_Idle"
  shows "pdi_ok (sys_pdi s)" and "ixl_inv (sys_ixl s)" and "ixl_shape (sys_ixl s)"
    and "\<not> commanding (pdi_state (sys_pdi s))" and "recv_inv s"
  using assms by (auto simp: sys_inv_def)

lemma waiting_facts:
  assumes "sys_inv s" and "sys_pc s = M_Waiting rq"
  shows "pdi_ok (sys_pdi s)" and "ixl_inv (sys_ixl s)" and "ixl_shape (sys_ixl s)" and "recv_inv s"
    and "\<exists>a. awaited rq a \<and> is_supported_signal_aspect a \<and>
        expected_bytes (sys_pdi s) = signal_aspect_payloads a"
  using assms by (auto simp: sys_inv_def waiting_ok_def)

lemma recv_idle: "sys_pc s = M_Idle \<Longrightarrow> recv_inv s \<Longrightarrow> sys_recv s = Some (m, t, w) \<Longrightarrow> recv_ok m t \<and> \<not> w"
  by (auto simp: recv_inv_def)

lemma establish_inv:
  assumes i: "sys_inv s" and pc: "sys_pc s = M_Establishing"
    and w: "wait_for_pdi_establishment w (sys_pdi s) = Some (st, p)"
    and m: "main_established st (on_pdi p s) = Some s'"
  shows "sys_inv s'"
proof -
  have r: "pdi_ok (sys_pdi s)" "\<not> commanding (pdi_state (sys_pdi s))" "recv_inv s"
    using i pc by (auto simp: sys_inv_def)
  have p: "pdi_ok p" "st = pdi_state p" "p = sys_pdi s \<or> pdi_state p = PDI_FAILED"
    using w r(1) by (auto simp: wait_for_pdi_establishment_def Let_def split: wait_result.splits if_splits)
  have v: "\<And>m t w. sys_recv s = Some (m, t, w) \<Longrightarrow> recv_ok m t \<and> \<not> w"
    using r(3) pc by (auto simp: recv_inv_def)
  have "s' = (if st = PDI_ESTABLISHED
          then (on_pdi (pdi_log (LUMINOSITY_BYTES DEFAULT_SIGNAL_LUMINOSITY) p) s)
                 \<lparr>sys_ixl := the (cloud_ixl_state_init (Some (sys_ixl s))), sys_pc := M_Idle\<rparr>
          else main_exit 1 (on_pdi p s))"
    using m main_established_spec [of "on_pdi p s" st] p(1) by (simp add: on_pdi_def split: if_splits)
  then show ?thesis
    using p r(2) v init_ixl
    by (auto simp: sys_inv_def waiting_ok_def recv_inv_def on_pdi_def exit_inv [unfolded sys_inv_def])
qed

lemma operator_inv:
  assumes i: "sys_inv s" and pc: "sys_pc s = M_Idle"
    and m: "main_command rq (s\<lparr>sys_stdin := rest\<rparr>) = Some s'"
  shows "sys_inv s'"
proof -
  note f = idle_facts [OF i pc]
  note v = recv_idle [OF pc f(5)]
  let ?s = "s\<lparr>sys_stdin := rest\<rparr>"
  have ok: "pdi_ok (sys_pdi ?s)" using f(1) by simp
  consider "rr_command rq = ROUTE_COMMAND_QUIT" | "rr_command rq = ROUTE_COMMAND_LUMINOSITY"
    | "rr_command rq \<notin> {ROUTE_COMMAND_QUIT, ROUTE_COMMAND_LUMINOSITY}" by blast
  then show ?thesis
  proof cases
    case 1
    then show ?thesis using m main_quit_spec exit_inv by fastforce
  next
    case 2
    then show ?thesis
      using m main_luminosity_spec [OF ok 2] f pc v
      by (auto simp: sys_inv_def waiting_ok_def recv_inv_def on_pdi_def)
  next
    case 3
    obtain a ixl where a: "requested_aspect rq (sys_ixl ?s) = (a, ixl)" by fastforce
    then have a': "requested_aspect rq (sys_ixl s) = (a, ixl)" by simp
    note ri = requested_ixl [OF f(2,3) a'] and ra = requested_awaited [OF a' 3]
    let ?go = "?s\<lparr>sys_ixl := ixl, sys_pc := M_Waiting rq,
        sys_pdi := pdi_log (ASPECT_BYTES a) (set_pdi_state PDI_WAIT_CONFIRMATION
          ((sys_pdi ?s)\<lparr>expected_bytes := signal_aspect_payloads a\<rparr>))\<rparr>"
    have "(\<exists>x. s' = main_exit 1 x) \<or> (is_supported_signal_aspect a \<and> s' = ?go)"
      using m main_command_spec [OF ok 3 a] by (auto simp: Let_def split: if_splits)
    moreover have "pdi_ok ((sys_pdi s)\<lparr>expected_bytes := signal_aspect_payloads a\<rparr>)"
      using f(1) by (simp add: pdi_ok_def)
    then have "is_supported_signal_aspect a \<Longrightarrow> sys_inv ?go"
      using ri ra v
      by (auto simp: sys_inv_def waiting_ok_def recv_inv_def is_signal_command_result_def)
    ultimately show ?thesis using exit_inv by blast
  qed
qed

lemma release_some: "\<exists>ok x'. release_route (Some x) r = (ok, Some x')"
  by (cases "cloud_ixl_get_route_definition r") (auto simp: release_route_def)

lemma release_ixl:
  assumes "ixl_inv x" and "ixl_shape x"
  shows "ixl_inv (the (snd (release_route (Some x) r)))" and "ixl_shape (the (snd (release_route (Some x) r)))"
proof -
  obtain ok x' where x': "release_route (Some x) r = (ok, Some x')"
    using release_some by blast
  show "ixl_inv (the (snd (release_route (Some x) r)))" using release_inv [OF assms(1) x'] x' by simp
  show "ixl_shape (the (snd (release_route (Some x) r)))"
    using release_cases [OF x'] set_route_shape [OF assms(2)] assms(2) x' by auto
qed

lemma feedback_inv:
  assumes i: "sys_inv s" and pc: "sys_pc s = M_Waiting rq"
    and w: "wait_for_signal_confirmation w (sys_pdi s) = Some (st, p)"
  shows "sys_inv (main_result rq st (on_pdi p s))"
proof (cases "is_signal_command_result st")
  case False
  then have "\<exists>s'. main_result rq st (on_pdi p s) = main_exit 1 s'"
    by (cases st) (auto simp: main_result_def is_signal_command_result_def)
  then show ?thesis using exit_inv by fastforce
next
  case True
  note f = waiting_facts [OF i pc]
  have st: "pdi_state (sys_pdi s) = st" and p: "p = set_pdi_state PDI_ESTABLISHED (sys_pdi s)"
    using w True
    by (auto simp: wait_for_signal_confirmation_def Let_def fail_pending_signal_confirmation_def
        is_signal_command_result_def split: wait_result.splits if_splits)
  have v: "\<And>m t w. sys_recv s = Some (m, t, w) \<Longrightarrow> recv_ok m t \<and> \<not> w"
    using f(4) True st by (auto simp: recv_inv_def)
  let ?ixl = "sys_ixl (main_result rq st (on_pdi p s))"
  have "ixl_inv ?ixl \<and> ixl_shape ?ixl"
    using True f(2,3) release_ixl [OF f(2,3)]
    by (auto simp: main_result_def is_signal_command_result_def on_pdi_def)
  moreover have "sys_pc (main_result rq st (on_pdi p s)) = M_Idle"
    "sys_pdi (main_result rq st (on_pdi p s)) = p"
    "sys_recv (main_result rq st (on_pdi p s)) = sys_recv s"
    using True by (auto simp: main_result_def is_signal_command_result_def on_pdi_def)
  ultimately show ?thesis
    using f(1) v by (auto simp: sys_inv_def waiting_ok_def recv_inv_def p)
qed

lemma connection_state:
  "\<not> commanding (pdi_state (on_connection_change st p)) \<or> on_connection_change st p = p"
  "expected_bytes (on_connection_change st p) = expected_bytes p"
  "pdi_ok (on_connection_change st p) = pdi_ok p"
  by (auto simp: on_connection_change_def fail_pending_signal_confirmation_def split: rasta_sr_state.splits)

lemma step_inv: "sys_step s s' \<Longrightarrow> sys_inv s \<Longrightarrow> sys_inv s'"
proof (induction rule: sys_step.induct)
  case (establish s w st p s')
  then show ?case using establish_inv by blast
next
  case (operator s rq rest s')
  then show ?case using operator_inv by blast
next
  case (feedback s rq w st p s')
  then show ?case using feedback_inv by blast
next
  case (handshake s remote p)
  then have ok: "pdi_ok (sys_pdi s)" by (simp add: sys_inv_def)
  show ?case
    using handshake ok handshake_spec [OF ok, of remote] by (intro callback_inv_same) (auto split: if_splits)
next
  case (disposed s junk msg p)
  then have "pdi_ok (sys_pdi s)" by (simp add: sys_inv_def)
  then show ?case using head_none [OF disposed(3,4)] disposed by (intro callback_inv_same) auto
next
  case (received s junk msg t p)
  then have "pdi_ok (sys_pdi s)" "commanding (pdi_state (sys_pdi s)) \<longrightarrow> (\<exists>rq. sys_pc s = M_Waiting rq)"
    by (simp_all add: sys_inv_def)
  then show ?case
    using head_some [OF received(3,4)] received
    by (intro callback_inv) (auto simp: is_signal_command_result_def)
next
  case (handled s msg t w junk p)
  then have ok: "pdi_ok (sys_pdi s)" and "recv_ok msg t" by (auto simp: sys_inv_def recv_inv_def)
  then have p: "p = ev_apply w (classify msg) (sys_pdi s)"
    using recv_body_spec handled by fastforce
  show ?case
    using handled ok p ev_next_commanding [of w _ "classify msg"] by (intro callback_inv) auto
next
  case (connection s st)
  then have "pdi_ok (sys_pdi s)" by (simp add: sys_inv_def)
  then show ?case
    using connection connection_state [of st "sys_pdi s"] by (intro callback_inv_same) auto
next
  case (timeout s)
  then have "pdi_ok (sys_pdi s)" by (simp add: sys_inv_def)
  then show ?case
    using timeout by (intro callback_inv_same) (auto simp: on_timeout_def fail_pending_signal_confirmation_def)
qed

end
