(* ===== verification/Ixl_Runs.thy ===== *)
theory Ixl_Runs
  imports Ixl_Safety
begin

section \<open>Runs of the Cloud IXL process\<close>

text \<open>
  The start of the process satisfies the invariant, so every reachable state does; the
  properties of the supervised dialogue follow. The last part builds one concrete run (a
  handshake, the establishment, a route command and its confirmation) on which the
  properties are instantiated.
\<close>

lemma key_OC: "key_of OC_SCI_NAME = OC_SCI_NAME @ replicate 15 SCI_NAME_PADDING_CHAR"
  by (simp add: key_of_def OC_SCI_NAME_def cstr_def sci_sizes takeWhile_eq_all_conv)

lemma register_OC:
  "\<exists>ls. scils_register_sci_name mem (scils_init IXL_SCI_NAME) OC_SCI_NAME OC_RASTA_ID = Some ls \<and>
     sciName ls = IXL_SCI_NAME \<and> sr_sent ls = [] \<and> hm_inv (sciNamesToRastaIds ls) \<and>
     hm_lookup (sciNamesToRastaIds ls) (key_of OC_SCI_NAME) = Some OC_RASTA_ID"
proof -
  let ?ls = "scils_init IXL_SCI_NAME"
  have f: "length OC_SCI_NAME \<le> SCI_NAME_LENGTH" by (simp add: sci_sizes)
  have e: "sciNamesToRastaIds ?ls = hashmap_new" by (simp add: scils_init_def)
  have p: "fst (hashmap_put mem (sciNamesToRastaIds ?ls) (key_of OC_SCI_NAME) OC_RASTA_ID) = MAP_OK"
    unfolding e by (rule hashmap_put_empty_slot) (simp add: hashmap_new_def INITIAL_SIZE_def, simp add: slot_of_new)
  have "\<exists>ls. scils_register_sci_name mem ?ls OC_SCI_NAME OC_RASTA_ID = Some ls"
    by (auto simp: scils_register_sci_name_def pad_name_fits [OF f]
        name_string_of_padded [OF f, unfolded names_fit] split: prod.splits map_status.splits)
  then obtain ls where r: "scils_register_sci_name mem ?ls OC_SCI_NAME OC_RASTA_ID = Some ls" by blast
  have inv: "hm_inv (sciNamesToRastaIds ?ls)" by (simp add: e hashmap_new_inv)
  note l = register_lookup [OF inv f r p]
  show ?thesis
    using r l(1-4) by (auto simp: e hashmap_new_lookup scils_init_def)
qed

lemma start_total:
  "\<exists>s0. main_start getenv mem stdin x = Some s0"
  "main_start getenv mem stdin x = Some s0 \<Longrightarrow> sys_inv s0"
  "main_start getenv mem stdin x = Some s0 \<Longrightarrow> running s0 \<Longrightarrow>
     pdi_state (sys_pdi s0) = PDI_WAIT_RASTA_HANDSHAKE \<and> sys_pc s0 = M_Establishing \<and>
     sys_recv s0 = None \<and> sys_stdin s0 = stdin \<and> sent (sys_pdi s0) = []"
proof -
  let ?ch = "[\<lparr>ip = replicate 16 0, port = 0\<rparr>, \<lparr>ip = replicate 16 0, port = 0\<rparr>]"
  obtain ok c where c: "configure_oc_channels getenv (Some ?ch) = Some (ok, Some c)"
    using configure_ok [of ?ch getenv] by auto
  obtain ls where ls: "scils_register_sci_name mem (scils_init IXL_SCI_NAME) OC_SCI_NAME OC_RASTA_ID = Some ls"
    "sciName ls = IXL_SCI_NAME" "sr_sent ls = []"
    "hm_lookup (sciNamesToRastaIds ls) (key_of OC_SCI_NAME) = Some OC_RASTA_ID"
    using register_OC by blast
  show "\<exists>s0. main_start getenv mem stdin x = Some s0"
    by (simp add: main_start_def c ls(1) Let_def)
  show "main_start getenv mem stdin x = Some s0 \<Longrightarrow> sys_inv s0"
    using ls(2,4)
    by (auto simp: main_start_def c ls(1) Let_def sys_inv_def running_def waiting_ok_def recv_inv_def
        pdi_ok_def set_pdi_state_def split: if_splits)
  show "main_start getenv mem stdin x = Some s0 \<Longrightarrow> running s0 \<Longrightarrow>
     pdi_state (sys_pdi s0) = PDI_WAIT_RASTA_HANDSHAKE \<and> sys_pc s0 = M_Establishing \<and>
     sys_recv s0 = None \<and> sys_stdin s0 = stdin \<and> sent (sys_pdi s0) = []"
    using ls(3)
    by (auto simp: main_start_def c ls(1) Let_def running_def set_pdi_state_def sent_def split: if_splits)
qed

lemma reachable_inv:
  assumes "main_start getenv mem stdin x = Some s0" and "sys_reachable s0 s"
  shows "sys_inv s"
  using assms(2) by (induction rule: sys_reachable.induct) (auto intro: start_total(2) [OF assms(1)] step_inv)

subsection \<open>Step facts\<close>

lemma ev_confirmed:
  "ev_next w e ev st = PDI_COMMAND_CONFIRMED \<Longrightarrow> st \<noteq> PDI_COMMAND_CONFIRMED \<Longrightarrow>
   w \<and> st = PDI_WAIT_CONFIRMATION \<and> ev = Ev_Aspect e"
  by (cases ev) (auto split: if_splits)

lemma ev_established:
  "ev_next w e ev st = PDI_ESTABLISHED \<Longrightarrow> st \<noteq> PDI_ESTABLISHED \<Longrightarrow>
   st = PDI_RECEIVING_INITIAL_STATUS \<and> ev = Ev_Finish"
  by (cases ev) (auto split: if_splits)

lemma connection_not:
  "pdi_state (on_connection_change st p) \<in> {PDI_COMMAND_CONFIRMED, PDI_ESTABLISHED} \<Longrightarrow>
   pdi_state (on_connection_change st p) = pdi_state p"
  by (auto simp: on_connection_change_def fail_pending_signal_confirmation_def split: rasta_sr_state.splits if_splits)

text \<open>The states of the process data interface a callback can produce.\<close>

lemma handled_spec:
  assumes "sys_inv s" and "running s" and "sys_recv s = Some (msg, t, w)" and "length junk = 85"
    and "receive_body junk msg w t (sys_pdi s) = Some p"
  shows "p = ev_apply w (classify msg) (sys_pdi s)"
  using assms recv_body_spec [of msg t "sys_pdi s" junk w] by (auto simp: sys_inv_def recv_inv_def)

lemma main_result_simps:
  "is_signal_command_result st \<Longrightarrow> sys_pdi (main_result rq st s) = sys_pdi s"
  "is_signal_command_result st \<Longrightarrow> sys_pc (main_result rq st s) = M_Idle"
  "\<not> is_signal_command_result st \<Longrightarrow> pdi_state (sys_pdi (main_result rq st s)) = PDI_FAILED \<or>
     pdi_state (sys_pdi (main_result rq st s)) = pdi_state (sys_pdi s) \<and> st = PDI_FAILED"
  "\<not> is_signal_command_result st \<Longrightarrow> \<not> running (main_result rq st s)"
  by (cases st; simp add: main_result_def is_signal_command_result_def main_exit_def
      cleanup_pdi_resources_def running_def)+

lemma feedback_result:
  assumes "wait_for_signal_confirmation w p = Some (st, p')"
  shows "(is_signal_command_result st \<and> st = pdi_state p \<and> p' = set_pdi_state PDI_ESTABLISHED p) \<or>
    \<not> is_signal_command_result st"
  using assms
  by (auto simp: wait_for_signal_confirmation_def Let_def fail_pending_signal_confirmation_def
      is_signal_command_result_def split: wait_result.splits if_splits)

text \<open>
  The steps of a process that keeps running, by what they do to the process data interface:
  the elimination rule the properties below use.
\<close>

lemma running_step [consumes 3, case_names establish luminosity command feedback handshake handled
    recv connection]:
  assumes "sys_step s s'" and "sys_inv s" and "running s'"
  obtains
    (establish) "sys_pc s = M_Establishing" "pdi_state (sys_pdi s) = PDI_ESTABLISHED"
      "s' = (on_pdi (pdi_log (LUMINOSITY_BYTES DEFAULT_SIGNAL_LUMINOSITY) (sys_pdi s)) s)
              \<lparr>sys_ixl := the (cloud_ixl_state_init (Some (sys_ixl s))), sys_pc := M_Idle\<rparr>"
  | (luminosity) l rest where "sys_pc s = M_Idle"
      "s' = s\<lparr>sys_stdin := rest, sys_pdi := pdi_log (LUMINOSITY_BYTES l) (sys_pdi s)\<rparr>"
  | (command) rq rest a ixl where "sys_pc s = M_Idle" "pdi_state (sys_pdi s) = PDI_ESTABLISHED"
      "receive_route_request (sys_stdin s) = (rq, rest)" "requested_aspect rq (sys_ixl s) = (a, ixl)"
      "s' = s\<lparr>sys_stdin := rest, sys_ixl := ixl, sys_pc := M_Waiting rq,
              sys_pdi := pdi_log (ASPECT_BYTES a) (set_pdi_state PDI_WAIT_CONFIRMATION
                ((sys_pdi s)\<lparr>expected_bytes := signal_aspect_payloads a\<rparr>))\<rparr>"
  | (feedback) rq where "sys_pc s = M_Waiting rq" "is_signal_command_result (pdi_state (sys_pdi s))"
      "s' = main_result rq (pdi_state (sys_pdi s)) (on_pdi (set_pdi_state PDI_ESTABLISHED (sys_pdi s)) s)"
  | (handshake) p where "running s" "s' = on_pdi p s"
      "p = set_pdi_state PDI_FAILED (sys_pdi s) \<or>
       p = pdi_log VERSION_REQUEST_BYTES (set_pdi_state PDI_WAIT_VERSION_RESPONSE (sys_pdi s))"
  | (handled) msg t w where "running s" "sys_recv s = Some (msg, t, w)"
      "s' = on_pdi (ev_apply w (classify msg) (sys_pdi s)) s\<lparr>sys_recv := None\<rparr>"
  | (recv) p rv where "running s" "s' = on_pdi p s\<lparr>sys_recv := rv\<rparr>"
      "p = sys_pdi s \<or> p = set_pdi_state PDI_FAILED (sys_pdi s)"
  | (connection) st where "running s" "s' = on_pdi (on_connection_change st (sys_pdi s)) s"
  using assms(1)
proof (cases rule: sys_step.cases)
  case (establish w st p)
  have "pdi_ok (sys_pdi s)" using establish assms(2) by (simp add: sys_inv_def)
  then have "st = PDI_ESTABLISHED" "p = sys_pdi s" "pdi_state (sys_pdi s) = PDI_ESTABLISHED"
    using establish assms(3) main_established_spec [of "on_pdi p s" st]
    by (auto simp: on_pdi_def [of p s] wait_for_pdi_establishment_def Let_def is_pdi_establishment_terminal_def
        split: wait_result.splits if_splits)
  then show ?thesis
    using that(1) establish main_established_spec [of s st] \<open>pdi_ok (sys_pdi s)\<close>
    by (simp add: on_pdi_def)
next
  case (operator rq rest)
  let ?s = "s\<lparr>sys_stdin := rest\<rparr>"
  have ok: "pdi_ok (sys_pdi ?s)" using operator assms(2) by (simp add: sys_inv_def)
  consider "rr_command rq = ROUTE_COMMAND_QUIT" | "rr_command rq = ROUTE_COMMAND_LUMINOSITY"
    | "rr_command rq \<notin> {ROUTE_COMMAND_QUIT, ROUTE_COMMAND_LUMINOSITY}" by blast
  then show ?thesis
  proof cases
    case 1
    then show ?thesis using operator(3) main_quit_spec assms(3) by auto
  next
    case 2
    have "s' = s\<lparr>sys_stdin := rest, sys_pdi := pdi_log (LUMINOSITY_BYTES
        (icd_luminosity_from_signal_luminosity (rr_luminosity rq))) (sys_pdi s)\<rparr>"
      using operator(3) main_luminosity_spec [OF ok 2] by (simp add: on_pdi_def)
    then show ?thesis using operator(1) that(2) by blast
  next
    case 3
    obtain a ixl where a: "requested_aspect rq (sys_ixl ?s) = (a, ixl)" by fastforce
    then show ?thesis
      using operator main_command_spec [OF ok 3 a] that(3) assms(3) by (auto simp: Let_def split: if_splits)
  qed
next
  case (feedback rq w st p)
  then show ?thesis
    using feedback_result [OF feedback(2)] assms(3) main_result_simps(4) [of st rq "on_pdi p s"] that(4) by auto
next
  case (handshake remote p)
  then have "pdi_ok (sys_pdi s)" using assms(2) by (simp add: sys_inv_def)
  then show ?thesis using handshake handshake_spec [of "sys_pdi s" remote] that(5) by (auto split: if_splits)
next
  case (disposed junk msg p)
  have "on_pdi p s = on_pdi p s\<lparr>sys_recv := sys_recv s\<rparr>" by (simp add: on_pdi_def)
  then show ?thesis using disposed head_none [OF disposed(4,5)] that(7) by blast
next
  case (received junk msg t p)
  then show ?thesis using head_some [OF received(4,5)] that(7) by blast
next
  case (handled msg t w junk p)
  then show ?thesis using handled_spec [OF assms(2) handled(2,3,4,5)] that(6) by blast
next
  case (connection st)
  then show ?thesis using that(8) by blast
next
  case timeout
  have "s' = on_pdi (set_pdi_state PDI_FAILED (sys_pdi s)) s\<lparr>sys_recv := sys_recv s\<rparr>"
    using timeout by (simp add: on_pdi_def on_timeout_def fail_pending_signal_confirmation_def)
  then show ?thesis using timeout that(7) by blast
qed

subsection \<open>Consequences\<close>

lemma on_pdi_simps [simp]:
  "sys_pdi (on_pdi p s) = p" "sys_ixl (on_pdi p s) = sys_ixl s" "sys_pc (on_pdi p s) = sys_pc s"
  "sys_recv (on_pdi p s) = sys_recv s" "sys_stdin (on_pdi p s) = sys_stdin s"
  by (simp_all add: on_pdi_def)

lemma confirmed_step:
  assumes "sys_step s s'" and "sys_inv s" and "running s'"
    and "pdi_state (sys_pdi s') = PDI_COMMAND_CONFIRMED" and "pdi_state (sys_pdi s) \<noteq> PDI_COMMAND_CONFIRMED"
  shows "\<exists>msg t rq. sys_recv s = Some (msg, t, True) \<and> sys_pc s = M_Waiting rq \<and>
    pdi_state (sys_pdi s) = PDI_WAIT_CONFIRMATION \<and> classify msg = Ev_Aspect (expected_bytes (sys_pdi s))"
  using assms(1-3)
proof (cases rule: running_step)
  case (handled msg t w)
  then show ?thesis
    using assms(2,4,5) ev_confirmed [of w "expected_bytes (sys_pdi s)" "classify msg" "pdi_state (sys_pdi s)"]
    by (auto simp: sys_inv_def recv_inv_def)
next
  case (connection st)
  then show ?thesis using connection_not [of st "sys_pdi s"] assms(4,5) by auto
qed (use assms(4,5) in \<open>auto simp: main_result_simps\<close>)

lemma established_step:
  assumes "sys_step s s'" and "sys_inv s" and "running s'"
    and "pdi_state (sys_pdi s') = PDI_ESTABLISHED" and "pdi_state (sys_pdi s) \<noteq> PDI_ESTABLISHED"
  shows "(\<exists>msg t w. sys_recv s = Some (msg, t, w) \<and> classify msg = Ev_Finish \<and>
       pdi_state (sys_pdi s) = PDI_RECEIVING_INITIAL_STATUS) \<or>
     (\<exists>rq. sys_pc s = M_Waiting rq \<and> is_signal_command_result (pdi_state (sys_pdi s)))"
  using assms(1-3)
proof (cases rule: running_step)
  case (handled msg t w)
  then show ?thesis
    using assms(4,5) ev_established [of w "expected_bytes (sys_pdi s)" "classify msg" "pdi_state (sys_pdi s)"]
    by auto
next
  case (connection st)
  then show ?thesis using connection_not [of st "sys_pdi s"] assms(4,5) by auto
qed (use assms(4,5) in \<open>auto simp: main_result_simps\<close>)

lemma sent_connection [simp]: "sent (on_connection_change st p) = sent p"
  by (auto simp: on_connection_change_def fail_pending_signal_confirmation_def split: rasta_sr_state.splits)

text \<open>The message type in the bytes of a telegram the process sends.\<close>

definition wire_type :: "u8 list \<Rightarrow> u16" where
  "wire_type bs = bytesToShort (take 2 (drop 1 bs))"

lemma wire_type_telegram [simp]: "wire_type (telegram_bytes s r m pl) = m"
  by (simp add: wire_type_def telegram_bytes_def)

lemma sent_types [simp]:
  "wire_type (ASPECT_BYTES a) = SCI_LS_ICD_MESSAGE_TYPE_SHOW_SIGNAL_ASPECT"
  "wire_type (LUMINOSITY_BYTES l) = SCI_LS_ICD_MESSAGE_TYPE_CHANGE_LUMINOSITY"
  "wire_type VERSION_REQUEST_BYTES = SCI_MESSAGE_TYPE_VERSION_REQUEST"
  "wire_type STATUS_REQUEST_BYTES = SCI_MESSAGE_TYPE_STATUS_REQUEST"
  by (simp_all add: ASPECT_BYTES_def LUMINOSITY_BYTES_def VERSION_REQUEST_BYTES_def STATUS_REQUEST_BYTES_def)

lemma sent_expected [simp]: "sent (p\<lparr>expected_bytes := e\<rparr>) = sent p"
  by (simp add: sent_def)

lemma pdi_ok_payload [simp]: "pdi_ok p \<Longrightarrow> pdi_ok (p\<lparr>expected_bytes := signal_aspect_payloads a\<rparr>)"
  by (simp add: pdi_ok_def)

lemma aspect_sent_step:
  assumes "sys_step s s'" and "sys_inv s" and "running s" and "running s'"
    and n: "sent (sys_pdi s') = sent (sys_pdi s) @ [(i, bs)]"
    and m: "wire_type bs = SCI_LS_ICD_MESSAGE_TYPE_SHOW_SIGNAL_ASPECT"
  shows "sys_pc s = M_Idle \<and> pdi_state (sys_pdi s) = PDI_ESTABLISHED \<and>
    pdi_state (sys_pdi s') = PDI_WAIT_CONFIRMATION \<and> i = OC_RASTA_ID \<and>
    (\<exists>rq a. sys_pc s' = M_Waiting rq \<and> awaited rq a \<and> bs = ASPECT_BYTES a \<and>
       expected_bytes (sys_pdi s') = signal_aspect_payloads a)"
proof -
  have ok: "pdi_ok (sys_pdi s)" using assms(2,3) by (simp add: sys_inv_def)
  have inv': "sys_inv s'" using step_inv [OF assms(1,2)] .
  show ?thesis
    using assms(1,2,4)
  proof (cases rule: running_step)
    case (command rq rest a ixl)
    have "rr_command rq \<noteq> ROUTE_COMMAND_QUIT \<and> rr_command rq \<noteq> ROUTE_COMMAND_LUMINOSITY"
      using inv' command(5) by (auto simp: sys_inv_def waiting_ok_def awaited_def)
    then show ?thesis
      using command n ok requested_awaited [OF command(4)] by auto
  next
    case (handled msg t w)
    then show ?thesis using n m ok by (auto simp: ev_apply_sent ev_sends_def msg_types split: if_splits)
  qed (use n m ok in \<open>auto simp: msg_types main_result_simps\<close>)
qed

lemma blocked_requested:
  assumes "wf_ixl ixl" and "requested_aspect rq ixl = (a, ixl')" and "blocked ixl r"
  shows "blocked ixl' r"
proof -
  have "may_set ixl (rr_route_id rq) \<Longrightarrow> blocked (set_route ixl (rr_route_id rq) RESERVED) r"
    using assms(1,3) blocked_set_route [OF assms(1), of "rr_route_id rq" RESERVED r]
    by (auto simp: may_set_def route_state_blocks_def)
  then show ?thesis
    using requested_aspect_frame [OF assms(2)] assms(3) get_route_state_free by auto
qed

lemma unblock_step:
  assumes "sys_step s s'" and "sys_inv s" and "running s" and "running s'" and "sys_pc s \<noteq> M_Establishing"
    and b: "blocked (sys_ixl s) r" "\<not> blocked (sys_ixl s') r"
  shows "\<exists>rq. sys_pc s = M_Waiting rq \<and> rr_command rq = ROUTE_COMMAND_RELEASE \<and> rr_route_id rq = r \<and>
    pdi_state (sys_pdi s) = PDI_COMMAND_CONFIRMED \<and>
    expected_bytes (sys_pdi s) = signal_aspect_payloads PARADA"
proof -
  have i: "ixl_inv (sys_ixl s)" using assms(2,3,5) by (auto simp: sys_inv_def running_def)
  then have wf: "wf_ixl (sys_ixl s)" by (simp add: ixl_inv_def)
  show ?thesis
    using assms(1,2,4)
  proof (cases rule: running_step)
    case (command rq rest a ixl)
    then show ?thesis using b blocked_requested [OF wf command(4)] by simp
  next
    case (feedback rq)
    have ne: "sys_ixl s' \<noteq> sys_ixl s" using b by auto
    have c: "pdi_state (sys_pdi s) = PDI_COMMAND_CONFIRMED" and rel: "rr_command rq = ROUTE_COMMAND_RELEASE"
      and s': "sys_ixl s' = the (snd (release_route (Some (sys_ixl s)) (rr_route_id rq)))"
      using feedback(2,3) ne by (auto simp: main_result_def is_signal_command_result_def split: if_splits)
    obtain k x where x: "release_route (Some (sys_ixl s)) (rr_route_id rq) = (k, Some x)"
      using release_some by blast
    have "rr_route_id rq = r"
      using release_cases [OF x] b s' x blocked_set_route [OF wf] by (auto split: if_splits)
    moreover have "expected_bytes (sys_pdi s) = signal_aspect_payloads PARADA"
      using waiting_facts(5) [OF assms(2) feedback(1)] rel by (auto simp: awaited_def)
    ultimately show ?thesis using feedback(1) c rel by blast
  qed (use b assms(5) in auto)
qed

end
