(* ===== verification/Ixl_Demo.thy ===== *)
theory Ixl_Demo
  imports Ixl_Runs
begin

section \<open>A run of the Cloud IXL process\<close>

text \<open>
  One concrete run from the start of the process: the handshake, the establishment of the
  dialogue, the request of route AB and its confirmation, and the confirmed release. The
  properties of reachable states are instantiated on its states.
\<close>

definition demo_ixl :: IXL_state where
  "demo_ixl = \<lparr>ixl_section = [], ixl_point = [], ixl_signal = [], ixl_route = []\<rparr>"

definition demo_input :: string where
  "demo_input = ''r'' @ [CHR 0x0A] @ ''1'' @ [CHR 0x0A] @ ''l'' @ [CHR 0x0A] @ ''1'' @ [CHR 0x0A]"

definition demo_start :: sys where
  "demo_start = the (main_start (\<lambda>_. None) 0 demo_input demo_ixl)"

definition oc_msg :: "u16 \<Rightarrow> u8 list \<Rightarrow> u8 list" where
  "oc_msg m pl = telegram_bytes OC_SCI_NAME IXL_SCI_NAME m pl"

lemma classify_oc: "length pl \<le> 85 \<Longrightarrow> classify (oc_msg m pl) = body_event m pl"
  by (simp add: classify_def oc_msg_def telegram_bytes_def)

lemma demo_start_some: "main_start (\<lambda>_. None) 0 demo_input demo_ixl = Some demo_start"
  using start_total(1) unfolding demo_start_def by (metis option.sel)

lemma demo_reachable_inv: "sys_reachable demo_start s \<Longrightarrow> sys_inv s"
  by (rule reachable_inv [OF demo_start_some])

lemma demo_start_running: "running demo_start"
proof -
  let ?ch = "[\<lparr>ip = replicate 16 0, port = 0\<rparr>, \<lparr>ip = replicate 16 0, port = 0\<rparr>]"
  have "\<exists>c. configure_oc_channels (\<lambda>_. None) (Some ?ch) = Some (True, c)"
    by (simp add: configure_oc_channels_def read_ip_setting_def env_or_default_def read_port_setting_def
        DEFAULT_OC_CH1_IP_def DEFAULT_OC_CH2_IP_def cstr_def strlen_def buf_write_def Let_def
        set_ip_def set_port_def)
  then obtain c where c: "configure_oc_channels (\<lambda>_. None) (Some ?ch) = Some (True, c)" by blast
  obtain ls where ls: "scils_register_sci_name 0 (scils_init IXL_SCI_NAME) OC_SCI_NAME OC_RASTA_ID = Some ls"
    using register_OC by blast
  then show ?thesis
    unfolding demo_start_def by (simp add: main_start_def c Let_def running_def ls)
qed

text \<open>What is known of a state of the run.\<close>

definition demo_at :: "sys \<Rightarrow> CloudIxlPdiState \<Rightarrow> main_pc \<Rightarrow> string \<Rightarrow> bool" where
  "demo_at s st pc inp \<longleftrightarrow> sys_reachable demo_start s \<and> pdi_state (sys_pdi s) = st \<and> sys_pc s = pc \<and>
     sys_stdin s = inp \<and> sys_recv s = None"

text \<open>The first half of the handler accepts a good message and changes nothing.\<close>

lemma good_head:
  assumes "classify msg \<notin> {Ev_Ignored, Ev_Bad}"
  shows "\<exists>t. recv_ok msg t \<and> receive_head (replicate 85 0) msg p = Some (Some t, p)"
proof -
  let ?j = "replicate 85 0"
  have len: "length ?j = 85" by simp
  have "sci_decode_telegram ?j msg \<noteq> None"
    using assms decode_iff [OF len, of msg] by (auto simp: classify_def split: if_splits)
  then obtain t where t: "sci_decode_telegram ?j msg = Some t" by blast
  have "recv_ok msg t"
    using assms t len decode_view(3) [OF t len]
    by (auto simp: recv_ok_def classify_def body_event_def is_empty_payload_common_message_def
        sci_get_message_type_def split: if_splits intro!: exI [of _ ?j])
  then show ?thesis by (intro exI [of _ t]) (simp add: head_spec [OF len] t recv_ok_def)
qed

text \<open>A good message is handled in two steps.\<close>

lemma deliver:
  assumes r: "sys_reachable s0 s" and i: "sys_inv s" and run: "running s" and n: "sys_recv s = None"
    and c: "classify msg \<notin> {Ev_Ignored, Ev_Bad}"
  shows "\<exists>s1 s2. sys_reachable s0 s1 \<and> sys_step s1 s2 \<and> sys_reachable s0 s2 \<and>
    sys_pdi s1 = sys_pdi s \<and> sys_pc s1 = sys_pc s \<and>
    s2 = on_pdi (ev_apply (pdi_state (sys_pdi s) = PDI_WAIT_CONFIRMATION) (classify msg) (sys_pdi s)) s"
proof -
  let ?j = "replicate 85 0" let ?w = "pdi_state (sys_pdi s) = PDI_WAIT_CONFIRMATION"
  have ok: "pdi_ok (sys_pdi s)" using i run by (simp add: sys_inv_def)
  have len: "length ?j = 85" by simp
  obtain t where t: "recv_ok msg t" and h: "receive_head ?j msg (sys_pdi s) = Some (Some t, sys_pdi s)"
    using good_head [OF c] by blast
  let ?s1 = "on_pdi (sys_pdi s) s\<lparr>sys_recv := Some (msg, t, ?w)\<rparr>"
  let ?s2 = "on_pdi (ev_apply ?w (classify msg) (sys_pdi s)) ?s1\<lparr>sys_recv := None\<rparr>"
  have s1: "sys_step s ?s1" using sys_step.received [OF run n len h] by simp
  have b: "receive_body ?j msg ?w t (sys_pdi ?s1) = Some (ev_apply ?w (classify msg) (sys_pdi s))"
    using recv_body_spec [OF t ok len] by simp
  have s2: "sys_step ?s1 ?s2" using sys_step.handled [OF _ _ len b] run by simp
  have e: "?s2 = on_pdi (ev_apply ?w (classify msg) (sys_pdi s)) s"
    using n by (simp add: on_pdi_def)
  have r1: "sys_reachable s0 ?s1" using r s1 by (rule reach_step)
  have "sys_reachable s0 ?s2" using r1 s2 by (rule reach_step)
  then show ?thesis
    using r1 s2 e by (intro exI [of _ ?s1] exI [of _ ?s2]) auto
qed

lemma demo_deliver:
  assumes "demo_at s st pc inp" and "\<forall>c. pc \<noteq> M_Done c" and "classify msg \<notin> {Ev_Ignored, Ev_Bad}"
  shows "\<exists>s1 s2. sys_reachable demo_start s1 \<and> sys_step s1 s2 \<and> sys_pdi s1 = sys_pdi s \<and> sys_pc s1 = pc \<and>
    demo_at s2 (ev_next (st = PDI_WAIT_CONFIRMATION) (expected_bytes (sys_pdi s)) (classify msg) st) pc inp \<and>
    sys_ixl s2 = sys_ixl s \<and> expected_bytes (sys_pdi s2) = expected_bytes (sys_pdi s)"
proof -
  have a: "sys_reachable demo_start s" "running s" "sys_recv s = None" "pdi_state (sys_pdi s) = st"
    "sys_pc s = pc" "sys_stdin s = inp"
    using assms(1,2) by (auto simp: demo_at_def running_def)
  obtain s1 s2 where d: "sys_reachable demo_start s1" "sys_step s1 s2" "sys_reachable demo_start s2"
    "sys_pdi s1 = sys_pdi s" "sys_pc s1 = sys_pc s"
    "s2 = on_pdi (ev_apply (pdi_state (sys_pdi s) = PDI_WAIT_CONFIRMATION) (classify msg) (sys_pdi s)) s"
    using deliver [OF a(1) demo_reachable_inv [OF a(1)] a(2,3) assms(3)] by blast
  then have "demo_at s2 (ev_next (st = PDI_WAIT_CONFIRMATION) (expected_bytes (sys_pdi s)) (classify msg) st) pc inp"
    using a by (simp add: demo_at_def)
  then show ?thesis using d a by (intro exI [of _ s1] exI [of _ s2]) simp
qed

text \<open>Up to the establishment of the dialogue.\<close>

lemma demo_handshake:
  "\<exists>s. sys_step demo_start s \<and> demo_at s PDI_WAIT_VERSION_RESPONSE M_Establishing demo_input \<and>
     sent (sys_pdi s) = [(OC_RASTA_ID, VERSION_REQUEST_BYTES)]"
proof -
  let ?p = "sys_pdi demo_start"
  note st = start_total(3) [OF demo_start_some demo_start_running]
  have r0: "sys_reachable demo_start demo_start" by (rule reach_init)
  have ok: "pdi_ok ?p" using demo_reachable_inv [OF r0] demo_start_running by (simp add: sys_inv_def)
  let ?s1 = "on_pdi (pdi_log VERSION_REQUEST_BYTES (set_pdi_state PDI_WAIT_VERSION_RESPONSE ?p)) demo_start"
  have "sys_step demo_start ?s1"
    using handshake_spec [OF ok, of OC_RASTA_ID] by (intro sys_step.handshake [OF demo_start_running]) simp
  then show ?thesis using st reach_step [OF r0] by (intro exI [of _ ?s1]) (simp add: demo_at_def ok)
qed

text \<open>What the controller says to establish the dialogue.\<close>

lemma demo_answers:
  "classify (oc_msg SCI_MESSAGE_TYPE_VERSION_RESPONSE [5, 5, 2]) = Ev_Version True"
  "classify (oc_msg SCI_MESSAGE_TYPE_STATUS_BEGIN []) = Ev_Begin"
  "classify (oc_msg SCI_MESSAGE_TYPE_STATUS_FINISH []) = Ev_Finish"
  by (simp_all add: classify_oc body_event_def msg_types)

lemma demo_established:
  "\<exists>s. demo_at s PDI_ESTABLISHED M_Establishing demo_input"
proof -
  obtain s1 where s1: "demo_at s1 PDI_WAIT_VERSION_RESPONSE M_Establishing demo_input" using demo_handshake by blast
  obtain s2 where s2: "demo_at s2 PDI_WAIT_INITIALISATION_START M_Establishing demo_input"
    using demo_deliver [OF s1, of "oc_msg SCI_MESSAGE_TYPE_VERSION_RESPONSE [5, 5, 2]"] by (auto simp: demo_answers)
  obtain s3 where s3: "demo_at s3 PDI_RECEIVING_INITIAL_STATUS M_Establishing demo_input"
    using demo_deliver [OF s2, of "oc_msg SCI_MESSAGE_TYPE_STATUS_BEGIN []"] by (auto simp: demo_answers)
  obtain s4 where "demo_at s4 PDI_ESTABLISHED M_Establishing demo_input"
    using demo_deliver [OF s3, of "oc_msg SCI_MESSAGE_TYPE_STATUS_FINISH []"] by (auto simp: demo_answers)
  then show ?thesis by blast
qed

lemma demo_establish:
  assumes s: "demo_at s PDI_ESTABLISHED M_Establishing demo_input"
  shows "\<exists>s'. sys_step s s' \<and> demo_at s' PDI_ESTABLISHED M_Idle demo_input \<and> ixl_route (sys_ixl s') = [FREE, FREE]"
proof -
  have r: "sys_reachable demo_start s" using s by (simp add: demo_at_def)
  have ok: "pdi_ok (sys_pdi s)" using demo_reachable_inv [OF r] s by (simp add: sys_inv_def demo_at_def)
  let ?s = "(on_pdi (pdi_log (LUMINOSITY_BYTES DEFAULT_SIGNAL_LUMINOSITY) (sys_pdi s)) s)
                 \<lparr>sys_ixl := the (cloud_ixl_state_init (Some (sys_ixl s))), sys_pc := M_Idle\<rparr>"
  have "main_established PDI_ESTABLISHED (on_pdi (sys_pdi s) s) = Some ?s"
    using main_established_spec [of s PDI_ESTABLISHED] ok by (simp add: on_pdi_def)
  then have step: "sys_step s ?s"
    using s by (intro sys_step.establish [of s WAIT_WOKEN PDI_ESTABLISHED "sys_pdi s"])
      (simp_all add: demo_at_def wait_for_pdi_establishment_def is_pdi_establishment_terminal_def)
  then have "demo_at ?s PDI_ESTABLISHED M_Idle demo_input"
    using s reach_step [OF r] by (simp add: demo_at_def)
  moreover have "ixl_route (sys_ixl ?s) = [FREE, FREE]"
    by (simp add: cloud_ixl_state_init_def eval_nat_numeral)
  ultimately show ?thesis using step by blast
qed

lemma demo_idle:
  "\<exists>s. demo_at s PDI_ESTABLISHED M_Idle demo_input \<and> ixl_route (sys_ixl s) = [FREE, FREE]"
  using demo_established demo_establish by blast

text \<open>A command from the idle state, and its confirmation.\<close>

lemma demo_command:
  assumes s: "demo_at s PDI_ESTABLISHED M_Idle inp" and rq: "receive_route_request inp = (rq, rest)"
    and c: "rr_command rq \<notin> {ROUTE_COMMAND_QUIT, ROUTE_COMMAND_LUMINOSITY}"
    and a: "requested_aspect rq (sys_ixl s) = (a, ixl)" and u: "is_supported_signal_aspect a"
  shows "\<exists>s'. sys_step s s' \<and> demo_at s' PDI_WAIT_CONFIRMATION (M_Waiting rq) rest \<and> sys_ixl s' = ixl \<and>
    expected_bytes (sys_pdi s') = signal_aspect_payloads a \<and>
    sent (sys_pdi s') = sent (sys_pdi s) @ [(OC_RASTA_ID, ASPECT_BYTES a)]"
proof -
  let ?s = "s\<lparr>sys_stdin := rest\<rparr>"
  have r: "sys_reachable demo_start s" using s by (simp add: demo_at_def)
  have ok: "pdi_ok (sys_pdi ?s)" using demo_reachable_inv [OF r] s by (simp add: sys_inv_def demo_at_def)
  have a': "requested_aspect rq (sys_ixl ?s) = (a, ixl)" using a by simp
  let ?t = "?s\<lparr>sys_ixl := ixl, sys_pc := M_Waiting rq,
      sys_pdi := pdi_log (ASPECT_BYTES a) (set_pdi_state PDI_WAIT_CONFIRMATION
        ((sys_pdi ?s)\<lparr>expected_bytes := signal_aspect_payloads a\<rparr>))\<rparr>"
  have "main_command rq ?s = Some ?t"
    using main_command_spec [OF ok c a'] u s by (simp add: demo_at_def)
  then have step: "sys_step s ?t"
    using s rq by (intro sys_step.operator [of s rq rest]) (simp_all add: demo_at_def)
  then have "demo_at ?t PDI_WAIT_CONFIRMATION (M_Waiting rq) rest"
    using s reach_step [OF r] by (simp add: demo_at_def)
  then show ?thesis using step ok by (intro exI [of _ ?t]) simp
qed

lemma demo_feedback:
  assumes s: "demo_at s st (M_Waiting rq) inp" and st: "is_signal_command_result st"
  shows "sys_step s (main_result rq st (on_pdi (set_pdi_state PDI_ESTABLISHED (sys_pdi s)) s))"
    and "demo_at (main_result rq st (on_pdi (set_pdi_state PDI_ESTABLISHED (sys_pdi s)) s))
      PDI_ESTABLISHED M_Idle inp"
proof -
  let ?s = "main_result rq st (on_pdi (set_pdi_state PDI_ESTABLISHED (sys_pdi s)) s)"
  show step: "sys_step s ?s"
    using s st by (intro sys_step.feedback [of s rq WAIT_WOKEN])
      (auto simp: demo_at_def wait_for_signal_confirmation_def Let_def is_signal_command_result_def)
  have "sys_stdin ?s = sys_stdin s" "sys_recv ?s = sys_recv s"
    by (cases st; simp add: main_result_def main_exit_def)+
  then show "demo_at ?s PDI_ESTABLISHED M_Idle inp"
    using s st step reach_step by (auto simp: demo_at_def main_result_simps)
qed

text \<open>The two commands the operator of the run types.\<close>

definition demo_rest :: string where
  "demo_rest = ''l'' @ [CHR 0x0A] @ ''1'' @ [CHR 0x0A]"

lemma demo_requests:
  "receive_route_request demo_input =
     (default_request\<lparr>rr_command := ROUTE_COMMAND_REQUEST, rr_route_id := RUTA_AB\<rparr>, demo_rest)"
  "receive_route_request demo_rest =
     (default_request\<lparr>rr_command := ROUTE_COMMAND_RELEASE, rr_route_id := RUTA_AB\<rparr>, [])"
  by (simp_all add: receive_route_request_def demo_input_def demo_rest_def fgets16_def
      eval_nat_numeral read_route_id_def route_of_line_def Let_def)

lemma demo_asks:
  assumes s: "demo_at s PDI_ESTABLISHED M_Idle demo_input" and f: "ixl_route (sys_ixl s) = [FREE, FREE]"
  shows "\<exists>s'. sys_step s s' \<and>
     demo_at s' PDI_WAIT_CONFIRMATION
       (M_Waiting (default_request\<lparr>rr_command := ROUTE_COMMAND_REQUEST, rr_route_id := RUTA_AB\<rparr>)) demo_rest \<and>
     expected_bytes (sys_pdi s') = signal_aspect_payloads VIA_LIBRE \<and>
     ixl_route (sys_ixl s') = [RESERVED, FREE] \<and>
     sent (sys_pdi s') = sent (sys_pdi s) @ [(OC_RASTA_ID, ASPECT_BYTES VIA_LIBRE)]"
proof -
  have "ixl_shape (sys_ixl s)"
    using idle_facts(3) [OF demo_reachable_inv] s by (simp add: demo_at_def)
  then have "get_route_state (Some (sys_ixl s)) RUTA_AB = FREE"
    using f by (simp add: get_route_state_def ixl_shape_def route_definitions_def route_state_blocks_def
        get_conflicting_route_state_def conflict_loop_iff eval_nat_numeral less_Suc_eq Let_def route_of_index_def)
  then have "requested_aspect (default_request\<lparr>rr_command := ROUTE_COMMAND_REQUEST, rr_route_id := RUTA_AB\<rparr>)
      (sys_ixl s) = (VIA_LIBRE, set_route (sys_ixl s) RUTA_AB RESERVED)"
    by (simp add: requested_aspect_def request_route_decision_def ls_request_command_def)
  from demo_command [OF s demo_requests(1) _ this] f show ?thesis
    by (fastforce simp: set_route_def)
qed

lemma demo_request:
  "\<exists>s s'. demo_at s PDI_ESTABLISHED M_Idle demo_input \<and> ixl_route (sys_ixl s) = [FREE, FREE] \<and> sys_step s s' \<and>
     demo_at s' PDI_WAIT_CONFIRMATION
       (M_Waiting (default_request\<lparr>rr_command := ROUTE_COMMAND_REQUEST, rr_route_id := RUTA_AB\<rparr>)) demo_rest \<and>
     expected_bytes (sys_pdi s') = signal_aspect_payloads VIA_LIBRE \<and>
     ixl_route (sys_ixl s') = [RESERVED, FREE] \<and>
     sent (sys_pdi s') = sent (sys_pdi s) @ [(OC_RASTA_ID, ASPECT_BYTES VIA_LIBRE)]"
  using demo_idle demo_asks by blast

text \<open>The controller reports the payload that is expected.\<close>

lemma demo_confirm:
  assumes s: "demo_at s PDI_WAIT_CONFIRMATION (M_Waiting rq) inp"
  shows "\<exists>s1 s2. sys_reachable demo_start s1 \<and> sys_step s1 s2 \<and> sys_pdi s1 = sys_pdi s \<and>
    demo_at s2 PDI_COMMAND_CONFIRMED (M_Waiting rq) inp \<and> sys_ixl s2 = sys_ixl s"
proof -
  have "sys_inv s" using demo_reachable_inv s by (simp add: demo_at_def)
  then have "pdi_ok (sys_pdi s)" using s by (simp add: sys_inv_def demo_at_def)
  then have l: "length (expected_bytes (sys_pdi s)) = 18" by (simp add: pdi_ok_def)
  have "classify (oc_msg SCI_LS_ICD_MESSAGE_TYPE_SIGNAL_ASPECT_STATUS (expected_bytes (sys_pdi s))) =
      Ev_Aspect (expected_bytes (sys_pdi s))"
    using l by (simp add: classify_oc body_event_def msg_types)
  with demo_deliver [OF s, of "oc_msg SCI_LS_ICD_MESSAGE_TYPE_SIGNAL_ASPECT_STATUS (expected_bytes (sys_pdi s))"]
  show ?thesis by auto
qed

lemma demo_release:
  "\<exists>s. demo_at s PDI_COMMAND_CONFIRMED
     (M_Waiting (default_request\<lparr>rr_command := ROUTE_COMMAND_RELEASE, rr_route_id := RUTA_AB\<rparr>)) [] \<and>
     ixl_route (sys_ixl s) = [RESERVED, FREE]"
proof -
  let ?rq = "default_request\<lparr>rr_command := ROUTE_COMMAND_REQUEST, rr_route_id := RUTA_AB\<rparr>"
  let ?rl = "default_request\<lparr>rr_command := ROUTE_COMMAND_RELEASE, rr_route_id := RUTA_AB\<rparr>"
  obtain s where s: "demo_at s PDI_WAIT_CONFIRMATION (M_Waiting ?rq) demo_rest"
    "ixl_route (sys_ixl s) = [RESERVED, FREE]"
    using demo_request by blast
  obtain s2 where s2: "demo_at s2 PDI_COMMAND_CONFIRMED (M_Waiting ?rq) demo_rest" "sys_ixl s2 = sys_ixl s"
    using demo_confirm [OF s(1)] by blast
  let ?s3 = "main_result ?rq PDI_COMMAND_CONFIRMED (on_pdi (set_pdi_state PDI_ESTABLISHED (sys_pdi s2)) s2)"
  have s3: "demo_at ?s3 PDI_ESTABLISHED M_Idle demo_rest"
    by (rule demo_feedback(2) [OF s2(1)]) (simp add: is_signal_command_result_def)
  have i3: "sys_ixl ?s3 = sys_ixl s" using s2(2) by (simp add: main_result_def)
  have a: "requested_aspect ?rl (sys_ixl ?s3) = (PARADA, sys_ixl ?s3)"
    by (simp add: requested_aspect_def ls_request_command_def)
  obtain s4 where s4: "demo_at s4 PDI_WAIT_CONFIRMATION (M_Waiting ?rl) []" "sys_ixl s4 = sys_ixl ?s3"
    using demo_command [OF s3 demo_requests(2) _ a] by auto
  obtain s5 where "demo_at s5 PDI_COMMAND_CONFIRMED (M_Waiting ?rl) []" "sys_ixl s5 = sys_ixl s4"
    using demo_confirm [OF s4(1)] by blast
  then show ?thesis using s(2) s4(2) i3 by auto
qed

end
