(* ===== verification/Ixl_Properties.thy ===== *)
theory Ixl_Properties
  imports Ixl_Demo
begin

section \<open>Properties of the Cloud IXL\<close>

text \<open>
  The statements about the interlocking process that rest on the invariant and on the
  refinement of the message handler, each with an instance on the concrete run of
  \<open>Ixl_Demo\<close>.
\<close>

lemma demo_witness_state:
  assumes "demo_at s st pc inp"
  shows "main_start (\<lambda>_. None) 0 demo_input demo_ixl = Some demo_start" and "sys_reachable demo_start s"
    and "(\<forall>c. pc \<noteq> M_Done c) \<Longrightarrow> running s"
  using assms demo_start_some by (auto simp: demo_at_def running_def)

text \<open>C1. The handler of received messages is defined for every message and refines the
  abstract dialogue: the state it leaves, the payload remembered and the messages sent are
  those of the event the bytes denote, whatever the uninitialised bytes of the decoder hold.\<close>

theorem received_message_refines:
  assumes "pdi_ok p"
  shows "\<exists>p'. (\<forall>junk junk2. length junk = 85 \<longrightarrow> length junk2 = 85 \<longrightarrow>
       process_received_message junk junk2 msg p = Some p') \<and>
     pdi_state p' = ev_next (pdi_state p = PDI_WAIT_CONFIRMATION) (expected_bytes p) (classify msg) (pdi_state p) \<and>
     expected_bytes p' = expected_bytes p \<and>
     sent p' = sent p @ map (Pair OC_RASTA_ID) (ev_sends (classify msg) (pdi_state p))"
  using process_spec [OF assms] ev_apply_sent [OF assms]
  by (intro exI [of _ "ev_apply (pdi_state p = PDI_WAIT_CONFIRMATION) (classify msg) p"]) simp

theorem received_message_refines_witness:
  "\<exists>p'. process_received_message (replicate 85 0) (replicate 85 7)
      (oc_msg SCI_MESSAGE_TYPE_VERSION_RESPONSE [5, 5, 2])
      (set_pdi_state PDI_WAIT_VERSION_RESPONSE (sys_pdi demo_start)) = Some p' \<and>
    pdi_state p' = PDI_WAIT_INITIALISATION_START \<and> sent p' = [(OC_RASTA_ID, STATUS_REQUEST_BYTES)]"
proof -
  have "pdi_ok (sys_pdi demo_start)"
    using demo_reachable_inv [OF reach_init] demo_start_running by (simp add: sys_inv_def)
  then have "pdi_ok (set_pdi_state PDI_WAIT_VERSION_RESPONSE (sys_pdi demo_start))" by simp
  from received_message_refines [OF this, of "oc_msg SCI_MESSAGE_TYPE_VERSION_RESPONSE [5, 5, 2]"]
  show ?thesis
    using start_total(3) [OF demo_start_some demo_start_running]
    by (auto simp: classify_oc body_event_def msg_types ev_sends_def)
qed



text \<open>C6. A command is outstanding only under supervision: in every reachable state whose
  dialogue awaits or holds the feedback of a command, the main thread waits for that
  command and the payload compared is the one of the aspect it ordered.\<close>

theorem commands_supervised:
  assumes "main_start getenv mem stdin x = Some s0" and "sys_reachable s0 s" and "running s"
    and "commanding (pdi_state (sys_pdi s))"
  shows "\<exists>rq a. sys_pc s = M_Waiting rq \<and> awaited rq a \<and> is_supported_signal_aspect a \<and>
    expected_bytes (sys_pdi s) = signal_aspect_payloads a"
  using reachable_inv [OF assms(1,2)] assms(3,4) by (auto simp: sys_inv_def waiting_ok_def)

theorem commands_supervised_witness:
  "\<exists>s. sys_reachable demo_start s \<and> pdi_state (sys_pdi s) = PDI_WAIT_CONFIRMATION \<and>
    (\<exists>rq a. sys_pc s = M_Waiting rq \<and> awaited rq a \<and> expected_bytes (sys_pdi s) = signal_aspect_payloads a)"
proof -
  obtain s pc inp where s: "demo_at s PDI_WAIT_CONFIRMATION pc inp" "\<forall>c. pc \<noteq> M_Done c"
    using demo_request by blast
  have st: "pdi_state (sys_pdi s) = PDI_WAIT_CONFIRMATION" using s by (simp add: demo_at_def)
  have "commanding (pdi_state (sys_pdi s))" using st by simp
  from commands_supervised [OF demo_witness_state(1) [OF s(1)] demo_witness_state(2) [OF s(1)]
      demo_witness_state(3) [OF s] this]
  show ?thesis using demo_witness_state(2) [OF s(1)] st by blast
qed

text \<open>C8. A command counts as confirmed only by evidence: the state becomes
  \<open>PDI_COMMAND_CONFIRMED\<close> only in the step that handles a message of the object controller
  reporting exactly the payload awaited, read while the main thread was waiting for it.\<close>

theorem confirmation_needs_matching_report:
  assumes "main_start getenv mem stdin x = Some s0" and "sys_reachable s0 s" and "sys_step s s'"
    and "running s'" and "pdi_state (sys_pdi s') = PDI_COMMAND_CONFIRMED"
    and "pdi_state (sys_pdi s) \<noteq> PDI_COMMAND_CONFIRMED"
  shows "\<exists>msg t rq. sys_recv s = Some (msg, t, True) \<and> sys_pc s = M_Waiting rq \<and>
    pdi_state (sys_pdi s) = PDI_WAIT_CONFIRMATION \<and> classify msg = Ev_Aspect (expected_bytes (sys_pdi s))"
  by (rule confirmed_step [OF assms(3) reachable_inv [OF assms(1,2)] assms(4-6)])

theorem confirmation_needs_matching_report_witness:
  "\<exists>s msg t. sys_reachable demo_start s \<and> sys_recv s = Some (msg, t, True) \<and>
    classify msg = Ev_Aspect (signal_aspect_payloads VIA_LIBRE)"
proof -
  obtain s rq inp where s: "demo_at s PDI_WAIT_CONFIRMATION (M_Waiting rq) inp"
    "expected_bytes (sys_pdi s) = signal_aspect_payloads VIA_LIBRE"
    using demo_request by blast
  obtain s1 s2 where d: "sys_reachable demo_start s1" "sys_step s1 s2" "sys_pdi s1 = sys_pdi s"
    "demo_at s2 PDI_COMMAND_CONFIRMED (M_Waiting rq) inp"
    using demo_confirm [OF s(1)] by blast
  have r: "running s2" and st: "pdi_state (sys_pdi s2) = PDI_COMMAND_CONFIRMED"
    "pdi_state (sys_pdi s1) \<noteq> PDI_COMMAND_CONFIRMED"
    using d s by (auto simp: demo_at_def)
  show ?thesis
    using confirmation_needs_matching_report [OF demo_start_some d(1,2) r st] d(1,3) s(2) by auto
qed

text \<open>C9. A signal aspect is ordered only when the dialogue is established: whenever the process
  sends a Show Signal Aspect telegram, the state was \<open>PDI_ESTABLISHED\<close>, the telegram goes to the
  object controller with the payload of the requested aspect, and from then on exactly that
  payload is awaited.\<close>

theorem aspect_ordered_only_when_established:
  assumes "main_start getenv mem stdin x = Some s0" and "sys_reachable s0 s" and "sys_step s s'"
    and "running s" and "running s'" and "sent (sys_pdi s') = sent (sys_pdi s) @ [(i, bs)]"
    and "wire_type bs = SCI_LS_ICD_MESSAGE_TYPE_SHOW_SIGNAL_ASPECT"
  shows "sys_pc s = M_Idle \<and> pdi_state (sys_pdi s) = PDI_ESTABLISHED \<and>
    pdi_state (sys_pdi s') = PDI_WAIT_CONFIRMATION \<and> i = OC_RASTA_ID \<and>
    (\<exists>rq a. sys_pc s' = M_Waiting rq \<and> awaited rq a \<and> bs = ASPECT_BYTES a \<and>
       expected_bytes (sys_pdi s') = signal_aspect_payloads a)"
  by (rule aspect_sent_step [OF assms(3) reachable_inv [OF assms(1,2)] assms(4-7)])

theorem aspect_ordered_only_when_established_witness:
  "\<exists>s s'. sys_reachable demo_start s \<and> sys_step s s' \<and>
    sent (sys_pdi s') = sent (sys_pdi s) @ [(OC_RASTA_ID, ASPECT_BYTES VIA_LIBRE)] \<and>
    pdi_state (sys_pdi s) = PDI_ESTABLISHED \<and> pdi_state (sys_pdi s') = PDI_WAIT_CONFIRMATION"
proof -
  obtain s s' pc inp where s: "demo_at s PDI_ESTABLISHED M_Idle demo_input" "sys_step s s'"
    "demo_at s' PDI_WAIT_CONFIRMATION (M_Waiting pc) inp"
    "sent (sys_pdi s') = sent (sys_pdi s) @ [(OC_RASTA_ID, ASPECT_BYTES VIA_LIBRE)]"
    using demo_request by blast
  have r: "running s" "running s'" using s by (auto simp: demo_at_def)
  show ?thesis
    using aspect_ordered_only_when_established
      [OF demo_start_some demo_witness_state(2) [OF s(1)] s(2) r s(4)] s(2,4) demo_witness_state(2) [OF s(1)]
    by auto
qed

text \<open>C10. A reserved route is given back only after a confirmed stop: a step that makes a
  blocked route free ends the wait for a release command of that route, with the command
  confirmed and the stop aspect as the payload that was awaited.\<close>

theorem release_only_after_confirmed_stop:
  assumes "main_start getenv mem stdin x = Some s0" and "sys_reachable s0 s" and "sys_step s s'"
    and "running s" and "running s'" and "sys_pc s \<noteq> M_Establishing"
    and "blocked (sys_ixl s) r" and "\<not> blocked (sys_ixl s') r"
  shows "\<exists>rq. sys_pc s = M_Waiting rq \<and> rr_command rq = ROUTE_COMMAND_RELEASE \<and> rr_route_id rq = r \<and>
    pdi_state (sys_pdi s) = PDI_COMMAND_CONFIRMED \<and>
    expected_bytes (sys_pdi s) = signal_aspect_payloads PARADA"
  by (rule unblock_step [OF assms(3) reachable_inv [OF assms(1,2)] assms(4-8)])

theorem release_only_after_confirmed_stop_witness:
  "\<exists>s s'. sys_reachable demo_start s \<and> sys_step s s' \<and> blocked (sys_ixl s) RUTA_AB \<and>
    \<not> blocked (sys_ixl s') RUTA_AB \<and> pdi_state (sys_pdi s) = PDI_COMMAND_CONFIRMED \<and>
    expected_bytes (sys_pdi s) = signal_aspect_payloads PARADA"
proof -
  let ?rl = "default_request\<lparr>rr_command := ROUTE_COMMAND_RELEASE, rr_route_id := RUTA_AB\<rparr>"
  obtain s where s: "demo_at s PDI_COMMAND_CONFIRMED (M_Waiting ?rl) []" and i: "ixl_route (sys_ixl s) = [RESERVED, FREE]"
    using demo_release by blast
  let ?s = "main_result ?rl PDI_COMMAND_CONFIRMED (on_pdi (set_pdi_state PDI_ESTABLISHED (sys_pdi s)) s)"
  have c: "is_signal_command_result PDI_COMMAND_CONFIRMED" by (simp add: is_signal_command_result_def)
  note f = demo_feedback [OF s c]
  have b: "blocked (sys_ixl s) RUTA_AB" using i by (simp add: blocked_def route_state_blocks_def)
  have nb: "\<not> blocked (sys_ixl ?s) RUTA_AB"
    using i by (simp add: main_result_def release_route_def set_route_def blocked_def route_state_blocks_def)
  have r: "running s" "running ?s" "sys_pc s \<noteq> M_Establishing" using s f(2) by (auto simp: demo_at_def)
  show ?thesis
    using release_only_after_confirmed_stop
      [OF demo_start_some demo_witness_state(2) [OF s] f(1) r b nb] f(1) b nb demo_witness_state(2) [OF s]
    by blast
qed

text \<open>C11. Routes that share a track section are never both set, and route AC is never set at
  all, because nothing in the program moves point P_01 from the left position it starts in.\<close>

theorem conflicting_routes_exclusive:
  assumes "main_start getenv mem stdin x = Some s0" and "sys_reachable s0 s" and "running s"
    and "sys_pc s \<noteq> M_Establishing"
  shows "(conflicting a b \<longrightarrow> \<not> (blocked (sys_ixl s) a \<and> blocked (sys_ixl s) b)) \<and>
    fst (request_route_decision (Some (sys_ixl s)) RUTA_AC) = STOP"
proof -
  have i: "ixl_inv (sys_ixl s)" "ixl_shape (sys_ixl s)"
    using reachable_inv [OF assms(1,2)] assms(3,4) by (auto simp: sys_inv_def running_def)
  have "\<not> may_set (sys_ixl s) RUTA_AC"
    using i(2) by (simp add: may_set_def ixl_shape_def route_definitions_def)
  then have "get_route_state (Some (sys_ixl s)) RUTA_AC \<noteq> FREE" using get_route_state_free by blast
  then show ?thesis
    using i(1) by (auto simp: ixl_inv_def exclusive_def request_route_decision_def)
qed

theorem conflicting_routes_exclusive_witness:
  "conflicting RUTA_AB RUTA_AC \<and>
   (\<exists>s. sys_reachable demo_start s \<and> blocked (sys_ixl s) RUTA_AB \<and> \<not> blocked (sys_ixl s) RUTA_AC)"
proof -
  have c: "conflicting RUTA_AB RUTA_AC"
    by (simp add: conflicting_def routes_share_iff route_definitions_def)
  obtain s pc inp where s: "demo_at s PDI_WAIT_CONFIRMATION (M_Waiting pc) inp"
    "ixl_route (sys_ixl s) = [RESERVED, FREE]"
    using demo_request by blast
  have r: "running s" "sys_pc s \<noteq> M_Establishing" using s(1) by (auto simp: demo_at_def)
  have "blocked (sys_ixl s) RUTA_AB" using s(2) by (simp add: blocked_def route_state_blocks_def)
  then show ?thesis
    using conflicting_routes_exclusive [OF demo_start_some demo_witness_state(2) [OF s(1)] r] c
      demo_witness_state(2) [OF s(1)] by blast
qed

text \<open>C12. The dialogue is established only by its own last message, or again after the
  result of a command was taken: no other step enters \<open>PDI_ESTABLISHED\<close>.\<close>

theorem established_only_by_dialogue:
  assumes "main_start getenv mem stdin x = Some s0" and "sys_reachable s0 s" and "sys_step s s'"
    and "running s'" and "pdi_state (sys_pdi s') = PDI_ESTABLISHED"
    and "pdi_state (sys_pdi s) \<noteq> PDI_ESTABLISHED"
  shows "(\<exists>msg t w. sys_recv s = Some (msg, t, w) \<and> classify msg = Ev_Finish \<and>
       pdi_state (sys_pdi s) = PDI_RECEIVING_INITIAL_STATUS) \<or>
     (\<exists>rq. sys_pc s = M_Waiting rq \<and> is_signal_command_result (pdi_state (sys_pdi s)))"
  by (rule established_step [OF assms(3) reachable_inv [OF assms(1,2)] assms(4-6)])

theorem established_only_by_dialogue_witness:
  "\<exists>s s'. sys_reachable demo_start s \<and> sys_step s s' \<and> pdi_state (sys_pdi s') = PDI_ESTABLISHED \<and>
    (\<exists>rq. sys_pc s = M_Waiting rq \<and> is_signal_command_result (pdi_state (sys_pdi s)))"
proof -
  let ?rl = "default_request\<lparr>rr_command := ROUTE_COMMAND_RELEASE, rr_route_id := RUTA_AB\<rparr>"
  obtain s where s: "demo_at s PDI_COMMAND_CONFIRMED (M_Waiting ?rl) []"
    using demo_release by blast
  let ?s = "main_result ?rl PDI_COMMAND_CONFIRMED (on_pdi (set_pdi_state PDI_ESTABLISHED (sys_pdi s)) s)"
  have c: "is_signal_command_result PDI_COMMAND_CONFIRMED" by (simp add: is_signal_command_result_def)
  note f = demo_feedback [OF s c]
  have r: "running ?s" "pdi_state (sys_pdi ?s) = PDI_ESTABLISHED" "pdi_state (sys_pdi s) \<noteq> PDI_ESTABLISHED"
    using s f(2) by (auto simp: demo_at_def)
  have "\<not> (\<exists>msg t w. sys_recv s = Some (msg, t, w))" using s by (simp add: demo_at_def)
  then show ?thesis
    using established_only_by_dialogue [OF demo_start_some demo_witness_state(2) [OF s] f(1) r]
      f(1) r demo_witness_state(2) [OF s] by blast
qed

text \<open>C13. The operator loop ends: every command read either ends the process, or consumes
  input that was there; at the end of the input the process exits with code 0.\<close>

theorem operator_loop_progress:
  assumes "receive_route_request (sys_stdin s) = (rq, rest)"
    and "main_command rq (s\<lparr>sys_stdin := rest\<rparr>) = Some s'"
  shows "length rest < length (sys_stdin s) \<or> (sys_stdin s = [] \<and> sys_pc s' = M_Done 0)"
  using request_progress [OF assms(1)] assms(2) by (auto simp: main_command_def main_exit_def)

theorem operator_loop_progress_witness:
  "length demo_rest < length demo_input \<or> demo_input = []"
proof -
  let ?rq = "default_request\<lparr>rr_command := ROUTE_COMMAND_REQUEST, rr_route_id := RUTA_AB\<rparr>"
  let ?s = "demo_start\<lparr>sys_stdin := demo_input\<rparr>"
  have "pdi_ok (sys_pdi demo_start)"
    using demo_reachable_inv [OF reach_init] demo_start_running by (simp add: sys_inv_def)
  then obtain s' where "main_command ?rq (?s\<lparr>sys_stdin := demo_rest\<rparr>) = Some s'"
    using main_command_total [of "?s\<lparr>sys_stdin := demo_rest\<rparr>"] by auto
  from operator_loop_progress [OF _ this] show ?thesis using demo_requests(1) by auto
qed

text \<open>C31. The route decision: a route is granted, and reserved, exactly when it is in the
  table and not set, its sections are free, no route sharing a section is set and its points
  lie as required; otherwise the state does not change.\<close>

theorem route_decision_correct:
  "request_route_decision (Some s) r =
     (if may_set s r then (GO, Some (set_route s r RESERVED)) else (STOP, Some s))"
  by (simp add: request_route_decision_def get_route_state_free)

text \<open>Reserving a free route and releasing it again restores the interlocking state.\<close>

theorem reserve_release_roundtrip:
  assumes "wf_ixl s" and "may_set s r" and "ixl_route s ! route_index r = FREE"
  shows "release_route (snd (request_route_decision (Some s) r)) r = (True, Some s)"
proof -
  have "route_index r < length (ixl_route s)" "cloud_ixl_get_route_definition r \<noteq> None"
    using assms(1,2) route_index_less [of r] by (auto simp: wf_ixl_def may_set_def)
  then show ?thesis
    using assms(2,3)
    by (auto simp: request_route_decision_def get_route_state_free release_route_def set_route_def list_update_same_conv)
qed

text \<open>What the operator can ask for can be ordered: every aspect the dialogue returns is a
  supported one, and different aspects have different payloads, so a confirmation tells them apart.\<close>

theorem operator_aspects_orderable:
  "is_supported_signal_aspect (fst (read_signal_aspect inp)) \<and>
   (signal_aspect_payloads (fst (read_signal_aspect inp)) = signal_aspect_payloads (fst (read_signal_aspect inp2)) \<longleftrightarrow>
      fst (read_signal_aspect inp) = fst (read_signal_aspect inp2))"
proof -
  have "is_supported_signal_aspect a = named_aspect a" for a by (cases a) simp_all
  then show ?thesis using read_aspect_named payload_inj by metis
qed

end
