(* ===== verification/Md4.thy ===== *)
theory Md4
  imports Byte_Util
begin

section \<open>The MD4 message digest (rastamd4.h, rastamd4.c)\<close>

text \<open>
  The digest with a configurable initial vector that is the default safety code of RaSTA
  packets. A buffer is the list of its bytes; the context holds the counters, the four
  chaining words and the block buffer. \<open>md4_body\<close> is \<open>body\<close>: it processes one or more
  blocks of 64 bytes, read as little-endian words. \<open>generateMD4WithVector\<close> returns the
  result buffer as the call leaves it.
\<close>

record MD4_CTX_RASTA =
  md_lo :: u32
  md_hi :: u32
  md_a :: u32
  md_b :: u32
  md_c :: u32
  md_d :: u32
  md_buffer :: "u8 list"

definition md4_F :: "u32 \<Rightarrow> u32 \<Rightarrow> u32 \<Rightarrow> u32" where
  "md4_F x y z = z XOR (x AND (y XOR z))"
definition md4_G :: "u32 \<Rightarrow> u32 \<Rightarrow> u32 \<Rightarrow> u32" where
  "md4_G x y z = (x AND (y OR z)) OR (y AND z)"
definition md4_H :: "u32 \<Rightarrow> u32 \<Rightarrow> u32 \<Rightarrow> u32" where
  "md4_H x y z = x XOR y XOR z"

definition md4_step ::
  "(u32 \<Rightarrow> u32 \<Rightarrow> u32 \<Rightarrow> u32) \<Rightarrow> u32 \<Rightarrow> u32 \<Rightarrow> u32 \<Rightarrow> u32 \<Rightarrow> u32 \<Rightarrow> nat \<Rightarrow> u32" where
  "md4_step f a b c d x s =
     (let a' = a + (f b c d + x) in push_bit s a' OR drop_bit (32 - s) (a' AND 0xffffffff))"

definition word32_le :: "u8 list \<Rightarrow> nat \<Rightarrow> u32" where
  "word32_le p n =
     ucast (p ! (4 * n)) OR push_bit 8 (ucast (p ! (4 * n + 1))) OR
     push_bit 16 (ucast (p ! (4 * n + 2))) OR push_bit 24 (ucast (p ! (4 * n + 3)))"

text \<open>One iteration of the loop of \<open>body\<close>, on the block that starts at the pointer.\<close>

definition md4_block :: "(u32 \<times> u32 \<times> u32 \<times> u32) \<Rightarrow> u8 list \<Rightarrow> u32 \<times> u32 \<times> u32 \<times> u32" where
  "md4_block saved p =
     (let (saved_a, saved_b, saved_c, saved_d) = saved;
          ac1 = 0x5a827999; ac2 = 0x6ed9eba1;
          x = word32_le p;
          a = saved_a; b = saved_b; c = saved_c; d = saved_d;
          a = md4_step md4_F a b c d (x 0) 3;
          d = md4_step md4_F d a b c (x 1) 7;
          c = md4_step md4_F c d a b (x 2) 11;
          b = md4_step md4_F b c d a (x 3) 19;
          a = md4_step md4_F a b c d (x 4) 3;
          d = md4_step md4_F d a b c (x 5) 7;
          c = md4_step md4_F c d a b (x 6) 11;
          b = md4_step md4_F b c d a (x 7) 19;
          a = md4_step md4_F a b c d (x 8) 3;
          d = md4_step md4_F d a b c (x 9) 7;
          c = md4_step md4_F c d a b (x 10) 11;
          b = md4_step md4_F b c d a (x 11) 19;
          a = md4_step md4_F a b c d (x 12) 3;
          d = md4_step md4_F d a b c (x 13) 7;
          c = md4_step md4_F c d a b (x 14) 11;
          b = md4_step md4_F b c d a (x 15) 19;
          a = md4_step md4_G a b c d (x 0 + ac1) 3;
          d = md4_step md4_G d a b c (x 4 + ac1) 5;
          c = md4_step md4_G c d a b (x 8 + ac1) 9;
          b = md4_step md4_G b c d a (x 12 + ac1) 13;
          a = md4_step md4_G a b c d (x 1 + ac1) 3;
          d = md4_step md4_G d a b c (x 5 + ac1) 5;
          c = md4_step md4_G c d a b (x 9 + ac1) 9;
          b = md4_step md4_G b c d a (x 13 + ac1) 13;
          a = md4_step md4_G a b c d (x 2 + ac1) 3;
          d = md4_step md4_G d a b c (x 6 + ac1) 5;
          c = md4_step md4_G c d a b (x 10 + ac1) 9;
          b = md4_step md4_G b c d a (x 14 + ac1) 13;
          a = md4_step md4_G a b c d (x 3 + ac1) 3;
          d = md4_step md4_G d a b c (x 7 + ac1) 5;
          c = md4_step md4_G c d a b (x 11 + ac1) 9;
          b = md4_step md4_G b c d a (x 15 + ac1) 13;
          a = md4_step md4_H a b c d (x 0 + ac2) 3;
          d = md4_step md4_H d a b c (x 8 + ac2) 9;
          c = md4_step md4_H c d a b (x 4 + ac2) 11;
          b = md4_step md4_H b c d a (x 12 + ac2) 15;
          a = md4_step md4_H a b c d (x 2 + ac2) 3;
          d = md4_step md4_H d a b c (x 10 + ac2) 9;
          c = md4_step md4_H c d a b (x 6 + ac2) 11;
          b = md4_step md4_H b c d a (x 14 + ac2) 15;
          a = md4_step md4_H a b c d (x 1 + ac2) 3;
          d = md4_step md4_H d a b c (x 9 + ac2) 9;
          c = md4_step md4_H c d a b (x 5 + ac2) 11;
          b = md4_step md4_H b c d a (x 13 + ac2) 15;
          a = md4_step md4_H a b c d (x 3 + ac2) 3;
          d = md4_step md4_H d a b c (x 11 + ac2) 9;
          c = md4_step md4_H c d a b (x 7 + ac2) 11;
          b = md4_step md4_H b c d a (x 15 + ac2) 15
      in (a + saved_a, b + saved_b, c + saved_c, d + saved_d))"

function md4_loop :: "(u32 \<times> u32 \<times> u32 \<times> u32) \<Rightarrow> u8 list \<Rightarrow> u32 \<times> u32 \<times> u32 \<times> u32" where
  "md4_loop s p =
     (let s' = md4_block s (take 64 p)
      in if length p \<le> 64 then s' else md4_loop s' (drop 64 p))"
  by pat_completeness auto
termination by (relation "measure (\<lambda>(s, p). length p)") auto

declare md4_loop.simps [simp del]

definition md4_body :: "MD4_CTX_RASTA \<Rightarrow> u8 list \<Rightarrow> MD4_CTX_RASTA" where
  "md4_body ctx data =
     (let (a, b, c, d) = md4_loop (md_a ctx, md_b ctx, md_c ctx, md_d ctx) data
      in ctx\<lparr>md_a := a, md_b := b, md_c := c, md_d := d\<rparr>)"

definition md4InitContext :: "u32 \<Rightarrow> u32 \<Rightarrow> u32 \<Rightarrow> u32 \<Rightarrow> u8 list \<Rightarrow> MD4_CTX_RASTA" where
  "md4InitContext a b c d indeterminate =
     \<lparr>md_lo = 0, md_hi = 0, md_a = a, md_b = b, md_c = c, md_d = d, md_buffer = indeterminate\<rparr>"

definition MD4_Init_Rasta :: "MD4_CTX_RASTA \<Rightarrow> MD4_CTX_RASTA" where
  "MD4_Init_Rasta ctx =
     ctx\<lparr>md_a := 0x67452301, md_b := 0xefcdab89, md_c := 0x98badcfe, md_d := 0x10325476,
         md_lo := 0, md_hi := 0\<rparr>"

definition put_bytes :: "u8 list \<Rightarrow> nat \<Rightarrow> u8 list \<Rightarrow> u8 list" where
  "put_bytes buf off bs = take off buf @ bs @ drop (off + length bs) buf"

definition MD4_Update_Rasta :: "MD4_CTX_RASTA \<Rightarrow> u8 list \<Rightarrow> MD4_CTX_RASTA" where
  "MD4_Update_Rasta ctx data =
     (let size0 = length data;
          saved_lo = md_lo ctx;
          lo = word_of_nat ((unat saved_lo + size0) mod 2 ^ 29);
          ctx = ctx\<lparr>md_lo := lo\<rparr>;
          ctx = (if lo < saved_lo then ctx\<lparr>md_hi := md_hi ctx + 1\<rparr> else ctx);
          ctx = ctx\<lparr>md_hi := md_hi ctx + word_of_nat (size0 div 2 ^ 29)\<rparr>;
          used = unat (saved_lo AND 0x3f);
          available = 64 - used
      in if used \<noteq> 0 \<and> size0 < available
         then ctx\<lparr>md_buffer := put_bytes (md_buffer ctx) used data\<rparr>
         else
           let (ctx, data) =
                 (if used \<noteq> 0
                  then (let ctx = ctx\<lparr>md_buffer := put_bytes (md_buffer ctx) used (take available data)\<rparr>
                        in (md4_body ctx (md_buffer ctx), drop available data))
                  else (ctx, data));
               n = (length data div 64) * 64;
               (ctx, data) = (if 64 \<le> length data then (md4_body ctx (take n data), drop n data) else (ctx, data))
           in ctx\<lparr>md_buffer := put_bytes (md_buffer ctx) 0 data\<rparr>)"

definition md4_out :: "u32 \<Rightarrow> u8 list" where
  "md4_out src = [ucast src, ucast (drop_bit 8 src), ucast (drop_bit 16 src), ucast (drop_bit 24 src)]"

definition MD4_Final_Rasta :: "MD4_CTX_RASTA \<Rightarrow> u8 list" where
  "MD4_Final_Rasta ctx =
     (let used = unat (md_lo ctx AND 0x3f);
          ctx = ctx\<lparr>md_buffer := put_bytes (md_buffer ctx) used [0x80]\<rparr>;
          used = used + 1;
          available = 64 - used;
          (ctx, used, available) =
            (if available < 8
             then (let ctx = ctx\<lparr>md_buffer := put_bytes (md_buffer ctx) used (replicate available 0)\<rparr>
                   in (md4_body ctx (md_buffer ctx), 0, 64))
             else (ctx, used, available));
          ctx = ctx\<lparr>md_buffer := put_bytes (md_buffer ctx) used (replicate (available - 8) 0)\<rparr>;
          ctx = ctx\<lparr>md_lo := push_bit 3 (md_lo ctx)\<rparr>;
          ctx = ctx\<lparr>md_buffer := put_bytes (md_buffer ctx) 56 (md4_out (md_lo ctx) @ md4_out (md_hi ctx))\<rparr>;
          ctx = md4_body ctx (md_buffer ctx)
      in md4_out (md_a ctx) @ md4_out (md_b ctx) @ md4_out (md_c ctx) @ md4_out (md_d ctx))"

definition generateMD4WithVector :: "u8 list \<Rightarrow> int \<Rightarrow> MD4_CTX_RASTA \<Rightarrow> u8 list \<Rightarrow> u8 list option" where
  "generateMD4WithVector data typ ctx result =
     (let MD4code = MD4_Final_Rasta (MD4_Update_Rasta ctx data)
      in if typ = 0 then buf_write result 0 (replicate 8 0)
         else if typ = 1 then buf_write result 0 (take 8 MD4code)
         else if typ = 2 then buf_write result 0 MD4code
         else Some result)"

definition generateMD4 :: "u8 list \<Rightarrow> int \<Rightarrow> MD4_CTX_RASTA \<Rightarrow> u8 list \<Rightarrow> u8 list option" where
  "generateMD4 data typ indeterminate result =
     generateMD4WithVector data typ (MD4_Init_Rasta indeterminate) result"

subsection \<open>The streaming code computes the digest of the padded message\<close>

lemma and_63: "unat ((w :: u32) AND 0x3f) = unat w mod 64"
proof -
  have "(0x3f :: u32) = mask 6" by (simp add: mask_eq_exp_minus_1)
  then have "w AND 0x3f = take_bit 6 w" by (simp add: take_bit_eq_mask)
  then have "unat (w AND 0x3f) = take_bit 6 (unat w)" by (simp only: unsigned_take_bit_eq)
  then show ?thesis by (simp add: take_bit_eq_mod)
qed

lemma put_bytes_length: "off + length bs \<le> length buf \<Longrightarrow> length (put_bytes buf off bs) = length buf"
  by (simp add: put_bytes_def)

lemma md4_loop_last: "length p \<le> 64 \<Longrightarrow> md4_loop s p = md4_block s (take 64 p)"
  by (subst md4_loop.simps) (simp add: Let_def)

lemma md4_loop_more: "64 < length p \<Longrightarrow> md4_loop s p = md4_loop (md4_block s (take 64 p)) (drop 64 p)"
  by (subst md4_loop.simps) (simp add: Let_def)

lemma md4_loop_append:
  "length xs = 64 * Suc n \<Longrightarrow> ys \<noteq> [] \<Longrightarrow> md4_loop s (xs @ ys) = md4_loop (md4_loop s xs) ys"
proof (induction n arbitrary: s xs)
  case 0
  then have "64 < length (xs @ ys)" by (cases ys) auto
  then show ?case using 0 by (subst md4_loop_more) (simp_all add: md4_loop_last [of xs])
next
  case (Suc n)
  have "md4_loop s (xs @ ys) = md4_loop (md4_block s (take 64 xs)) (drop 64 xs @ ys)"
    using Suc.prems by (subst md4_loop_more) auto
  also have "\<dots> = md4_loop (md4_loop (md4_block s (take 64 xs)) (drop 64 xs)) ys"
    using Suc.prems by (intro Suc.IH) auto
  also have "md4_loop (md4_block s (take 64 xs)) (drop 64 xs) = md4_loop s xs"
    using Suc.prems by (simp add: md4_loop_more [of xs])
  finally show ?case .
qed

text \<open>The reference: RFC 1320 padding, then the blocks in order.\<close>

definition md4_length :: "nat \<Rightarrow> u8 list" where
  "md4_length n = md4_out (push_bit 3 (word_of_nat (n mod 2 ^ 29))) @ md4_out (word_of_nat (n div 2 ^ 29))"

definition md4_pad :: "u8 list \<Rightarrow> u8 list" where
  "md4_pad msg =
     msg @ [0x80] @ replicate ((119 - length msg mod 64) mod 64) 0 @ md4_length (length msg)"

definition md4_bytes :: "(u32 \<times> u32 \<times> u32 \<times> u32) \<Rightarrow> u8 list" where
  "md4_bytes w = (case w of (a, b, c, d) \<Rightarrow> md4_out a @ md4_out b @ md4_out c @ md4_out d)"

definition md4_reference :: "(u32 \<times> u32 \<times> u32 \<times> u32) \<Rightarrow> u8 list \<Rightarrow> u8 list" where
  "md4_reference iv msg = md4_bytes (md4_loop iv (md4_pad msg))"

definition md4_words :: "MD4_CTX_RASTA \<Rightarrow> u32 \<times> u32 \<times> u32 \<times> u32" where
  "md4_words ctx = (md_a ctx, md_b ctx, md_c ctx, md_d ctx)"

lemma md4_body_words [simp]:
  "md4_words (md4_body ctx p) = md4_loop (md4_words ctx) p"
  "md_lo (md4_body ctx p) = md_lo ctx" "md_hi (md4_body ctx p) = md_hi ctx"
  "md_buffer (md4_body ctx p) = md_buffer ctx"
  by (simp_all add: md4_body_def md4_words_def split: prod.splits)

lemma md4_words_update [simp]:
  "md4_words (ctx\<lparr>md_lo := l\<rparr>) = md4_words ctx" "md4_words (ctx\<lparr>md_hi := l\<rparr>) = md4_words ctx"
  "md4_words (ctx\<lparr>md_buffer := bf\<rparr>) = md4_words ctx"
  by (simp_all add: md4_words_def)

lemma md4_out_length [simp]: "length (md4_out w) = 4" "length (md4_length n) = 8"
  by (simp_all add: md4_out_def md4_length_def)

text \<open>What one update of a fresh context leaves: the full blocks consumed, the rest in the buffer.\<close>

lemma md4_update_fresh:
  fixes data :: "u8 list"
  defines "n \<equiv> (length data div 64) * 64"
  assumes "md_lo ctx = 0" and "md_hi ctx = 0"
  shows "md_lo (MD4_Update_Rasta ctx data) = word_of_nat (length data mod 2 ^ 29)"
    and "md_hi (MD4_Update_Rasta ctx data) = word_of_nat (length data div 2 ^ 29)"
    and "md_buffer (MD4_Update_Rasta ctx data) = put_bytes (md_buffer ctx) 0 (drop n data)"
    and "md4_words (MD4_Update_Rasta ctx data) =
      (if n = 0 then md4_words ctx else md4_loop (md4_words ctx) (take n data))"
proof -
  have small: "length data div 64 = 0 \<longleftrightarrow> length data < 64" by (simp add: div_eq_0_iff)
  show "md_lo (MD4_Update_Rasta ctx data) = word_of_nat (length data mod 2 ^ 29)"
    "md_hi (MD4_Update_Rasta ctx data) = word_of_nat (length data div 2 ^ 29)"
    "md_buffer (MD4_Update_Rasta ctx data) = put_bytes (md_buffer ctx) 0 (drop n data)"
    "md4_words (MD4_Update_Rasta ctx data) =
      (if n = 0 then md4_words ctx else md4_loop (md4_words ctx) (take n data))"
    using assms by (simp_all add: MD4_Update_Rasta_def Let_def small not_less)
qed

lemma put_put:
  assumes "length bs + length cs \<le> length buf"
  shows "put_bytes (put_bytes buf 0 bs) (length bs) cs = put_bytes buf 0 (bs @ cs)"
  using assms by (simp add: put_bytes_def add.commute)

lemma put_all: "length bs = length buf \<Longrightarrow> put_bytes buf 0 bs = bs"
  by (simp add: put_bytes_def)

lemma length_md4: "length (md4_length n) = 8"
  by simp

lemma final_buffer_short:
  assumes buf: "length buf = 64" and r: "length rest < 56" and l: "length lb = 8"
  shows "put_bytes (put_bytes (put_bytes (put_bytes buf 0 rest) (length rest) [0x80])
      (length rest + 1) (replicate (55 - length rest) 0)) 56 lb =
    rest @ [0x80] @ replicate (55 - length rest) 0 @ lb"
proof -
  let ?b = "put_bytes (put_bytes (put_bytes buf 0 rest) (length rest) [0x80])
      (length rest + 1) (replicate (55 - length rest) 0)"
  have b: "?b = put_bytes buf 0 (rest @ [0x80] @ replicate (55 - length rest) 0)"
    using buf r put_put [of rest "[0x80]" buf]
      put_put [of "rest @ [0x80]" "replicate (55 - length rest) 0" buf] by simp
  then show ?thesis
    using buf r l put_put [of "rest @ [0x80] @ replicate (55 - length rest) 0" lb buf]
      put_all [of "rest @ [0x80] @ replicate (55 - length rest) 0 @ lb" buf] by simp
qed

lemma final_buffer_long1:
  assumes buf: "length buf = 64" and r: "56 \<le> length rest" "length rest < 64"
  shows "put_bytes (put_bytes (put_bytes buf 0 rest) (length rest) [0x80])
      (length rest + 1) (replicate (63 - length rest) 0) =
    rest @ [0x80] @ replicate (63 - length rest) 0"
  using buf r put_put [of rest "[0x80]" buf]
    put_put [of "rest @ [0x80]" "replicate (63 - length rest) 0" buf]
    put_all [of "rest @ [0x80] @ replicate (63 - length rest) 0" buf] by simp

lemma final_buffer_long2:
  assumes buf: "length buf = 64" and l: "length lb = 8"
  shows "put_bytes (put_bytes buf 0 (replicate 56 0)) 56 lb = replicate 56 0 @ lb"
  using buf l put_put [of "replicate 56 0" lb buf] put_all [of "replicate 56 0 @ lb" buf] by simp

lemma md4_bytes_words:
  "md4_out (md_a ctx) @ md4_out (md_b ctx) @ md4_out (md_c ctx) @ md4_out (md_d ctx) = md4_bytes (md4_words ctx)"
  by (simp add: md4_bytes_def md4_words_def)

lemma md4_final_short:
  assumes "unat (md_lo ctx AND 0x3f) = u" and "u < 56"
  shows "MD4_Final_Rasta ctx = md4_bytes (md4_loop (md4_words ctx)
    (put_bytes (put_bytes (put_bytes (md_buffer ctx) u [0x80]) (u + 1) (replicate (55 - u) 0)) 56
      (md4_out (push_bit 3 (md_lo ctx)) @ md4_out (md_hi ctx))))"
proof -
  have "\<not> 63 - u < 8" "63 - u - 8 = 55 - u" using assms(2) by simp_all
  then show ?thesis by (simp add: MD4_Final_Rasta_def assms(1) Let_def md4_bytes_words)
qed

lemma md4_final_long:
  assumes "unat (md_lo ctx AND 0x3f) = u" and "56 \<le> u" and "u < 64"
  shows "MD4_Final_Rasta ctx =
    (let b1 = put_bytes (put_bytes (md_buffer ctx) u [0x80]) (u + 1) (replicate (63 - u) 0)
     in md4_bytes (md4_loop (md4_loop (md4_words ctx) b1)
       (put_bytes (put_bytes b1 0 (replicate 56 0)) 56
          (md4_out (push_bit 3 (md_lo ctx)) @ md4_out (md_hi ctx)))))"
proof -
  have "63 - u < 8" using assms(2) by simp
  then show ?thesis by (simp add: MD4_Final_Rasta_def assms(1) Let_def md4_bytes_words)
qed

lemma md4_final_spec:
  assumes lo: "md_lo ctx = word_of_nat (n mod 2 ^ 29)" and hi: "md_hi ctx = word_of_nat (n div 2 ^ 29)"
    and buf: "md_buffer ctx = put_bytes buf 0 rest" "length buf = 64" and r: "length rest = n mod 64"
  shows "MD4_Final_Rasta ctx = md4_bytes (md4_loop (md4_words ctx)
    (rest @ [0x80] @ replicate ((119 - n mod 64) mod 64) 0 @ md4_length n))"
proof -
  let ?lb = "md4_length n"
  have m: "n mod 2 ^ 29 mod 64 = n mod 64" by (simp add: mod_mod_cancel)
  have "n mod 2 ^ 29 < 2 ^ 29" by (rule mod_less_divisor) simp
  then have "unat (word_of_nat (n mod 2 ^ 29) :: u32) = n mod 2 ^ 29"
    by (intro unat_of_nat_u32) simp
  then have used: "unat (md_lo ctx AND 0x3f) = length rest" by (simp only: and_63 lo m r)
  have lb: "md4_out (push_bit 3 (md_lo ctx)) @ md4_out (md_hi ctx) = ?lb"
    by (simp only: lo hi md4_length_def)
  show ?thesis
  proof (cases "length rest < 56")
    case True
    have z: "(119 - n mod 64) mod 64 = 55 - length rest"
      unfolding r [symmetric] using True by (simp add: mod_if)
    show ?thesis
      unfolding md4_final_short [OF used True] lb buf(1) final_buffer_short [OF buf(2) True length_md4] z
      by simp
  next
    case False
    then have ge: "56 \<le> length rest" and lt: "length rest < 64" using r by simp_all
    have z: "(119 - n mod 64) mod 64 = (63 - length rest) + 56"
      unfolding r [symmetric] using ge lt by (simp add: mod_if)
    let ?p1 = "rest @ [0x80] @ replicate (63 - length rest) 0" and ?p2 = "replicate 56 0 @ ?lb"
    have l1: "length ?p1 = 64" using ge lt by simp
    have e: "md4_loop (md4_words ctx) (?p1 @ ?p2) = md4_loop (md4_loop (md4_words ctx) ?p1) ?p2"
      using l1 by (intro md4_loop_append [of _ 0]) auto
    have p: "rest @ [0x80] @ replicate ((63 - length rest) + 56) 0 @ ?lb = ?p1 @ ?p2"
      by (simp only: replicate_add append_assoc)
    show ?thesis
      unfolding md4_final_long [OF used ge lt] lb buf(1) final_buffer_long1 [OF buf(2) ge lt]
        final_buffer_long2 [OF l1 length_md4] z p e Let_def ..
  qed
qed

lemma md4_digest:
  assumes "md_lo ctx = 0" "md_hi ctx = 0" "length (md_buffer ctx) = 64"
  shows "MD4_Final_Rasta (MD4_Update_Rasta ctx data) = md4_reference (md4_words ctx) data"
proof -
  let ?n = "(length data div 64) * 64" let ?rest = "drop ?n data"
  note u = md4_update_fresh [OF assms(1,2), of data]
  have rest: "length ?rest = length data mod 64" by (simp add: minus_div_mult_eq_mod)
  let ?tail = "?rest @ [0x80] @ replicate ((119 - length data mod 64) mod 64) 0 @ md4_length (length data)"
  have pad: "md4_pad data = take ?n data @ ?tail" by (simp add: md4_pad_def)
  have "md4_loop (md4_words (MD4_Update_Rasta ctx data)) ?tail = md4_loop (md4_words ctx) (md4_pad data)"
  proof (cases "?n = 0")
    case False
    have l: "length (take ?n data) = 64 * Suc (length data div 64 - 1)" using False by simp
    show ?thesis
      using False md4_loop_append [OF l, of ?tail "md4_words ctx"] by (simp add: u(4) pad)
  qed (simp add: u(4) pad)
  then show ?thesis
    using md4_final_spec [OF u(1,2,3) assms(3) rest] by (simp add: md4_reference_def)
qed

end
