(* ===== verification/Siphash.thy ===== *)
theory Siphash
  imports Byte_Util
begin

section \<open>SipHash-2-4 and HalfSipHash (rastasiphash24.c)\<close>

text \<open>
  The two keyed hashes for safety codes of 16 and 8 bytes. A state is the four variables
  \<open>v0\<close> to \<open>v3\<close>, which the code declares with 64 bits in both functions, and the round
  macro of \<open>halfsiphash\<close> rotates 64-bit values too. A call returns the bytes it writes to
  \<open>out\<close>; \<open>None\<close> is a key shorter than the bytes the code reads.
\<close>

type_synonym sip_state = "u64 \<times> u64 \<times> u64 \<times> u64"

definition ROTL :: "u64 \<Rightarrow> nat \<Rightarrow> u64" where
  "ROTL x b = push_bit b x OR drop_bit (64 - b) x"

definition U8TO32_LE :: "u8 list \<Rightarrow> u64" where
  "U8TO32_LE p =
     ucast (p ! 0) OR push_bit 8 (ucast (p ! 1)) OR push_bit 16 (ucast (p ! 2)) OR push_bit 24 (ucast (p ! 3))"

definition U8TO64_LE :: "u8 list \<Rightarrow> u64" where
  "U8TO64_LE p =
     ucast (p ! 0) OR push_bit 8 (ucast (p ! 1)) OR push_bit 16 (ucast (p ! 2)) OR
     push_bit 24 (ucast (p ! 3)) OR push_bit 32 (ucast (p ! 4)) OR push_bit 40 (ucast (p ! 5)) OR
     push_bit 48 (ucast (p ! 6)) OR push_bit 56 (ucast (p ! 7))"

definition U32TO8_LE :: "u64 \<Rightarrow> u8 list" where
  "U32TO8_LE v = [ucast v, ucast (drop_bit 8 v), ucast (drop_bit 16 v), ucast (drop_bit 24 v)]"

definition U64TO8_LE :: "u64 \<Rightarrow> u8 list" where
  "U64TO8_LE v = U32TO8_LE v @ U32TO8_LE (drop_bit 32 v)"

text \<open>\<open>SIPROUND\<close> and \<open>SIPROUND_H\<close> differ in their six rotation distances.\<close>

definition sip_mix :: "nat \<Rightarrow> nat \<Rightarrow> nat \<Rightarrow> nat \<Rightarrow> nat \<Rightarrow> nat \<Rightarrow> sip_state \<Rightarrow> sip_state" where
  "sip_mix r1 r2 r3 r4 r5 r6 s =
     (let (v0, v1, v2, v3) = s;
          v0 = v0 + v1; v1 = ROTL v1 r1; v1 = v1 XOR v0; v0 = ROTL v0 r2;
          v2 = v2 + v3; v3 = ROTL v3 r3; v3 = v3 XOR v2;
          v0 = v0 + v3; v3 = ROTL v3 r4; v3 = v3 XOR v0;
          v2 = v2 + v1; v1 = ROTL v1 r5; v1 = v1 XOR v2; v2 = ROTL v2 r6
      in (v0, v1, v2, v3))"

definition SIPROUND :: "sip_state \<Rightarrow> sip_state" where
  "SIPROUND = sip_mix 13 32 16 21 17 32"

definition SIPROUND_H :: "sip_state \<Rightarrow> sip_state" where
  "SIPROUND_H = sip_mix 5 16 8 7 13 16"

text \<open>Absorbing one word \<open>m\<close>: into \<open>v3\<close>, \<open>cROUNDS\<close> rounds, into \<open>v0\<close>.\<close>

definition sip_absorb :: "(sip_state \<Rightarrow> sip_state) \<Rightarrow> u64 \<Rightarrow> sip_state \<Rightarrow> sip_state" where
  "sip_absorb rnd m s =
     (let (v0, v1, v2, v3) = s;
          (v0, v1, v2, v3) = rnd (rnd (v0, v1, v2, v3 XOR m))
      in (v0 XOR m, v1, v2, v3))"

function sip_loop :: "(sip_state \<Rightarrow> sip_state) \<Rightarrow> (u8 list \<Rightarrow> u64) \<Rightarrow> nat \<Rightarrow> u8 list \<Rightarrow> sip_state \<Rightarrow> sip_state" where
  "sip_loop rnd word n p s =
     (if p = [] \<or> n = 0 then s else sip_loop rnd word n (drop n p) (sip_absorb rnd (word p) s))"
  by pat_completeness auto
termination by (relation "measure (\<lambda>(rnd, word, n, p, s). length p)") auto

declare sip_loop.simps [simp del]

text \<open>The \<open>switch (left)\<close>: every case ends in \<open>break\<close>.\<close>

definition sip_switch :: "nat \<Rightarrow> u8 list \<Rightarrow> u64 \<Rightarrow> u64" where
  "sip_switch left inp b =
     (if left = 0 then b else b OR push_bit (8 * (left - 1)) (ucast (inp ! (left - 1))))"

definition siphash :: "u8 list \<Rightarrow> u8 list \<Rightarrow> nat \<Rightarrow> u8 list option" where
  "siphash inp k outlen =
     (if length k < 16 then None
      else
        let inlen = length inp;
            k0 = U8TO64_LE k; k1 = U8TO64_LE (drop 8 k);
            v0 = 0x736f6d6570736575 XOR k0; v1 = 0x646f72616e646f6d XOR k1;
            v2 = 0x6c7967656e657261 XOR k0; v3 = 0x7465646279746573 XOR k1;
            v1 = (if outlen = 16 then v1 XOR 0xee else v1);
            n = inlen - inlen mod 8;
            s = sip_loop SIPROUND U8TO64_LE 8 (take n inp) (v0, v1, v2, v3);
            tail = drop n inp;
            left = inlen mod 8;
            b = push_bit 56 (word_of_nat inlen);
            b = sip_switch left tail b;
            (v0, v1, v2, v3) = sip_absorb SIPROUND b s;
            v2 = (if outlen = 16 then v2 XOR 0xee else v2 XOR 0xff);
            (v0, v1, v2, v3) = (SIPROUND ^^ 4) (v0, v1, v2, v3);
            out1 = U64TO8_LE (v0 XOR v1 XOR v2 XOR v3)
        in if outlen = 8 then Some out1
           else
             let (v0, v1, v2, v3) = (SIPROUND ^^ 4) (v0, v1 XOR 0xdd, v2, v3)
             in Some (out1 @ U64TO8_LE (v0 XOR v1 XOR v2 XOR v3)))"

definition halfsiphash :: "u8 list \<Rightarrow> u8 list \<Rightarrow> nat \<Rightarrow> u8 list option" where
  "halfsiphash inp k outlen =
     (if length k < 8 then None
      else
        let inlen = length inp;
            k0 = U8TO32_LE k; k1 = U8TO32_LE (drop 4 k);
            v0 = 0 XOR k0; v1 = 0 XOR k1; v2 = 0x6c796765 XOR k0; v3 = 0x74656462 XOR k1;
            v1 = (if outlen = 8 then v1 XOR 0xee else v1);
            n = inlen - inlen mod 8;
            s = sip_loop SIPROUND_H U8TO32_LE 4 (take n inp) (v0, v1, v2, v3);
            tail = drop n inp;
            left = inlen mod 4;
            b = push_bit 24 (word_of_nat inlen);
            b = sip_switch left tail b;
            (v0, v1, v2, v3) = sip_absorb SIPROUND_H b s;
            v2 = (if outlen = 8 then v2 XOR 0xee else v2 XOR 0xff);
            (v0, v1, v2, v3) = (SIPROUND_H ^^ 4) (v0, v1, v2, v3);
            out1 = U32TO8_LE (v1 XOR v3)
        in if outlen = 4 then Some out1
           else
             let (v0, v1, v2, v3) = (SIPROUND_H ^^ 4) (v0, v1 XOR 0xdd, v2, v3)
             in Some (out1 @ U32TO8_LE (v1 XOR v3)))"

definition generateSiphash24 :: "u8 list \<Rightarrow> u8 list \<Rightarrow> int \<Rightarrow> u8 list \<Rightarrow> u8 list option" where
  "generateSiphash24 data key hash_type result =
     (if hash_type = 1 then do { h \<leftarrow> halfsiphash data key 8; buf_write result 0 h }
      else if hash_type = 2 then do { h \<leftarrow> siphash data key 16; buf_write result 0 h }
      else buf_write result 0 (replicate 8 0))"

subsection \<open>Message bytes that do not reach the hash\<close>

text \<open>
  The cases of both \<open>switch\<close> statements end in \<open>break\<close>, so of the bytes after the last full
  word only one enters the hash; and \<open>halfsiphash\<close> stops its loop of 4-byte words at a
  multiple of 8. The hash does not depend on the other bytes of the tail.
\<close>

lemma take_update_ge: "n \<le> i \<Longrightarrow> take n (xs[i := x]) = take n xs"
  by (simp add: take_update_swap list_update_beyond)

lemma tail_update_other:
  assumes "n \<le> length xs" and "n + j < length xs" and "i \<noteq> n + j"
  shows "drop n (xs[i := x]) ! j = drop n xs ! j"
  using assms by simp

lemma sub_mod_le: "n - n mod (k :: nat) \<le> n"
  by simp

lemma siphash_update_tail:
  assumes "i \<ge> length inp - length inp mod 8" and "Suc i < length inp"
  shows "siphash (inp[i := x]) k o' = siphash inp k o'"
proof -
  let ?n = "length inp - length inp mod 8"
  have t: "take ?n (inp[i := x]) = take ?n inp" using assms(1) by (rule take_update_ge)
  have e: "length inp mod 8 \<noteq> 0 \<Longrightarrow> ?n + (length inp mod 8 - 1) = length inp - 1"
    by (simp add: mod_less_eq_dividend)
  have "length inp mod 8 \<noteq> 0 \<Longrightarrow>
      drop ?n (inp[i := x]) ! (length inp mod 8 - 1) = drop ?n inp ! (length inp mod 8 - 1)"
    using assms(2) e by (intro tail_update_other) auto
  then have d: "sip_switch (length inp mod 8) (drop ?n (inp[i := x])) b = sip_switch (length inp mod 8) (drop ?n inp) b" for b
    by (simp add: sip_switch_def)
  show ?thesis
    unfolding siphash_def Let_def length_list_update t d ..
qed

lemma halfsiphash_update_tail:
  assumes "i \<ge> length inp - length inp mod 8" and "i < length inp"
    and "length inp mod 4 = 0 \<or> i \<noteq> length inp - length inp mod 8 + length inp mod 4 - 1"
  shows "halfsiphash (inp[i := x]) k o' = halfsiphash inp k o'"
proof -
  let ?n = "length inp - length inp mod 8" and ?l = "length inp mod 4"
  have t: "take ?n (inp[i := x]) = take ?n inp" using assms(1) by (rule take_update_ge)
  have "?l = length inp mod 8 mod 4" by (simp add: mod_mod_cancel)
  then have le: "?l \<le> length inp mod 8" by (metis mod_less_eq_dividend)
  have "drop ?n (inp[i := x]) ! (?l - 1) = drop ?n inp ! (?l - 1)" if "?l \<noteq> 0"
  proof (rule tail_update_other)
    have ge: "?n + (?l - 1) < ?n + length inp mod 8" using that le by linarith
    then show "?n + (?l - 1) < length inp" by (simp add: mod_less_eq_dividend)
    show "i \<noteq> ?n + (?l - 1)" using assms(3) that by simp
  qed simp
  then have d: "sip_switch ?l (drop ?n (inp[i := x])) b = sip_switch ?l (drop ?n inp) b" for b
    by (simp add: sip_switch_def)
  show ?thesis
    unfolding halfsiphash_def Let_def length_list_update t d ..
qed

text \<open>Two messages of one length that agree on the bytes the loop and the switch read.\<close>

lemma halfsiphash_cong:
  assumes "length inp' = length inp" and "length inp mod 4 = 0"
    and "take (length inp - length inp mod 8) inp' = take (length inp - length inp mod 8) inp"
  shows "halfsiphash inp' k o' = halfsiphash inp k o'"
proof -
  have d: "sip_switch (length inp mod 4) xs b = b" for xs b
    using assms(2) by (simp add: sip_switch_def)
  show ?thesis unfolding halfsiphash_def Let_def assms(1,3) d ..
qed

lemma siphash_cong:
  assumes "length inp' = length inp" and "inp' ! (length inp - 1) = inp ! (length inp - 1)"
    and "take (length inp - length inp mod 8) inp' = take (length inp - length inp mod 8) inp"
  shows "siphash inp' k o' = siphash inp k o'"
proof -
  let ?n = "length inp - length inp mod 8" and ?l = "length inp mod 8"
  have "drop ?n xs ! (?l - 1) = xs ! (length inp - 1)" if "?l \<noteq> 0" and "length xs = length inp" for xs :: "u8 list"
    using that by (simp add: mod_less_eq_dividend)
  then have d: "sip_switch ?l (drop ?n inp') b = sip_switch ?l (drop ?n inp) b" for b
    using assms(1,2) by (simp add: sip_switch_def)
  show ?thesis unfolding siphash_def Let_def assms(1,3) d ..
qed

lemma siphash_length: "siphash inp k 16 = Some h \<Longrightarrow> length h = 16"
  by (auto simp: siphash_def Let_def U64TO8_LE_def U32TO8_LE_def split: if_splits prod.splits)

lemma halfsiphash_length: "halfsiphash inp k 8 = Some h \<Longrightarrow> length h = 8"
  by (auto simp: halfsiphash_def Let_def U32TO8_LE_def split: if_splits prod.splits)

end
