(* ===== verification/Blake2.thy ===== *)
theory Blake2
  imports Byte_Util
begin

section \<open>BLAKE2b (rastablake2.c)\<close>

text \<open>
  The third hash for safety codes. The context is a record as in the code; the work vector
  \<open>v\<close> of the compression is a list of 16 words that the mixing macro updates by index. The
  bytes of the input buffer before the key is written are indeterminate.
\<close>

record blake2b_ctx =
  bl_b :: "u8 list"
  bl_h :: "u64 list"
  bl_t0 :: u64
  bl_t1 :: u64
  bl_c :: nat
  bl_outlen :: nat

definition ROTR64 :: "u64 \<Rightarrow> nat \<Rightarrow> u64" where
  "ROTR64 x y = drop_bit y x XOR push_bit (64 - y) x"

definition B2B_GET64 :: "u8 list \<Rightarrow> nat \<Rightarrow> u64" where
  "B2B_GET64 p i =
     ucast (p ! (8 * i)) XOR push_bit 8 (ucast (p ! (8 * i + 1))) XOR
     push_bit 16 (ucast (p ! (8 * i + 2))) XOR push_bit 24 (ucast (p ! (8 * i + 3))) XOR
     push_bit 32 (ucast (p ! (8 * i + 4))) XOR push_bit 40 (ucast (p ! (8 * i + 5))) XOR
     push_bit 48 (ucast (p ! (8 * i + 6))) XOR push_bit 56 (ucast (p ! (8 * i + 7)))"

definition B2B_G :: "nat \<Rightarrow> nat \<Rightarrow> nat \<Rightarrow> nat \<Rightarrow> u64 \<Rightarrow> u64 \<Rightarrow> u64 list \<Rightarrow> u64 list" where
  "B2B_G a b c d x y v =
     (let v = v[a := v ! a + v ! b + x];
          v = v[d := ROTR64 (v ! d XOR v ! a) 32];
          v = v[c := v ! c + v ! d];
          v = v[b := ROTR64 (v ! b XOR v ! c) 24];
          v = v[a := v ! a + v ! b + y];
          v = v[d := ROTR64 (v ! d XOR v ! a) 16];
          v = v[c := v ! c + v ! d];
          v = v[b := ROTR64 (v ! b XOR v ! c) 63]
      in v)"

definition blake2b_iv :: "u64 list" where
  "blake2b_iv =
     [0x6A09E667F3BCC908, 0xBB67AE8584CAA73B, 0x3C6EF372FE94F82B, 0xA54FF53A5F1D36F1,
      0x510E527FADE682D1, 0x9B05688C2B3E6C1F, 0x1F83D9ABFB41BD6B, 0x5BE0CD19137E2179]"

definition sigma :: "nat list list" where
  "sigma =
     [[0, 1, 2, 3, 4, 5, 6, 7, 8, 9, 10, 11, 12, 13, 14, 15],
      [14, 10, 4, 8, 9, 15, 13, 6, 1, 12, 0, 2, 11, 7, 5, 3],
      [11, 8, 12, 0, 5, 2, 15, 13, 10, 14, 3, 6, 7, 1, 9, 4],
      [7, 9, 3, 1, 13, 12, 11, 14, 2, 6, 5, 10, 4, 0, 15, 8],
      [9, 0, 5, 7, 2, 4, 10, 15, 14, 1, 11, 12, 6, 8, 3, 13],
      [2, 12, 6, 10, 0, 11, 8, 3, 4, 13, 7, 5, 15, 14, 1, 9],
      [12, 5, 1, 15, 14, 13, 4, 10, 0, 7, 6, 3, 9, 2, 8, 11],
      [13, 11, 7, 14, 12, 1, 3, 9, 5, 0, 15, 4, 8, 6, 2, 10],
      [6, 15, 14, 9, 11, 3, 0, 8, 12, 2, 13, 7, 1, 4, 10, 5],
      [10, 2, 8, 4, 7, 6, 1, 5, 15, 11, 9, 14, 3, 12, 13, 0],
      [0, 1, 2, 3, 4, 5, 6, 7, 8, 9, 10, 11, 12, 13, 14, 15],
      [14, 10, 4, 8, 9, 15, 13, 6, 1, 12, 0, 2, 11, 7, 5, 3]]"

definition blake2b_round :: "u64 list \<Rightarrow> nat list \<Rightarrow> u64 list \<Rightarrow> u64 list" where
  "blake2b_round m si v =
     (let v = B2B_G 0 4 8 12 (m ! (si ! 0)) (m ! (si ! 1)) v;
          v = B2B_G 1 5 9 13 (m ! (si ! 2)) (m ! (si ! 3)) v;
          v = B2B_G 2 6 10 14 (m ! (si ! 4)) (m ! (si ! 5)) v;
          v = B2B_G 3 7 11 15 (m ! (si ! 6)) (m ! (si ! 7)) v;
          v = B2B_G 0 5 10 15 (m ! (si ! 8)) (m ! (si ! 9)) v;
          v = B2B_G 1 6 11 12 (m ! (si ! 10)) (m ! (si ! 11)) v;
          v = B2B_G 2 7 8 13 (m ! (si ! 12)) (m ! (si ! 13)) v;
          v = B2B_G 3 4 9 14 (m ! (si ! 14)) (m ! (si ! 15)) v
      in v)"

definition blake2b_compress :: "blake2b_ctx \<Rightarrow> bool \<Rightarrow> blake2b_ctx" where
  "blake2b_compress ctx is_last =
     (let v = bl_h ctx @ blake2b_iv;
          v = v[12 := v ! 12 XOR bl_t0 ctx];
          v = v[13 := v ! 13 XOR bl_t1 ctx];
          v = (if is_last then v[14 := NOT (v ! 14)] else v);
          m = map (B2B_GET64 (bl_b ctx)) [0..<16];
          v = fold (blake2b_round m) sigma v
      in ctx\<lparr>bl_h := map (\<lambda>i. bl_h ctx ! i XOR (v ! i XOR v ! (i + 8))) [0..<8]\<rparr>)"

definition add_count :: "blake2b_ctx \<Rightarrow> blake2b_ctx" where
  "add_count ctx =
     (let c = word_of_nat (bl_c ctx); t0 = bl_t0 ctx + c
      in ctx\<lparr>bl_t0 := t0, bl_t1 := (if t0 < c then bl_t1 ctx + 1 else bl_t1 ctx)\<rparr>)"

definition blake2b_byte :: "u8 \<Rightarrow> blake2b_ctx \<Rightarrow> blake2b_ctx" where
  "blake2b_byte x ctx =
     (let ctx = (if bl_c ctx = 128 then (blake2b_compress (add_count ctx) False)\<lparr>bl_c := 0\<rparr> else ctx)
      in ctx\<lparr>bl_b := (bl_b ctx)[bl_c ctx := x], bl_c := bl_c ctx + 1\<rparr>)"

definition blake2b_update :: "blake2b_ctx \<Rightarrow> u8 list \<Rightarrow> blake2b_ctx" where
  "blake2b_update ctx inp = fold blake2b_byte inp ctx"

definition blake2b_init :: "u8 list \<Rightarrow> nat \<Rightarrow> u8 list \<Rightarrow> blake2b_ctx option" where
  "blake2b_init indeterminate outlen key =
     (let keylen = length key
      in if outlen = 0 \<or> 64 < outlen \<or> 64 < keylen then None
         else
           let h = blake2b_iv[0 := blake2b_iv ! 0 XOR
                     (0x01010000 XOR push_bit 8 (word_of_nat keylen) XOR word_of_nat outlen)];
               ctx = \<lparr>bl_b = take keylen indeterminate @ replicate (128 - keylen) 0, bl_h = h,
                      bl_t0 = 0, bl_t1 = 0, bl_c = 0, bl_outlen = outlen\<rparr>
           in Some (if keylen > 0 then (blake2b_update ctx key)\<lparr>bl_c := 128\<rparr> else ctx))"

definition blake2b_final :: "blake2b_ctx \<Rightarrow> u8 list" where
  "blake2b_final ctx =
     (let ctx = add_count ctx;
          ctx = ctx\<lparr>bl_b := take (bl_c ctx) (bl_b ctx) @ replicate (128 - bl_c ctx) 0, bl_c := 128\<rparr>;
          ctx = blake2b_compress ctx True
      in map (\<lambda>i. ucast (drop_bit (8 * (i mod 8)) (bl_h ctx ! (i div 8)) AND 0xFF)) [0..<bl_outlen ctx])"

definition blake2b :: "u8 list \<Rightarrow> nat \<Rightarrow> u8 list \<Rightarrow> u8 list \<Rightarrow> u8 list option" where
  "blake2b indeterminate outlen key inp =
     (case blake2b_init indeterminate outlen key of
        None \<Rightarrow> None
      | Some ctx \<Rightarrow> Some (blake2b_final (blake2b_update ctx inp)))"

text \<open>
  With hash type 0 the call \<open>rmemset(result, 8, 0)\<close> has its last two arguments swapped and
  writes nothing.
\<close>

definition generateBlake2 :: "u8 list \<Rightarrow> u8 list \<Rightarrow> u8 list \<Rightarrow> nat \<Rightarrow> u8 list \<Rightarrow> u8 list option" where
  "generateBlake2 indeterminate data key hash_type result =
     (let hash_len = hash_type * 8
      in if hash_len = 0 then Some result
         else
           case blake2b_init indeterminate hash_len key of
             None \<Rightarrow> Some result
           | Some ctx \<Rightarrow> buf_write result 0 (blake2b_final (blake2b_update ctx data)))"

subsection \<open>The digest does not depend on indeterminate bytes\<close>

lemma compress_c [simp]: "bl_c (blake2b_compress ctx l) = bl_c ctx" "bl_b (blake2b_compress ctx l) = bl_b ctx"
  "bl_outlen (blake2b_compress ctx l) = bl_outlen ctx"
  by (simp_all add: blake2b_compress_def Let_def)

lemma add_count_c [simp]: "bl_c (add_count ctx) = bl_c ctx" "bl_b (add_count ctx) = bl_b ctx"
  "bl_outlen (add_count ctx) = bl_outlen ctx"
  by (simp_all add: add_count_def Let_def)

lemma byte_outlen [simp]: "bl_outlen (blake2b_byte x ctx) = bl_outlen ctx"
  by (simp add: blake2b_byte_def Let_def)

lemma update_outlen [simp]: "bl_outlen (blake2b_update ctx xs) = bl_outlen ctx"
  unfolding blake2b_update_def by (induction xs arbitrary: ctx) simp_all

lemma final_length [simp]: "length (blake2b_final ctx) = bl_outlen ctx"
  by (simp add: blake2b_final_def Let_def)

lemma update_fills:
  "bl_c ctx + length xs \<le> 128 \<Longrightarrow> length (bl_b ctx) = 128 \<Longrightarrow>
   blake2b_update ctx xs =
     ctx\<lparr>bl_b := take (bl_c ctx) (bl_b ctx) @ xs @ drop (bl_c ctx + length xs) (bl_b ctx),
         bl_c := bl_c ctx + length xs\<rparr>"
  unfolding blake2b_update_def
proof (induction xs arbitrary: ctx)
  case (Cons x xs)
  have c: "bl_c ctx < 128" using Cons.prems by simp
  have "fold blake2b_byte (x # xs) ctx =
      fold blake2b_byte xs (ctx\<lparr>bl_b := (bl_b ctx)[bl_c ctx := x], bl_c := bl_c ctx + 1\<rparr>)"
    using c by (simp add: blake2b_byte_def)
  also have "\<dots> = ctx\<lparr>bl_b := take (bl_c ctx + 1) ((bl_b ctx)[bl_c ctx := x]) @ xs @
        drop (bl_c ctx + 1 + length xs) ((bl_b ctx)[bl_c ctx := x]), bl_c := bl_c ctx + 1 + length xs\<rparr>"
    using Cons.prems by (subst Cons.IH) auto
  also have "take (bl_c ctx + 1) ((bl_b ctx)[bl_c ctx := x]) = take (bl_c ctx) (bl_b ctx) @ [x]"
    using c Cons.prems(2) by (simp add: take_Suc_conv_app_nth list_update_append)
  finally show ?case by simp
qed simp

lemma init_determinate:
  assumes "length j1 = 128" and "length j2 = 128"
  shows "blake2b_init j1 outlen key = blake2b_init j2 outlen key"
  using assms by (auto simp: blake2b_init_def Let_def update_fills)

end
