(* ===== verification/Hashing.thy ===== *)
theory Hashing
  imports Md4 Siphash Blake2
begin

section \<open>The safety code of a packet (rastahashing.h, rastahashing.c)\<close>

text \<open>
  The hashing context and the dispatch over the algorithms. \<open>indet n\<close> stands for the
  indeterminate content of \<open>n\<close> bytes of fresh storage, here of the contexts on the stack.
  A buffer the code writes its result to is passed with its content and returned.
\<close>

type_synonym indet = "nat \<Rightarrow> u8 list"

datatype rasta_hash_algorithm = RASTA_ALGO_MD4 | RASTA_ALGO_BLAKE2B | RASTA_ALGO_SIPHASH_2_4

text \<open>\<open>rasta_checksum_type\<close>: none, 8 bytes, 16 bytes, with the values 0, 1, 2.\<close>

definition RASTA_CHECKSUM_NONE :: nat where "RASTA_CHECKSUM_NONE = 0"
definition RASTA_CHECKSUM_8B :: nat where "RASTA_CHECKSUM_8B = 1"
definition RASTA_CHECKSUM_16B :: nat where "RASTA_CHECKSUM_16B = 2"

record rasta_hashing_context_t =
  algorithm :: rasta_hash_algorithm
  hash_length :: nat
  hash_key :: "u8 list"

definition rasta_md4_set_key ::
  "rasta_hashing_context_t \<Rightarrow> u32 \<Rightarrow> u32 \<Rightarrow> u32 \<Rightarrow> u32 \<Rightarrow> rasta_hashing_context_t" where
  "rasta_md4_set_key ctx a b c d =
     ctx\<lparr>hash_key := longToBytes a @ longToBytes b @ longToBytes c @ longToBytes d\<rparr>"

definition rasta_get_md4_ctx_from_key :: "indet \<Rightarrow> rasta_hashing_context_t \<Rightarrow> MD4_CTX_RASTA option" where
  "rasta_get_md4_ctx_from_key indet ctx =
     do { a \<leftarrow> buf_read (hash_key ctx) 0 4;
          b \<leftarrow> buf_read (hash_key ctx) 4 4;
          c \<leftarrow> buf_read (hash_key ctx) 8 4;
          d \<leftarrow> buf_read (hash_key ctx) 12 4;
          Some (md4InitContext (bytesToLong a) (bytesToLong b) (bytesToLong c) (bytesToLong d) (indet 64)) }"

definition rasta_calculate_hash ::
  "indet \<Rightarrow> u8 list \<Rightarrow> rasta_hashing_context_t \<Rightarrow> u8 list \<Rightarrow> u8 list option" where
  "rasta_calculate_hash indet data ctx hash =
     (case algorithm ctx of
        RASTA_ALGO_MD4 \<Rightarrow>
          do { md4_ctx \<leftarrow> rasta_get_md4_ctx_from_key indet ctx;
               generateMD4WithVector data (int (hash_length ctx)) md4_ctx hash }
      | RASTA_ALGO_BLAKE2B \<Rightarrow> generateBlake2 (indet 128) data (hash_key ctx) (hash_length ctx) hash
      | RASTA_ALGO_SIPHASH_2_4 \<Rightarrow>
          generateSiphash24 data (hash_key ctx) (int (hash_length ctx)) hash)"

subsection \<open>The hash is a function of the data and the key\<close>

definition indet_ok :: "indet \<Rightarrow> bool" where
  "indet_ok indet \<longleftrightarrow> (\<forall>n. length (indet n) = n)"

definition wf_hash :: "rasta_hashing_context_t \<Rightarrow> bool" where
  "wf_hash ctx \<longleftrightarrow> hash_length ctx \<le> 2 \<and>
     (case algorithm ctx of
        RASTA_ALGO_MD4 \<Rightarrow> 16 \<le> length (hash_key ctx)
      | RASTA_ALGO_BLAKE2B \<Rightarrow> length (hash_key ctx) \<le> 64
      | RASTA_ALGO_SIPHASH_2_4 \<Rightarrow> 8 * hash_length ctx \<le> length (hash_key ctx))"

text \<open>The bytes of the safety code, computed with zeroed storage.\<close>

definition hash_value :: "rasta_hashing_context_t \<Rightarrow> u8 list \<Rightarrow> u8 list" where
  "hash_value ctx data =
     (case rasta_calculate_hash (\<lambda>n. replicate n 0) data ctx (replicate 16 0) of
        Some h \<Rightarrow> take (8 * hash_length ctx) h
      | None \<Rightarrow> [])"

lemma siphash_some: "16 \<le> length k \<Longrightarrow> \<exists>h. siphash inp k 16 = Some h"
  by (auto simp: siphash_def Let_def split: prod.splits)

lemma halfsiphash_some: "8 \<le> length k \<Longrightarrow> \<exists>h. halfsiphash inp k 8 = Some h"
  by (auto simp: halfsiphash_def Let_def split: prod.splits)

lemma md4_reference_length [simp]: "length (md4_reference iv msg) = 16"
  by (simp add: md4_reference_def md4_bytes_def split: prod.splits)

lemma md4_hash_16:
  assumes "md_lo ctx = 0" "md_hi ctx = 0" "length (md_buffer ctx) = 64" "length buf = 16" "t \<le> 2"
  shows "\<exists>h. generateMD4WithVector data (int t) ctx buf = Some h \<and> length h = 16 \<and>
    take (8 * t) h = take (8 * t) (md4_reference (md4_words ctx) data)"
proof -
  have "t = 0 \<or> t = 1 \<or> t = 2" using assms(5) by auto
  then show ?thesis
    using assms(4) by (auto simp: generateMD4WithVector_def md4_digest [OF assms(1-3)] buf_write_def)
qed

lemma blake_init_some:
  "length key \<le> 64 \<Longrightarrow> 0 < n \<Longrightarrow> n \<le> 64 \<Longrightarrow>
   \<exists>c. blake2b_init j n key = Some c \<and> bl_outlen c = n"
  by (auto simp: blake2b_init_def Let_def)

lemma blake_hash_16:
  assumes "length key \<le> 64" "t \<le> 2" "length buf = 16" "length j = 128"
  shows "\<exists>h. generateBlake2 j data key t buf = Some h \<and> length h = 16 \<and>
    take (8 * t) h = take (8 * t)
      (blake2b_final (blake2b_update (the (blake2b_init (replicate 128 0) (8 * t) key)) data))"
proof -
  have t: "t = 0 \<or> t = 1 \<or> t = 2" using assms(2) by auto
  have j: "blake2b_init j n key = blake2b_init (replicate 128 0) n key" for n
    by (rule init_determinate) (simp_all add: assms(4))
  show ?thesis
  proof (cases "t = 0")
    case True
    then show ?thesis using assms(3) by (simp add: generateBlake2_def)
  next
    case False
    then obtain c where c: "blake2b_init (replicate 128 0) (8 * t) key = Some c" "bl_outlen c = 8 * t"
      using blake_init_some [OF assms(1), of "8 * t" "replicate 128 0"] t by auto
    let ?h = "blake2b_final (blake2b_update c data)"
    have "length ?h = 8 * t" using c(2) by simp
    then show ?thesis
      using False t assms(3) c(1) by (auto simp: generateBlake2_def j mult.commute buf_write_def)
  qed
qed

lemma sip_hash_16:
  assumes "8 * t \<le> length key" "t \<le> 2" "length buf = 16"
  shows "\<exists>h. generateSiphash24 data key (int t) buf = Some h \<and> length h = 16 \<and>
    take (8 * t) h = take (8 * t) (the (if t = 1 then halfsiphash data key 8 else siphash data key 16))"
proof -
  have t: "t = 0 \<or> t = 1 \<or> t = 2" using assms(2) by auto
  moreover have ?thesis if tv: "t = 1"
  proof -
    obtain h where h: "halfsiphash data key 8 = Some h" using assms(1) tv halfsiphash_some [of key data] by auto
    show ?thesis using halfsiphash_length [OF h] tv assms(3) by (simp add: generateSiphash24_def h buf_write_def)
  qed
  moreover have ?thesis if tv: "t = 2"
  proof -
    obtain h where h: "siphash data key 16 = Some h" using assms(1) tv siphash_some [of key data] by auto
    show ?thesis using siphash_length [OF h] tv assms(3) by (simp add: generateSiphash24_def h buf_write_def)
  qed
  moreover have ?thesis if "t = 0"
    using that assms(3) by (simp add: generateSiphash24_def buf_write_def)
  ultimately show ?thesis by blast
qed

lemma calculate_hash_ok:
  assumes w: "wf_hash ctx" and i: "indet_ok indet" and b: "length buf = 16"
  shows "\<exists>h. rasta_calculate_hash indet data ctx buf = Some h \<and> length h = 16 \<and>
    take (8 * hash_length ctx) h = hash_value ctx data"
proof -
  let ?z = "\<lambda>n. replicate n 0" and ?b = "replicate 16 (0 :: u8)"
  have l: "hash_length ctx \<le> 2" using w by (simp add: wf_hash_def)
  have i64: "length (indet 64) = 64" "length (indet 128) = 128" using i by (simp_all add: indet_ok_def)
  have "\<exists>h h0. rasta_calculate_hash indet data ctx buf = Some h \<and> length h = 16 \<and>
      rasta_calculate_hash ?z data ctx ?b = Some h0 \<and>
      take (8 * hash_length ctx) h = take (8 * hash_length ctx) h0"
  proof (cases "algorithm ctx")
    case RASTA_ALGO_MD4
    then have k: "16 \<le> length (hash_key ctx)" using w by (simp add: wf_hash_def)
    let ?c = "\<lambda>j. md4InitContext (bytesToLong (take 4 (hash_key ctx)))
        (bytesToLong (take 4 (drop 4 (hash_key ctx)))) (bytesToLong (take 4 (drop 8 (hash_key ctx))))
        (bytesToLong (take 4 (drop 12 (hash_key ctx)))) j"
    have c: "rasta_get_md4_ctx_from_key f ctx = Some (?c (f 64))" for f
      using k by (simp add: rasta_get_md4_ctx_from_key_def buf_read_def)
    have s: "md_lo (?c j) = 0" "md_hi (?c j) = 0" "md_buffer (?c j) = j"
      "md4_words (?c j) = (bytesToLong (take 4 (hash_key ctx)), bytesToLong (take 4 (drop 4 (hash_key ctx))),
        bytesToLong (take 4 (drop 8 (hash_key ctx))), bytesToLong (take 4 (drop 12 (hash_key ctx))))" for j
      by (simp_all add: md4InitContext_def md4_words_def)
    show ?thesis
      using md4_hash_16 [of "?c (indet 64)" buf "hash_length ctx" data]
        md4_hash_16 [of "?c (?z 64)" ?b "hash_length ctx" data] s i64 b l
      by (auto simp: rasta_calculate_hash_def RASTA_ALGO_MD4 c)
  next
    case RASTA_ALGO_BLAKE2B
    then have k: "length (hash_key ctx) \<le> 64" using w by (simp add: wf_hash_def)
    show ?thesis
      using blake_hash_16 [OF k l b i64(2), of data] blake_hash_16 [OF k l, of ?b "?z 128" data]
      by (auto simp: rasta_calculate_hash_def RASTA_ALGO_BLAKE2B)
  next
    case RASTA_ALGO_SIPHASH_2_4
    then have k: "8 * hash_length ctx \<le> length (hash_key ctx)" using w by (simp add: wf_hash_def)
    show ?thesis
      using sip_hash_16 [OF k l b, of data] sip_hash_16 [OF k l, of ?b data]
      by (auto simp: rasta_calculate_hash_def RASTA_ALGO_SIPHASH_2_4)
  qed
  then show ?thesis by (auto simp: hash_value_def)
qed

lemma hash_value_length:
  assumes "wf_hash ctx"
  shows "length (hash_value ctx data) = 8 * hash_length ctx"
proof -
  have "indet_ok (\<lambda>n. replicate n 0)" by (simp add: indet_ok_def)
  from calculate_hash_ok [OF assms this, of "replicate 16 0" data]
  obtain h where "length h = 16" "take (8 * hash_length ctx) h = hash_value ctx data" by auto
  moreover have "hash_length ctx \<le> 2" using assms by (simp add: wf_hash_def)
  ultimately show ?thesis using length_take [of "8 * hash_length ctx" h] by simp
qed

end
