(* ===== verification/Crc.thy ===== *)
theory Crc
  imports Byte_Util
begin

section \<open>Check codes of the redundancy layer (rastacrc.c)\<close>

text \<open>
  The table-driven CRC and its five option sets. Option a leaves every field but the width
  and the table flag uninitialised, so \<open>crc_init_opt_a\<close> takes their indeterminate values;
  its width 0 makes the code shift by negative amounts, for which the model takes the
  count modulo 64 as the x86 instruction does. No byte of that result is ever used.
\<close>

record crc_options =
  crc_width :: nat
  crc_polynom :: u64
  crc_initial :: u64
  crc_initial_optimized :: u64
  crc_refin :: bool
  crc_refout :: bool
  crc_final_xor :: u64
  crc_mask :: u64
  crc_high_bit :: u64
  crc_table_generated :: bool
  crc_table :: "u64 list"

definition shl :: "u64 \<Rightarrow> int \<Rightarrow> u64" where
  "shl x n = push_bit (nat (n mod 64)) x"

definition shr :: "u64 \<Rightarrow> int \<Rightarrow> u64" where
  "shr x n = drop_bit (nat (n mod 64)) x"

text \<open>The loop of \<open>reflect\<close>, with the position of the single bit of \<open>i\<close>.\<close>

fun reflect_loop :: "u64 \<Rightarrow> nat \<Rightarrow> u64 \<Rightarrow> u64 \<Rightarrow> u64" where
  "reflect_loop crc_in 0 j crc_out = crc_out"
| "reflect_loop crc_in (Suc k) j crc_out =
     reflect_loop crc_in k (push_bit 1 j) (if crc_in AND push_bit k 1 \<noteq> 0 then crc_out OR j else crc_out)"

definition reflect :: "u64 \<Rightarrow> nat \<Rightarrow> u64" where
  "reflect crc_in n = reflect_loop crc_in (if n = 0 then 64 else n) 1 0"

definition crc_init_opt_a :: "crc_options \<Rightarrow> crc_options" where
  "crc_init_opt_a indeterminate = indeterminate\<lparr>crc_width := 0, crc_table_generated := False\<rparr>"

definition crc_option :: "nat \<Rightarrow> u64 \<Rightarrow> u64 \<Rightarrow> u64 \<Rightarrow> bool \<Rightarrow> u64 \<Rightarrow> u64 list \<Rightarrow> crc_options" where
  "crc_option w polynom initial optimized refin_out xor_value indeterminate =
     \<lparr>crc_width = w, crc_polynom = polynom, crc_initial = initial, crc_initial_optimized = optimized,
      crc_refin = refin_out, crc_refout = refin_out, crc_final_xor = xor_value,
      crc_mask = push_bit 1 (push_bit (w - 1) 1 - 1) OR 1, crc_high_bit = push_bit (w - 1) 1,
      crc_table_generated = False, crc_table = indeterminate\<rparr>"

definition crc_init_opt_b :: "u64 list \<Rightarrow> crc_options" where
  "crc_init_opt_b = crc_option 32 0xEE5B42FD 0 0 False 0"

definition crc_init_opt_c :: "u64 list \<Rightarrow> crc_options" where
  "crc_init_opt_c = crc_option 32 0x1EDC6F41 0x2A26F826 0xFFFFFFFF True 0xFFFFFFFF"

definition crc_init_opt_d :: "u64 list \<Rightarrow> crc_options" where
  "crc_init_opt_d = crc_option 16 0x1021 0 0 True 0"

definition crc_init_opt_e :: "u64 list \<Rightarrow> crc_options" where
  "crc_init_opt_e = crc_option 16 0x8005 0 0 True 0"

definition crc_bit :: "crc_options \<Rightarrow> u64 \<Rightarrow> u64" where
  "crc_bit opt crc =
     (let b = crc AND crc_high_bit opt; crc = push_bit 1 crc
      in if b \<noteq> 0 then crc XOR crc_polynom opt else crc)"

definition crc_table_entry :: "crc_options \<Rightarrow> nat \<Rightarrow> u64" where
  "crc_table_entry opt i =
     (let crc = word_of_nat i;
          crc = (if crc_refin opt then reflect crc 8 else crc);
          crc = shl crc (int (crc_width opt) - 8);
          crc = (crc_bit opt ^^ 8) crc;
          crc = (if crc_refin opt then reflect crc (crc_width opt) else crc)
      in crc AND crc_mask opt)"

definition crc_generate_table :: "crc_options \<Rightarrow> crc_options" where
  "crc_generate_table opt =
     opt\<lparr>crc_table := map (crc_table_entry opt) [0..<256], crc_table_generated := True\<rparr>"

fun crc_loop :: "crc_options \<Rightarrow> u64 \<Rightarrow> u8 list \<Rightarrow> u64" where
  "crc_loop opt crc [] = crc"
| "crc_loop opt crc (d # ds) =
     crc_loop opt
       (if \<not> crc_refin opt
        then push_bit 8 crc XOR
             crc_table opt ! unat ((shr crc (int (crc_width opt) - 8) AND 0xff) XOR ucast d)
        else drop_bit 8 crc XOR crc_table opt ! unat ((crc AND 0xff) XOR ucast d)) ds"

text \<open>The code word, and the options with the table the first call generates.\<close>

definition crc_calculate :: "crc_options \<Rightarrow> u8 list \<Rightarrow> u64 \<times> crc_options" where
  "crc_calculate opt data =
     (let opt = (if \<not> crc_table_generated opt then crc_generate_table opt else opt);
          crc = crc_initial_optimized opt;
          crc = (if crc_refin opt then reflect crc (crc_width opt) else crc);
          crc = crc_loop opt crc data;
          crc = (if crc_refout opt \<noteq> crc_refin opt then reflect crc (crc_width opt) else crc);
          crc = crc XOR crc_final_xor opt
      in (crc AND crc_mask opt, opt))"

text \<open>A generated table changes no result: the code word depends on the options alone.\<close>

lemma crc_bit_upd [simp]: "crc_bit (opt\<lparr>crc_table := t, crc_table_generated := g\<rparr>) = crc_bit opt"
  by (rule ext) (auto simp: crc_bit_def Let_def)

lemma crc_table_entry_upd [simp]:
  "crc_table_entry (opt\<lparr>crc_table := t, crc_table_generated := g\<rparr>) = crc_table_entry opt"
  by (rule ext) (auto simp: crc_table_entry_def Let_def)

lemma crc_generate_idem [simp]:
  "crc_generate_table (crc_generate_table opt) = crc_generate_table opt"
  by (simp add: crc_generate_table_def)

definition crc_value :: "crc_options \<Rightarrow> u8 list \<Rightarrow> u64" where
  "crc_value opt data = fst (crc_calculate opt data)"

lemma crc_calculate_pair: "crc_calculate opt data = (crc_value opt data,
    if crc_table_generated opt then opt else crc_generate_table opt)"
  by (simp add: crc_value_def crc_calculate_def Let_def)

lemma crc_value_generated:
  "\<not> crc_table_generated opt \<Longrightarrow> crc_value (crc_generate_table opt) data = crc_value opt data"
  by (simp add: crc_value_def crc_calculate_def crc_generate_table_def Let_def)

end
