(* ===== verification/Module.thy ===== *)
theory Module
  imports Hashing Crc
begin

section \<open>RaSTA packets on the wire (rastamodule.h, rastamodule.c)\<close>

text \<open>
  The packet of the safety and retransmission layer and the packet of the redundancy layer,
  with their conversions to and from bytes. The global \<open>rastamodule_lasterror\<close> is passed
  and returned; a byte array is the list of its bytes, and the content of freshly allocated
  storage is \<open>indet\<close>. Lengths are computed in 32-bit arithmetic as in the code; \<open>None\<close> is
  an access outside a buffer.
\<close>

datatype rasta_error_type =
  RASTA_ERRORS_NONE | RASTA_ERRORS_WRONG_PACKAGE_FORMAT | RASTA_ERRORS_PACKAGE_LENGTH_INVALID

text \<open>The packet type is the 16-bit number cast to the enumeration.\<close>

definition RASTA_TYPE_CONNREQ :: u16 where "RASTA_TYPE_CONNREQ = 6200"
definition RASTA_TYPE_CONNRESP :: u16 where "RASTA_TYPE_CONNRESP = 6201"
definition RASTA_TYPE_RETRREQ :: u16 where "RASTA_TYPE_RETRREQ = 6212"
definition RASTA_TYPE_RETRRESP :: u16 where "RASTA_TYPE_RETRRESP = 6213"
definition RASTA_TYPE_DISCREQ :: u16 where "RASTA_TYPE_DISCREQ = 6216"
definition RASTA_TYPE_HB :: u16 where "RASTA_TYPE_HB = 6220"
definition RASTA_TYPE_DATA :: u16 where "RASTA_TYPE_DATA = 6240"
definition RASTA_TYPE_RETRDATA :: u16 where "RASTA_TYPE_RETRDATA = 6241"

lemmas rasta_types = RASTA_TYPE_CONNREQ_def RASTA_TYPE_CONNRESP_def RASTA_TYPE_RETRREQ_def
  RASTA_TYPE_RETRRESP_def RASTA_TYPE_DISCREQ_def RASTA_TYPE_HB_def RASTA_TYPE_DATA_def
  RASTA_TYPE_RETRDATA_def

record RastaPacket =
  p_length :: u16
  p_type :: u16
  p_receiver_id :: u32
  p_sender_id :: u32
  p_sequence_number :: u32
  p_confirmed_sequence_number :: u32
  p_timestamp :: u32
  p_confirmed_timestamp :: u32
  p_data :: "u8 list"
  p_checksum :: "u8 list"
  p_checksum_correct :: bool

record RastaRedundancyPacket =
  rp_length :: u16
  rp_reserve :: u16
  rp_sequence_number :: u32
  rp_data :: RastaPacket
  rp_checksum_correct :: bool
  rp_checksum_type :: crc_options

definition getRastamoduleLastError :: "rasta_error_type \<Rightarrow> rasta_error_type \<times> rasta_error_type" where
  "getRastamoduleLastError lasterror = (lasterror, RASTA_ERRORS_NONE)"

definition checksum_len :: "rasta_hashing_context_t \<Rightarrow> nat" where
  "checksum_len ctx = hash_length ctx * 8"

definition getDataLength :: "RastaPacket \<Rightarrow> rasta_hashing_context_t \<Rightarrow> nat" where
  "getDataLength packet ctx =
     unat (ucast (p_length packet) - 28 - word_of_nat (checksum_len ctx) :: u32)"

definition allocateBytes ::
  "indet \<Rightarrow> RastaPacket \<Rightarrow> rasta_hashing_context_t \<Rightarrow> rasta_error_type \<Rightarrow> u8 list \<times> rasta_error_type" where
  "allocateBytes indet packet ctx lasterror =
     (indet (unat (p_length packet)),
      if unat (p_length packet) < 28 + checksum_len ctx then RASTA_ERRORS_PACKAGE_LENGTH_INVALID
      else lasterror)"

definition packet_fields :: "RastaPacket \<Rightarrow> u8 list" where
  "packet_fields p =
     shortToBytes (p_length p) @ shortToBytes (p_type p) @ longToBytes (p_receiver_id p) @
     longToBytes (p_sender_id p) @ longToBytes (p_sequence_number p) @
     longToBytes (p_confirmed_sequence_number p) @ longToBytes (p_timestamp p) @
     longToBytes (p_confirmed_timestamp p)"

definition packFields :: "u8 list \<Rightarrow> RastaPacket \<Rightarrow> u8 list option" where
  "packFields result p = buf_write result 0 (packet_fields p)"

definition rastaModuleToBytes ::
  "indet \<Rightarrow> RastaPacket \<Rightarrow> rasta_hashing_context_t \<Rightarrow> rasta_error_type \<Rightarrow>
   (u8 list \<times> rasta_error_type) option" where
  "rastaModuleToBytes indet packet ctx lasterror =
     (let (result, lasterror) = allocateBytes indet packet ctx lasterror
      in if lasterror \<noteq> RASTA_ERRORS_NONE then Some (result, lasterror)
         else do {
           result \<leftarrow> packFields result packet;
           let len = getDataLength packet ctx in do {
           data \<leftarrow> buf_read (p_data packet) 0 len;
           result \<leftarrow> buf_write result 28 data;
           data_to_hash \<leftarrow> buf_read result 0 (unat (p_length packet) - checksum_len ctx);
           checksum \<leftarrow> rasta_calculate_hash indet data_to_hash ctx (indet 16);
           bytes \<leftarrow> buf_read checksum 0 (checksum_len ctx);
           result \<leftarrow> buf_write result (28 + len) bytes;
           Some (result, lasterror) } })"

definition rastaModuleToBytesNoChecksum ::
  "indet \<Rightarrow> RastaPacket \<Rightarrow> rasta_hashing_context_t \<Rightarrow> rasta_error_type \<Rightarrow>
   (u8 list \<times> rasta_error_type) option" where
  "rastaModuleToBytesNoChecksum indet packet ctx lasterror =
     (let (result, lasterror) = allocateBytes indet packet ctx lasterror
      in if lasterror \<noteq> RASTA_ERRORS_NONE then Some (result, lasterror)
         else do {
           result \<leftarrow> packFields result packet;
           let len = getDataLength packet ctx in do {
           data \<leftarrow> buf_read (p_data packet) 0 len;
           result \<leftarrow> buf_write result 28 data;
           bytes \<leftarrow> buf_read (p_checksum packet) 0 (checksum_len ctx);
           result \<leftarrow> buf_write result (28 + len) bytes;
           Some (result, lasterror) } })"

text \<open>The fields of the packet a byte array starts with; the other fields keep their values.\<close>

definition unpackFields :: "RastaPacket \<Rightarrow> u8 list \<Rightarrow> RastaPacket" where
  "unpackFields result data =
     result\<lparr>p_length := bytesToShort (take 2 data),
            p_type := bytesToShort (take 2 (drop 2 data)),
            p_receiver_id := bytesToLong (take 4 (drop 4 data)),
            p_sender_id := bytesToLong (take 4 (drop 8 data)),
            p_sequence_number := bytesToLong (take 4 (drop 12 data)),
            p_confirmed_sequence_number := bytesToLong (take 4 (drop 16 data)),
            p_timestamp := bytesToLong (take 4 (drop 20 data)),
            p_confirmed_timestamp := bytesToLong (take 4 (drop 24 data))\<rparr>"

text \<open>
  \<open>data_to_hash.length\<close> is \<open>result->length - checksum_len\<close> as an unsigned 32-bit number.
\<close>

definition bytesToRastaPacket ::
  "indet \<Rightarrow> RastaPacket \<Rightarrow> u8 list \<Rightarrow> rasta_hashing_context_t \<Rightarrow> rasta_error_type \<Rightarrow>
   (RastaPacket \<times> rasta_error_type) option" where
  "bytesToRastaPacket indet result data ctx lasterror =
     (if length data < 28 + checksum_len ctx
      then Some (result\<lparr>p_length := 0, p_checksum_correct := False\<rparr>, RASTA_ERRORS_PACKAGE_LENGTH_INVALID)
      else
        let result = unpackFields result data; len = getDataLength result ctx;
            hashed = unat (ucast (p_length result) - word_of_nat (checksum_len ctx) :: u32)
        in do {
          bytes \<leftarrow> buf_read data 28 len;
          data_to_hash \<leftarrow> buf_read data 0 hashed;
          checksum \<leftarrow> rasta_calculate_hash indet data_to_hash ctx (indet 16);
          received \<leftarrow> buf_read data (28 + len) (checksum_len ctx);
          expected \<leftarrow> buf_read checksum 0 (checksum_len ctx);
          Some (result\<lparr>p_data := bytes, p_checksum := received,
                       p_checksum_correct := (expected = received)\<rparr>, lasterror) })"

definition crc_bytes :: "crc_options \<Rightarrow> nat" where
  "crc_bytes opt = crc_width opt div 8"

definition rastaRedundancyPacketToBytes ::
  "indet \<Rightarrow> RastaRedundancyPacket \<Rightarrow> rasta_hashing_context_t \<Rightarrow> rasta_error_type \<Rightarrow>
   (u8 list \<times> rasta_error_type) option" where
  "rastaRedundancyPacketToBytes indet packet ctx lasterror =
     do { result \<leftarrow> buf_write (indet (unat (rp_length packet))) 0
            (shortToBytes (rp_length packet) @ shortToBytes (rp_reserve packet) @
             longToBytes (rp_sequence_number packet));
          (internal_packet_bytes, lasterror) \<leftarrow> rastaModuleToBytes indet (rp_data packet) ctx lasterror;
          let internal_packet_len = unat (p_length (rp_data packet)) in do {
          inner \<leftarrow> buf_read internal_packet_bytes 0 internal_packet_len;
          result \<leftarrow> buf_write result 8 inner;
          let width = crc_bytes (rp_checksum_type packet);
              len_wo_checksum = unat (ucast (rp_length packet) - word_of_nat width :: u32) in do {
          temp_wo_checksum \<leftarrow> buf_read result 0 len_wo_checksum;
          checksum \<leftarrow> Some (fst (crc_calculate (rp_checksum_type packet) temp_wo_checksum));
          bytes \<leftarrow> buf_read (longToBytes (ucast checksum)) 0 width;
          result \<leftarrow> buf_write result (8 + internal_packet_len) bytes;
          Some (result, lasterror) } } }"

text \<open>
  The length of the datagram is the number of bytes received; the code does not check that
  it holds a header and a check code. \<open>packet\<close> is the content of the result before.
\<close>

definition bytesToRastaRedundancyPacket ::
  "indet \<Rightarrow> RastaRedundancyPacket \<Rightarrow> u8 list \<Rightarrow> crc_options \<Rightarrow> rasta_hashing_context_t \<Rightarrow>
   rasta_error_type \<Rightarrow> (RastaRedundancyPacket \<times> crc_options \<times> rasta_error_type) option" where
  "bytesToRastaRedundancyPacket indet packet data checksum_type ctx lasterror =
     do { header \<leftarrow> buf_read data 0 8;
          let packet = packet\<lparr>rp_checksum_type := checksum_type,
                              rp_length := bytesToShort (take 2 header),
                              rp_reserve := bytesToShort (take 2 (drop 2 header)),
                              rp_sequence_number := bytesToLong (drop 4 header)\<rparr>;
              width = crc_bytes checksum_type;
              data_len = unat (word_of_nat (length data) - 8 - word_of_nat width :: u32) in do {
          internal_packet_bytes \<leftarrow> buf_read data 8 data_len;
          (inner, lasterror) \<leftarrow> bytesToRastaPacket indet (rp_data packet) internal_packet_bytes ctx lasterror;
          let data_wo_checksum_len = unat (word_of_nat (length data) - word_of_nat width :: u32) in do {
          data_wo_checksum \<leftarrow> buf_read data 0 data_wo_checksum_len;
          let (calculated_checksum, checksum_type) = crc_calculate checksum_type data_wo_checksum;
              packet = packet\<lparr>rp_data := inner, rp_checksum_correct := True\<rparr>
          in if length data = data_wo_checksum_len then Some (packet, checksum_type, lasterror)
             else do {
               expected \<leftarrow> buf_read (longToBytes (ucast calculated_checksum)) 0 width;
               received \<leftarrow> buf_read data (8 + data_len) width;
               Some (packet\<lparr>rp_checksum_correct := (expected = received)\<rparr>, checksum_type, lasterror) } } } }"

subsection \<open>Packing\<close>

text \<open>A packet as the factory builds it: its length field is the length of its encoding.\<close>

definition wf_packet :: "rasta_hashing_context_t \<Rightarrow> RastaPacket \<Rightarrow> bool" where
  "wf_packet ctx p \<longleftrightarrow> unat (p_length p) = 28 + length (p_data p) + checksum_len ctx"

lemma packet_fields_length [simp]: "length (packet_fields p) = 28"
  by (simp add: packet_fields_def)

definition packet_bytes :: "rasta_hashing_context_t \<Rightarrow> RastaPacket \<Rightarrow> u8 list" where
  "packet_bytes ctx p = packet_fields p @ p_data p @ hash_value ctx (packet_fields p @ p_data p)"

lemma ucast_sub_len:
  assumes "unat (w :: u16) = n + k"
  shows "unat (ucast w - word_of_nat k :: u32) = n"
proof -
  have "n + k < 65536" using assms unat_u16_less [of w] by simp
  moreover have "(ucast w :: u32) = word_of_nat (n + k)"
    unfolding assms [symmetric] by simp
  ultimately show ?thesis by (simp add: unat_of_nat_u32)
qed

lemma sub_len_28: "unat (w :: u16) = 28 + n + k \<Longrightarrow> unat (ucast w - 28 - word_of_nat k :: u32) = n"
  using ucast_sub_len [of w n "28 + k"] by (simp add: algebra_simps)

lemma data_length_wf: "wf_packet ctx p \<Longrightarrow> getDataLength p ctx = length (p_data p)"
  unfolding getDataLength_def wf_packet_def by (rule sub_len_28)

lemma hash_len_bound: "wf_hash ctx \<Longrightarrow> checksum_len ctx \<le> 16"
  by (simp add: wf_hash_def checksum_len_def)

lemma hash_value_checksum_len [simp]: "wf_hash ctx \<Longrightarrow> length (hash_value ctx d) = checksum_len ctx"
  by (simp add: hash_value_length checksum_len_def)

lemma packet_bytes_length: "wf_hash ctx \<Longrightarrow> wf_packet ctx p \<Longrightarrow> length (packet_bytes ctx p) = unat (p_length p)"
  by (simp add: packet_bytes_def wf_packet_def)

lemma buf_write_app: "length zs = length ys \<Longrightarrow> buf_write (xs @ zs @ ws) (length xs) ys = Some (xs @ ys @ ws)"
  by (simp add: buf_write_def)

lemma module_to_bytes:
  assumes w: "wf_hash ctx" "wf_packet ctx p" and i: "indet_ok indet"
  shows "rastaModuleToBytes indet p ctx RASTA_ERRORS_NONE = Some (packet_bytes ctx p, RASTA_ERRORS_NONE)"
proof -
  let ?n = "length (p_data p)" and ?c = "checksum_len ctx"
  let ?f = "packet_fields p" and ?d = "p_data p"
  let ?r = "indet (28 + ?n + ?c)"
  have len: "unat (p_length p) = 28 + ?n + ?c" using w(2) by (simp add: wf_packet_def)
  have rl: "length ?r = 28 + ?n + ?c" "length (indet 16) = 16" using i by (simp_all add: indet_ok_def)
  obtain h where h: "rasta_calculate_hash indet (?f @ ?d) ctx (indet 16) = Some h" "length h = 16"
    "take ?c h = hash_value ctx (?f @ ?d)"
    using calculate_hash_ok [OF w(1) i rl(2), of "?f @ ?d"] by (auto simp: checksum_len_def mult.commute)
  have s1: "packFields ?r p = Some (?f @ drop 28 ?r)"
    using rl by (simp add: packFields_def buf_write_def)
  have s2: "buf_write (?f @ drop 28 ?r) 28 ?d = Some (?f @ ?d @ drop (28 + ?n) ?r)"
    using rl by (simp add: buf_write_def add.commute)
  have s3: "buf_read (?f @ ?d @ drop (28 + ?n) ?r) 0 (28 + ?n) = Some (?f @ ?d)"
    using rl by (simp add: buf_read_def)
  have s4: "buf_write (?f @ ?d @ drop (28 + ?n) ?r) (28 + ?n) (hash_value ctx (?f @ ?d)) =
      Some (packet_bytes ctx p)"
    using rl w(1) by (simp add: buf_write_def packet_bytes_def)
  have s5: "buf_read h 0 ?c = Some (hash_value ctx (?f @ ?d))"
    using h(2,3) hash_len_bound [OF w(1)] by (simp add: buf_read_def)
  have s6: "buf_read ?d 0 ?n = Some ?d" by (simp add: buf_read_def)
  have e: "28 + ?n + ?c - ?c = 28 + ?n" by simp
  show ?thesis
    by (simp add: rastaModuleToBytes_def allocateBytes_def len s1 data_length_wf [OF w(2)] s6 s2 s3 h(1) s5 s4
        del: append_assoc)
qed

text \<open>
  A packet that is too short for its context poisons the module: once
  \<open>rastamodule_lasterror\<close> is set, no later packet is packed, because the only function that
  clears it is never called.
\<close>

lemma module_to_bytes_poisoned:
  assumes "e \<noteq> RASTA_ERRORS_NONE"
  shows "\<exists>e'. e' \<noteq> RASTA_ERRORS_NONE \<and>
    rastaModuleToBytes indet p ctx e = Some (indet (unat (p_length p)), e')"
  using assms by (auto simp: rastaModuleToBytes_def allocateBytes_def)

subsection \<open>Unpacking\<close>

lemma unpack_fields: "unpackFields r (packet_fields p @ xs) =
    r\<lparr>p_length := p_length p, p_type := p_type p, p_receiver_id := p_receiver_id p,
      p_sender_id := p_sender_id p, p_sequence_number := p_sequence_number p,
      p_confirmed_sequence_number := p_confirmed_sequence_number p, p_timestamp := p_timestamp p,
      p_confirmed_timestamp := p_confirmed_timestamp p\<rparr>"
  by (simp add: unpackFields_def packet_fields_def)

text \<open>Unpacking a byte array whose length field is right, whatever else it holds.\<close>

lemma bytes_to_packet:
  assumes w: "wf_hash ctx" and i: "indet_ok indet" and l: "28 + checksum_len ctx \<le> length data"
    and f: "unat (bytesToShort (take 2 data)) = length data"
  shows "bytesToRastaPacket indet r data ctx e =
    Some ((unpackFields r data)
            \<lparr>p_data := take (length data - 28 - checksum_len ctx) (drop 28 data),
             p_checksum := drop (length data - checksum_len ctx) data,
             p_checksum_correct := (hash_value ctx (take (length data - checksum_len ctx) data) =
                drop (length data - checksum_len ctx) data)\<rparr>, e)"
proof -
  let ?c = "checksum_len ctx" and ?L = "length data"
  let ?n = "?L - 28 - ?c"
  have pl: "p_length (unpackFields r data) = bytesToShort (take 2 data)" by (simp add: unpackFields_def)
  have L: "unat (bytesToShort (take 2 data)) = 28 + ?n + ?c" "?L = 28 + ?n + ?c" using f l by simp_all
  have dl: "getDataLength (unpackFields r data) ctx = ?n"
    unfolding getDataLength_def pl by (rule sub_len_28 [OF L(1)])
  have hl: "unat (ucast (bytesToShort (take 2 data)) - word_of_nat ?c :: u32) = ?L - ?c"
    using l f by (intro ucast_sub_len) simp
  have b16: "length (indet 16) = 16" using i by (simp add: indet_ok_def)
  obtain h where h: "rasta_calculate_hash indet (take (?L - ?c) data) ctx (indet 16) = Some h" "length h = 16"
    "take ?c h = hash_value ctx (take (?L - ?c) data)"
    using calculate_hash_ok [OF w i b16, of "take (?L - ?c) data"] by (auto simp: checksum_len_def mult.commute)
  have r1: "buf_read data 28 ?n = Some (take ?n (drop 28 data))" using l by (simp add: buf_read_def)
  have r2: "buf_read data 0 (?L - ?c) = Some (take (?L - ?c) data)" by (simp add: buf_read_def)
  have r3: "buf_read data (28 + ?n) ?c = Some (drop (?L - ?c) data)"
    using l by (simp add: buf_read_def)
  have r4: "buf_read h 0 ?c = Some (hash_value ctx (take (?L - ?c) data))"
    using h(2,3) hash_len_bound [OF w] by (simp add: buf_read_def)
  have nl: "\<not> ?L < 28 + ?c" using l by simp
  show ?thesis
    unfolding bytesToRastaPacket_def Let_def pl dl hl r1 r2 r3
    by (simp add: nl h(1) r4)
qed

text \<open>A short array is reported as an error and marks the module.\<close>

lemma bytes_to_packet_short:
  "length data < 28 + checksum_len ctx \<Longrightarrow>
   bytesToRastaPacket indet r data ctx e =
     Some (r\<lparr>p_length := 0, p_checksum_correct := False\<rparr>, RASTA_ERRORS_PACKAGE_LENGTH_INVALID)"
  by (simp add: bytesToRastaPacket_def)

lemma packet_roundtrip:
  assumes w: "wf_hash ctx" "wf_packet ctx p" and i: "indet_ok indet"
  shows "bytesToRastaPacket indet r (packet_bytes ctx p) ctx e =
    Some (p\<lparr>p_checksum := hash_value ctx (packet_fields p @ p_data p), p_checksum_correct := True\<rparr>, e)"
proof -
  let ?b = "packet_bytes ctx p" and ?c = "checksum_len ctx"
  have l: "length ?b = 28 + length (p_data p) + ?c"
    using packet_bytes_length [OF w] w(2) by (simp add: wf_packet_def)
  have t: "take 2 ?b = shortToBytes (p_length p)"
    by (simp add: packet_bytes_def packet_fields_def)
  have u: "unpackFields r ?b = unpackFields r (packet_fields p @ p_data p @ hash_value ctx (packet_fields p @ p_data p))"
    by (simp add: packet_bytes_def)
  have b: "bytesToRastaPacket indet r ?b ctx e =
    Some ((unpackFields r ?b)
            \<lparr>p_data := take (length ?b - 28 - ?c) (drop 28 ?b), p_checksum := drop (length ?b - ?c) ?b,
             p_checksum_correct := (hash_value ctx (take (length ?b - ?c) ?b) = drop (length ?b - ?c) ?b)\<rparr>, e)"
    using w(2) l t by (intro bytes_to_packet [OF w(1) i]) (simp_all add: wf_packet_def)
  have x1: "take (length ?b - 28 - ?c) (drop 28 ?b) = p_data p" using l by (simp add: packet_bytes_def)
  have x2: "drop (length ?b - ?c) ?b = hash_value ctx (packet_fields p @ p_data p)"
    using l by (simp add: packet_bytes_def)
  have x3: "take (length ?b - ?c) ?b = packet_fields p @ p_data p" using l by (simp add: packet_bytes_def)
  show ?thesis unfolding b x1 x2 x3 u unpack_fields by simp
qed

text \<open>The module as a codec: valid packets, packed and unpacked with zeroed storage.\<close>

interpretation packet_codec: codec "\<lambda>(ctx, p). (ctx, packet_bytes ctx p)"
  "\<lambda>(ctx, bs). map_option (\<lambda>(p, e). (ctx, p))
     (bytesToRastaPacket (\<lambda>n. replicate n 0)
        \<lparr>p_length = 0, p_type = 0, p_receiver_id = 0, p_sender_id = 0, p_sequence_number = 0,
         p_confirmed_sequence_number = 0, p_timestamp = 0, p_confirmed_timestamp = 0,
         p_data = [], p_checksum = [], p_checksum_correct = False\<rparr> bs ctx RASTA_ERRORS_NONE)"
  "\<lambda>(ctx, p). wf_hash ctx \<and> wf_packet ctx p \<and> p_checksum_correct p \<and>
     p_checksum p = hash_value ctx (packet_fields p @ p_data p)"
proof
  fix x :: "rasta_hashing_context_t \<times> RastaPacket"
  assume v: "case x of (ctx, p) \<Rightarrow> wf_hash ctx \<and> wf_packet ctx p \<and> p_checksum_correct p \<and>
     p_checksum p = hash_value ctx (packet_fields p @ p_data p)"
  obtain ctx p where x: "x = (ctx, p)" by (cases x)
  have i: "indet_ok (\<lambda>n. replicate n 0)" by (simp add: indet_ok_def)
  have "p\<lparr>p_checksum := hash_value ctx (packet_fields p @ p_data p), p_checksum_correct := True\<rparr> =
      p\<lparr>p_checksum := p_checksum p, p_checksum_correct := p_checksum_correct p\<rparr>"
    using v x by simp
  then show "(case (case x of (ctx, p) \<Rightarrow> (ctx, packet_bytes ctx p)) of
      (ctx, bs) \<Rightarrow> map_option (\<lambda>(p, e). (ctx, p)) (bytesToRastaPacket (\<lambda>n. replicate n 0)
        \<lparr>p_length = 0, p_type = 0, p_receiver_id = 0, p_sender_id = 0, p_sequence_number = 0,
         p_confirmed_sequence_number = 0, p_timestamp = 0, p_confirmed_timestamp = 0,
         p_data = [], p_checksum = [], p_checksum_correct = False\<rparr> bs ctx RASTA_ERRORS_NONE)) = Some x"
    using v x packet_roundtrip [OF _ _ i, of ctx p] by simp
qed

subsection \<open>Packets of the redundancy layer\<close>

definition wf_red :: "rasta_hashing_context_t \<Rightarrow> RastaRedundancyPacket \<Rightarrow> bool" where
  "wf_red ctx q \<longleftrightarrow> wf_packet ctx (rp_data q) \<and> crc_bytes (rp_checksum_type q) \<le> 4 \<and>
     unat (rp_length q) = 8 + unat (p_length (rp_data q)) + crc_bytes (rp_checksum_type q)"

definition red_header :: "RastaRedundancyPacket \<Rightarrow> u8 list" where
  "red_header q = shortToBytes (rp_length q) @ shortToBytes (rp_reserve q) @ longToBytes (rp_sequence_number q)"

definition red_check :: "crc_options \<Rightarrow> u8 list \<Rightarrow> u8 list" where
  "red_check opt bs = take (crc_bytes opt) (longToBytes (ucast (crc_value opt bs)))"

definition red_bytes :: "rasta_hashing_context_t \<Rightarrow> RastaRedundancyPacket \<Rightarrow> u8 list" where
  "red_bytes ctx q =
     (let bs = red_header q @ packet_bytes ctx (rp_data q)
      in bs @ red_check (rp_checksum_type q) bs)"

lemma red_header_length [simp]: "length (red_header q) = 8"
  by (simp add: red_header_def)

lemma red_check_length: "crc_bytes opt \<le> 4 \<Longrightarrow> length (red_check opt bs) = crc_bytes opt"
  by (simp add: red_check_def)

lemma red_to_bytes:
  assumes w: "wf_hash ctx" "wf_red ctx q" and i: "indet_ok indet"
  shows "rastaRedundancyPacketToBytes indet q ctx RASTA_ERRORS_NONE = Some (red_bytes ctx q, RASTA_ERRORS_NONE)"
proof -
  let ?p = "rp_data q" and ?o = "rp_checksum_type q"
  let ?n = "unat (p_length ?p)" and ?c = "crc_bytes ?o" and ?b = "packet_bytes ctx ?p" and ?h = "red_header q"
  have wp: "wf_packet ctx ?p" and c4: "?c \<le> 4" and len: "unat (rp_length q) = 8 + ?n + ?c"
    using w(2) by (simp_all add: wf_red_def)
  let ?r = "indet (8 + ?n + ?c)"
  have rl: "length ?r = 8 + ?n + ?c" using i by (simp add: indet_ok_def)
  have bl: "length ?b = ?n" by (rule packet_bytes_length [OF w(1) wp])
  have s1: "buf_write ?r 0 ?h = Some (?h @ drop 8 ?r)" using rl by (simp add: buf_write_def)
  have s2: "buf_write (?h @ drop 8 ?r) 8 ?b = Some (?h @ ?b @ drop (8 + ?n) ?r)"
    using rl bl by (simp add: buf_write_def add.commute)
  have s3: "buf_read (?h @ ?b @ drop (8 + ?n) ?r) 0 (8 + ?n) = Some (?h @ ?b)"
    using rl bl by (simp add: buf_read_def)
  have s4: "buf_read (longToBytes (ucast (crc_value ?o (?h @ ?b)))) 0 ?c = Some (red_check ?o (?h @ ?b))"
    using c4 by (simp add: buf_read_def red_check_def)
  have s5: "buf_write (?h @ ?b @ drop (8 + ?n) ?r) (8 + ?n) (red_check ?o (?h @ ?b)) = Some (red_bytes ctx q)"
    using rl bl red_check_length [OF c4] by (simp add: buf_write_def red_bytes_def)
  have s6: "buf_read ?b 0 ?n = Some ?b" using bl by (simp add: buf_read_def)
  have wl: "unat (ucast (rp_length q) - word_of_nat ?c :: u32) = 8 + ?n"
    by (rule ucast_sub_len [OF len])
  show ?thesis
    unfolding rastaRedundancyPacketToBytes_def len red_header_def [symmetric] s1 Let_def
    by (simp add: module_to_bytes [OF w(1) wp i] s6 s2 wl s3 crc_calculate_pair s4 s5 del: append_assoc)
qed

lemma u32_sub: "k \<le> n \<Longrightarrow> n < 4294967296 \<Longrightarrow> unat (word_of_nat n - word_of_nat k :: u32) = n - k"
  using unat_of_nat_u32 [of "n - k"] by (simp flip: of_nat_diff)

text \<open>Unpacking a datagram long enough for its header and check code.\<close>

lemma bytes_to_red:
  assumes w: "wf_hash ctx" and i: "indet_ok indet" and c4: "crc_bytes opt \<le> 4"
    and l: "8 + crc_bytes opt \<le> length data" "length data < 65536"
    and inner: "bytesToRastaPacket indet (rp_data r) (take (length data - 8 - crc_bytes opt) (drop 8 data)) ctx e =
      Some (p, e')"
  shows "\<exists>opt'. bytesToRastaRedundancyPacket indet r data opt ctx e =
    Some (\<lparr>rp_length = bytesToShort (take 2 data), rp_reserve = bytesToShort (take 2 (drop 2 data)),
           rp_sequence_number = bytesToLong (take 4 (drop 4 data)), rp_data = p,
           rp_checksum_correct = (red_check opt (take (length data - crc_bytes opt) data) =
              drop (length data - crc_bytes opt) data),
           rp_checksum_type = opt\<rparr>, opt', e')"
proof -
  let ?c = "crc_bytes opt" and ?L = "length data"
  let ?n = "?L - 8 - ?c"
  have h: "buf_read data 0 8 = Some (take 8 data)" using l by (simp add: buf_read_def)
  have "unat (word_of_nat ?L - word_of_nat (8 + ?c) :: u32) = ?L - (8 + ?c)"
    using l by (intro u32_sub) auto
  then have dl: "unat (word_of_nat ?L - 8 - word_of_nat ?c :: u32) = ?n"
    by (simp add: algebra_simps)
  have cl: "unat (word_of_nat ?L - word_of_nat ?c :: u32) = ?L - ?c"
    using l by (intro u32_sub) auto
  have r1: "buf_read data 8 ?n = Some (take ?n (drop 8 data))" using l by (simp add: buf_read_def)
  have r2: "buf_read data 0 (?L - ?c) = Some (take (?L - ?c) data)" by (simp add: buf_read_def)
  have r3: "buf_read data (8 + ?n) ?c = Some (drop (?L - ?c) data)"
    using l by (simp add: buf_read_def)
  have r4: "buf_read (longToBytes x) 0 ?c = Some (take ?c (longToBytes x))" for x
    using c4 by (simp add: buf_read_def)
  have t: "take 2 (take 8 data) = take 2 data" "drop 4 (take 8 data) = take 4 (drop 4 data)"
    "take 2 (drop 2 (take 8 data)) = take 2 (drop 2 data)"
    by (simp_all add: drop_take)
  have z: "?L = ?L - ?c \<longleftrightarrow> ?c = 0" using l by auto
  show ?thesis
    apply (simp only: bytesToRastaRedundancyPacket_def h Let_def Option.bind.simps prod.case dl r1 inner cl r2
        crc_calculate_pair r3 r4)
    using z inner by (auto simp: t red_check_def intro!: RastaRedundancyPacket.equality)
qed

lemma red_roundtrip:
  assumes w: "wf_hash ctx" "wf_red ctx q" and i: "indet_ok indet"
  shows "\<exists>opt'. bytesToRastaRedundancyPacket indet r (red_bytes ctx q) (rp_checksum_type q) ctx e =
    Some (q\<lparr>rp_data := (rp_data q)\<lparr>p_checksum := hash_value ctx (packet_fields (rp_data q) @ p_data (rp_data q)),
                                    p_checksum_correct := True\<rparr>,
            rp_checksum_correct := True\<rparr>, opt', e)"
proof -
  let ?p = "rp_data q" and ?o = "rp_checksum_type q" and ?d = "red_bytes ctx q"
  let ?b = "packet_bytes ctx ?p" and ?c = "crc_bytes ?o" and ?h = "red_header q"
  have wp: "wf_packet ctx ?p" and c4: "?c \<le> 4" and len: "unat (rp_length q) = 8 + unat (p_length ?p) + ?c"
    using w(2) by (simp_all add: wf_red_def)
  have bl: "length ?b = unat (p_length ?p)" by (rule packet_bytes_length [OF w(1) wp])
  have dl: "length ?d = 8 + length ?b + ?c" using red_check_length [OF c4] by (simp add: red_bytes_def Let_def)
  have t1: "take (length ?d - 8 - ?c) (drop 8 ?d) = ?b" using dl by (simp add: red_bytes_def Let_def)
  have t2: "take (length ?d - ?c) ?d = ?h @ ?b" using dl by (simp add: red_bytes_def Let_def)
  have t3: "drop (length ?d - ?c) ?d = red_check ?o (?h @ ?b)" using dl by (simp add: red_bytes_def Let_def)
  have t4: "take 2 ?d = shortToBytes (rp_length q)" "take 2 (drop 2 ?d) = shortToBytes (rp_reserve q)"
    "take 4 (drop 4 ?d) = longToBytes (rp_sequence_number q)"
    by (simp_all add: red_bytes_def Let_def red_header_def)
  have "length ?d < 65536" using len unat_u16_less [of "rp_length q"] dl bl by simp
  then have lt: "8 + ?c \<le> length ?d" "length ?d < 65536" using dl by simp_all
  have inner: "bytesToRastaPacket indet (rp_data r) (take (length ?d - 8 - ?c) (drop 8 ?d)) ctx e =
    Some (?p\<lparr>p_checksum := hash_value ctx (packet_fields ?p @ p_data ?p), p_checksum_correct := True\<rparr>, e)"
    unfolding t1 by (rule packet_roundtrip [OF w(1) wp i])
  have x: "\<exists>opt'. bytesToRastaRedundancyPacket indet r ?d ?o ctx e =
    Some (\<lparr>rp_length = bytesToShort (take 2 ?d), rp_reserve = bytesToShort (take 2 (drop 2 ?d)),
           rp_sequence_number = bytesToLong (take 4 (drop 4 ?d)),
           rp_data = ?p\<lparr>p_checksum := hash_value ctx (packet_fields ?p @ p_data ?p), p_checksum_correct := True\<rparr>,
           rp_checksum_correct = (red_check ?o (take (length ?d - ?c) ?d) = drop (length ?d - ?c) ?d),
           rp_checksum_type = ?o\<rparr>, opt', e)"
    by (rule bytes_to_red [OF w(1) i c4 lt inner])
  have rec: "\<lparr>rp_length = rp_length q, rp_reserve = rp_reserve q, rp_sequence_number = rp_sequence_number q,
      rp_data = X, rp_checksum_correct = True, rp_checksum_type = ?o\<rparr> =
      q\<lparr>rp_data := X, rp_checksum_correct := True\<rparr>" for X
    by (rule RastaRedundancyPacket.equality) simp_all
  show ?thesis using x unfolding t2 t3 t4 by (simp add: rec)
qed

end
