(* ===== verification/Defer_Queue.thy ===== *)
theory Defer_Queue
  imports Module Fifo "HOL-Library.Multiset"
begin

section \<open>The defer queue (rastadeferqueue.h, rastadeferqueue.c)\<close>

text \<open>
  The queue stores pointers to packets it does not own. The packets live in a store: an
  allocated packet has an address, and the flag of an address says whether the data bytes of
  its packet have been released. Following a null pointer or the address of a released packet
  is undefined (\<open>None\<close>), and so is releasing data twice. The elements array has \<open>max_count\<close>
  entries, zeroed at the start; entries at or after \<open>count\<close> keep what they held. The mutex
  makes every operation one step. \<open>qsort\<close> of the GNU library is a merge sort, hence stable.
\<close>

record packet_store =
  ps_packets :: "addr \<Rightarrow> RastaRedundancyPacket option"
  ps_released :: "addr \<Rightarrow> bool"

record rasta_redundancy_packet_wrapper =
  w_packet :: "addr option"
  w_received_timestamp :: u64

record defer_queue =
  dq_elements :: "rasta_redundancy_packet_wrapper list"
  dq_count :: u32
  dq_max_count :: u32

definition packet_at :: "packet_store \<Rightarrow> addr option \<Rightarrow> RastaRedundancyPacket option" where
  "packet_at st p = (case p of None \<Rightarrow> None | Some a \<Rightarrow> ps_packets st a)"

text \<open>\<open>freeRastaByteArray(&packet->data.data)\<close>\<close>

definition free_packet_data :: "packet_store \<Rightarrow> addr option \<Rightarrow> packet_store option" where
  "free_packet_data st p =
     (case p of
        None \<Rightarrow> None
      | Some a \<Rightarrow>
          (case ps_packets st a of
             None \<Rightarrow> None
           | Some q \<Rightarrow>
               if ps_released st a then None
               else Some (st\<lparr>ps_packets := (ps_packets st)(a \<mapsto> q\<lparr>rp_data := (rp_data q)\<lparr>p_data := []\<rparr>\<rparr>),
                             ps_released := (ps_released st)(a := True)\<rparr>)))"

text \<open>The search loop compares the same number in every round; the result \<open>None\<close> is \<open>-1\<close>.\<close>

function find_loop :: "u32 \<Rightarrow> u64 \<Rightarrow> nat \<Rightarrow> nat \<Rightarrow> nat" where
  "find_loop sequeceNrCMP seq_nr maxCount index =
     (if index < maxCount \<and> ucast sequeceNrCMP \<noteq> seq_nr
      then find_loop sequeceNrCMP seq_nr maxCount (index + 1) else index)"
  by pat_completeness auto
termination by (relation "measure (\<lambda>(c, s, m, i). m - i)") auto

declare find_loop.simps [simp del]

definition find_index :: "packet_store \<Rightarrow> defer_queue \<Rightarrow> u64 \<Rightarrow> nat option option" where
  "find_index st dq seq_nr =
     do { e \<leftarrow> buf_get (dq_elements dq) 0;
          if w_packet e = None then Some None
          else do {
            p \<leftarrow> packet_at st (w_packet e);
            let index = find_loop (rp_sequence_number p) seq_nr (unat (dq_max_count dq)) 0
            in Some (if index = unat (dq_max_count dq) then None else Some index) } }"

definition cmpfkt :: "rasta_redundancy_packet_wrapper \<Rightarrow> rasta_redundancy_packet_wrapper \<Rightarrow> int" where
  "cmpfkt a b = sint (ucast (w_received_timestamp a - w_received_timestamp b) :: u32)"

fun sort_insert ::
  "rasta_redundancy_packet_wrapper \<Rightarrow> rasta_redundancy_packet_wrapper list \<Rightarrow> rasta_redundancy_packet_wrapper list" where
  "sort_insert x [] = [x]"
| "sort_insert x (y # ys) = (if cmpfkt x y \<le> 0 then x # y # ys else y # sort_insert x ys)"

definition sort_queue :: "defer_queue \<Rightarrow> defer_queue" where
  "sort_queue dq =
     (let n = unat (dq_count dq)
      in dq\<lparr>dq_elements := foldr sort_insert (take n (dq_elements dq)) [] @ drop n (dq_elements dq)\<rparr>)"

definition defer_queue_init :: "u32 \<Rightarrow> defer_queue" where
  "defer_queue_init n_max =
     \<lparr>dq_elements = replicate (unat n_max) \<lparr>w_packet = None, w_received_timestamp = 0\<rparr>,
      dq_count = 0, dq_max_count = n_max\<rparr>"

definition deferqueue_isfull :: "defer_queue \<Rightarrow> bool" where
  "deferqueue_isfull dq \<longleftrightarrow> dq_count dq = dq_max_count dq"

definition deferqueue_add :: "defer_queue \<Rightarrow> addr \<Rightarrow> u64 \<Rightarrow> defer_queue option" where
  "deferqueue_add dq packet recv_ts =
     (if dq_count dq = dq_max_count dq then Some dq
      else do {
        es \<leftarrow> buf_set (dq_elements dq) (unat (dq_count dq))
               \<lparr>w_packet = Some packet, w_received_timestamp = recv_ts\<rparr>;
        Some (sort_queue (dq\<lparr>dq_elements := es, dq_count := dq_count dq + 1\<rparr>)) })"

definition deferqueue_remove ::
  "packet_store \<Rightarrow> defer_queue \<Rightarrow> u64 \<Rightarrow> (packet_store \<times> defer_queue) option" where
  "deferqueue_remove st dq seq_nr =
     do { i \<leftarrow> find_index st dq seq_nr;
          case i of
            None \<Rightarrow> Some (st, dq)
          | Some index \<Rightarrow> do {
              e \<leftarrow> buf_get (dq_elements dq) (unat (dq_count dq - 1));
              es \<leftarrow> (if int index \<noteq> sint (dq_count dq - 1) then buf_set (dq_elements dq) index e
                    else Some (dq_elements dq));
              st \<leftarrow> free_packet_data st (w_packet e);
              Some (st, sort_queue (dq\<lparr>dq_elements := es, dq_count := dq_count dq - 1\<rparr>)) } }"

definition deferqueue_contains :: "packet_store \<Rightarrow> defer_queue \<Rightarrow> u64 \<Rightarrow> bool option" where
  "deferqueue_contains st dq seq_nr = do { i \<leftarrow> find_index st dq seq_nr; Some (i \<noteq> None) }"

text \<open>The queue after its array was released: no element can be accessed any more.\<close>

definition deferqueue_destroy :: "defer_queue \<Rightarrow> defer_queue" where
  "deferqueue_destroy dq = \<lparr>dq_elements = [], dq_count = 0, dq_max_count = 0\<rparr>"

fun smallest_loop ::
  "packet_store \<Rightarrow> rasta_redundancy_packet_wrapper list \<Rightarrow> nat \<Rightarrow> u64 \<Rightarrow> nat \<Rightarrow> nat option" where
  "smallest_loop st [] i smallest index = Some index"
| "smallest_loop st (e # es) i smallest index =
     do { p \<leftarrow> packet_at st (w_packet e);
          if ucast (rp_sequence_number p) < smallest
          then smallest_loop st es (i + 1) (ucast (rp_sequence_number p)) i
          else smallest_loop st es (i + 1) smallest index }"

definition deferqueue_smallest_seqnr :: "packet_store \<Rightarrow> defer_queue \<Rightarrow> nat option" where
  "deferqueue_smallest_seqnr st dq = smallest_loop st (dq_elements dq) 0 0xFFFFFFFF 0"

text \<open>The packet copied out; an unknown number gives the zeroed structure \<open>zero\<close>.\<close>

definition deferqueue_get ::
  "packet_store \<Rightarrow> RastaRedundancyPacket \<Rightarrow> defer_queue \<Rightarrow> u64 \<Rightarrow> RastaRedundancyPacket option" where
  "deferqueue_get st zero dq seq_nr =
     do { i \<leftarrow> find_index st dq seq_nr;
          case i of
            None \<Rightarrow> Some zero
          | Some index \<Rightarrow> do { e \<leftarrow> buf_get (dq_elements dq) index; packet_at st (w_packet e) } }"

definition deferqueue_get_ts :: "packet_store \<Rightarrow> defer_queue \<Rightarrow> u64 \<Rightarrow> u64 option" where
  "deferqueue_get_ts st dq seq_nr =
     do { i \<leftarrow> find_index st dq seq_nr;
          case i of
            None \<Rightarrow> Some 0
          | Some index \<Rightarrow> do { e \<leftarrow> buf_get (dq_elements dq) index; Some (w_received_timestamp e) } }"

definition deferqueue_clear :: "defer_queue \<Rightarrow> defer_queue" where
  "deferqueue_clear dq = dq\<lparr>dq_count := 0\<rparr>"

subsection \<open>Invariant and order\<close>

definition dq_inv :: "defer_queue \<Rightarrow> bool" where
  "dq_inv q \<longleftrightarrow> length (dq_elements q) = unat (dq_max_count q) \<and> dq_count q \<le> dq_max_count q"

text \<open>The elements in use; times are close when no two are \<open>2\<^sup>3\<^sup>1\<close> milliseconds apart.\<close>

definition dq_live :: "defer_queue \<Rightarrow> rasta_redundancy_packet_wrapper list" where
  "dq_live q = take (unat (dq_count q)) (dq_elements q)"

definition times_close :: "rasta_redundancy_packet_wrapper set \<Rightarrow> bool" where
  "times_close A \<longleftrightarrow> (\<forall>x \<in> A. \<forall>y \<in> A.
     \<bar>uint (w_received_timestamp x) - uint (w_received_timestamp y)\<bar> < 2 ^ 31)"

lemma find_loop_spec:
  "find_loop c s m i = (if ucast c = s then i else max m i)"
proof (induction c s m i rule: find_loop.induct)
  case (1 c s m i)
  then show ?case by (subst find_loop.simps) auto
qed

text \<open>The search looks at the first entry only, used or stale.\<close>

lemma find_index_spec:
  assumes "dq_inv q"
  shows "find_index st q s =
    (if dq_max_count q = 0 then None
     else case w_packet (dq_elements q ! 0) of
       None \<Rightarrow> Some None
     | Some a \<Rightarrow> map_option (\<lambda>p. if ucast (rp_sequence_number p) = s then Some 0 else None) (ps_packets st a))"
proof (cases "dq_max_count q = 0")
  case True
  then show ?thesis using assms by (simp add: find_index_def dq_inv_def buf_get_def)
next
  case False
  then have "0 < unat (dq_max_count q)" by (simp add: unat_gt_0)
  then show ?thesis
    using False assms
    by (cases "w_packet (dq_elements q ! 0)"; cases "ps_packets st (the (w_packet (dq_elements q ! 0)))")
       (auto simp: find_index_def dq_inv_def buf_get_def packet_at_def find_loop_spec Let_def)
qed

lemma defer_init_inv [simp]: "dq_inv (defer_queue_init n)"
  by (simp add: dq_inv_def defer_queue_init_def)

lemma insert_length: "length (sort_insert x ys) = Suc (length ys)"
  by (induction ys) auto

lemma insert_mset: "mset (sort_insert x ys) = add_mset x (mset ys)"
  by (induction ys) auto

lemma sort_mset: "mset (foldr sort_insert xs []) = mset xs"
  by (induction xs) (auto simp: insert_mset)

lemma sort_length [simp]: "length (foldr sort_insert xs []) = length xs"
  by (metis sort_mset size_mset)

lemma sort_set: "set (foldr sort_insert xs []) = set xs"
  by (metis sort_mset set_mset_mset)

text \<open>The comparison is exact on close times, so the sort is one.\<close>

lemma word32_diff:
  assumes "\<bar>uint x - uint y\<bar> < 2 ^ 31"
  shows "sint (ucast (x - y :: u64) :: u32) = uint x - uint y"
proof -
  have "word_of_int (take_bit LENGTH(64) k) = (word_of_int k :: u32)" for k
    by (simp add: word_of_int_eq_iff)
  then have e: "(ucast (x - y) :: u32) = word_of_int (uint x - uint y)"
    unfolding ucast_eq uint_word_arith_bintrs(2) by blast
  have "sint (word_of_int k :: u32) = k" if "\<bar>k\<bar> < 2 ^ 31" for k
    using that by (simp add: sint_sbintrunc' signed_take_bit_int_eq_self abs_less_iff)
  then show ?thesis unfolding e using assms by blast
qed

lemma cmpfkt_close:
  "times_close A \<Longrightarrow> x \<in> A \<Longrightarrow> y \<in> A \<Longrightarrow>
   cmpfkt x y \<le> 0 \<longleftrightarrow> w_received_timestamp x \<le> w_received_timestamp y"
  by (simp add: cmpfkt_def times_close_def word32_diff word_le_def)

lemma insert_sorted:
  "times_close A \<Longrightarrow> x \<in> A \<Longrightarrow> set ys \<subseteq> A \<Longrightarrow> sorted (map w_received_timestamp ys) \<Longrightarrow>
   sorted (map w_received_timestamp (sort_insert x ys))"
proof (induction ys)
  case (Cons y ys)
  have "set (sort_insert x ys) = insert x (set ys)"
    by (metis insert_mset set_mset_add_mset_insert set_mset_mset)
  then show ?case using Cons by (auto simp: cmpfkt_close)
qed simp

lemma sort_sorted:
  "times_close (set xs) \<Longrightarrow> sorted (map w_received_timestamp (foldr sort_insert xs []))"
proof (induction xs)
  case (Cons x xs)
  have "times_close (set xs)" using Cons.prems by (simp add: times_close_def)
  then show ?case
    using Cons by (auto simp: sort_set intro!: insert_sorted [OF Cons.prems])
qed simp

lemma sort_queue_inv [simp]: "dq_inv q \<Longrightarrow> dq_inv (sort_queue q)"
  by (auto simp: dq_inv_def sort_queue_def Let_def)

lemma sort_queue_live:
  "dq_inv q \<Longrightarrow> dq_live (sort_queue q) = foldr sort_insert (dq_live q) []"
  by (simp add: dq_live_def sort_queue_def Let_def dq_inv_def word_le_nat_alt)

lemma sort_queue_fields [simp]:
  "dq_count (sort_queue q) = dq_count q" "dq_max_count (sort_queue q) = dq_max_count q"
  by (simp_all add: sort_queue_def Let_def)

lemma add_full: "dq_count q = dq_max_count q \<Longrightarrow> deferqueue_add q a t = Some q"
  by (simp add: deferqueue_add_def)

lemma add_room:
  assumes i: "dq_inv q" and room: "dq_count q \<noteq> dq_max_count q"
  shows "\<exists>q'. deferqueue_add q a t = Some q' \<and> dq_inv q' \<and> dq_max_count q' = dq_max_count q \<and>
    unat (dq_count q') = unat (dq_count q) + 1 \<and>
    mset (dq_live q') = add_mset \<lparr>w_packet = Some a, w_received_timestamp = t\<rparr> (mset (dq_live q)) \<and>
    (times_close (set (dq_live q')) \<longrightarrow> sorted (map w_received_timestamp (dq_live q')))"
proof -
  let ?e = "\<lparr>w_packet = Some a, w_received_timestamp = t\<rparr>" and ?n = "unat (dq_count q)"
  let ?q = "q\<lparr>dq_elements := (dq_elements q)[?n := ?e], dq_count := dq_count q + 1\<rparr>"
  have n: "?n < unat (dq_max_count q)"
    using i room by (auto simp: dq_inv_def word_le_nat_alt order_le_less dest: unsigned_word_eqI)
  have l: "?n < length (dq_elements q)" using n i by (simp add: dq_inv_def)
  have c: "unat (dq_count q + 1) = ?n + 1" by (rule unat_suc [OF n])
  have iq: "dq_inv ?q" using i n c by (simp add: dq_inv_def word_le_nat_alt)
  have lv: "dq_live ?q = dq_live q @ [?e]"
    using l c by (simp add: dq_live_def take_Suc_conv_app_nth)
  have a: "deferqueue_add q a t = Some (sort_queue ?q)"
    using room l by (simp add: deferqueue_add_def buf_set_def)
  have m: "mset (dq_live (sort_queue ?q)) = add_mset ?e (mset (dq_live q))"
    by (simp only: sort_queue_live [OF iq] sort_mset lv) simp
  have s: "times_close (set (dq_live (sort_queue ?q))) \<Longrightarrow>
      sorted (map w_received_timestamp (dq_live (sort_queue ?q)))"
    unfolding sort_queue_live [OF iq] sort_set by (rule sort_sorted)
  show ?thesis using a iq m s c by simp
qed

end
