(* ===== verification/Config_Types.thy ===== *)
theory Config_Types
  imports Ip_Data Hashing Crc
begin

section \<open>Configuration records (config.h)\<close>

text \<open>
  The values the RaSTA layers read. \<open>count\<close> of the connections is the length of the list;
  the checksum type is the number of the enumeration \<open>rasta_checksum_type\<close>.
\<close>

record RastaConfigInfoSending =
  cfg_t_max :: u32
  cfg_t_h :: u32
  cfg_md4_type :: nat
  cfg_md4_a :: u32
  cfg_md4_b :: u32
  cfg_md4_c :: u32
  cfg_md4_d :: u32
  cfg_mwa :: u16
  cfg_send_max :: u16
  cfg_max_packet :: u32
  cfg_diag_window :: u32
  cfg_sr_hash_key :: u32
  cfg_sr_hash_algorithm :: rasta_hash_algorithm

record RastaConfigInfoRedundancy =
  cfg_connections :: "RastaIPData list"
  cfg_crc_type :: crc_options
  cfg_t_seq :: u32
  cfg_n_diagnose :: int
  cfg_n_deferqueue_size :: u32

record RastaConfigInfoGeneral =
  cfg_rasta_network :: u64
  cfg_rasta_id :: u64

record RastaConfigInfo =
  cfg_sending :: RastaConfigInfoSending
  cfg_redundancy :: RastaConfigInfoRedundancy
  cfg_general :: RastaConfigInfoGeneral

text \<open>
  The hashing context every layer sets up from the sending values: the MD4 vector, or the
  four bytes of the numeric key in big-endian order.
\<close>

definition init_hashing_context :: "RastaConfigInfoSending \<Rightarrow> rasta_hashing_context_t" where
  "init_hashing_context sending =
     (let ctx = \<lparr>algorithm = cfg_sr_hash_algorithm sending, hash_length = cfg_md4_type sending, hash_key = []\<rparr>
      in if algorithm ctx = RASTA_ALGO_MD4
         then rasta_md4_set_key ctx (cfg_md4_a sending) (cfg_md4_b sending) (cfg_md4_c sending) (cfg_md4_d sending)
         else ctx\<lparr>hash_key :=
                [ucast (drop_bit 24 (cfg_sr_hash_key sending) AND 0xFF),
                 ucast (drop_bit 16 (cfg_sr_hash_key sending) AND 0xFF),
                 ucast (drop_bit 8 (cfg_sr_hash_key sending) AND 0xFF),
                 ucast (cfg_sr_hash_key sending AND 0xFF)]\<rparr>)"

lemma init_hashing_fields [simp]:
  "algorithm (init_hashing_context c) = cfg_sr_hash_algorithm c"
  "hash_length (init_hashing_context c) = cfg_md4_type c"
  "length (hash_key (init_hashing_context c)) = (if cfg_sr_hash_algorithm c = RASTA_ALGO_MD4 then 16 else 4)"
  by (simp_all add: init_hashing_context_def Let_def rasta_md4_set_key_def)

lemma init_hashing_wf:
  assumes "cfg_md4_type c \<le> 2"
    and "cfg_sr_hash_algorithm c = RASTA_ALGO_SIPHASH_2_4 \<Longrightarrow> cfg_md4_type c = 0"
  shows "wf_hash (init_hashing_context c)"
  using assms by (cases "cfg_sr_hash_algorithm c") (auto simp: wf_hash_def)

text \<open>The four key bytes are fewer than SipHash reads: hashing leaves the buffer.\<close>

lemma siphash_short_key:
  assumes "algorithm ctx = RASTA_ALGO_SIPHASH_2_4" and "length (hash_key ctx) < 8"
    and "hash_length ctx = 1 \<or> hash_length ctx = 2"
  shows "rasta_calculate_hash indet data ctx buf = None"
  using assms by (auto simp: rasta_calculate_hash_def generateSiphash24_def siphash_def halfsiphash_def)

end
