(* ===== verification/Factory.thy ===== *)
theory Factory
  imports Module
begin

section \<open>Construction of packets (rastafactory.h, rastafactory.c)\<close>

text \<open>
  One function per packet constructor and per extractor of payloads. A checksum array is
  allocated with indeterminate content and filled when the packet is packed. Lengths are
  16-bit where the code passes them as \<open>uint16_t\<close>. An extractor returns its result with the
  error the global \<open>rastafactoryLastError\<close> is set to.
\<close>

record RastaConnectionData =
  cd_send_max :: u16
  cd_version :: "u8 list"

record RastaDisconnectionData =
  dd_details :: u16
  dd_reason :: u16

type_synonym RastaMessageData = "u8 list list"

definition getRastafactoryLastError :: "rasta_error_type \<Rightarrow> rasta_error_type \<times> rasta_error_type" where
  "getRastafactoryLastError e = (e, RASTA_ERRORS_NONE)"

definition initializePacket ::
  "indet \<Rightarrow> u16 \<Rightarrow> u32 \<Rightarrow> u32 \<Rightarrow> u32 \<Rightarrow> u32 \<Rightarrow> u32 \<Rightarrow> u32 \<Rightarrow> u16 \<Rightarrow> rasta_hashing_context_t \<Rightarrow> RastaPacket" where
  "initializePacket indet typ receiver_id sender_id sequence_number confirmed_sequence_number
     timestamp confirmed_timestamp data_length ctx =
     \<lparr>p_length = word_of_nat (28 + 8 * hash_length ctx + unat data_length), p_type = typ,
      p_receiver_id = receiver_id, p_sender_id = sender_id, p_sequence_number = sequence_number,
      p_confirmed_sequence_number = confirmed_sequence_number, p_timestamp = timestamp,
      p_confirmed_timestamp = confirmed_timestamp,
      p_data = (if unat data_length > 0 then indet (unat data_length) else []),
      p_checksum = (if hash_length ctx > 0 then indet (hash_length ctx * 8) else []),
      p_checksum_correct = False\<rparr>"

text \<open>The payload of 14 bytes of the connection packets.\<close>

definition connection_payload :: "RastaPacket \<Rightarrow> u8 list \<Rightarrow> u16 \<Rightarrow> RastaPacket option" where
  "connection_payload p version send_max =
     do { v \<leftarrow> buf_read version 0 4;
          d \<leftarrow> buf_write (p_data p) 0 (v @ shortToBytes send_max @ replicate 8 0);
          Some (p\<lparr>p_data := d\<rparr>) }"

definition createConnectionRequest ::
  "indet \<Rightarrow> u32 \<Rightarrow> u32 \<Rightarrow> u32 \<Rightarrow> u32 \<Rightarrow> u16 \<Rightarrow> u8 list \<Rightarrow> rasta_hashing_context_t \<Rightarrow> RastaPacket option" where
  "createConnectionRequest indet receiver_id sender_id initial_sequence_number timestamp send_max version ctx =
     connection_payload
       (initializePacket indet RASTA_TYPE_CONNREQ receiver_id sender_id initial_sequence_number 0 timestamp 0 14 ctx)
       version send_max"

definition createConnectionResponse ::
  "indet \<Rightarrow> u32 \<Rightarrow> u32 \<Rightarrow> u32 \<Rightarrow> u32 \<Rightarrow> u32 \<Rightarrow> u32 \<Rightarrow> u16 \<Rightarrow> u8 list \<Rightarrow> rasta_hashing_context_t \<Rightarrow> RastaPacket option" where
  "createConnectionResponse indet receiver_id sender_id initial_sequence_number confirmed_sequence_number
     timestamp confirmed_timestamp send_max version ctx =
     connection_payload
       (initializePacket indet RASTA_TYPE_CONNRESP receiver_id sender_id initial_sequence_number
          confirmed_sequence_number timestamp confirmed_timestamp 14 ctx)
       version send_max"

definition extractRastaConnectionData ::
  "RastaPacket \<Rightarrow> rasta_error_type \<Rightarrow> RastaConnectionData \<times> rasta_error_type" where
  "extractRastaConnectionData p e =
     (if length (p_data p) = 14
      then (\<lparr>cd_send_max = bytesToShort (take 2 (drop 4 (p_data p))), cd_version = take 4 (p_data p)\<rparr>, e)
      else (\<lparr>cd_send_max = 0, cd_version = replicate 4 0\<rparr>, RASTA_ERRORS_WRONG_PACKAGE_FORMAT))"

definition createRetransmissionRequest ::
  "indet \<Rightarrow> u32 \<Rightarrow> u32 \<Rightarrow> u32 \<Rightarrow> u32 \<Rightarrow> u32 \<Rightarrow> u32 \<Rightarrow> rasta_hashing_context_t \<Rightarrow> RastaPacket" where
  "createRetransmissionRequest indet receiver_id sender_id sn csn ts cts ctx =
     initializePacket indet RASTA_TYPE_RETRREQ receiver_id sender_id sn csn ts cts 0 ctx"

definition createRetransmissionResponse ::
  "indet \<Rightarrow> u32 \<Rightarrow> u32 \<Rightarrow> u32 \<Rightarrow> u32 \<Rightarrow> u32 \<Rightarrow> u32 \<Rightarrow> rasta_hashing_context_t \<Rightarrow> RastaPacket" where
  "createRetransmissionResponse indet receiver_id sender_id sn csn ts cts ctx =
     initializePacket indet RASTA_TYPE_RETRRESP receiver_id sender_id sn csn ts cts 0 ctx"

definition createDisconnectionRequest ::
  "indet \<Rightarrow> u32 \<Rightarrow> u32 \<Rightarrow> u32 \<Rightarrow> u32 \<Rightarrow> u32 \<Rightarrow> u32 \<Rightarrow> RastaDisconnectionData \<Rightarrow> rasta_hashing_context_t \<Rightarrow>
   RastaPacket option" where
  "createDisconnectionRequest indet receiver_id sender_id sn csn ts cts data ctx =
     (let p = initializePacket indet RASTA_TYPE_DISCREQ receiver_id sender_id sn csn ts cts 4 ctx
      in do { d \<leftarrow> buf_write (p_data p) 0 (shortToBytes (dd_details data) @ shortToBytes (dd_reason data));
              Some (p\<lparr>p_data := d\<rparr>) })"

definition extractRastaDisconnectionData ::
  "RastaPacket \<Rightarrow> rasta_error_type \<Rightarrow> RastaDisconnectionData \<times> rasta_error_type" where
  "extractRastaDisconnectionData p e =
     (if length (p_data p) = 4
      then (\<lparr>dd_details = bytesToShort (take 2 (p_data p)), dd_reason = bytesToShort (take 2 (drop 2 (p_data p)))\<rparr>, e)
      else (\<lparr>dd_details = 0, dd_reason = 0\<rparr>, RASTA_ERRORS_WRONG_PACKAGE_FORMAT))"

definition createHeartbeat ::
  "indet \<Rightarrow> u32 \<Rightarrow> u32 \<Rightarrow> u32 \<Rightarrow> u32 \<Rightarrow> u32 \<Rightarrow> u32 \<Rightarrow> rasta_hashing_context_t \<Rightarrow> RastaPacket" where
  "createHeartbeat indet receiver_id sender_id sn csn ts cts ctx =
     initializePacket indet RASTA_TYPE_HB receiver_id sender_id sn csn ts cts 0 ctx"

text \<open>The loop that fills the data array: a length of two bytes, then the message.\<close>

fun fill_messages :: "u8 list \<Rightarrow> nat \<Rightarrow> RastaMessageData \<Rightarrow> u8 list option" where
  "fill_messages buf pos [] = Some buf"
| "fill_messages buf pos (m # ms) =
     do { buf \<leftarrow> buf_write buf pos (shortToBytes (word_of_nat (length m)));
          buf \<leftarrow> buf_write buf (2 + pos) m;
          fill_messages buf (pos + (length m + 2)) ms }"

definition createDataMessage ::
  "indet \<Rightarrow> u32 \<Rightarrow> u32 \<Rightarrow> u32 \<Rightarrow> u32 \<Rightarrow> u32 \<Rightarrow> u32 \<Rightarrow> RastaMessageData \<Rightarrow> rasta_hashing_context_t \<Rightarrow>
   RastaPacket option" where
  "createDataMessage indet receiver_id sender_id sn csn ts cts data ctx =
     (let message_length = sum_list (map length data) + 2 * length data;
          p = initializePacket indet RASTA_TYPE_DATA receiver_id sender_id sn csn ts cts
                (word_of_nat message_length) ctx
      in do { d \<leftarrow> fill_messages (p_data p) 0 data; Some (p\<lparr>p_data := d\<rparr>) })"

definition createRetransmittedDataMessage ::
  "indet \<Rightarrow> u32 \<Rightarrow> u32 \<Rightarrow> u32 \<Rightarrow> u32 \<Rightarrow> u32 \<Rightarrow> u32 \<Rightarrow> RastaMessageData \<Rightarrow> rasta_hashing_context_t \<Rightarrow>
   RastaPacket option" where
  "createRetransmittedDataMessage indet receiver_id sender_id sn csn ts cts data ctx =
     do { p \<leftarrow> createDataMessage indet receiver_id sender_id sn csn ts cts data ctx;
          Some (p\<lparr>p_type := RASTA_TYPE_RETRDATA\<rparr>) }"

text \<open>
  The two passes of \<open>extractMessageData\<close> walk the data the same way: the first counts the
  messages, the second copies them. Both read past the end when a length is too long.
\<close>

function count_messages :: "u8 list \<Rightarrow> nat \<Rightarrow> nat option" where
  "count_messages d pos =
     (if pos < length d
      then do { h \<leftarrow> buf_read d pos 2;
                n \<leftarrow> count_messages d (pos + (unat (bytesToShort h) + 2));
                Some (n + 1) }
      else Some 0)"
  by pat_completeness auto
termination by (relation "measure (\<lambda>(d, pos). length d - pos)") auto

declare count_messages.simps [simp del]

fun copy_messages :: "u8 list \<Rightarrow> nat \<Rightarrow> nat \<Rightarrow> RastaMessageData option" where
  "copy_messages d pos 0 = Some []"
| "copy_messages d pos (Suc n) =
     do { h \<leftarrow> buf_read d pos 2;
          m \<leftarrow> buf_read d (2 + pos) (unat (bytesToShort h));
          ms \<leftarrow> copy_messages d (pos + (unat (bytesToShort h) + 2)) n;
          Some (m # ms) }"

definition extractMessageData :: "RastaPacket \<Rightarrow> RastaMessageData option" where
  "extractMessageData p =
     do { n \<leftarrow> count_messages (p_data p) 0; copy_messages (p_data p) 0 n }"

definition createRedundancyPacket :: "u32 \<Rightarrow> RastaPacket \<Rightarrow> crc_options \<Rightarrow> RastaRedundancyPacket" where
  "createRedundancyPacket sequence_number inner_data checksum_type =
     \<lparr>rp_length = word_of_nat (8 + unat (p_length inner_data) + crc_bytes checksum_type), rp_reserve = 0x0000,
      rp_sequence_number = sequence_number, rp_data = inner_data, rp_checksum_correct = True,
      rp_checksum_type = checksum_type\<rparr>"

subsection \<open>Every constructor builds a well-formed packet\<close>

lemma initialize_wf:
  assumes "wf_hash ctx" and "indet_ok indet" and "28 + checksum_len ctx + unat n < 65536"
  shows "wf_packet ctx (initializePacket indet t r s sn csn ts cts n ctx)"
proof -
  have "unat (word_of_nat (28 + 8 * hash_length ctx + unat n) :: u16) = 28 + 8 * hash_length ctx + unat n"
    using assms(3) by (intro unat_of_nat_u16) (simp add: checksum_len_def)
  with assms show ?thesis
    by (simp add: wf_packet_def initializePacket_def indet_ok_def checksum_len_def del: of_nat_add of_nat_mult)
qed

lemma initialize_fields [simp]:
  "p_type (initializePacket indet t r s sn csn ts cts n ctx) = t"
  "p_receiver_id (initializePacket indet t r s sn csn ts cts n ctx) = r"
  "p_sender_id (initializePacket indet t r s sn csn ts cts n ctx) = s"
  "p_sequence_number (initializePacket indet t r s sn csn ts cts n ctx) = sn"
  "p_confirmed_sequence_number (initializePacket indet t r s sn csn ts cts n ctx) = csn"
  "p_timestamp (initializePacket indet t r s sn csn ts cts n ctx) = ts"
  "p_confirmed_timestamp (initializePacket indet t r s sn csn ts cts n ctx) = cts"
  "indet_ok indet \<Longrightarrow> length (p_data (initializePacket indet t r s sn csn ts cts n ctx)) = unat n"
  by (simp_all add: initializePacket_def indet_ok_def)

lemma wf_packet_data: "wf_packet ctx p \<Longrightarrow> length d = length (p_data p) \<Longrightarrow> wf_packet ctx (p\<lparr>p_data := d\<rparr>)"
  by (simp add: wf_packet_def)

lemma wf_packet_type [simp]: "wf_packet ctx (p\<lparr>p_type := t\<rparr>) = wf_packet ctx p"
  by (simp add: wf_packet_def)

text \<open>The bytes of a list of application messages.\<close>

definition message_bytes :: "RastaMessageData \<Rightarrow> u8 list" where
  "message_bytes ms = concat (map (\<lambda>m. shortToBytes (word_of_nat (length m)) @ m) ms)"

lemma message_bytes_simps [simp]:
  "message_bytes [] = []"
  "message_bytes (m # ms) = shortToBytes (word_of_nat (length m)) @ m @ message_bytes ms"
  by (simp_all add: message_bytes_def)

lemma message_bytes_length: "length (message_bytes ms) = sum_list (map length ms) + 2 * length ms"
  by (induction ms) auto

lemma fill_messages_ok:
  "length buf = length pre + length (message_bytes ms) \<Longrightarrow> take (length pre) buf = pre \<Longrightarrow>
   fill_messages buf (length pre) ms = Some (pre @ message_bytes ms)"
proof (induction ms arbitrary: buf pre)
  case (Cons m ms)
  let ?h = "shortToBytes (word_of_nat (length m))"
  have b1: "buf_write buf (length pre) ?h = Some (pre @ ?h @ drop (length pre + 2) buf)"
    using Cons.prems by (simp add: buf_write_def)
  let ?b1 = "pre @ ?h @ drop (length pre + 2) buf"
  have b2: "buf_write ?b1 (2 + length pre) m =
      Some (pre @ ?h @ m @ drop (length pre + 2 + length m) buf)"
    using Cons.prems by (simp add: buf_write_def add.commute)
  have "fill_messages (pre @ ?h @ m @ drop (length pre + 2 + length m) buf) (length (pre @ ?h @ m)) ms =
      Some ((pre @ ?h @ m) @ message_bytes ms)"
    using Cons.prems by (intro Cons.IH) auto
  moreover have "length (pre @ ?h @ m) = length pre + (length m + 2)" by simp
  ultimately show ?case
    unfolding fill_messages.simps b1 b2 option.simps Option.bind.simps by simp
qed simp

lemma buf_read_mid: "length pre = i \<Longrightarrow> length xs = n \<Longrightarrow> buf_read (pre @ xs @ ys) i n = Some xs"
  by (simp add: buf_read_def)

lemma count_fill:
  "\<forall>m \<in> set ms. length m < 65536 \<Longrightarrow>
   count_messages (pre @ message_bytes ms) (length pre) = Some (length ms)"
proof (induction ms arbitrary: pre)
  case Nil
  show ?case by (simp add: count_messages.simps)
next
  case (Cons m ms)
  let ?h = "shortToBytes (word_of_nat (length m))"
  let ?d = "pre @ ?h @ m @ message_bytes ms"
  have m: "unat (bytesToShort ?h) = length m" using Cons.prems by (simp add: unat_of_nat_u16)
  have h: "buf_read ?d (length pre) 2 = Some ?h" by (rule buf_read_mid) simp_all
  have "count_messages ?d (length pre + (length m + 2)) = Some (length ms)"
    using Cons.IH [of "pre @ ?h @ m"] Cons.prems by simp
  then show ?case using m by (subst count_messages.simps) (simp add: h)
qed

lemma copy_fill:
  "\<forall>m \<in> set ms. length m < 65536 \<Longrightarrow>
   copy_messages (pre @ message_bytes ms) (length pre) (length ms) = Some ms"
proof (induction ms arbitrary: pre)
  case (Cons m ms)
  let ?h = "shortToBytes (word_of_nat (length m))"
  let ?d = "pre @ ?h @ m @ message_bytes ms"
  have m: "unat (bytesToShort ?h) = length m" using Cons.prems by (simp add: unat_of_nat_u16)
  have h: "buf_read ?d (length pre) 2 = Some ?h" by (rule buf_read_mid) simp_all
  have r: "buf_read ?d (2 + length pre) (length m) = Some m"
    using buf_read_mid [of "pre @ ?h" "2 + length pre" m] by simp
  have "copy_messages ?d (length pre + (length m + 2)) (length ms) = Some ms"
    using Cons.IH [of "pre @ ?h @ m"] Cons.prems by simp
  then show ?case using h m r by simp
qed simp

lemma create_data_ok:
  assumes w: "wf_hash ctx" and i: "indet_ok indet"
    and l: "28 + checksum_len ctx + length (message_bytes ms) < 65536"
  shows "\<exists>p. createDataMessage indet r s sn csn ts cts ms ctx = Some p \<and> wf_packet ctx p \<and>
    p_data p = message_bytes ms \<and> p_type p = RASTA_TYPE_DATA \<and> p_receiver_id p = r \<and> p_sender_id p = s \<and>
    p_sequence_number p = sn \<and> p_confirmed_sequence_number p = csn \<and> p_timestamp p = ts \<and>
    p_confirmed_timestamp p = cts"
proof -
  let ?n = "word_of_nat (length (message_bytes ms)) :: u16"
  let ?p = "initializePacket indet RASTA_TYPE_DATA r s sn csn ts cts ?n ctx"
  have n: "unat ?n = length (message_bytes ms)" using l by (simp add: unat_of_nat_u16)
  have wp: "wf_packet ctx ?p" using l n by (intro initialize_wf [OF w i]) simp
  have pl: "length (p_data ?p) = length (message_bytes ms)" using i n by simp
  have f: "fill_messages (p_data ?p) 0 ms = Some (message_bytes ms)"
    using fill_messages_ok [of "p_data ?p" "[]" ms] pl by simp
  have wd: "wf_packet ctx (?p\<lparr>p_data := message_bytes ms\<rparr>)"
    using pl by (intro wf_packet_data [OF wp]) simp
  show ?thesis
    using wd f by (simp add: createDataMessage_def Let_def message_bytes_length [symmetric])
qed

lemma data_message_roundtrip:
  assumes "\<forall>m \<in> set ms. length m < 65536" and "p_data p = message_bytes ms"
  shows "extractMessageData p = Some ms"
  using count_fill [OF assms(1), of "[]"] copy_fill [OF assms(1), of "[]"] assms(2)
  by (simp add: extractMessageData_def)

lemma create_disconnection_ok:
  assumes "wf_hash ctx" and "indet_ok indet"
  shows "\<exists>p. createDisconnectionRequest indet r s sn csn ts cts d ctx = Some p \<and> wf_packet ctx p \<and>
    p_type p = RASTA_TYPE_DISCREQ \<and> p_receiver_id p = r \<and> p_sender_id p = s \<and> p_sequence_number p = sn \<and>
    p_confirmed_sequence_number p = csn \<and> p_timestamp p = ts \<and> p_confirmed_timestamp p = cts \<and>
    extractRastaDisconnectionData p e = (d, e)"
proof -
  let ?p = "initializePacket indet RASTA_TYPE_DISCREQ r s sn csn ts cts 4 ctx"
  have l: "length (p_data ?p) = 4" using assms(2) by simp
  have w: "wf_packet ctx ?p" using assms hash_len_bound [OF assms(1)] by (intro initialize_wf) auto
  let ?d = "shortToBytes (dd_details d) @ shortToBytes (dd_reason d)"
  have "createDisconnectionRequest indet r s sn csn ts cts d ctx = Some (?p\<lparr>p_data := ?d\<rparr>)"
    using l by (simp add: createDisconnectionRequest_def buf_write_def)
  moreover have "wf_packet ctx (?p\<lparr>p_data := ?d\<rparr>)" using l by (intro wf_packet_data [OF w]) simp
  ultimately show ?thesis by (simp add: extractRastaDisconnectionData_def)
qed

lemma connection_payload_ok:
  assumes "length (p_data p) = 14" and "length v = 4"
  shows "connection_payload p v m = Some (p\<lparr>p_data := v @ shortToBytes m @ replicate 8 0\<rparr>)"
  using assms by (simp add: connection_payload_def buf_read_def buf_write_def)

lemma connection_data_roundtrip:
  assumes "p_data p = v @ shortToBytes m @ replicate 8 0" and "length v = 4"
  shows "extractRastaConnectionData p e = (\<lparr>cd_send_max = m, cd_version = v\<rparr>, e)"
  using assms by (simp add: extractRastaConnectionData_def)

lemma create_redundancy_wf:
  assumes "wf_packet ctx p" and "crc_bytes opt \<le> 4" and "8 + unat (p_length p) + crc_bytes opt < 65536"
  shows "wf_red ctx (createRedundancyPacket sn p opt)"
proof -
  have "unat (word_of_nat (8 + unat (p_length p) + crc_bytes opt) :: u16) = 8 + unat (p_length p) + crc_bytes opt"
    using assms(3) by (rule unat_of_nat_u16)
  with assms show ?thesis by (simp add: wf_red_def createRedundancyPacket_def del: of_nat_add)
qed

end
