(* ===== verification/Redundancy.thy ===== *)
theory Redundancy
  imports Defer_Queue Config_Types Factory
begin

section \<open>The redundancy channel (rastaredundancy_new.h, rastaredundancy_new.c)\<close>

text \<open>
  One channel to a remote entity over several transport channels: the receive function with
  its four cases by sequence number, the delivery of deferred packets, the timeout function,
  and the set-up. Sequence numbers have 64 bits here and 32 bits in a packet. The array of
  transport channels has \<open>transport_channel_count\<close> entries, of which the first
  \<open>connected_channel_count\<close> were filled; the initial entries are indeterminate (\<open>junk\<close>).
  A packet is an address of the packet store. \<open>now\<close> is the value \<open>current_ts()\<close> returns,
  which each path reads at most once. The channel mutex makes each function one step; the
  fields for logging and the never read state and checksum type are left out.
\<close>

record rasta_redundancy_diagnostics_data =
  dg_start_time :: u64
  dg_n_missed :: int
  dg_t_drift :: u64
  dg_t_drift2 :: u64
  dg_received_packets :: int

record rasta_transport_channel =
  tc_ip_address :: "u8 list"
  tc_port :: u16
  tc_diagnostics_data :: rasta_redundancy_diagnostics_data

record rasta_redundancy_channel =
  rc_associated_id :: u64
  rc_seq_tx :: u64
  rc_seq_rx :: u64
  rc_defer_q :: defer_queue
  rc_diagnostics_packet_buffer :: defer_queue
  rc_fifo_recv :: "(u8 list) fifo_t"
  rc_connected_channels :: "rasta_transport_channel list"
  rc_connected_channel_count :: u32
  rc_transport_channel_count :: u32
  rc_is_open :: bool
  rc_configuration_parameters :: RastaConfigInfoRedundancy
  rc_hashing_context :: rasta_hashing_context_t

definition rasta_red_init ::
  "(nat \<Rightarrow> rasta_transport_channel) \<Rightarrow> RastaConfigInfo \<Rightarrow> u32 \<Rightarrow> u64 \<Rightarrow> rasta_redundancy_channel" where
  "rasta_red_init junk config transport_channel_count rid =
     (let n = cfg_n_deferqueue_size (cfg_redundancy config)
      in \<lparr>rc_associated_id = rid, rc_seq_tx = 0, rc_seq_rx = 0, rc_defer_q = defer_queue_init n,
          rc_diagnostics_packet_buffer = defer_queue_init (10 * n), rc_fifo_recv = fifo_init n,
          rc_connected_channels = map junk [0..<unat transport_channel_count],
          rc_connected_channel_count = 0, rc_transport_channel_count = transport_channel_count,
          rc_is_open = False, rc_configuration_parameters = cfg_redundancy config,
          rc_hashing_context = init_hashing_context (cfg_sending config)\<rparr>)"

definition zero_packet :: RastaPacket where
  "zero_packet = \<lparr>p_length = 0, p_type = 0, p_receiver_id = 0, p_sender_id = 0, p_sequence_number = 0,
     p_confirmed_sequence_number = 0, p_timestamp = 0, p_confirmed_timestamp = 0, p_data = [], p_checksum = [],
     p_checksum_correct = False\<rparr>"

definition zero_redundancy_packet :: RastaRedundancyPacket where
  "zero_redundancy_packet = \<lparr>rp_length = 0, rp_reserve = 0, rp_sequence_number = 0, rp_data = zero_packet,
     rp_checksum_correct = False,
     rp_checksum_type = \<lparr>crc_width = 0, crc_polynom = 0, crc_initial = 0, crc_initial_optimized = 0,
       crc_refin = False, crc_refout = False, crc_final_xor = 0, crc_mask = 0, crc_high_bit = 0,
       crc_table_generated = False, crc_table = replicate 256 0\<rparr>\<rparr>"

type_synonym red_result = "(packet_store \<times> rasta_redundancy_channel \<times> rasta_error_type) option"

text \<open>
  The delivery loop ends: a packet in the queue has a 32-bit number, and every round
  increments \<open>seq_rx\<close>.
\<close>

lemma contains_bound: "deferqueue_contains st q s = Some True \<Longrightarrow> unat s < 2 ^ 32"
proof -
  assume "deferqueue_contains st q s = Some True"
  then obtain p :: RastaRedundancyPacket where "find_loop (rp_sequence_number p) s (unat (dq_max_count q)) 0 \<noteq> unat (dq_max_count q)"
    by (clarsimp simp: deferqueue_contains_def find_index_def bind_Some_iff Let_def split: if_splits)
  then have "ucast (rp_sequence_number p) = s" by (auto simp: find_loop_spec split: if_splits)
  then have "unat s = unat (rp_sequence_number p)" by auto
  then show ?thesis using unat_u32_less [of "rp_sequence_number p"] by simp
qed

function deliverDeferQueue ::
  "indet \<Rightarrow> packet_store \<Rightarrow> rasta_redundancy_channel \<Rightarrow> rasta_error_type \<Rightarrow> red_result" where
  "deliverDeferQueue indet st channel lasterror =
     (case deferqueue_contains st (rc_defer_q channel) (rc_seq_rx channel) of
        None \<Rightarrow> None
      | Some False \<Rightarrow> Some (st, channel, lasterror)
      | Some True \<Rightarrow> do {
          redundancyPacket \<leftarrow> deferqueue_get st zero_redundancy_packet (rc_defer_q channel) (rc_seq_rx channel);
          (innerPackerBytes, lasterror') \<leftarrow>
            rastaModuleToBytes indet (rp_data redundancyPacket) (rc_hashing_context channel) lasterror;
          fifo \<leftarrow> fifo_push (rc_fifo_recv channel) (Some innerPackerBytes);
          (st', q) \<leftarrow> deferqueue_remove st (rc_defer_q channel) (rc_seq_rx channel);
          deliverDeferQueue indet st'
            (channel\<lparr>rc_fifo_recv := fifo, rc_defer_q := q, rc_seq_rx := rc_seq_rx channel + 1\<rparr>) lasterror' })"
  by pat_completeness auto
termination
proof (relation "measure (\<lambda>(indet, st, channel, e). 2 ^ 32 + 1 - unat (rc_seq_rx channel))", simp, clarsimp)
  fix st channel
  assume "deferqueue_contains st (rc_defer_q channel) (rc_seq_rx channel) = Some True"
  then have b: "unat (rc_seq_rx channel) < 4294967296" using contains_bound by fastforce
  then have "unat (rc_seq_rx channel + 1) = unat (rc_seq_rx channel) + 1"
    by (simp add: unat_word_ariths)
  then show "4294967297 - unat (rc_seq_rx channel + 1) < 4294967297 - unat (rc_seq_rx channel)"
    using b by simp
qed

declare deliverDeferQueue.simps [simp del]

definition upd_channel ::
  "nat \<Rightarrow> (rasta_redundancy_diagnostics_data \<Rightarrow> rasta_redundancy_diagnostics_data) \<Rightarrow>
   rasta_redundancy_channel \<Rightarrow> rasta_redundancy_channel option" where
  "upd_channel channel_id f channel =
     do { tc \<leftarrow> buf_get (rc_connected_channels channel) channel_id;
          tcs \<leftarrow> buf_set (rc_connected_channels channel) channel_id
                   (tc\<lparr>tc_diagnostics_data := f (tc_diagnostics_data tc)\<rparr>);
          Some (channel\<lparr>rc_connected_channels := tcs\<rparr>) }"

text \<open>The three accepting branches of \<open>rasta_red_f_receive\<close>: late, next and early packets.\<close>

definition receive_late ::
  "u32 \<Rightarrow> packet_store \<Rightarrow> rasta_redundancy_channel \<Rightarrow> RastaRedundancyPacket \<Rightarrow> nat \<Rightarrow>
   rasta_redundancy_channel option" where
  "receive_late now st channel packet channel_id =
     do { ts \<leftarrow> deferqueue_get_ts st (rc_diagnostics_packet_buffer channel) (ucast (rp_sequence_number packet));
          let delay = ucast now - ts
          in if ts \<noteq> 0
             then if delay > ucast (cfg_t_seq (rc_configuration_parameters channel))
                  then upd_channel channel_id (\<lambda>d. d\<lparr>dg_n_missed := dg_n_missed d + 1\<rparr>) channel
                  else upd_channel channel_id
                         (\<lambda>d. d\<lparr>dg_t_drift := dg_t_drift d + delay, dg_t_drift2 := dg_t_drift2 d + delay * delay\<rparr>)
                         channel
             else Some channel }"

definition receive_next ::
  "indet \<Rightarrow> u32 \<Rightarrow> packet_store \<Rightarrow> rasta_redundancy_channel \<Rightarrow> addr \<Rightarrow> RastaRedundancyPacket \<Rightarrow>
   rasta_error_type \<Rightarrow> red_result" where
  "receive_next indet now st channel a packet lasterror =
     do { dq \<leftarrow> deferqueue_add (rc_diagnostics_packet_buffer channel) a (ucast now);
          (innerPackerBytes, lasterror) \<leftarrow>
            rastaModuleToBytesNoChecksum indet (rp_data packet) (rc_hashing_context channel) lasterror;
          fifo \<leftarrow> fifo_push (rc_fifo_recv channel) (Some innerPackerBytes);
          deliverDeferQueue indet st
            (channel\<lparr>rc_seq_rx := rc_seq_rx channel + 1, rc_diagnostics_packet_buffer := dq, rc_fifo_recv := fifo\<rparr>)
            lasterror }"

definition receive_early ::
  "u32 \<Rightarrow> packet_store \<Rightarrow> rasta_redundancy_channel \<Rightarrow> addr \<Rightarrow> RastaRedundancyPacket \<Rightarrow>
   rasta_redundancy_channel option" where
  "receive_early now st channel a packet =
     do { c \<leftarrow> deferqueue_contains st (rc_defer_q channel) (ucast (rp_sequence_number packet));
          if c then Some channel
          else if deferqueue_isfull (rc_defer_q channel) then Some channel
          else do { dq \<leftarrow> deferqueue_add (rc_defer_q channel) a (ucast now);
                    Some (channel\<lparr>rc_defer_q := dq\<rparr>) } }"

definition receive_window :: "rasta_redundancy_channel \<Rightarrow> u64" where
  "receive_window channel =
     rc_seq_rx channel + ucast (cfg_n_deferqueue_size (rc_configuration_parameters channel) * 10)"

definition rasta_red_f_receive ::
  "indet \<Rightarrow> u32 \<Rightarrow> packet_store \<Rightarrow> rasta_redundancy_channel \<Rightarrow> addr \<Rightarrow> nat \<Rightarrow> rasta_error_type \<Rightarrow> red_result" where
  "rasta_red_f_receive indet now st channel a channel_id lasterror =
     do { packet \<leftarrow> ps_packets st a;
          if \<not> rp_checksum_correct packet then Some (st, channel, lasterror)
          else do {
            channel \<leftarrow> upd_channel channel_id (\<lambda>d. d\<lparr>dg_received_packets := dg_received_packets d + 1\<rparr>) channel;
            let seq_pdu = ucast (rp_sequence_number packet)
            in if rc_seq_rx channel = 0 \<and> rc_seq_tx channel = 0 \<and> rp_sequence_number packet \<noteq> 0
               then Some (st, channel, lasterror)
               else if seq_pdu < rc_seq_rx channel
               then do { channel \<leftarrow> receive_late now st channel packet channel_id; Some (st, channel, lasterror) }
               else if seq_pdu = rc_seq_rx channel then receive_next indet now st channel a packet lasterror
               else if rc_seq_rx channel < seq_pdu \<and> seq_pdu \<le> receive_window channel
               then do { channel \<leftarrow> receive_early now st channel a packet; Some (st, channel, lasterror) }
               else Some (st, channel, lasterror) } }"

definition rasta_red_f_deferTmo ::
  "indet \<Rightarrow> packet_store \<Rightarrow> rasta_redundancy_channel \<Rightarrow> rasta_error_type \<Rightarrow> red_result" where
  "rasta_red_f_deferTmo indet st channel lasterror =
     do { smallest_index \<leftarrow> deferqueue_smallest_seqnr st (rc_defer_q channel);
          e \<leftarrow> buf_get (dq_elements (rc_defer_q channel)) smallest_index;
          p \<leftarrow> packet_at st (w_packet e);
          deliverDeferQueue indet st (channel\<lparr>rc_seq_rx := ucast (rp_sequence_number p)\<rparr>) lasterror }"

definition rasta_red_add_transport_channel ::
  "rasta_redundancy_diagnostics_data \<Rightarrow> rasta_redundancy_channel \<Rightarrow> u8 list \<Rightarrow> u16 \<Rightarrow>
   rasta_redundancy_channel option" where
  "rasta_red_add_transport_channel indeterminate channel addr_ip addr_port =
     do { ip15 \<leftarrow> buf_read addr_ip 0 15;
          tcs \<leftarrow> buf_set (rc_connected_channels channel) (unat (rc_connected_channel_count channel))
                   \<lparr>tc_ip_address = ip15, tc_port = addr_port, tc_diagnostics_data = indeterminate\<rparr>;
          Some (channel\<lparr>rc_connected_channels := tcs,
                        rc_connected_channel_count := rc_connected_channel_count channel + 1\<rparr>) }"

definition rasta_red_cleanup :: "rasta_redundancy_channel \<Rightarrow> rasta_redundancy_channel option" where
  "rasta_red_cleanup channel =
     do { fifo \<leftarrow> fifo_destroy (rc_fifo_recv channel);
          Some (channel\<lparr>rc_defer_q := deferqueue_destroy (rc_defer_q channel),
                        rc_diagnostics_packet_buffer := deferqueue_destroy (rc_diagnostics_packet_buffer channel),
                        rc_connected_channels := [], rc_transport_channel_count := 0,
                        rc_connected_channel_count := 0, rc_fifo_recv := fifo,
                        rc_hashing_context := (rc_hashing_context channel)\<lparr>hash_key := []\<rparr>\<rparr>) }"

end
