(* ===== verification/Mux.thy ===== *)
theory Mux
  imports Redundancy
begin

section \<open>The redundancy multiplexer (rasta_red_multiplexer.h, rasta_red_multiplexer.c)\<close>

text \<open>
  The channels of a node, one per remote entity, over the UDP sockets of its ports. The array
  of channels is the list of its \<open>channel_count\<close> entries. A datagram that is sent is a value
  with the socket, the bytes and the address; one that arrives is a parameter, as are socket
  descriptors (\<open>udp_init\<close>, module udp.c). A thread started for a notification is an event.
  The mutex of the multiplexer makes an operation one step; the loops of the threads are
  modelled by their bodies. \<open>uninit\<close> collects what uninitialised variables hold.
\<close>

record uninit =
  un_bytes :: indet
  un_transport :: "nat \<Rightarrow> rasta_transport_channel"
  un_channel :: rasta_redundancy_channel
  un_packet :: RastaRedundancyPacket

record datagram =
  d_fd :: int
  d_bytes :: "u8 list"
  d_host :: "u8 list"
  d_port :: u16

datatype red_event = On_New_Connection u64 | On_Diagnostics int int u64 u64 u64

record redundancy_mux =
  mux_listen_ports :: "u16 list option"
  mux_port_count :: u32
  mux_udp_socket_fds :: "int list"
  mux_connected_channels :: "rasta_redundancy_channel list"
  mux_is_open :: bool
  mux_config :: RastaConfigInfo
  mux_on_diagnostics_available :: bool
  mux_on_new_connection :: bool
  mux_notifications_running :: u32
  mux_sr_hashing_context :: rasta_hashing_context_t

subsection \<open>Set-up\<close>

definition redundancy_mux_init_from_config :: "(nat \<Rightarrow> int) \<Rightarrow> rasta_hashing_context_t \<Rightarrow> RastaConfigInfo \<Rightarrow> redundancy_mux" where
  "redundancy_mux_init_from_config udp_init_fd unset config =
     (let connections = cfg_connections (cfg_redundancy config); n = length connections
      in \<lparr>mux_listen_ports = (if n > 0 then Some (map (\<lambda>c. word_of_int (port c)) connections) else None),
          mux_port_count = word_of_nat n, mux_udp_socket_fds = map udp_init_fd [0..<n],
          mux_connected_channels = [], mux_is_open = False, mux_config = config,
          mux_on_diagnostics_available = False, mux_on_new_connection = False, mux_notifications_running = 0,
          mux_sr_hashing_context = init_hashing_context (cfg_sending config)\<rparr>)"

fun add_transports ::
  "rasta_redundancy_diagnostics_data \<Rightarrow> rasta_redundancy_channel \<Rightarrow> RastaIPData list \<Rightarrow>
   rasta_redundancy_channel option" where
  "add_transports d channel [] = Some channel"
| "add_transports d channel (c # cs) =
     do { channel \<leftarrow> rasta_red_add_transport_channel d channel (ip c) (word_of_int (port c));
          add_transports d channel cs }"

text \<open>The other two variants never set the hashing context; \<open>unset\<close> is what it holds.\<close>

definition config_channel :: "uninit \<Rightarrow> u32 \<Rightarrow> RastaConfigInfo \<Rightarrow> rasta_redundancy_channel list option" where
  "config_channel u port_count config =
     (if cfg_connections (cfg_redundancy config) = [] then Some []
      else do {
        channel \<leftarrow> add_transports (tc_diagnostics_data (un_transport u 0))
          ((rasta_red_init (un_transport u) config port_count (cfg_rasta_id (cfg_general config)))\<lparr>rc_associated_id := 0\<rparr>)
          (cfg_connections (cfg_redundancy config));
        Some [channel] })"

definition redundancy_mux_init ::
  "(nat \<Rightarrow> int) \<Rightarrow> uninit \<Rightarrow> rasta_hashing_context_t \<Rightarrow> u16 list \<Rightarrow> RastaConfigInfo \<Rightarrow> redundancy_mux option" where
  "redundancy_mux_init udp_init_fd u unset listen_ports config =
     do { let n = length listen_ports in do {
          channels \<leftarrow> config_channel u (word_of_nat n) config;
          Some \<lparr>mux_listen_ports = Some listen_ports, mux_port_count = word_of_nat n,
                mux_udp_socket_fds = map udp_init_fd [0..<n], mux_connected_channels = channels,
                mux_is_open = False, mux_config = config, mux_on_diagnostics_available = False,
                mux_on_new_connection = False, mux_notifications_running = 0,
                mux_sr_hashing_context = unset\<rparr> } }"

definition redundancy_mux_init_with_devices ::
  "(nat \<Rightarrow> int) \<Rightarrow> uninit \<Rightarrow> rasta_hashing_context_t \<Rightarrow> RastaIPData list \<Rightarrow> RastaConfigInfo \<Rightarrow> redundancy_mux option" where
  "redundancy_mux_init_with_devices udp_init_fd u unset listen_ports config =
     do { let n = length listen_ports in do {
          channels \<leftarrow> config_channel u (word_of_nat n) config;
          Some \<lparr>mux_listen_ports = None, mux_port_count = word_of_nat n,
                mux_udp_socket_fds = map udp_init_fd [0..<n], mux_connected_channels = channels,
                mux_is_open = False, mux_config = config, mux_on_diagnostics_available = False,
                mux_on_new_connection = False, mux_notifications_running = 0,
                mux_sr_hashing_context = unset\<rparr> } }"

text \<open>
  Opening starts one receive thread per port and the timeout thread: the result counts the
  started threads. The log line of each port reads its listen port.
\<close>

definition redundancy_mux_open :: "redundancy_mux \<Rightarrow> (redundancy_mux \<times> nat) option" where
  "redundancy_mux_open mux =
     (if mux_is_open mux then Some (mux, 0)
      else if mux_port_count mux = 0 then Some (mux\<lparr>mux_is_open := True\<rparr>, 1)
      else do {
        ports \<leftarrow> mux_listen_ports mux;
        buf_get ports (unat (mux_port_count mux) - 1);
        Some (mux\<lparr>mux_is_open := True\<rparr>, unat (mux_port_count mux) + 1) })"

fun cleanup_all :: "rasta_redundancy_channel list \<Rightarrow> rasta_redundancy_channel list option" where
  "cleanup_all [] = Some []"
| "cleanup_all (c # cs) =
     do { c \<leftarrow> rasta_red_cleanup c; cs \<leftarrow> cleanup_all cs; Some (c # cs) }"

text \<open>Closing; the array of channels is released, so no channel can be accessed any more.\<close>

definition redundancy_mux_close :: "redundancy_mux \<Rightarrow> redundancy_mux option" where
  "redundancy_mux_close mux =
     do { cleanup_all (mux_connected_channels mux);
          Some (mux\<lparr>mux_is_open := False, mux_udp_socket_fds := [], mux_port_count := 0,
                    mux_connected_channels := [],
                    mux_sr_hashing_context := (mux_sr_hashing_context mux)\<lparr>hash_key := []\<rparr>\<rparr>) }"

subsection \<open>Channels\<close>

fun channel_loop :: "rasta_redundancy_channel list \<Rightarrow> nat \<Rightarrow> u64 \<Rightarrow> nat option" where
  "channel_loop [] i rid = None"
| "channel_loop (c # cs) i rid = (if rc_associated_id c = rid then Some i else channel_loop cs (i + 1) rid)"

definition redundancy_mux_get_channel :: "redundancy_mux \<Rightarrow> u64 \<Rightarrow> nat option" where
  "redundancy_mux_get_channel mux rid = channel_loop (mux_connected_channels mux) 0 rid"

definition set_channel :: "nat \<Rightarrow> rasta_redundancy_channel \<Rightarrow> redundancy_mux \<Rightarrow> redundancy_mux" where
  "set_channel i ch mux = mux\<lparr>mux_connected_channels := (mux_connected_channels mux)[i := ch]\<rparr>"

definition redundancy_mux_set_config_id :: "redundancy_mux \<Rightarrow> u64 \<Rightarrow> redundancy_mux" where
  "redundancy_mux_set_config_id mux rid =
     (if length (mux_connected_channels mux) > 0
      then set_channel 0 ((mux_connected_channels mux ! 0)\<lparr>rc_associated_id := rid\<rparr>) mux else mux)"

text \<open>The caller passes an array of addresses; \<open>port_count\<close> of them are read.\<close>

definition redundancy_mux_add_channel ::
  "uninit \<Rightarrow> redundancy_mux \<Rightarrow> u64 \<Rightarrow> RastaIPData list \<Rightarrow> redundancy_mux option" where
  "redundancy_mux_add_channel u mux rid transport_channels =
     (if length transport_channels < unat (mux_port_count mux) then None
      else do {
        channel \<leftarrow> add_transports (tc_diagnostics_data (un_transport u 0))
          (rasta_red_init (un_transport u) (mux_config mux) (mux_port_count mux) rid)
          (take (unat (mux_port_count mux)) transport_channels);
        Some (mux\<lparr>mux_connected_channels := mux_connected_channels mux @ [channel]\<rparr>) })"

text \<open>
  The new array has one entry less; when several channels have the identifier its last
  entries are never written.
\<close>

definition redundancy_mux_remove_channel :: "uninit \<Rightarrow> redundancy_mux \<Rightarrow> u64 \<Rightarrow> redundancy_mux" where
  "redundancy_mux_remove_channel u mux channel_id =
     (if redundancy_mux_get_channel mux channel_id = None then mux
      else let kept = filter (\<lambda>c. rc_associated_id c \<noteq> channel_id) (mux_connected_channels mux);
               n = length (mux_connected_channels mux) - 1
           in mux\<lparr>mux_connected_channels := kept @ replicate (n - length kept) (un_channel u)\<rparr>)"

subsection \<open>Sending and retrieving\<close>

definition datagram_on :: "redundancy_mux \<Rightarrow> rasta_redundancy_channel \<Rightarrow> u8 list \<Rightarrow> nat \<Rightarrow> datagram option" where
  "datagram_on mux receiver bytes i =
     do { tc \<leftarrow> buf_get (rc_connected_channels receiver) i;
          fd \<leftarrow> buf_get (mux_udp_socket_fds mux) i;
          Some \<lparr>d_fd = fd, d_bytes = bytes, d_host = tc_ip_address tc, d_port = tc_port tc\<rparr> }"

fun datagrams :: "redundancy_mux \<Rightarrow> rasta_redundancy_channel \<Rightarrow> u8 list \<Rightarrow> nat list \<Rightarrow> datagram list option" where
  "datagrams mux receiver bytes [] = Some []"
| "datagrams mux receiver bytes (i # is) =
     do { d \<leftarrow> datagram_on mux receiver bytes i; ds \<leftarrow> datagrams mux receiver bytes is; Some (d # ds) }"

definition redundancy_mux_send ::
  "indet \<Rightarrow> redundancy_mux \<Rightarrow> RastaPacket \<Rightarrow> rasta_error_type \<Rightarrow>
   (redundancy_mux \<times> datagram list \<times> rasta_error_type) option" where
  "redundancy_mux_send indet mux data lasterror =
     (case redundancy_mux_get_channel mux (ucast (p_receiver_id data)) of
        None \<Rightarrow> Some (mux, [], lasterror)
      | Some k \<Rightarrow>
          let receiver = mux_connected_channels mux ! k;
              packet = createRedundancyPacket (ucast (rc_seq_tx receiver)) data
                         (cfg_crc_type (cfg_redundancy (mux_config mux)))
          in do {
            (data_to_send, lasterror) \<leftarrow> rastaRedundancyPacketToBytes indet packet (rc_hashing_context receiver) lasterror;
            sent \<leftarrow> datagrams mux receiver data_to_send [0..<unat (rc_connected_channel_count receiver)];
            Some (set_channel k (receiver\<lparr>rc_seq_tx := rc_seq_tx receiver + 1\<rparr>) mux, sent, lasterror) })"

text \<open>Retrieving blocks while the entity is unknown or its queue is empty: the outcome \<open>Waiting\<close>.\<close>

datatype 'a blocking = Waiting | Ready 'a

definition redundancy_mux_retrieve ::
  "uninit \<Rightarrow> redundancy_mux \<Rightarrow> u64 \<Rightarrow> rasta_error_type \<Rightarrow>
   (RastaPacket \<times> redundancy_mux \<times> rasta_error_type) blocking option" where
  "redundancy_mux_retrieve u mux rid lasterror =
     (case redundancy_mux_get_channel mux rid of
        None \<Rightarrow> Some Waiting
      | Some k \<Rightarrow>
          let target = mux_connected_channels mux ! k
          in if fifo_get_size (rc_fifo_recv target) = 0 then Some Waiting
             else do {
               (element, fifo) \<leftarrow> fifo_pop (rc_fifo_recv target);
               bytes \<leftarrow> element;
               (packet, lasterror) \<leftarrow>
                 bytesToRastaPacket (un_bytes u) (rp_data (un_packet u)) bytes (rc_hashing_context target) lasterror;
               Some (Ready (packet, set_channel k (target\<lparr>rc_fifo_recv := fifo\<rparr>) mux, lasterror)) })"

text \<open>
  The number of messages of one channel, and whether the call returns with the mutex of the
  multiplexer still locked.
\<close>

definition get_queue_msg_count :: "redundancy_mux \<Rightarrow> u32 \<Rightarrow> (u32 \<times> bool) option" where
  "get_queue_msg_count mux i =
     (if i > word_of_nat (length (mux_connected_channels mux)) - 1 then Some (0, True)
      else do { channel \<leftarrow> buf_get (mux_connected_channels mux) (unat i);
                Some (fifo_get_size (rc_fifo_recv channel), False) })"

text \<open>
  One pass of \<open>redundancy_mux_retrieve_all\<close> over the channels from \<open>current_index\<close> on, with no
  other thread interfering; the loop repeats it until a message is there.
\<close>

fun scan_channels :: "redundancy_mux \<Rightarrow> nat list \<Rightarrow> nat option option" where
  "scan_channels mux [] = Some None"
| "scan_channels mux (i # is) =
     do { (n, locked) \<leftarrow> get_queue_msg_count mux (word_of_nat i);
          if n > 0 then Some (Some i) else scan_channels mux is }"

definition redundancy_mux_retrieve_all ::
  "uninit \<Rightarrow> redundancy_mux \<Rightarrow> rasta_error_type \<Rightarrow>
   (RastaPacket \<times> redundancy_mux \<times> rasta_error_type) blocking option" where
  "redundancy_mux_retrieve_all u mux lasterror =
     do { found \<leftarrow> scan_channels mux [0..<length (mux_connected_channels mux)];
          case found of
            None \<Rightarrow> Some Waiting
          | Some i \<Rightarrow> redundancy_mux_retrieve u mux (rc_associated_id (mux_connected_channels mux ! i)) lasterror }"

end
