(* ===== verification/Mux_Receive.thy ===== *)
theory Mux_Receive
  imports Mux
begin

section \<open>Receiving and the thread bodies of the multiplexer (rasta_red_multiplexer.c)\<close>

text \<open>
  \<open>receive_packet\<close> handles one datagram: it unpacks the redundancy packet into fresh storage,
  finds or creates the channel of its sender, lets the channel process it and releases the
  packet. The bodies of the two thread loops work on a local copy of a channel: what lies
  behind its pointers (queues, arrays, diagnostics) is shared, the fields of the structure
  are not.
\<close>

subsection \<open>Notifications\<close>

definition red_call_on_new_connection :: "redundancy_mux \<Rightarrow> u64 \<Rightarrow> redundancy_mux \<times> red_event list" where
  "red_call_on_new_connection mux rid =
     (if \<not> mux_on_new_connection mux then (mux, [])
      else (mux\<lparr>mux_notifications_running := mux_notifications_running mux + 1\<rparr>, [On_New_Connection rid]))"

definition red_call_on_diagnostic ::
  "redundancy_mux \<Rightarrow> int \<Rightarrow> int \<Rightarrow> u64 \<Rightarrow> u64 \<Rightarrow> u64 \<Rightarrow> redundancy_mux \<times> red_event list" where
  "red_call_on_diagnostic mux n_diagnose n_missed t_drift t_drift2 rid =
     (if \<not> mux_on_diagnostics_available mux then (mux, [])
      else (mux\<lparr>mux_notifications_running := mux_notifications_running mux + 1\<rparr>,
            [On_Diagnostics n_diagnose n_missed t_drift t_drift2 rid]))"

text \<open>The end of a notification thread; the handler itself is the application's.\<close>

definition red_on_new_connection_caller :: "redundancy_mux \<Rightarrow> redundancy_mux" where
  "red_on_new_connection_caller mux =
     mux\<lparr>mux_notifications_running := ucast (ucast (mux_notifications_running mux - 1) :: u16)\<rparr>"

definition red_on_diagnostic_caller :: "redundancy_mux \<Rightarrow> redundancy_mux" where
  "red_on_diagnostic_caller mux =
     mux\<lparr>mux_notifications_running := ucast (ucast (mux_notifications_running mux - 1) :: u16)\<rparr>"

subsection \<open>One datagram\<close>

text \<open>\<open>strcmp(a, b) == 0\<close>; running past the end of a buffer is undefined.\<close>

fun str_equal :: "u8 list \<Rightarrow> u8 list \<Rightarrow> bool option" where
  "str_equal (x # xs) (y # ys) =
     (if x \<noteq> y then Some False else if x = 0 then Some True else str_equal xs ys)"
| "str_equal xs ys = None"

fun is_channel_saved :: "u8 list \<Rightarrow> u16 \<Rightarrow> rasta_transport_channel list \<Rightarrow> bool option" where
  "is_channel_saved host p [] = Some False"
| "is_channel_saved host p (tc # tcs) =
     do { same \<leftarrow> (if tc_port tc = p then str_equal host (tc_ip_address tc) else Some False);
          rest \<leftarrow> is_channel_saved host p tcs;
          Some (same \<or> rest) }"

definition set_transport :: "rasta_redundancy_channel \<Rightarrow> nat \<Rightarrow> u8 list \<Rightarrow> u16 \<Rightarrow> rasta_redundancy_channel option" where
  "set_transport channel j host p =
     do { tc \<leftarrow> buf_get (rc_connected_channels channel) j;
          tcs \<leftarrow> buf_set (rc_connected_channels channel) j (tc\<lparr>tc_ip_address := host, tc_port := p\<rparr>);
          Some (channel\<lparr>rc_connected_channels := tcs\<rparr>) }"

text \<open>An endpoint of a known entity that was not seen before.\<close>

definition discover ::
  "redundancy_mux \<Rightarrow> rasta_redundancy_channel \<Rightarrow> u8 list \<Rightarrow> u16 \<Rightarrow> rasta_redundancy_channel option" where
  "discover mux channel host p =
     (if rc_connected_channel_count channel < mux_port_count mux
      then let n = unat (rc_connected_channel_count channel)
           in if length (rc_connected_channels channel) < n then None
              else do {
                saved \<leftarrow> is_channel_saved host p (take n (rc_connected_channels channel));
                if saved then Some channel
                else do { channel \<leftarrow> set_transport channel n host p;
                          Some (channel\<lparr>rc_connected_channel_count := rc_connected_channel_count channel + 1\<rparr>) } }
      else Some channel)"

text \<open>The channel of an unknown sender.\<close>

definition new_channel ::
  "uninit \<Rightarrow> redundancy_mux \<Rightarrow> u64 \<Rightarrow> u8 list \<Rightarrow> u16 \<Rightarrow> rasta_redundancy_channel option" where
  "new_channel u mux rid host p =
     do { channel \<leftarrow> set_transport (rasta_red_init (un_transport u) (mux_config mux) (mux_port_count mux) rid) 0 host p;
          Some (channel\<lparr>rc_connected_channel_count := rc_connected_channel_count channel + 1, rc_is_open := True\<rparr>) }"

definition free_packet :: "packet_store \<Rightarrow> addr \<Rightarrow> packet_store" where
  "free_packet st a = st\<lparr>ps_packets := (ps_packets st)(a := None)\<rparr>"

definition alloc_packet :: "packet_store \<Rightarrow> addr \<Rightarrow> RastaRedundancyPacket \<Rightarrow> packet_store" where
  "alloc_packet st a q = st\<lparr>ps_packets := (ps_packets st)(a \<mapsto> q), ps_released := (ps_released st)(a := False)\<rparr>"

type_synonym mux_result = "(packet_store \<times> redundancy_mux \<times> red_event list \<times> rasta_error_type) option"

definition receive_packet ::
  "uninit \<Rightarrow> u32 \<Rightarrow> addr \<Rightarrow> packet_store \<Rightarrow> redundancy_mux \<Rightarrow> nat \<Rightarrow> u8 list \<Rightarrow> u8 list \<Rightarrow> u16 \<Rightarrow>
   rasta_error_type \<Rightarrow> mux_result" where
  "receive_packet u now a st mux channel_id buffer sender_host sender_port lasterror =
     do { buf_get (mux_udp_socket_fds mux) channel_id;
          (receivedPacket, options, lasterror) \<leftarrow>
            bytesToRastaRedundancyPacket (un_bytes u) (un_packet u) buffer
              (cfg_crc_type (cfg_redundancy (mux_config mux))) (mux_sr_hashing_context mux) lasterror;
          host \<leftarrow> buf_write (un_bytes u 15) 0 (sender_host @ [0]);
          let st = alloc_packet st a receivedPacket; rid = ucast (p_sender_id (rp_data receivedPacket))
          in case redundancy_mux_get_channel mux rid of
               Some i \<Rightarrow> do {
                 channel \<leftarrow> discover mux (mux_connected_channels mux ! i) host sender_port;
                 (st, channel, lasterror) \<leftarrow> rasta_red_f_receive (un_bytes u) now st channel a channel_id lasterror;
                 Some (free_packet st a, set_channel i channel mux, [], lasterror) }
             | None \<Rightarrow> do {
                 channel \<leftarrow> new_channel u mux rid host sender_port;
                 let (mux, events) = red_call_on_new_connection mux rid in do {
                 (st, channel, lasterror) \<leftarrow> rasta_red_f_receive (un_bytes u) now st channel a channel_id lasterror;
                 Some (free_packet st a, mux\<lparr>mux_connected_channels := mux_connected_channels mux @ [channel]\<rparr>,
                       events, lasterror) } } }"

subsection \<open>The body of the receive thread\<close>

definition reset_diagnostics ::
  "u32 \<Rightarrow> rasta_redundancy_diagnostics_data \<Rightarrow> rasta_redundancy_diagnostics_data" where
  "reset_diagnostics now d =
     d\<lparr>dg_n_missed := 0, dg_received_packets := 0, dg_t_drift := 0, dg_t_drift2 := 0, dg_start_time := ucast now\<rparr>"

text \<open>
  The check of the diagnostic window for one channel. The count of the diagnostics buffer is
  cleared in the copy only. Times are read at \<open>now\<close> and, after the report, at \<open>now'\<close>.
\<close>

definition diagnose_window ::
  "u32 \<Rightarrow> u32 \<Rightarrow> redundancy_mux \<Rightarrow> nat \<Rightarrow> nat \<Rightarrow> (redundancy_mux \<times> red_event list) option" where
  "diagnose_window now now' mux channel_index i =
     do { current \<leftarrow> buf_get (mux_connected_channels mux) i;
          tc \<leftarrow> buf_get (rc_connected_channels current) channel_index;
          let d = tc_diagnostics_data tc;
              n_diagnose = cfg_n_diagnose (cfg_redundancy (mux_config mux));
              missed_count = dq_count (rc_diagnostics_packet_buffer current) - word_of_int (dg_received_packets d);
              n_missed = sint (word_of_int (dg_n_missed d + sint missed_count) :: u32)
          in if ucast now - dg_start_time d \<ge> ucast (word_of_int n_diagnose :: u32)
             then do {
               current' \<leftarrow> upd_channel channel_index (reset_diagnostics now') current;
               Some (red_call_on_diagnostic (set_channel i current' mux) n_diagnose n_missed
                       (dg_t_drift d) (dg_t_drift2 d) (rc_associated_id current)) }
             else Some (mux, []) }"

fun diagnose_all ::
  "u32 \<Rightarrow> u32 \<Rightarrow> redundancy_mux \<Rightarrow> nat \<Rightarrow> nat list \<Rightarrow> (redundancy_mux \<times> red_event list) option" where
  "diagnose_all now now' mux channel_index [] = Some (mux, [])"
| "diagnose_all now now' mux channel_index (i # is) =
     do { (mux, es) \<leftarrow> diagnose_window now now' mux channel_index i;
          (mux, es') \<leftarrow> diagnose_all now now' mux channel_index is;
          Some (mux, es @ es') }"

text \<open>
  One round of the loop: the windows of every channel, then two datagrams. An arrival is
  its time, the fresh address of its packet, its bytes and its sender.
\<close>

record arrival =
  ar_now :: u32
  ar_addr :: addr
  ar_bytes :: "u8 list"
  ar_host :: "u8 list"
  ar_port :: u16

definition receive_arrival ::
  "uninit \<Rightarrow> nat \<Rightarrow> arrival \<Rightarrow> packet_store \<Rightarrow> redundancy_mux \<Rightarrow> rasta_error_type \<Rightarrow> mux_result" where
  "receive_arrival u channel_id x st mux lasterror =
     receive_packet u (ar_now x) (ar_addr x) st mux channel_id (ar_bytes x) (ar_host x) (ar_port x) lasterror"

definition channel_receive_round ::
  "uninit \<Rightarrow> u32 \<Rightarrow> u32 \<Rightarrow> nat \<Rightarrow> arrival \<Rightarrow> arrival \<Rightarrow> packet_store \<Rightarrow> redundancy_mux \<Rightarrow> rasta_error_type \<Rightarrow>
   mux_result" where
  "channel_receive_round u now now' channel_index x y st mux lasterror =
     do { (mux, es) \<leftarrow> diagnose_all now now' mux channel_index [0..<length (mux_connected_channels mux)];
          (st, mux, es1, lasterror) \<leftarrow> receive_arrival u channel_index x st mux lasterror;
          (st, mux, es2, lasterror) \<leftarrow> receive_arrival u channel_index y st mux lasterror;
          Some (st, mux, es @ es1 @ es2, lasterror) }"

subsection \<open>The body of the timeout thread\<close>

text \<open>What a channel keeps of an operation on a copy of it.\<close>

definition through_copy :: "rasta_redundancy_channel \<Rightarrow> rasta_redundancy_channel \<Rightarrow> rasta_redundancy_channel" where
  "through_copy original copy =
     original\<lparr>rc_fifo_recv := rc_fifo_recv copy, rc_connected_channels := rc_connected_channels copy,
              rc_defer_q := (rc_defer_q original)\<lparr>dq_elements := dq_elements (rc_defer_q copy)\<rparr>\<rparr>"

definition timeout_channel ::
  "uninit \<Rightarrow> u32 \<Rightarrow> packet_store \<Rightarrow> redundancy_mux \<Rightarrow> nat \<Rightarrow> rasta_error_type \<Rightarrow>
   (packet_store \<times> redundancy_mux \<times> rasta_error_type) option" where
  "timeout_channel u now st mux i lasterror =
     do { current_channel \<leftarrow> buf_get (mux_connected_channels mux) i;
          oldest \<leftarrow> buf_get (dq_elements (rc_defer_q current_channel)) 0;
          if dq_count (rc_defer_q current_channel) = 0 then Some (st, mux, lasterror)
          else if ucast now - w_received_timestamp oldest > ucast (cfg_t_seq (rc_configuration_parameters current_channel))
          then do { (st, copy, lasterror) \<leftarrow> rasta_red_f_deferTmo (un_bytes u) st current_channel lasterror;
                    Some (st, set_channel i (through_copy current_channel copy) mux, lasterror) }
          else Some (st, mux, lasterror) }"

fun timeout_all ::
  "uninit \<Rightarrow> u32 \<Rightarrow> packet_store \<Rightarrow> redundancy_mux \<Rightarrow> nat list \<Rightarrow> rasta_error_type \<Rightarrow>
   (packet_store \<times> redundancy_mux \<times> rasta_error_type) option" where
  "timeout_all u now st mux [] lasterror = Some (st, mux, lasterror)"
| "timeout_all u now st mux (i # is) lasterror =
     do { (st, mux, lasterror) \<leftarrow> timeout_channel u now st mux i lasterror;
          timeout_all u now st mux is lasterror }"

definition channel_timeout_round ::
  "uninit \<Rightarrow> u32 \<Rightarrow> packet_store \<Rightarrow> redundancy_mux \<Rightarrow> rasta_error_type \<Rightarrow>
   (packet_store \<times> redundancy_mux \<times> rasta_error_type) option" where
  "channel_timeout_round u now st mux lasterror =
     timeout_all u now st mux [0..<length (mux_connected_channels mux)] lasterror"

end
