(* ===== verification/Sr_Handle.thy ===== *)
theory Sr_Handle
  imports Mux_Receive Rasta_State
begin

section \<open>The handle of a RaSTA node (rastahandle.h, rastahandle.c)\<close>

text \<open>
  The state of a node: configuration, connections, multiplexer, notification pointers. What
  the environment decides is in \<open>sr_env\<close>: uninitialised storage, the clock (the value of its
  \<open>n\<close>th reading), what seeds the random numbers at each
  time and what each seed gives, the length of a clock tick in milliseconds, and the bytes that
  follow a version in memory. The handle also records what the node did: the datagrams it
  sent, the notification threads it started and how often it read the clock. The global error
  of rastamodule.c and of rastafactory.c are part of the state. The three thread handles only
  repeat fields of the handle. Loggers are not modelled.
\<close>

record sr_env =
  se_uninit :: uninit
  se_connection :: rasta_connection
  se_clock :: "nat \<Rightarrow> u32"
  se_tick :: u64
  se_seed :: "nat \<Rightarrow> u64 \<times> u64 \<times> u64"
  se_rand :: "u64 \<Rightarrow> nat \<Rightarrow> int"
  se_after_version :: "u8 list"

text \<open>The pointers that are set; the others are null.\<close>

record rasta_notification_ptr =
  nt_on_receive :: bool
  nt_on_connection_state_change :: bool
  nt_on_diagnostic_notification :: bool
  nt_on_disconnection_request_received :: bool
  nt_on_redundancy_diagnostic_notification :: bool
  nt_on_handshake_complete :: bool
  nt_on_heartbeat_timeout :: bool

text \<open>A notification thread with the copy of the connection it is given.\<close>

datatype sr_event =
    On_Receive rasta_connection
  | On_Connection_State_Change rasta_connection
  | On_Diagnostic_Notification rasta_connection
  | On_Disconnection_Request rasta_connection u16 u16
  | On_Handshake_Complete rasta_connection
  | On_Heartbeat_Timeout rasta_connection

record rasta_handle =
  rh_config :: RastaConfigInfo
  rh_initial_seq :: "int option"
  rh_accepted_version :: "u8 list list"
  rh_connections :: RastaList
  rh_hashing_context :: rasta_hashing_context_t
  rh_mux :: redundancy_mux
  rh_notifications :: rasta_notification_ptr
  rh_running_notifications :: int
  rh_recv_running :: bool
  rh_send_running :: bool
  rh_hb_running :: bool
  rh_lasterror :: rasta_error_type
  rh_factory_error :: rasta_error_type
  rh_clock_reads :: nat
  rh_sent :: "datagram list"
  rh_events :: "sr_event list"

subsection \<open>Notifications\<close>

definition start_notification :: "sr_event \<Rightarrow> rasta_handle \<Rightarrow> rasta_handle" where
  "start_notification e h =
     h\<lparr>rh_running_notifications := rh_running_notifications h + 1, rh_events := rh_events h @ [e]\<rparr>"

definition fire_on_connection_state_change :: "rasta_connection \<Rightarrow> rasta_handle \<Rightarrow> rasta_handle" where
  "fire_on_connection_state_change c h =
     (if \<not> nt_on_connection_state_change (rh_notifications h) then h
      else start_notification (On_Connection_State_Change c) h)"

definition fire_on_receive :: "rasta_connection \<Rightarrow> rasta_handle \<Rightarrow> rasta_handle" where
  "fire_on_receive c h =
     (if \<not> nt_on_receive (rh_notifications h) then h else start_notification (On_Receive c) h)"

definition fire_on_discrequest_state_change ::
  "rasta_connection \<Rightarrow> RastaDisconnectionData \<Rightarrow> rasta_handle \<Rightarrow> rasta_handle" where
  "fire_on_discrequest_state_change c data h =
     (if \<not> nt_on_disconnection_request_received (rh_notifications h) then h
      else start_notification (On_Disconnection_Request c (dd_reason data) (dd_details data)) h)"

definition fire_on_diagnostic_notification :: "rasta_connection \<Rightarrow> rasta_handle \<Rightarrow> rasta_handle" where
  "fire_on_diagnostic_notification c h =
     (if \<not> nt_on_diagnostic_notification (rh_notifications h) then h
      else if received_diagnostic_message_count c \<le> 0 then h
      else start_notification (On_Diagnostic_Notification c) h)"

definition fire_on_handshake_complete :: "rasta_connection \<Rightarrow> rasta_handle \<Rightarrow> rasta_handle" where
  "fire_on_handshake_complete c h =
     (if \<not> nt_on_handshake_complete (rh_notifications h) then h
      else start_notification (On_Handshake_Complete c) h)"

definition fire_on_hearbeat_timeout :: "rasta_connection \<Rightarrow> rasta_handle \<Rightarrow> rasta_handle" where
  "fire_on_hearbeat_timeout c h =
     (if \<not> nt_on_heartbeat_timeout (rh_notifications h) then h
      else start_notification (On_Heartbeat_Timeout c) h)"

text \<open>
  The notification threads: they call the application's function, \<open>cb\<close>, through the pointer
  and count themselves out. A pointer that was reset meanwhile is a call of null.
\<close>

type_synonym application = "sr_event \<Rightarrow> rasta_handle \<Rightarrow> rasta_handle"

definition call_notification :: "application \<Rightarrow> bool \<Rightarrow> sr_event \<Rightarrow> rasta_handle \<Rightarrow> rasta_handle option" where
  "call_notification cb is_set e h =
     (if \<not> is_set then None
      else let h = cb e h in Some (h\<lparr>rh_running_notifications := rh_running_notifications h - 1\<rparr>))"

definition on_constatechange_call :: "application \<Rightarrow> rasta_connection \<Rightarrow> rasta_handle \<Rightarrow> rasta_handle option" where
  "on_constatechange_call cb c h =
     call_notification cb (nt_on_connection_state_change (rh_notifications h)) (On_Connection_State_Change c) h"

definition on_receive_call :: "application \<Rightarrow> rasta_connection \<Rightarrow> rasta_handle \<Rightarrow> rasta_handle option" where
  "on_receive_call cb c h = call_notification cb (nt_on_receive (rh_notifications h)) (On_Receive c) h"

definition on_discrequest_change_call ::
  "application \<Rightarrow> rasta_connection \<Rightarrow> u16 \<Rightarrow> u16 \<Rightarrow> rasta_handle \<Rightarrow> rasta_handle option" where
  "on_discrequest_change_call cb c reason detail h =
     call_notification cb (nt_on_disconnection_request_received (rh_notifications h))
       (On_Disconnection_Request c reason detail) h"

definition on_diagnostic_call :: "application \<Rightarrow> rasta_connection \<Rightarrow> rasta_handle \<Rightarrow> rasta_handle option" where
  "on_diagnostic_call cb c h =
     call_notification cb (nt_on_diagnostic_notification (rh_notifications h)) (On_Diagnostic_Notification c) h"

definition on_handshake_complete_call :: "application \<Rightarrow> rasta_connection \<Rightarrow> rasta_handle \<Rightarrow> rasta_handle option" where
  "on_handshake_complete_call cb c h =
     call_notification cb (nt_on_handshake_complete (rh_notifications h)) (On_Handshake_Complete c) h"

definition on_heartbeat_timeout_call :: "application \<Rightarrow> rasta_connection \<Rightarrow> rasta_handle \<Rightarrow> rasta_handle option" where
  "on_heartbeat_timeout_call cb c h =
     call_notification cb (nt_on_heartbeat_timeout (rh_notifications h)) (On_Heartbeat_Timeout c) h"

subsection \<open>Set-up\<close>

text \<open>
  The fields common to both ways of setting up; the pointers for handshake and heartbeat
  timeout keep the content of the uninitialised handle \<open>h\<close>.
\<close>

definition handle_fields :: "rasta_handle \<Rightarrow> RastaConfigInfo \<Rightarrow> rasta_handle" where
  "handle_fields h configuration =
     h\<lparr>rh_config := configuration,
       rh_notifications := (rh_notifications h)\<lparr>nt_on_receive := False, nt_on_connection_state_change := False,
         nt_on_diagnostic_notification := False, nt_on_disconnection_request_received := False,
         nt_on_redundancy_diagnostic_notification := False\<rparr>,
       rh_running_notifications := 0, rh_connections := rastalist_create 2,
       rh_hashing_context := init_hashing_context (cfg_sending configuration),
       rh_recv_running := False, rh_send_running := False, rh_hb_running := False\<rparr>"

definition rasta_handle_manually_init ::
  "rasta_handle \<Rightarrow> RastaConfigInfo \<Rightarrow> u8 list list \<Rightarrow> rasta_handle" where
  "rasta_handle_manually_init h configuration accepted_versions =
     (handle_fields h configuration)\<lparr>rh_accepted_version := accepted_versions\<rparr>"

text \<open>What \<open>config_load\<close> and \<open>config_get\<close> (config.c) return for the keys used here.\<close>

record loaded_config =
  lc_values :: RastaConfigInfo
  lc_initial_seq :: "int option"
  lc_logger_type :: "int option"
  lc_logger_max_level :: "int option"
  lc_logger_file :: "u8 list option"
  lc_accepted_versions :: "u8 list list option"

definition LOGGER_TYPE_FILE :: int where
  "LOGGER_TYPE_FILE = 1"

definition rasta_handle_init :: "rasta_handle \<Rightarrow> loaded_config \<Rightarrow> rasta_handle exits" where
  "rasta_handle_init h c =
     (case (lc_logger_type c, lc_logger_max_level c) of
        (Some ty, Some lvl) \<Rightarrow>
          if ty = LOGGER_TYPE_FILE \<and> lc_logger_file c = None then Exits
          else let h = (handle_fields h (lc_values c))\<lparr>rh_initial_seq := lc_initial_seq c\<rparr>
               in Continues (case lc_accepted_versions c of
                               Some vs \<Rightarrow> h\<lparr>rh_accepted_version := vs\<rparr>
                             | None \<Rightarrow> h)
      | _ \<Rightarrow> Exits)"

end
