(* ===== verification/Sr_Core.thy ===== *)
theory Sr_Core
  imports Sr_Handle
begin

section \<open>Checks, timers and queues of the safety layer (rasta_new.h, rasta_new.c)\<close>

text \<open>
  The helpers of the handlers. A connection is passed and returned beside the handle; \<open>None\<close>
  is undefined behaviour. The clock is read in the order of the code.
\<close>

definition MAX_QUEUE_SIZE :: nat where "MAX_QUEUE_SIZE = 10"
definition DIAGNOSTIC_INTERVAL_SIZE :: u32 where "DIAGNOSTIC_INTERVAL_SIZE = 500"
definition RASTA_VERSION :: "u8 list" where "RASTA_VERSION = [48, 51, 48, 51]"

definition RASTA_DISC_REASON_USERREQUEST :: u16 where "RASTA_DISC_REASON_USERREQUEST = 0"
definition RASTA_DISC_REASON_UNEXPECTEDTYPE :: u16 where "RASTA_DISC_REASON_UNEXPECTEDTYPE = 2"
definition RASTA_DISC_REASON_SEQNERROR :: u16 where "RASTA_DISC_REASON_SEQNERROR = 3"
definition RASTA_DISC_REASON_TIMEOUT :: u16 where "RASTA_DISC_REASON_TIMEOUT = 4"
definition RASTA_DISC_REASON_SERVICENOTALLOWED :: u16 where "RASTA_DISC_REASON_SERVICENOTALLOWED = 5"
definition RASTA_DISC_REASON_INCOMPATIBLEVERSION :: u16 where "RASTA_DISC_REASON_INCOMPATIBLEVERSION = 6"
definition RASTA_DISC_REASON_RETRFAILED :: u16 where "RASTA_DISC_REASON_RETRFAILED = 7"
definition RASTA_DISC_REASON_PROTOCOLERROR :: u16 where "RASTA_DISC_REASON_PROTOCOLERROR = 8"

type_synonym sr_result = "(rasta_handle \<times> rasta_connection) option"

abbreviation sending :: "rasta_handle \<Rightarrow> RastaConfigInfoSending" where
  "sending h \<equiv> cfg_sending (rh_config h)"

abbreviation general :: "rasta_handle \<Rightarrow> RastaConfigInfoGeneral" where
  "general h \<equiv> cfg_general (rh_config h)"

abbreviation the_indet :: "sr_env \<Rightarrow> indet" where
  "the_indet en \<equiv> un_bytes (se_uninit en)"

subsection \<open>Time and random numbers\<close>

text \<open>\<open>cur_timestamp\<close> and \<open>current_ts\<close> read the same monotonic clock in milliseconds.\<close>

definition cur_timestamp :: "sr_env \<Rightarrow> rasta_handle \<Rightarrow> u32 \<times> rasta_handle" where
  "cur_timestamp en h = (se_clock en (rh_clock_reads h), h\<lparr>rh_clock_reads := rh_clock_reads h + 1\<rparr>)"

definition mix :: "u64 \<Rightarrow> u64 \<Rightarrow> u64 \<Rightarrow> u64" where
  "mix a b c =
     (let a = a - b; a = a - c; a = a XOR drop_bit 13 c;
          b = b - c; b = b - a; b = b XOR push_bit 8 a;
          c = c - a; c = c - b; c = c XOR drop_bit 13 b;
          a = a - b; a = a - c; a = a XOR drop_bit 12 c;
          b = b - c; b = b - a; b = b XOR push_bit 16 a;
          c = c - a; c = c - b; c = c XOR drop_bit 5 b;
          a = a - b; a = a - c; a = a XOR drop_bit 3 c;
          b = b - c; b = b - a; b = b XOR push_bit 10 a;
          c = c - a; c = c - b; c = c XOR drop_bit 15 b
      in c)"

text \<open>The seed is mixed from \<open>clock()\<close>, \<open>time(NULL)\<close> and \<open>getpid()\<close>.\<close>

definition long_random :: "(u64 \<Rightarrow> nat \<Rightarrow> int) \<Rightarrow> u64 \<Rightarrow> u64 \<Rightarrow> u64 \<Rightarrow> u32" where
  "long_random rand clock time pid =
     foldl (\<lambda>r i. r * 2 + word_of_int (rand (mix clock time pid) i mod 2)) 0 [0..<32]"

definition get_initial_seq_num :: "(u64 \<Rightarrow> nat \<Rightarrow> int) \<Rightarrow> u64 \<Rightarrow> u64 \<Rightarrow> u64 \<Rightarrow> int option \<Rightarrow> u32" where
  "get_initial_seq_num rand clock time pid init_seq =
     (case init_seq of
        Some number \<Rightarrow> if number < 0 then long_random rand clock time pid else word_of_int number
      | None \<Rightarrow> long_random rand clock time pid)"

subsection \<open>Protocol versions\<close>

text \<open>
  \<open>strtol(s, &tmp, 4)\<close> on the bytes from a pointer on: white space, a sign, digits of base 4;
  \<open>None\<close> when the bytes end before the number does.
\<close>

fun skip_space :: "u8 list \<Rightarrow> u8 list" where
  "skip_space [] = []"
| "skip_space (c # cs) = (if c = 32 \<or> (9 \<le> c \<and> c \<le> 13) then skip_space cs else c # cs)"

fun digits4 :: "int \<Rightarrow> u8 list \<Rightarrow> int option" where
  "digits4 acc [] = None"
| "digits4 acc (c # cs) = (if 48 \<le> c \<and> c \<le> 51 then digits4 (acc * 4 + (uint c - 48)) cs else Some acc)"

definition LONG_MAX :: int where "LONG_MAX = 2 ^ 63 - 1"

definition strtol4 :: "u8 list \<Rightarrow> int option" where
  "strtol4 s =
     (case skip_space s of
        [] \<Rightarrow> None
      | c # cs \<Rightarrow>
          if c = 45 then map_option (\<lambda>n. max (- LONG_MAX - 1) (- n)) (digits4 0 cs)
          else if c = 43 then map_option (min LONG_MAX) (digits4 0 cs)
          else map_option (min LONG_MAX) (digits4 0 (c # cs)))"

definition compare_version :: "u8 list \<Rightarrow> u8 list \<Rightarrow> int option" where
  "compare_version local_version remote_version =
     do { l \<leftarrow> strtol4 local_version;
          r \<leftarrow> strtol4 remote_version;
          Some (if l = r then 0 else if l < r then -1 else 1) }"

text \<open>The loop over the accepted versions only decides which of two equal results is returned.\<close>

fun version_accepted :: "u8 list list \<Rightarrow> u8 list \<Rightarrow> bool option" where
  "version_accepted [] version = Some True"
| "version_accepted (v # vs) version =
     do { c \<leftarrow> compare_version v version;
          if c = 0 then Some True else version_accepted vs version }"

subsection \<open>Sending\<close>

definition mux_send :: "sr_env \<Rightarrow> rasta_handle \<Rightarrow> RastaPacket \<Rightarrow> rasta_handle option" where
  "mux_send en h p =
     do { (mux, sent, e) \<leftarrow> redundancy_mux_send (the_indet en) (rh_mux h) p (rh_lasterror h);
          Some (h\<lparr>rh_mux := mux, rh_sent := rh_sent h @ sent, rh_lasterror := e\<rparr>) }"

definition send_DisconnectionRequest ::
  "sr_env \<Rightarrow> rasta_handle \<Rightarrow> rasta_connection \<Rightarrow> u16 \<Rightarrow> u16 \<Rightarrow> rasta_handle option" where
  "send_DisconnectionRequest en h connection reason details =
     (let (t, h) = cur_timestamp en h
      in do { discReq \<leftarrow> createDisconnectionRequest (the_indet en) (remote_id connection) (my_id connection)
                (sn_t connection) (cs_t connection) t (ts_r connection)
                \<lparr>dd_details = details, dd_reason = reason\<rparr> (mux_sr_hashing_context (rh_mux h));
              mux_send en h discReq })"

definition send_Heartbeat :: "sr_env \<Rightarrow> rasta_handle \<Rightarrow> rasta_connection \<Rightarrow> sr_result" where
  "send_Heartbeat en h connection =
     (let (t, h) = cur_timestamp en h;
          hb = createHeartbeat (the_indet en) (remote_id connection) (my_id connection) (sn_t connection)
                 (cs_t connection) t (ts_r connection) (mux_sr_hashing_context (rh_mux h))
      in do { h \<leftarrow> mux_send en h hb;
              let (now, h) = cur_timestamp en h
              in Some (h, connection\<lparr>sn_t := sn_t connection + 1, ts_last_message := now\<rparr>) })"

definition send_RetransmissionRequest :: "sr_env \<Rightarrow> rasta_handle \<Rightarrow> rasta_connection \<Rightarrow> sr_result" where
  "send_RetransmissionRequest en h connection =
     (let (t, h) = cur_timestamp en h;
          retrreq = createRetransmissionRequest (the_indet en) (remote_id connection) (my_id connection)
                 (sn_t connection) (cs_t connection) t (ts_r connection) (mux_sr_hashing_context (rh_mux h))
      in do { h \<leftarrow> mux_send en h retrreq; Some (h, connection\<lparr>sn_t := sn_t connection + 1\<rparr>) })"

definition send_RetransmissionResponse :: "sr_env \<Rightarrow> rasta_handle \<Rightarrow> rasta_connection \<Rightarrow> sr_result" where
  "send_RetransmissionResponse en h connection =
     (let (t, h) = cur_timestamp en h;
          retrresp = createRetransmissionResponse (the_indet en) (remote_id connection) (my_id connection)
                 (sn_t connection) (cs_t connection) t (ts_r connection) (mux_sr_hashing_context (rh_mux h))
      in do { h \<leftarrow> mux_send en h retrresp; Some (h, connection\<lparr>sn_t := sn_t connection + 1\<rparr>) })"

definition sr_retr_data_available :: "rasta_connection \<Rightarrow> u32" where
  "sr_retr_data_available connection = fifo_get_size (fifo_retr connection)"

definition sr_rasta_send_data_available :: "rasta_connection \<Rightarrow> u32" where
  "sr_rasta_send_data_available connection = fifo_get_size (fifo_send connection)"

subsection \<open>Timers and diagnostics\<close>

definition updateTI :: "sr_env \<Rightarrow> u32 \<Rightarrow> rasta_handle \<Rightarrow> rasta_connection \<Rightarrow> rasta_handle \<times> rasta_connection" where
  "updateTI en confirmed_timestamp h con =
     (let (t, h) = cur_timestamp en h;
          t_rtd = ucast t + se_tick en - ucast confirmed_timestamp :: u64;
          (now, h) = cur_timestamp en h
      in (h, con\<lparr>t_i := ucast (ucast (cfg_t_max (sending h)) - t_rtd), ti_start_time := now\<rparr>))"

definition resetDiagnostic :: "rasta_connection \<Rightarrow> rasta_connection" where
  "resetDiagnostic connection =
     connection\<lparr>diagnostic_intervals :=
       map (\<lambda>d. d\<lparr>message_count := 0, t_alive_message_count := 0\<rparr>) (diagnostic_intervals connection)\<rparr>"

definition in_interval :: "diagnostic_interval \<Rightarrow> u64 \<Rightarrow> bool" where
  "in_interval d t \<longleftrightarrow> ucast (interval_start d) \<ge> t \<and> ucast (interval_end d) \<le> t"

fun count_interval :: "u64 \<Rightarrow> u64 \<Rightarrow> diagnostic_interval list \<Rightarrow> diagnostic_interval list" where
  "count_interval t_rtd t_alive [] = []"
| "count_interval t_rtd t_alive (d # ds) =
     (if in_interval d t_rtd
      then (let d = d\<lparr>message_count := message_count d + 1\<rparr>
            in if in_interval d t_alive then d\<lparr>t_alive_message_count := t_alive_message_count d + 1\<rparr> else d) # ds
      else d # count_interval t_rtd t_alive ds)"

definition updateDiagnostic ::
  "sr_env \<Rightarrow> rasta_handle \<Rightarrow> rasta_connection \<Rightarrow> RastaPacket \<Rightarrow> rasta_handle \<times> rasta_connection" where
  "updateDiagnostic en h connection receivedPacket =
     (let (t, h) = cur_timestamp en h; t_local = ucast t :: u64;
          t_rtd = t_local + se_tick en - ucast (p_confirmed_timestamp receivedPacket);
          t_alive = t_local - ucast (cts_r connection);
          connection = connection\<lparr>diagnostic_intervals := count_interval t_rtd t_alive (diagnostic_intervals connection),
            received_diagnostic_message_count := received_diagnostic_message_count connection + 1\<rparr>
      in if received_diagnostic_message_count connection \<ge> cfg_diag_window (sending h)
         then (fire_on_diagnostic_notification connection h, resetDiagnostic connection)
         else (h, connection))"

definition sr_diagnostic_interval_init :: "rasta_connection \<Rightarrow> RastaConfigInfoSending \<Rightarrow> rasta_connection" where
  "sr_diagnostic_interval_init connection cfg =
     (let n = unat (cfg_t_max cfg div DIAGNOSTIC_INTERVAL_SIZE)
              + (if cfg_t_max cfg mod DIAGNOSTIC_INTERVAL_SIZE > 0 then 1 else 0)
      in connection\<lparr>received_diagnostic_message_count := 0,
           diagnostic_intervals := map (\<lambda>i. \<lparr>interval_start = DIAGNOSTIC_INTERVAL_SIZE * word_of_nat i,
             interval_end = DIAGNOSTIC_INTERVAL_SIZE * word_of_nat i + DIAGNOSTIC_INTERVAL_SIZE,
             message_count = 0, t_alive_message_count = 0\<rparr>) [0..<n]\<rparr>)"

subsection \<open>The conversions of rasta_new.c\<close>

definition longToBytes2 :: "u64 \<Rightarrow> u8 list" where
  "longToBytes2 v = [ucast (drop_bit 24 v AND 0xFF), ucast (drop_bit 16 v AND 0xFF),
     ucast (drop_bit 8 v AND 0xFF), ucast (v AND 0xFF)]"

definition bytesToLong2 :: "u8 list \<Rightarrow> u32" where
  "bytesToLong2 v = push_bit 24 (ucast (v ! 0)) + push_bit 16 (ucast (v ! 1)) + push_bit 8 (ucast (v ! 2)) + ucast (v ! 3)"

subsection \<open>Checks of a received packet\<close>

definition sr_cts_in_seq :: "rasta_connection \<Rightarrow> RastaConfigInfoSending \<Rightarrow> RastaPacket \<Rightarrow> bool" where
  "sr_cts_in_seq con cfg packet =
     (if p_type packet = RASTA_TYPE_HB \<or> p_type packet = RASTA_TYPE_DATA \<or> p_type packet = RASTA_TYPE_RETRDATA
      then let time_diff = sint (p_confirmed_timestamp packet - cts_r con);
               time_diff = (if time_diff < 0 then 0 else time_diff)
           in time_diff \<ge> 0 \<and> time_diff < sint (cfg_t_max cfg)
      else True)"

definition sr_sn_in_seq :: "rasta_connection \<Rightarrow> RastaPacket \<Rightarrow> bool" where
  "sr_sn_in_seq con packet =
     (if p_type packet = RASTA_TYPE_CONNREQ \<or> p_type packet = RASTA_TYPE_CONNRESP \<or>
         p_type packet = RASTA_TYPE_RETRRESP \<or> p_type packet = RASTA_TYPE_DISCREQ
      then True
      else sn_r con = p_sequence_number packet)"

definition sr_sn_range_valid :: "rasta_connection \<Rightarrow> RastaConfigInfoSending \<Rightarrow> RastaPacket \<Rightarrow> bool" where
  "sr_sn_range_valid con cfg packet =
     (if p_type packet = RASTA_TYPE_CONNREQ \<or> p_type packet = RASTA_TYPE_CONNRESP \<or> p_type packet = RASTA_TYPE_RETRRESP
      then True
      else p_sequence_number packet - sn_r con \<le> ucast (cfg_send_max cfg) * 10)"

definition sr_cs_valid :: "rasta_connection \<Rightarrow> RastaPacket \<Rightarrow> bool" where
  "sr_cs_valid con packet =
     (if p_type packet = RASTA_TYPE_CONNREQ then p_confirmed_sequence_number packet = 0
      else if p_type packet = RASTA_TYPE_CONNRESP then p_confirmed_sequence_number packet = sn_t con - 1
      else p_confirmed_sequence_number packet - cs_r con < sn_t con - cs_r con)"

definition sr_message_authentic :: "rasta_connection \<Rightarrow> RastaPacket \<Rightarrow> bool" where
  "sr_message_authentic con packet \<longleftrightarrow> p_sender_id packet = remote_id con \<and> p_receiver_id packet = my_id con"

definition sr_check_packet :: "rasta_connection \<Rightarrow> RastaConfigInfoSending \<Rightarrow> RastaPacket \<Rightarrow> bool" where
  "sr_check_packet con cfg receivedPacket \<longleftrightarrow>
     p_checksum_correct receivedPacket \<and> sr_message_authentic con receivedPacket \<and>
     sr_sn_range_valid con cfg receivedPacket \<and> sr_cs_valid con receivedPacket \<and>
     sr_sn_in_seq con receivedPacket \<and> sr_cts_in_seq con cfg receivedPacket"

subsection \<open>Connections\<close>

definition sr_reset_connection :: "rasta_connection \<Rightarrow> u64 \<Rightarrow> RastaConfigInfoGeneral \<Rightarrow> rasta_connection" where
  "sr_reset_connection connection rid info =
     connection\<lparr>remote_id := ucast rid, current_state := RASTA_CONNECTION_CLOSED,
       my_id := ucast (cfg_rasta_id info), network_id := ucast (cfg_rasta_network info),
       connected_recv_buffer_size := -1, ti_start_time := 0, hb_locked := True, hb_stopped := False,
       errors := \<lparr>err_safety = 0, err_address = 0, err_type = 0, err_sn = 0, err_cs = 0\<rparr>\<rparr>"

definition mux_remove :: "sr_env \<Rightarrow> u32 \<Rightarrow> rasta_handle \<Rightarrow> rasta_handle" where
  "mux_remove en rid h = h\<lparr>rh_mux := redundancy_mux_remove_channel (se_uninit en) (rh_mux h) (ucast rid)\<rparr>"

definition sr_close_connection ::
  "sr_env \<Rightarrow> rasta_handle \<Rightarrow> rasta_connection \<Rightarrow> u16 \<Rightarrow> u16 \<Rightarrow> sr_result" where
  "sr_close_connection en h connection reason details =
     (let was = current_state connection;
          connection = sr_reset_connection connection (ucast (remote_id connection)) (general h)
      in if was = RASTA_CONNECTION_DOWN \<or> was = RASTA_CONNECTION_CLOSED
         then Some (mux_remove en (remote_id connection) (fire_on_connection_state_change connection h), connection)
         else do {
           h \<leftarrow> send_DisconnectionRequest en h connection reason details;
           let connection = connection\<lparr>current_state := RASTA_CONNECTION_CLOSED\<rparr>
           in Some (mux_remove en (remote_id connection) (fire_on_connection_state_change connection h), connection) })"

definition sr_init_connection ::
  "rasta_connection \<Rightarrow> u64 \<Rightarrow> RastaConfigInfoGeneral \<Rightarrow> RastaConfigInfoSending \<Rightarrow> rasta_role \<Rightarrow> rasta_connection" where
  "sr_init_connection connection rid info cfg r =
     (sr_diagnostic_interval_init ((sr_reset_connection connection rid info)\<lparr>role := r\<rparr>) cfg)
       \<lparr>fifo_app_msg := fifo_init (ucast (cfg_send_max cfg)), fifo_retr := fifo_init (word_of_nat MAX_QUEUE_SIZE),
        fifo_send := fifo_init (2 * cfg_max_packet cfg)\<rparr>"

subsection \<open>Queues\<close>

text \<open>One application message into the receive queue.\<close>

definition add_app_message ::
  "sr_env \<Rightarrow> RastaPacket \<Rightarrow> u8 list \<Rightarrow> rasta_handle \<Rightarrow> rasta_connection \<Rightarrow> sr_result" where
  "add_app_message en packet msg h con =
     do { f \<leftarrow> fifo_push (fifo_app_msg con) (Some \<lparr>app_id = ucast (p_sender_id packet), appMessage = msg\<rparr>);
          let con = con\<lparr>fifo_app_msg := f\<rparr>;
              h = fire_on_receive con h;
              (h, con) = updateTI en (p_confirmed_timestamp packet) h con
          in Some (updateDiagnostic en h con packet) }"

fun add_app_messages ::
  "sr_env \<Rightarrow> RastaPacket \<Rightarrow> RastaMessageData \<Rightarrow> rasta_handle \<Rightarrow> rasta_connection \<Rightarrow> sr_result" where
  "add_app_messages en packet [] h con = Some (h, con)"
| "add_app_messages en packet (m # ms) h con =
     do { (h, con) \<leftarrow> add_app_message en packet m h con; add_app_messages en packet ms h con }"

definition sr_add_app_messages_to_buffer ::
  "sr_env \<Rightarrow> rasta_handle \<Rightarrow> rasta_connection \<Rightarrow> RastaPacket \<Rightarrow> sr_result" where
  "sr_add_app_messages_to_buffer en h con packet =
     do { received_data \<leftarrow> extractMessageData packet; add_app_messages en packet received_data h con }"

text \<open>
  The loop ends at the first packet whose number is the confirmed one, or with the queue. A
  stored array too short for a packet leaves the data pointer unset that is then released.
\<close>

partial_function (option) remove_confirmed ::
  "sr_env \<Rightarrow> rasta_hashing_context_t \<Rightarrow> u32 \<Rightarrow> (u8 list) fifo_t \<Rightarrow> rasta_error_type \<Rightarrow>
   ((u8 list) fifo_t \<times> rasta_error_type) option" where
  "remove_confirmed en ctx cs fifo e =
     Option.bind (fifo_pop fifo) (\<lambda>(element, fifo).
       case element of
         None \<Rightarrow> Some (fifo, e)
       | Some elem \<Rightarrow>
           if length elem < 28 + checksum_len ctx then None
           else Option.bind (bytesToRastaPacket (the_indet en) (rp_data (un_packet (se_uninit en))) elem ctx e)
             (\<lambda>(packet, e). if p_sequence_number packet = cs then Some (fifo, e)
                            else remove_confirmed en ctx cs fifo e))"

definition sr_remove_confirmed_messages :: "sr_env \<Rightarrow> rasta_handle \<Rightarrow> rasta_connection \<Rightarrow> sr_result" where
  "sr_remove_confirmed_messages en h con =
     do { (f, e) \<leftarrow> remove_confirmed en (rh_hashing_context h) (cs_r con) (fifo_retr con) (rh_lasterror h);
          Some (h\<lparr>rh_lasterror := e\<rparr>, con\<lparr>fifo_retr := f\<rparr>) }"

end
