(* ===== verification/Sr_Handlers.thy ===== *)
theory Sr_Handlers
  imports Sr_Core
begin

section \<open>The packet handlers of the safety layer (rasta_new.c)\<close>

text \<open>
  One function per packet type with every branch of the code, and the body of the receive
  thread. A handler runs under the lock of its connection, as one step. Where the code goes
  on after closing a connection, so does the model.
\<close>

definition initial_seq_num :: "sr_env \<Rightarrow> rasta_handle \<Rightarrow> u32" where
  "initial_seq_num en h =
     (let (clock, time, pid) = se_seed en (rh_clock_reads h)
      in get_initial_seq_num (se_rand en) clock time pid (rh_initial_seq h))"

text \<open>The version of a packet as a pointer: its four bytes and what follows them in memory.\<close>

definition version_at :: "sr_env \<Rightarrow> RastaConnectionData \<Rightarrow> u8 list" where
  "version_at en d = cd_version d @ se_after_version en"

definition conreq_version_ok :: "sr_env \<Rightarrow> rasta_handle \<Rightarrow> RastaConnectionData \<Rightarrow> bool option" where
  "conreq_version_ok en h d =
     do { c \<leftarrow> compare_version (RASTA_VERSION @ [0]) (version_at en d);
          if c = 0 then Some True
          else if c = -1 then Some True
          else version_accepted (rh_accepted_version h) (version_at en d) }"

subsection \<open>Connection request\<close>

text \<open>The new connection with the values of an accepted request, and the response to it.\<close>

definition conreq_connection ::
  "sr_env \<Rightarrow> rasta_handle \<Rightarrow> rasta_connection \<Rightarrow> RastaPacket \<Rightarrow> RastaConnectionData \<Rightarrow>
   rasta_handle \<times> rasta_connection" where
  "conreq_connection en h new_con receivedPacket connectionData =
     (let (t, h) = cur_timestamp en h
      in (h, new_con\<lparr>sn_r := p_sequence_number receivedPacket + 1, cs_t := p_sequence_number receivedPacket,
             ts_r := p_timestamp receivedPacket, connected_recv_buffer_size := uint (cd_send_max connectionData),
             cs_r := sn_t new_con - 1, cts_r := t, t_i := cfg_t_max (sending h)\<rparr>))"

definition handle_conreq :: "sr_env \<Rightarrow> rasta_handle \<Rightarrow> nat option \<Rightarrow> RastaPacket \<Rightarrow> rasta_handle option" where
  "handle_conreq en h connection receivedPacket =
     (let known = map_option (\<lambda>i. rl_data (rh_connections h) ! i) connection
      in if case known of None \<Rightarrow> True
            | Some c \<Rightarrow> current_state c = RASTA_CONNECTION_CLOSED \<or> current_state c = RASTA_CONNECTION_DOWN
         then
           let new_con = (sr_init_connection (se_connection en) (ucast (p_sender_id receivedPacket)) (general h) (sending h)
                            RASTA_ROLE_SERVER)\<lparr>sn_t := initial_seq_num en h, current_state := RASTA_CONNECTION_DOWN\<rparr>
           in if \<not> sr_check_packet new_con (sending h) receivedPacket
              then map_option fst (sr_close_connection en h new_con RASTA_DISC_REASON_PROTOCOLERROR 0)
              else do {
                let (connectionData, fe) = extractRastaConnectionData receivedPacket (rh_factory_error h);
                    h = h\<lparr>rh_factory_error := fe\<rparr> in do {
                ok \<leftarrow> conreq_version_ok en h connectionData;
                if ok then do {
                  let (h, new_con) = conreq_connection en h new_con receivedPacket connectionData;
                      (t, h) = cur_timestamp en h in do {
                  conresp \<leftarrow> createConnectionResponse (the_indet en) (remote_id new_con) (my_id new_con)
                    (sn_t new_con) (cs_t new_con) t (cts_r new_con) (cfg_send_max (sending h)) RASTA_VERSION
                    (rh_hashing_context h);
                  let new_con = new_con\<lparr>sn_t := sn_t new_con + 1, current_state := RASTA_CONNECTION_START\<rparr>;
                      cons = (case connection of
                          Some i \<Rightarrow> (rh_connections h)\<lparr>rl_data := (rl_data (rh_connections h))[i := new_con]\<rparr>
                        | None \<Rightarrow> snd (rastalist_addConnection (rh_connections h) new_con))
                  in mux_send en (fire_on_connection_state_change new_con (h\<lparr>rh_connections := cons\<rparr>)) conresp } }
                else map_option fst (sr_close_connection en h new_con RASTA_DISC_REASON_INCOMPATIBLEVERSION 0) } }
         else do {
           (h, c) \<leftarrow> sr_close_connection en h (the known) RASTA_DISC_REASON_UNEXPECTEDTYPE 0;
           Some (h\<lparr>rh_connections := (rh_connections h)\<lparr>rl_data := (rl_data (rh_connections h))[the connection := c]\<rparr>\<rparr>) })"

subsection \<open>Connection response and disconnection request\<close>

definition handle_conresp :: "sr_env \<Rightarrow> rasta_handle \<Rightarrow> rasta_connection \<Rightarrow> RastaPacket \<Rightarrow> sr_result" where
  "handle_conresp en h connection receivedPacket =
     (if \<not> sr_check_packet connection (sending h) receivedPacket
      then sr_close_connection en h connection RASTA_DISC_REASON_PROTOCOLERROR 0
      else if current_state connection = RASTA_CONNECTION_START
      then if role connection = RASTA_ROLE_CLIENT
           then let (connectionData, fe) = extractRastaConnectionData receivedPacket (rh_factory_error h);
                    h = h\<lparr>rh_factory_error := fe\<rparr> in do {
                ok \<leftarrow> version_accepted (rh_accepted_version h) (version_at en connectionData);
                if ok then do {
                  (h, connection) \<leftarrow> send_Heartbeat en h
                    (connection\<lparr>sn_r := p_sequence_number receivedPacket + 1, cs_t := p_sequence_number receivedPacket,
                       ts_r := p_timestamp receivedPacket, cs_r := p_confirmed_sequence_number receivedPacket\<rparr>);
                  let connection = connection\<lparr>current_state := RASTA_CONNECTION_UP\<rparr>;
                      h = fire_on_connection_state_change connection h;
                      h = fire_on_handshake_complete connection h;
                      (now, h) = cur_timestamp en h;
                      connection = connection\<lparr>ts_last_message := now, hb_locked := False,
                        connected_recv_buffer_size := uint (cd_send_max connectionData)\<rparr>;
                      (now, h) = cur_timestamp en h
                  in Some (h, connection\<lparr>ti_start_time := now\<rparr>) }
                else sr_close_connection en h connection RASTA_DISC_REASON_INCOMPATIBLEVERSION 0 }
           else sr_close_connection en h connection RASTA_DISC_REASON_UNEXPECTEDTYPE 0
      else if current_state connection = RASTA_CONNECTION_RETRREQ \<or>
              current_state connection = RASTA_CONNECTION_RETRRUN \<or> current_state connection = RASTA_CONNECTION_UP
      then sr_close_connection en h connection RASTA_DISC_REASON_UNEXPECTEDTYPE 0
      else Some (h, connection))"

definition handle_discreq :: "sr_env \<Rightarrow> rasta_handle \<Rightarrow> rasta_connection \<Rightarrow> RastaPacket \<Rightarrow> sr_result" where
  "handle_discreq en h connection receivedPacket =
     (let connection = sr_reset_connection (connection\<lparr>current_state := RASTA_CONNECTION_CLOSED\<rparr>)
                         (ucast (remote_id connection)) (general h);
          h = mux_remove en (remote_id connection) h;
          h = fire_on_connection_state_change connection h;
          (data, fe) = extractRastaDisconnectionData receivedPacket (rh_factory_error h)
      in Some (fire_on_discrequest_state_change connection data (h\<lparr>rh_factory_error := fe\<rparr>), connection))"

subsection \<open>Heartbeat\<close>

text \<open>Two closes may come first; the code then goes on with the closed connection.\<close>

definition hb_in_start :: "sr_env \<Rightarrow> rasta_handle \<Rightarrow> rasta_connection \<Rightarrow> RastaPacket \<Rightarrow> sr_result" where
  "hb_in_start en h connection receivedPacket =
     do { (h, connection) \<leftarrow>
            (if \<not> sr_sn_in_seq connection receivedPacket
             then if role connection = RASTA_ROLE_SERVER
                  then sr_close_connection en h connection RASTA_DISC_REASON_SEQNERROR 0
                  else sr_close_connection en h connection RASTA_DISC_REASON_UNEXPECTEDTYPE 0
             else Some (h, connection));
          (h, connection) \<leftarrow>
            (if role connection = RASTA_ROLE_CLIENT
             then sr_close_connection en h connection RASTA_DISC_REASON_UNEXPECTEDTYPE 0
             else Some (h, connection));
          if sr_cts_in_seq connection (sending h) receivedPacket
          then let connection = connection\<lparr>sn_r := p_sequence_number receivedPacket + 1,
                     cs_t := p_sequence_number receivedPacket, cs_r := p_confirmed_sequence_number receivedPacket,
                     ts_r := p_timestamp receivedPacket, current_state := RASTA_CONNECTION_UP, hb_locked := False\<rparr>;
                   h = fire_on_connection_state_change connection h;
                   h = fire_on_handshake_complete connection h;
                   (now, h) = cur_timestamp en h; (now', h) = cur_timestamp en h
               in Some (h, connection\<lparr>ts_last_message := now, ti_start_time := now'\<rparr>)
          else sr_close_connection en h connection RASTA_DISC_REASON_PROTOCOLERROR 0 }"

definition up_or_running :: "rasta_connection \<Rightarrow> bool" where
  "up_or_running c \<longleftrightarrow> current_state c = RASTA_CONNECTION_UP \<or> current_state c = RASTA_CONNECTION_RETRRUN"

definition handle_hb :: "sr_env \<Rightarrow> rasta_handle \<Rightarrow> rasta_connection \<Rightarrow> RastaPacket \<Rightarrow> sr_result" where
  "handle_hb en h connection receivedPacket =
     (if current_state connection = RASTA_CONNECTION_START then hb_in_start en h connection receivedPacket
      else if sr_sn_in_seq connection receivedPacket
      then if up_or_running connection
           then if sr_cts_in_seq connection (sending h) receivedPacket
                then let (h, connection) = updateTI en (p_confirmed_timestamp receivedPacket) h connection;
                         (h, connection) = updateDiagnostic en h connection receivedPacket;
                         (now, h) = cur_timestamp en h;
                         connection = connection\<lparr>sn_r := p_sequence_number receivedPacket + 1,
                           cs_t := p_sequence_number receivedPacket, ts_r := p_timestamp receivedPacket,
                           cs_r := sn_t connection - 1, cts_r := now\<rparr>
                     in if current_state connection = RASTA_CONNECTION_RETRRUN
                        then let connection = connection\<lparr>current_state := RASTA_CONNECTION_UP\<rparr>
                             in Some (fire_on_connection_state_change connection h, connection)
                        else Some (h, connection)
                else sr_close_connection en h connection RASTA_DISC_REASON_TIMEOUT 0
           else Some (h, connection)
      else if up_or_running connection
      then let connection = connection\<lparr>current_state := RASTA_CONNECTION_RETRREQ\<rparr>
           in Some (fire_on_connection_state_change connection h, connection)
      else Some (h, connection))"

subsection \<open>Data\<close>

definition handle_data :: "sr_env \<Rightarrow> rasta_handle \<Rightarrow> rasta_connection \<Rightarrow> RastaPacket \<Rightarrow> sr_result" where
  "handle_data en h connection receivedPacket =
     (if sr_sn_in_seq connection receivedPacket
      then if current_state connection = RASTA_CONNECTION_START
           then sr_close_connection en h connection RASTA_DISC_REASON_UNEXPECTEDTYPE 0
           else if current_state connection = RASTA_CONNECTION_UP
           then if sr_cts_in_seq connection (sending h) receivedPacket
                then do {
                  (h, connection) \<leftarrow> sr_add_app_messages_to_buffer en h connection receivedPacket;
                  sr_remove_confirmed_messages en h
                    (connection\<lparr>sn_r := p_sequence_number receivedPacket + 1, cs_t := p_sequence_number receivedPacket,
                       cs_r := p_confirmed_sequence_number receivedPacket, ts_r := p_timestamp receivedPacket,
                       cts_r := p_confirmed_timestamp receivedPacket\<rparr>) }
                else sr_close_connection en h
                       (connection\<lparr>errors := (errors connection)\<lparr>err_cs := err_cs (errors connection) + 1\<rparr>\<rparr>)
                       RASTA_DISC_REASON_PROTOCOLERROR 0
           else if current_state connection = RASTA_CONNECTION_RETRRUN
           then if sr_cts_in_seq connection (sending h) receivedPacket
                then Some (h, connection\<lparr>sn_r := p_sequence_number receivedPacket + 1,
                       cs_t := p_sequence_number receivedPacket, ts_r := p_timestamp receivedPacket\<rparr>)
                else sr_close_connection en h connection RASTA_DISC_REASON_PROTOCOLERROR 0
           else Some (h, connection)
      else if current_state connection = RASTA_CONNECTION_START
      then sr_close_connection en h connection RASTA_DISC_REASON_UNEXPECTEDTYPE 0
      else if up_or_running connection
      then do {
        (h, connection) \<leftarrow> send_RetransmissionRequest en h
          (connection\<lparr>errors := (errors connection)\<lparr>err_sn := err_sn (errors connection) + 1\<rparr>\<rparr>);
        let connection = connection\<lparr>current_state := RASTA_CONNECTION_RETRREQ\<rparr>
        in Some (fire_on_connection_state_change connection h, connection) }
      else Some (h, connection))"

subsection \<open>Retransmission\<close>

text \<open>
  The local array of ten byte arrays: the popped elements, then entries that were never set
  (\<open>None\<close>). Popping more than the queue holds would follow a null pointer.
\<close>

fun pop_all :: "nat \<Rightarrow> (u8 list) fifo_t \<Rightarrow> (u8 list list \<times> (u8 list) fifo_t) option" where
  "pop_all 0 f = Some ([], f)"
| "pop_all (Suc n) f =
     do { (element, f) \<leftarrow> fifo_pop f; x \<leftarrow> element; (xs, f) \<leftarrow> pop_all n f; Some (x # xs, f) }"

definition retransmit_one :: "sr_env \<Rightarrow> u8 list option list \<Rightarrow> nat \<Rightarrow> rasta_handle \<Rightarrow> rasta_connection \<Rightarrow> sr_result" where
  "retransmit_one en packets i h connection =
     do { entry \<leftarrow> buf_get packets i;
          bytes \<leftarrow> entry;
          (old_p, e) \<leftarrow> bytesToRastaPacket (the_indet en) (rp_data (un_packet (se_uninit en))) bytes
                         (rh_hashing_context h) (rh_lasterror h);
          app_messages \<leftarrow> extractMessageData old_p;
          let (t, h) = cur_timestamp en h in do {
          data \<leftarrow> createRetransmittedDataMessage (the_indet en) (remote_id connection) (my_id connection)
                    (sn_t connection) (cs_t connection) t (cts_r connection) app_messages (rh_hashing_context h);
          (new_p, e) \<leftarrow> rastaModuleToBytes (the_indet en) data (rh_hashing_context h) e;
          f \<leftarrow> fifo_push (fifo_retr connection) (Some new_p);
          h \<leftarrow> mux_send en (h\<lparr>rh_lasterror := e\<rparr>) data;
          let (now, h) = cur_timestamp en h
          in Some (h, connection\<lparr>fifo_retr := f, sn_t := sn_t connection + 1, ts_last_message := now\<rparr>) } }"

fun retransmit_loop ::
  "sr_env \<Rightarrow> u8 list option list \<Rightarrow> nat list \<Rightarrow> rasta_handle \<Rightarrow> rasta_connection \<Rightarrow> sr_result" where
  "retransmit_loop en packets [] h connection = Some (h, connection)"
| "retransmit_loop en packets (i # is) h connection =
     do { (h, connection) \<leftarrow> retransmit_one en packets i h connection;
          retransmit_loop en packets is h connection }"

definition sr_retransmit_data :: "sr_env \<Rightarrow> rasta_handle \<Rightarrow> rasta_connection \<Rightarrow> sr_result" where
  "sr_retransmit_data en h connection =
     (let buffer_n = unat (fifo_get_size (fifo_retr connection))
      in if MAX_QUEUE_SIZE < buffer_n then None
         else do {
           (elements, f) \<leftarrow> pop_all buffer_n (fifo_retr connection);
           (h, connection) \<leftarrow>
             retransmit_loop en (map Some elements @ replicate (MAX_QUEUE_SIZE - buffer_n) None) [0..<buffer_n + 1]
               h (connection\<lparr>fifo_retr := f\<rparr>);
           send_Heartbeat en h connection })"

definition handle_retrreq :: "sr_env \<Rightarrow> rasta_handle \<Rightarrow> rasta_connection \<Rightarrow> RastaPacket \<Rightarrow> sr_result" where
  "handle_retrreq en h connection receivedPacket =
     (if sr_sn_in_seq connection receivedPacket
      then do {
        (h, connection) \<leftarrow>
          (if current_state connection = RASTA_CONNECTION_RETRRUN
           then sr_close_connection en h connection RASTA_DISC_REASON_RETRFAILED 0
           else Some (h, connection));
        (h, connection) \<leftarrow> sr_remove_confirmed_messages en h
          (connection\<lparr>sn_r := p_sequence_number receivedPacket + 1, cs_t := p_sequence_number receivedPacket,
             cs_r := p_confirmed_sequence_number receivedPacket, ts_r := p_timestamp receivedPacket\<rparr>);
        (h, connection) \<leftarrow> send_RetransmissionResponse en h connection;
        (h, connection) \<leftarrow> sr_retransmit_data en h connection;
        Some (fire_on_connection_state_change connection h, connection) }
      else do {
        (h, connection) \<leftarrow> sr_remove_confirmed_messages en h
          (connection\<lparr>cs_r := p_confirmed_sequence_number receivedPacket\<rparr>);
        (h, connection) \<leftarrow> send_RetransmissionResponse en h connection;
        (h, connection) \<leftarrow> sr_retransmit_data en h connection;
        let connection = connection\<lparr>current_state := RASTA_CONNECTION_RETRREQ\<rparr>
        in Some (fire_on_connection_state_change connection h, connection) })"

definition handle_retrresp :: "sr_env \<Rightarrow> rasta_handle \<Rightarrow> rasta_connection \<Rightarrow> RastaPacket \<Rightarrow> sr_result" where
  "handle_retrresp en h connection receivedPacket =
     (if current_state connection = RASTA_CONNECTION_RETRREQ
      then let (now, h) = cur_timestamp en h
           in Some (h, connection\<lparr>current_state := RASTA_CONNECTION_RETRRUN,
                  sn_r := p_sequence_number receivedPacket + 1, cs_t := p_sequence_number receivedPacket,
                  ts_r := p_timestamp receivedPacket, cs_r := sn_t connection - 1, cts_r := now\<rparr>)
      else sr_close_connection en h connection RASTA_DISC_REASON_UNEXPECTEDTYPE 0)"

definition handle_retrdata :: "sr_env \<Rightarrow> rasta_handle \<Rightarrow> rasta_connection \<Rightarrow> RastaPacket \<Rightarrow> sr_result" where
  "handle_retrdata en h connection receivedPacket =
     (if sr_sn_in_seq connection receivedPacket
      then if current_state connection = RASTA_CONNECTION_UP
           then sr_close_connection en h connection RASTA_DISC_REASON_UNEXPECTEDTYPE 0
           else if current_state connection = RASTA_CONNECTION_RETRRUN
           then if \<not> sr_cts_in_seq connection (sending h) receivedPacket
                then sr_close_connection en h connection RASTA_DISC_REASON_PROTOCOLERROR 0
                else do {
                  (h, connection) \<leftarrow> sr_add_app_messages_to_buffer en h connection receivedPacket;
                  Some (h, connection\<lparr>sn_r := p_sequence_number receivedPacket + 1,
                    cs_t := p_sequence_number receivedPacket, cs_r := p_confirmed_sequence_number receivedPacket,
                    ts_r := p_timestamp receivedPacket\<rparr>) }
           else Some (h, connection)
      else if current_state connection = RASTA_CONNECTION_UP
      then sr_close_connection en h connection RASTA_DISC_REASON_UNEXPECTEDTYPE 0
      else if current_state connection = RASTA_CONNECTION_RETRRUN
      then do {
        (h, connection) \<leftarrow> send_RetransmissionRequest en h connection;
        let connection = connection\<lparr>current_state := RASTA_CONNECTION_RETRREQ\<rparr>
        in Some (fire_on_connection_state_change connection h, connection) }
      else Some (h, connection))"

end
