(* ===== verification/Sr_Node.thy ===== *)
theory Sr_Node
  imports Sr_Handlers
begin

section \<open>The threads and services of a node (rasta_new.c)\<close>

text \<open>
  The bodies of the receive, heartbeat and send threads for one packet or one connection,
  the loops over the connections, and the services the application calls.
\<close>

definition set_connection :: "nat \<Rightarrow> rasta_connection \<Rightarrow> rasta_handle \<Rightarrow> rasta_handle" where
  "set_connection i c h = h\<lparr>rh_connections := (rh_connections h)\<lparr>rl_data := (rl_data (rh_connections h))[i := c]\<rparr>\<rparr>"

text \<open>A step on the connection with index \<open>i\<close>, written back into the list.\<close>

definition on_connection :: "nat \<Rightarrow> (rasta_handle \<Rightarrow> rasta_connection \<Rightarrow> sr_result) \<Rightarrow> rasta_handle \<Rightarrow> rasta_handle option" where
  "on_connection i f h = do { (h, c) \<leftarrow> f h (rl_data (rh_connections h) ! i); Some (set_connection i c h) }"

subsection \<open>The receive thread\<close>

definition count_error ::
  "(rasta_error_counters \<Rightarrow> rasta_error_counters) \<Rightarrow> rasta_connection \<Rightarrow> rasta_connection" where
  "count_error f c = c\<lparr>errors := f (errors c)\<rparr>"

definition dispatch :: "sr_env \<Rightarrow> RastaPacket \<Rightarrow> rasta_handle \<Rightarrow> rasta_connection \<Rightarrow> sr_result" where
  "dispatch en receivedPacket h con =
     (if p_type receivedPacket = RASTA_TYPE_RETRDATA then handle_retrdata en h con receivedPacket
      else if p_type receivedPacket = RASTA_TYPE_DATA then handle_data en h con receivedPacket
      else if p_type receivedPacket = RASTA_TYPE_RETRREQ then handle_retrreq en h con receivedPacket
      else if p_type receivedPacket = RASTA_TYPE_RETRRESP then handle_retrresp en h con receivedPacket
      else if p_type receivedPacket = RASTA_TYPE_DISCREQ then handle_discreq en h con receivedPacket
      else if p_type receivedPacket = RASTA_TYPE_HB then handle_hb en h con receivedPacket
      else Some (h, count_error (\<lambda>e. e\<lparr>err_type := err_type e + 1\<rparr>) con))"

text \<open>The checks of a packet from a known entity, in the order of the code.\<close>

definition receive_known :: "sr_env \<Rightarrow> RastaPacket \<Rightarrow> rasta_handle \<Rightarrow> rasta_connection \<Rightarrow> sr_result" where
  "receive_known en receivedPacket h con =
     (if p_type receivedPacket = RASTA_TYPE_CONNRESP then handle_conresp en h con receivedPacket
      else if \<not> p_checksum_correct receivedPacket
      then Some (h, count_error (\<lambda>e. e\<lparr>err_safety := err_safety e + 1\<rparr>) con)
      else if \<not> sr_message_authentic con receivedPacket
      then Some (h, count_error (\<lambda>e. e\<lparr>err_address := err_address e + 1\<rparr>) con)
      else if \<not> sr_sn_range_valid con (sending h) receivedPacket
      then Some (h, count_error (\<lambda>e. e\<lparr>err_sn := err_sn e + 1\<rparr>) con)
      else if \<not> sr_cs_valid con receivedPacket
      then Some (h, count_error (\<lambda>e. e\<lparr>err_cs := err_cs e + 1\<rparr>) con)
      else dispatch en receivedPacket h con)"

text \<open>
  One received packet. A packet that was too short to unpack has length 0 and an unset data
  pointer, which is released at the end.
\<close>

definition receive_step :: "sr_env \<Rightarrow> RastaPacket \<Rightarrow> rasta_handle \<Rightarrow> rasta_handle option" where
  "receive_step en receivedPacket h =
     do { h \<leftarrow> (let con = rastalist_getConnectionByRemote (rh_connections h) (ucast (p_sender_id receivedPacket))
               in if p_type receivedPacket = RASTA_TYPE_CONNREQ then handle_conreq en h con receivedPacket
                  else case con of
                         None \<Rightarrow> Some h
                       | Some i \<Rightarrow> on_connection i (receive_known en receivedPacket) h);
          if p_length receivedPacket = 0 then None else Some h }"

text \<open>One round of the receive thread: it takes the next packet of any channel.\<close>

definition receive_thread_round :: "sr_env \<Rightarrow> rasta_handle \<Rightarrow> rasta_handle blocking option" where
  "receive_thread_round en h =
     do { r \<leftarrow> redundancy_mux_retrieve_all (se_uninit en) (rh_mux h) (rh_lasterror h);
          case r of
            Waiting \<Rightarrow> Some Waiting
          | Ready (receivedPacket, mux, e) \<Rightarrow>
              map_option Ready (receive_step en receivedPacket (h\<lparr>rh_mux := mux, rh_lasterror := e\<rparr>)) }"

subsection \<open>The heartbeat thread\<close>

text \<open>Times are compared as 64-bit numbers. The result of the sleep computation is not kept.\<close>

definition timer_expired :: "u32 \<Rightarrow> rasta_connection \<Rightarrow> bool" where
  "timer_expired current_time c \<longleftrightarrow>
     ti_start_time c > 0 \<and> (ucast current_time - ucast (ti_start_time c) :: u64) \<ge> ucast (t_i c)"

definition heartbeat_due :: "u32 \<Rightarrow> RastaConfigInfoSending \<Rightarrow> rasta_connection \<Rightarrow> bool" where
  "heartbeat_due current_time cfg c \<longleftrightarrow>
     (ucast current_time - ucast (ts_last_message c) :: u64) > ucast (cfg_t_h cfg) \<and> \<not> hb_stopped c"

definition heartbeat_connection :: "sr_env \<Rightarrow> rasta_handle \<Rightarrow> rasta_connection \<Rightarrow> sr_result" where
  "heartbeat_connection en h connection =
     (if hb_locked connection then Some (h, connection)
      else if up_or_running connection \<or> current_state connection = RASTA_CONNECTION_RETRREQ
      then let (current_time, h) = cur_timestamp en h in do {
           (h, connection) \<leftarrow>
             (if timer_expired current_time connection
              then sr_close_connection en (fire_on_hearbeat_timeout connection h) connection RASTA_DISC_REASON_TIMEOUT 0
              else Some (h, connection));
           if heartbeat_due current_time (sending h) connection
           then do { (h, connection) \<leftarrow> send_Heartbeat en h connection;
                     let (now, h) = cur_timestamp en h in Some (h, connection\<lparr>ts_last_message := now\<rparr>) }
           else Some (h, connection) }
      else Some (h, connection))"

fun all_connections ::
  "(rasta_handle \<Rightarrow> rasta_connection \<Rightarrow> sr_result) \<Rightarrow> nat list \<Rightarrow> rasta_handle \<Rightarrow> rasta_handle option" where
  "all_connections f [] h = Some h"
| "all_connections f (i # is) h =
     do { h \<leftarrow> (case rastalist_getConnection (rh_connections h) i of
                  None \<Rightarrow> Some h
                | Some k \<Rightarrow> on_connection k f h);
          all_connections f is h }"

definition heartbeat_thread_round :: "sr_env \<Rightarrow> rasta_handle \<Rightarrow> rasta_handle option" where
  "heartbeat_thread_round en h = all_connections (heartbeat_connection en) [0..<rastalist_count (rh_connections h)] h"

subsection \<open>The send thread\<close>

definition send_connection :: "sr_env \<Rightarrow> rasta_handle \<Rightarrow> rasta_connection \<Rightarrow> sr_result" where
  "send_connection en h connection =
     (if current_state connection = RASTA_CONNECTION_DOWN \<or> current_state connection = RASTA_CONNECTION_CLOSED
      then Some (h, connection)
      else if sr_retr_data_available connection \<le> cfg_max_packet (sending h)
      then let msg_queue = sr_rasta_send_data_available connection
           in if msg_queue > 0
              then let msg_queue = (if msg_queue \<ge> cfg_max_packet (sending h) then cfg_max_packet (sending h) else msg_queue)
                   in do {
                     (app_messages, f) \<leftarrow> pop_all (unat msg_queue) (fifo_send connection);
                     let (t, h) = cur_timestamp en h in do {
                     data \<leftarrow> createDataMessage (the_indet en) (remote_id connection) (my_id connection)
                       (sn_t connection) (cs_t connection) t (ts_r connection) app_messages (rh_hashing_context h);
                     (packet, e) \<leftarrow> rastaModuleToBytes (the_indet en) data (rh_hashing_context h) (rh_lasterror h);
                     retr \<leftarrow> fifo_push (fifo_retr connection) (Some packet);
                     h \<leftarrow> mux_send en (h\<lparr>rh_lasterror := e\<rparr>) data;
                     let (now, h) = cur_timestamp en h
                     in Some (h, connection\<lparr>fifo_send := f, fifo_retr := retr, sn_t := p_sequence_number data + 1,
                            ts_last_message := now, hb_stopped := False, is_sending := False\<rparr>) } }
              else Some (h, connection)
      else Some (h, connection))"

definition send_thread_round :: "sr_env \<Rightarrow> rasta_handle \<Rightarrow> rasta_handle option" where
  "send_thread_round en h = all_connections (send_connection en) [0..<rastalist_count (rh_connections h)] h"

subsection \<open>Start\<close>

definition sr_start_receiving :: "rasta_handle \<Rightarrow> rasta_handle" where
  "sr_start_receiving h = (if rh_recv_running h then h else h\<lparr>rh_recv_running := True\<rparr>)"

definition sr_start_heartbeats :: "rasta_handle \<Rightarrow> rasta_handle" where
  "sr_start_heartbeats h = (if rh_hb_running h then h else h\<lparr>rh_hb_running := True\<rparr>)"

definition sr_start_sending :: "rasta_handle \<Rightarrow> rasta_handle" where
  "sr_start_sending h = (if rh_send_running h then h else h\<lparr>rh_send_running := True\<rparr>)"

definition sr_start :: "rasta_handle \<Rightarrow> rasta_handle option" where
  "sr_start h =
     do { (mux, threads) \<leftarrow> redundancy_mux_open (rh_mux h);
          Some (sr_start_sending (sr_start_heartbeats (sr_start_receiving (h\<lparr>rh_mux := mux\<rparr>)))) }"

definition init_mux :: "(nat \<Rightarrow> int) \<Rightarrow> rasta_handle \<Rightarrow> rasta_handle" where
  "init_mux fds h =
     h\<lparr>rh_mux := (redundancy_mux_init_from_config fds (mux_sr_hashing_context (rh_mux h)) (rh_config h))
         \<lparr>mux_on_diagnostics_available := nt_on_redundancy_diagnostic_notification (rh_notifications h)\<rparr>\<rparr>"

definition sr_init_handle_manually ::
  "(nat \<Rightarrow> int) \<Rightarrow> rasta_handle \<Rightarrow> RastaConfigInfo \<Rightarrow> u8 list list \<Rightarrow> rasta_handle option" where
  "sr_init_handle_manually fds handle configuration accepted_version =
     sr_start (init_mux fds (rasta_handle_manually_init handle configuration accepted_version))"

text \<open>After loading, the hashing context is MD4 with the configured vector, whatever was configured.\<close>

definition sr_init_handle :: "(nat \<Rightarrow> int) \<Rightarrow> rasta_handle \<Rightarrow> loaded_config \<Rightarrow> rasta_handle option exits" where
  "sr_init_handle fds handle c =
     (case rasta_handle_init handle c of
        Exits \<Rightarrow> Exits
      | Continues h \<Rightarrow>
          let h = init_mux fds h; s = sending h;
              ctx = rasta_md4_set_key ((rh_hashing_context h)\<lparr>algorithm := RASTA_ALGO_MD4, hash_length := cfg_md4_type s\<rparr>)
                      (cfg_md4_a s) (cfg_md4_b s) (cfg_md4_c s) (cfg_md4_d s)
          in Continues (sr_start (h\<lparr>rh_hashing_context := ctx\<rparr>)))"

subsection \<open>Services\<close>

definition sr_connect :: "sr_env \<Rightarrow> rasta_handle \<Rightarrow> u64 \<Rightarrow> RastaIPData list \<Rightarrow> rasta_handle option" where
  "sr_connect en handle rid channels =
     (if \<exists>c \<in> set (rl_data (rh_connections handle)). ucast (remote_id c) = rid then Some handle
      else do {
        mux \<leftarrow> redundancy_mux_add_channel (se_uninit en) (rh_mux handle) rid channels;
        let handle = handle\<lparr>rh_mux := redundancy_mux_set_config_id mux rid\<rparr>;
            new_con = (sr_init_connection (se_connection en) rid (general handle) (sending handle) RASTA_ROLE_CLIENT)
                        \<lparr>sn_t := initial_seq_num en handle\<rparr>;
            (t, handle) = cur_timestamp en handle;
            new_con = new_con\<lparr>cs_t := 0, cts_r := t, t_i := cfg_t_max (sending handle)\<rparr>;
            (t, handle) = cur_timestamp en handle in do {
        conreq \<leftarrow> createConnectionRequest (the_indet en) (remote_id new_con) (my_id new_con) (sn_t new_con) t
          (cfg_send_max (sending handle)) RASTA_VERSION (rh_hashing_context handle);
        handle \<leftarrow> mux_send en handle conreq;
        let new_con = new_con\<lparr>sn_t := sn_t new_con + 1, current_state := RASTA_CONNECTION_START\<rparr>;
            cons = snd (rastalist_addConnection (rh_connections handle) new_con)
        in Some (fire_on_connection_state_change new_con (handle\<lparr>rh_connections := cons\<rparr>)) } })"

fun push_all :: "RastaMessageData \<Rightarrow> (u8 list) fifo_t \<Rightarrow> (u8 list) fifo_t option" where
  "push_all [] f = Some f"
| "push_all (m # ms) f = do { f \<leftarrow> fifo_push f (Some m); push_all ms f }"

definition send_on :: "sr_env \<Rightarrow> RastaMessageData \<Rightarrow> rasta_handle \<Rightarrow> rasta_connection \<Rightarrow> sr_result" where
  "send_on en app_messages h connection =
     (if current_state connection = RASTA_CONNECTION_UP
      then if length app_messages > unat (cfg_max_packet (sending h)) then Some (h, connection)
           else do { f \<leftarrow> push_all app_messages (fifo_send connection); Some (h, connection\<lparr>fifo_send := f\<rparr>) }
      else if current_state connection = RASTA_CONNECTION_CLOSED \<or> current_state connection = RASTA_CONNECTION_DOWN
      then let connection = connection\<lparr>current_state := RASTA_CONNECTION_CLOSED\<rparr>
           in Some (fire_on_connection_state_change connection h, connection)
      else do {
        h \<leftarrow> send_DisconnectionRequest en h connection RASTA_DISC_REASON_SERVICENOTALLOWED 0;
        let connection = connection\<lparr>current_state := RASTA_CONNECTION_CLOSED\<rparr>
        in Some (fire_on_connection_state_change connection h, connection) })"

definition sr_send :: "sr_env \<Rightarrow> rasta_handle \<Rightarrow> u64 \<Rightarrow> RastaMessageData \<Rightarrow> rasta_handle option" where
  "sr_send en h rid app_messages =
     (case rastalist_getConnectionByRemote (rh_connections h) rid of
        None \<Rightarrow> Some h
      | Some i \<Rightarrow> on_connection i (send_on en app_messages) h)"

text \<open>An empty queue gives a null pointer that is followed.\<close>

definition sr_get_received_data :: "rasta_connection \<Rightarrow> (rastaApplicationMessage \<times> rasta_connection) option" where
  "sr_get_received_data connection =
     do { (element, f) \<leftarrow> fifo_pop (fifo_app_msg connection);
          message \<leftarrow> element;
          Some (message, connection\<lparr>fifo_app_msg := f\<rparr>) }"

definition sr_disconnect :: "sr_env \<Rightarrow> rasta_handle \<Rightarrow> u64 \<Rightarrow> rasta_handle option" where
  "sr_disconnect en h rid =
     (case rastalist_getConnectionByRemote (rh_connections h) rid of
        None \<Rightarrow> Some h
      | Some i \<Rightarrow> on_connection i (\<lambda>h c. sr_close_connection en h c RASTA_DISC_REASON_USERREQUEST 0) h)"

fun destroy_queues :: "rasta_connection list \<Rightarrow> unit option" where
  "destroy_queues [] = Some ()"
| "destroy_queues (c # cs) =
     do { fifo_destroy (fifo_app_msg c); fifo_destroy (fifo_send c); fifo_destroy (fifo_retr c); destroy_queues cs }"

definition sr_cleanup :: "rasta_handle \<Rightarrow> rasta_handle option" where
  "sr_cleanup h =
     do { destroy_queues (rl_data (rh_connections h));
          mux \<leftarrow> redundancy_mux_close (rh_mux h);
          Some (h\<lparr>rh_hb_running := False, rh_recv_running := False, rh_send_running := False,
                  rh_notifications := (rh_notifications h)\<lparr>nt_on_receive := False, nt_on_connection_state_change := False,
                    nt_on_diagnostic_notification := False, nt_on_disconnection_request_received := False,
                    nt_on_redundancy_diagnostic_notification := False\<rparr>,
                  rh_mux := mux, rh_accepted_version := [],
                  rh_connections := rastalist_free (rh_connections h)\<rparr>) }"

end
