(* ===== verification/Redundancy_Spec.thy ===== *)
theory Redundancy_Spec
  imports Redundancy
begin

section \<open>What the redundancy channel promises\<close>

text \<open>
  The abstract channel: the next expected number and the messages delivered so far. A channel
  refines it as long as no packet was ever deferred; deferred packets are the subject of
  \<open>Multiplexer\<close>.
\<close>

lemma no_checksum_to_bytes:
  assumes w: "wf_hash ctx" "wf_packet ctx p" and i: "indet_ok indet" and c: "length (p_checksum p) = checksum_len ctx"
  shows "rastaModuleToBytesNoChecksum indet p ctx RASTA_ERRORS_NONE =
    Some (packet_fields p @ p_data p @ p_checksum p, RASTA_ERRORS_NONE)"
proof -
  let ?n = "length (p_data p)" and ?c = "checksum_len ctx"
  let ?f = "packet_fields p" and ?d = "p_data p" and ?k = "p_checksum p"
  let ?r = "indet (28 + ?n + ?c)"
  have len: "unat (p_length p) = 28 + ?n + ?c" using w(2) by (simp add: wf_packet_def)
  have rl: "length ?r = 28 + ?n + ?c" using i by (simp add: indet_ok_def)
  have s1: "packFields ?r p = Some (?f @ drop 28 ?r)"
    using rl by (simp add: packFields_def buf_write_def)
  have s2: "buf_write (?f @ drop 28 ?r) 28 ?d = Some (?f @ ?d @ drop (28 + ?n) ?r)"
    using rl by (simp add: buf_write_def add.commute)
  have s3: "buf_write (?f @ ?d @ drop (28 + ?n) ?r) (28 + ?n) ?k = Some (?f @ ?d @ ?k)"
    using rl c by (simp add: buf_write_def)
  have s4: "buf_read ?k 0 ?c = Some ?k" using c by (simp add: buf_read_def)
  have s5: "buf_read ?d 0 ?n = Some ?d" by (simp add: buf_read_def)
  show ?thesis
    unfolding rastaModuleToBytesNoChecksum_def allocateBytes_def len data_length_wf [OF w(2)] Let_def prod.case
    by (simp add: s1 s5 s2 s4 s3)
qed

text \<open>Nothing was ever deferred: the first entry of the defer queue is still zero.\<close>

definition never_deferred :: "rasta_redundancy_channel \<Rightarrow> bool" where
  "never_deferred ch \<longleftrightarrow> dq_inv (rc_defer_q ch) \<and> 0 < dq_max_count (rc_defer_q ch) \<and>
     w_packet (dq_elements (rc_defer_q ch) ! 0) = None"

lemma never_deferred_contains:
  assumes "never_deferred ch"
  shows "deferqueue_contains st (rc_defer_q ch) s = Some False"
proof -
  have "dq_max_count (rc_defer_q ch) \<noteq> 0" using assms by (auto simp: never_deferred_def)
  then show ?thesis
    using assms by (simp add: deferqueue_contains_def find_index_spec never_deferred_def)
qed

lemma deliver_nothing:
  "deferqueue_contains st (rc_defer_q ch) (rc_seq_rx ch) = Some False \<Longrightarrow>
   deliverDeferQueue indet st ch e = Some (st, ch, e)"
  by (subst deliverDeferQueue.simps) simp

definition red_channel_ok :: "rasta_redundancy_channel \<Rightarrow> bool" where
  "red_channel_ok ch \<longleftrightarrow> never_deferred ch \<and> dq_inv (rc_diagnostics_packet_buffer ch) \<and>
     fifo_inv (rc_fifo_recv ch) \<and> wf_hash (rc_hashing_context ch)"

definition delivered :: "rasta_redundancy_channel \<Rightarrow> (u8 list) list" where
  "delivered ch = fifo_abs (rc_fifo_recv ch)"

lemma upd_channel_in:
  assumes "i < length (rc_connected_channels ch)"
  shows "\<exists>tcs. upd_channel i f ch = Some (ch\<lparr>rc_connected_channels := tcs\<rparr>) \<and>
    length tcs = length (rc_connected_channels ch)"
  using assms by (auto simp: upd_channel_def buf_get_def buf_set_def intro!: exI)

lemma add_diagnostics:
  assumes "dq_inv q"
  shows "\<exists>q'. deferqueue_add q a t = Some q' \<and> dq_inv q'"
  using add_room [OF assms] add_full [of q] assms by (cases "dq_count q = dq_max_count q") auto

lemma red_channel_ok_upd [simp]:
  "red_channel_ok (ch\<lparr>rc_connected_channels := tcs\<rparr>) = red_channel_ok ch"
  "red_channel_ok (ch\<lparr>rc_seq_rx := n\<rparr>) = red_channel_ok ch"
  by (simp_all add: red_channel_ok_def never_deferred_def)

text \<open>The bytes handed up: the packet as received, safety code included.\<close>

definition wire :: "RastaPacket \<Rightarrow> u8 list" where
  "wire p = packet_fields p @ p_data p @ p_checksum p"

lemma receive_next_ok:
  assumes ok: "red_channel_ok ch" and i: "indet_ok indet"
    and w: "wf_packet (rc_hashing_context ch) (rp_data q)"
    and k: "length (p_checksum (rp_data q)) = checksum_len (rc_hashing_context ch)"
  shows "\<exists>ch'. receive_next indet now st ch a q RASTA_ERRORS_NONE = Some (st, ch', RASTA_ERRORS_NONE) \<and>
    red_channel_ok ch' \<and> rc_seq_rx ch' = rc_seq_rx ch + 1 \<and>
    delivered ch' = (if length (delivered ch) < unat (f_max_size (rc_fifo_recv ch))
      then delivered ch @ [wire (rp_data q)] else delivered ch) \<and>
    f_max_size (rc_fifo_recv ch') = f_max_size (rc_fifo_recv ch) \<and>
    rc_connected_channels ch' = rc_connected_channels ch \<and> rc_hashing_context ch' = rc_hashing_context ch \<and>
    rc_associated_id ch' = rc_associated_id ch \<and> rc_seq_tx ch' = rc_seq_tx ch \<and>
    rc_connected_channel_count ch' = rc_connected_channel_count ch"
proof -
  obtain dq where dq: "deferqueue_add (rc_diagnostics_packet_buffer ch) a (ucast now) = Some dq" "dq_inv dq"
    using add_diagnostics [of "rc_diagnostics_packet_buffer ch" a "ucast now"] ok
    by (auto simp: red_channel_ok_def)
  obtain f where f: "fifo_push (rc_fifo_recv ch) (Some (wire (rp_data q))) = Some f" "fifo_inv f"
    "f_max_size f = f_max_size (rc_fifo_recv ch)"
    "fifo_abs f = (if length (fifo_abs (rc_fifo_recv ch)) < unat (f_max_size (rc_fifo_recv ch))
       then fifo_abs (rc_fifo_recv ch) @ [wire (rp_data q)] else fifo_abs (rc_fifo_recv ch))"
    using fifo_push_spec [of "rc_fifo_recv ch" "wire (rp_data q)"] ok by (auto simp: red_channel_ok_def)
  have b: "rastaModuleToBytesNoChecksum indet (rp_data q) (rc_hashing_context ch) RASTA_ERRORS_NONE =
      Some (wire (rp_data q), RASTA_ERRORS_NONE)"
    unfolding wire_def using ok k by (intro no_checksum_to_bytes [OF _ w i]) (simp_all add: red_channel_ok_def)
  let ?ch = "ch\<lparr>rc_seq_rx := rc_seq_rx ch + 1, rc_diagnostics_packet_buffer := dq, rc_fifo_recv := f\<rparr>"
  have nd: "never_deferred ?ch" using ok by (simp add: red_channel_ok_def never_deferred_def)
  have "deliverDeferQueue indet st ?ch RASTA_ERRORS_NONE = Some (st, ?ch, RASTA_ERRORS_NONE)"
    by (rule deliver_nothing) (rule never_deferred_contains [OF nd])
  then have "receive_next indet now st ch a q RASTA_ERRORS_NONE = Some (st, ?ch, RASTA_ERRORS_NONE)"
    using dq f b by (simp add: receive_next_def)
  then show ?thesis
    using ok dq f nd by (auto simp: red_channel_ok_def delivered_def)
qed

text \<open>Why a packet is dropped without a trace in the sequence and the queue.\<close>

definition dropped :: "rasta_redundancy_channel \<Rightarrow> RastaRedundancyPacket \<Rightarrow> bool" where
  "dropped ch q \<longleftrightarrow> \<not> rp_checksum_correct q \<or>
     (rc_seq_rx ch = 0 \<and> rc_seq_tx ch = 0 \<and> rp_sequence_number q \<noteq> 0) \<or>
     receive_window ch < ucast (rp_sequence_number q)"

lemma receive_accepts:
  assumes ok: "red_channel_ok ch" and i: "indet_ok indet" and id: "channel_id < length (rc_connected_channels ch)"
    and p: "ps_packets st a = Some q" and c: "rp_checksum_correct q"
    and s: "ucast (rp_sequence_number q) = rc_seq_rx ch"
    and w: "wf_packet (rc_hashing_context ch) (rp_data q)"
    and k: "length (p_checksum (rp_data q)) = checksum_len (rc_hashing_context ch)"
  shows "\<exists>ch'. rasta_red_f_receive indet now st ch a channel_id RASTA_ERRORS_NONE = Some (st, ch', RASTA_ERRORS_NONE) \<and>
    red_channel_ok ch' \<and> rc_seq_rx ch' = rc_seq_rx ch + 1 \<and>
    delivered ch' = (if length (delivered ch) < unat (f_max_size (rc_fifo_recv ch))
      then delivered ch @ [wire (rp_data q)] else delivered ch) \<and>
    f_max_size (rc_fifo_recv ch') = f_max_size (rc_fifo_recv ch) \<and>
    length (rc_connected_channels ch') = length (rc_connected_channels ch) \<and>
    rc_hashing_context ch' = rc_hashing_context ch \<and> rc_associated_id ch' = rc_associated_id ch \<and>
    rc_seq_tx ch' = rc_seq_tx ch \<and> rc_connected_channel_count ch' = rc_connected_channel_count ch"
proof -
  obtain tcs where u: "upd_channel channel_id (\<lambda>d. d\<lparr>dg_received_packets := dg_received_packets d + 1\<rparr>) ch =
      Some (ch\<lparr>rc_connected_channels := tcs\<rparr>)" "length tcs = length (rc_connected_channels ch)"
    using upd_channel_in [OF id] by blast
  let ?ch = "ch\<lparr>rc_connected_channels := tcs\<rparr>"
  have z: "rc_seq_rx ch = 0 \<Longrightarrow> rp_sequence_number q = 0"
    using s by (metis unat_0 unat_ucast_u32 unsigned_word_eqI)
  have "rasta_red_f_receive indet now st ch a channel_id RASTA_ERRORS_NONE =
      receive_next indet now st ?ch a q RASTA_ERRORS_NONE"
    using p c s z u by (auto simp: rasta_red_f_receive_def Let_def)
  moreover have "red_channel_ok ?ch" "wf_packet (rc_hashing_context ?ch) (rp_data q)"
    "length (p_checksum (rp_data q)) = checksum_len (rc_hashing_context ?ch)"
    using ok w k by simp_all
  ultimately show ?thesis
    using receive_next_ok [of ?ch indet q now st a] i u(2) by (auto simp: delivered_def)
qed

lemma receive_drops:
  assumes id: "channel_id < length (rc_connected_channels ch)"
    and p: "ps_packets st a = Some q" and d: "dropped ch q" "rc_seq_rx ch \<le> receive_window ch"
  shows "\<exists>tcs. rasta_red_f_receive indet now st ch a channel_id e =
      Some (st, ch\<lparr>rc_connected_channels := tcs\<rparr>, e) \<and> length tcs = length (rc_connected_channels ch)"
proof -
  obtain tcs where u: "upd_channel channel_id (\<lambda>d. d\<lparr>dg_received_packets := dg_received_packets d + 1\<rparr>) ch =
      Some (ch\<lparr>rc_connected_channels := tcs\<rparr>)" "length tcs = length (rc_connected_channels ch)"
    using upd_channel_in [OF id] by blast
  show ?thesis
  proof (cases "rp_checksum_correct q")
    case False
    then show ?thesis using p by (intro exI [of _ "rc_connected_channels ch"]) (simp add: rasta_red_f_receive_def)
  next
    case True
    have "\<not> ucast (rp_sequence_number q) < rc_seq_rx ch" "ucast (rp_sequence_number q) \<noteq> rc_seq_rx ch"
      "\<not> ucast (rp_sequence_number q) \<le> receive_window ch"
      if "receive_window ch < ucast (rp_sequence_number q)"
      using that d(2) by auto
    then show ?thesis
      using True d(1) p u by (auto simp: rasta_red_f_receive_def Let_def dropped_def receive_window_def)
  qed
qed

subsection \<open>The channel delivers in order and exactly once\<close>

text \<open>
  The abstract channel counts and appends. \<open>early\<close> names the packets that the code would put
  into the defer queue; every other packet is covered by the refinement, in any order.
\<close>

definition abs_receive :: "nat \<Rightarrow> RastaRedundancyPacket \<Rightarrow> u64 \<times> (u8 list) list \<Rightarrow> u64 \<times> (u8 list) list" where
  "abs_receive bound q s =
     (if rp_checksum_correct q \<and> ucast (rp_sequence_number q) = fst s
      then (fst s + 1, if length (snd s) < bound then snd s @ [wire (rp_data q)] else snd s)
      else s)"

definition early :: "rasta_redundancy_channel \<Rightarrow> RastaRedundancyPacket \<Rightarrow> bool" where
  "early ch q \<longleftrightarrow> rp_checksum_correct q \<and> rc_seq_rx ch < ucast (rp_sequence_number q) \<and>
     ucast (rp_sequence_number q) \<le> receive_window ch"

text \<open>Every packet the diagnostics buffer points to is alive.\<close>

definition diag_live :: "packet_store \<Rightarrow> rasta_redundancy_channel \<Rightarrow> bool" where
  "diag_live st ch \<longleftrightarrow> 0 < dq_max_count (rc_diagnostics_packet_buffer ch) \<and>
     (\<forall>e \<in> set (dq_elements (rc_diagnostics_packet_buffer ch)). \<forall>a. w_packet e = Some a \<longrightarrow> ps_packets st a \<noteq> None)"

definition packet_ok :: "rasta_redundancy_channel \<Rightarrow> RastaRedundancyPacket \<Rightarrow> bool" where
  "packet_ok ch q \<longleftrightarrow> wf_packet (rc_hashing_context ch) (rp_data q) \<and>
     length (p_checksum (rp_data q)) = checksum_len (rc_hashing_context ch)"

lemma get_ts_live:
  assumes "dq_inv (rc_diagnostics_packet_buffer ch)" and "diag_live st ch"
  shows "\<exists>t. deferqueue_get_ts st (rc_diagnostics_packet_buffer ch) s = Some t"
proof -
  let ?q = "rc_diagnostics_packet_buffer ch"
  have m: "dq_max_count ?q \<noteq> 0" "0 < length (dq_elements ?q)"
    using assms by (auto simp: diag_live_def dq_inv_def unat_gt_0)
  show ?thesis
  proof (cases "w_packet (dq_elements ?q ! 0)")
    case None
    then show ?thesis using m by (simp add: deferqueue_get_ts_def find_index_spec [OF assms(1)])
  next
    case (Some a)
    then obtain p where "ps_packets st a = Some p"
      using assms(2) m(2) nth_mem by (fastforce simp: diag_live_def)
    then show ?thesis
      using Some m by (simp add: deferqueue_get_ts_def find_index_spec [OF assms(1)] buf_get_def)
  qed
qed

lemma receive_late_ok:
  assumes ok: "red_channel_ok ch" "diag_live st ch" and i: "channel_id < length (rc_connected_channels ch)"
  shows "\<exists>tcs. receive_late now st ch q channel_id = Some (ch\<lparr>rc_connected_channels := tcs\<rparr>) \<and>
    length tcs = length (rc_connected_channels ch)"
proof -
  obtain t where t: "deferqueue_get_ts st (rc_diagnostics_packet_buffer ch) (ucast (rp_sequence_number q)) = Some t"
    using get_ts_live [of ch st "ucast (rp_sequence_number q)"] ok by (auto simp: red_channel_ok_def)
  have same: "\<exists>tcs. ch = ch\<lparr>rc_connected_channels := tcs\<rparr> \<and> length tcs = length (rc_connected_channels ch)"
    by (intro exI [of _ "rc_connected_channels ch"]) simp
  show ?thesis
    using upd_channel_in [OF i] same by (simp add: receive_late_def t Let_def)
qed

lemma diag_live_upd [simp]:
  "diag_live st (ch\<lparr>rc_connected_channels := tcs\<rparr>) = diag_live st ch"
  by (simp add: diag_live_def)

lemma add_elements:
  assumes "dq_inv q" and "deferqueue_add q a t = Some q'" and "e \<in> set (dq_elements q')"
  shows "e = \<lparr>w_packet = Some a, w_received_timestamp = t\<rparr> \<or> e \<in> set (dq_elements q)"
proof (cases "dq_count q = dq_max_count q")
  case True
  then show ?thesis using assms by (simp add: deferqueue_add_def)
next
  case False
  let ?n = "unat (dq_count q)" and ?e = "\<lparr>w_packet = Some a, w_received_timestamp = t\<rparr>"
  let ?q = "q\<lparr>dq_elements := (dq_elements q)[?n := ?e], dq_count := dq_count q + 1\<rparr>"
  have "q' = sort_queue ?q"
    using assms(2) False by (auto simp: deferqueue_add_def bind_Some_iff buf_set_def split: if_splits)
  then have "e \<in> set ((dq_elements q)[?n := ?e])"
    using assms(3) by (auto simp: sort_queue_def Let_def sort_set dest: in_set_takeD in_set_dropD)
  then show ?thesis using set_update_subset_insert by fastforce
qed

lemma receive_next_diag:
  assumes "red_channel_ok ch" and "diag_live st ch" and "ps_packets st a \<noteq> None"
    and "receive_next indet now st ch a q e = Some (st', ch', e')" and "st' = st"
    and "rc_seq_rx ch' = rc_seq_rx ch + 1" and nd: "never_deferred ch"
  shows "diag_live st ch' \<and> rc_configuration_parameters ch' = rc_configuration_parameters ch"
proof -
  obtain dq f e2 where a: "deferqueue_add (rc_diagnostics_packet_buffer ch) a (ucast now) = Some dq"
    and d: "deliverDeferQueue indet st (ch\<lparr>rc_seq_rx := rc_seq_rx ch + 1, rc_diagnostics_packet_buffer := dq,
        rc_fifo_recv := f\<rparr>) e2 = Some (st', ch', e')"
    using assms(4) by (auto simp: receive_next_def bind_Some_iff)
  let ?ch = "ch\<lparr>rc_seq_rx := rc_seq_rx ch + 1, rc_diagnostics_packet_buffer := dq, rc_fifo_recv := f\<rparr>"
  have "never_deferred ?ch" using nd by (simp add: never_deferred_def)
  then have ch': "ch' = ?ch"
    using d deliver_nothing [OF never_deferred_contains] by fastforce
  have i: "dq_inv (rc_diagnostics_packet_buffer ch)" using assms(1) by (simp add: red_channel_ok_def)
  have m: "dq_max_count dq = dq_max_count (rc_diagnostics_packet_buffer ch)"
    using a by (auto simp: deferqueue_add_def bind_Some_iff split: if_splits)
  show ?thesis
    using assms(2,3) m add_elements [OF i a] by (fastforce simp: ch' diag_live_def)
qed

lemma receive_simulates:
  assumes ok: "red_channel_ok ch" "diag_live st ch" and i: "indet_ok indet"
    and id: "channel_id < length (rc_connected_channels ch)"
    and p: "ps_packets st a = Some q" "packet_ok ch q" and ne: "\<not> early ch q"
  shows "\<exists>ch'. rasta_red_f_receive indet now st ch a channel_id RASTA_ERRORS_NONE = Some (st, ch', RASTA_ERRORS_NONE) \<and>
    red_channel_ok ch' \<and> diag_live st ch' \<and>
    (rc_seq_rx ch', delivered ch') = abs_receive (unat (f_max_size (rc_fifo_recv ch))) q (rc_seq_rx ch, delivered ch) \<and>
    f_max_size (rc_fifo_recv ch') = f_max_size (rc_fifo_recv ch) \<and>
    length (rc_connected_channels ch') = length (rc_connected_channels ch) \<and>
    rc_hashing_context ch' = rc_hashing_context ch \<and>
    rc_configuration_parameters ch' = rc_configuration_parameters ch"
proof -
  let ?same = "\<lambda>ch'. red_channel_ok ch' \<and> diag_live st ch' \<and>
    (rc_seq_rx ch', delivered ch') = (rc_seq_rx ch, delivered ch) \<and>
    f_max_size (rc_fifo_recv ch') = f_max_size (rc_fifo_recv ch) \<and>
    length (rc_connected_channels ch') = length (rc_connected_channels ch) \<and>
    rc_hashing_context ch' = rc_hashing_context ch \<and> rc_configuration_parameters ch' = rc_configuration_parameters ch"
  obtain tcs where u: "upd_channel channel_id (\<lambda>d. d\<lparr>dg_received_packets := dg_received_packets d + 1\<rparr>) ch =
      Some (ch\<lparr>rc_connected_channels := tcs\<rparr>)" "length tcs = length (rc_connected_channels ch)"
    using upd_channel_in [OF id] by blast
  let ?ch = "ch\<lparr>rc_connected_channels := tcs\<rparr>" and ?s = "ucast (rp_sequence_number q) :: u64"
  have s: "?same ?ch" "?same ch" using ok u(2) by (simp_all add: delivered_def)
  obtain tcs' where l: "receive_late now st ?ch q channel_id = Some (?ch\<lparr>rc_connected_channels := tcs'\<rparr>)"
    "length tcs' = length tcs"
    using receive_late_ok [of ?ch st channel_id now q] ok id u(2) by auto
  have sl: "?same (?ch\<lparr>rc_connected_channels := tcs'\<rparr>)" using ok u(2) l(2) by (simp add: delivered_def)
  show ?thesis
  proof (cases "rp_checksum_correct q \<and> ?s = rc_seq_rx ch")
    case True
    have w: "wf_packet (rc_hashing_context ch) (rp_data q)"
      "length (p_checksum (rp_data q)) = checksum_len (rc_hashing_context ch)"
      using p(2) by (simp_all add: packet_ok_def)
    obtain ch' where r: "rasta_red_f_receive indet now st ch a channel_id RASTA_ERRORS_NONE = Some (st, ch', RASTA_ERRORS_NONE)"
      "red_channel_ok ch'" "rc_seq_rx ch' = rc_seq_rx ch + 1"
      "delivered ch' = (if length (delivered ch) < unat (f_max_size (rc_fifo_recv ch))
        then delivered ch @ [wire (rp_data q)] else delivered ch)"
      "f_max_size (rc_fifo_recv ch') = f_max_size (rc_fifo_recv ch)"
      "length (rc_connected_channels ch') = length (rc_connected_channels ch)"
      "rc_hashing_context ch' = rc_hashing_context ch"
      using receive_accepts [OF ok(1) i id p(1) conjunct1 [OF True] conjunct2 [OF True] w] by blast
    have z: "rc_seq_rx ch = 0 \<Longrightarrow> rp_sequence_number q = 0"
      using True by (metis unat_0 unat_ucast_u32 unsigned_word_eqI)
    have "receive_next indet now st ?ch a q RASTA_ERRORS_NONE = Some (st, ch', RASTA_ERRORS_NONE)"
      using r(1) p(1) True z u(1) by (auto simp: rasta_red_f_receive_def Let_def split: if_splits)
    then have "diag_live st ch' \<and> rc_configuration_parameters ch' = rc_configuration_parameters ch"
      using receive_next_diag [of ?ch st a indet now q RASTA_ERRORS_NONE st ch' RASTA_ERRORS_NONE] ok p(1) r(3)
      by (auto simp: red_channel_ok_def never_deferred_def)
    then show ?thesis using r True by (auto simp: abs_receive_def)
  next
    case False
    then have a: "abs_receive b q (rc_seq_rx ch, delivered ch) = (rc_seq_rx ch, delivered ch)" for b
      by (auto simp: abs_receive_def)
    have "\<exists>ch'. rasta_red_f_receive indet now st ch a channel_id RASTA_ERRORS_NONE = Some (st, ch', RASTA_ERRORS_NONE) \<and>
        ?same ch'"
    proof (cases "rp_checksum_correct q")
      case nc: False
      then show ?thesis using p(1) s(2) by (simp add: rasta_red_f_receive_def)
    next
      case c: True
      then have "?s \<noteq> rc_seq_rx ch" using False by blast
      moreover have "\<not> (rc_seq_rx ch < ?s \<and> ?s \<le> receive_window ch)" using c ne by (simp add: early_def)
      ultimately show ?thesis
        using c p(1) u(1) s(1) sl l(1) by (auto simp: rasta_red_f_receive_def Let_def receive_window_def)
    qed
    then show ?thesis using a by metis
  qed
qed

text \<open>A run of arrivals: time, packet and transport channel of each.\<close>

fun receive_run ::
  "indet \<Rightarrow> packet_store \<Rightarrow> rasta_redundancy_channel \<Rightarrow> rasta_error_type \<Rightarrow> (u32 \<times> addr \<times> nat) list \<Rightarrow> red_result" where
  "receive_run indet st ch e [] = Some (st, ch, e)"
| "receive_run indet st ch e ((now, a, channel_id) # xs) =
     do { (st, ch, e) \<leftarrow> rasta_red_f_receive indet now st ch a channel_id e;
          receive_run indet st ch e xs }"

fun abs_run :: "nat \<Rightarrow> RastaRedundancyPacket list \<Rightarrow> u64 \<times> (u8 list) list \<Rightarrow> u64 \<times> (u8 list) list" where
  "abs_run bound [] s = s"
| "abs_run bound (q # qs) s = abs_run bound qs (abs_receive bound q s)"

text \<open>No packet of the run is early when its turn comes.\<close>

fun no_early :: "u32 \<Rightarrow> RastaRedundancyPacket list \<Rightarrow> u64 \<Rightarrow> bool" where
  "no_early w [] n \<longleftrightarrow> True"
| "no_early w (q # qs) n \<longleftrightarrow>
     \<not> (rp_checksum_correct q \<and> n < ucast (rp_sequence_number q) \<and> ucast (rp_sequence_number q) \<le> n + ucast (w * 10)) \<and>
     no_early w qs (if rp_checksum_correct q \<and> ucast (rp_sequence_number q) = n then n + 1 else n)"

lemma run_simulates:
  assumes "red_channel_ok ch" and "diag_live st ch" and "indet_ok indet"
    and "\<forall>(now, a, i) \<in> set xs. i < length (rc_connected_channels ch) \<and>
      (\<exists>q. ps_packets st a = Some q \<and> packet_ok ch q)"
    and "no_early (cfg_n_deferqueue_size (rc_configuration_parameters ch))
      (map (\<lambda>(now, a, i). the (ps_packets st a)) xs) (rc_seq_rx ch)"
  shows "\<exists>ch'. receive_run indet st ch RASTA_ERRORS_NONE xs = Some (st, ch', RASTA_ERRORS_NONE) \<and> red_channel_ok ch' \<and>
    (rc_seq_rx ch', delivered ch') = abs_run (unat (f_max_size (rc_fifo_recv ch)))
      (map (\<lambda>(now, a, i). the (ps_packets st a)) xs) (rc_seq_rx ch, delivered ch)"
  using assms
proof (induction xs arbitrary: ch)
  case (Cons x xs)
  obtain now a i where x: "x = (now, a, i)" by (cases x)
  obtain q where q: "ps_packets st a = Some q" "packet_ok ch q" "i < length (rc_connected_channels ch)"
    using Cons.prems(4) x by auto
  have ne: "\<not> early ch q" using Cons.prems(5) q(1) x by (auto simp: early_def receive_window_def)
  obtain ch1 where r: "rasta_red_f_receive indet now st ch a i RASTA_ERRORS_NONE = Some (st, ch1, RASTA_ERRORS_NONE)"
    "red_channel_ok ch1" "diag_live st ch1"
    "(rc_seq_rx ch1, delivered ch1) = abs_receive (unat (f_max_size (rc_fifo_recv ch))) q (rc_seq_rx ch, delivered ch)"
    "f_max_size (rc_fifo_recv ch1) = f_max_size (rc_fifo_recv ch)"
    "length (rc_connected_channels ch1) = length (rc_connected_channels ch)"
    "rc_hashing_context ch1 = rc_hashing_context ch"
    "rc_configuration_parameters ch1 = rc_configuration_parameters ch"
    using receive_simulates [OF Cons.prems(1,2,3) q(3,1,2) ne, of now] by blast
  have n1: "rc_seq_rx ch1 = (if rp_checksum_correct q \<and> ucast (rp_sequence_number q) = rc_seq_rx ch
      then rc_seq_rx ch + 1 else rc_seq_rx ch)"
    using r(4) by (auto simp: abs_receive_def split: if_splits)
  have pk: "packet_ok ch1 = packet_ok ch" by (rule ext) (simp add: packet_ok_def r(7))
  have "\<exists>ch'. receive_run indet st ch1 RASTA_ERRORS_NONE xs = Some (st, ch', RASTA_ERRORS_NONE) \<and> red_channel_ok ch' \<and>
    (rc_seq_rx ch', delivered ch') = abs_run (unat (f_max_size (rc_fifo_recv ch1)))
      (map (\<lambda>(now, a, i). the (ps_packets st a)) xs) (rc_seq_rx ch1, delivered ch1)"
    using Cons.prems(3-5) r(2,3,6,8) n1 q(1) x pk by (intro Cons.IH) auto
  then show ?case using r(1,4,5) x q(1) by simp
qed simp

subsection \<open>One deferred packet\<close>

text \<open>The defer queue with one packet in it, and what the delivery does with it.\<close>

definition holds_one :: "defer_queue \<Rightarrow> addr \<Rightarrow> bool" where
  "holds_one dq a \<longleftrightarrow> dq_inv dq \<and> dq_count dq = 1 \<and> w_packet (dq_elements dq ! 0) = Some a"

lemma holds_one_max: "holds_one dq a \<Longrightarrow> dq_max_count dq \<noteq> 0 \<and> 0 < length (dq_elements dq)"
  by (auto simp: holds_one_def dq_inv_def unat_gt_0)

lemma sort_one:
  assumes "dq_count q = 1" and "dq_elements q = x # xs"
  shows "sort_queue q = q"
  using assms by (simp add: sort_queue_def Let_def)

lemma add_first:
  assumes i: "dq_inv dq" and c: "dq_count dq = 0" "0 < dq_max_count dq"
  shows "\<exists>dq'. deferqueue_add dq a t = Some dq' \<and> holds_one dq' a \<and> dq_max_count dq' = dq_max_count dq \<and>
    w_received_timestamp (dq_elements dq' ! 0) = t"
proof -
  have "dq_elements dq \<noteq> []" using i c by (auto simp: dq_inv_def unat_gt_0 simp flip: length_greater_0_conv)
  then obtain x xs where x: "dq_elements dq = x # xs" by (cases "dq_elements dq") auto
  let ?q = "dq\<lparr>dq_elements := \<lparr>w_packet = Some a, w_received_timestamp = t\<rparr> # xs, dq_count := 1\<rparr>"
  have "sort_queue ?q = ?q" by (rule sort_one) simp_all
  then have "deferqueue_add dq a t = Some ?q"
    using c x by (simp add: deferqueue_add_def buf_set_def word_neq_0_conv)
  moreover have "1 \<le> dq_max_count dq" using c(2) by (metis add_0 inc_le)
  ultimately show ?thesis using i x by (auto simp: holds_one_def dq_inv_def)
qed

lemma find_one:
  assumes "holds_one dq a" and "ps_packets st a = Some q"
  shows "find_index st dq s = Some (if ucast (rp_sequence_number q) = s then Some 0 else None)"
  using assms holds_one_max [OF assms(1)] by (simp add: find_index_spec holds_one_def)

text \<open>Removing the packet releases its data and leaves its pointer in the first entry.\<close>

definition released :: "packet_store \<Rightarrow> addr \<Rightarrow> RastaRedundancyPacket \<Rightarrow> packet_store" where
  "released st a q = st\<lparr>ps_packets := (ps_packets st)(a \<mapsto> q\<lparr>rp_data := (rp_data q)\<lparr>p_data := []\<rparr>\<rparr>),
     ps_released := (ps_released st)(a := True)\<rparr>"

lemma remove_one:
  assumes h: "holds_one dq a" and q: "ps_packets st a = Some q" "\<not> ps_released st a"
  shows "deferqueue_remove st dq (ucast (rp_sequence_number q)) = Some (released st a q, dq\<lparr>dq_count := 0\<rparr>)"
proof -
  have "sort_queue (dq\<lparr>dq_count := 0\<rparr>) = dq\<lparr>dq_count := 0\<rparr>" by (simp add: sort_queue_def Let_def)
  then show ?thesis
    using h q holds_one_max [OF h] find_one [OF h q(1), of "ucast (rp_sequence_number q)"]
    by (simp add: deferqueue_remove_def holds_one_def buf_get_def free_packet_data_def released_def)
qed

lemma deliver_one:
  assumes h: "holds_one (rc_defer_q ch) a" and q: "ps_packets st a = Some q" "\<not> ps_released st a"
    and s: "ucast (rp_sequence_number q) = rc_seq_rx ch" and f: "fifo_inv (rc_fifo_recv ch)"
    and w: "wf_hash (rc_hashing_context ch)" "wf_packet (rc_hashing_context ch) (rp_data q)" and i: "indet_ok indet"
  shows "\<exists>ch'. deliverDeferQueue indet st ch RASTA_ERRORS_NONE = Some (released st a q, ch', RASTA_ERRORS_NONE) \<and>
    rc_seq_rx ch' = rc_seq_rx ch + 1 \<and>
    delivered ch' = (if length (delivered ch) < unat (f_max_size (rc_fifo_recv ch))
      then delivered ch @ [packet_bytes (rc_hashing_context ch) (rp_data q)] else delivered ch)"
proof -
  let ?b = "packet_bytes (rc_hashing_context ch) (rp_data q)" and ?dq = "(rc_defer_q ch)\<lparr>dq_count := 0\<rparr>"
  obtain f where f: "fifo_push (rc_fifo_recv ch) (Some ?b) = Some f" "fifo_inv f"
    "fifo_abs f = (if length (fifo_abs (rc_fifo_recv ch)) < unat (f_max_size (rc_fifo_recv ch))
       then fifo_abs (rc_fifo_recv ch) @ [?b] else fifo_abs (rc_fifo_recv ch))"
    using fifo_push_spec [OF f, of ?b] by blast
  let ?ch = "ch\<lparr>rc_fifo_recv := f, rc_defer_q := ?dq, rc_seq_rx := rc_seq_rx ch + 1\<rparr>"
  have b: "rastaModuleToBytes indet (rp_data q) (rc_hashing_context ch) RASTA_ERRORS_NONE = Some (?b, RASTA_ERRORS_NONE)"
    by (rule module_to_bytes [OF w i])
  have p: "ps_packets (released st a q) a = Some (q\<lparr>rp_data := (rp_data q)\<lparr>p_data := []\<rparr>\<rparr>)"
    by (simp add: released_def)
  have "rc_seq_rx ch \<noteq> rc_seq_rx ch + 1" by simp
  then have "deferqueue_contains (released st a q) ?dq (rc_seq_rx ch + 1) = Some False"
    using h p s holds_one_max [OF h]
    by (simp add: deferqueue_contains_def find_index_spec holds_one_def dq_inv_def)
  then have last: "deliverDeferQueue indet (released st a q) ?ch RASTA_ERRORS_NONE =
      Some (released st a q, ?ch, RASTA_ERRORS_NONE)"
    by (intro deliver_nothing) simp
  have "deferqueue_contains st (rc_defer_q ch) (rc_seq_rx ch) = Some True"
    using find_one [OF h q(1)] s by (simp add: deferqueue_contains_def)
  moreover have "deferqueue_get st zero_redundancy_packet (rc_defer_q ch) (rc_seq_rx ch) = Some q"
    using find_one [OF h q(1)] s h holds_one_max [OF h] q(1)
    by (simp add: deferqueue_get_def buf_get_def holds_one_def packet_at_def)
  moreover have "deferqueue_remove st (rc_defer_q ch) (rc_seq_rx ch) = Some (released st a q, ?dq)"
    using remove_one [OF h q] s by simp
  ultimately have "deliverDeferQueue indet st ch RASTA_ERRORS_NONE = Some (released st a q, ?ch, RASTA_ERRORS_NONE)"
    using b f(1) last by (subst deliverDeferQueue.simps) simp
  then show ?thesis using f(3) by (simp add: delivered_def)
qed

text \<open>An early packet is stored; a packet that fills the gap delivers both.\<close>

lemma receive_defers:
  assumes ok: "red_channel_ok ch" "dq_count (rc_defer_q ch) = 0" "0 < rc_seq_rx ch"
    and id: "channel_id < length (rc_connected_channels ch)"
    and p: "ps_packets st a = Some q" "rp_checksum_correct q"
    and s: "rc_seq_rx ch < ucast (rp_sequence_number q)" "ucast (rp_sequence_number q) \<le> receive_window ch"
  shows "\<exists>tcs dq. rasta_red_f_receive indet now st ch a channel_id e =
      Some (st, ch\<lparr>rc_connected_channels := tcs, rc_defer_q := dq\<rparr>, e) \<and> holds_one dq a \<and>
    length tcs = length (rc_connected_channels ch) \<and> w_received_timestamp (dq_elements dq ! 0) = ucast now"
proof -
  obtain tcs where u: "upd_channel channel_id (\<lambda>d. d\<lparr>dg_received_packets := dg_received_packets d + 1\<rparr>) ch =
      Some (ch\<lparr>rc_connected_channels := tcs\<rparr>)" "length tcs = length (rc_connected_channels ch)"
    using upd_channel_in [OF id] by blast
  have nd: "never_deferred ch" using ok by (simp add: red_channel_ok_def)
  then have m: "dq_inv (rc_defer_q ch)" "0 < dq_max_count (rc_defer_q ch)" by (simp_all add: never_deferred_def)
  obtain dq where dq: "deferqueue_add (rc_defer_q ch) a (ucast now) = Some dq" "holds_one dq a"
    "w_received_timestamp (dq_elements dq ! 0) = ucast now"
    using add_first [OF m(1) ok(2) m(2), of a "ucast now"] by blast
  have "receive_early now st (ch\<lparr>rc_connected_channels := tcs\<rparr>) a q =
      Some (ch\<lparr>rc_connected_channels := tcs, rc_defer_q := dq\<rparr>)"
    using dq(1) never_deferred_contains [OF nd] ok(2) m(2) by (auto simp: receive_early_def deferqueue_isfull_def)
  then show ?thesis
    using p s u dq(2,3) ok(3) by (auto simp: rasta_red_f_receive_def Let_def receive_window_def)
qed

lemma receive_fills_gap:
  assumes h: "holds_one (rc_defer_q ch) a1" and g: "dq_inv (rc_diagnostics_packet_buffer ch)"
    "fifo_inv (rc_fifo_recv ch)" "wf_hash (rc_hashing_context ch)" "0 < rc_seq_rx ch" and i: "indet_ok indet"
    and id: "channel_id < length (rc_connected_channels ch)"
    and p0: "ps_packets st a0 = Some q0" "packet_ok ch q0" "rp_checksum_correct q0"
    and p1: "ps_packets st a1 = Some q1" "packet_ok ch q1" "\<not> ps_released st a1"
    and s: "ucast (rp_sequence_number q0) = rc_seq_rx ch" "ucast (rp_sequence_number q1) = rc_seq_rx ch + 1"
    and room: "length (delivered ch) + 2 \<le> unat (f_max_size (rc_fifo_recv ch))"
  shows "\<exists>ch'. rasta_red_f_receive indet now st ch a0 channel_id RASTA_ERRORS_NONE =
      Some (released st a1 q1, ch', RASTA_ERRORS_NONE) \<and> rc_seq_rx ch' = rc_seq_rx ch + 1 + 1 \<and>
    delivered ch' = delivered ch @ [wire (rp_data q0), packet_bytes (rc_hashing_context ch) (rp_data q1)]"
proof -
  obtain tcs where u: "upd_channel channel_id (\<lambda>d. d\<lparr>dg_received_packets := dg_received_packets d + 1\<rparr>) ch =
      Some (ch\<lparr>rc_connected_channels := tcs\<rparr>)"
    using upd_channel_in [OF id] by blast
  obtain dq where dq: "deferqueue_add (rc_diagnostics_packet_buffer ch) a0 (ucast now) = Some dq"
    using add_diagnostics [OF g(1)] by blast
  obtain f where f: "fifo_push (rc_fifo_recv ch) (Some (wire (rp_data q0))) = Some f" "fifo_inv f"
    "f_max_size f = f_max_size (rc_fifo_recv ch)" "fifo_abs f = fifo_abs (rc_fifo_recv ch) @ [wire (rp_data q0)]"
    using fifo_push_spec [OF g(2), of "wire (rp_data q0)"] room by (auto simp: delivered_def)
  have b: "rastaModuleToBytesNoChecksum indet (rp_data q0) (rc_hashing_context ch) RASTA_ERRORS_NONE =
      Some (wire (rp_data q0), RASTA_ERRORS_NONE)"
    unfolding wire_def using p0(2) by (intro no_checksum_to_bytes g(3) i) (simp_all add: packet_ok_def)
  let ?ch = "ch\<lparr>rc_connected_channels := tcs, rc_seq_rx := rc_seq_rx ch + 1, rc_diagnostics_packet_buffer := dq,
    rc_fifo_recv := f\<rparr>"
  have r: "rasta_red_f_receive indet now st ch a0 channel_id RASTA_ERRORS_NONE =
      deliverDeferQueue indet st ?ch RASTA_ERRORS_NONE"
    using p0(1,3) u dq f(1) b s(1) g(4) by (auto simp: rasta_red_f_receive_def Let_def receive_next_def)
  show ?thesis
    using deliver_one [of ?ch a1 st q1 indet] h p1 s(2) f g(3) i room
    by (auto simp: r packet_ok_def delivered_def)
qed

end
