(* ===== verification/Mux_Spec.thy ===== *)
theory Mux_Spec
  imports Mux_Receive Redundancy_Spec
begin

section \<open>From multiplexer to multiplexer\<close>

text \<open>
  The lookup of channels as an interface of the multiplexer, what sending emits, what a
  received datagram does to its channel, and what becomes of the pointers to a packet that
  was released.
\<close>

subsection \<open>Lookup\<close>

lemma channel_loop_spec:
  "channel_loop cs k rid = Some i \<longleftrightarrow>
     k \<le> i \<and> i < k + length cs \<and> rc_associated_id (cs ! (i - k)) = rid \<and>
     (\<forall>j < i - k. rc_associated_id (cs ! j) \<noteq> rid)"
proof (induction cs arbitrary: k)
  case (Cons c cs)
  show ?case
  proof (cases "rc_associated_id c = rid")
    case True
    then have "\<exists>j < i - k. rc_associated_id ((c # cs) ! j) = rid" if "k < i"
      using that by (intro exI [of _ 0]) simp
    then show ?thesis using True by (cases "k < i") auto
  next
    case False
    then show ?thesis
    proof (cases "k < i")
      case True
      then obtain n where n: "i - k = Suc n" "i - (k + 1) = n" "i = k + Suc n"
        using less_imp_Suc_add by fastforce
      then show ?thesis using False Cons.IH [of "k + 1"] by (auto simp: less_Suc_eq_0_disj)
    next
      case le: False
      then show ?thesis using False Cons.IH [of "k + 1"] by (cases "i = k") auto
    qed
  qed
qed auto

lemma get_channel_spec:
  "redundancy_mux_get_channel mux rid = Some i \<longleftrightarrow>
     i < length (mux_connected_channels mux) \<and> rc_associated_id (mux_connected_channels mux ! i) = rid \<and>
     (\<forall>j < i. rc_associated_id (mux_connected_channels mux ! j) \<noteq> rid)"
  by (simp add: redundancy_mux_get_channel_def channel_loop_spec)

lemma get_channel_None:
  "redundancy_mux_get_channel mux rid = None \<longleftrightarrow> (\<forall>c \<in> set (mux_connected_channels mux). rc_associated_id c \<noteq> rid)"
proof -
  have "channel_loop cs k rid = None \<longleftrightarrow> (\<forall>c \<in> set cs. rc_associated_id c \<noteq> rid)" for cs k
    by (induction cs arbitrary: k) auto
  then show ?thesis by (simp add: redundancy_mux_get_channel_def)
qed

lemma set_channel_in [simp]:
  "length (mux_connected_channels (set_channel i c mux)) = length (mux_connected_channels mux)"
  "i < length (mux_connected_channels mux) \<Longrightarrow> mux_connected_channels (set_channel i c mux) ! i = c"
  "i \<noteq> j \<Longrightarrow> mux_connected_channels (set_channel i c mux) ! j = mux_connected_channels mux ! j"
  "mux_udp_socket_fds (set_channel i c mux) = mux_udp_socket_fds mux"
  "mux_config (set_channel i c mux) = mux_config mux"
  "mux_port_count (set_channel i c mux) = mux_port_count mux"
  "mux_sr_hashing_context (set_channel i c mux) = mux_sr_hashing_context mux"
  by (simp_all add: set_channel_def)

lemma set_channel_lookup:
  assumes "redundancy_mux_get_channel mux rid = Some i" and "rc_associated_id c = rid"
  shows "redundancy_mux_get_channel (set_channel i c mux) rid = Some i"
  using assms by (auto simp: get_channel_spec)

text \<open>Removing leaves no channel of the entity and every channel of the others, in order.\<close>

lemma remove_channel_lookup:
  assumes "length (filter (\<lambda>c. rc_associated_id c = rid) (mux_connected_channels mux)) = 1"
  shows "mux_connected_channels (redundancy_mux_remove_channel u mux rid) =
      filter (\<lambda>c. rc_associated_id c \<noteq> rid) (mux_connected_channels mux)"
    and "redundancy_mux_get_channel (redundancy_mux_remove_channel u mux rid) rid = None"
proof -
  let ?cs = "mux_connected_channels mux"
  have "length (filter (\<lambda>c. rc_associated_id c \<noteq> rid) ?cs) = length ?cs - 1"
    using assms sum_length_filter_compl [of "\<lambda>c. rc_associated_id c = rid" ?cs] by simp
  moreover have "filter (\<lambda>c. rc_associated_id c = rid) ?cs \<noteq> []" using assms by auto
  then have "redundancy_mux_get_channel mux rid \<noteq> None"
    by (auto simp: get_channel_None filter_empty_conv)
  ultimately show f: "mux_connected_channels (redundancy_mux_remove_channel u mux rid) =
      filter (\<lambda>c. rc_associated_id c \<noteq> rid) ?cs"
    by (auto simp: redundancy_mux_remove_channel_def Let_def)
  then show "redundancy_mux_get_channel (redundancy_mux_remove_channel u mux rid) rid = None"
    by (simp add: get_channel_None)
qed

subsection \<open>Sending\<close>

lemma datagrams_ok:
  assumes "\<forall>i \<in> set is. i < length (rc_connected_channels r) \<and> i < length (mux_udp_socket_fds mux)"
  shows "datagrams mux r bytes is = Some (map (\<lambda>i. \<lparr>d_fd = mux_udp_socket_fds mux ! i, d_bytes = bytes,
    d_host = tc_ip_address (rc_connected_channels r ! i), d_port = tc_port (rc_connected_channels r ! i)\<rparr>) is)"
  using assms by (induction "is") (auto simp: datagram_on_def buf_get_def)

lemma send_ok:
  assumes g: "redundancy_mux_get_channel mux (ucast (p_receiver_id p)) = Some k"
    and r: "r = mux_connected_channels mux ! k" "rc_hashing_context r = ctx"
    and n: "unat (rc_connected_channel_count r) \<le> length (rc_connected_channels r)"
      "unat (rc_connected_channel_count r) \<le> length (mux_udp_socket_fds mux)"
    and w: "wf_hash ctx" "wf_packet ctx p" and i: "indet_ok indet"
    and c: "cfg_crc_type (cfg_redundancy (mux_config mux)) = opt" "crc_bytes opt \<le> 4"
      "8 + unat (p_length p) + crc_bytes opt < 65536"
  shows "\<exists>ds. redundancy_mux_send indet mux p RASTA_ERRORS_NONE =
      Some (set_channel k (r\<lparr>rc_seq_tx := rc_seq_tx r + 1\<rparr>) mux, ds, RASTA_ERRORS_NONE) \<and>
    length ds = unat (rc_connected_channel_count r) \<and>
    (\<forall>d \<in> set ds. d_bytes d = red_bytes ctx (createRedundancyPacket (ucast (rc_seq_tx r)) p opt))"
proof -
  let ?q = "createRedundancyPacket (ucast (rc_seq_tx r)) p opt"
  have b: "rastaRedundancyPacketToBytes indet ?q ctx RASTA_ERRORS_NONE = Some (red_bytes ctx ?q, RASTA_ERRORS_NONE)"
    by (rule red_to_bytes [OF w(1) create_redundancy_wf [OF w(2) c(2,3)] i])
  have d: "datagrams mux r (red_bytes ctx ?q) [0..<unat (rc_connected_channel_count r)] =
    Some (map (\<lambda>i. \<lparr>d_fd = mux_udp_socket_fds mux ! i, d_bytes = red_bytes ctx ?q,
      d_host = tc_ip_address (rc_connected_channels r ! i), d_port = tc_port (rc_connected_channels r ! i)\<rparr>)
      [0..<unat (rc_connected_channel_count r)])"
    using n by (intro datagrams_ok) auto
  show ?thesis using g r b d c(1) by (auto simp: redundancy_mux_send_def Let_def)
qed

subsection \<open>Receiving\<close>

lemma alloc_at [simp]: "ps_packets (alloc_packet st a q) a = Some q"
  "ps_packets (free_packet st a) a = None"
  "b \<noteq> a \<Longrightarrow> ps_packets (alloc_packet st a q) b = ps_packets st b"
  "b \<noteq> a \<Longrightarrow> ps_packets (free_packet st a) b = ps_packets st b"
  by (simp_all add: alloc_packet_def free_packet_def)

text \<open>The channel knows all its endpoints, or the sender's is among those it knows.\<close>

lemma discover_full: "\<not> rc_connected_channel_count ch < mux_port_count mux \<Longrightarrow> discover mux ch host p = Some ch"
  by (simp add: discover_def)

lemma receive_packet_known:
  assumes fd: "channel_id < length (mux_udp_socket_fds mux)" and i: "indet_ok (un_bytes u)"
    and b: "bytesToRastaRedundancyPacket (un_bytes u) (un_packet u) buffer
        (cfg_crc_type (cfg_redundancy (mux_config mux))) (mux_sr_hashing_context mux) e = Some (q, opt, e')"
    and h: "length host < 15"
    and g: "redundancy_mux_get_channel mux (ucast (p_sender_id (rp_data q))) = Some k"
    and full: "\<not> rc_connected_channel_count (mux_connected_channels mux ! k) < mux_port_count mux"
  shows "receive_packet u now a st mux channel_id buffer host p e =
    map_option (\<lambda>(st, ch, e). (free_packet st a, set_channel k ch mux, [], e))
      (rasta_red_f_receive (un_bytes u) now (alloc_packet st a q) (mux_connected_channels mux ! k) a channel_id e')"
proof -
  have hw: "\<exists>h'. buf_write (un_bytes u 15) 0 (host @ [0]) = Some h'"
    using h i by (simp add: buf_write_def indet_ok_def)
  then show ?thesis
    using fd b g discover_full [OF full]
    by (cases "rasta_red_f_receive (un_bytes u) now (alloc_packet st a q) (mux_connected_channels mux ! k) a channel_id e'")
       (auto simp: receive_packet_def buf_get_def Let_def split: prod.splits)
qed

subsection \<open>A packet across two multiplexers\<close>

text \<open>
  The packet as the receiver unpacks it: the safety code is the computed one and was found
  correct.
\<close>

definition verified :: "rasta_hashing_context_t \<Rightarrow> RastaPacket \<Rightarrow> RastaPacket" where
  "verified ctx p = p\<lparr>p_checksum := hash_value ctx (packet_fields p @ p_data p), p_checksum_correct := True\<rparr>"

lemma verified_wire: "wire (verified ctx p) = packet_bytes ctx p"
  by (simp add: wire_def verified_def packet_bytes_def packet_fields_def)

lemma verified_wf:
  assumes "wf_hash ctx" "wf_packet ctx p"
  shows "wf_packet ctx (verified ctx p)" "length (p_checksum (verified ctx p)) = checksum_len ctx"
  using assms by (simp_all add: verified_def wf_packet_def)

lemma decode_sent:
  assumes "wf_hash ctx" "wf_packet ctx p" "crc_bytes opt \<le> 4" "8 + unat (p_length p) + crc_bytes opt < 65536"
    and i: "indet_ok (un_bytes u)"
  shows "\<exists>opt'. bytesToRastaRedundancyPacket (un_bytes u) (un_packet u) (red_bytes ctx (createRedundancyPacket n p opt)) opt ctx
      RASTA_ERRORS_NONE =
    Some ((createRedundancyPacket n p opt)\<lparr>rp_data := verified ctx p, rp_checksum_correct := True\<rparr>, opt', RASTA_ERRORS_NONE)"
proof -
  let ?q = "createRedundancyPacket n p opt"
  have "rp_data ?q = p" "rp_checksum_type ?q = opt" by (simp_all add: createRedundancyPacket_def)
  then show ?thesis
    using red_roundtrip [OF assms(1) create_redundancy_wf [OF assms(2-4)] i, of "un_packet u" n RASTA_ERRORS_NONE]
    by (auto simp: verified_def)
qed

text \<open>The sending side, the transport channels and the sizes of a channel are left alone.\<close>

definition same_links :: "rasta_redundancy_channel \<Rightarrow> rasta_redundancy_channel \<Rightarrow> bool" where
  "same_links ch ch' \<longleftrightarrow> rc_seq_tx ch' = rc_seq_tx ch \<and> rc_connected_channel_count ch' = rc_connected_channel_count ch \<and>
     length (rc_connected_channels ch') = length (rc_connected_channels ch) \<and>
     f_max_size (rc_fifo_recv ch') = f_max_size (rc_fifo_recv ch)"

text \<open>What one datagram of \<open>redundancy_mux_send\<close> does at the receiver.\<close>

lemma datagram_accepted:
  assumes fd: "channel_id < length (mux_udp_socket_fds mux)" and i: "indet_ok (un_bytes u)" and h: "length host < 15"
    and w: "wf_hash ctx" "wf_packet ctx p" "crc_bytes opt \<le> 4" "8 + unat (p_length p) + crc_bytes opt < 65536"
    and m: "mux_sr_hashing_context mux = ctx" "cfg_crc_type (cfg_redundancy (mux_config mux)) = opt"
    and g: "redundancy_mux_get_channel mux (ucast (p_sender_id p)) = Some k" "ch = mux_connected_channels mux ! k"
    and full: "\<not> rc_connected_channel_count ch < mux_port_count mux"
    and ch: "red_channel_ok ch" "rc_hashing_context ch = ctx" "channel_id < length (rc_connected_channels ch)"
    and s: "ucast n = rc_seq_rx ch"
  shows "\<exists>st' ch'. receive_packet u now a st mux channel_id (red_bytes ctx (createRedundancyPacket n p opt)) host prt
      RASTA_ERRORS_NONE = Some (st', set_channel k ch' mux, [], RASTA_ERRORS_NONE) \<and>
    red_channel_ok ch' \<and> rc_seq_rx ch' = rc_seq_rx ch + 1 \<and>
    delivered ch' = (if length (delivered ch) < unat (f_max_size (rc_fifo_recv ch))
      then delivered ch @ [packet_bytes ctx p] else delivered ch) \<and>
    rc_hashing_context ch' = ctx \<and> rc_associated_id ch' = rc_associated_id ch \<and> same_links ch ch'"
proof -
  let ?q = "createRedundancyPacket n p opt"
  let ?r = "?q\<lparr>rp_data := verified ctx p, rp_checksum_correct := True\<rparr>" and ?st = "alloc_packet st a (?q\<lparr>rp_data := verified ctx p, rp_checksum_correct := True\<rparr>)"
  obtain opt' where b: "bytesToRastaRedundancyPacket (un_bytes u) (un_packet u) (red_bytes ctx ?q) opt ctx RASTA_ERRORS_NONE =
      Some (?r, opt', RASTA_ERRORS_NONE)"
    using decode_sent [OF w i, of n] by blast
  have sid: "p_sender_id (rp_data ?r) = p_sender_id p" by (simp add: verified_def)
  have r: "receive_packet u now a st mux channel_id (red_bytes ctx ?q) host prt RASTA_ERRORS_NONE =
    map_option (\<lambda>(st, ch, e). (free_packet st a, set_channel k ch mux, [], e))
      (rasta_red_f_receive (un_bytes u) now ?st ch a channel_id RASTA_ERRORS_NONE)"
    unfolding g(2) using b m g full sid by (intro receive_packet_known [OF fd i _ h]) auto
  have "\<exists>ch'. rasta_red_f_receive (un_bytes u) now ?st ch a channel_id RASTA_ERRORS_NONE =
      Some (?st, ch', RASTA_ERRORS_NONE) \<and>
    red_channel_ok ch' \<and> rc_seq_rx ch' = rc_seq_rx ch + 1 \<and>
    delivered ch' = (if length (delivered ch) < unat (f_max_size (rc_fifo_recv ch))
      then delivered ch @ [wire (rp_data ?r)] else delivered ch) \<and>
    f_max_size (rc_fifo_recv ch') = f_max_size (rc_fifo_recv ch) \<and>
    length (rc_connected_channels ch') = length (rc_connected_channels ch) \<and>
    rc_hashing_context ch' = rc_hashing_context ch \<and> rc_associated_id ch' = rc_associated_id ch \<and>
    rc_seq_tx ch' = rc_seq_tx ch \<and> rc_connected_channel_count ch' = rc_connected_channel_count ch"
    using s verified_wf [OF w(1,2)] ch(2)
    by (intro receive_accepts [OF ch(1) i ch(3)]) (simp_all add: createRedundancyPacket_def)
  then show ?thesis using ch(2) by (auto simp: r verified_wire same_links_def)
qed

lemma retrieve_first:
  assumes g: "redundancy_mux_get_channel mux rid = Some k" "ch = mux_connected_channels mux ! k"
    and f: "fifo_inv (rc_fifo_recv ch)" "delivered ch = packet_bytes ctx p # rest"
    and w: "wf_hash ctx" "wf_packet ctx p" "rc_hashing_context ch = ctx" and i: "indet_ok (un_bytes u)"
  shows "\<exists>f'. redundancy_mux_retrieve u mux rid e =
      Some (Ready (verified ctx p, set_channel k (ch\<lparr>rc_fifo_recv := f'\<rparr>) mux, e)) \<and> fifo_abs f' = rest \<and> fifo_inv f' \<and>
    f_max_size f' = f_max_size (rc_fifo_recv ch)"
proof -
  obtain f' where f': "fifo_pop (rc_fifo_recv ch) = Some (Some (packet_bytes ctx p), f')" "fifo_abs f' = rest" "fifo_inv f'"
    "f_max_size f' = f_max_size (rc_fifo_recv ch)"
    using fifo_pop_spec [OF f(1)] f(2) by (auto simp: delivered_def)
  have "unat (fifo_get_size (rc_fifo_recv ch)) \<noteq> 0" using fifo_len [OF f(1)] f(2) by (simp add: delivered_def)
  then have "fifo_get_size (rc_fifo_recv ch) \<noteq> 0" by auto
  then show ?thesis
    using g f' packet_roundtrip [OF w(1,2) i, of "rp_data (un_packet u)" e] w(3)
    by (intro exI [of _ f']) (simp add: redundancy_mux_retrieve_def Let_def verified_def)
qed

subsection \<open>Pointers to released packets\<close>

text \<open>After the first accepted packet the diagnostics buffer holds a pointer to released storage.\<close>

definition stale_diagnostics :: "packet_store \<Rightarrow> rasta_redundancy_channel \<Rightarrow> addr \<Rightarrow> bool" where
  "stale_diagnostics st ch a \<longleftrightarrow> dq_inv (rc_diagnostics_packet_buffer ch) \<and>
     0 < dq_max_count (rc_diagnostics_packet_buffer ch) \<and>
     w_packet (dq_elements (rc_diagnostics_packet_buffer ch) ! 0) = Some a \<and> ps_packets st a = None"

lemma late_undefined:
  assumes st: "stale_diagnostics st ch b" "b \<noteq> a" and q: "rp_checksum_correct q"
    "ucast (rp_sequence_number q) < rc_seq_rx ch" and id: "channel_id < length (rc_connected_channels ch)"
  shows "rasta_red_f_receive indet now (alloc_packet st a q) ch a channel_id e = None"
proof -
  obtain tcs where u: "upd_channel channel_id (\<lambda>d. d\<lparr>dg_received_packets := dg_received_packets d + 1\<rparr>) ch =
      Some (ch\<lparr>rc_connected_channels := tcs\<rparr>)"
    using upd_channel_in [OF id] by blast
  have "deferqueue_get_ts (alloc_packet st a q) (rc_diagnostics_packet_buffer ch) s = None" for s
    using st by (auto simp: stale_diagnostics_def deferqueue_get_ts_def find_index_spec)
  then have "receive_late now (alloc_packet st a q) (ch\<lparr>rc_connected_channels := tcs\<rparr>) q channel_id = None"
    by (simp add: receive_late_def)
  moreover have "rc_seq_rx ch \<noteq> 0" using q(2) by auto
  ultimately show ?thesis using q u by (simp add: rasta_red_f_receive_def Let_def)
qed

lemma receive_packet_frees:
  assumes "receive_packet u now a st mux c buffer host prt e = Some (st', mux', es, e')"
  shows "ps_packets st' a = None"
proof -
  have "\<exists>st1. st' = free_packet st1 a"
    using assms
    by (auto simp: receive_packet_def bind_Some_iff Let_def case_prod_beta split: option.split_asm)
  then show ?thesis by auto
qed

text \<open>The timeout function follows the pointer of every entry of the defer queue.\<close>

lemma smallest_undefined:
  assumes "e \<in> set es" and "packet_at st (w_packet e) = None"
  shows "smallest_loop st es i s k = None"
  using assms by (induction es arbitrary: i s k) (auto simp: bind_eq_None_conv)

text \<open>Accepting the first packet stores the pointer to it in the diagnostics buffer.\<close>

lemma accept_exact:
  assumes ok: "red_channel_ok ch" and i: "indet_ok indet" and id: "channel_id < length (rc_connected_channels ch)"
    and d: "dq_count (rc_diagnostics_packet_buffer ch) = 0" "0 < dq_max_count (rc_diagnostics_packet_buffer ch)"
    and p: "ps_packets st a = Some q" "rp_checksum_correct q" "packet_ok ch q"
    and s: "ucast (rp_sequence_number q) = rc_seq_rx ch"
  shows "\<exists>tcs dq f. rasta_red_f_receive indet now st ch a channel_id RASTA_ERRORS_NONE =
      Some (st, ch\<lparr>rc_connected_channels := tcs, rc_seq_rx := rc_seq_rx ch + 1, rc_diagnostics_packet_buffer := dq,
        rc_fifo_recv := f\<rparr>, RASTA_ERRORS_NONE) \<and> holds_one dq a \<and> length tcs = length (rc_connected_channels ch)"
proof -
  obtain tcs where u: "upd_channel channel_id (\<lambda>d. d\<lparr>dg_received_packets := dg_received_packets d + 1\<rparr>) ch =
      Some (ch\<lparr>rc_connected_channels := tcs\<rparr>)" "length tcs = length (rc_connected_channels ch)"
    using upd_channel_in [OF id] by blast
  obtain dq where dq: "deferqueue_add (rc_diagnostics_packet_buffer ch) a (ucast now) = Some dq" "holds_one dq a"
    using add_first [OF _ d, of a "ucast now"] ok by (auto simp: red_channel_ok_def)
  obtain f where f: "fifo_push (rc_fifo_recv ch) (Some (wire (rp_data q))) = Some f"
    using fifo_push_spec [of "rc_fifo_recv ch" "wire (rp_data q)"] ok by (auto simp: red_channel_ok_def)
  have b: "rastaModuleToBytesNoChecksum indet (rp_data q) (rc_hashing_context ch) RASTA_ERRORS_NONE =
      Some (wire (rp_data q), RASTA_ERRORS_NONE)"
    unfolding wire_def using p(3) ok
    by (intro no_checksum_to_bytes i) (simp_all add: packet_ok_def red_channel_ok_def)
  let ?ch = "ch\<lparr>rc_connected_channels := tcs, rc_seq_rx := rc_seq_rx ch + 1, rc_diagnostics_packet_buffer := dq,
    rc_fifo_recv := f\<rparr>"
  have "never_deferred ?ch" using ok by (simp add: red_channel_ok_def never_deferred_def)
  then have "deliverDeferQueue indet st ?ch RASTA_ERRORS_NONE = Some (st, ?ch, RASTA_ERRORS_NONE)"
    by (intro deliver_nothing never_deferred_contains)
  moreover have z: "rc_seq_rx ch = 0 \<Longrightarrow> rp_sequence_number q = 0"
    using s by (metis unat_0 unat_ucast_u32 unsigned_word_eqI)
  ultimately show ?thesis
    using p(1,2) u dq f b s by (auto simp: rasta_red_f_receive_def Let_def receive_next_def)
qed

end
