(* ===== verification/Sr_Spec.thy ===== *)
theory Sr_Spec
  imports Sr_Node Mux_Spec
begin

section \<open>What the safety layer promises\<close>

text \<open>
  Lemmas on sending through the multiplexer, on closing, on the states of a connection and on
  the queues; the properties of \<open>Sr_Properties\<close> are a few steps over them.
\<close>

subsection \<open>The transitions of a connection\<close>

text \<open>The transitions a received packet may cause on a known connection.\<close>

inductive sr_transition :: "rasta_sr_state \<Rightarrow> rasta_sr_state \<Rightarrow> bool" where
  stay: "sr_transition s s"
| closes: "sr_transition s RASTA_CONNECTION_CLOSED"
| establishes: "sr_transition RASTA_CONNECTION_START RASTA_CONNECTION_UP"
| loses: "sr_transition RASTA_CONNECTION_UP RASTA_CONNECTION_RETRREQ"
| loses_again: "sr_transition RASTA_CONNECTION_RETRRUN RASTA_CONNECTION_RETRREQ"
| retransmits: "sr_transition RASTA_CONNECTION_RETRREQ RASTA_CONNECTION_RETRRUN"
| recovers: "sr_transition RASTA_CONNECTION_RETRRUN RASTA_CONNECTION_UP"

inductive_simps from_closed: "sr_transition RASTA_CONNECTION_CLOSED s"
inductive_simps from_down: "sr_transition RASTA_CONNECTION_DOWN s"

lemmas sr_moves = sr_transition.intros

subsection \<open>What the helpers leave alone\<close>

lemma close_state:
  assumes "sr_close_connection en h c r d = Some (h', c')"
  shows "current_state c' = RASTA_CONNECTION_CLOSED \<and> role c' = role c"
  using assms
  by (auto simp: sr_close_connection_def Let_def bind_Some_iff sr_reset_connection_def split: if_splits)

lemma send_fields:
  "send_Heartbeat en h c = Some (h', c') \<Longrightarrow> current_state c' = current_state c"
  "send_RetransmissionRequest en h c = Some (h', c') \<Longrightarrow> current_state c' = current_state c"
  "send_RetransmissionResponse en h c = Some (h', c') \<Longrightarrow> current_state c' = current_state c"
  by (auto simp: send_Heartbeat_def send_RetransmissionRequest_def send_RetransmissionResponse_def
      cur_timestamp_def bind_Some_iff Let_def)

lemma update_fields [simp]:
  "current_state (snd (updateTI en t h c)) = current_state c"
  "current_state (snd (updateDiagnostic en h c p)) = current_state c"
  by (simp_all add: updateTI_def updateDiagnostic_def cur_timestamp_def Let_def resetDiagnostic_def)

lemma fire_frame [simp]:
  "rh_config (fire_on_receive c h) = rh_config h" "rh_mux (fire_on_receive c h) = rh_mux h"
  "rh_config (fire_on_connection_state_change c h) = rh_config h"
  "rh_mux (fire_on_connection_state_change c h) = rh_mux h"
  "rh_config (fire_on_handshake_complete c h) = rh_config h" "rh_mux (fire_on_handshake_complete c h) = rh_mux h"
  "rh_config (fire_on_diagnostic_notification c h) = rh_config h"
  "rh_mux (fire_on_diagnostic_notification c h) = rh_mux h"
  "rh_config (fire_on_hearbeat_timeout c h) = rh_config h" "rh_mux (fire_on_hearbeat_timeout c h) = rh_mux h"
  by (simp_all add: fire_on_receive_def fire_on_connection_state_change_def fire_on_handshake_complete_def
      fire_on_diagnostic_notification_def fire_on_hearbeat_timeout_def start_notification_def)

lemma diagnostic_state: "updateDiagnostic en h c p = (h', c') \<Longrightarrow> current_state c' = current_state c"
  by (metis snd_conv update_fields(2))

lemma add_message_state:
  "add_app_message en p m h c = Some (h', c') \<Longrightarrow> current_state c' = current_state c"
  by (auto simp: add_app_message_def bind_Some_iff Let_def case_prod_beta dest!: diagnostic_state)

lemma add_messages_state:
  "add_app_messages en p ms h c = Some (h', c') \<Longrightarrow> current_state c' = current_state c"
  by (induction ms arbitrary: h c) (auto simp: bind_Some_iff dest: add_message_state)

lemma add_buffer_state:
  "sr_add_app_messages_to_buffer en h c p = Some (h', c') \<Longrightarrow> current_state c' = current_state c"
  by (auto simp: sr_add_app_messages_to_buffer_def bind_Some_iff dest: add_messages_state)

lemma remove_confirmed_state:
  "sr_remove_confirmed_messages en h c = Some (h', c') \<Longrightarrow> current_state c' = current_state c"
  by (auto simp: sr_remove_confirmed_messages_def bind_Some_iff)

subsection \<open>Retransmission is undefined\<close>

text \<open>The loop of the code reads one entry more than it filled.\<close>

lemma pop_all_length: "pop_all n f = Some (xs, f') \<Longrightarrow> length xs = n"
  by (induction n arbitrary: f xs) (auto simp: bind_Some_iff)

lemma retransmit_loop_unset:
  assumes "i \<in> set is" and "buf_get packets i = None \<or> buf_get packets i = Some None"
  shows "retransmit_loop en packets is h c = None"
  using assms(1)
proof (induction "is" arbitrary: h c)
  case (Cons j js)
  show ?case
  proof (cases "j = i")
    case True
    then have "retransmit_one en packets j h c = None" using assms(2) by (auto simp: retransmit_one_def)
    then show ?thesis by simp
  next
    case False
    then have "i \<in> set js" using Cons.prems by simp
    then show ?thesis using Cons.IH by (cases "retransmit_one en packets j h c") auto
  qed
qed simp

lemma retransmit_undefined: "sr_retransmit_data en h c = None"
proof -
  let ?n = "unat (fifo_get_size (fifo_retr c))"
  have "retransmit_loop en (map Some xs @ replicate (MAX_QUEUE_SIZE - ?n) None) [0..<?n + 1] h c' = None"
    if "length xs = ?n" for xs c'
    by (rule retransmit_loop_unset [of ?n]) (use that in \<open>auto simp: buf_get_def nth_append\<close>)
  then have "sr_retransmit_data en h c \<noteq> Some r" for r
    by (auto simp: sr_retransmit_data_def Let_def bind_Some_iff simp del: upt_Suc dest!: pop_all_length split: if_splits)
  then show ?thesis by (cases "sr_retransmit_data en h c") auto
qed

lemma retrreq_undefined: "handle_retrreq en h c p = None"
proof -
  have "handle_retrreq en h c p \<noteq> Some r" for r
    by (auto simp: handle_retrreq_def retransmit_undefined bind_Some_iff split: if_splits)
  then show ?thesis by (cases "handle_retrreq en h c p") auto
qed

subsection \<open>Every handler moves along the transitions\<close>

lemma conresp_moves: "handle_conresp en h c p = Some (h', c') \<Longrightarrow> sr_transition (current_state c) (current_state c')"
  by (auto simp: handle_conresp_def Let_def case_prod_beta bind_Some_iff cur_timestamp_def dest!: close_state
      split: if_splits intro: sr_moves)

lemma discreq_moves: "handle_discreq en h c p = Some (h', c') \<Longrightarrow> sr_transition (current_state c) (current_state c')"
  by (auto simp: handle_discreq_def Let_def case_prod_beta sr_reset_connection_def intro: sr_moves)

lemma hb_start_moves:
  assumes "current_state c = RASTA_CONNECTION_START" and "hb_in_start en h c p = Some (h', c')"
  shows "sr_transition (current_state c) (current_state c')"
  using assms
  by (auto simp: hb_in_start_def Let_def case_prod_beta bind_Some_iff cur_timestamp_def dest!: close_state
      split: if_splits intro: sr_moves)

lemma hb_moves:
  assumes "handle_hb en h c p = Some (h', c')"
  shows "sr_transition (current_state c) (current_state c')"
  using assms hb_start_moves
  by (auto simp: handle_hb_def Let_def case_prod_beta up_or_running_def dest!: close_state
      split: if_splits intro: sr_moves)

lemma data_moves: "handle_data en h c p = Some (h', c') \<Longrightarrow> sr_transition (current_state c) (current_state c')"
  by (auto simp: handle_data_def Let_def case_prod_beta up_or_running_def bind_Some_iff
      dest!: close_state add_buffer_state remove_confirmed_state split: if_splits intro: sr_moves)

lemma retrresp_moves: "handle_retrresp en h c p = Some (h', c') \<Longrightarrow> sr_transition (current_state c) (current_state c')"
  by (auto simp: handle_retrresp_def Let_def case_prod_beta cur_timestamp_def dest!: close_state
      split: if_splits intro: sr_moves)

lemma retrdata_moves: "handle_retrdata en h c p = Some (h', c') \<Longrightarrow> sr_transition (current_state c) (current_state c')"
  by (auto simp: handle_retrdata_def Let_def case_prod_beta bind_Some_iff
      dest!: close_state add_buffer_state split: if_splits intro: sr_moves)

lemmas handler_moves = conresp_moves discreq_moves hb_moves data_moves retrresp_moves retrdata_moves

lemma receive_moves:
  "receive_known en p h c = Some (h', c') \<Longrightarrow> sr_transition (current_state c) (current_state c')"
  by (auto simp: receive_known_def dispatch_def retrreq_undefined count_error_def split: if_splits
      intro: sr_moves dest: handler_moves)

subsection \<open>Sending\<close>

text \<open>
  A node whose error flag is clear and whose channels use its hashing context and have their
  transport channels and sockets: every packet of the layer can be sent.
\<close>

definition channel_sends :: "rasta_handle \<Rightarrow> rasta_redundancy_channel \<Rightarrow> bool" where
  "channel_sends h c \<longleftrightarrow> rc_hashing_context c = rh_hashing_context h \<and>
     unat (rc_connected_channel_count c) \<le> length (rc_connected_channels c) \<and>
     unat (rc_connected_channel_count c) \<le> length (mux_udp_socket_fds (rh_mux h))"

definition node_ok :: "sr_env \<Rightarrow> rasta_handle \<Rightarrow> bool" where
  "node_ok en h \<longleftrightarrow> indet_ok (the_indet en) \<and> rh_lasterror h = RASTA_ERRORS_NONE \<and> wf_hash (rh_hashing_context h) \<and>
     mux_sr_hashing_context (rh_mux h) = rh_hashing_context h \<and>
     crc_bytes (cfg_crc_type (cfg_redundancy (mux_config (rh_mux h)))) \<le> 4 \<and>
     distinct (map rc_associated_id (mux_connected_channels (rh_mux h))) \<and>
     (\<forall>c \<in> set (mux_connected_channels (rh_mux h)). channel_sends h c)"

text \<open>Only the multiplexer, the datagrams and the clock moved.\<close>

definition only_sent :: "rasta_handle \<Rightarrow> rasta_handle \<Rightarrow> bool" where
  "only_sent h h' \<longleftrightarrow> (\<exists>m ds n. h' = h\<lparr>rh_mux := m, rh_sent := rh_sent h @ ds, rh_clock_reads := n\<rparr>)"

lemma only_sent_fields:
  assumes "only_sent h h'"
  shows "rh_config h' = rh_config h" "rh_connections h' = rh_connections h" "rh_hashing_context h' = rh_hashing_context h"
    "rh_accepted_version h' = rh_accepted_version h" "rh_notifications h' = rh_notifications h"
    "rh_lasterror h' = rh_lasterror h" "rh_events h' = rh_events h" "rh_initial_seq h' = rh_initial_seq h"
  using assms by (auto simp: only_sent_def)

lemma only_sent_trans: "only_sent h1 h2 \<Longrightarrow> only_sent h2 h3 \<Longrightarrow> only_sent h1 h3"
proof -
  assume "only_sent h1 h2" "only_sent h2 h3"
  then obtain m ds n m' ds' n' where "h2 = h1\<lparr>rh_mux := m, rh_sent := rh_sent h1 @ ds, rh_clock_reads := n\<rparr>"
    "h3 = h2\<lparr>rh_mux := m', rh_sent := rh_sent h2 @ ds', rh_clock_reads := n'\<rparr>"
    unfolding only_sent_def by blast
  then have "h3 = h1\<lparr>rh_mux := m', rh_sent := rh_sent h1 @ ds @ ds', rh_clock_reads := n'\<rparr>" by simp
  then show ?thesis unfolding only_sent_def by blast
qed

lemma only_sent_clock [simp]: "only_sent h (h\<lparr>rh_clock_reads := n\<rparr>)"
proof -
  have "h\<lparr>rh_clock_reads := n\<rparr> = h\<lparr>rh_mux := rh_mux h, rh_sent := rh_sent h @ [], rh_clock_reads := n\<rparr>" by simp
  then show ?thesis unfolding only_sent_def by blast
qed

lemma node_ok_clock [simp]: "node_ok en (h\<lparr>rh_clock_reads := n\<rparr>) = node_ok en h"
  by (simp add: node_ok_def channel_sends_def)

lemma set_channel_ids:
  "i < length (mux_connected_channels m) \<Longrightarrow> rc_associated_id c = rc_associated_id (mux_connected_channels m ! i) \<Longrightarrow>
   map rc_associated_id (mux_connected_channels (set_channel i c m)) = map rc_associated_id (mux_connected_channels m)"
  by (simp add: set_channel_def map_update) (metis list_update_id nth_map)

text \<open>A packet left on every transport channel to its receiver.\<close>

abbreviation crc_option_of :: "rasta_handle \<Rightarrow> crc_options" where
  "crc_option_of h \<equiv> cfg_crc_type (cfg_redundancy (mux_config (rh_mux h)))"

definition transports :: "redundancy_mux \<Rightarrow> u32 \<Rightarrow> nat" where
  "transports m rid =
     (case redundancy_mux_get_channel m (ucast rid) of
        None \<Rightarrow> 0 | Some k \<Rightarrow> unat (rc_connected_channel_count (mux_connected_channels m ! k)))"

text \<open>The number the next redundancy packet to an entity gets.\<close>

definition next_number :: "redundancy_mux \<Rightarrow> u32 \<Rightarrow> u32" where
  "next_number m rid =
     (case redundancy_mux_get_channel m (ucast rid) of
        None \<Rightarrow> 0 | Some k \<Rightarrow> ucast (rc_seq_tx (mux_connected_channels m ! k)))"

definition sent_as :: "rasta_handle \<Rightarrow> rasta_handle \<Rightarrow> RastaPacket \<Rightarrow> bool" where
  "sent_as h h' p \<longleftrightarrow> (\<exists>ds. rh_sent h' = rh_sent h @ ds \<and> length ds = transports (rh_mux h) (p_receiver_id p) \<and>
     (\<forall>d \<in> set ds. d_bytes d = red_bytes (rh_hashing_context h)
       (createRedundancyPacket (next_number (rh_mux h) (p_receiver_id p)) p (crc_option_of h))))"

text \<open>The multiplexer after sending a packet to an entity: the number of its channel is used up.\<close>

definition counted_on :: "redundancy_mux \<Rightarrow> u32 \<Rightarrow> redundancy_mux" where
  "counted_on m rid =
     (case redundancy_mux_get_channel m (ucast rid) of
        None \<Rightarrow> m
      | Some k \<Rightarrow> let r = mux_connected_channels m ! k in set_channel k (r\<lparr>rc_seq_tx := rc_seq_tx r + 1\<rparr>) m)"

lemma node_send:
  assumes ok: "node_ok en h" and w: "wf_packet (rh_hashing_context h) p" and l: "unat (p_length p) < 65000"
  shows "\<exists>h'. mux_send en h p = Some h' \<and> node_ok en h' \<and> only_sent h h' \<and> sent_as h h' p \<and>
    map rc_associated_id (mux_connected_channels (rh_mux h')) = map rc_associated_id (mux_connected_channels (rh_mux h)) \<and>
    rh_mux h' = counted_on (rh_mux h) (p_receiver_id p)"
proof (cases "redundancy_mux_get_channel (rh_mux h) (ucast (p_receiver_id p))")
  case None
  then have "mux_send en h p = Some (h\<lparr>rh_mux := rh_mux h, rh_sent := rh_sent h @ [], rh_lasterror := rh_lasterror h\<rparr>)"
    by (simp add: mux_send_def redundancy_mux_send_def)
  moreover have "only_sent h h" using only_sent_clock [of h "rh_clock_reads h"] by simp
  moreover have "sent_as h h p" "counted_on (rh_mux h) (p_receiver_id p) = rh_mux h"
    using None by (simp_all add: sent_as_def transports_def counted_on_def)
  ultimately show ?thesis using ok by simp
next
  case (Some k)
  let ?m = "rh_mux h" let ?r = "mux_connected_channels ?m ! k"
  have k: "k < length (mux_connected_channels ?m)" using Some by (simp add: get_channel_spec)
  have r: "channel_sends h ?r" using ok k by (simp add: node_ok_def)
  obtain ds where s: "redundancy_mux_send (the_indet en) ?m p RASTA_ERRORS_NONE =
      Some (set_channel k (?r\<lparr>rc_seq_tx := rc_seq_tx ?r + 1\<rparr>) ?m, ds, RASTA_ERRORS_NONE)"
    "length ds = unat (rc_connected_channel_count ?r)"
    "\<forall>d \<in> set ds. d_bytes d =
      red_bytes (rh_hashing_context h) (createRedundancyPacket (ucast (rc_seq_tx ?r)) p (crc_option_of h))"
    using send_ok [OF Some refl _ _ _ _ w, of "the_indet en" "crc_option_of h"] r ok l
    by (auto simp: channel_sends_def node_ok_def)
  let ?h = "h\<lparr>rh_mux := set_channel k (?r\<lparr>rc_seq_tx := rc_seq_tx ?r + 1\<rparr>) ?m, rh_sent := rh_sent h @ ds\<rparr>"
  have ids: "map rc_associated_id (mux_connected_channels (rh_mux ?h)) = map rc_associated_id (mux_connected_channels ?m)"
    using set_channel_ids [OF k, of "?r\<lparr>rc_seq_tx := rc_seq_tx ?r + 1\<rparr>"] by simp
  have "mux_send en h p = Some (?h\<lparr>rh_lasterror := rh_lasterror h\<rparr>)"
    using s(1) ok by (simp add: mux_send_def node_ok_def)
  then have m: "mux_send en h p = Some ?h" by simp
  have "\<forall>c \<in> set (mux_connected_channels (rh_mux ?h)). channel_sends ?h c"
    using r ok by (auto simp: node_ok_def channel_sends_def set_channel_def dest!: set_update_subset_insert [THEN subsetD])
  then have "node_ok en ?h" using ok ids by (simp add: node_ok_def)
  moreover have "only_sent h ?h"
    unfolding only_sent_def by (intro exI [of _ "rh_mux ?h"] exI [of _ ds] exI [of _ "rh_clock_reads h"]) simp
  moreover have "sent_as h ?h p" using s(2,3) Some by (auto simp: sent_as_def transports_def next_number_def)
  moreover have "rh_mux ?h = counted_on ?m (p_receiver_id p)" using Some by (simp add: counted_on_def Let_def)
  ultimately show ?thesis using m ids by (intro exI [of _ ?h]) simp
qed

lemma sent_as_clock [simp]: "sent_as (h\<lparr>rh_clock_reads := n\<rparr>) h' p = sent_as h h' p"
  "sent_as h (h'\<lparr>rh_clock_reads := n\<rparr>) p = sent_as h h' p"
  by (simp_all add: sent_as_def)

lemma only_sent_clock_simps [simp]:
  "only_sent (h\<lparr>rh_clock_reads := n\<rparr>) h' \<Longrightarrow> only_sent h h'"
  "only_sent h h' \<Longrightarrow> only_sent h (h'\<lparr>rh_clock_reads := n\<rparr>)"
  using only_sent_trans only_sent_clock by blast+

text \<open>The small packets.\<close>

lemma small_packet:
  assumes "wf_hash ctx" "indet_ok i"
  shows "wf_packet ctx (initializePacket i t r s sn csn ts cts 0 ctx)"
    and "unat (p_length (initializePacket i t r s sn csn ts cts 0 ctx)) < 65000"
proof -
  show w: "wf_packet ctx (initializePacket i t r s sn csn ts cts 0 ctx)"
    using assms hash_len_bound [OF assms(1)] by (intro initialize_wf) auto
  show "unat (p_length (initializePacket i t r s sn csn ts cts 0 ctx)) < 65000"
    using w hash_len_bound [OF assms(1)] by (simp add: wf_packet_def initializePacket_def)
qed

lemma disconnection_packet:
  assumes "wf_hash ctx" "indet_ok i"
  shows "\<exists>p. createDisconnectionRequest i r s sn csn ts cts d ctx = Some p \<and> wf_packet ctx p \<and>
    unat (p_length p) < 65000 \<and> p_receiver_id p = r \<and> p_type p = RASTA_TYPE_DISCREQ"
proof -
  obtain p where p: "createDisconnectionRequest i r s sn csn ts cts d ctx = Some p" "wf_packet ctx p"
    "p_receiver_id p = r" "p_type p = RASTA_TYPE_DISCREQ"
    using create_disconnection_ok [OF assms] by blast
  have "length (p_data p) = 4"
    using p(1) assms(2) by (auto simp: createDisconnectionRequest_def bind_Some_iff Let_def dest!: buf_write_length)
  then have "unat (p_length p) < 65000" using p(2) hash_len_bound [OF assms(1)] by (simp add: wf_packet_def)
  with p show ?thesis by blast
qed

lemma heartbeat_sent:
  assumes ok: "node_ok en h"
  shows "\<exists>h' hb now. send_Heartbeat en h c = Some (h', c\<lparr>sn_t := sn_t c + 1, ts_last_message := now\<rparr>) \<and>
    node_ok en h' \<and> only_sent h h' \<and> sent_as h h' hb \<and> p_type hb = RASTA_TYPE_HB \<and> p_receiver_id hb = remote_id c \<and>
    p_sender_id hb = my_id c \<and> p_sequence_number hb = sn_t c \<and> p_confirmed_sequence_number hb = cs_t c \<and>
    p_confirmed_timestamp hb = ts_r c \<and> p_timestamp hb = se_clock en (rh_clock_reads h) \<and>
    wf_packet (rh_hashing_context h) hb \<and>
    map rc_associated_id (mux_connected_channels (rh_mux h')) = map rc_associated_id (mux_connected_channels (rh_mux h)) \<and>
    unat (p_length hb) < 65000 \<and> rh_mux h' = counted_on (rh_mux h) (remote_id c)"
proof -
  let ?h = "h\<lparr>rh_clock_reads := rh_clock_reads h + 1\<rparr>"
  let ?p = "createHeartbeat (the_indet en) (remote_id c) (my_id c) (sn_t c) (cs_t c) (se_clock en (rh_clock_reads h))
    (ts_r c) (mux_sr_hashing_context (rh_mux h))"
  have w: "wf_packet (rh_hashing_context ?h) ?p" "unat (p_length ?p) < 65000"
    using small_packet [of "rh_hashing_context h" "the_indet en"] ok by (simp_all add: createHeartbeat_def node_ok_def)
  obtain h' where h': "mux_send en ?h ?p = Some h'" "node_ok en h'" "only_sent ?h h'" "sent_as ?h h' ?p"
    "map rc_associated_id (mux_connected_channels (rh_mux h')) = map rc_associated_id (mux_connected_channels (rh_mux ?h))"
    "rh_mux h' = counted_on (rh_mux h) (p_receiver_id ?p)"
    using node_send [of en ?h ?p] ok w by auto
  have "wf_packet (rh_hashing_context h) ?p" "p_receiver_id ?p = remote_id c" "unat (p_length ?p) < 65000"
    using w by (simp_all add: createHeartbeat_def)
  with h' show ?thesis
    by (intro exI [of _ "h'\<lparr>rh_clock_reads := rh_clock_reads h' + 1\<rparr>"] exI [of _ ?p]
        exI [of _ "se_clock en (rh_clock_reads h')"])
       (simp add: send_Heartbeat_def cur_timestamp_def createHeartbeat_def)
qed

subsection \<open>Closing\<close>

lemma node_ok_fields:
  assumes "rh_lasterror h' = rh_lasterror h" "rh_hashing_context h' = rh_hashing_context h" "rh_mux h' = rh_mux h"
  shows "node_ok en h' = node_ok en h"
  using assms by (simp add: node_ok_def channel_sends_def)

lemma fire_node_ok [simp]: "node_ok en (fire_on_connection_state_change c h) = node_ok en h"
  "node_ok en (fire_on_handshake_complete c h) = node_ok en h"
  "node_ok en (fire_on_receive c h) = node_ok en h"
  "node_ok en (fire_on_diagnostic_notification c h) = node_ok en h"
  by (intro node_ok_fields; simp add: fire_on_connection_state_change_def fire_on_handshake_complete_def
      fire_on_receive_def fire_on_diagnostic_notification_def start_notification_def)+

lemma filter_one:
  "distinct (map f xs) \<Longrightarrow> a \<in> f ` set xs \<Longrightarrow> length (filter (\<lambda>x. f x = a) xs) = 1"
proof (induction xs)
  case (Cons x xs)
  show ?case
  proof (cases "f x = a")
    case True
    then have "filter (\<lambda>y. f y = a) xs = []" using Cons.prems(1) by (auto simp: filter_empty_conv) (metis image_eqI)
    then show ?thesis using True by simp
  next
    case False
    then show ?thesis using Cons by auto
  qed
qed simp

lemma remove_channels:
  assumes "distinct (map rc_associated_id (mux_connected_channels m))"
  shows "mux_connected_channels (redundancy_mux_remove_channel u m rid) =
      filter (\<lambda>c. rc_associated_id c \<noteq> rid) (mux_connected_channels m)"
proof (cases "redundancy_mux_get_channel m rid")
  case None
  then have "filter (\<lambda>c. rc_associated_id c \<noteq> rid) (mux_connected_channels m) = mux_connected_channels m"
    by (simp add: get_channel_None filter_id_conv)
  then show ?thesis using None by (simp add: redundancy_mux_remove_channel_def)
next
  case (Some k)
  then have "rid \<in> rc_associated_id ` set (mux_connected_channels m)" by (auto simp: get_channel_spec)
  then show ?thesis using filter_one [OF assms] by (intro remove_channel_lookup) auto
qed

lemma remove_frame [simp]:
  "mux_sr_hashing_context (redundancy_mux_remove_channel u m rid) = mux_sr_hashing_context m"
  "mux_config (redundancy_mux_remove_channel u m rid) = mux_config m"
  "mux_udp_socket_fds (redundancy_mux_remove_channel u m rid) = mux_udp_socket_fds m"
  by (simp_all add: redundancy_mux_remove_channel_def Let_def)

lemma mux_remove_ok:
  assumes "node_ok en h"
  shows "node_ok en (mux_remove en rid h)"
    and "redundancy_mux_get_channel (rh_mux (mux_remove en rid h)) (ucast rid) = None"
  using assms
  by (auto simp: node_ok_def mux_remove_def remove_channels channel_sends_def get_channel_None distinct_map
      intro: inj_on_subset)

lemma ucast_back [simp]: "ucast (ucast (x :: u32) :: u64) = x"
  by (rule bit_word_eqI) (auto simp: bit_simps)

lemma reset_closed: "(sr_reset_connection c rid g)\<lparr>current_state := RASTA_CONNECTION_CLOSED\<rparr> = sr_reset_connection c rid g"
  by (simp add: sr_reset_connection_def)

text \<open>Closing always succeeds: the peer is told in the open states, the channel is removed.\<close>

lemma close_ok:
  assumes ok: "node_ok en h"
  shows "\<exists>h'. sr_close_connection en h c r d = Some (h', sr_reset_connection c (ucast (remote_id c)) (general h)) \<and>
    node_ok en h' \<and> redundancy_mux_get_channel (rh_mux h') (ucast (remote_id c)) = None \<and>
    rh_config h' = rh_config h \<and> rh_connections h' = rh_connections h"
proof (cases "current_state c = RASTA_CONNECTION_DOWN \<or> current_state c = RASTA_CONNECTION_CLOSED")
  case True
  let ?c = "sr_reset_connection c (ucast (remote_id c)) (general h)"
  let ?h = "mux_remove en (remote_id ?c) (fire_on_connection_state_change ?c h)"
  have "sr_close_connection en h c r d = Some (?h, ?c)" using True by (simp add: sr_close_connection_def Let_def)
  moreover have "remote_id ?c = remote_id c" by (simp add: sr_reset_connection_def)
  moreover have "rh_config ?h = rh_config h" "rh_connections ?h = rh_connections h"
    by (simp_all add: mux_remove_def fire_on_connection_state_change_def start_notification_def)
  ultimately show ?thesis using mux_remove_ok [of en "fire_on_connection_state_change ?c h"] ok by simp
next
  case False
  let ?c = "sr_reset_connection c (ucast (remote_id c)) (general h)" and ?g = "h\<lparr>rh_clock_reads := rh_clock_reads h + 1\<rparr>"
  obtain p where p: "createDisconnectionRequest (the_indet en) (remote_id ?c) (my_id ?c) (sn_t ?c) (cs_t ?c)
      (se_clock en (rh_clock_reads h)) (ts_r ?c) \<lparr>dd_details = d, dd_reason = r\<rparr> (rh_hashing_context h) = Some p"
    "wf_packet (rh_hashing_context h) p" "unat (p_length p) < 65000"
    using disconnection_packet [of "rh_hashing_context h" "the_indet en"] ok by (fastforce simp: node_ok_def)
  obtain h1 where h1: "mux_send en ?g p = Some h1" "node_ok en h1" "only_sent ?g h1"
    using node_send [of en ?g p] ok p by auto
  let ?h = "mux_remove en (remote_id ?c) (fire_on_connection_state_change ?c h1)"
  have "send_DisconnectionRequest en h ?c r d = Some h1"
    using p(1) h1(1) ok by (simp add: send_DisconnectionRequest_def cur_timestamp_def node_ok_def)
  then have "sr_close_connection en h c r d = Some (?h, ?c)"
    using False by (simp add: sr_close_connection_def Let_def reset_closed)
  moreover have "remote_id ?c = remote_id c" by (simp add: sr_reset_connection_def)
  moreover have "rh_config ?h = rh_config h" "rh_connections ?h = rh_connections h"
    using only_sent_fields(1,2) [OF h1(3)]
    by (simp_all add: mux_remove_def fire_on_connection_state_change_def start_notification_def)
  ultimately show ?thesis using mux_remove_ok [of en "fire_on_connection_state_change ?c h1"] h1(2) by simp
qed

end
