(* ===== verification/Sr_Queues.thy ===== *)
theory Sr_Queues
  imports Sr_Spec
begin

section \<open>The queues of the safety layer\<close>

text \<open>
  What the handlers do to the queues of a connection, as operations on lists: delivery of
  application messages, removal of confirmed packets, and the packet the send thread builds.
\<close>

subsection \<open>Delivery of application messages\<close>

definition bounded_append :: "nat \<Rightarrow> 'a list \<Rightarrow> 'a list \<Rightarrow> 'a list" where
  "bounded_append n xs ys = xs @ take (n - length xs) ys"

lemma bounded_append_simps [simp]:
  "bounded_append n xs [] = xs"
  "bounded_append n xs (y # ys) = (if length xs < n then bounded_append n (xs @ [y]) ys else bounded_append n xs ys)"
proof -
  show "bounded_append n xs [] = xs" by (simp add: bounded_append_def)
  have "n - length xs = Suc (n - Suc (length xs))" if "length xs < n" using that by simp
  then show "bounded_append n xs (y # ys) =
      (if length xs < n then bounded_append n (xs @ [y]) ys else bounded_append n xs ys)"
    by (simp add: bounded_append_def)
qed

text \<open>Only the fields that delivery changes differ: the others agree once those are blanked.\<close>

definition blank_delivery :: "rasta_connection \<Rightarrow> rasta_connection" where
  "blank_delivery c = c\<lparr>fifo_app_msg := fifo_init 0, t_i := 0, ti_start_time := 0, diagnostic_intervals := [],
     received_diagnostic_message_count := 0\<rparr>"

definition only_delivered :: "rasta_connection \<Rightarrow> rasta_connection \<Rightarrow> bool" where
  "only_delivered c c' \<longleftrightarrow> blank_delivery c = blank_delivery c'"

lemma blank_delivery_fields:
  "current_state (blank_delivery c) = current_state c" "sn_r (blank_delivery c) = sn_r c" "sn_t (blank_delivery c) = sn_t c"
  "cs_r (blank_delivery c) = cs_r c" "cs_t (blank_delivery c) = cs_t c" "fifo_retr (blank_delivery c) = fifo_retr c"
  "fifo_send (blank_delivery c) = fifo_send c" "remote_id (blank_delivery c) = remote_id c"
  "my_id (blank_delivery c) = my_id c" "errors (blank_delivery c) = errors c" "role (blank_delivery c) = role c"
  "cts_r (blank_delivery c) = cts_r c" "ts_r (blank_delivery c) = ts_r c"
  by (simp_all add: blank_delivery_def)

lemma only_delivered_fields:
  assumes "only_delivered c c'"
  shows "current_state c' = current_state c" "sn_r c' = sn_r c" "sn_t c' = sn_t c" "cs_r c' = cs_r c" "cs_t c' = cs_t c"
    "fifo_retr c' = fifo_retr c" "fifo_send c' = fifo_send c" "remote_id c' = remote_id c" "my_id c' = my_id c"
    "errors c' = errors c" "role c' = role c" "cts_r c' = cts_r c" "ts_r c' = ts_r c"
  using assms by (metis only_delivered_def blank_delivery_fields)+

lemma only_delivered_trans: "only_delivered a b \<Longrightarrow> only_delivered b c \<Longrightarrow> only_delivered a c"
  and only_delivered_refl [simp]: "only_delivered c c"
  by (simp_all add: only_delivered_def)

text \<open>Nothing but the clock and the notifications of the handle moved.\<close>

definition blank_notified :: "rasta_handle \<Rightarrow> rasta_handle" where
  "blank_notified h = h\<lparr>rh_clock_reads := 0, rh_running_notifications := 0, rh_events := []\<rparr>"

definition only_notified :: "rasta_handle \<Rightarrow> rasta_handle \<Rightarrow> bool" where
  "only_notified h h' \<longleftrightarrow> blank_notified h = blank_notified h'"

lemma blank_notified_fields:
  "rh_config (blank_notified h) = rh_config h" "rh_mux (blank_notified h) = rh_mux h"
  "rh_lasterror (blank_notified h) = rh_lasterror h" "rh_hashing_context (blank_notified h) = rh_hashing_context h"
  "rh_connections (blank_notified h) = rh_connections h" "rh_sent (blank_notified h) = rh_sent h"
  "rh_factory_error (blank_notified h) = rh_factory_error h"
  "rh_accepted_version (blank_notified h) = rh_accepted_version h"
  by (simp_all add: blank_notified_def)

lemma only_notified_fields:
  assumes "only_notified h h'"
  shows "rh_config h' = rh_config h" "rh_mux h' = rh_mux h" "rh_lasterror h' = rh_lasterror h"
    "rh_hashing_context h' = rh_hashing_context h" "rh_connections h' = rh_connections h" "rh_sent h' = rh_sent h"
    "rh_factory_error h' = rh_factory_error h" "rh_accepted_version h' = rh_accepted_version h"
  using assms by (metis only_notified_def blank_notified_fields)+

lemma only_notified_trans: "only_notified a b \<Longrightarrow> only_notified b c \<Longrightarrow> only_notified a c"
  and only_notified_refl [simp]: "only_notified h h"
  by (simp_all add: only_notified_def)

lemma notified_start: "only_notified h (start_notification e h)"
  and notified_clock: "only_notified h (h\<lparr>rh_clock_reads := n\<rparr>)"
  by (simp_all add: only_notified_def blank_notified_def start_notification_def)

lemma notified_fire:
  "only_notified h (fire_on_receive c h)" "only_notified h (fire_on_connection_state_change c h)"
  "only_notified h (fire_on_handshake_complete c h)" "only_notified h (fire_on_diagnostic_notification c h)"
  "only_notified h (fire_on_hearbeat_timeout c h)" "only_notified h (fire_on_discrequest_state_change c d h)"
  by (simp_all add: fire_on_receive_def fire_on_connection_state_change_def fire_on_handshake_complete_def
      fire_on_diagnostic_notification_def fire_on_hearbeat_timeout_def fire_on_discrequest_state_change_def notified_start)

lemma updateTI_frame:
  "only_notified h (fst (updateTI en t h c))" "only_delivered c (snd (updateTI en t h c))"
  "fifo_app_msg (snd (updateTI en t h c)) = fifo_app_msg c"
  by (simp_all add: updateTI_def cur_timestamp_def Let_def notified_clock only_delivered_def blank_delivery_def)

lemma updateDiagnostic_frame:
  "only_notified h (fst (updateDiagnostic en h c p))" "only_delivered c (snd (updateDiagnostic en h c p))"
  "fifo_app_msg (snd (updateDiagnostic en h c p)) = fifo_app_msg c"
  using only_notified_trans [OF notified_clock notified_fire(4)]
  by (simp_all add: updateDiagnostic_def cur_timestamp_def Let_def resetDiagnostic_def notified_clock
      only_delivered_def blank_delivery_def)

definition app_message :: "RastaPacket \<Rightarrow> u8 list \<Rightarrow> rastaApplicationMessage" where
  "app_message p m = \<lparr>app_id = ucast (p_sender_id p), appMessage = m\<rparr>"

lemma add_one:
  assumes f: "fifo_inv (fifo_app_msg c)"
  shows "\<exists>h' c'. add_app_message en p m h c = Some (h', c') \<and> only_notified h h' \<and> only_delivered c c' \<and>
    fifo_inv (fifo_app_msg c') \<and> f_max_size (fifo_app_msg c') = f_max_size (fifo_app_msg c) \<and>
    fifo_abs (fifo_app_msg c') = bounded_append (unat (f_max_size (fifo_app_msg c))) (fifo_abs (fifo_app_msg c)) [app_message p m]"
proof -
  obtain f' where f': "fifo_push (fifo_app_msg c) (Some (app_message p m)) = Some f'" "fifo_inv f'"
    "f_max_size f' = f_max_size (fifo_app_msg c)"
    "fifo_abs f' = (if length (fifo_abs (fifo_app_msg c)) < unat (f_max_size (fifo_app_msg c))
      then fifo_abs (fifo_app_msg c) @ [app_message p m] else fifo_abs (fifo_app_msg c))"
    using fifo_push_spec [OF f, of "app_message p m"] by blast
  let ?c = "c\<lparr>fifo_app_msg := f'\<rparr>" let ?h = "fire_on_receive ?c h"
  let ?t = "updateTI en (p_confirmed_timestamp p) ?h ?c" let ?d = "updateDiagnostic en (fst ?t) (snd ?t) p"
  have oc: "only_delivered c ?c" by (simp add: only_delivered_def blank_delivery_def)
  have "add_app_message en p m h c = Some ?d"
    using f'(1) by (simp add: add_app_message_def app_message_def Let_def case_prod_beta)
  moreover have "only_notified h (fst ?d)"
    by (rule only_notified_trans [OF only_notified_trans [OF notified_fire(1) updateTI_frame(1)] updateDiagnostic_frame(1)])
  moreover have "only_delivered c (snd ?d)"
    by (rule only_delivered_trans [OF only_delivered_trans [OF oc updateTI_frame(2)] updateDiagnostic_frame(2)])
  moreover have "fifo_app_msg (snd ?d) = f'" by (simp add: updateTI_frame(3) updateDiagnostic_frame(3))
  ultimately show ?thesis using f' by (intro exI [of _ "fst ?d"] exI [of _ "snd ?d"]) simp
qed

lemma add_all:
  assumes f: "fifo_inv (fifo_app_msg c)"
  shows "\<exists>h' c'. add_app_messages en p ms h c = Some (h', c') \<and> only_notified h h' \<and> only_delivered c c' \<and>
    fifo_inv (fifo_app_msg c') \<and> f_max_size (fifo_app_msg c') = f_max_size (fifo_app_msg c) \<and> fifo_abs (fifo_app_msg c') =
      bounded_append (unat (f_max_size (fifo_app_msg c))) (fifo_abs (fifo_app_msg c)) (map (app_message p) ms)"
  using f
proof (induction ms arbitrary: h c)
  case Nil
  then show ?case by simp
next
  case (Cons m ms)
  obtain h1 c1 where 1: "add_app_message en p m h c = Some (h1, c1)" "only_notified h h1" "only_delivered c c1"
    "fifo_inv (fifo_app_msg c1)" "f_max_size (fifo_app_msg c1) = f_max_size (fifo_app_msg c)"
    "fifo_abs (fifo_app_msg c1) =
      bounded_append (unat (f_max_size (fifo_app_msg c))) (fifo_abs (fifo_app_msg c)) [app_message p m]"
    using add_one [OF Cons.prems] by blast
  obtain h2 c2 where 2: "add_app_messages en p ms h1 c1 = Some (h2, c2)" "only_notified h1 h2" "only_delivered c1 c2"
    "fifo_inv (fifo_app_msg c2)" "f_max_size (fifo_app_msg c2) = f_max_size (fifo_app_msg c1)" "fifo_abs (fifo_app_msg c2) =
      bounded_append (unat (f_max_size (fifo_app_msg c1))) (fifo_abs (fifo_app_msg c1)) (map (app_message p) ms)"
    using Cons.IH [OF 1(4)] by blast
  have "only_notified h h2" "only_delivered c c2"
    using only_notified_trans [OF 1(2) 2(2)] only_delivered_trans [OF 1(3) 2(3)] by simp_all
  then show ?case using 1(1,5,6) 2(1,4-6) by simp
qed

subsection \<open>Removal of confirmed packets\<close>

text \<open>
  What is left: the packets after the first one with exactly the confirmed number, nothing
  when no packet has it. \<open>sn_of\<close> reads the number of a packed packet.
\<close>

definition sn_of :: "u8 list \<Rightarrow> u32" where
  "sn_of bs = bytesToLong (take 4 (drop 12 bs))"

definition confirm_upto :: "u32 \<Rightarrow> u8 list list \<Rightarrow> u8 list list" where
  "confirm_upto cs xs = drop 1 (dropWhile (\<lambda>x. sn_of x \<noteq> cs) xs)"

definition packed :: "rasta_hashing_context_t \<Rightarrow> u8 list \<Rightarrow> bool" where
  "packed ctx x \<longleftrightarrow> (\<exists>p. wf_packet ctx p \<and> x = packet_bytes ctx p)"

lemma sn_of_packet: "sn_of (packet_bytes ctx p) = p_sequence_number p"
  by (simp add: sn_of_def packet_bytes_def packet_fields_def)

lemma unpack_packed:
  assumes "packed ctx x" "wf_hash ctx" "indet_ok i"
  shows "\<not> length x < 28 + checksum_len ctx \<and>
    (\<exists>q. bytesToRastaPacket i r x ctx e = Some (q, e) \<and> p_sequence_number q = sn_of x)"
proof -
  obtain p where p: "wf_packet ctx p" "x = packet_bytes ctx p" using assms(1) by (auto simp: packed_def)
  have "length x = unat (p_length p)" using packet_bytes_length [OF assms(2) p(1)] p(2) by simp
  then show ?thesis
    using p packet_roundtrip [OF assms(2) p(1) assms(3), of r e] by (simp add: sn_of_packet wf_packet_def)
qed

lemma remove_confirmed_spec:
  assumes "fifo_inv f" and "\<forall>x \<in> set (fifo_abs f). packed ctx x" and "wf_hash ctx" "indet_ok (the_indet en)"
  shows "\<exists>f'. remove_confirmed en ctx cs f e = Some (f', e) \<and> fifo_inv f' \<and>
    f_max_size f' = f_max_size f \<and> fifo_abs f' = confirm_upto cs (fifo_abs f)"
  using assms(1,2)
proof (induction "fifo_abs f" arbitrary: f)
  case Nil
  obtain f' where f': "fifo_pop f = Some (None, f')" "fifo_inv f'" "f_max_size f' = f_max_size f" "fifo_abs f' = []"
    using fifo_pop_spec [OF Nil.prems(1)] Nil.hyps by auto
  then show ?case
    using Nil.hyps by (subst remove_confirmed.simps) (simp add: confirm_upto_def flip: Nil.hyps)
next
  case (Cons x xs)
  obtain f1 where f1: "fifo_pop f = Some (Some x, f1)" "fifo_inv f1" "f_max_size f1 = f_max_size f" "fifo_abs f1 = xs"
    using fifo_pop_spec [OF Cons.prems(1)] by (simp flip: Cons.hyps(2)) blast
  have x: "packed ctx x" using Cons.prems(2) by (simp flip: Cons.hyps(2))
  obtain q where q: "bytesToRastaPacket (the_indet en) (rp_data (un_packet (se_uninit en))) x ctx e = Some (q, e)"
    "p_sequence_number q = sn_of x" "\<not> length x < 28 + checksum_len ctx"
    using unpack_packed [OF x assms(3,4)] by blast
  show ?case
  proof (cases "sn_of x = cs")
    case True
    then show ?thesis
      using f1 q by (subst remove_confirmed.simps) (simp add: confirm_upto_def flip: Cons.hyps(2))
  next
    case False
    have "\<forall>x \<in> set (fifo_abs f1). packed ctx x" using Cons.prems(2) f1(4) by (simp flip: Cons.hyps(2))
    then obtain f' where "remove_confirmed en ctx cs f1 e = Some (f', e)" "fifo_inv f'" "f_max_size f' = f_max_size f1"
      "fifo_abs f' = confirm_upto cs (fifo_abs f1)"
      using Cons.hyps(1) [of f1] f1(2,4) by auto
    then show ?thesis
      using False f1 q by (subst remove_confirmed.simps) (simp add: confirm_upto_def flip: Cons.hyps(2))
  qed
qed

subsection \<open>An accepted data packet\<close>

text \<open>The queues of a connection are sound and its retransmission queue holds packed packets.\<close>

definition queues_ok :: "rasta_handle \<Rightarrow> rasta_connection \<Rightarrow> bool" where
  "queues_ok h c \<longleftrightarrow> fifo_inv (fifo_app_msg c) \<and> fifo_inv (fifo_send c) \<and> fifo_inv (fifo_retr c) \<and>
     (\<forall>x \<in> set (fifo_abs (fifo_retr c)). packed (rh_hashing_context h) x)"

lemma push_all_spec:
  "fifo_inv f \<Longrightarrow> \<exists>f'. push_all ms f = Some f' \<and> fifo_inv f' \<and> f_max_size f' = f_max_size f \<and>
     fifo_abs f' = bounded_append (unat (f_max_size f)) (fifo_abs f) ms"
proof (induction ms arbitrary: f)
  case (Cons m ms)
  obtain g where g: "fifo_push f (Some m) = Some g" "fifo_inv g" "f_max_size g = f_max_size f"
    "fifo_abs g = (if length (fifo_abs f) < unat (f_max_size f) then fifo_abs f @ [m] else fifo_abs f)"
    using fifo_push_spec [OF Cons.prems, of m] by blast
  then show ?case using Cons.IH [OF g(2)] by auto
qed simp

text \<open>The queues of a connection keep their capacities.\<close>

definition same_sizes :: "rasta_connection \<Rightarrow> rasta_connection \<Rightarrow> bool" where
  "same_sizes c c' \<longleftrightarrow> f_max_size (fifo_app_msg c') = f_max_size (fifo_app_msg c) \<and>
     f_max_size (fifo_send c') = f_max_size (fifo_send c) \<and> f_max_size (fifo_retr c') = f_max_size (fifo_retr c)"

text \<open>The values of an accepted data packet in the connection.\<close>

definition follows :: "RastaPacket \<Rightarrow> rasta_connection \<Rightarrow> bool" where
  "follows p c \<longleftrightarrow> sn_r c = p_sequence_number p + 1 \<and> cs_t c = p_sequence_number p \<and>
     cs_r c = p_confirmed_sequence_number p \<and> ts_r c = p_timestamp p \<and> cts_r c = p_confirmed_timestamp p"

lemma data_ok:
  assumes up: "current_state c = RASTA_CONNECTION_UP" and seq: "sr_sn_in_seq c p" "sr_cts_in_seq c (sending h) p"
    and ms: "extractMessageData p = Some ms" and q: "queues_ok h c" and ok: "wf_hash (rh_hashing_context h)" "indet_ok (the_indet en)"
  shows "\<exists>h' c'. handle_data en h c p = Some (h', c') \<and> only_notified h h' \<and> follows p c' \<and>
    current_state c' = RASTA_CONNECTION_UP \<and> queues_ok h c' \<and> sn_t c' = sn_t c \<and>
    remote_id c' = remote_id c \<and> my_id c' = my_id c \<and> fifo_abs (fifo_app_msg c') =
      bounded_append (unat (f_max_size (fifo_app_msg c))) (fifo_abs (fifo_app_msg c)) (map (app_message p) ms) \<and>
    fifo_abs (fifo_retr c') = confirm_upto (p_confirmed_sequence_number p) (fifo_abs (fifo_retr c)) \<and> same_sizes c c' \<and>
    fifo_send c' = fifo_send c"
proof -
  obtain h1 c1 where 1: "add_app_messages en p ms h c = Some (h1, c1)" "only_notified h h1" "only_delivered c c1"
    "fifo_inv (fifo_app_msg c1)" "fifo_abs (fifo_app_msg c1) =
      bounded_append (unat (f_max_size (fifo_app_msg c))) (fifo_abs (fifo_app_msg c)) (map (app_message p) ms)"
    "f_max_size (fifo_app_msg c1) = f_max_size (fifo_app_msg c)"
    using add_all [of c en p ms h] q by (auto simp: queues_ok_def)
  have ctx: "rh_hashing_context h1 = rh_hashing_context h" "rh_lasterror h1 = rh_lasterror h" "fifo_retr c1 = fifo_retr c"
    by (simp_all add: only_notified_fields [OF 1(2)] only_delivered_fields [OF 1(3)])
  obtain f' where f': "remove_confirmed en (rh_hashing_context h) (p_confirmed_sequence_number p) (fifo_retr c)
      (rh_lasterror h) = Some (f', rh_lasterror h)" "fifo_inv f'"
    "fifo_abs f' = confirm_upto (p_confirmed_sequence_number p) (fifo_abs (fifo_retr c))"
    "f_max_size f' = f_max_size (fifo_retr c)"
    using remove_confirmed_spec [of "fifo_retr c" "rh_hashing_context h" en "p_confirmed_sequence_number p" "rh_lasterror h"]
      q ok by (auto simp: queues_ok_def)
  let ?c = "c1\<lparr>sn_r := p_sequence_number p + 1, cs_t := p_sequence_number p, cs_r := p_confirmed_sequence_number p,
    ts_r := p_timestamp p, cts_r := p_confirmed_timestamp p, fifo_retr := f'\<rparr>"
  have "handle_data en h c p = Some (h1\<lparr>rh_lasterror := rh_lasterror h\<rparr>, ?c)"
    using up seq ms 1(1) f'(1) ctx
    by (simp add: handle_data_def sr_add_app_messages_to_buffer_def sr_remove_confirmed_messages_def)
  moreover have "h1\<lparr>rh_lasterror := rh_lasterror h\<rparr> = h1" using ctx(2) by (simp flip: ctx(2))
  moreover have "set (confirm_upto n xs) \<subseteq> set xs" for n xs
    unfolding confirm_upto_def using set_dropWhileD by (fastforce dest: in_set_dropD)
  then have "queues_ok h ?c"
    using q 1(4) f'(2,3) only_delivered_fields(7) [OF 1(3)] by (auto simp: queues_ok_def)
  ultimately show ?thesis
    using 1(2,5,6) f'(3,4) up only_delivered_fields [OF 1(3)]
    by (intro exI [of _ h1] exI [of _ ?c]) (simp add: follows_def same_sizes_def)
qed

subsection \<open>The packet of the send thread\<close>

lemma pop_all_spec:
  assumes "fifo_inv f" and "n \<le> length (fifo_abs f)"
  shows "\<exists>f'. pop_all n f = Some (take n (fifo_abs f), f') \<and> fifo_inv f' \<and> f_max_size f' = f_max_size f \<and>
    fifo_abs f' = drop n (fifo_abs f)"
  using assms
proof (induction n arbitrary: f)
  case (Suc n)
  obtain x xs where x: "fifo_abs f = x # xs" using Suc.prems(2) by (cases "fifo_abs f") auto
  obtain f1 where f1: "fifo_pop f = Some (Some x, f1)" "fifo_inv f1" "f_max_size f1 = f_max_size f" "fifo_abs f1 = xs"
    using fifo_pop_spec [OF Suc.prems(1)] x by auto
  obtain f' where "pop_all n f1 = Some (take n xs, f')" "fifo_inv f'" "f_max_size f' = f_max_size f1" "fifo_abs f' = drop n xs"
    using Suc.IH [OF f1(2)] f1(4) Suc.prems(2) x by auto
  then show ?case using f1 x by simp
qed auto

lemma send_connection_ok:
  assumes ok: "node_ok en h" and q: "queues_ok h c"
    and st: "current_state c \<noteq> RASTA_CONNECTION_DOWN" "current_state c \<noteq> RASTA_CONNECTION_CLOSED"
    and room: "length (fifo_abs (fifo_retr c)) \<le> unat (cfg_max_packet (sending h))"
    and some: "fifo_abs (fifo_send c) \<noteq> []"
    and n: "n = min (unat (cfg_max_packet (sending h))) (length (fifo_abs (fifo_send c)))"
    and l: "length (message_bytes (take n (fifo_abs (fifo_send c)))) < 64000"
  shows "\<exists>h' c' data. send_connection en h c = Some (h', c') \<and> only_sent h h' \<and> node_ok en h' \<and> sent_as h h' data \<and>
    wf_packet (rh_hashing_context h) data \<and> p_type data = RASTA_TYPE_DATA \<and> p_receiver_id data = remote_id c \<and>
    p_sender_id data = my_id c \<and> p_sequence_number data = sn_t c \<and> p_confirmed_sequence_number data = cs_t c \<and>
    p_confirmed_timestamp data = ts_r c \<and> p_timestamp data = se_clock en (rh_clock_reads h) \<and>
    rh_mux h' = counted_on (rh_mux h) (remote_id c) \<and> p_data data = message_bytes (take n (fifo_abs (fifo_send c))) \<and>
    fifo_abs (fifo_send c') = drop n (fifo_abs (fifo_send c)) \<and> sn_t c' = sn_t c + 1 \<and> cs_t c' = cs_t c \<and> ts_r c' = ts_r c \<and>
    remote_id c' = remote_id c \<and> my_id c' = my_id c \<and> current_state c' = current_state c \<and> queues_ok h c' \<and>
    fifo_abs (fifo_retr c') = bounded_append (unat (f_max_size (fifo_retr c))) (fifo_abs (fifo_retr c))
      [packet_bytes (rh_hashing_context h) data]"
proof -
  let ?ctx = "rh_hashing_context h" and ?s = "fifo_abs (fifo_send c)" and ?M = "cfg_max_packet (sending h)"
  have w: "wf_hash ?ctx" "indet_ok (the_indet en)" "rh_lasterror h = RASTA_ERRORS_NONE" using ok by (simp_all add: node_ok_def)
  have sz: "unat (fifo_get_size (fifo_send c)) = length ?s" "unat (fifo_get_size (fifo_retr c)) = length (fifo_abs (fifo_retr c))"
    using q by (simp_all add: queues_ok_def fifo_len)
  have r: "sr_retr_data_available c \<le> ?M" using room sz(2) by (simp add: sr_retr_data_available_def word_le_nat_alt)
  have pos: "sr_rasta_send_data_available c > 0"
    using some sz(1) by (simp add: sr_rasta_send_data_available_def word_less_nat_alt)
  have k: "unat (if sr_rasta_send_data_available c \<ge> ?M then ?M else sr_rasta_send_data_available c) = n"
    using sz(1) by (auto simp: n sr_rasta_send_data_available_def word_le_nat_alt)
  obtain f where f: "pop_all n (fifo_send c) = Some (take n ?s, f)" "fifo_inv f" "fifo_abs f = drop n ?s"
    using pop_all_spec [of "fifo_send c" n] q n by (auto simp: queues_ok_def)
  let ?g = "h\<lparr>rh_clock_reads := rh_clock_reads h + 1\<rparr>"
  obtain data where d: "createDataMessage (the_indet en) (remote_id c) (my_id c) (sn_t c) (cs_t c)
      (se_clock en (rh_clock_reads h)) (ts_r c) (take n ?s) ?ctx = Some data" "wf_packet ?ctx data"
    "p_data data = message_bytes (take n ?s)" "p_type data = RASTA_TYPE_DATA" "p_receiver_id data = remote_id c"
    "p_sender_id data = my_id c" "p_sequence_number data = sn_t c" "p_confirmed_sequence_number data = cs_t c"
    "p_confirmed_timestamp data = ts_r c" "p_timestamp data = se_clock en (rh_clock_reads h)"
    using create_data_ok [OF w(1,2), of "take n ?s"] l hash_len_bound [OF w(1)] by fastforce
  have pl: "unat (p_length data) < 65000" using d(2,3) l hash_len_bound [OF w(1)] by (simp add: wf_packet_def)
  have b: "rastaModuleToBytes (the_indet en) data ?ctx RASTA_ERRORS_NONE = Some (packet_bytes ?ctx data, RASTA_ERRORS_NONE)"
    by (rule module_to_bytes [OF w(1) d(2) w(2)])
  obtain retr where retr: "fifo_push (fifo_retr c) (Some (packet_bytes ?ctx data)) = Some retr" "fifo_inv retr"
    "fifo_abs retr = bounded_append (unat (f_max_size (fifo_retr c))) (fifo_abs (fifo_retr c)) [packet_bytes ?ctx data]"
    using fifo_push_spec [of "fifo_retr c" "packet_bytes ?ctx data"] q by (auto simp: queues_ok_def)
  obtain h1 where h1: "mux_send en ?g data = Some h1" "node_ok en h1" "only_sent ?g h1" "sent_as ?g h1 data"
    "rh_mux h1 = counted_on (rh_mux h) (remote_id c)"
    using node_send [of en ?g data] ok d(2,5) pl by auto
  let ?h = "h1\<lparr>rh_clock_reads := rh_clock_reads h1 + 1\<rparr>"
  let ?c = "c\<lparr>fifo_send := f, fifo_retr := retr, sn_t := sn_t c + 1, ts_last_message := se_clock en (rh_clock_reads h1),
    hb_stopped := False, is_sending := False\<rparr>"
  have e0: "?g\<lparr>rh_lasterror := RASTA_ERRORS_NONE\<rparr> = ?g" using w(3) by simp
  have m: "mux_send en (?g\<lparr>rh_lasterror := RASTA_ERRORS_NONE\<rparr>) data = Some h1" by (simp only: e0 h1(1))
  have "send_connection en h c = Some (?h, ?c)"
    using st r pos k f(1) d(1,7) b retr(1) m w(3)
    by (simp add: send_connection_def Let_def cur_timestamp_def)
  moreover have "packed ?ctx (packet_bytes ?ctx data)" using d(2) by (auto simp: packed_def)
  then have "queues_ok h ?c" using q f(2) retr(2,3) by (auto simp: queues_ok_def)
  moreover have "only_sent h ?h" using only_sent_clock_simps(1) [OF h1(3)] by simp
  moreover have "node_ok en ?h" "sent_as h ?h data" using h1(2,4) by simp_all
  ultimately show ?thesis using d(2-10) f(3) retr(3) h1(5) by (intro exI [of _ ?h] exI [of _ ?c] exI [of _ data]) simp
qed

text \<open>The fields of a connection that the send thread leaves alone.\<close>

lemma fifo_sizes:
  "fifo_push f x = Some g \<Longrightarrow> f_max_size g = f_max_size f"
  "fifo_pop f = Some (y, g) \<Longrightarrow> f_max_size g = f_max_size f"
  by (auto simp: fifo_push_def fifo_pop_def Let_def bind_Some_iff split: if_splits option.splits)

lemma pop_all_size: "pop_all n f = Some (xs, g) \<Longrightarrow> f_max_size g = f_max_size f"
  by (induction n arbitrary: f xs) (auto simp: bind_Some_iff dest!: fifo_sizes(2))

lemma send_keeps:
  assumes "send_connection en h c = Some (h', c')"
  shows "sn_r c' = sn_r c" "cs_r c' = cs_r c" "cts_r c' = cts_r c" "fifo_app_msg c' = fifo_app_msg c"
    "f_max_size (fifo_send c') = f_max_size (fifo_send c)" "f_max_size (fifo_retr c') = f_max_size (fifo_retr c)"
  using assms
  by (auto simp: send_connection_def Let_def cur_timestamp_def case_prod_beta bind_Some_iff
      dest!: pop_all_size fifo_sizes(1) split: if_splits)

end
