(* ===== verification/Sr_Handshake.thy ===== *)
theory Sr_Handshake
  imports Sr_Queues
begin

section \<open>Opening a connection\<close>

text \<open>
  The three packets of the handshake on both sides, the version check that never refuses, and
  what a second \<open>sr_connect\<close> does to the channels of the multiplexer.
\<close>

subsection \<open>Versions\<close>

lemma version_accepted_always: "version_accepted vs v = Some b \<Longrightarrow> b"
  by (induction vs) (auto simp: bind_Some_iff split: if_splits)

lemma conreq_version_always: "conreq_version_ok en h d = Some b \<Longrightarrow> b"
  by (auto simp: conreq_version_ok_def bind_Some_iff split: if_splits dest: version_accepted_always)

subsection \<open>Connection request at the server\<close>

definition connection_data :: "u8 list \<Rightarrow> u16 \<Rightarrow> RastaConnectionData" where
  "connection_data v m = \<lparr>cd_send_max = m, cd_version = v\<rparr>"

text \<open>A connection packet with its sender, receiver, numbers, version and send limit.\<close>

definition connection_packet ::
  "u16 \<Rightarrow> RastaPacket \<Rightarrow> u32 \<Rightarrow> u32 \<Rightarrow> u32 \<Rightarrow> u32 \<Rightarrow> u8 list \<Rightarrow> u16 \<Rightarrow> bool" where
  "connection_packet t p sender receiver n cs v m \<longleftrightarrow> p_type p = t \<and> p_sender_id p = sender \<and> p_receiver_id p = receiver \<and>
     p_sequence_number p = n \<and> p_confirmed_sequence_number p = cs \<and> length v = 4 \<and>
     p_data p = v @ shortToBytes m @ replicate 8 0"

lemma extract_connection:
  "connection_packet t p a b n cs v m \<Longrightarrow> extractRastaConnectionData p e = (connection_data v m, e)"
  unfolding connection_data_def connection_packet_def by (intro connection_data_roundtrip) auto

lemma create_response:
  assumes "wf_hash ctx" "indet_ok i" "length v = 4"
  shows "\<exists>p. createConnectionResponse i r s sn csn ts cts m v ctx = Some p \<and> wf_packet ctx p \<and> unat (p_length p) < 65000 \<and>
    connection_packet RASTA_TYPE_CONNRESP p s r sn csn v m \<and> p_timestamp p = ts"
proof -
  let ?p = "initializePacket i RASTA_TYPE_CONNRESP r s sn csn ts cts 14 ctx"
  have l: "length (p_data ?p) = 14" using assms(2) by simp
  have w: "wf_packet ctx ?p" using assms hash_len_bound [OF assms(1)] by (intro initialize_wf) auto
  let ?d = "v @ shortToBytes m @ replicate 8 0"
  have "createConnectionResponse i r s sn csn ts cts m v ctx = Some (?p\<lparr>p_data := ?d\<rparr>)"
    unfolding createConnectionResponse_def by (rule connection_payload_ok [OF l assms(3)])
  moreover have w': "wf_packet ctx (?p\<lparr>p_data := ?d\<rparr>)" using l assms(3) by (intro wf_packet_data [OF w]) simp
  moreover have "unat (p_length (?p\<lparr>p_data := ?d\<rparr>)) < 65000"
    using w' hash_len_bound [OF assms(1)] assms(3) by (simp add: wf_packet_def)
  ultimately show ?thesis using assms(3) by (simp add: connection_packet_def)
qed

lemma create_request:
  assumes "wf_hash ctx" "indet_ok i" "length v = 4"
  shows "\<exists>p. createConnectionRequest i r s sn ts m v ctx = Some p \<and> wf_packet ctx p \<and> unat (p_length p) < 65000 \<and>
    connection_packet RASTA_TYPE_CONNREQ p s r sn 0 v m \<and> p_timestamp p = ts"
proof -
  let ?p = "initializePacket i RASTA_TYPE_CONNREQ r s sn 0 ts 0 14 ctx"
  have l: "length (p_data ?p) = 14" using assms(2) by simp
  have w: "wf_packet ctx ?p" using assms hash_len_bound [OF assms(1)] by (intro initialize_wf) auto
  let ?d = "v @ shortToBytes m @ replicate 8 0"
  have "createConnectionRequest i r s sn ts m v ctx = Some (?p\<lparr>p_data := ?d\<rparr>)"
    unfolding createConnectionRequest_def by (rule connection_payload_ok [OF l assms(3)])
  moreover have w': "wf_packet ctx (?p\<lparr>p_data := ?d\<rparr>)" using l assms(3) by (intro wf_packet_data [OF w]) simp
  moreover have "unat (p_length (?p\<lparr>p_data := ?d\<rparr>)) < 65000"
    using w' hash_len_bound [OF assms(1)] assms(3) by (simp add: wf_packet_def)
  ultimately show ?thesis using assms(3) by (simp add: connection_packet_def)
qed

lemma init_connection_fields [simp]:
  "remote_id (sr_init_connection c r g s ro) = ucast r" "my_id (sr_init_connection c r g s ro) = ucast (cfg_rasta_id g)"
  "role (sr_init_connection c r g s ro) = ro" "sn_t (sr_init_connection c r g s ro) = sn_t c"
  by (simp_all add: sr_init_connection_def sr_diagnostic_interval_init_def sr_reset_connection_def Let_def)

lemma init_connection_queues: "queues_ok h (sr_init_connection c r g s ro)"
  by (simp add: queues_ok_def sr_init_connection_def fifo_init_inv fifo_init_abs)

lemma node_ok_connections [simp]: "node_ok en (h\<lparr>rh_connections := l\<rparr>) = node_ok en h"
  "node_ok en (h\<lparr>rh_factory_error := e\<rparr>) = node_ok en h"
  by (rule node_ok_fields; simp)+

lemma sent_as_fields:
  assumes "rh_sent h1 = rh_sent h" "rh_mux h1 = rh_mux h" "rh_hashing_context h1 = rh_hashing_context h"
  shows "sent_as h1 h' p = sent_as h h' p"
  using assms by (simp add: sent_as_def)

lemma conreq_ok:
  assumes ok: "node_ok en h" and l: "rl_inv (rh_connections h)"
    and p: "connection_packet RASTA_TYPE_CONNREQ p sender (ucast (cfg_rasta_id (general h))) n 0 v m" "p_checksum_correct p"
    and v: "conreq_version_ok en h (connection_data v m) \<noteq> None"
  shows "\<exists>h' c resp. handle_conreq en h None p = Some h' \<and> node_ok en h' \<and> rh_config h' = rh_config h \<and>
    rh_hashing_context h' = rh_hashing_context h \<and>
    rl_data (rh_connections h') = rl_data (rh_connections h) @ [c] \<and> rl_inv (rh_connections h') \<and>
    current_state c = RASTA_CONNECTION_START \<and> role c = RASTA_ROLE_SERVER \<and> remote_id c = sender \<and>
    my_id c = ucast (cfg_rasta_id (general h)) \<and> sn_r c = n + 1 \<and> cs_t c = n \<and> cs_r c = sn_t c - 2 \<and>
    cts_r c = se_clock en (rh_clock_reads h) \<and> queues_ok h c \<and> sent_as h h' resp \<and>
    connection_packet RASTA_TYPE_CONNRESP resp (my_id c) sender (sn_t c - 1) n RASTA_VERSION (cfg_send_max (sending h)) \<and>
    p_timestamp resp = se_clock en (rh_clock_reads h + 1)"
proof -
  let ?new = "(sr_init_connection (se_connection en) (ucast (p_sender_id p)) (general h) (sending h) RASTA_ROLE_SERVER)
    \<lparr>sn_t := initial_seq_num en h, current_state := RASTA_CONNECTION_DOWN\<rparr>"
  let ?k = "initial_seq_num en h" and ?t = "se_clock en (rh_clock_reads h)"
  note p' = p(1) [unfolded connection_packet_def]
  have chk: "sr_check_packet ?new (sending h) p"
    using p' p(2) by (simp add: sr_check_packet_def sr_message_authentic_def sr_sn_range_valid_def sr_cs_valid_def
        sr_sn_in_seq_def sr_cts_in_seq_def rasta_types)
  have ver: "conreq_version_ok en (h\<lparr>rh_factory_error := e\<rparr>) (connection_data v m) = Some True" for e
    using v conreq_version_always [of en h "connection_data v m"] by (auto simp: conreq_version_ok_def cong: if_cong)
  let ?c = "?new\<lparr>sn_r := n + 1, cs_t := n, ts_r := p_timestamp p, connected_recv_buffer_size := uint m,
    cs_r := ?k - 1, cts_r := ?t, t_i := cfg_t_max (sending h), sn_t := ?k + 1, current_state := RASTA_CONNECTION_START\<rparr>"
  obtain resp where resp: "createConnectionResponse (the_indet en) sender (ucast (cfg_rasta_id (general h))) ?k n
      (se_clock en (rh_clock_reads h + 1)) ?t (cfg_send_max (sending h)) RASTA_VERSION (rh_hashing_context h) = Some resp"
    "wf_packet (rh_hashing_context h) resp" "unat (p_length resp) < 65000"
    "connection_packet RASTA_TYPE_CONNRESP resp (ucast (cfg_rasta_id (general h))) sender ?k n RASTA_VERSION (cfg_send_max (sending h))"
    "p_timestamp resp = se_clock en (rh_clock_reads h + 1)"
    using create_response [of "rh_hashing_context h" "the_indet en" RASTA_VERSION] ok
    by (fastforce simp: node_ok_def RASTA_VERSION_def)
  obtain i cons where add: "rastalist_addConnection (rh_connections h) ?c = (i, cons)" by fastforce
  let ?g = "fire_on_connection_state_change ?c (h\<lparr>rh_clock_reads := rh_clock_reads h + 2, rh_connections := cons\<rparr>)"
  have gf: "rh_sent ?g = rh_sent h" "rh_mux ?g = rh_mux h" "rh_hashing_context ?g = rh_hashing_context h"
    "rh_config ?g = rh_config h" "rh_connections ?g = cons"
    by (simp_all add: fire_on_connection_state_change_def start_notification_def)
  have og: "node_ok en ?g" using ok by simp
  obtain h' where h': "mux_send en ?g resp = Some h'" "node_ok en h'" "only_sent ?g h'" "sent_as ?g h' resp"
    using node_send [OF og] resp(2,3) gf(3) by auto
  have run: "handle_conreq en h None p = Some h'"
    using chk p' extract_connection [OF p(1)] ver resp(1) add h'(1)
    by (simp add: handle_conreq_def Let_def conreq_connection_def cur_timestamp_def connection_data_def numeral_2_eq_2)
  have s: "sent_as h h' resp" using h'(4) sent_as_fields [OF gf(1-3)] by simp
  have q: "queues_ok h ?c" using init_connection_queues [of h] by (simp add: queues_ok_def)
  show ?thesis
    using run h'(2) only_sent_fields [OF h'(3)] gf add_spec [OF l add] resp(4,5) s q p'
    by (intro exI [of _ h'] exI [of _ ?c] exI [of _ resp]) simp
qed

subsection \<open>Connection response at the client, heartbeat at the server\<close>

lemma conresp_ok:
  assumes ok: "node_ok en h" and st: "current_state c = RASTA_CONNECTION_START" "role c = RASTA_ROLE_CLIENT"
    and p: "connection_packet RASTA_TYPE_CONNRESP p (remote_id c) (my_id c) n (sn_t c - 1) v m" "p_checksum_correct p"
    and v: "version_accepted (rh_accepted_version h) (version_at en (connection_data v m)) \<noteq> None"
  shows "\<exists>h' c' hb. handle_conresp en h c p = Some (h', c') \<and> node_ok en h' \<and> current_state c' = RASTA_CONNECTION_UP \<and>
    sn_r c' = n + 1 \<and> cs_t c' = n \<and> cs_r c' = sn_t c - 1 \<and> sn_t c' = sn_t c + 1 \<and> \<not> hb_locked c' \<and> sent_as h h' hb \<and>
    p_type hb = RASTA_TYPE_HB \<and> p_receiver_id hb = remote_id c \<and> p_sender_id hb = my_id c \<and>
    p_sequence_number hb = sn_t c \<and> p_confirmed_sequence_number hb = n \<and> p_confirmed_timestamp hb = p_timestamp p \<and>
    p_timestamp hb = se_clock en (rh_clock_reads h) \<and> ts_r c' = p_timestamp p \<and> cts_r c' = cts_r c \<and>
    remote_id c' = remote_id c \<and> my_id c' = my_id c"
proof -
  note p' = p(1) [unfolded connection_packet_def]
  have chk: "sr_check_packet c (sending h) p"
    using p' p(2) by (simp add: sr_check_packet_def sr_message_authentic_def sr_sn_range_valid_def sr_cs_valid_def
        sr_sn_in_seq_def sr_cts_in_seq_def rasta_types)
  have ver: "version_accepted (rh_accepted_version h) (version_at en (connection_data v m)) = Some True"
    using v version_accepted_always by auto
  let ?c = "c\<lparr>sn_r := n + 1, cs_t := n, ts_r := p_timestamp p, cs_r := sn_t c - 1\<rparr>"
  obtain h1 hb now where 1: "send_Heartbeat en h ?c = Some (h1, ?c\<lparr>sn_t := sn_t ?c + 1, ts_last_message := now\<rparr>)"
    "node_ok en h1" "only_sent h h1" "sent_as h h1 hb" "p_type hb = RASTA_TYPE_HB" "p_receiver_id hb = remote_id c"
    "p_sender_id hb = my_id c" "p_sequence_number hb = sn_t c" "p_confirmed_sequence_number hb = n"
    "p_confirmed_timestamp hb = p_timestamp p" "p_timestamp hb = se_clock en (rh_clock_reads h)"
    using heartbeat_sent [of en h ?c] ok by auto
  let ?u = "?c\<lparr>sn_t := sn_t ?c + 1, ts_last_message := now, current_state := RASTA_CONNECTION_UP\<rparr>"
  let ?h2 = "fire_on_handshake_complete ?u (fire_on_connection_state_change ?u h1)"
  let ?t = "rh_clock_reads ?h2"
  let ?h3 = "?h2\<lparr>rh_clock_reads := ?t + 2\<rparr>"
  let ?c3 = "?u\<lparr>ts_last_message := se_clock en ?t, hb_locked := False, connected_recv_buffer_size := uint m,
    ti_start_time := se_clock en (?t + 1)\<rparr>"
  have run: "handle_conresp en h c p = Some (?h3, ?c3)"
    using chk p' st extract_connection [OF p(1)] ver 1(1)
    by (simp add: handle_conresp_def Let_def cur_timestamp_def connection_data_def numeral_2_eq_2)
  have f: "rh_sent ?h3 = rh_sent h1"
    by (simp add: fire_on_connection_state_change_def fire_on_handshake_complete_def start_notification_def)
  have "node_ok en ?h3" using 1(2) by simp
  moreover have "sent_as h ?h3 hb" using 1(4) f by (simp add: sent_as_def)
  ultimately show ?thesis using run 1(5-11) by (intro exI [of _ ?h3] exI [of _ ?c3] exI [of _ hb]) simp
qed

lemma send_config: "mux_send en h p = Some h' \<Longrightarrow> rh_config h' = rh_config h"
  by (auto simp: mux_send_def bind_Some_iff)

lemma close_config: "sr_close_connection en h c r d = Some (h', c') \<Longrightarrow> rh_config h' = rh_config h"
  by (auto simp: sr_close_connection_def send_DisconnectionRequest_def mux_remove_def Let_def cur_timestamp_def bind_Some_iff
      split: if_splits dest!: send_config)

lemma conresp_config: "handle_conresp en h c p = Some (h', c') \<Longrightarrow> rh_config h' = rh_config h"
  by (auto simp: handle_conresp_def send_Heartbeat_def Let_def case_prod_beta cur_timestamp_def bind_Some_iff
      split: if_splits dest!: send_config dest: close_config)

lemma hb_start_ok:
  assumes st: "current_state c = RASTA_CONNECTION_START" "role c = RASTA_ROLE_SERVER"
    and p: "sr_sn_in_seq c p" "sr_cts_in_seq c (sending h) p"
  shows "\<exists>h' c'. handle_hb en h c p = Some (h', c') \<and> only_notified h h' \<and> current_state c' = RASTA_CONNECTION_UP \<and>
    sn_r c' = p_sequence_number p + 1 \<and> cs_t c' = p_sequence_number p \<and> cs_r c' = p_confirmed_sequence_number p \<and>
    sn_t c' = sn_t c \<and> \<not> hb_locked c' \<and> ts_r c' = p_timestamp p \<and> cts_r c' = cts_r c \<and>
    remote_id c' = remote_id c \<and> my_id c' = my_id c"
proof -
  let ?u = "c\<lparr>sn_r := p_sequence_number p + 1, cs_t := p_sequence_number p, cs_r := p_confirmed_sequence_number p,
    ts_r := p_timestamp p, current_state := RASTA_CONNECTION_UP, hb_locked := False\<rparr>"
  let ?h2 = "fire_on_handshake_complete ?u (fire_on_connection_state_change ?u h)"
  let ?t = "rh_clock_reads ?h2"
  have run: "handle_hb en h c p = Some (?h2\<lparr>rh_clock_reads := ?t + 2\<rparr>, ?u\<lparr>ts_last_message := se_clock en ?t,
      ti_start_time := se_clock en (?t + 1)\<rparr>)"
    using st p by (simp add: handle_hb_def hb_in_start_def Let_def cur_timestamp_def numeral_2_eq_2)
  have "only_notified h (?h2\<lparr>rh_clock_reads := ?t + 2\<rparr>)"
    by (rule only_notified_trans [OF only_notified_trans [OF notified_fire(2) notified_fire(3)] notified_clock])
  with run show ?thesis
    by (intro exI [of _ "?h2\<lparr>rh_clock_reads := ?t + 2\<rparr>"] exI [of _ "?u\<lparr>ts_last_message := se_clock en ?t,
      ti_start_time := se_clock en (?t + 1)\<rparr>"]) simp
qed

subsection \<open>A second connection\<close>

lemma datagram_hosts:
  "datagrams m r bytes is = Some ds \<Longrightarrow>
   \<forall>d \<in> set ds. \<exists>tc \<in> set (rc_connected_channels r). d_host d = tc_ip_address tc \<and> d_port d = tc_port tc"
proof (induction "is" arbitrary: ds)
  case (Cons i js)
  then obtain d es where d: "datagram_on m r bytes i = Some d" "datagrams m r bytes js = Some es" "ds = d # es"
    by (auto simp: bind_Some_iff)
  have "\<exists>tc \<in> set (rc_connected_channels r). d_host d = tc_ip_address tc \<and> d_port d = tc_port tc"
    using d(1) by (auto simp: datagram_on_def bind_Some_iff buf_get_Some_iff intro!: bexI [OF _ nth_mem])
  then show ?case using Cons.IH [OF d(2)] d(3) by simp
qed simp

lemma send_hosts:
  assumes "redundancy_mux_send i m p e = Some (m', ds, e')"
    and "redundancy_mux_get_channel m (ucast (p_receiver_id p)) = Some k"
  shows "map rc_associated_id (mux_connected_channels m') = map rc_associated_id (mux_connected_channels m)"
    and "\<forall>d \<in> set ds. \<exists>tc \<in> set (rc_connected_channels (mux_connected_channels m ! k)).
      d_host d = tc_ip_address tc \<and> d_port d = tc_port tc"
proof -
  have k: "k < length (mux_connected_channels m)" using assms(2) by (simp add: get_channel_spec)
  let ?r = "mux_connected_channels m ! k"
  obtain b where b: "datagrams m ?r b [0..<unat (rc_connected_channel_count ?r)] = Some ds"
    "m' = set_channel k (?r\<lparr>rc_seq_tx := rc_seq_tx ?r + 1\<rparr>) m"
    using assms unfolding redundancy_mux_send_def by (clarsimp simp: Let_def bind_Some_iff)
  show "map rc_associated_id (mux_connected_channels m') = map rc_associated_id (mux_connected_channels m)"
    unfolding b(2) by (rule set_channel_ids [OF k]) simp
  show "\<forall>d \<in> set ds. \<exists>tc \<in> set (rc_connected_channels (mux_connected_channels m ! k)).
      d_host d = tc_ip_address tc \<and> d_port d = tc_port tc"
    by (rule datagram_hosts [OF b(1)])
qed

lemma lookup_ids:
  "map rc_associated_id (mux_connected_channels m') = map rc_associated_id (mux_connected_channels m) \<Longrightarrow>
   redundancy_mux_get_channel m' r = redundancy_mux_get_channel m r"
proof -
  have loop: "map rc_associated_id cs = map rc_associated_id ds \<Longrightarrow> channel_loop cs i r = channel_loop ds i r" for cs ds i
  proof (induction cs arbitrary: ds i)
    case (Cons c cs)
    then obtain d es where ds: "ds = d # es" by (cases ds) auto
    have "channel_loop cs (i + 1) r = channel_loop es (i + 1) r" using Cons ds by (intro Cons.IH) simp
    then show ?case using Cons.prems ds by simp
  qed simp
  assume "map rc_associated_id (mux_connected_channels m') = map rc_associated_id (mux_connected_channels m)"
  then show ?thesis unfolding redundancy_mux_get_channel_def by (rule loop)
qed

text \<open>
  Connecting adds a channel at the end and then gives the identifier to the first channel:
  with an earlier channel in place, that one is found and used from then on.
\<close>

lemma add_transports_id: "add_transports d c xs = Some c' \<Longrightarrow> rc_associated_id c' = rc_associated_id c"
  by (induction xs arbitrary: c)
     (auto simp: bind_Some_iff rasta_red_add_transport_channel_def)

lemma add_channel_id:
  assumes "redundancy_mux_add_channel u m rid cs = Some m'"
  shows "\<exists>c. mux_connected_channels m' = mux_connected_channels m @ [c] \<and> rc_associated_id c = rid"
proof -
  obtain c where "mux_connected_channels m' = mux_connected_channels m @ [c]"
    "add_transports (tc_diagnostics_data (un_transport u 0))
       (rasta_red_init (un_transport u) (mux_config m) (mux_port_count m) rid) (take (unat (mux_port_count m)) cs) = Some c"
    using assms by (auto simp: redundancy_mux_add_channel_def bind_Some_iff split: if_splits)
  then show ?thesis using add_transports_id by (fastforce simp: rasta_red_init_def Let_def)
qed

lemma payload_receiver: "connection_payload p v m = Some q \<Longrightarrow> p_receiver_id q = p_receiver_id p"
  by (auto simp: connection_payload_def bind_Some_iff)

lemma connect_sends:
  fixes r :: u32
  assumes run: "sr_connect en h (ucast r) channels = Some h'"
    and nf: "\<not> (\<exists>c \<in> set (rl_data (rh_connections h)). ucast (remote_id c) = (ucast r :: u64))"
    and m: "redundancy_mux_add_channel (se_uninit en) (rh_mux h) (ucast r) channels = Some m"
  shows "\<exists>p h1 h2. mux_send en h1 p = Some h2 \<and> rh_mux h1 = redundancy_mux_set_config_id m (ucast r) \<and>
    rh_sent h1 = rh_sent h \<and> p_receiver_id p = r \<and> rh_mux h' = rh_mux h2 \<and> rh_sent h' = rh_sent h2"
proof -
  let ?h = "h\<lparr>rh_mux := redundancy_mux_set_config_id m (ucast r), rh_clock_reads := rh_clock_reads h + 2\<rparr>"
  obtain a n t p h2 where p: "createConnectionRequest (the_indet en) r a n t (cfg_send_max (sending h)) RASTA_VERSION
      (rh_hashing_context h) = Some p"
    "mux_send en ?h p = Some h2" "rh_mux h' = rh_mux h2" "rh_sent h' = rh_sent h2"
    using run nf m
    by (auto simp: sr_connect_def bind_Some_iff Let_def cur_timestamp_def numeral_2_eq_2
        fire_on_connection_state_change_def start_notification_def split: if_splits)
  have "p_receiver_id p = r"
    using p(1) by (auto simp: createConnectionRequest_def dest!: payload_receiver)
  then show ?thesis using p(2-4) by (intro exI [of _ p] exI [of _ ?h] exI [of _ h2]) simp
qed

lemma connect_takes_over:
  fixes r :: u32
  assumes run: "sr_connect en h (ucast r) channels = Some h'"
    and fresh: "\<forall>c \<in> set (rl_data (rh_connections h)). remote_id c \<noteq> r"
    and cs: "mux_connected_channels (rh_mux h) = c0 # cs" "rc_associated_id c0 \<noteq> ucast r"
      "\<forall>c \<in> set cs. rc_associated_id c \<noteq> rc_associated_id c0"
  shows "redundancy_mux_get_channel (rh_mux h') (rc_associated_id c0) = None"
    and "\<exists>ds. rh_sent h' = rh_sent h @ ds \<and> (\<forall>d \<in> set ds. \<exists>tc \<in> set (rc_connected_channels c0).
      d_host d = tc_ip_address tc \<and> d_port d = tc_port tc)"
    and "redundancy_mux_get_channel (rh_mux h') (ucast r) = Some 0"
proof -
  have nf: "\<not> (\<exists>c \<in> set (rl_data (rh_connections h)). ucast (remote_id c) = (ucast r :: u64))"
    using fresh by (auto simp: ucast_u32_u64)
  obtain m where m: "redundancy_mux_add_channel (se_uninit en) (rh_mux h) (ucast r) channels = Some m"
    using run nf by (auto simp: sr_connect_def bind_Some_iff)
  then obtain c1 where c1: "mux_connected_channels m = c0 # cs @ [c1]" "rc_associated_id c1 = ucast r"
    using add_channel_id [OF m] cs(1) by auto
  let ?m = "redundancy_mux_set_config_id m (ucast r)"
  have ch: "mux_connected_channels ?m = c0\<lparr>rc_associated_id := ucast r\<rparr> # cs @ [c1]"
    using c1 by (simp add: redundancy_mux_set_config_id_def set_channel_def)
  have g: "redundancy_mux_get_channel ?m (ucast r) = Some 0"
    by (simp add: redundancy_mux_get_channel_def ch)
  obtain p h1 h2 where s: "mux_send en h1 p = Some h2" "rh_mux h1 = ?m" "rh_sent h1 = rh_sent h" "p_receiver_id p = r"
    "rh_mux h' = rh_mux h2" "rh_sent h' = rh_sent h2"
    using connect_sends [OF run nf m] by blast
  obtain m' ds e where d: "redundancy_mux_send (the_indet en) ?m p (rh_lasterror h1) = Some (m', ds, e)"
    "rh_mux h2 = m'" "rh_sent h2 = rh_sent h @ ds"
    using s(1-3) by (auto simp: mux_send_def bind_Some_iff)
  have ids: "map rc_associated_id (mux_connected_channels m') = map rc_associated_id (mux_connected_channels ?m)"
    using send_hosts(1) [OF d(1)] g s(4) by simp
  have "redundancy_mux_get_channel ?m (rc_associated_id c0) = None"
    using cs(2,3) c1(2) by (simp add: get_channel_None ch)
  then show "redundancy_mux_get_channel (rh_mux h') (rc_associated_id c0) = None"
    using lookup_ids [OF ids] d(2) s(5) by simp
  show "redundancy_mux_get_channel (rh_mux h') (ucast r) = Some 0"
    using lookup_ids [OF ids] g d(2) s(5) by simp
  have "\<forall>d \<in> set ds. \<exists>tc \<in> set (rc_connected_channels (mux_connected_channels ?m ! 0)).
      d_host d = tc_ip_address tc \<and> d_port d = tc_port tc"
    using send_hosts(2) [OF d(1)] g s(4) by simp
  then show "\<exists>ds. rh_sent h' = rh_sent h @ ds \<and> (\<forall>d \<in> set ds. \<exists>tc \<in> set (rc_connected_channels c0).
      d_host d = tc_ip_address tc \<and> d_port d = tc_port tc)"
    using d(3) s(6) by (simp add: ch)
qed

text \<open>Connecting is defined when the first channel, which is then used, can send.\<close>

lemma connect_defined:
  fixes r :: u32
  assumes nf: "\<not> (\<exists>c \<in> set (rl_data (rh_connections h)). ucast (remote_id c) = (ucast r :: u64))"
    and m: "redundancy_mux_add_channel (se_uninit en) (rh_mux h) (ucast r) channels = Some m"
    and c: "mux_connected_channels m = c0 # cs" "rc_hashing_context c0 = rh_hashing_context h"
      "unat (rc_connected_channel_count c0) \<le> length (rc_connected_channels c0)"
      "unat (rc_connected_channel_count c0) \<le> length (mux_udp_socket_fds m)"
    and ok: "wf_hash (rh_hashing_context h)" "indet_ok (the_indet en)" "rh_lasterror h = RASTA_ERRORS_NONE"
      "crc_bytes (cfg_crc_type (cfg_redundancy (mux_config m))) \<le> 4"
  shows "sr_connect en h (ucast r) channels \<noteq> None"
proof -
  let ?m = "redundancy_mux_set_config_id m (ucast r)" and ?c0 = "c0\<lparr>rc_associated_id := ucast r\<rparr>"
  let ?h = "h\<lparr>rh_mux := ?m, rh_clock_reads := rh_clock_reads h + 2\<rparr>"
  have ch: "mux_connected_channels ?m = ?c0 # cs" "mux_udp_socket_fds ?m = mux_udp_socket_fds m" "mux_config ?m = mux_config m"
    using c(1) by (simp_all add: redundancy_mux_set_config_id_def set_channel_def)
  have sends: "mux_send en ?h p \<noteq> None"
    if p: "wf_packet (rh_hashing_context h) p" "unat (p_length p) < 65000" "p_receiver_id p = r" for p
  proof -
    have g: "redundancy_mux_get_channel ?m (ucast (p_receiver_id p)) = Some 0"
      using p(3) by (simp add: redundancy_mux_get_channel_def ch)
    have "?c0 = mux_connected_channels ?m ! 0" by (simp add: ch)
    from send_ok [OF g this, of "rh_hashing_context h" "the_indet en"] show ?thesis
      using c(2-4) ok p(1,2) ch by (auto simp: mux_send_def)
  qed
  obtain p where p: "createConnectionRequest (the_indet en) r (ucast (cfg_rasta_id (general h)))
      (initial_seq_num en (h\<lparr>rh_mux := ?m\<rparr>)) (se_clock en (rh_clock_reads h + 1)) (cfg_send_max (sending h)) RASTA_VERSION
      (rh_hashing_context h) = Some p" "wf_packet (rh_hashing_context h) p" "unat (p_length p) < 65000" "p_receiver_id p = r"
    using create_request [OF ok(1,2), of RASTA_VERSION] by (fastforce simp: RASTA_VERSION_def connection_packet_def)
  obtain h2 where "mux_send en ?h p = Some h2" using sends [OF p(2-4)] by blast
  then show ?thesis
    using nf m p(1) by (auto simp: sr_connect_def Let_def cur_timestamp_def numeral_2_eq_2)
qed

end
