(* ===== verification/Sr_Transfer.thy ===== *)
theory Sr_Transfer
  imports Sr_Handshake
begin

section \<open>From application to application\<close>

text \<open>
  The receive thread over the channels of the multiplexer, the checks of a packet that
  continues a connection, and application data from the send queue of one node to the
  receive queue of another.
\<close>

subsection \<open>The next packet of any channel\<close>

lemma count_in_range:
  assumes "i < length (mux_connected_channels m)" "length (mux_connected_channels m) < 2 ^ 32"
  shows "get_queue_msg_count m (word_of_nat i) = Some (fifo_get_size (rc_fifo_recv (mux_connected_channels m ! i)), False)"
proof -
  let ?n = "length (mux_connected_channels m)"
  have "unat (word_of_nat ?n - 1 :: u32) = ?n - 1"
    using u32_sub [of 1 ?n] assms by simp
  then have "\<not> (word_of_nat i :: u32) > word_of_nat ?n - 1" "unat (word_of_nat i :: u32) = i"
    using assms by (simp_all add: word_less_nat_alt unat_of_nat_u32)
  then show ?thesis using assms(1) by (simp add: get_queue_msg_count_def buf_get_def)
qed

lemma scan_finds:
  assumes "\<forall>i \<in> set is. i < length (mux_connected_channels m)" "length (mux_connected_channels m) < 2 ^ 32"
    and "k \<in> set is" "fifo_get_size (rc_fifo_recv (mux_connected_channels m ! k)) > 0"
    and "\<forall>i \<in> set is. i \<noteq> k \<longrightarrow> fifo_get_size (rc_fifo_recv (mux_connected_channels m ! i)) = 0"
  shows "scan_channels m is = Some (Some k)"
  using assms
proof (induction "is")
  case (Cons i js)
  then show ?case by (cases "i = k") (auto simp: count_in_range)
qed simp

text \<open>The only channel with a message gives the packet.\<close>

lemma retrieve_all_only:
  assumes g: "redundancy_mux_get_channel m rid = Some k" "ch = mux_connected_channels m ! k"
    and f: "fifo_inv (rc_fifo_recv ch)" "delivered ch = [packet_bytes ctx p]"
    and w: "wf_hash ctx" "wf_packet ctx p" "rc_hashing_context ch = ctx" and i: "indet_ok (un_bytes u)"
    and others: "\<forall>j < length (mux_connected_channels m). j \<noteq> k \<longrightarrow>
      fifo_get_size (rc_fifo_recv (mux_connected_channels m ! j)) = 0" "length (mux_connected_channels m) < 2 ^ 32"
  shows "\<exists>f'. redundancy_mux_retrieve_all u m e =
      Some (Ready (verified ctx p, set_channel k (ch\<lparr>rc_fifo_recv := f'\<rparr>) m, e)) \<and> fifo_abs f' = [] \<and> fifo_inv f' \<and>
    f_max_size f' = f_max_size (rc_fifo_recv ch)"
proof -
  have k: "k < length (mux_connected_channels m)" "rc_associated_id ch = rid" using g by (simp_all add: get_channel_spec)
  have "unat (fifo_get_size (rc_fifo_recv ch)) = 1" using fifo_len [OF f(1)] f(2) by (simp add: delivered_def)
  then have "fifo_get_size (rc_fifo_recv ch) > 0" by (simp add: word_less_nat_alt)
  then have "scan_channels m [0..<length (mux_connected_channels m)] = Some (Some k)"
    using k others g(2) by (intro scan_finds) auto
  then show ?thesis
    using retrieve_first [OF g f w i, of e] k(2) g(2) by (simp add: redundancy_mux_retrieve_all_def)
qed

subsection \<open>A packet that continues a connection\<close>

text \<open>The receiving side \<open>b\<close> is where the next packet of the sending side \<open>a\<close> belongs.\<close>

definition in_step :: "RastaConfigInfoSending \<Rightarrow> rasta_connection \<Rightarrow> rasta_connection \<Rightarrow> bool" where
  "in_step cfg a b \<longleftrightarrow> remote_id b = my_id a \<and> my_id b = remote_id a \<and> sn_r b = sn_t a \<and>
     cs_t a - cs_r b < sn_t b - cs_r b \<and> sint (ts_r a - cts_r b) < sint (cfg_t_max cfg) \<and> 0 < sint (cfg_t_max cfg)"

text \<open>A data packet carries the values of the connection that sends it.\<close>

definition data_of :: "rasta_connection \<Rightarrow> RastaPacket \<Rightarrow> bool" where
  "data_of c p \<longleftrightarrow> p_type p = RASTA_TYPE_DATA \<and> p_sender_id p = my_id c \<and> p_receiver_id p = remote_id c \<and>
     p_sequence_number p = sn_t c \<and> p_confirmed_sequence_number p = cs_t c \<and> p_confirmed_timestamp p = ts_r c"

lemma verified_fields [simp]:
  "p_type (verified ctx p) = p_type p" "p_sender_id (verified ctx p) = p_sender_id p"
  "p_receiver_id (verified ctx p) = p_receiver_id p" "p_sequence_number (verified ctx p) = p_sequence_number p"
  "p_confirmed_sequence_number (verified ctx p) = p_confirmed_sequence_number p" "p_length (verified ctx p) = p_length p"
  "p_confirmed_timestamp (verified ctx p) = p_confirmed_timestamp p" "p_data (verified ctx p) = p_data p"
  "p_timestamp (verified ctx p) = p_timestamp p" "p_checksum_correct (verified ctx p)"
  by (simp_all add: verified_def)

lemma in_step_checks:
  assumes "data_of a p" "in_step (sending h) a b"
  shows "receive_known en (verified ctx p) h b = handle_data en h b (verified ctx p)"
    and "sr_sn_in_seq b (verified ctx p)" "sr_cts_in_seq b (sending h) (verified ctx p)"
proof -
  show s: "sr_sn_in_seq b (verified ctx p)" "sr_cts_in_seq b (sending h) (verified ctx p)"
    using assms by (auto simp: sr_sn_in_seq_def sr_cts_in_seq_def data_of_def in_step_def rasta_types Let_def)
  show "receive_known en (verified ctx p) h b = handle_data en h b (verified ctx p)"
    using assms by (simp add: receive_known_def dispatch_def data_of_def in_step_def rasta_types sr_message_authentic_def
        sr_sn_range_valid_def sr_cs_valid_def)
qed

subsection \<open>One round of the receiver\<close>

text \<open>
  The receiving node: its multiplexer has a channel to the sender and no unread message, its
  connection \<open>i\<close> is the sender's.
\<close>

definition ready_for :: "sr_env \<Rightarrow> rasta_handle \<Rightarrow> u32 \<Rightarrow> nat \<Rightarrow> rasta_redundancy_channel \<Rightarrow> crc_options \<Rightarrow> bool" where
  "ready_for en h sender i ch opt \<longleftrightarrow>
     rastalist_getConnectionByRemote (rh_connections h) (ucast sender) = Some i \<and> rh_lasterror h = RASTA_ERRORS_NONE \<and>
     current_state (rl_data (rh_connections h) ! i) = RASTA_CONNECTION_UP \<and> queues_ok h (rl_data (rh_connections h) ! i) \<and>
     indet_ok (the_indet en) \<and> wf_hash (rh_hashing_context h) \<and> mux_sr_hashing_context (rh_mux h) = rh_hashing_context h \<and>
     crc_option_of h = opt \<and> crc_bytes opt \<le> 4 \<and>
     (\<exists>k. redundancy_mux_get_channel (rh_mux h) (ucast sender) = Some k \<and> ch = mux_connected_channels (rh_mux h) ! k) \<and>
     rc_hashing_context ch = rh_hashing_context h \<and> red_channel_ok ch \<and>
     \<not> rc_connected_channel_count ch < mux_port_count (rh_mux h) \<and> 0 < unat (f_max_size (rc_fifo_recv ch)) \<and>
     length (mux_connected_channels (rh_mux h)) < 2 ^ 32 \<and>
     (\<forall>c \<in> set (mux_connected_channels (rh_mux h)). fifo_inv (rc_fifo_recv c) \<and> fifo_abs (rc_fifo_recv c) = [])"

text \<open>
  What a round leaves of the node: the receiving side of one channel, the connection and the
  notifications have moved, and the connection keeps its sending side.
\<close>

definition received_on :: "rasta_handle \<Rightarrow> u64 \<Rightarrow> rasta_redundancy_channel \<Rightarrow> rasta_handle \<Rightarrow> bool" where
  "received_on h rid ch h' \<longleftrightarrow> (\<exists>k ch'. redundancy_mux_get_channel (rh_mux h) rid = Some k \<and> rh_mux h' = set_channel k ch' (rh_mux h) \<and>
       red_channel_ok ch' \<and> delivered ch' = [] \<and> rc_seq_rx ch' = rc_seq_rx ch + 1 \<and> same_links ch ch' \<and>
       rc_hashing_context ch' = rc_hashing_context ch \<and> rc_associated_id ch' = rid) \<and>
     rh_hashing_context h' = rh_hashing_context h \<and> rh_lasterror h' = RASTA_ERRORS_NONE \<and> rh_sent h' = rh_sent h"

definition keeps_sending :: "rasta_connection \<Rightarrow> rasta_connection \<Rightarrow> bool" where
  "keeps_sending c c' \<longleftrightarrow> same_sizes c c' \<and> fifo_send c' = fifo_send c \<and> sn_t c' = sn_t c \<and> remote_id c' = remote_id c \<and>
     my_id c' = my_id c"

lemma set_channel_twice [simp]: "set_channel k x (set_channel k y m) = set_channel k x m"
  by (simp add: set_channel_def)

text \<open>A packet with the next number arrives: what its handler does is what the round does.\<close>

lemma packet_round:
  assumes r: "ready_for en h (p_sender_id p) i ch opt" and w: "wf_packet (rh_hashing_context h) p" "unat (p_length p) < 65000"
    and t: "p_type p \<noteq> RASTA_TYPE_CONNREQ" and n: "ucast n = rc_seq_rx ch"
    and id: "channel_id < length (rc_connected_channels ch)" "channel_id < length (mux_udp_socket_fds (rh_mux h))"
    and host: "length host < 15"
    and handled: "\<And>m. \<exists>h2 c2. receive_known en (verified (rh_hashing_context h) p) (h\<lparr>rh_mux := m\<rparr>) (rl_data (rh_connections h) ! i) =
      Some (h2, c2) \<and> only_notified (h\<lparr>rh_mux := m\<rparr>) h2 \<and> Q c2"
  shows "\<exists>st' m h'. receive_packet (se_uninit en) now addr st (rh_mux h) channel_id
      (red_bytes (rh_hashing_context h) (createRedundancyPacket n p opt)) host prt RASTA_ERRORS_NONE =
        Some (st', m, [], RASTA_ERRORS_NONE) \<and>
    receive_thread_round en (h\<lparr>rh_mux := m\<rparr>) = Some (Ready h') \<and> rh_config h' = rh_config h \<and>
    Q (rl_data (rh_connections h') ! i) \<and> received_on h (ucast (p_sender_id p)) ch h' \<and>
    length (rl_data (rh_connections h')) = length (rl_data (rh_connections h))"
proof -
  let ?ctx = "rh_hashing_context h"
  note r' = r [unfolded ready_for_def]
  obtain k where k: "redundancy_mux_get_channel (rh_mux h) (ucast (p_sender_id p)) = Some k"
    "ch = mux_connected_channels (rh_mux h) ! k" using r' by auto
  have kl: "k < length (mux_connected_channels (rh_mux h))" "rc_associated_id ch = ucast (p_sender_id p)"
    using k by (simp_all add: get_channel_spec)
  have e: "delivered ch = []" using r' k(2) kl(1) by (simp add: delivered_def)
  obtain st' ch' where 1: "receive_packet (se_uninit en) now addr st (rh_mux h) channel_id
      (red_bytes ?ctx (createRedundancyPacket n p opt)) host prt RASTA_ERRORS_NONE =
        Some (st', set_channel k ch' (rh_mux h), [], RASTA_ERRORS_NONE)"
    "red_channel_ok ch'" "delivered ch' = [packet_bytes ?ctx p]" "rc_hashing_context ch' = ?ctx"
    "rc_associated_id ch' = rc_associated_id ch" "same_links ch ch'" "rc_seq_rx ch' = rc_seq_rx ch + 1"
    using datagram_accepted [OF id(2) _ host _ w(1) _ _ _ _ k _ _ _ id(1) n, of "se_uninit en" opt now addr st prt]
      r' w(2) e by auto
  let ?m = "set_channel k ch' (rh_mux h)"
  have g: "redundancy_mux_get_channel ?m (ucast (p_sender_id p)) = Some k" "ch' = mux_connected_channels ?m ! k"
    using set_channel_lookup [OF k(1)] 1(5) kl by simp_all
  have empty: "fifo_get_size (rc_fifo_recv (mux_connected_channels ?m ! j)) = 0"
    if "j < length (mux_connected_channels ?m)" "j \<noteq> k" for j
  proof -
    have "mux_connected_channels (rh_mux h) ! j \<in> set (mux_connected_channels (rh_mux h))" using that(1) by simp
    then have "unat (fifo_get_size (rc_fifo_recv (mux_connected_channels (rh_mux h) ! j))) = 0"
      using r' fifo_len by fastforce
    then show ?thesis using that(2) by (simp add: unat_eq_0)
  qed
  obtain f' where m: "redundancy_mux_retrieve_all (se_uninit en) ?m RASTA_ERRORS_NONE =
      Some (Ready (verified ?ctx p, set_channel k (ch'\<lparr>rc_fifo_recv := f'\<rparr>) (rh_mux h), RASTA_ERRORS_NONE))"
    "fifo_abs f' = []" "fifo_inv f'" "f_max_size f' = f_max_size (rc_fifo_recv ch')"
    using retrieve_all_only [OF g _ 1(3) _ w(1) 1(4), of "se_uninit en" RASTA_ERRORS_NONE] 1(2) r' empty
    by (auto simp: red_channel_ok_def)
  let ?ch = "ch'\<lparr>rc_fifo_recv := f'\<rparr>" let ?g = "h\<lparr>rh_mux := set_channel k ?ch (rh_mux h)\<rparr>"
  obtain h2 c2 where 2: "receive_known en (verified ?ctx p) ?g (rl_data (rh_connections h) ! i) = Some (h2, c2)"
    "only_notified ?g h2" "Q c2"
    using handled by blast
  let ?h = "set_connection i c2 h2"
  have ge: "?g\<lparr>rh_lasterror := RASTA_ERRORS_NONE\<rparr> = ?g" using r' by simp
  have "p_length p \<noteq> 0" using w(1) by (auto simp: wf_packet_def)
  moreover have "on_connection i (receive_known en (verified ?ctx p)) ?g = Some ?h"
    using 2(1) by (simp add: on_connection_def)
  ultimately have "receive_step en (verified ?ctx p) ?g = Some ?h"
    using r' t by (simp add: receive_step_def)
  then have "receive_step en (verified ?ctx p) (?g\<lparr>rh_lasterror := RASTA_ERRORS_NONE\<rparr>) = Some ?h"
    by (simp only: ge)
  then have "receive_thread_round en (h\<lparr>rh_mux := ?m\<rparr>) = Some (Ready ?h)"
    using m(1) r' by (simp add: receive_thread_round_def)
  moreover have "i < length (rl_data (rh_connections h))"
    using r' get_by_remote_spec [of "rh_connections h" "ucast (p_sender_id p)" i] by simp
  then have "rl_data (rh_connections ?h) ! i = c2" "length (rl_data (rh_connections ?h)) = length (rl_data (rh_connections h))"
    using only_notified_fields(5) [OF 2(2)] by (simp_all add: set_connection_def)
  moreover have "rh_config ?h = rh_config h"
    using only_notified_fields(1) [OF 2(2)] by (simp add: set_connection_def)
  moreover have "received_on h (ucast (p_sender_id p)) ch ?h"
  proof -
    have "red_channel_ok ?ch" using 1(2) m(3) by (simp add: red_channel_ok_def never_deferred_def)
    moreover have "same_links ch ?ch" using 1(6) m(4) by (simp add: same_links_def)
    moreover have "rc_hashing_context ch = ?ctx" using r' by blast
    ultimately show ?thesis
      using k kl 1(4,5,7) m(2) r' only_notified_fields [OF 2(2)]
      by (auto simp: received_on_def set_connection_def delivered_def)
  qed
  ultimately show ?thesis using 1(1) 2(3) by (intro exI [of _ st'] exI [of _ ?m] exI [of _ ?h]) simp
qed

text \<open>A data packet that continues the connection.\<close>

lemma data_round:
  assumes r: "ready_for en h (my_id a) i ch opt" and p: "data_of a p" "in_step (sending h) a b"
    and b: "b = rl_data (rh_connections h) ! i" and w: "wf_packet (rh_hashing_context h) p" "unat (p_length p) < 65000"
    and ms: "p_data p = message_bytes ms" "\<forall>m \<in> set ms. length m < 65536"
    and n: "ucast n = rc_seq_rx ch"
    and id: "channel_id < length (rc_connected_channels ch)" "channel_id < length (mux_udp_socket_fds (rh_mux h))"
    and host: "length host < 15"
  shows "\<exists>st' m h'. receive_packet (se_uninit en) now addr st (rh_mux h) channel_id
      (red_bytes (rh_hashing_context h) (createRedundancyPacket n p opt)) host prt RASTA_ERRORS_NONE =
        Some (st', m, [], RASTA_ERRORS_NONE) \<and>
    receive_thread_round en (h\<lparr>rh_mux := m\<rparr>) = Some (Ready h') \<and>
    rh_config h' = rh_config h \<and> in_step (sending h') (a\<lparr>sn_t := sn_t a + 1\<rparr>) (rl_data (rh_connections h') ! i) \<and>
    current_state (rl_data (rh_connections h') ! i) = RASTA_CONNECTION_UP \<and>
    follows p (rl_data (rh_connections h') ! i) \<and> queues_ok h (rl_data (rh_connections h') ! i) \<and>
    fifo_abs (fifo_app_msg (rl_data (rh_connections h') ! i)) =
      bounded_append (unat (f_max_size (fifo_app_msg b))) (fifo_abs (fifo_app_msg b)) (map (app_message p) ms) \<and>
    fifo_abs (fifo_retr (rl_data (rh_connections h') ! i)) = confirm_upto (cs_t a) (fifo_abs (fifo_retr b)) \<and>
    received_on h (ucast (my_id a)) ch h' \<and> keeps_sending b (rl_data (rh_connections h') ! i) \<and>
    length (rl_data (rh_connections h')) = length (rl_data (rh_connections h))"
proof -
  let ?v = "verified (rh_hashing_context h) p"
  let ?Q = "\<lambda>c. follows p c \<and> queues_ok h c \<and> current_state c = RASTA_CONNECTION_UP \<and> keeps_sending b c \<and>
    fifo_abs (fifo_app_msg c) = bounded_append (unat (f_max_size (fifo_app_msg b))) (fifo_abs (fifo_app_msg b)) (map (app_message p) ms) \<and>
    fifo_abs (fifo_retr c) = confirm_upto (cs_t a) (fifo_abs (fifo_retr b))"
  have sender: "p_sender_id p = my_id a" "p_type p \<noteq> RASTA_TYPE_CONNREQ" using p(1) by (simp_all add: data_of_def rasta_types)
  have "\<exists>h2 c2. receive_known en ?v (h\<lparr>rh_mux := m\<rparr>) (rl_data (rh_connections h) ! i) = Some (h2, c2) \<and>
      only_notified (h\<lparr>rh_mux := m\<rparr>) h2 \<and> ?Q c2" for m
  proof -
    let ?g = "h\<lparr>rh_mux := m\<rparr>"
    have q: "queues_ok ?g b" "current_state b = RASTA_CONNECTION_UP" "wf_hash (rh_hashing_context ?g)" "indet_ok (the_indet en)"
      using r b by (simp_all add: queues_ok_def ready_for_def)
    have s: "sr_sn_in_seq b ?v" "sr_cts_in_seq b (sending ?g) ?v" "receive_known en ?v ?g b = handle_data en ?g b ?v"
      using in_step_checks [of a p ?g b] p by simp_all
    have x: "extractMessageData ?v = Some ms" using data_message_roundtrip [OF ms(2)] ms(1) by simp
    have v: "app_message ?v = app_message p" "follows ?v = follows p" "p_confirmed_sequence_number p = cs_t a"
      using p(1) by (auto simp: app_message_def follows_def data_of_def)
    show ?thesis
      using data_ok [OF q(2) s(1,2) x q(1,3,4)] s(3) by (auto simp: v b keeps_sending_def queues_ok_def)
  qed
  from packet_round [where Q = ?Q, OF r [folded sender(1)] w sender(2) n id host this, of now addr st prt]
  obtain st' m h' where 1: "receive_packet (se_uninit en) now addr st (rh_mux h) channel_id
      (red_bytes (rh_hashing_context h) (createRedundancyPacket n p opt)) host prt RASTA_ERRORS_NONE =
        Some (st', m, [], RASTA_ERRORS_NONE)"
    "receive_thread_round en (h\<lparr>rh_mux := m\<rparr>) = Some (Ready h')" "rh_config h' = rh_config h"
    "?Q (rl_data (rh_connections h') ! i)" "received_on h (ucast (my_id a)) ch h'"
    "length (rl_data (rh_connections h')) = length (rl_data (rh_connections h))"
    unfolding sender(1) by blast
  have "in_step (sending h') (a\<lparr>sn_t := sn_t a + 1\<rparr>) (rl_data (rh_connections h') ! i)"
  proof -
    have "cs_t a \<noteq> sn_t b" using p(2) by (auto simp: in_step_def)
    then have "0 < sn_t b - cs_t a" by (simp add: word_neq_0_conv [symmetric])
    then show ?thesis using 1(3,4) p by (auto simp: in_step_def follows_def data_of_def keeps_sending_def)
  qed
  then show ?thesis using 1 by (intro exI [of _ st'] exI [of _ m] exI [of _ h']) simp
qed

subsection \<open>An accepted heartbeat\<close>

lemma updates_frame:
  assumes "updateTI en t h c = (h1, c1)" "updateDiagnostic en h1 c1 p = (h2, c2)" "cur_timestamp en h2 = (now, h3)"
  shows "only_notified h h3 \<and> only_delivered c c2 \<and> fifo_app_msg c2 = fifo_app_msg c"
proof -
  have "only_notified h h1" "only_delivered c c1" "fifo_app_msg c1 = fifo_app_msg c"
    using updateTI_frame [where en = en and t = t and h = h and c = c] assms(1) by simp_all
  moreover have "only_notified h1 h2" "only_delivered c1 c2" "fifo_app_msg c2 = fifo_app_msg c1"
    using updateDiagnostic_frame [where en = en and p = p and h = h1 and c = c1] assms(2) by simp_all
  moreover have "only_notified h2 h3" using assms(3) by (auto simp: cur_timestamp_def notified_clock)
  ultimately show ?thesis by (metis only_notified_trans only_delivered_trans)
qed

lemma updates_clock:
  assumes "updateTI en t h c = (h1, c1)" "updateDiagnostic en h1 c1 p = (h2, c2)" "cur_timestamp en h2 = (now, h3)"
  shows "now = se_clock en (rh_clock_reads h + 3)"
  using assms
  by (auto simp: updateTI_def updateDiagnostic_def cur_timestamp_def Let_def fire_on_diagnostic_notification_def
      start_notification_def numeral_3_eq_3 split: if_splits)

lemma accepted_heartbeat:
  assumes "up_or_running c" "sr_sn_in_seq c p" "sr_cts_in_seq c (sending h) p"
  shows "\<exists>h' c'. handle_hb en h c p = Some (h', c') \<and> only_notified h h' \<and> fifo_send c' = fifo_send c \<and>
    fifo_retr c' = fifo_retr c \<and> current_state c' = RASTA_CONNECTION_UP \<and> cs_r c' = sn_t c - 1 \<and> sn_t c' = sn_t c \<and>
    sn_r c' = p_sequence_number p + 1 \<and> my_id c' = my_id c \<and> remote_id c' = remote_id c \<and> errors c' = errors c \<and>
    fifo_app_msg c' = fifo_app_msg c \<and> cs_t c' = p_sequence_number p \<and> ts_r c' = p_timestamp p \<and>
    cts_r c' = se_clock en (rh_clock_reads h + 3)"
proof -
  obtain h1 c1 where 1: "updateTI en (p_confirmed_timestamp p) h c = (h1, c1)" by fastforce
  obtain h2 c2 where 2: "updateDiagnostic en h1 c1 p = (h2, c2)" by fastforce
  obtain now h3 where 3: "cur_timestamp en h2 = (now, h3)" by fastforce
  have f: "only_notified h h3" "only_delivered c c2" "fifo_app_msg c2 = fifo_app_msg c" using updates_frame [OF 1 2 3] by auto
  have s: "current_state c \<noteq> RASTA_CONNECTION_START" using assms(1) by (auto simp: up_or_running_def)
  have n: "only_notified h (fire_on_connection_state_change x h3)" for x
    by (rule only_notified_trans [OF f(1) notified_fire(2)])
  show ?thesis
    using assms s f n updates_clock [OF 1 2 3]
    by (auto simp: handle_hb_def 1 2 3 Let_def up_or_running_def only_delivered_fields [OF f(2)])
qed

subsection \<open>A node with one connection\<close>

lemma received_data_first:
  assumes "fifo_inv (fifo_app_msg c)" "fifo_abs (fifo_app_msg c) = m # ms"
  shows "\<exists>f. sr_get_received_data c = Some (m, c\<lparr>fifo_app_msg := f\<rparr>) \<and> fifo_inv f \<and> fifo_abs f = ms \<and>
    f_max_size f = f_max_size (fifo_app_msg c)"
  using fifo_pop_spec [OF assms(1)] assms(2) by (auto simp: sr_get_received_data_def)

text \<open>The only connection of a node.\<close>

lemma single_connection:
  assumes "rl_data (rh_connections h) = [c]"
  shows "rastalist_getConnectionByRemote (rh_connections h) (ucast (remote_id c)) = Some 0"
    and "on_connection 0 f h = do { (h, c) \<leftarrow> f h c; Some (set_connection 0 c h) }"
    and "send_thread_round en h = on_connection 0 (send_connection en) h"
  using assms by (simp_all add: rastalist_getConnectionByRemote_def rastalist_getConnectionId_def rastalist_getConnection_def
      on_connection_def send_thread_round_def rastalist_count_def bind_eq_Some_conv split: Option.bind_splits prod.splits)

lemma set_connection_node [simp]:
  "node_ok en (set_connection i c h) = node_ok en h" "queues_ok (set_connection i c h) d = queues_ok h d"
  "rh_mux (set_connection i c h) = rh_mux h" "sending (set_connection i c h) = sending h"
  "rh_hashing_context (set_connection i c h) = rh_hashing_context h" "rh_sent (set_connection i c h) = rh_sent h"
  "crc_option_of (set_connection i c h) = crc_option_of h"
  by (simp_all add: set_connection_def node_ok_def queues_ok_def channel_sends_def)

end
