(* ===== verification/Rasta_Properties.thy ===== *)
theory Rasta_Properties
  imports Factory Fifo Rasta_State Scils Pdi_Config
begin

section \<open>Properties of the message and transport components\<close>

text \<open>
  The theorems about the packets of RaSTA, their safety codes, the SCI telegrams and the
  containers, each followed by a witness: the theorem applied to a concrete input that
  meets its hypotheses.
\<close>

subsection \<open>Concrete inputs of the witnesses\<close>

definition zero_indet :: indet where
  "zero_indet n = replicate n 0"

lemma zero_indet_ok [simp]: "indet_ok zero_indet"
  by (simp add: indet_ok_def zero_indet_def)

definition md4_ctx :: rasta_hashing_context_t where
  "md4_ctx = rasta_md4_set_key \<lparr>algorithm = RASTA_ALGO_MD4, hash_length = RASTA_CHECKSUM_8B, hash_key = []\<rparr>
     0x67452301 0xefcdab89 0x98badcfe 0x10325476"

definition sip_ctx :: rasta_hashing_context_t where
  "sip_ctx = \<lparr>algorithm = RASTA_ALGO_SIPHASH_2_4, hash_length = RASTA_CHECKSUM_8B, hash_key = replicate 16 7\<rparr>"

lemma ctx_facts [simp]:
  "wf_hash md4_ctx" "algorithm md4_ctx = RASTA_ALGO_MD4" "hash_length md4_ctx = 1" "checksum_len md4_ctx = 8"
  "wf_hash sip_ctx" "algorithm sip_ctx = RASTA_ALGO_SIPHASH_2_4" "hash_length sip_ctx = 1" "checksum_len sip_ctx = 8"
  by (simp_all add: md4_ctx_def sip_ctx_def wf_hash_def rasta_md4_set_key_def RASTA_CHECKSUM_8B_def checksum_len_def)

definition blank_packet :: RastaPacket where
  "blank_packet = \<lparr>p_length = 0, p_type = 0, p_receiver_id = 0, p_sender_id = 0, p_sequence_number = 0,
     p_confirmed_sequence_number = 0, p_timestamp = 0, p_confirmed_timestamp = 0, p_data = [], p_checksum = [],
     p_checksum_correct = False\<rparr>"

definition blank_red :: "crc_options \<Rightarrow> RastaRedundancyPacket" where
  "blank_red opt = \<lparr>rp_length = 0, rp_reserve = 0, rp_sequence_number = 0, rp_data = blank_packet,
     rp_checksum_correct = False, rp_checksum_type = opt\<rparr>"

lemma crc_bytes_options [simp]:
  "crc_bytes (crc_init_opt_a j) = 0" "crc_bytes (crc_init_opt_b t) = 4" "crc_bytes (crc_init_opt_c t) = 4"
  "crc_bytes (crc_init_opt_d t) = 2" "crc_bytes (crc_init_opt_e t) = 2"
  by (simp_all add: crc_bytes_def crc_init_opt_a_def crc_init_opt_b_def crc_init_opt_c_def crc_init_opt_d_def
      crc_init_opt_e_def crc_option_def)

subsection \<open>Messages through the two packet layers\<close>

lemma redundancy_wf_of_packet:
  assumes "wf_packet ctx p" and "crc_bytes opt \<le> 4"
    and "36 + checksum_len ctx + length (p_data p) + crc_bytes opt < 65536"
  shows "wf_red ctx (createRedundancyPacket sn p opt)"
  using assms by (intro create_redundancy_wf) (auto simp: wf_packet_def)

text \<open>C20. Application messages survive the stack: packing them into a data packet, wrapping it
  into a redundancy packet with any check code, sending its bytes and unwrapping them on the other
  side gives back every message and every header field, with both check results positive. This holds
  for every content of uninitialised storage on either side, as long as everything fits 65535 bytes.\<close>

theorem messages_survive_transport:
  assumes w: "wf_hash ctx" and i: "indet_ok indet" "indet_ok indet'" and c4: "crc_bytes opt \<le> 4"
    and m: "\<forall>m \<in> set ms. length m < 65536"
    and l: "36 + checksum_len ctx + (sum_list (map length ms) + 2 * length ms) + crc_bytes opt < 65536"
  shows "\<exists>p bs q opt'.
    createDataMessage indet r s sn csn ts cts ms ctx = Some p \<and>
    rastaRedundancyPacketToBytes indet (createRedundancyPacket seq p opt) ctx RASTA_ERRORS_NONE =
      Some (bs, RASTA_ERRORS_NONE) \<and>
    bytesToRastaRedundancyPacket indet' before bs opt ctx e = Some (q, opt', e) \<and>
    rp_checksum_correct q \<and> rp_sequence_number q = seq \<and>
    p_checksum_correct (rp_data q) \<and> p_type (rp_data q) = RASTA_TYPE_DATA \<and>
    p_receiver_id (rp_data q) = r \<and> p_sender_id (rp_data q) = s \<and>
    p_sequence_number (rp_data q) = sn \<and> p_confirmed_sequence_number (rp_data q) = csn \<and>
    p_timestamp (rp_data q) = ts \<and> p_confirmed_timestamp (rp_data q) = cts \<and>
    extractMessageData (rp_data q) = Some ms"
proof -
  have l': "36 + checksum_len ctx + length (message_bytes ms) + crc_bytes opt < 65536"
    using l by (simp add: message_bytes_length)
  obtain p where p: "createDataMessage indet r s sn csn ts cts ms ctx = Some p" "wf_packet ctx p"
    "p_data p = message_bytes ms" "p_type p = RASTA_TYPE_DATA" "p_receiver_id p = r" "p_sender_id p = s"
    "p_sequence_number p = sn" "p_confirmed_sequence_number p = csn" "p_timestamp p = ts"
    "p_confirmed_timestamp p = cts"
    using create_data_ok [OF w i(1), of ms r s sn csn ts cts] l' by auto
  let ?q = "createRedundancyPacket seq p opt"
  have wq: "wf_red ctx ?q" using l' p(3) by (intro redundancy_wf_of_packet [OF p(2) c4]) simp
  have t: "rp_checksum_type ?q = opt" "rp_data ?q = p" "rp_sequence_number ?q = seq"
    by (simp_all add: createRedundancyPacket_def)
  obtain opt' where "bytesToRastaRedundancyPacket indet' before (red_bytes ctx ?q) opt ctx e =
      Some (?q\<lparr>rp_data := p\<lparr>p_checksum := hash_value ctx (packet_fields p @ p_data p), p_checksum_correct := True\<rparr>,
               rp_checksum_correct := True\<rparr>, opt', e)"
    using red_roundtrip [OF w wq i(2), of before e] unfolding t by blast
  then show ?thesis
    using p red_to_bytes [OF w wq i(1)] t(3) m by (auto intro!: data_message_roundtrip)
qed

theorem messages_survive_transport_witness:
  "\<exists>p bs q opt'.
    createDataMessage zero_indet 97 96 7 5 1000 900 [[1, 2, 3], [4]] md4_ctx = Some p \<and>
    rastaRedundancyPacketToBytes zero_indet (createRedundancyPacket 3 p (crc_init_opt_b [])) md4_ctx RASTA_ERRORS_NONE =
      Some (bs, RASTA_ERRORS_NONE) \<and>
    bytesToRastaRedundancyPacket zero_indet (blank_red (crc_init_opt_b [])) bs (crc_init_opt_b []) md4_ctx
      RASTA_ERRORS_NONE = Some (q, opt', RASTA_ERRORS_NONE) \<and>
    rp_checksum_correct q \<and> rp_sequence_number q = 3 \<and>
    p_checksum_correct (rp_data q) \<and> p_type (rp_data q) = RASTA_TYPE_DATA \<and>
    p_receiver_id (rp_data q) = 97 \<and> p_sender_id (rp_data q) = 96 \<and>
    p_sequence_number (rp_data q) = 7 \<and> p_confirmed_sequence_number (rp_data q) = 5 \<and>
    p_timestamp (rp_data q) = 1000 \<and> p_confirmed_timestamp (rp_data q) = 900 \<and>
    extractMessageData (rp_data q) = Some [[1, 2, 3], [4]]"
  by (rule messages_survive_transport) simp_all



subsection \<open>Safety codes\<close>

lemma hash_value_siphash_8:
  "algorithm ctx = RASTA_ALGO_SIPHASH_2_4 \<Longrightarrow> hash_length ctx = 1 \<Longrightarrow>
   halfsiphash d' (hash_key ctx) 8 = halfsiphash d (hash_key ctx) 8 \<Longrightarrow> hash_value ctx d' = hash_value ctx d"
  by (simp add: hash_value_def rasta_calculate_hash_def generateSiphash24_def)

lemma hash_value_siphash_16:
  "algorithm ctx = RASTA_ALGO_SIPHASH_2_4 \<Longrightarrow> hash_length ctx = 2 \<Longrightarrow>
   siphash d' (hash_key ctx) 16 = siphash d (hash_key ctx) 16 \<Longrightarrow> hash_value ctx d' = hash_value ctx d"
  by (simp add: hash_value_def rasta_calculate_hash_def generateSiphash24_def)

lemma fields_24: "take 24 (packet_fields (p\<lparr>p_confirmed_timestamp := t\<rparr>)) = take 24 (packet_fields p)"
  by (simp add: packet_fields_def)

lemma fields_27: "packet_fields p ! 27 = ucast (drop_bit 24 (p_confirmed_timestamp p) AND 0xFF)"
  by (simp add: packet_fields_def nth_append longToBytes_def not_isBigEndian)

text \<open>C32. With the SipHash safety code a packet without payload (a heartbeat or a retransmission
  request) does not protect its confirmed timestamp: the same code is accepted by the receiver after
  the field is replaced, by any value when the code has 8 bytes, and by any value with the same
  highest byte when it has 16. The cause is the \<open>break\<close> in every case of the tail switch.\<close>

theorem siphash_ignores_confirmed_timestamp:
  assumes w: "wf_hash ctx" "wf_packet ctx p" and i: "indet_ok indet" and d: "p_data p = []"
    and a: "algorithm ctx = RASTA_ALGO_SIPHASH_2_4"
    and h: "hash_length ctx = 1 \<or> hash_length ctx = 2 \<and> drop_bit 24 t = drop_bit 24 (p_confirmed_timestamp p)"
  shows "\<exists>q. bytesToRastaPacket indet before
      (packet_fields (p\<lparr>p_confirmed_timestamp := t\<rparr>) @ drop 28 (packet_bytes ctx p)) ctx e = Some (q, e) \<and>
    p_checksum_correct q \<and> p_confirmed_timestamp q = t"
proof -
  let ?p = "p\<lparr>p_confirmed_timestamp := t\<rparr>"
  have n: "(28 :: nat) mod 8 = 4" "(28 :: nat) mod 4 = 0" by simp_all
  have hv: "hash_value ctx (packet_fields ?p) = hash_value ctx (packet_fields p)"
  proof (cases "hash_length ctx = 1")
    case True
    then show ?thesis
      by (intro hash_value_siphash_8 [OF a] halfsiphash_cong) (simp_all add: fields_24)
  next
    case False
    then show ?thesis
      using h by (intro hash_value_siphash_16 [OF a] siphash_cong) (simp_all add: fields_24 fields_27)
  qed
  have wp: "wf_packet ctx ?p" using w(2) by (simp add: wf_packet_def)
  have "packet_fields ?p @ drop 28 (packet_bytes ctx p) = packet_bytes ctx ?p"
    using d hv by (simp add: packet_bytes_def)
  then show ?thesis using packet_roundtrip [OF w(1) wp i, of before e] by simp
qed

theorem siphash_ignores_confirmed_timestamp_witness:
  "\<exists>q. bytesToRastaPacket zero_indet blank_packet
      (packet_fields ((createHeartbeat zero_indet 97 96 7 5 1000 900 sip_ctx)\<lparr>p_confirmed_timestamp := 4711\<rparr>) @
       drop 28 (packet_bytes sip_ctx (createHeartbeat zero_indet 97 96 7 5 1000 900 sip_ctx))) sip_ctx
      RASTA_ERRORS_NONE = Some (q, RASTA_ERRORS_NONE) \<and>
    p_checksum_correct q \<and> p_confirmed_timestamp q = 4711"
proof (rule siphash_ignores_confirmed_timestamp)
  show "wf_packet sip_ctx (createHeartbeat zero_indet 97 96 7 5 1000 900 sip_ctx)"
    unfolding createHeartbeat_def by (rule initialize_wf) simp_all
  show "p_data (createHeartbeat zero_indet 97 96 7 5 1000 900 sip_ctx) = []"
    by (simp add: createHeartbeat_def initializePacket_def)
qed simp_all

text \<open>C24. The MD4 safety code is the MD4 digest of the padded message with the key as initial
  vector, truncated to the configured length: the streaming implementation with its 64-byte buffer
  agrees with hashing the whole padded message block by block, for messages of every length and
  independently of uninitialised bytes.\<close>

theorem md4_code_is_digest:
  assumes w: "wf_hash ctx" and a: "algorithm ctx = RASTA_ALGO_MD4" and i: "indet_ok indet" and b: "length buf = 16"
  shows "\<exists>h. rasta_calculate_hash indet data ctx buf = Some h \<and> length h = 16 \<and>
    take (8 * hash_length ctx) h = take (8 * hash_length ctx)
      (md4_reference (bytesToLong (take 4 (hash_key ctx)), bytesToLong (take 4 (drop 4 (hash_key ctx))),
         bytesToLong (take 4 (drop 8 (hash_key ctx))), bytesToLong (take 4 (drop 12 (hash_key ctx)))) data)"
proof -
  let ?c = "md4InitContext (bytesToLong (take 4 (hash_key ctx)))
        (bytesToLong (take 4 (drop 4 (hash_key ctx)))) (bytesToLong (take 4 (drop 8 (hash_key ctx))))
        (bytesToLong (take 4 (drop 12 (hash_key ctx)))) (indet 64)"
  have k: "16 \<le> length (hash_key ctx)" and t: "hash_length ctx \<le> 2" using w a by (simp_all add: wf_hash_def)
  have c: "rasta_get_md4_ctx_from_key indet ctx = Some ?c"
    using k by (simp add: rasta_get_md4_ctx_from_key_def buf_read_def)
  show ?thesis
    using md4_hash_16 [of ?c buf "hash_length ctx" data] t b i
    by (simp add: rasta_calculate_hash_def a c md4InitContext_def md4_words_def indet_ok_def)
qed

theorem md4_code_is_digest_witness:
  "\<exists>h. rasta_calculate_hash zero_indet [97, 98, 99] md4_ctx (replicate 16 0) = Some h \<and> length h = 16 \<and>
    take 8 h = take 8 (md4_reference (0x67452301, 0xefcdab89, 0x98badcfe, 0x10325476) [97, 98, 99])"
proof -
  have k: "hash_key md4_ctx = longToBytes 0x67452301 @ longToBytes 0xefcdab89 @ longToBytes 0x98badcfe @
      longToBytes 0x10325476"
    by (simp add: md4_ctx_def rasta_md4_set_key_def)
  have "length (replicate 16 (0 :: u8)) = 16" by simp
  from md4_code_is_digest [OF ctx_facts(1,2) zero_indet_ok this, of "[97, 98, 99]"]
  show ?thesis unfolding k by simp
qed

text \<open>One byte array too short for a packet disables sending: it sets the error of the module,
  which no code resets, and from then on packing any packet returns freshly allocated memory whose
  content is whatever the allocator left there, whatever the packet.\<close>

theorem short_packet_poisons_module:
  assumes "length data < 28 + checksum_len ctx"
  shows "\<exists>q e'. bytesToRastaPacket indet before data ctx e = Some (q, e') \<and>
    (\<forall>p. rastaModuleToBytes indet p ctx e' = Some (indet (unat (p_length p)), e'))"
proof -
  have "rastaModuleToBytes indet p ctx RASTA_ERRORS_PACKAGE_LENGTH_INVALID =
      Some (indet (unat (p_length p)), RASTA_ERRORS_PACKAGE_LENGTH_INVALID)" for p
    by (simp add: rastaModuleToBytes_def allocateBytes_def)
  then show ?thesis using bytes_to_packet_short [OF assms, of indet before e] by simp
qed

subsection \<open>Containers\<close>

text \<open>One operation on any queue the operations built.\<close>

theorem fifo_operations:
  assumes "fifo_inv f"
  shows "(\<exists>f'. fifo_push f (Some x) = Some f' \<and> fifo_inv f' \<and>
      fifo_abs f' = (if length (fifo_abs f) < unat (f_max_size f) then fifo_abs f @ [x] else fifo_abs f)) \<and>
    (\<exists>f'. fifo_pop f = Some (if fifo_abs f = [] then None else Some (hd (fifo_abs f)), f') \<and> fifo_inv f' \<and>
      fifo_abs f' = tl (fifo_abs f)) \<and>
    unat (fifo_get_size f) = length (fifo_abs f)"
  using fifo_push_spec [OF assms, of x] fifo_pop_spec [OF assms] fifo_len [OF assms]
  by (cases "fifo_abs f") auto

text \<open>C27. The linked queue refines a bounded list: from a fresh queue on, every sequence of insertions and removals
  is defined, never follows a dangling cell, and returns what the list of at most \<open>n\<close> elements
  returns: elements in the order of insertion, nothing for a null pointer or a full queue, a null
  pointer for an empty one. The size is the length of the list at every point.\<close>

theorem fifo_refines_bounded_list:
  "\<exists>f outs. run_steps (queue_step fifo_push fifo_pop) ops (fifo_init n, []) = Some (f, outs) \<and>
    (fifo_abs f, outs) = fold (list_step (unat n)) ops ([], []) \<and> unat (fifo_get_size f) = length (fifo_abs f)"
proof -
  obtain f outs where "run_steps (queue_step fifo_push fifo_pop) ops (fifo_init n, []) = Some (f, outs)" "fifo_inv f"
    "(fifo_abs f, outs) = fold (list_step (unat n)) ops ([], [])"
    using fifo.runs.run_refines [of "unat n" "(fifo_init n, [])" ops] by (auto simp: fifo_init_inv fifo_init_abs)
  then show ?thesis using fifo_len by blast
qed

text \<open>Destroying a queue releases only half of its elements, rounded up: the loop compares a
  growing counter with the shrinking size, so every queue of two or more elements leaks memory.\<close>

theorem fifo_destroy_leaks:
  assumes "fifo_inv f"
  shows "\<exists>f'. fifo_destroy f = Some f' \<and> fifo_inv f' \<and>
    fifo_abs f' = drop ((length (fifo_abs f) + 1) div 2) (fifo_abs f) \<and>
    (fifo_abs f' \<noteq> [] \<longleftrightarrow> 2 \<le> length (fifo_abs f))"
  using destroy_loop_spec [OF assms, of 0] by (auto simp: fifo_destroy_def)

text \<open>Reading the two channels of the object controller from the environment never writes outside
  the fixed 16-byte address fields, and when it reports success both addresses are terminated
  strings and both ports lie between 1 and 65535, for every environment.\<close>

theorem oc_channels_usable:
  assumes "length c0 = 2" "length (ip (c0 ! 0)) = 16" "length (ip (c0 ! 1)) = 16"
  shows "\<exists>ok c'. configure_oc_channels getenv (Some c0) = Some (ok, Some c') \<and> length c' = 2 \<and>
    (\<forall>x \<in> set c'. length (ip x) = 16) \<and> (ok \<longrightarrow> (\<forall>x \<in> set c'. channel_ok x))"
  by (rule configure_ok [OF assms])

definition some_connection :: rasta_connection where
  "some_connection = \<lparr>ts_last_message = 0, hb_stopped = False, is_sending = False, hb_locked = False,
     current_state = RASTA_CONNECTION_CLOSED, fifo_app_msg = fifo_init 1, fifo_send = fifo_init 1,
     connected_recv_buffer_size = -1, role = RASTA_ROLE_CLIENT, sn_t = 0, sn_r = 0, cs_t = 0, cs_r = 0, ts_r = 0,
     cts_r = 0, t_i = 0, ti_start_time = 0, my_id = 96, remote_id = 97, network_id = 1,
     received_diagnostic_message_count = 0, diagnostic_intervals = [], fifo_retr = fifo_init 1,
     errors = \<lparr>err_safety = 0, err_address = 0, err_type = 0, err_sn = 0, err_cs = 0\<rparr>\<rparr>"

text \<open>The list of connections finds what it holds: looking a remote identifier up returns the first
  connection of that remote, adding a connection keeps the others and makes the new one found
  unless an earlier one has its remote, and removing shifts the later ones down in order.\<close>

theorem connection_list_lookup:
  assumes "rl_inv l" and "rastalist_addConnection l c = (i, l')"
  shows "rl_inv l' \<and> rl_data l' = rl_data l @ [c] \<and>
    (rastalist_getConnectionByRemote l' (ucast (remote_id c)) = Some i \<longleftrightarrow>
      (\<forall>d \<in> set (rl_data l). remote_id d \<noteq> remote_id c)) \<and>
    (rastalist_getConnectionByRemote l' rid = Some j \<longrightarrow> j < length (rl_data l') \<and>
      ucast (remote_id (rl_data l' ! j)) = rid \<and> (\<forall>k < j. ucast (remote_id (rl_data l' ! k)) \<noteq> rid)) \<and>
    (j < length (rl_data l') \<longrightarrow>
      rl_data (rastalist_remove l' j) = take j (rl_data l') @ drop (j + 1) (rl_data l'))"
proof -
  note a = add_spec [OF assms]
  have f: "rastalist_getConnectionByRemote l' (ucast (remote_id c)) = Some i \<longleftrightarrow>
      (\<forall>d \<in> set (rl_data l). remote_id d \<noteq> remote_id c)"
    unfolding get_by_remote_spec a(2,3) ucast_u32_u64 all_set_conv_all_nth by (auto simp: nth_append)
  show ?thesis
    using a(1,2) f get_by_remote_spec [of l' rid j] remove_spec [of j l'] by simp
qed

end
