(* ===== verification/Mux_Properties.thy ===== *)
theory Mux_Properties
  imports Mux_Spec Redundancy_Properties
begin

section \<open>Properties of the multiplexer\<close>

text \<open>
  A packet from one node to another, the duplicate a second transport channel brings, and the
  timeout of deferred packets, with two concrete multiplexers as witnesses.
\<close>

text \<open>What a sending and a receiving multiplexer must have for a packet.\<close>

definition sends_to :: "redundancy_mux \<Rightarrow> RastaPacket \<Rightarrow> rasta_redundancy_channel \<Rightarrow> rasta_hashing_context_t \<Rightarrow> crc_options \<Rightarrow> bool" where
  "sends_to mux p r ctx opt \<longleftrightarrow>
     (\<exists>k. redundancy_mux_get_channel mux (ucast (p_receiver_id p)) = Some k \<and> r = mux_connected_channels mux ! k) \<and>
     rc_hashing_context r = ctx \<and> cfg_crc_type (cfg_redundancy (mux_config mux)) = opt \<and>
     unat (rc_connected_channel_count r) \<le> length (rc_connected_channels r) \<and>
     unat (rc_connected_channel_count r) \<le> length (mux_udp_socket_fds mux)"

definition listens_for :: "redundancy_mux \<Rightarrow> u32 \<Rightarrow> rasta_redundancy_channel \<Rightarrow> rasta_hashing_context_t \<Rightarrow> crc_options \<Rightarrow> bool" where
  "listens_for mux sender ch ctx opt \<longleftrightarrow>
     (\<exists>k. redundancy_mux_get_channel mux (ucast sender) = Some k \<and> ch = mux_connected_channels mux ! k) \<and>
     mux_sr_hashing_context mux = ctx \<and> rc_hashing_context ch = ctx \<and>
     cfg_crc_type (cfg_redundancy (mux_config mux)) = opt \<and> red_channel_ok ch \<and>
     \<not> rc_connected_channel_count ch < mux_port_count mux"

definition fits :: "rasta_hashing_context_t \<Rightarrow> RastaPacket \<Rightarrow> crc_options \<Rightarrow> bool" where
  "fits ctx p opt \<longleftrightarrow> wf_hash ctx \<and> wf_packet ctx p \<and> crc_bytes opt \<le> 4 \<and>
     8 + unat (p_length p) + crc_bytes opt < 65536"

text \<open>A packet crosses two multiplexers intact: sending emits one datagram per transport channel, all
  with the same bytes, and whichever of them reaches a receiver that expects the sender's next
  number and has read all earlier messages, retrieving from the sender's channel then gives exactly
  that packet, with its safety code computed and found correct.\<close>

theorem packet_crosses_muxes:
  assumes a: "sends_to A p r ctx opt" and b: "listens_for B (p_sender_id p) ch ctx opt" and w: "fits ctx p opt"
    and i: "indet_ok indet" "indet_ok (un_bytes u)"
    and s: "rc_seq_rx ch = ucast (ucast (rc_seq_tx r) :: u32)" "delivered ch = []" "0 < unat (f_max_size (rc_fifo_recv ch))"
    and id: "channel_id < length (rc_connected_channels ch)" "channel_id < length (mux_udp_socket_fds B)"
    and h: "length host < 15"
  shows "\<exists>A' ds. redundancy_mux_send indet A p RASTA_ERRORS_NONE = Some (A', ds, RASTA_ERRORS_NONE) \<and>
    length ds = unat (rc_connected_channel_count r) \<and>
    (\<forall>d \<in> set ds. \<exists>st' B' B''.
       receive_packet u now m st B channel_id (d_bytes d) host prt RASTA_ERRORS_NONE = Some (st', B', [], RASTA_ERRORS_NONE) \<and>
       redundancy_mux_retrieve u B' (ucast (p_sender_id p)) RASTA_ERRORS_NONE =
         Some (Ready (verified ctx p, B'', RASTA_ERRORS_NONE)))"
proof -
  obtain k where k: "redundancy_mux_get_channel B (ucast (p_sender_id p)) = Some k" "ch = mux_connected_channels B ! k"
    using b by (auto simp: listens_for_def)
  obtain k0 where k0: "redundancy_mux_get_channel A (ucast (p_receiver_id p)) = Some k0" "r = mux_connected_channels A ! k0"
    using a by (auto simp: sends_to_def)
  have w': "wf_hash ctx" "wf_packet ctx p" "crc_bytes opt \<le> 4" "8 + unat (p_length p) + crc_bytes opt < 65536"
    using w by (simp_all add: fits_def)
  note a' = a [unfolded sends_to_def] and b' = b [unfolded listens_for_def]
  let ?d = "red_bytes ctx (createRedundancyPacket (ucast (rc_seq_tx r)) p opt)"
  have send: "\<exists>ds. redundancy_mux_send indet A p RASTA_ERRORS_NONE =
      Some (set_channel k0 (r\<lparr>rc_seq_tx := rc_seq_tx r + 1\<rparr>) A, ds, RASTA_ERRORS_NONE) \<and>
    length ds = unat (rc_connected_channel_count r) \<and> (\<forall>d \<in> set ds. d_bytes d = ?d)"
    using a' w' i(1) by (intro send_ok [OF k0]) auto
  have s': "ucast (ucast (rc_seq_tx r) :: u32) = rc_seq_rx ch" using s(1) by simp
  obtain st' ch' where r: "receive_packet u now m st B channel_id ?d host prt RASTA_ERRORS_NONE =
      Some (st', set_channel k ch' B, [], RASTA_ERRORS_NONE)" "red_channel_ok ch'"
    "delivered ch' = packet_bytes ctx p # []" "rc_hashing_context ch' = ctx" "rc_associated_id ch' = rc_associated_id ch"
    using datagram_accepted [OF id(2) i(2) h w' _ _ k _ _ _ id(1) s', of now m st prt] b' s(2,3) by auto
  have kl: "k < length (mux_connected_channels B)" "rc_associated_id ch = ucast (p_sender_id p)"
    using k by (simp_all add: get_channel_spec)
  have g: "redundancy_mux_get_channel (set_channel k ch' B) (ucast (p_sender_id p)) = Some k"
    using kl r(5) by (intro set_channel_lookup k(1)) simp
  have "ch' = mux_connected_channels (set_channel k ch' B) ! k" using kl by simp
  then obtain B'' where B: "redundancy_mux_retrieve u (set_channel k ch' B) (ucast (p_sender_id p)) RASTA_ERRORS_NONE =
      Some (Ready (verified ctx p, B'', RASTA_ERRORS_NONE))"
    using retrieve_first [OF g _ _ r(3) w'(1,2) r(4) i(2)] r(2) by (auto simp: red_channel_ok_def)
  obtain ds where ds: "redundancy_mux_send indet A p RASTA_ERRORS_NONE =
      Some (set_channel k0 (r\<lparr>rc_seq_tx := rc_seq_tx r + 1\<rparr>) A, ds, RASTA_ERRORS_NONE)"
    "length ds = unat (rc_connected_channel_count r)" "\<forall>d \<in> set ds. d_bytes d = ?d"
    using send by blast
  have "\<forall>d \<in> set ds. \<exists>st' B' B''.
       receive_packet u now m st B channel_id (d_bytes d) host prt RASTA_ERRORS_NONE = Some (st', B', [], RASTA_ERRORS_NONE) \<and>
       redundancy_mux_retrieve u B' (ucast (p_sender_id p)) RASTA_ERRORS_NONE =
         Some (Ready (verified ctx p, B'', RASTA_ERRORS_NONE))"
    using r(1) B by (simp add: ds(3))
  then show ?thesis using ds(1,2) by blast
qed

definition demo_mux :: "u64 \<Rightarrow> redundancy_mux" where
  "demo_mux rid = (redundancy_mux_init_from_config (\<lambda>_. 3) md4_ctx (demo_config RASTA_ALGO_MD4))
     \<lparr>mux_port_count := 1, mux_udp_socket_fds := [3],
      mux_connected_channels := [demo_channel\<lparr>rc_associated_id := rid, rc_connected_channel_count := 1\<rparr>]\<rparr>"

definition demo_safety_packet :: RastaPacket where
  "demo_safety_packet = zero_packet\<lparr>p_length := 37, p_data := [7], p_receiver_id := 97, p_sender_id := 96,
     p_checksum := replicate 8 0\<rparr>"

definition demo_uninit :: uninit where
  "demo_uninit = \<lparr>un_bytes = zero_indet, un_transport = (\<lambda>_. blank_transport), un_channel = demo_channel,
     un_packet = zero_redundancy_packet\<rparr>"

abbreviation demo_ctx_md4 :: rasta_hashing_context_t where
  "demo_ctx_md4 \<equiv> init_hashing_context (demo_sending RASTA_ALGO_MD4)"

lemma demo_mux_fields [simp]:
  "mux_connected_channels (demo_mux rid) = [demo_channel\<lparr>rc_associated_id := rid, rc_connected_channel_count := 1\<rparr>]"
  "mux_sr_hashing_context (demo_mux rid) = demo_ctx_md4" "mux_port_count (demo_mux rid) = 1"
  "mux_udp_socket_fds (demo_mux rid) = [3]"
  "cfg_crc_type (cfg_redundancy (mux_config (demo_mux rid))) = crc_init_opt_b (replicate 256 0)"
  by (simp_all add: demo_mux_def redundancy_mux_init_from_config_def Let_def demo_config_def)

lemma demo_mux_get [simp]: "redundancy_mux_get_channel (demo_mux rid) rid = Some 0"
  by (simp add: redundancy_mux_get_channel_def)

lemma demo_safety_fields [simp]:
  "p_receiver_id demo_safety_packet = 97" "p_sender_id demo_safety_packet = 96" "indet_ok (un_bytes demo_uninit)"
  by (simp_all add: demo_safety_packet_def demo_uninit_def)

lemma demo_seq_tx [simp]: "rc_seq_tx demo_channel = 0"
  by (simp add: demo_channel_def rasta_red_init_def Let_def)

lemma demo_delivered [simp]:
  "delivered (demo_channel\<lparr>rc_associated_id := rid, rc_connected_channel_count := n\<rparr>) = []"
  using demo_fields(2) by (simp add: delivered_def)

lemma demo_sends: "sends_to (demo_mux 97) demo_safety_packet
    (demo_channel\<lparr>rc_associated_id := 97, rc_connected_channel_count := 1\<rparr>) demo_ctx_md4 (crc_init_opt_b (replicate 256 0))"
  by (simp add: sends_to_def)

lemma demo_listens: "listens_for (demo_mux 96) 96
    (demo_channel\<lparr>rc_associated_id := 96, rc_connected_channel_count := 1\<rparr>) demo_ctx_md4 (crc_init_opt_b (replicate 256 0))"
  using demo_ok by (simp add: listens_for_def red_channel_ok_def never_deferred_def)

lemma demo_fits: "fits demo_ctx_md4 demo_safety_packet (crc_init_opt_b (replicate 256 0))"
  by (simp add: fits_def demo_safety_packet_def zero_packet_def wf_packet_def)

text \<open>C36. A duplicate is undefined behaviour: the channel keeps a pointer to the first packet it accepts in
  its diagnostics buffer, and \<open>receive_packet\<close> releases that packet before it returns. When the same
  datagram arrives again, as it does on every further transport channel, processing follows
  the pointer to the released packet.\<close>

theorem duplicate_undefined:
  assumes b: "listens_for B (p_sender_id p) ch ctx opt" and w: "fits ctx p opt" and i: "indet_ok (un_bytes u)"
    and s: "ucast n = rc_seq_rx ch" and h: "length host < 15" "length host' < 15"
    and d: "dq_count (rc_diagnostics_packet_buffer ch) = 0" "0 < dq_max_count (rc_diagnostics_packet_buffer ch)"
    and id: "c < length (rc_connected_channels ch)" "c < length (mux_udp_socket_fds B)"
      "c' < length (rc_connected_channels ch)" "c' < length (mux_udp_socket_fds B)"
    and a: "a \<noteq> a'"
  shows "\<exists>st' B'. receive_packet u now a st B c (red_bytes ctx (createRedundancyPacket n p opt)) host prt RASTA_ERRORS_NONE =
      Some (st', B', [], RASTA_ERRORS_NONE) \<and>
    receive_packet u now' a' st' B' c' (red_bytes ctx (createRedundancyPacket n p opt)) host' prt' RASTA_ERRORS_NONE = None"
proof -
  let ?q = "(createRedundancyPacket n p opt)\<lparr>rp_data := verified ctx p, rp_checksum_correct := True\<rparr>"
  let ?d = "red_bytes ctx (createRedundancyPacket n p opt)"
  note b' = b [unfolded listens_for_def] and w' = w [unfolded fits_def]
  obtain k where k: "redundancy_mux_get_channel B (ucast (p_sender_id p)) = Some k" "ch = mux_connected_channels B ! k"
    using b' by auto
  have kl: "k < length (mux_connected_channels B)" "rc_associated_id ch = ucast (p_sender_id p)"
    using k by (simp_all add: get_channel_spec)
  obtain o' where dec: "bytesToRastaRedundancyPacket (un_bytes u) (un_packet u) ?d opt ctx RASTA_ERRORS_NONE =
      Some (?q, o', RASTA_ERRORS_NONE)"
    using decode_sent [of ctx p opt u n] w' i by blast
  have q: "p_sender_id (rp_data ?q) = p_sender_id p" "rp_sequence_number ?q = n" "packet_ok ch ?q"
    using verified_wf [of ctx p] w' b' by (simp_all add: verified_def createRedundancyPacket_def packet_ok_def)
  obtain tcs dq f where r: "rasta_red_f_receive (un_bytes u) now (alloc_packet st a ?q) ch a c RASTA_ERRORS_NONE =
      Some (alloc_packet st a ?q, ch\<lparr>rc_connected_channels := tcs, rc_seq_rx := rc_seq_rx ch + 1,
        rc_diagnostics_packet_buffer := dq, rc_fifo_recv := f\<rparr>, RASTA_ERRORS_NONE)"
    "holds_one dq a" "length tcs = length (rc_connected_channels ch)"
    using accept_exact [OF _ i id(1) d, of "alloc_packet st a ?q" a ?q now] b' q s by auto
  define ch' where c: "ch' = ch\<lparr>rc_connected_channels := tcs, rc_seq_rx := rc_seq_rx ch + 1,
        rc_diagnostics_packet_buffer := dq, rc_fifo_recv := f\<rparr>"
  let ?st = "free_packet (alloc_packet st a ?q) a" and ?B = "set_channel k ch' B"
  have first: "receive_packet u now a st B c ?d host prt RASTA_ERRORS_NONE = Some (?st, ?B, [], RASTA_ERRORS_NONE)"
    using receive_packet_known [OF id(2) i _ h(1), of ?d RASTA_ERRORS_NONE ?q o' RASTA_ERRORS_NONE k now a st prt] b' dec k q r c
    by simp
  have g: "redundancy_mux_get_channel ?B (ucast (p_sender_id p)) = Some k"
    using kl c by (intro set_channel_lookup k(1)) simp
  have "unat n + 1 < 18446744073709551616" using unat_u32_less [of n] by linarith
  then have "unat n < unat (rc_seq_rx ch + 1)"
    unfolding s [symmetric] by (simp add: unat_word_ariths)
  then have late: "ucast n < rc_seq_rx ch'" by (simp add: c word_less_nat_alt)
  have stale: "stale_diagnostics ?st ch' a"
    using r(2) holds_one_max [OF r(2)] by (auto simp: stale_diagnostics_def c holds_one_def word_neq_0_conv)
  have "rasta_red_f_receive (un_bytes u) now' (alloc_packet ?st a' ?q) ch' a' c' RASTA_ERRORS_NONE = None"
    using late id(3) r(3) q(2) by (intro late_undefined [OF stale a]) (simp_all add: c)
  then have "receive_packet u now' a' ?st ?B c' ?d host' prt' RASTA_ERRORS_NONE = None"
    using receive_packet_known [of c' ?B u ?d RASTA_ERRORS_NONE ?q o' RASTA_ERRORS_NONE host' k now' a' ?st prt']
      id(4) i dec b' h(2) g q(1) kl(1) c by simp
  with first show ?thesis by blast
qed

lemma demo_diag_count [simp]: "dq_count (rc_diagnostics_packet_buffer demo_channel) = 0"
  by (simp add: demo_channel_def rasta_red_init_def Let_def defer_queue_init_def)

theorem duplicate_undefined_witness:
  "\<exists>st' B'. receive_packet demo_uninit 5 0 demo_store (demo_mux 96) 0
      (red_bytes demo_ctx_md4 (createRedundancyPacket 0 demo_safety_packet (crc_init_opt_b (replicate 256 0)))) [49] 8000
      RASTA_ERRORS_NONE = Some (st', B', [], RASTA_ERRORS_NONE) \<and>
    receive_packet demo_uninit 6 1 st' B' 0
      (red_bytes demo_ctx_md4 (createRedundancyPacket 0 demo_safety_packet (crc_init_opt_b (replicate 256 0)))) [49] 8000
      RASTA_ERRORS_NONE = None"
proof -
  have l: "listens_for (demo_mux 96) (p_sender_id demo_safety_packet)
      (demo_channel\<lparr>rc_associated_id := 96, rc_connected_channel_count := 1\<rparr>) demo_ctx_md4 (crc_init_opt_b (replicate 256 0))"
    using demo_listens by simp
  show ?thesis
    by (rule duplicate_undefined [OF l demo_fits]) simp_all
qed

text \<open>The timeout of a deferred packet is undefined behaviour: \<open>receive_packet\<close> releases every packet it
  was called for, so when it leaves a packet in the defer queue of a channel, the timeout
  thread follows that pointer as soon as the oldest entry is older than the configured time.\<close>

theorem timeout_undefined:
  assumes "receive_packet u now a st mux c buffer host prt e = Some (st', mux', es, e')"
    and "i < length (mux_connected_channels mux')" and "ch = mux_connected_channels mux' ! i"
    and "x \<in> set (dq_elements (rc_defer_q ch))" and "w_packet x = Some a" and "dq_count (rc_defer_q ch) \<noteq> 0"
    and "ucast now' - w_received_timestamp (dq_elements (rc_defer_q ch) ! 0) >
      ucast (cfg_t_seq (rc_configuration_parameters ch))"
  shows "timeout_channel u now' st' mux' i e'' = None"
proof -
  have "ps_packets st' a = None"
    by (rule receive_packet_frees [OF assms(1)])
  then have "packet_at st' (w_packet x) = None" using assms(5) by (simp add: packet_at_def)
  then have "rasta_red_f_deferTmo (un_bytes u) st' ch e'' = None"
    using smallest_undefined [OF assms(4)]
    by (simp add: rasta_red_f_deferTmo_def deferqueue_smallest_seqnr_def)
  then show ?thesis
    using assms(2-4,6,7) by (auto simp: timeout_channel_def buf_get_def bind_eq_None_conv)
qed

end
