(* ===== verification/Sr_Properties.thy ===== *)
theory Sr_Properties
  imports Sr_Transfer Mux_Properties
begin

section \<open>Properties of the safety layer\<close>

text \<open>
  Application data between two nodes, the states of a connection, the handshake, and what the
  code does with damaged packets, with retransmission and with a second connection. The
  witnesses use two nodes, 96 and 97, that talk over one transport channel.
\<close>

subsection \<open>Two concrete nodes\<close>

definition demo_env :: sr_env where
  "demo_env = \<lparr>se_uninit = demo_uninit, se_connection = some_connection, se_clock = (\<lambda>n. 100 + word_of_nat n),
     se_tick = 0, se_seed = (\<lambda>_. (0, 0, 0)), se_rand = (\<lambda>_ _. 0), se_after_version = [0]\<rparr>"

definition demo_node :: "u64 \<Rightarrow> u64 \<Rightarrow> rasta_connection list \<Rightarrow> rasta_handle" where
  "demo_node own peer cs = \<lparr>rh_config = (demo_config RASTA_ALGO_MD4)\<lparr>cfg_general := \<lparr>cfg_rasta_network = 1, cfg_rasta_id = own\<rparr>\<rparr>,
     rh_initial_seq = Some 500, rh_accepted_version = [], rh_connections = \<lparr>rl_data = cs, rl_actual_size = 2\<rparr>,
     rh_hashing_context = demo_ctx_md4, rh_mux = demo_mux peer,
     rh_notifications = \<lparr>nt_on_receive = True, nt_on_connection_state_change = True, nt_on_diagnostic_notification = False,
       nt_on_disconnection_request_received = False, nt_on_redundancy_diagnostic_notification = False,
       nt_on_handshake_complete = True, nt_on_heartbeat_timeout = False\<rparr>,
     rh_running_notifications = 0, rh_recv_running = True, rh_send_running = True, rh_hb_running = True,
     rh_lasterror = RASTA_ERRORS_NONE, rh_factory_error = RASTA_ERRORS_NONE, rh_clock_reads = 0, rh_sent = [],
     rh_events = []\<rparr>"

text \<open>An open connection: own numbers from 500 on, the peer's from 700 on, nothing outstanding.\<close>

definition demo_connection :: "u32 \<Rightarrow> u32 \<Rightarrow> u32 \<Rightarrow> u32 \<Rightarrow> rasta_connection" where
  "demo_connection own peer n m = some_connection\<lparr>current_state := RASTA_CONNECTION_UP, my_id := own, remote_id := peer,
     sn_t := n, sn_r := m, cs_t := m - 1, cs_r := n - 1, ts_r := 100, cts_r := 100, fifo_app_msg := fifo_init 20,
     fifo_send := fifo_init 6, fifo_retr := fifo_init 10\<rparr>"

lemma demo_env_fields [simp]:
  "the_indet demo_env = zero_indet" "se_uninit demo_env = demo_uninit" "se_connection demo_env = some_connection"
  "se_clock demo_env n = 100 + word_of_nat n" "se_after_version demo_env = [0]"
  by (simp_all add: demo_env_def demo_uninit_def)

lemma demo_node_fields [simp]:
  "rh_connections (demo_node own peer cs) = \<lparr>rl_data = cs, rl_actual_size = 2\<rparr>" "rh_mux (demo_node own peer cs) = demo_mux peer"
  "rh_hashing_context (demo_node own peer cs) = demo_ctx_md4" "rh_lasterror (demo_node own peer cs) = RASTA_ERRORS_NONE"
  "sending (demo_node own peer cs) = demo_sending RASTA_ALGO_MD4" "cfg_rasta_id (general (demo_node own peer cs)) = own"
  "rh_clock_reads (demo_node own peer cs) = 0" "rh_sent (demo_node own peer cs) = []" "rh_accepted_version (demo_node own peer cs) = []"
  by (simp_all add: demo_node_def demo_config_def)

lemma demo_connection_fields [simp]:
  "current_state (demo_connection own peer n m) = RASTA_CONNECTION_UP" "my_id (demo_connection own peer n m) = own"
  "remote_id (demo_connection own peer n m) = peer" "sn_t (demo_connection own peer n m) = n"
  "sn_r (demo_connection own peer n m) = m" "cs_t (demo_connection own peer n m) = m - 1"
  "cs_r (demo_connection own peer n m) = n - 1" "ts_r (demo_connection own peer n m) = 100"
  "cts_r (demo_connection own peer n m) = 100" "fifo_app_msg (demo_connection own peer n m) = fifo_init 20"
  "fifo_send (demo_connection own peer n m) = fifo_init 6" "fifo_retr (demo_connection own peer n m) = fifo_init 10"
  by (simp_all add: demo_connection_def)

lemma demo_limits [simp]:
  "cfg_t_max (demo_sending a) = 1800" "cfg_max_packet (demo_sending a) = 3" "cfg_send_max (demo_sending a) = 20"
  by (simp_all add: demo_sending_def)

lemma demo_queues [simp]: "queues_ok h (demo_connection own peer n m)"
  by (simp add: queues_ok_def fifo_init_inv fifo_init_abs)

lemma demo_node_ok [simp]: "node_ok demo_env (demo_node own peer cs)"
  using demo_fits by (simp add: node_ok_def channel_sends_def fits_def)

subsection \<open>Application data\<close>

text \<open>A node that can take messages for a connection and send them in one packet.\<close>

definition ready_to_send :: "sr_env \<Rightarrow> rasta_handle \<Rightarrow> rasta_connection \<Rightarrow> bool" where
  "ready_to_send en h c \<longleftrightarrow> node_ok en h \<and> queues_ok h c \<and> current_state c = RASTA_CONNECTION_UP \<and>
     fifo_abs (fifo_send c) = [] \<and> length (fifo_abs (fifo_retr c)) \<le> unat (cfg_max_packet (sending h)) \<and>
     cfg_max_packet (sending h) \<le> f_max_size (fifo_send c)"

text \<open>Queued messages leave with the next step of the send thread, and one copy suffices.\<close>

lemma queued_data_delivered:
  assumes a: "node_ok enA hA" "queues_ok hA a" "current_state a = RASTA_CONNECTION_UP" "fifo_abs (fifo_send a) = ms"
      "length (fifo_abs (fifo_retr a)) \<le> unat (cfg_max_packet (sending hA))"
    and ms: "ms \<noteq> []" "length ms \<le> unat (cfg_max_packet (sending hA))" "length (message_bytes ms) < 64000"
    and b: "ready_for enB hB (my_id a) i ch (crc_option_of hA)" "rh_hashing_context hB = rh_hashing_context hA"
      "in_step (sending hB) a (rl_data (rh_connections hB) ! i)"
      "ucast (next_number (rh_mux hA) (remote_id a)) = rc_seq_rx ch"
    and id: "channel_id < length (rc_connected_channels ch)" "channel_id < length (mux_udp_socket_fds (rh_mux hB))"
    and host: "length host < 15"
  shows "\<exists>hA' a2 ds. send_connection enA hA a = Some (hA', a2) \<and>
    rh_sent hA' = rh_sent hA @ ds \<and> length ds = transports (rh_mux hA) (remote_id a) \<and>
    (\<forall>d \<in> set ds. \<exists>st' m hB'.
      receive_packet (se_uninit enB) now addr st (rh_mux hB) channel_id (d_bytes d) host prt RASTA_ERRORS_NONE =
        Some (st', m, [], RASTA_ERRORS_NONE) \<and>
      receive_thread_round enB (hB\<lparr>rh_mux := m\<rparr>) = Some (Ready hB') \<and>
      in_step (sending hB') a2 (rl_data (rh_connections hB') ! i) \<and>
      queues_ok hB (rl_data (rh_connections hB') ! i) \<and>
      fifo_abs (fifo_app_msg (rl_data (rh_connections hB') ! i)) =
        bounded_append (unat (f_max_size (fifo_app_msg (rl_data (rh_connections hB) ! i))))
          (fifo_abs (fifo_app_msg (rl_data (rh_connections hB) ! i)))
          (map (\<lambda>m. \<lparr>app_id = ucast (my_id a), appMessage = m\<rparr>) ms))"
proof -
  obtain hA' a2 p where t: "send_connection enA hA a = Some (hA', a2)" "sent_as hA hA' p"
    "wf_packet (rh_hashing_context hA) p" "data_of a p" "p_data p = message_bytes ms" "sn_t a2 = sn_t a + 1"
    "cs_t a2 = cs_t a" "ts_r a2 = ts_r a" "remote_id a2 = remote_id a" "my_id a2 = my_id a"
    using send_connection_ok [OF a(1,2), of "length ms"] a ms by (auto simp: data_of_def)
  obtain ds where d: "rh_sent hA' = rh_sent hA @ ds" "length ds = transports (rh_mux hA) (remote_id a)"
    "\<forall>d \<in> set ds. d_bytes d = red_bytes (rh_hashing_context hA)
      (createRedundancyPacket (next_number (rh_mux hA) (remote_id a)) p (crc_option_of hA))"
    using t(2,4) by (auto simp: sent_as_def data_of_def)
  have "m \<in> set ms \<Longrightarrow> length m \<le> length (message_bytes ms)" for m
    using member_le_sum_list [of "length m" "map length ms"] by (simp add: message_bytes_length)
  then have len: "\<forall>m \<in> set ms. length m < 65536" using ms(3) by fastforce
  have pl: "unat (p_length p) < 65000"
    using t(3,5) ms(3) a(1) hash_len_bound [of "rh_hashing_context hA"] by (simp add: wf_packet_def node_ok_def)
  obtain st' m hB' where r: "receive_packet (se_uninit enB) now addr st (rh_mux hB) channel_id
      (red_bytes (rh_hashing_context hA) (createRedundancyPacket (next_number (rh_mux hA) (remote_id a)) p (crc_option_of hA)))
      host prt RASTA_ERRORS_NONE = Some (st', m, [], RASTA_ERRORS_NONE)"
    "receive_thread_round enB (hB\<lparr>rh_mux := m\<rparr>) = Some (Ready hB')"
    "in_step (sending hB') (a\<lparr>sn_t := sn_t a + 1\<rparr>) (rl_data (rh_connections hB') ! i)"
    "queues_ok hB (rl_data (rh_connections hB') ! i)"
    "fifo_abs (fifo_app_msg (rl_data (rh_connections hB') ! i)) =
        bounded_append (unat (f_max_size (fifo_app_msg (rl_data (rh_connections hB) ! i))))
          (fifo_abs (fifo_app_msg (rl_data (rh_connections hB) ! i))) (map (app_message p) ms)"
    using data_round [OF b(1) t(4) b(3) refl _ pl t(5) len b(4) id host, of now addr st prt] t(3) b(2) by auto
  have "in_step (sending hB') a2 (rl_data (rh_connections hB') ! i)" using r(3) t(6-10) by (simp add: in_step_def)
  moreover have "app_message p = (\<lambda>m. \<lparr>app_id = ucast (my_id a), appMessage = m\<rparr>)"
    using t(4) by (auto simp: app_message_def data_of_def)
  ultimately show ?thesis using t(1) d r(1,2,4,5) by (metis (no_types, lifting))
qed

lemma send_on_queues:
  assumes "ready_to_send en h c" "length ms \<le> unat (cfg_max_packet (sending h))"
  shows "\<exists>f. send_on en ms h c = Some (h, c\<lparr>fifo_send := f\<rparr>) \<and> queues_ok h (c\<lparr>fifo_send := f\<rparr>) \<and> fifo_abs f = ms \<and>
    f_max_size f = f_max_size (fifo_send c)"
proof -
  note c = assms(1) [unfolded ready_to_send_def]
  have "length ms \<le> unat (f_max_size (fifo_send c))" using c assms(2) by (meson le_trans word_le_nat_alt)
  then obtain f where f: "push_all ms (fifo_send c) = Some f" "fifo_inv f" "fifo_abs f = ms"
    "f_max_size f = f_max_size (fifo_send c)"
    using push_all_spec [of "fifo_send c" ms] c by (auto simp: queues_ok_def bounded_append_def)
  then show ?thesis using c assms(2) by (intro exI [of _ f]) (simp add: send_on_def queues_ok_def)
qed

text \<open>Application data goes from application to application: the messages handed to \<open>sr_send\<close> on an open
  connection leave with the next step of the send thread in one packet, once per transport channel;
  whichever copy arrives at the peer, the next round of its receive thread appends exactly these
  messages, in order and under the sender's identifier, to the receive queue as far as it has
  room, and the two ends are in step again for the next packet.\<close>

theorem application_data_delivered:
  assumes a: "ready_to_send enA hA a"
    and ms: "ms \<noteq> []" "length ms \<le> unat (cfg_max_packet (sending hA))" "length (message_bytes ms) < 64000"
    and b: "ready_for enB hB (my_id a) i ch (crc_option_of hA)" "rh_hashing_context hB = rh_hashing_context hA"
      "in_step (sending hB) a (rl_data (rh_connections hB) ! i)"
      "ucast (next_number (rh_mux hA) (remote_id a)) = rc_seq_rx ch"
    and id: "channel_id < length (rc_connected_channels ch)" "channel_id < length (mux_udp_socket_fds (rh_mux hB))"
    and host: "length host < 15"
  shows "\<exists>a1 hA' a2 ds. send_on enA ms hA a = Some (hA, a1) \<and> send_connection enA hA a1 = Some (hA', a2) \<and>
    rh_sent hA' = rh_sent hA @ ds \<and> length ds = transports (rh_mux hA) (remote_id a) \<and>
    (\<forall>d \<in> set ds. \<exists>st' m hB'.
      receive_packet (se_uninit enB) now addr st (rh_mux hB) channel_id (d_bytes d) host prt RASTA_ERRORS_NONE =
        Some (st', m, [], RASTA_ERRORS_NONE) \<and>
      receive_thread_round enB (hB\<lparr>rh_mux := m\<rparr>) = Some (Ready hB') \<and>
      in_step (sending hB') a2 (rl_data (rh_connections hB') ! i) \<and>
      fifo_abs (fifo_app_msg (rl_data (rh_connections hB') ! i)) =
        bounded_append (unat (f_max_size (fifo_app_msg (rl_data (rh_connections hB) ! i))))
          (fifo_abs (fifo_app_msg (rl_data (rh_connections hB) ! i)))
          (map (\<lambda>m. \<lparr>app_id = ucast (my_id a), appMessage = m\<rparr>) ms))"
proof -
  obtain f where f: "send_on enA ms hA a = Some (hA, a\<lparr>fifo_send := f\<rparr>)" "queues_ok hA (a\<lparr>fifo_send := f\<rparr>)" "fifo_abs f = ms"
    using send_on_queues [OF a ms(2)] by blast
  let ?a = "a\<lparr>fifo_send := f\<rparr>"
  have "in_step (sending hB) ?a (rl_data (rh_connections hB) ! i)" using b(3) by (simp add: in_step_def)
  then show ?thesis
    using queued_data_delivered [of enA hA ?a ms enB hB i ch channel_id host now addr st prt] a ms b id host f
    by (fastforce simp: ready_to_send_def)
qed

lemma demo_ready: "ready_for demo_env (demo_node 97 96 [demo_connection 97 96 700 500]) 96 0
    (demo_channel\<lparr>rc_associated_id := 96, rc_connected_channel_count := 1\<rparr>) (crc_init_opt_b (replicate 256 0))"
  using demo_listens demo_fits demo_fields(2)
  by (simp add: ready_for_def listens_for_def fits_def red_channel_ok_def delivered_def rastalist_getConnectionByRemote_def
      rastalist_getConnectionId_def rastalist_getConnection_def)

subsection \<open>States\<close>

lemma not_opened:
  "handle_data en h c p = Some (h', c') \<Longrightarrow> current_state c' = RASTA_CONNECTION_UP \<Longrightarrow> current_state c = RASTA_CONNECTION_UP"
  "handle_retrresp en h c p = Some (h', c') \<Longrightarrow> current_state c' \<noteq> RASTA_CONNECTION_UP"
  "handle_retrdata en h c p = Some (h', c') \<Longrightarrow> current_state c' = RASTA_CONNECTION_UP \<Longrightarrow> current_state c = RASTA_CONNECTION_UP"
  "handle_discreq en h c p = Some (h', c') \<Longrightarrow> current_state c' \<noteq> RASTA_CONNECTION_UP"
  by (auto simp: handle_data_def handle_retrresp_def handle_retrdata_def handle_discreq_def Let_def case_prod_beta
      up_or_running_def bind_Some_iff sr_reset_connection_def
      dest!: close_state add_buffer_state remove_confirmed_state split: if_splits)

lemma opened_by_response:
  assumes "handle_conresp en h c p = Some (h', c')" "current_state c' = RASTA_CONNECTION_UP"
  shows "sr_check_packet c (sending h) p"
  using assms by (auto simp: handle_conresp_def dest!: close_state split: if_splits)


text \<open>A disconnection request closes the demo connection.\<close>

definition demo_control :: "u16 \<Rightarrow> RastaPacket" where
  "demo_control t = zero_packet\<lparr>p_length := 36, p_type := t, p_receiver_id := 97, p_sender_id := 96,
     p_sequence_number := 500, p_confirmed_sequence_number := 699, p_timestamp := 110, p_confirmed_timestamp := 105,
     p_checksum := replicate 8 0, p_checksum_correct := True\<rparr>"


subsection \<open>Packets that fail the checks\<close>



text \<open>A damaged connection response closes an open connection: the handler checks the packet, but on failure it
  closes instead of discarding. Whatever made the check fail, even a wrong safety code, the
  connection ends closed, its redundancy channel is removed and the peer is told.\<close>

theorem damaged_response_closes:
  assumes "node_ok en h" and "p_type p = RASTA_TYPE_CONNRESP" and "\<not> p_checksum_correct p"
  shows "\<exists>h' c'. receive_known en p h c = Some (h', c') \<and> current_state c' = RASTA_CONNECTION_CLOSED \<and> node_ok en h' \<and>
    redundancy_mux_get_channel (rh_mux h') (ucast (remote_id c)) = None"
  using close_ok [OF assms(1), of c RASTA_DISC_REASON_PROTOCOLERROR 0] assms(2,3)
  by (auto simp: receive_known_def handle_conresp_def sr_check_packet_def sr_reset_connection_def)

text \<open>A retransmission request is never answered with defined behaviour: the loop over the stored packets takes one
  round more than it stored, so it unpacks an array that was never set, whatever the queue holds.\<close>

theorem retransmission_undefined: "handle_retrreq en h c p = None \<and> sr_retransmit_data en h c = None"
  by (simp add: retrreq_undefined retransmit_undefined)

subsection \<open>The handshake\<close>

lemma connection_packet_verified [simp]: "connection_packet t (verified ctx p) a b n cs v m = connection_packet t p a b n cs v m"
  by (simp add: connection_packet_def)

text \<open>What the two clocks must give: the handshake takes less than the maximal time on either side.\<close>

definition in_time :: "rasta_handle \<Rightarrow> u32 \<Rightarrow> u32 \<Rightarrow> bool" where
  "in_time h t0 t1 \<longleftrightarrow> sint (t1 - t0) < sint (cfg_t_max (sending h)) \<and> 0 < sint (cfg_t_max (sending h))"

text \<open>C17. The handshake opens both ends in step: a server without the client in its list answers the connection request
  with a connection response, the client opens on it and sends a heartbeat, the server opens on
  that, and then each end is where the next packet of the other belongs. The version sent in
  the request is arbitrary: none is ever refused.\<close>

theorem handshake_completes:
  assumes srv: "node_ok enB hB" "rl_inv (rh_connections hB)" and cl: "node_ok enA hA"
    and a: "current_state a = RASTA_CONNECTION_START" "role a = RASTA_ROLE_CLIENT" "remote_id a = ucast (cfg_rasta_id (general hB))"
    and p: "connection_packet RASTA_TYPE_CONNREQ p (my_id a) (remote_id a) (sn_t a - 1) 0 v m" "p_checksum_correct p"
    and v: "conreq_version_ok enB hB (connection_data v m) \<noteq> None"
      "version_accepted (rh_accepted_version hA) (version_at enA (connection_data RASTA_VERSION (cfg_send_max (sending hB)))) \<noteq> None"
    and t: "in_time hB (se_clock enB (rh_clock_reads hB)) (se_clock enB (rh_clock_reads hB + 1))"
      "in_time hA (cts_r a) (se_clock enA (rh_clock_reads hA))"
  shows "\<exists>hB1 c resp hA1 a1 hb hB2 c1.
    handle_conreq enB hB None p = Some hB1 \<and> rl_data (rh_connections hB1) = rl_data (rh_connections hB) @ [c] \<and>
    sent_as hB hB1 resp \<and> receive_known enA (verified ctx resp) hA a = Some (hA1, a1) \<and>
    sent_as hA hA1 hb \<and> receive_known enB (verified ctx hb) hB1 c = Some (hB2, c1) \<and>
    current_state a1 = RASTA_CONNECTION_UP \<and> current_state c1 = RASTA_CONNECTION_UP \<and>
    in_step (sending hB2) a1 c1 \<and> in_step (sending hA1) c1 a1"
proof -
  obtain hB1 c resp where 1: "handle_conreq enB hB None p = Some hB1" "rh_config hB1 = rh_config hB"
    "rl_data (rh_connections hB1) = rl_data (rh_connections hB) @ [c]" "current_state c = RASTA_CONNECTION_START"
    "role c = RASTA_ROLE_SERVER" "remote_id c = my_id a" "my_id c = remote_id a" "sn_r c = sn_t a" "cs_t c = sn_t a - 1"
    "cs_r c = sn_t c - 2" "cts_r c = se_clock enB (rh_clock_reads hB)" "sent_as hB hB1 resp"
    "connection_packet RASTA_TYPE_CONNRESP resp (remote_id a) (my_id a) (sn_t c - 1) (sn_t a - 1) RASTA_VERSION
      (cfg_send_max (sending hB))" "p_timestamp resp = se_clock enB (rh_clock_reads hB + 1)"
    using conreq_ok [OF srv, of p "my_id a" "sn_t a - 1" v m] p v(1) a(3) by auto
  let ?r = "verified ctx resp"
  have r: "connection_packet RASTA_TYPE_CONNRESP ?r (remote_id a) (my_id a) (sn_t c - 1) (sn_t a - 1) RASTA_VERSION
      (cfg_send_max (sending hB))" "p_checksum_correct ?r" using 1(13) by simp_all
  obtain hA1 a1 hb where 2: "handle_conresp enA hA a ?r = Some (hA1, a1)" "current_state a1 = RASTA_CONNECTION_UP"
    "sn_r a1 = sn_t c" "cs_t a1 = sn_t c - 1" "cs_r a1 = sn_t a - 1" "sn_t a1 = sn_t a + 1" "sent_as hA hA1 hb"
    "p_type hb = RASTA_TYPE_HB" "p_receiver_id hb = remote_id a" "p_sender_id hb = my_id a" "p_sequence_number hb = sn_t a"
    "p_confirmed_sequence_number hb = sn_t c - 1" "p_confirmed_timestamp hb = p_timestamp resp"
    "p_timestamp hb = se_clock enA (rh_clock_reads hA)" "ts_r a1 = p_timestamp resp" "cts_r a1 = cts_r a"
    "remote_id a1 = remote_id a" "my_id a1 = my_id a"
    using conresp_ok [OF cl a(1,2) r v(2)] by auto
  have cfgA: "rh_config hA1 = rh_config hA" by (rule conresp_config [OF 2(1)])
  let ?b = "verified ctx hb"
  have ts: "sint (p_timestamp resp - cts_r c) < sint (cfg_t_max (sending hB1))" "0 < sint (cfg_t_max (sending hB1))"
    using t(1) 1(2,11,14) by (simp_all add: in_time_def)
  have chk: "sr_sn_in_seq c ?b" "sr_cts_in_seq c (sending hB1) ?b"
    using 1(8) 2(8,11,13) ts by (auto simp: sr_sn_in_seq_def sr_cts_in_seq_def rasta_types Let_def)
  obtain hB2 c1 where 3: "handle_hb enB hB1 c ?b = Some (hB2, c1)" "only_notified hB1 hB2" "current_state c1 = RASTA_CONNECTION_UP"
    "sn_r c1 = sn_t a + 1" "cs_t c1 = sn_t a" "cs_r c1 = sn_t c - 1" "sn_t c1 = sn_t c"
    "ts_r c1 = p_timestamp hb" "cts_r c1 = cts_r c" "remote_id c1 = my_id a" "my_id c1 = remote_id a"
    using hb_start_ok [OF 1(4,5) chk, of enB] 1(6,7) 2(11,12) by auto
  have known: "receive_known enA ?r hA a = Some (hA1, a1)"
    using 2(1) r(1) by (simp add: receive_known_def connection_packet_def)
  have "receive_known enB ?b hB1 c = Some (hB2, c1)"
    using 3(1) 1(6,7,8,10) 2(8-12)
    by (simp add: receive_known_def dispatch_def rasta_types sr_message_authentic_def sr_sn_range_valid_def sr_cs_valid_def)
  moreover have "in_step (sending hB2) a1 c1"
    using only_notified_fields(1) [OF 3(2)] ts 2(4,6,15,17,18) 3(4,6,7,9-11) by (simp add: in_step_def)
  moreover have "in_step (sending hA1) c1 a1"
    using cfgA t(2) 2(3,5,6,14,16-18) 3(5,7,8,10,11) by (simp add: in_step_def in_time_def)
  ultimately show ?thesis using 1(1,3,12) known 2(2,7) 3(3) by blast
qed

text \<open>The request of a client with identifier 96 that has just asked to connect.\<close>

definition demo_client :: rasta_connection where
  "demo_client = (demo_connection 96 97 501 0)\<lparr>current_state := RASTA_CONNECTION_START, cts_r := 90\<rparr>"

definition demo_request :: RastaPacket where
  "demo_request = zero_packet\<lparr>p_length := 50, p_type := RASTA_TYPE_CONNREQ, p_receiver_id := 97, p_sender_id := 96,
     p_sequence_number := 500, p_data := RASTA_VERSION @ shortToBytes 20 @ replicate 8 0,
     p_checksum := replicate 8 0, p_checksum_correct := True\<rparr>"

lemma demo_client_fields [simp]:
  "current_state demo_client = RASTA_CONNECTION_START" "role demo_client = RASTA_ROLE_CLIENT" "my_id demo_client = 96"
  "remote_id demo_client = 97" "sn_t demo_client = 501" "cts_r demo_client = 90"
  by (simp_all add: demo_client_def demo_connection_def some_connection_def)

theorem handshake_completes_witness:
  "\<exists>hB1 c resp hA1 a1 hb hB2 c1.
    handle_conreq demo_env (demo_node 97 96 []) None demo_request = Some hB1 \<and> rl_data (rh_connections hB1) = [c] \<and>
    sent_as (demo_node 97 96 []) hB1 resp \<and>
    receive_known demo_env (verified demo_ctx_md4 resp) (demo_node 96 97 []) demo_client = Some (hA1, a1) \<and>
    sent_as (demo_node 96 97 []) hA1 hb \<and> receive_known demo_env (verified demo_ctx_md4 hb) hB1 c = Some (hB2, c1) \<and>
    current_state a1 = RASTA_CONNECTION_UP \<and> current_state c1 = RASTA_CONNECTION_UP \<and>
    in_step (sending hB2) a1 c1 \<and> in_step (sending hA1) c1 a1"
proof -
  have l: "rl_inv (rh_connections (demo_node 97 96 []))" by (simp add: rl_inv_def)
  have p: "connection_packet RASTA_TYPE_CONNREQ demo_request (my_id demo_client) (remote_id demo_client) (sn_t demo_client - 1)
      0 RASTA_VERSION 20" "p_checksum_correct demo_request"
    by (simp_all add: connection_packet_def demo_request_def RASTA_VERSION_def zero_packet_def)
  have v: "conreq_version_ok demo_env (demo_node 97 96 []) (connection_data RASTA_VERSION 20) \<noteq> None"
    by (simp add: conreq_version_ok_def compare_version_def strtol4_def version_at_def connection_data_def RASTA_VERSION_def)
  have t: "in_time (demo_node 97 96 []) (se_clock demo_env 0) (se_clock demo_env 1)"
    "in_time (demo_node 96 97 []) 90 (se_clock demo_env 0)" by (simp_all add: in_time_def)
  show ?thesis
    using handshake_completes [OF demo_node_ok l demo_node_ok _ _ _ p v, of 96 97 "[]" demo_ctx_md4] t by simp
qed

subsection \<open>What goes wrong\<close>

text \<open>Unconfirmed packets are forgotten: the removal of confirmed packets looks for a stored packet with exactly
  the confirmed number. When an accepted data packet confirms a number that is no longer stored,
  as every second packet does that confirms nothing new, the whole retransmission queue is
  emptied, packets the peer has never confirmed included.\<close>

theorem unconfirmed_dropped:
  assumes "current_state c = RASTA_CONNECTION_UP" "sr_sn_in_seq c p" "sr_cts_in_seq c (sending h) p"
    and "extractMessageData p = Some ms" "queues_ok h c" "wf_hash (rh_hashing_context h)" "indet_ok (the_indet en)"
    and none: "\<forall>x \<in> set (fifo_abs (fifo_retr c)). sn_of x \<noteq> p_confirmed_sequence_number p"
  shows "\<exists>h' c'. handle_data en h c p = Some (h', c') \<and> current_state c' = RASTA_CONNECTION_UP \<and> follows p c' \<and>
    fifo_abs (fifo_retr c') = []"
proof -
  have "dropWhile (\<lambda>x. sn_of x \<noteq> p_confirmed_sequence_number p) (fifo_abs (fifo_retr c)) = []"
    using none by (simp add: dropWhile_eq_Nil_conv)
  then have "confirm_upto (p_confirmed_sequence_number p) (fifo_abs (fifo_retr c)) = []" by (simp only: confirm_upto_def drop_Nil)
  then show ?thesis using data_ok [OF assms(1-7)] by auto
qed

text \<open>C37. A second connection takes over the channel of the first: \<open>sr_connect\<close> appends a redundancy channel for the
  new entity and then gives the new identifier to the first channel of the multiplexer. After
  connecting to a second entity, the connection request has gone to the addresses of the first
  one, packets for the second keep going there, and the first entity has no channel any more.\<close>

theorem second_connection_takes_over:
  fixes r :: u32
  assumes "sr_connect en h (ucast r) channels = Some h'"
    and "\<forall>c \<in> set (rl_data (rh_connections h)). remote_id c \<noteq> r"
    and "mux_connected_channels (rh_mux h) = c0 # cs" "rc_associated_id c0 \<noteq> ucast r"
      "\<forall>c \<in> set cs. rc_associated_id c \<noteq> rc_associated_id c0"
  shows "redundancy_mux_get_channel (rh_mux h') (rc_associated_id c0) = None \<and>
    redundancy_mux_get_channel (rh_mux h') (ucast r) = Some 0 \<and>
    (\<exists>ds. rh_sent h' = rh_sent h @ ds \<and> (\<forall>d \<in> set ds. \<exists>tc \<in> set (rc_connected_channels c0).
      d_host d = tc_ip_address tc \<and> d_port d = tc_port tc))"
  using connect_takes_over [OF assms] by blast

theorem second_connection_takes_over_witness:
  "\<exists>h'. sr_connect demo_env (demo_node 96 97 [demo_connection 96 97 500 700]) 98 [\<lparr>ip = replicate 16 0, port = 9000\<rparr>] = Some h' \<and>
    redundancy_mux_get_channel (rh_mux h') 97 = None \<and> redundancy_mux_get_channel (rh_mux h') 98 = Some 0"
proof -
  let ?h = "demo_node 96 97 [demo_connection 96 97 500 700]" and ?ips = "[\<lparr>ip = replicate 16 0, port = 9000\<rparr>]"
  have c: "rc_connected_channel_count (rasta_red_init u c n a) = 0" "rc_connected_channels (rasta_red_init u c n a) = map u [0..<unat n]"
    for u c n a by (simp_all add: rasta_red_init_def Let_def)
  obtain m where m: "redundancy_mux_add_channel demo_uninit (demo_mux 97) 98 ?ips = Some m"
    "mux_udp_socket_fds m = [3]" "mux_config m = mux_config (demo_mux 97)"
    by (auto simp: redundancy_mux_add_channel_def rasta_red_add_transport_channel_def buf_read_def buf_set_def c)
  obtain c1 where c1: "mux_connected_channels m =
      demo_channel\<lparr>rc_associated_id := 97, rc_connected_channel_count := 1\<rparr> # [c1]"
    using add_channel_id [OF m(1)] by auto
  have "sr_connect demo_env ?h (ucast (98 :: u32)) ?ips \<noteq> None"
    using m demo_fits by (intro connect_defined [OF _ _ c1]) (simp_all add: fits_def)
  then obtain h' where h': "sr_connect demo_env ?h (ucast (98 :: u32)) ?ips = Some h'" by blast
  show ?thesis
    using second_connection_takes_over [OF h', of "demo_channel\<lparr>rc_associated_id := 97, rc_connected_channel_count := 1\<rparr>" "[]"] h'
    by simp
qed

end
