(* ===== verification/Ixl_Stack.thy ===== *)
theory Ixl_Stack
  imports Ixl_Properties Sr_Properties
begin

section \<open>The interlocking process over the protocol stack\<close>

text \<open>
  The Cloud IXL records the calls of \<open>sr_send\<close> it makes; here they are carried out on its RaSTA
  node, which has one connection, and the datagrams are followed to the node of the partner and
  into its application. In the other direction the callback \<open>on_rasta_receive\<close> of \<open>main.c\<close> takes a
  delivered message out of the receive queue and hands it to the dialogue.
\<close>

subsection \<open>Both ends of the application\<close>

text \<open>The calls of \<open>sr_send\<close> that an endpoint recorded, carried out in order.\<close>

fun sr_send_all :: "sr_env \<Rightarrow> (u64 \<times> u8 list) list \<Rightarrow> rasta_handle \<Rightarrow> rasta_handle option" where
  "sr_send_all en [] h = Some h"
| "sr_send_all en ((rid, data) # calls) h = do { h \<leftarrow> sr_send en h rid [data]; sr_send_all en calls h }"

text \<open>
  The callback for received data, under its lock. The connection it gets is a copy whose queues
  are those of the connection itself.
\<close>

definition on_rasta_receive ::
  "u8 list \<Rightarrow> u8 list \<Rightarrow> rasta_connection \<times> pdi_t \<Rightarrow> (rasta_connection \<times> pdi_t) option" where
  "on_rasta_receive junk junk2 cp =
     do { (message, c) \<leftarrow> sr_get_received_data (fst cp);
          p \<leftarrow> process_received_message junk junk2 (appMessage message) (snd cp);
          Some (c, p) }"

subsection \<open>One message from node to node\<close>

text \<open>
  The receiving end: a node whose next packet from the connection \<open>a\<close> of the node \<open>hA\<close> is the next one
  that \<open>hA\<close> sends, and with an empty receive queue.
\<close>

definition listens_to :: "sr_env \<Rightarrow> rasta_handle \<Rightarrow> nat \<Rightarrow> nat \<Rightarrow> rasta_handle \<Rightarrow> rasta_connection \<Rightarrow> bool" where
  "listens_to en hB i channel_id hA a \<longleftrightarrow>
     (\<exists>ch. ready_for en hB (my_id a) i ch (crc_option_of hA) \<and> ucast (next_number (rh_mux hA) (remote_id a)) = rc_seq_rx ch \<and>
        channel_id < length (rc_connected_channels ch)) \<and>
     rh_hashing_context hB = rh_hashing_context hA \<and> in_step (sending hB) a (rl_data (rh_connections hB) ! i) \<and>
     channel_id < length (mux_udp_socket_fds (rh_mux hB)) \<and>
     fifo_abs (fifo_app_msg (rl_data (rh_connections hB) ! i)) = [] \<and>
     0 < unat (f_max_size (fifo_app_msg (rl_data (rh_connections hB) ! i)))"

text \<open>
  What holds of a node after a datagram: the redundancy layer takes it, whatever sender, time and
  store, and the next round of the receive thread handles the packet.
\<close>

definition after_datagram :: "sr_env \<Rightarrow> rasta_handle \<Rightarrow> nat \<Rightarrow> u8 list \<Rightarrow> (rasta_handle \<Rightarrow> bool) \<Rightarrow> bool" where
  "after_datagram en h channel_id d Q \<longleftrightarrow>
     (\<forall>now addr st host prt. length host < 15 \<longrightarrow> (\<exists>st' m h'.
        receive_packet (se_uninit en) now addr st (rh_mux h) channel_id d host prt RASTA_ERRORS_NONE =
          Some (st', m, [], RASTA_ERRORS_NONE) \<and>
        receive_thread_round en (h\<lparr>rh_mux := m\<rparr>) = Some (Ready h') \<and> Q h'))"

lemma after_datagram_mono:
  "after_datagram en h k d Q \<Longrightarrow> (\<And>h'. Q h' \<Longrightarrow> R h') \<Longrightarrow> after_datagram en h k d R"
  unfolding after_datagram_def by blast

text \<open>What holds after any of the datagrams that a call of \<open>sr_send\<close> leads to.\<close>

definition crosses ::
  "sr_env \<Rightarrow> rasta_handle \<Rightarrow> (u64 \<times> u8 list) list \<Rightarrow> sr_env \<Rightarrow> rasta_handle \<Rightarrow> nat \<Rightarrow> (rasta_handle \<Rightarrow> bool) \<Rightarrow> bool" where
  "crosses enA hA calls enB hB channel_id Q \<longleftrightarrow>
     (\<exists>hA1 hA2 ds. sr_send_all enA calls hA = Some hA1 \<and> send_thread_round enA hA1 = Some hA2 \<and>
        rh_sent hA2 = rh_sent hA @ ds \<and>
        length ds = transports (rh_mux hA) (remote_id (hd (rl_data (rh_connections hA)))) \<and>
        (\<forall>d \<in> set ds. after_datagram enB hB channel_id (d_bytes d) Q))"

lemma crosses_mono:
  "crosses enA hA calls enB hB k Q \<Longrightarrow> (\<And>h'. Q h' \<Longrightarrow> R h') \<Longrightarrow> crosses enA hA calls enB hB k R"
  unfolding crosses_def by (blast intro: after_datagram_mono)

lemma message_crosses:
  assumes c: "rl_data (rh_connections hA) = [a]" and a: "ready_to_send enA hA a" and b: "listens_to enB hB i k hA a"
    and m: "length msg < 60000" "1 \<le> unat (cfg_max_packet (sending hA))"
  shows "crosses enA hA [(ucast (remote_id a), msg)] enB hB k (\<lambda>hB'.
    \<exists>f. sr_get_received_data (rl_data (rh_connections hB') ! i) =
        Some (\<lparr>app_id = ucast (my_id a), appMessage = msg\<rparr>, (rl_data (rh_connections hB') ! i)\<lparr>fifo_app_msg := f\<rparr>) \<and>
      fifo_abs f = [])"
proof -
  obtain f where f: "send_on enA [msg] hA a = Some (hA, a\<lparr>fifo_send := f\<rparr>)" "queues_ok hA (a\<lparr>fifo_send := f\<rparr>)"
    "fifo_abs f = [msg]"
    using send_on_queues [OF a, of "[msg]"] m(2) by auto
  let ?a = "a\<lparr>fifo_send := f\<rparr>" let ?h = "set_connection 0 ?a hA"
  have s: "sr_send_all enA [(ucast (remote_id a), msg)] hA = Some ?h"
    using single_connection(1,2) [OF c] f(1) by (simp add: sr_send_def)
  have c': "rl_data (rh_connections ?h) = [?a]" using c by (simp add: set_connection_def)
  note r = a [unfolded ready_to_send_def]
  obtain ch where ch: "ready_for enB hB (my_id a) i ch (crc_option_of hA)"
    "ucast (next_number (rh_mux hA) (remote_id a)) = rc_seq_rx ch" "k < length (rc_connected_channels ch)"
    using b by (auto simp: listens_to_def)
  note l = b [unfolded listens_to_def]
  have st: "in_step (sending hB) ?a (rl_data (rh_connections hB) ! i)" using l by (simp add: in_step_def)
  have ml: "length (message_bytes [msg]) < 64000" using m(1) by (simp add: message_bytes_length)
  let ?got = "\<lambda>hB'. queues_ok hB (rl_data (rh_connections hB') ! i) \<and>
    fifo_abs (fifo_app_msg (rl_data (rh_connections hB') ! i)) = [\<lparr>app_id = ucast (my_id a), appMessage = msg\<rparr>]"
  have q: "\<exists>hA' a2 ds. send_connection enA ?h ?a = Some (hA', a2) \<and> rh_sent hA' = rh_sent hA @ ds \<and>
      length ds = transports (rh_mux hA) (remote_id a) \<and> (\<forall>d \<in> set ds. \<exists>st' m hB'.
        receive_packet (se_uninit enB) now addr st (rh_mux hB) k (d_bytes d) host prt RASTA_ERRORS_NONE =
          Some (st', m, [], RASTA_ERRORS_NONE) \<and>
        receive_thread_round enB (hB\<lparr>rh_mux := m\<rparr>) = Some (Ready hB') \<and> ?got hB')"
    if "length host < 15" for now addr st host prt
    using queued_data_delivered [of enA ?h ?a "[msg]" enB hB i ch k host now addr st prt] f(2,3) r m(2) ml ch st l that
    by (fastforce simp: bounded_append_def)
  obtain hA' a2 ds where t: "send_connection enA ?h ?a = Some (hA', a2)" "rh_sent hA' = rh_sent hA @ ds"
    "length ds = transports (rh_mux hA) (remote_id a)"
    using q [of "[]" undefined undefined undefined undefined] by auto
  have "after_datagram enB hB k (d_bytes d) ?got" if "d \<in> set ds" for d
    unfolding after_datagram_def
  proof (intro allI impI)
    fix now addr st and host :: "u8 list" and prt
    assume "length host < 15"
    from q [OF this, of now addr st prt] show "\<exists>st' m h'.
        receive_packet (se_uninit enB) now addr st (rh_mux hB) k (d_bytes d) host prt RASTA_ERRORS_NONE =
          Some (st', m, [], RASTA_ERRORS_NONE) \<and>
        receive_thread_round enB (hB\<lparr>rh_mux := m\<rparr>) = Some (Ready h') \<and> ?got h'"
      using t that by auto
  qed
  moreover have "send_thread_round enA ?h = Some (set_connection 0 a2 hA')"
    using single_connection(2,3) [OF c'] t(1) by simp
  ultimately have "crosses enA hA [(ucast (remote_id a), msg)] enB hB k ?got"
    using s t c by (auto simp: crosses_def)
  then show ?thesis
    by (rule crosses_mono) (auto simp: queues_ok_def dest: received_data_first)
qed

subsection \<open>Telegrams\<close>

lemma decode_telegram_bytes:
  assumes j: "length junk = 85" and l: "length sndr \<le> 20" "length rcvr \<le> 20" "length pl \<le> 85"
  shows "\<exists>t. sci_decode_telegram junk (telegram_bytes sndr rcvr m pl) = Some t \<and> sci_get_message_type t = m \<and>
    t_protocol t = SCI_PROTOCOL_LS \<and> t_sender t = padded sndr \<and> t_receiver t = padded rcvr \<and>
    take (used_bytes (t_payload t)) (payload_data (t_payload t)) = pl"
proof -
  let ?msg = "telegram_bytes sndr rcvr m pl"
  have "sci_decode_telegram junk ?msg \<noteq> None"
    using decode_iff [OF j, of ?msg] l by (simp add: telegram_bytes_def)
  then obtain t where t: "sci_decode_telegram junk ?msg = Some t" by blast
  note v = decode_view [OF t j]
  show ?thesis
    using t v(2-7) l by (auto simp: telegram_bytes_def sci_get_message_type_def)
qed

text \<open>The step of the main thread that starts to wait for a confirmation sends exactly the order.\<close>

lemma idle_command_sends:
  assumes "sys_inv s" "sys_step s s'" "sys_pc s = M_Idle" "sys_pc s' = M_Waiting rq"
  shows "\<exists>a. awaited rq a \<and> expected_bytes (sys_pdi s') = signal_aspect_payloads a \<and>
    sent (sys_pdi s') = sent (sys_pdi s) @ [(OC_RASTA_ID, ASPECT_BYTES a)]"
  using assms(2)
proof (cases rule: sys_step.cases)
  case (operator rq' rest)
  let ?s = "s\<lparr>sys_stdin := rest\<rparr>"
  have ok: "pdi_ok (sys_pdi ?s)" using idle_facts(1) [OF assms(1,3)] by simp
  have c: "rr_command rq' \<notin> {ROUTE_COMMAND_QUIT, ROUTE_COMMAND_LUMINOSITY}"
    using main_quit_spec [of rq' ?s] main_luminosity_spec [OF ok, of rq'] operator(3) assms(3,4)
    by (auto simp: main_exit_def on_pdi_def)
  obtain a ixl where a: "requested_aspect rq' (sys_ixl ?s) = (a, ixl)" by (cases "requested_aspect rq' (sys_ixl ?s)")
  have "rq' = rq"
    using main_command_spec [OF ok c a] operator(3) assms(4) by (auto simp: main_exit_def Let_def split: if_splits)
  then show ?thesis
    using main_command_spec [OF ok c a] operator(3) assms(4) ok requested_awaited [OF a c]
    by (auto simp: main_exit_def Let_def split: if_splits)
qed (use assms(3,4) in \<open>auto simp: on_pdi_def\<close>)

subsection \<open>A concrete pair of nodes\<close>

text \<open>Node 96 is the Cloud IXL, node 97 the object controller; each has the connection to the other.\<close>

definition demo_ixl_node :: rasta_handle where
  "demo_ixl_node = demo_node 96 97 [demo_connection 96 97 500 700]"

definition demo_oc_node :: rasta_handle where
  "demo_oc_node = demo_node 97 96 [demo_connection 97 96 700 500]"

lemma demo_pair: "ready_to_send demo_env demo_ixl_node (demo_connection 96 97 500 700)"
  by (simp add: ready_to_send_def demo_ixl_node_def fifo_init_abs)

lemma demo_hears: "listens_to demo_env demo_oc_node 0 0 demo_ixl_node (demo_connection 96 97 500 700)"
  unfolding listens_to_def
  by (intro conjI exI [of _ "demo_channel\<lparr>rc_associated_id := 96, rc_connected_channel_count := 1\<rparr>"])
    (use demo_ready in \<open>simp_all add: demo_ixl_node_def demo_oc_node_def in_step_def next_number_def fifo_init_abs\<close>)

subsection \<open>Claims\<close>



text \<open>What the controller says is what the dialogue hears: whatever message the partner's application
  hands to \<open>sr_send\<close>, any datagram it leaves in puts the message into the receive queue of the
  Cloud IXL, and the callback of \<open>main.c\<close> takes it out and moves the dialogue as the abstract
  specification says for the event these bytes denote: the state, the payload awaited, and the
  messages sent in answer.\<close>

theorem message_moves_dialogue:
  assumes node: "rl_data (rh_connections hA) = [a]" "ready_to_send enA hA a" "1 \<le> unat (cfg_max_packet (sending hA))"
    and peer: "listens_to enB hB i k hA a" and msg: "length msg < 60000"
    and pdi: "pdi_ok p" and junk: "length junk = 85" "length junk2 = 85"
  shows "crosses enA hA [(ucast (remote_id a), msg)] enB hB k (\<lambda>hB'. \<exists>c p'.
    on_rasta_receive junk junk2 (rl_data (rh_connections hB') ! i, p) = Some (c, p') \<and> fifo_abs (fifo_app_msg c) = [] \<and>
    pdi_state p' = ev_next (pdi_state p = PDI_WAIT_CONFIRMATION) (expected_bytes p) (classify msg) (pdi_state p) \<and>
    expected_bytes p' = expected_bytes p \<and>
    sent p' = sent p @ map (Pair OC_RASTA_ID) (ev_sends (classify msg) (pdi_state p)))"
  using message_crosses [OF node(1,2) peer msg node(3)] process_spec [OF pdi junk, of msg] ev_apply_sent [OF pdi]
  by (auto simp: on_rasta_receive_def elim!: crosses_mono)

end
