(* ===== verification/Sr_Conversation.thy ===== *)
theory Sr_Conversation
  imports Sr_Properties Runs
begin

section \<open>A conversation of two nodes\<close>

text \<open>
  Two nodes with one open connection to each other, over any number of exchanges: an application
  hands messages to its node, the send thread sends them in one packet, the heartbeat thread sends a
  heartbeat, the first datagram of each packet reaches the peer, whose receive thread takes it, and
  applications read what arrived. The conversation follows an abstract one that has only inboxes,
  counters and time stamps, across the wrap-around of the sequence numbers of the safety layer.
\<close>

subsection \<open>The pair and its steps\<close>

datatype party = Party_A | Party_B

fun other :: "party \<Rightarrow> party" where
  "other Party_A = Party_B"
| "other Party_B = Party_A"

record duo =
  du_node :: "party \<Rightarrow> rasta_handle"
  du_store :: "party \<Rightarrow> packet_store"
  du_heard :: "party \<Rightarrow> rastaApplicationMessage list"

text \<open>
  What the environment decides in one exchange: for each node what it reads from its clock during
  the exchange, counted from its start, and uninitialised storage; for the arrival the time, the
  address of its packet and the address of its sender.
\<close>

record moment =
  mo_env :: "party \<Rightarrow> sr_env"
  mo_now :: u32
  mo_addr :: addr
  mo_host :: "u8 list"
  mo_port :: u16

datatype talk_act =
    Says party RastaMessageData moment
  | Beats party moment
  | Reads party

definition from_now :: "sr_env \<Rightarrow> rasta_handle \<Rightarrow> sr_env" where
  "from_now en h = en\<lparr>se_clock := (\<lambda>n. se_clock en (n - rh_clock_reads h))\<rparr>"

definition the_conn :: "rasta_handle \<Rightarrow> rasta_connection" where
  "the_conn h = rl_data (rh_connections h) ! 0"

text \<open>The round of the heartbeat thread in which a heartbeat is due and no timer has run out.\<close>

definition send_beat :: "sr_env \<Rightarrow> rasta_handle \<Rightarrow> rasta_handle option" where
  "send_beat en h =
     (let (current_time, h) = cur_timestamp en h
      in on_connection 0 (\<lambda>h connection. do {
           (h, connection) \<leftarrow> send_Heartbeat en h connection;
           let (now, h) = cur_timestamp en h in Some (h, connection\<lparr>ts_last_message := now\<rparr>) }) h)"

lemma heartbeat_round_sends:
  assumes "rl_data (rh_connections h) = [c]" "\<not> hb_locked c" "up_or_running c"
    and "\<not> timer_expired (se_clock en (rh_clock_reads h)) c" "heartbeat_due (se_clock en (rh_clock_reads h)) (sending h) c"
  shows "heartbeat_thread_round en h = send_beat en h"
  using assms
  by (simp add: heartbeat_thread_round_def rastalist_count_def rastalist_getConnection_def send_beat_def on_connection_def
      heartbeat_connection_def cur_timestamp_def Let_def case_prod_beta split: Option.bind_splits)

text \<open>The first datagram a node has sent in a step arrives at the other one.\<close>

definition arrives :: "party \<Rightarrow> moment \<Rightarrow> rasta_handle \<Rightarrow> duo \<Rightarrow> duo option" where
  "arrives d x h2 s =
     (let h = du_node s d; g = du_node s (other d); eg = from_now (mo_env x (other d)) g
      in case drop (length (rh_sent h)) (rh_sent h2) of
           [] \<Rightarrow> Some (s\<lparr>du_node := (du_node s)(d := h2)\<rparr>)
         | dg # _ \<Rightarrow> do {
             (st, m, es, e) \<leftarrow> receive_packet (se_uninit eg) (mo_now x) (mo_addr x) (du_store s (other d)) (rh_mux g) 0
               (d_bytes dg) (mo_host x) (mo_port x) RASTA_ERRORS_NONE;
             r \<leftarrow> receive_thread_round eg (g\<lparr>rh_mux := m\<rparr>);
             let g' = (case r of Waiting \<Rightarrow> g\<lparr>rh_mux := m\<rparr> | Ready g' \<Rightarrow> g')
             in Some (s\<lparr>du_node := (du_node s)(d := h2, other d := g'), du_store := (du_store s)(other d := st)\<rparr>) })"

fun talk_step :: "talk_act \<Rightarrow> duo \<Rightarrow> duo option" where
  "talk_step (Says d ms x) s =
     (let h = du_node s d; en = from_now (mo_env x d) h
      in do { h1 \<leftarrow> sr_send en h (ucast (remote_id (the_conn h))) ms;
              h2 \<leftarrow> send_thread_round en h1;
              arrives d x h2 s })"
| "talk_step (Beats d x) s =
     (let h = du_node s d
      in do { h2 \<leftarrow> send_beat (from_now (mo_env x d) h) h; arrives d x h2 s })"
| "talk_step (Reads d) s =
     do { (m, c) \<leftarrow> sr_get_received_data (the_conn (du_node s d));
          Some (s\<lparr>du_node := (du_node s)(d := set_connection 0 c (du_node s d)),
                  du_heard := (du_heard s)(d := du_heard s d @ [m])\<rparr>) }"

subsection \<open>The abstract conversation\<close>

text \<open>
  The messages waiting for an application and those it has read, the data packets of a party that no
  data packet of the other has confirmed, the packets it has sent, the time stamp of the last packet
  it saw, and the time that its next confirmation is compared with: the one the peer last confirmed
  with data, or that of its last heartbeat.
\<close>

record talk =
  tk_inbox :: "party \<Rightarrow> rastaApplicationMessage list"
  tk_heard :: "party \<Rightarrow> rastaApplicationMessage list"
  tk_open :: "party \<Rightarrow> nat"
  tk_count :: "party \<Rightarrow> nat"
  tk_seen :: "party \<Rightarrow> u32"
  tk_told :: "party \<Rightarrow> u32"

text \<open>What does not change: identifiers, capacity of the inbox, packet limit and maximal delay.\<close>

record terms =
  tm_id :: "party \<Rightarrow> u32"
  tm_cap :: "party \<Rightarrow> nat"
  tm_limit :: "party \<Rightarrow> nat"
  tm_delay :: "party \<Rightarrow> int"

fun talk_spec :: "terms \<Rightarrow> talk_act \<Rightarrow> talk \<Rightarrow> talk" where
  "talk_spec T (Says d ms x) t =
     t\<lparr>tk_inbox := (tk_inbox t)(other d := bounded_append (tm_cap T (other d)) (tk_inbox t (other d))
         (map (\<lambda>m. \<lparr>app_id = ucast (tm_id T d), appMessage = m\<rparr>) ms)),
       tk_open := (tk_open t)(d := tk_open t d + 1, other d := 0), tk_count := (tk_count t)(d := tk_count t d + 1),
       tk_seen := (tk_seen t)(other d := se_clock (mo_env x d) 0), tk_told := (tk_told t)(other d := tk_seen t d)\<rparr>"
| "talk_spec T (Beats d x) t =
     t\<lparr>tk_count := (tk_count t)(d := tk_count t d + 1), tk_seen := (tk_seen t)(other d := se_clock (mo_env x d) 1),
       tk_told := (tk_told t)(other d := se_clock (mo_env x (other d)) 3)\<rparr>"
| "talk_spec T (Reads d) t =
     t\<lparr>tk_inbox := (tk_inbox t)(d := tl (tk_inbox t d)), tk_heard := (tk_heard t)(d := tk_heard t d @ [hd (tk_inbox t d)])\<rparr>"

text \<open>
  The two are in touch while the numbers of their redundancy packets have not left 32 bits and the
  time stamp the party confirms is within the maximal delay of the other. A party may speak
  while moreover its unconfirmed packets are within the limit.
\<close>

definition in_touch :: "terms \<Rightarrow> party \<Rightarrow> moment \<Rightarrow> talk \<Rightarrow> bool" where
  "in_touch T d x t \<longleftrightarrow> (\<forall>e. tk_count t e < 2 ^ 32 - 1) \<and> sint (tk_seen t d - tk_told t (other d)) < tm_delay T (other d) \<and>
     length (mo_host x) < 15 \<and> (\<forall>e. indet_ok (the_indet (mo_env x e)))"

fun may_act :: "terms \<Rightarrow> talk_act \<Rightarrow> talk \<Rightarrow> bool" where
  "may_act T (Says d ms x) t \<longleftrightarrow> ms \<noteq> [] \<and> length ms \<le> tm_limit T d \<and> length (message_bytes ms) < 64000 \<and>
     tk_open t d \<le> tm_limit T d \<and> in_touch T d x t"
| "may_act T (Beats d x) t \<longleftrightarrow> in_touch T d x t"
| "may_act T (Reads d) t \<longleftrightarrow> tk_inbox t d \<noteq> []"

subsection \<open>The invariant\<close>

text \<open>
  The packets that wait for a confirmation are among the last \<open>k\<close> before the number \<open>n\<close>, and the last
  number is that of no other than the last.
\<close>

definition numbered :: "u32 \<Rightarrow> nat \<Rightarrow> u8 list list \<Rightarrow> bool" where
  "numbered n k xs \<longleftrightarrow> (\<forall>x \<in> set xs. \<exists>j. 0 < j \<and> j \<le> k \<and> sn_of x = n - word_of_nat j) \<and>
     (\<forall>x \<in> set (butlast xs). sn_of x \<noteq> n - 1)"

definition chan_index :: "rasta_handle \<Rightarrow> nat" where
  "chan_index h = the (redundancy_mux_get_channel (rh_mux h) (ucast (remote_id (the_conn h))))"

definition the_chan :: "rasta_handle \<Rightarrow> rasta_redundancy_channel" where
  "the_chan h = mux_connected_channels (rh_mux h) ! chan_index h"

text \<open>One node: its only connection is open, nothing waits to be sent or unpacked, its channel is in order.\<close>

definition conn_ok :: "terms \<Rightarrow> party \<Rightarrow> rasta_handle \<Rightarrow> bool" where
  "conn_ok T d h \<longleftrightarrow> rl_data (rh_connections h) = [the_conn h] \<and> my_id (the_conn h) = tm_id T d \<and>
     remote_id (the_conn h) = tm_id T (other d) \<and> current_state (the_conn h) = RASTA_CONNECTION_UP \<and>
     queues_ok h (the_conn h) \<and> fifo_abs (fifo_send (the_conn h)) = [] \<and>
     unat (f_max_size (fifo_app_msg (the_conn h))) = tm_cap T d \<and> unat (cfg_max_packet (sending h)) = tm_limit T d \<and>
     cfg_max_packet (sending h) \<le> f_max_size (fifo_send (the_conn h)) \<and>
     cfg_max_packet (sending h) < f_max_size (fifo_retr (the_conn h)) \<and>
     sint (cfg_t_max (sending h)) = tm_delay T d \<and> 0 < tm_delay T d \<and>
     numbered (sn_t (the_conn h)) (unat (rc_seq_tx (the_chan h))) (fifo_abs (fifo_retr (the_conn h))) \<and>
     length (fifo_abs (fifo_retr (the_conn h))) \<le> tm_limit T d + 1"

definition mux_ok :: "rasta_handle \<Rightarrow> bool" where
  "mux_ok h \<longleftrightarrow> (\<forall>en. indet_ok (the_indet en) \<longrightarrow> node_ok en h) \<and>
     redundancy_mux_get_channel (rh_mux h) (ucast (remote_id (the_conn h))) = Some (chan_index h) \<and>
     red_channel_ok (the_chan h) \<and> 0 < rc_connected_channel_count (the_chan h) \<and>
     \<not> rc_connected_channel_count (the_chan h) < mux_port_count (rh_mux h) \<and> 0 < unat (f_max_size (rc_fifo_recv (the_chan h))) \<and>
     length (mux_connected_channels (rh_mux h)) < 2 ^ 32 \<and>
     (\<forall>c \<in> set (mux_connected_channels (rh_mux h)). fifo_inv (rc_fifo_recv c) \<and> fifo_abs (rc_fifo_recv c) = [])"

text \<open>From one node to the other: where the next packet belongs, and what was confirmed.\<close>

definition linked :: "rasta_handle \<Rightarrow> rasta_handle \<Rightarrow> bool" where
  "linked h g \<longleftrightarrow> sn_r (the_conn g) = sn_t (the_conn h) \<and> cs_t (the_conn h) = sn_t (the_conn g) - 1 \<and>
     (\<exists>k \<le> unat (rc_seq_tx (the_chan g)). cs_r (the_conn g) = sn_t (the_conn g) - 1 - word_of_nat k) \<and>
     rc_seq_rx (the_chan g) = rc_seq_tx (the_chan h) \<and>
     rh_hashing_context g = rh_hashing_context h \<and> crc_option_of g = crc_option_of h"

definition talk_inv :: "terms \<Rightarrow> duo \<Rightarrow> bool" where
  "talk_inv T s \<longleftrightarrow> (\<forall>d. conn_ok T d (du_node s d) \<and> mux_ok (du_node s d) \<and>
     linked (du_node s d) (du_node s (other d)))"

definition talk_of :: "duo \<Rightarrow> talk" where
  "talk_of s = \<lparr>tk_inbox = (\<lambda>d. fifo_abs (fifo_app_msg (the_conn (du_node s d)))), tk_heard = du_heard s,
     tk_open = (\<lambda>d. length (fifo_abs (fifo_retr (the_conn (du_node s d))))),
     tk_count = (\<lambda>d. unat (rc_seq_tx (the_chan (du_node s d)))),
     tk_seen = (\<lambda>d. ts_r (the_conn (du_node s d))), tk_told = (\<lambda>d. cts_r (the_conn (du_node s d)))\<rparr>"

lemma other_other [simp]: "other (other d) = d" "other d \<noteq> d" "d \<noteq> other d"
  by (cases d; simp)+

lemma party_cases: "(\<forall>d. P d) \<longleftrightarrow> P e \<and> P (other e)"
  by (metis (full_types) other.simps party.exhaust)

subsection \<open>Numbers\<close>

lemma word_of_nat_below: "k < 2 ^ 32 \<Longrightarrow> j < 2 ^ 32 \<Longrightarrow> (word_of_nat k :: u32) = word_of_nat j \<Longrightarrow> k = j"
proof -
  assume k: "k < 2 ^ 32" and j: "j < 2 ^ 32" and e: "(word_of_nat k :: u32) = word_of_nat j"
  have "k = unat (word_of_nat k :: u32)" by (rule unat_of_nat_u32 [symmetric]) (use k in simp)
  also have "\<dots> = unat (word_of_nat j :: u32)" by (simp only: e)
  also have "\<dots> = j" by (rule unat_of_nat_u32) (use j in simp)
  finally show ?thesis .
qed

lemma seq_fits:
  assumes "unat (n :: u64) < 2 ^ 32"
  shows "ucast (ucast n :: u32) = n"
proof -
  have "unat (ucast n :: u32) = take_bit LENGTH(32) (unat n)" by (rule unsigned_ucast_eq)
  also have "\<dots> = unat n" by (rule take_bit_nat_eq_self) (use assms in simp)
  finally have "unat (ucast (ucast n :: u32) :: u64) = unat n" by simp
  then show ?thesis by (rule unsigned_word_eqI)
qed

lemma unat_suc_u64:
  assumes "unat (n :: u64) < 2 ^ 32"
  shows "unat (n + 1) = unat n + 1"
proof -
  have "unat (n + 1) = (unat n + unat (1 :: u64)) mod 2 ^ LENGTH(64)" by (rule unat_word_ariths(1))
  also have "\<dots> = unat n + 1"
  proof -
    have "unat n + 1 < 2 ^ LENGTH(64)" by (rule less_trans [of _ "2 ^ 33"]) (use assms in simp)+
    then show ?thesis by (simp only: unat_1 mod_less)
  qed
  finally show ?thesis .
qed

text \<open>Confirming the last number leaves nothing unconfirmed.\<close>

lemma confirm_all:
  assumes "numbered n k xs"
  shows "confirm_upto (n - 1) xs = []"
proof (cases xs rule: rev_cases)
  case (snoc ys y)
  have "\<forall>x \<in> set ys. sn_of x \<noteq> n - 1" using assms by (simp add: numbered_def snoc)
  then have "dropWhile (\<lambda>x. sn_of x \<noteq> n - 1) xs = dropWhile (\<lambda>x. sn_of x \<noteq> n - 1) [y]" by (simp add: snoc dropWhile_append)
  then show ?thesis by (simp add: confirm_upto_def)
qed (simp add: confirm_upto_def)

text \<open>The number goes up by one, with a packet that waits for its confirmation or without.\<close>

lemma numbered_next:
  assumes "numbered n k xs" "k < 2 ^ 32"
  shows "numbered (n + 1) (k + 1) xs" and "sn_of y = n \<Longrightarrow> numbered (n + 1) (k + 1) (xs @ [y])"
proof -
  have near: "\<exists>j. 0 < j \<and> j \<le> k + 1 \<and> sn_of x = n + 1 - word_of_nat j" and new: "sn_of x \<noteq> n" if "x \<in> set xs" for x
  proof -
    obtain j where j: "0 < j" "j \<le> k" "sn_of x = n - word_of_nat j" using assms(1) \<open>x \<in> set xs\<close> by (auto simp: numbered_def)
    have "sn_of x = n + 1 - word_of_nat (j + 1)" using j(3) by simp
    then show "\<exists>j. 0 < j \<and> j \<le> k + 1 \<and> sn_of x = n + 1 - word_of_nat j" using j(2) by (intro exI [of _ "j + 1"]) simp
    have "(word_of_nat j :: u32) \<noteq> 0" using word_of_nat_below [of j 0] j(1,2) assms(2) by auto
    then show "sn_of x \<noteq> n" using j(3) by simp
  qed
  then show "numbered (n + 1) (k + 1) xs" by (simp add: numbered_def in_set_butlastD)
  show "numbered (n + 1) (k + 1) (xs @ [y])" if "sn_of y = n"
    using near new that by (auto simp: numbered_def intro: exI [of _ 1])
qed

subsection \<open>What an exchange does to the nodes\<close>

text \<open>A node stays in order when its channel is replaced by one that still is.\<close>

lemma replaced_channel:
  assumes ok: "mux_ok h" and m: "rh_mux h' = set_channel (chan_index h) r (rh_mux h)"
    and same: "remote_id (the_conn h') = remote_id (the_conn h)" "rh_hashing_context h' = rh_hashing_context h"
      "rh_lasterror h' = RASTA_ERRORS_NONE"
    and r: "red_channel_ok r" "rc_associated_id r = rc_associated_id (the_chan h)" "rc_hashing_context r = rc_hashing_context (the_chan h)"
      "rc_connected_channel_count r = rc_connected_channel_count (the_chan h)"
      "length (rc_connected_channels r) = length (rc_connected_channels (the_chan h))"
      "f_max_size (rc_fifo_recv r) = f_max_size (rc_fifo_recv (the_chan h))" "fifo_abs (rc_fifo_recv r) = []"
  shows "mux_ok h'" and "the_chan h' = r" and "crc_option_of h' = crc_option_of h"
proof -
  note o = ok [unfolded mux_ok_def]
  have g: "redundancy_mux_get_channel (rh_mux h) (ucast (remote_id (the_conn h))) = Some (chan_index h)" using o by blast
  then have k: "chan_index h < length (mux_connected_channels (rh_mux h))"
    "rc_associated_id (the_chan h) = ucast (remote_id (the_conn h))" by (simp_all add: get_channel_spec the_chan_def)
  have g': "redundancy_mux_get_channel (rh_mux h') (ucast (remote_id (the_conn h'))) = Some (chan_index h)"
    using set_channel_lookup [OF g, of r] r(2) k(2) m same(1) by simp
  then have i: "chan_index h' = chan_index h" by (simp add: chan_index_def)
  show t: "the_chan h' = r" using k(1) by (simp add: the_chan_def i m)
  show "crc_option_of h' = crc_option_of h" by (simp add: m)
  have "node_ok en h'" if "indet_ok (the_indet en)" for en
  proof -
    have n: "node_ok en h" using o that by blast
    have "map rc_associated_id (mux_connected_channels (rh_mux h')) = map rc_associated_id (mux_connected_channels (rh_mux h))"
      unfolding m by (rule set_channel_ids [OF k(1)]) (simp add: r(2) the_chan_def)
    moreover have "channel_sends h (the_chan h)" using n k(1) by (auto simp: node_ok_def the_chan_def)
    then have "\<forall>c \<in> set (mux_connected_channels (rh_mux h')). channel_sends h' c"
      using n r same(2) unfolding m
      by (auto simp: node_ok_def channel_sends_def set_channel_def m dest!: set_update_subset_insert [THEN subsetD])
    ultimately show ?thesis using n same by (simp add: node_ok_def m)
  qed
  moreover have "\<forall>c \<in> set (mux_connected_channels (rh_mux h')). fifo_inv (rc_fifo_recv c) \<and> fifo_abs (rc_fifo_recv c) = []"
    using o r(1,7) unfolding m
    by (auto simp: set_channel_def red_channel_ok_def dest!: set_update_subset_insert [THEN subsetD])
  ultimately show "mux_ok h'" using o g' i t r(1,4,6) by (auto simp: mux_ok_def m)
qed

lemma from_now_simps [simp]:
  "the_indet (from_now en h) = the_indet en" "se_uninit (from_now en h) = se_uninit en"
  "se_clock (from_now en h) n = se_clock en (n - rh_clock_reads h)"
  by (simp_all add: from_now_def)

text \<open>A packet carries the values of the connection that sends it.\<close>

definition written_by :: "rasta_connection \<Rightarrow> RastaPacket \<Rightarrow> bool" where
  "written_by c p \<longleftrightarrow> p_sender_id p = my_id c \<and> p_receiver_id p = remote_id c \<and> p_sequence_number p = sn_t c \<and>
     p_confirmed_sequence_number p = cs_t c \<and> p_confirmed_timestamp p = ts_r c"

text \<open>A node has sent a packet: its first datagram, and what it keeps.\<close>

definition spoke :: "rasta_handle \<Rightarrow> rasta_handle \<Rightarrow> RastaPacket \<Rightarrow> bool" where
  "spoke h h' p \<longleftrightarrow> (\<exists>dg ds. drop (length (rh_sent h)) (rh_sent h') = dg # ds \<and>
       d_bytes dg = red_bytes (rh_hashing_context h) (createRedundancyPacket (ucast (rc_seq_tx (the_chan h))) p (crc_option_of h))) \<and>
     wf_packet (rh_hashing_context h) p \<and> unat (p_length p) < 65000 \<and> written_by (the_conn h) p \<and>
     rh_hashing_context h' = rh_hashing_context h \<and> crc_option_of h' = crc_option_of h \<and>
     the_chan h' = (the_chan h)\<lparr>rc_seq_tx := rc_seq_tx (the_chan h) + 1\<rparr> \<and>
     sn_t (the_conn h') = sn_t (the_conn h) + 1 \<and> cs_t (the_conn h') = cs_t (the_conn h) \<and> sn_r (the_conn h') = sn_r (the_conn h) \<and>
     cs_r (the_conn h') = cs_r (the_conn h) \<and> ts_r (the_conn h') = ts_r (the_conn h) \<and> cts_r (the_conn h') = cts_r (the_conn h) \<and>
     fifo_app_msg (the_conn h') = fifo_app_msg (the_conn h)"

text \<open>What sending does to the multiplexer.\<close>

lemma after_sending:
  assumes m: "mux_ok h" and s: "sent_as h h' p" "p_receiver_id p = remote_id (the_conn h)"
    and mux: "rh_mux h' = counted_on (rh_mux h) (remote_id (the_conn h))"
    and same: "remote_id (the_conn h') = remote_id (the_conn h)" "rh_hashing_context h' = rh_hashing_context h"
      "rh_lasterror h' = RASTA_ERRORS_NONE"
  shows "mux_ok h'" and "the_chan h' = (the_chan h)\<lparr>rc_seq_tx := rc_seq_tx (the_chan h) + 1\<rparr>" and "crc_option_of h' = crc_option_of h"
    and "\<exists>dg ds. drop (length (rh_sent h)) (rh_sent h') = dg # ds \<and> d_bytes dg =
      red_bytes (rh_hashing_context h) (createRedundancyPacket (ucast (rc_seq_tx (the_chan h))) p (crc_option_of h))"
proof -
  let ?ch = "the_chan h"
  note m' = m [unfolded mux_ok_def]
  have g: "redundancy_mux_get_channel (rh_mux h) (ucast (remote_id (the_conn h))) = Some (chan_index h)" using m' by blast
  have chan: "rh_mux h' = set_channel (chan_index h) (?ch\<lparr>rc_seq_tx := rc_seq_tx ?ch + 1\<rparr>) (rh_mux h)"
    using mux g by (simp add: counted_on_def the_chan_def Let_def)
  have empty: "fifo_abs (rc_fifo_recv ?ch) = []" and ok: "red_channel_ok (?ch\<lparr>rc_seq_tx := rc_seq_tx ?ch + 1\<rparr>)"
    using m' g by (auto simp: the_chan_def get_channel_spec red_channel_ok_def never_deferred_def)
  show "mux_ok h'" "the_chan h' = ?ch\<lparr>rc_seq_tx := rc_seq_tx ?ch + 1\<rparr>" "crc_option_of h' = crc_option_of h"
    by (rule replaced_channel [OF m chan same ok]; simp add: empty)+
  obtain ds where ds: "rh_sent h' = rh_sent h @ ds" "length ds = unat (rc_connected_channel_count ?ch)"
    "\<forall>d \<in> set ds. d_bytes d = red_bytes (rh_hashing_context h) (createRedundancyPacket (ucast (rc_seq_tx ?ch)) p (crc_option_of h))"
    using s g by (auto simp: sent_as_def transports_def next_number_def the_chan_def)
  have "ds \<noteq> []" using ds(2) m' by (auto simp: word_neq_0_conv [symmetric] unat_eq_0)
  then show "\<exists>dg ds. drop (length (rh_sent h)) (rh_sent h') = dg # ds \<and> d_bytes dg =
      red_bytes (rh_hashing_context h) (createRedundancyPacket (ucast (rc_seq_tx ?ch)) p (crc_option_of h))"
    using ds(1,3) by (cases ds) auto
qed

text \<open>Speaking: the messages leave in one packet, and the node is in order again.\<close>

lemma speaks:
  assumes c: "conn_ok T d h" and m: "mux_ok h" and i: "indet_ok (the_indet en)"
    and ms: "ms \<noteq> []" "length ms \<le> tm_limit T d" "length (message_bytes ms) < 64000"
    and room: "length (fifo_abs (fifo_retr (the_conn h))) \<le> tm_limit T d" and count: "unat (rc_seq_tx (the_chan h)) < 2 ^ 32"
  shows "\<exists>h1 h2 p. sr_send en h (ucast (remote_id (the_conn h))) ms = Some h1 \<and> send_thread_round en h1 = Some h2 \<and>
    spoke h h2 p \<and> data_of (the_conn h) p \<and> p_data p = message_bytes ms \<and> p_timestamp p = se_clock en (rh_clock_reads h) \<and>
    conn_ok T d h2 \<and> mux_ok h2 \<and>
    length (fifo_abs (fifo_retr (the_conn h2))) = length (fifo_abs (fifo_retr (the_conn h))) + 1"
proof -
  let ?a = "the_conn h" and ?ch = "the_chan h"
  note c' = c [unfolded conn_ok_def] and m' = m [unfolded mux_ok_def]
  have one: "rl_data (rh_connections h) = [?a]" and n: "node_ok en h" using c' m' i by blast+
  have "ready_to_send en h ?a" using c' n room by (simp add: ready_to_send_def)
  then obtain f where f: "send_on en ms h ?a = Some (h, ?a\<lparr>fifo_send := f\<rparr>)" "queues_ok h (?a\<lparr>fifo_send := f\<rparr>)" "fifo_abs f = ms"
    "f_max_size f = f_max_size (fifo_send ?a)"
    using send_on_queues [of en h ?a ms] c' ms(2) by auto
  let ?b = "?a\<lparr>fifo_send := f\<rparr>" let ?h = "set_connection 0 ?b h"
  have s: "sr_send en h (ucast (remote_id ?a)) ms = Some ?h"
    using single_connection(1,2) [OF one] f(1) by (simp add: sr_send_def)
  have one': "rl_data (rh_connections ?h) = [?b]" using one by (simp add: set_connection_def)
  obtain h' a' p where t: "send_connection en ?h ?b = Some (h', a')" "only_sent ?h h'" "sent_as ?h h' p"
    "wf_packet (rh_hashing_context h) p" "p_type p = RASTA_TYPE_DATA" "p_receiver_id p = remote_id ?a" "p_sender_id p = my_id ?a"
    "p_sequence_number p = sn_t ?a" "p_confirmed_sequence_number p = cs_t ?a" "p_confirmed_timestamp p = ts_r ?a"
    "p_timestamp p = se_clock en (rh_clock_reads ?h)" "rh_mux h' = counted_on (rh_mux ?h) (remote_id ?a)" "p_data p = message_bytes ms"
    "fifo_abs (fifo_send a') = []" "sn_t a' = sn_t ?a + 1" "cs_t a' = cs_t ?a" "ts_r a' = ts_r ?a"
    "remote_id a' = remote_id ?a" "my_id a' = my_id ?a" "current_state a' = current_state ?a" "queues_ok ?h a'"
    "fifo_abs (fifo_retr a') = bounded_append (unat (f_max_size (fifo_retr ?a))) (fifo_abs (fifo_retr ?a))
      [packet_bytes (rh_hashing_context h) p]"
    using send_connection_ok [of en ?h ?b "length ms"] n f(2,3) c' room ms by auto
  have k: "sn_r a' = sn_r ?a" "cs_r a' = cs_r ?a" "cts_r a' = cts_r ?a" "fifo_app_msg a' = fifo_app_msg ?a"
    "f_max_size (fifo_send a') = f_max_size (fifo_send ?a)" "f_max_size (fifo_retr a') = f_max_size (fifo_retr ?a)"
    using send_keeps [OF t(1)] f(4) by simp_all
  let ?h2 = "set_connection 0 a' h'"
  have r: "send_thread_round en ?h = Some ?h2" using single_connection(2,3) [OF one'] t(1) by simp
  have o: "rh_config h' = rh_config h" "rh_connections h' = rh_connections ?h" "rh_hashing_context h' = rh_hashing_context h"
    "rh_lasterror h' = rh_lasterror h"
    using only_sent_fields [OF t(2)] by (simp_all add: set_connection_def)
  have a2: "the_conn ?h2 = a'" "rl_data (rh_connections ?h2) = [a']" using o(2) one' by (simp_all add: the_conn_def set_connection_def)
  have "sent_as h ?h2 p" using t(3) by (simp add: sent_as_def)
  moreover have "rh_mux ?h2 = counted_on (rh_mux h) (remote_id ?a)" "remote_id (the_conn ?h2) = remote_id ?a"
    "rh_hashing_context ?h2 = rh_hashing_context h" "rh_lasterror ?h2 = RASTA_ERRORS_NONE"
    using t(12,18) o(3,4) a2(1) n by (simp_all add: set_connection_def node_ok_def)
  ultimately have M: "mux_ok ?h2" "the_chan ?h2 = ?ch\<lparr>rc_seq_tx := rc_seq_tx ?ch + 1\<rparr>" "crc_option_of ?h2 = crc_option_of h"
    "\<exists>dg ds. drop (length (rh_sent h)) (rh_sent ?h2) = dg # ds \<and> d_bytes dg =
      red_bytes (rh_hashing_context h) (createRedundancyPacket (ucast (rc_seq_tx ?ch)) p (crc_option_of h))"
    using after_sending [OF m _ t(6)] by blast+
  have full: "length (fifo_abs (fifo_retr ?a)) < unat (f_max_size (fifo_retr ?a))"
    using c' room by (simp add: word_less_nat_alt)
  then have retr: "fifo_abs (fifo_retr a') = fifo_abs (fifo_retr ?a) @ [packet_bytes (rh_hashing_context h) p]" using t(22) by simp
  have old: "numbered (sn_t ?a) (unat (rc_seq_tx ?ch)) (fifo_abs (fifo_retr ?a))" using c' by blast
  have num: "numbered (sn_t a') (unat (rc_seq_tx (the_chan ?h2))) (fifo_abs (fifo_retr a'))"
    using numbered_next(2) [OF old count, of "packet_bytes (rh_hashing_context h) p"] t(8,15) M(2) unat_suc_u64 [OF count]
    by (simp add: retr sn_of_packet)
  have cfg: "sending ?h2 = sending h" using o(1) by (simp add: set_connection_def)
  have "queues_ok ?h2 a'" using t(21) o(3) by (simp add: queues_ok_def)
  then have C: "conn_ok T d ?h2"
    unfolding conn_ok_def a2(1) cfg using c' a2(2) t k num retr room by simp
  have pl: "unat (p_length p) < 65000"
    using t(4,13) ms(3) n hash_len_bound [of "rh_hashing_context h"] by (simp add: wf_packet_def node_ok_def)
  have dp: "data_of ?a p" "written_by ?a p" using t by (simp_all add: data_of_def written_by_def)
  have clk: "p_timestamp p = se_clock en (rh_clock_reads h)" using t(11) by (simp add: set_connection_def)
  have "spoke h ?h2 p" unfolding spoke_def a2(1) using M(2-4) t(4,15-17) pl dp(2) k o(3) by simp
  then show ?thesis
    using s r t(13) dp(1) clk C M(1) a2(1) retr by (intro exI [of _ ?h] exI [of _ ?h2] exI [of _ p]) simp
qed

text \<open>A heartbeat leaves, and nothing waits for its confirmation.\<close>

lemma beats:
  assumes c: "conn_ok T d h" and m: "mux_ok h" and i: "indet_ok (the_indet en)" and count: "unat (rc_seq_tx (the_chan h)) < 2 ^ 32"
  shows "\<exists>h2 p. send_beat en h = Some h2 \<and> spoke h h2 p \<and> p_type p = RASTA_TYPE_HB \<and>
    p_timestamp p = se_clock en (rh_clock_reads h + 1) \<and> conn_ok T d h2 \<and> mux_ok h2 \<and>
    fifo_retr (the_conn h2) = fifo_retr (the_conn h)"
proof -
  let ?a = "the_conn h" and ?ch = "the_chan h" and ?h = "h\<lparr>rh_clock_reads := rh_clock_reads h + 1\<rparr>"
  note c' = c [unfolded conn_ok_def] and m' = m [unfolded mux_ok_def]
  have one: "rl_data (rh_connections h) = [?a]" and n: "node_ok en h" using c' m' i by blast+
  obtain h1 p now where s: "send_Heartbeat en ?h ?a = Some (h1, ?a\<lparr>sn_t := sn_t ?a + 1, ts_last_message := now\<rparr>)"
    "only_sent ?h h1" "sent_as ?h h1 p" "p_type p = RASTA_TYPE_HB" "p_receiver_id p = remote_id ?a" "p_sender_id p = my_id ?a"
    "p_sequence_number p = sn_t ?a" "p_confirmed_sequence_number p = cs_t ?a" "p_confirmed_timestamp p = ts_r ?a"
    "p_timestamp p = se_clock en (rh_clock_reads ?h)" "wf_packet (rh_hashing_context ?h) p" "unat (p_length p) < 65000"
    "rh_mux h1 = counted_on (rh_mux ?h) (remote_id ?a)"
    using heartbeat_sent [of en ?h ?a] n by auto
  let ?b = "?a\<lparr>sn_t := sn_t ?a + 1, ts_last_message := se_clock en (rh_clock_reads h1)\<rparr>"
  let ?h2 = "set_connection 0 ?b (h1\<lparr>rh_clock_reads := rh_clock_reads h1 + 1\<rparr>)"
  have o: "rh_config h1 = rh_config h" "rh_connections h1 = rh_connections h" "rh_hashing_context h1 = rh_hashing_context h"
    "rh_lasterror h1 = rh_lasterror h"
    using only_sent_fields [OF s(2)] by simp_all
  have r: "send_beat en h = Some ?h2" using s(1) one by (simp add: send_beat_def cur_timestamp_def on_connection_def)
  have "rl_data (rh_connections ?h2) = [?b]" using o(2) one by (simp add: set_connection_def)
  then have b: "the_conn ?h2 = ?b" "rl_data (rh_connections ?h2) = [?b]" by (simp_all only: the_conn_def nth_Cons_0)
  have "sent_as h ?h2 p" using s(3) by (simp add: sent_as_def)
  moreover have "rh_mux ?h2 = counted_on (rh_mux h) (remote_id ?a)" "remote_id (the_conn ?h2) = remote_id ?a"
    "rh_hashing_context ?h2 = rh_hashing_context h" "rh_lasterror ?h2 = RASTA_ERRORS_NONE"
    using s(13) o(3,4) b(1) n by (simp_all add: set_connection_def node_ok_def)
  ultimately have M: "mux_ok ?h2" "the_chan ?h2 = ?ch\<lparr>rc_seq_tx := rc_seq_tx ?ch + 1\<rparr>" "crc_option_of ?h2 = crc_option_of h"
    "\<exists>dg ds. drop (length (rh_sent h)) (rh_sent ?h2) = dg # ds \<and> d_bytes dg =
      red_bytes (rh_hashing_context h) (createRedundancyPacket (ucast (rc_seq_tx ?ch)) p (crc_option_of h))"
    using after_sending [OF m _ s(5)] by blast+
  have old: "numbered (sn_t ?a) (unat (rc_seq_tx ?ch)) (fifo_abs (fifo_retr ?a))" using c' by blast
  have num: "numbered (sn_t ?b) (unat (rc_seq_tx (the_chan ?h2))) (fifo_abs (fifo_retr ?b))"
    using numbered_next(1) [OF old count] M(2) unat_suc_u64 [OF count] by simp
  have cfg: "sending ?h2 = sending h" using o(1) by (simp add: set_connection_def)
  have "queues_ok ?h2 ?b" using c' o(3) by (simp add: queues_ok_def)
  then have C: "conn_ok T d ?h2" unfolding conn_ok_def b(1) cfg using c' b(2) num by simp
  have "written_by ?a p" using s by (simp add: written_by_def)
  then have "spoke h ?h2 p" unfolding spoke_def b(1) using M(2-4) s(11,12) o(3) by simp
  then show ?thesis using r s(4,10) C M(1) b(1) by (intro exI [of _ ?h2] exI [of _ p]) simp
qed

text \<open>A node whose next packet comes from the other one.\<close>

lemma hearing:
  assumes c: "conn_ok T (other d) g" and m: "mux_ok g" and i: "indet_ok (the_indet en)" and h: "conn_ok T d h"
    and l: "linked h g" and count: "unat (rc_seq_tx (the_chan h)) < 2 ^ 32 - 1" "unat (rc_seq_tx (the_chan g)) < 2 ^ 32 - 1"
    and fresh: "sint (ts_r (the_conn h) - cts_r (the_conn g)) < tm_delay T (other d)"
  shows "ready_for en g (my_id (the_conn h)) 0 (the_chan g) (crc_option_of h)" and "in_step (sending g) (the_conn h) (the_conn g)"
    and "ucast (ucast (rc_seq_tx (the_chan h)) :: u32) = rc_seq_rx (the_chan g)"
    and "0 < length (rc_connected_channels (the_chan g))" and "0 < length (mux_udp_socket_fds (rh_mux g))"
proof -
  let ?a = "the_conn h" and ?b = "the_conn g" and ?ch = "the_chan g"
  note c' = c [unfolded conn_ok_def] and m' = m [unfolded mux_ok_def] and l' = l [unfolded linked_def]
  have one: "rl_data (rh_connections g) = [?b]" and n: "node_ok en g" using c' m' i by blast+
  have rid: "remote_id ?b = my_id ?a" "my_id ?b = remote_id ?a" using c h by (simp_all add: conn_ok_def)
  have g: "redundancy_mux_get_channel (rh_mux g) (ucast (my_id ?a)) = Some (chan_index g)" using m' rid(1) by simp
  have k: "chan_index g < length (mux_connected_channels (rh_mux g))" using g by (simp add: get_channel_spec)
  have sends: "channel_sends g ?ch" using n k by (auto simp: node_ok_def the_chan_def)
  have "rastalist_getConnectionByRemote (rh_connections g) (ucast (my_id ?a)) = Some 0"
    using single_connection(1) [OF one] rid(1) by simp
  then show "ready_for en g (my_id ?a) 0 ?ch (crc_option_of h)"
    unfolding ready_for_def using n m' c' l' g one sends by (simp add: node_ok_def channel_sends_def the_chan_def)
  show "0 < length (rc_connected_channels ?ch)" "0 < length (mux_udp_socket_fds (rh_mux g))"
    using sends m' by (auto simp: channel_sends_def word_less_nat_alt)
  have "unat (rc_seq_tx (the_chan h)) < 2 ^ 32" using count(1) by simp
  then show "ucast (ucast (rc_seq_tx (the_chan h)) :: u32) = rc_seq_rx ?ch"
    using l' seq_fits [of "rc_seq_tx (the_chan h)"] by simp
  obtain j where j: "j \<le> unat (rc_seq_tx ?ch)" "cs_r ?b = sn_t ?b - 1 - word_of_nat j" using l' by blast
  have "word_of_nat (Suc j) \<noteq> (0 :: u32)" using word_of_nat_below [of "Suc j" 0] j(1) count(2) by auto
  moreover have "sn_t ?b = cs_r ?b + word_of_nat (Suc j)" using j(2) by (simp add: algebra_simps)
  ultimately have "sn_t ?b - cs_r ?b \<noteq> 0" by (metis add_diff_cancel_left')
  moreover have "cs_t ?a - cs_r ?b = sn_t ?b - cs_r ?b - 1" using l' by (simp add: algebra_simps)
  moreover have "x - 1 < x" if "x \<noteq> 0" for x :: u32
    using that unat_minus_one [OF that] by (simp add: word_less_nat_alt unat_eq_0 [symmetric])
  ultimately have "cs_t ?a - cs_r ?b < sn_t ?b - cs_r ?b" by metis
  then show "in_step (sending g) ?a ?b" using rid l' c' fresh by (simp add: in_step_def)
qed

text \<open>A node has received a packet of the other one.\<close>

definition listened :: "rasta_handle \<Rightarrow> rasta_handle \<Rightarrow> RastaPacket \<Rightarrow> bool" where
  "listened g g' p \<longleftrightarrow> rh_hashing_context g' = rh_hashing_context g \<and> crc_option_of g' = crc_option_of g \<and>
     rc_seq_tx (the_chan g') = rc_seq_tx (the_chan g) \<and> rc_seq_rx (the_chan g') = rc_seq_rx (the_chan g) + 1 \<and>
     sn_t (the_conn g') = sn_t (the_conn g) \<and> sn_r (the_conn g') = p_sequence_number p + 1 \<and>
     cs_t (the_conn g') = p_sequence_number p \<and> cs_r (the_conn g') = sn_t (the_conn g) - 1 \<and>
     ts_r (the_conn g') = p_timestamp p"

lemma after_receiving:
  assumes m: "mux_ok g" and r: "received_on g (ucast (remote_id (the_conn g))) (the_chan g) g'"
    and same: "remote_id (the_conn g') = remote_id (the_conn g)"
  shows "mux_ok g'" and "rh_hashing_context g' = rh_hashing_context g" and "crc_option_of g' = crc_option_of g"
    and "rc_seq_tx (the_chan g') = rc_seq_tx (the_chan g)" and "rc_seq_rx (the_chan g') = rc_seq_rx (the_chan g) + 1"
proof -
  let ?ch = "the_chan g"
  have g: "redundancy_mux_get_channel (rh_mux g) (ucast (remote_id (the_conn g))) = Some (chan_index g)"
    using m by (auto simp: mux_ok_def)
  obtain ch' where ch': "rh_mux g' = set_channel (chan_index g) ch' (rh_mux g)" "red_channel_ok ch'" "fifo_abs (rc_fifo_recv ch') = []"
    "rc_seq_rx ch' = rc_seq_rx ?ch + 1" "same_links ?ch ch'" "rc_hashing_context ch' = rc_hashing_context ?ch"
    "rc_associated_id ch' = rc_associated_id ?ch"
    "rh_hashing_context g' = rh_hashing_context g" "rh_lasterror g' = RASTA_ERRORS_NONE"
    using r g by (auto simp: received_on_def delivered_def get_channel_spec the_chan_def)
  have M: "mux_ok g'" "the_chan g' = ch'" "crc_option_of g' = crc_option_of g"
    by (rule replaced_channel [OF m ch'(1) same ch'(8,9,2,7,6)]; use ch'(3,5) in \<open>simp add: same_links_def\<close>)+
  then show "mux_ok g'" "crc_option_of g' = crc_option_of g" by blast+
  show "rh_hashing_context g' = rh_hashing_context g" "rc_seq_tx (the_chan g') = rc_seq_tx ?ch"
    "rc_seq_rx (the_chan g') = rc_seq_rx ?ch + 1"
    using M(2) ch'(4,5,8) by (simp_all add: same_links_def)
qed

text \<open>Hearing: the data packet of \<open>speaks\<close> arrives at a node in order, which then is in order again.\<close>

lemma hears:
  assumes c: "conn_ok T (other d) g" and m: "mux_ok g" and i: "indet_ok (the_indet en)" "length host < 15" and h: "conn_ok T d h"
    and l: "linked h g" and p: "spoke h h2 p" "data_of (the_conn h) p" "p_data p = message_bytes ms" "length (message_bytes ms) < 64000"
    and count: "unat (rc_seq_tx (the_chan h)) < 2 ^ 32 - 1" "unat (rc_seq_tx (the_chan g)) < 2 ^ 32 - 1"
    and fresh: "sint (ts_r (the_conn h) - cts_r (the_conn g)) < tm_delay T (other d)"
  shows "\<exists>st' m' g'. receive_packet (se_uninit en) now addr st (rh_mux g) 0
      (red_bytes (rh_hashing_context h) (createRedundancyPacket (ucast (rc_seq_tx (the_chan h))) p (crc_option_of h))) host prt
      RASTA_ERRORS_NONE = Some (st', m', [], RASTA_ERRORS_NONE) \<and>
    receive_thread_round en (g\<lparr>rh_mux := m'\<rparr>) = Some (Ready g') \<and> conn_ok T (other d) g' \<and> mux_ok g' \<and> listened g g' p \<and>
    cts_r (the_conn g') = ts_r (the_conn h) \<and> fifo_abs (fifo_retr (the_conn g')) = [] \<and>
    fifo_abs (fifo_app_msg (the_conn g')) = bounded_append (tm_cap T (other d)) (fifo_abs (fifo_app_msg (the_conn g)))
      (map (app_message p) ms)"
proof -
  let ?a = "the_conn h" and ?b = "the_conn g" and ?ch = "the_chan g"
  note c' = c [unfolded conn_ok_def] and l' = l [unfolded linked_def]
  note r0 = hearing [OF c m i(1) h l count fresh]
  have one: "rl_data (rh_connections g) = [?b]" and rid: "my_id ?a = remote_id ?b" using c h by (simp_all add: conn_ok_def)
  have ctx: "rh_hashing_context g = rh_hashing_context h" using l' by blast
  have wf: "wf_packet (rh_hashing_context g) p" "unat (p_length p) < 65000" using p(1) ctx by (simp_all add: spoke_def)
  have small: "\<forall>m \<in> set ms. length m < 65536"
  proof
    fix x assume "x \<in> set ms"
    then have "length x \<le> sum_list (map length ms)" by (intro member_le_sum_list) auto
    then show "length x < 65536" using p(4) by (simp add: message_bytes_length)
  qed
  obtain st' m1 g' where r: "receive_packet (se_uninit en) now addr st (rh_mux g) 0
      (red_bytes (rh_hashing_context g) (createRedundancyPacket (ucast (rc_seq_tx (the_chan h))) p (crc_option_of h))) host prt
      RASTA_ERRORS_NONE = Some (st', m1, [], RASTA_ERRORS_NONE)"
    "receive_thread_round en (g\<lparr>rh_mux := m1\<rparr>) = Some (Ready g')" "rh_config g' = rh_config g"
    "current_state (rl_data (rh_connections g') ! 0) = RASTA_CONNECTION_UP"
    "follows p (rl_data (rh_connections g') ! 0)" "queues_ok g (rl_data (rh_connections g') ! 0)"
    "fifo_abs (fifo_app_msg (rl_data (rh_connections g') ! 0)) = bounded_append (unat (f_max_size (fifo_app_msg ?b)))
      (fifo_abs (fifo_app_msg ?b)) (map (app_message p) ms)"
    "fifo_abs (fifo_retr (rl_data (rh_connections g') ! 0)) = confirm_upto (cs_t ?a) (fifo_abs (fifo_retr ?b))"
    "received_on g (ucast (my_id ?a)) ?ch g'" "keeps_sending ?b (rl_data (rh_connections g') ! 0)"
    "length (rl_data (rh_connections g')) = length (rl_data (rh_connections g))"
    using data_round [OF r0(1) p(2) r0(2) _ wf p(3) small r0(3-5) i(2), of now addr st prt] one by auto
  let ?c = "the_conn g'"
  have "length (rl_data (rh_connections g')) = Suc 0" using r(11) one by simp
  then have conn: "rl_data (rh_connections g') ! 0 = ?c" "rl_data (rh_connections g') = [?c]"
    by (auto simp: the_conn_def length_Suc_conv)
  note r = r [unfolded conn(1)]
  have keeps: "same_sizes ?b ?c" "fifo_send ?c = fifo_send ?b" "sn_t ?c = sn_t ?b" "remote_id ?c = remote_id ?b" "my_id ?c = my_id ?b"
    using r(10) by (simp_all add: keeps_sending_def)
  note M = after_receiving [OF m r(9) [unfolded rid] keeps(4)]
  have last: "cs_t ?a = sn_t ?b - 1" using l' by blast
  have "numbered (sn_t ?b) (unat (rc_seq_tx ?ch)) (fifo_abs (fifo_retr ?b))" using c' by blast
  then have retr: "fifo_abs (fifo_retr ?c) = []" using confirm_all r(8) last by metis
  have cfg: "sending g' = sending g" using r(3) by simp
  have "queues_ok g' ?c" using r(6) M(2) by (simp add: queues_ok_def)
  then have "conn_ok T (other d) g'"
    unfolding conn_ok_def cfg using c' r(4) conn(2) keeps retr by (simp add: same_sizes_def numbered_def)
  moreover have "listened g g' p" "cts_r ?c = ts_r ?a"
    using M(2-5) keeps(3) r(5) p(2) last by (simp_all add: listened_def follows_def data_of_def)
  ultimately show ?thesis
    using r(1,2,7) M(1) retr c' ctx by (intro exI [of _ st'] exI [of _ m1] exI [of _ g']) simp
qed

text \<open>The heartbeat of \<open>beats\<close> arrives: its receiver takes the number and the time, and keeps its queues.\<close>

lemma hears_beat:
  assumes c: "conn_ok T (other d) g" and m: "mux_ok g" and i: "indet_ok (the_indet en)" "length host < 15" and h: "conn_ok T d h"
    and l: "linked h g" and p: "spoke h h2 p" "p_type p = RASTA_TYPE_HB"
    and count: "unat (rc_seq_tx (the_chan h)) < 2 ^ 32 - 1" "unat (rc_seq_tx (the_chan g)) < 2 ^ 32 - 1"
    and fresh: "sint (ts_r (the_conn h) - cts_r (the_conn g)) < tm_delay T (other d)"
  shows "\<exists>st' m' g'. receive_packet (se_uninit en) now addr st (rh_mux g) 0
      (red_bytes (rh_hashing_context h) (createRedundancyPacket (ucast (rc_seq_tx (the_chan h))) p (crc_option_of h))) host prt
      RASTA_ERRORS_NONE = Some (st', m', [], RASTA_ERRORS_NONE) \<and>
    receive_thread_round en (g\<lparr>rh_mux := m'\<rparr>) = Some (Ready g') \<and> conn_ok T (other d) g' \<and> mux_ok g' \<and> listened g g' p \<and>
    cts_r (the_conn g') = se_clock en (rh_clock_reads g + 3) \<and> fifo_retr (the_conn g') = fifo_retr (the_conn g) \<and>
    fifo_app_msg (the_conn g') = fifo_app_msg (the_conn g)"
proof -
  let ?a = "the_conn h" and ?b = "the_conn g" and ?ch = "the_chan g" and ?v = "verified (rh_hashing_context g) p"
  let ?Q = "\<lambda>c. fifo_send c = fifo_send ?b \<and> fifo_retr c = fifo_retr ?b \<and> current_state c = RASTA_CONNECTION_UP \<and>
    cs_r c = sn_t ?b - 1 \<and> sn_t c = sn_t ?b \<and> sn_r c = p_sequence_number p + 1 \<and> my_id c = my_id ?b \<and> remote_id c = remote_id ?b \<and>
    fifo_app_msg c = fifo_app_msg ?b \<and> cs_t c = p_sequence_number p \<and> ts_r c = p_timestamp p \<and>
    cts_r c = se_clock en (rh_clock_reads g + 3)"
  note c' = c [unfolded conn_ok_def] and l' = l [unfolded linked_def]
  note r0 = hearing [OF c m i(1) h l count fresh]
  have one: "rl_data (rh_connections g) = [?b]" and rid: "my_id ?a = remote_id ?b" using c h by (simp_all add: conn_ok_def)
  have ctx: "rh_hashing_context g = rh_hashing_context h" using l' by blast
  have wf: "wf_packet (rh_hashing_context g) p" "unat (p_length p) < 65000" using p(1) ctx by (simp_all add: spoke_def)
  have w: "written_by ?a p" using p(1) by (simp add: spoke_def)
  then have sender: "p_sender_id p = my_id ?a" "p_type p \<noteq> RASTA_TYPE_CONNREQ" using p(2) by (simp_all add: written_by_def rasta_types)
  have handled: "\<exists>h2 c2. receive_known en ?v (g\<lparr>rh_mux := m'\<rparr>) (rl_data (rh_connections g) ! 0) = Some (h2, c2) \<and>
      only_notified (g\<lparr>rh_mux := m'\<rparr>) h2 \<and> ?Q c2" for m'
  proof -
    let ?g = "g\<lparr>rh_mux := m'\<rparr>"
    have "up_or_running ?b" "sr_sn_in_seq ?b ?v" "sr_cts_in_seq ?b (sending ?g) ?v"
      using c' w r0(2) p(2) by (auto simp: up_or_running_def sr_sn_in_seq_def sr_cts_in_seq_def written_by_def in_step_def rasta_types Let_def)
    moreover have "receive_known en ?v ?g ?b = handle_hb en ?g ?b ?v"
      using w r0(2) p(2) by (simp add: receive_known_def dispatch_def written_by_def in_step_def rasta_types sr_message_authentic_def
          sr_sn_range_valid_def sr_cs_valid_def)
    ultimately show ?thesis using accepted_heartbeat [of ?b ?v ?g en] one by auto
  qed
  obtain st' m1 g' where r: "receive_packet (se_uninit en) now addr st (rh_mux g) 0
      (red_bytes (rh_hashing_context g) (createRedundancyPacket (ucast (rc_seq_tx (the_chan h))) p (crc_option_of h))) host prt
      RASTA_ERRORS_NONE = Some (st', m1, [], RASTA_ERRORS_NONE)"
    "receive_thread_round en (g\<lparr>rh_mux := m1\<rparr>) = Some (Ready g')" "rh_config g' = rh_config g"
    "?Q (rl_data (rh_connections g') ! 0)" "received_on g (ucast (my_id ?a)) ?ch g'"
    "length (rl_data (rh_connections g')) = length (rl_data (rh_connections g))"
    using packet_round [where Q = ?Q, OF r0(1) [folded sender(1)] wf sender(2) r0(3-5) i(2) handled, of now addr st prt]
    unfolding sender(1) by blast
  let ?c = "the_conn g'"
  have "length (rl_data (rh_connections g')) = Suc 0" using r(6) one by simp
  then have conn: "rl_data (rh_connections g') ! 0 = ?c" "rl_data (rh_connections g') = [?c]"
    by (auto simp: the_conn_def length_Suc_conv)
  have q: "?Q ?c" using r(4) conn(1) by simp
  note M = after_receiving [OF m r(5) [unfolded rid]]
  have M: "mux_ok g'" "rh_hashing_context g' = rh_hashing_context g" "crc_option_of g' = crc_option_of g"
    "rc_seq_tx (the_chan g') = rc_seq_tx ?ch" "rc_seq_rx (the_chan g') = rc_seq_rx ?ch + 1"
    using after_receiving [OF m r(5) [unfolded rid]] q by blast+
  have cfg: "sending g' = sending g" using r(3) by simp
  have "queues_ok g' ?c" using c' q M(2) by (simp add: queues_ok_def)
  then have "conn_ok T (other d) g'" unfolding conn_ok_def cfg using c' q conn(2) M(4) by simp
  moreover have "listened g g' p" using M(2-5) q by (simp add: listened_def)
  ultimately show ?thesis
    using r(1,2) M(1) q ctx by (intro exI [of _ st'] exI [of _ m1] exI [of _ g']) simp
qed

subsection \<open>The steps follow the abstract conversation\<close>

lemma fun_of_parties: "f = k \<longleftrightarrow> f d = k d \<and> f (other d) = k (other d)"
  unfolding fun_eq_iff by (rule party_cases)

text \<open>One node spoke and the other listened: both directions are linked again.\<close>

lemma linked_after:
  assumes l: "linked h g" "linked g h" and s: "spoke h h' p" "listened g g' p" and count: "unat (rc_seq_tx (the_chan h)) < 2 ^ 32"
  shows "linked h' g'" and "linked g' h'"
proof -
  have w: "p_sequence_number p = sn_t (the_conn h)" using s(1) by (simp add: spoke_def written_by_def)
  show "linked h' g'" using l s w by (auto simp: linked_def spoke_def listened_def intro: exI [of _ 0])
  obtain k where k: "k \<le> unat (rc_seq_tx (the_chan h))" "cs_r (the_conn h) = sn_t (the_conn h) - 1 - word_of_nat k"
    using l(2) by (auto simp: linked_def)
  have "k + 1 \<le> unat (rc_seq_tx (the_chan h'))" "cs_r (the_conn h') = sn_t (the_conn h') - 1 - word_of_nat (k + 1)"
    using k s(1) unat_suc_u64 [OF count] by (simp_all add: spoke_def)
  then have "\<exists>k \<le> unat (rc_seq_tx (the_chan h')). cs_r (the_conn h') = sn_t (the_conn h') - 1 - word_of_nat k" by blast
  then show "linked g' h'" using l s w by (simp add: linked_def spoke_def listened_def)
qed

lemma exchanged:
  assumes inv: "talk_inv T s" and s: "spoke (du_node s d) h2 p" "conn_ok T d h2" "mux_ok h2"
    and r: "receive_packet (se_uninit (from_now (mo_env x (other d)) (du_node s (other d)))) (mo_now x) (mo_addr x)
        (du_store s (other d)) (rh_mux (du_node s (other d))) 0
        (red_bytes (rh_hashing_context (du_node s d))
          (createRedundancyPacket (ucast (rc_seq_tx (the_chan (du_node s d)))) p (crc_option_of (du_node s d))))
        (mo_host x) (mo_port x) RASTA_ERRORS_NONE = Some (st, m, [], RASTA_ERRORS_NONE)"
      "receive_thread_round (from_now (mo_env x (other d)) (du_node s (other d))) (du_node s (other d)\<lparr>rh_mux := m\<rparr>) = Some (Ready g')"
      "conn_ok T (other d) g'" "mux_ok g'" "listened (du_node s (other d)) g' p"
    and count: "unat (rc_seq_tx (the_chan (du_node s d))) < 2 ^ 32"
  shows "arrives d x h2 s = Some (s\<lparr>du_node := (du_node s)(d := h2, other d := g'), du_store := (du_store s)(other d := st)\<rparr>)"
    and "talk_inv T (s\<lparr>du_node := (du_node s)(d := h2, other d := g'), du_store := (du_store s)(other d := st)\<rparr>)"
proof -
  obtain dg ds where "drop (length (rh_sent (du_node s d))) (rh_sent h2) = dg # ds" "d_bytes dg =
      red_bytes (rh_hashing_context (du_node s d))
        (createRedundancyPacket (ucast (rc_seq_tx (the_chan (du_node s d)))) p (crc_option_of (du_node s d)))"
    using s(1) by (auto simp: spoke_def)
  then show "arrives d x h2 s = Some (s\<lparr>du_node := (du_node s)(d := h2, other d := g'), du_store := (du_store s)(other d := st)\<rparr>)"
    using r(1,2) by (simp add: arrives_def Let_def)
  have l: "linked (du_node s d) (du_node s (other d))" "linked (du_node s (other d)) (du_node s d)"
    using inv [unfolded talk_inv_def] by (metis other_other(1))+
  show "talk_inv T (s\<lparr>du_node := (du_node s)(d := h2, other d := g'), du_store := (du_store s)(other d := st)\<rparr>)"
    using s(2,3) r(3,4) linked_after [OF l s(1) r(5) count] by (simp add: talk_inv_def party_cases [of _ d])
qed

lemma talk_inv_parties:
  assumes "talk_inv T s"
  shows "conn_ok T d (du_node s d)" "mux_ok (du_node s d)" "conn_ok T (other d) (du_node s (other d))" "mux_ok (du_node s (other d))"
    "linked (du_node s d) (du_node s (other d))" "linked (du_node s (other d)) (du_node s d)"
  using assms [unfolded talk_inv_def] by (metis other_other(1))+

lemma says_simulates:
  assumes inv: "talk_inv T s" and ok: "may_act T (Says d ms x) (talk_of s)"
  shows "\<exists>s'. talk_step (Says d ms x) s = Some s' \<and> talk_inv T s' \<and> talk_of s' = talk_spec T (Says d ms x) (talk_of s)"
proof -
  let ?h = "du_node s d" and ?g = "du_node s (other d)"
  let ?en = "from_now (mo_env x d) ?h" and ?eg = "from_now (mo_env x (other d)) ?g"
  note i = talk_inv_parties [OF inv, of d]
  have a: "ms \<noteq> []" "length ms \<le> tm_limit T d" "length (message_bytes ms) < 64000"
    "length (fifo_abs (fifo_retr (the_conn ?h))) \<le> tm_limit T d" "unat (rc_seq_tx (the_chan ?h)) < 2 ^ 32"
    "sint (ts_r (the_conn ?h) - cts_r (the_conn ?g)) < tm_delay T (other d)" "length (mo_host x) < 15"
    "indet_ok (the_indet ?en)" "indet_ok (the_indet ?eg)" "unat (rc_seq_tx (the_chan ?h)) < 2 ^ 32 - 1"
    "unat (rc_seq_tx (the_chan ?g)) < 2 ^ 32 - 1"
    using ok by (auto simp: talk_of_def in_touch_def intro: less_trans)
  obtain h1 h2 p where S: "sr_send ?en ?h (ucast (remote_id (the_conn ?h))) ms = Some h1" "send_thread_round ?en h1 = Some h2"
    "spoke ?h h2 p" "data_of (the_conn ?h) p" "p_data p = message_bytes ms" "p_timestamp p = se_clock ?en (rh_clock_reads ?h)"
    "conn_ok T d h2" "mux_ok h2" "length (fifo_abs (fifo_retr (the_conn h2))) = length (fifo_abs (fifo_retr (the_conn ?h))) + 1"
    using speaks [OF i(1,2) a(8,1-5)] by blast
  obtain st m g' where R: "receive_packet (se_uninit ?eg) (mo_now x) (mo_addr x) (du_store s (other d)) (rh_mux ?g) 0
      (red_bytes (rh_hashing_context ?h) (createRedundancyPacket (ucast (rc_seq_tx (the_chan ?h))) p (crc_option_of ?h)))
      (mo_host x) (mo_port x) RASTA_ERRORS_NONE = Some (st, m, [], RASTA_ERRORS_NONE)"
    "receive_thread_round ?eg (?g\<lparr>rh_mux := m\<rparr>) = Some (Ready g')" "conn_ok T (other d) g'" "mux_ok g'" "listened ?g g' p"
    "cts_r (the_conn g') = ts_r (the_conn ?h)" "fifo_abs (fifo_retr (the_conn g')) = []"
    "fifo_abs (fifo_app_msg (the_conn g')) = bounded_append (tm_cap T (other d)) (fifo_abs (fifo_app_msg (the_conn ?g)))
      (map (app_message p) ms)"
    using hears [OF i(3,4) a(9,7) i(1,5) S(3-5) a(3,10,11,6)] by blast
  note E = exchanged [OF inv S(3,7,8) R(1-5) a(5)]
  let ?s = "s\<lparr>du_node := (du_node s)(d := h2, other d := g'), du_store := (du_store s)(other d := st)\<rparr>"
  have "talk_step (Says d ms x) s = Some ?s" using S(1,2) E(1) by (simp add: Let_def)
  moreover have "talk_of ?s = talk_spec T (Says d ms x) (talk_of s)"
  proof -
    have "app_message p = (\<lambda>m. \<lparr>app_id = ucast (tm_id T d), appMessage = m\<rparr>)"
      using S(4) i(1) by (auto simp: app_message_def data_of_def conn_ok_def)
    then show ?thesis
      using S(3,6,9) R(5-8) unat_suc_u64 [OF a(5)]
      by (simp add: talk_of_def fun_of_parties [of _ _ d] spoke_def listened_def from_now_def)
  qed
  ultimately show ?thesis using E(2) by blast
qed

lemma beats_simulates:
  assumes inv: "talk_inv T s" and ok: "may_act T (Beats d x) (talk_of s)"
  shows "\<exists>s'. talk_step (Beats d x) s = Some s' \<and> talk_inv T s' \<and> talk_of s' = talk_spec T (Beats d x) (talk_of s)"
proof -
  let ?h = "du_node s d" and ?g = "du_node s (other d)"
  let ?en = "from_now (mo_env x d) ?h" and ?eg = "from_now (mo_env x (other d)) ?g"
  note i = talk_inv_parties [OF inv, of d]
  have a: "unat (rc_seq_tx (the_chan ?h)) < 2 ^ 32" "sint (ts_r (the_conn ?h) - cts_r (the_conn ?g)) < tm_delay T (other d)"
    "length (mo_host x) < 15" "indet_ok (the_indet ?en)" "indet_ok (the_indet ?eg)" "unat (rc_seq_tx (the_chan ?h)) < 2 ^ 32 - 1"
    "unat (rc_seq_tx (the_chan ?g)) < 2 ^ 32 - 1"
    using ok by (auto simp: talk_of_def in_touch_def intro: less_trans)
  obtain h2 p where S: "send_beat ?en ?h = Some h2" "spoke ?h h2 p" "p_type p = RASTA_TYPE_HB"
    "p_timestamp p = se_clock ?en (rh_clock_reads ?h + 1)" "conn_ok T d h2" "mux_ok h2"
    "fifo_retr (the_conn h2) = fifo_retr (the_conn ?h)"
    using beats [OF i(1,2) a(4,1)] by blast
  obtain st m g' where R: "receive_packet (se_uninit ?eg) (mo_now x) (mo_addr x) (du_store s (other d)) (rh_mux ?g) 0
      (red_bytes (rh_hashing_context ?h) (createRedundancyPacket (ucast (rc_seq_tx (the_chan ?h))) p (crc_option_of ?h)))
      (mo_host x) (mo_port x) RASTA_ERRORS_NONE = Some (st, m, [], RASTA_ERRORS_NONE)"
    "receive_thread_round ?eg (?g\<lparr>rh_mux := m\<rparr>) = Some (Ready g')" "conn_ok T (other d) g'" "mux_ok g'" "listened ?g g' p"
    "cts_r (the_conn g') = se_clock ?eg (rh_clock_reads ?g + 3)" "fifo_retr (the_conn g') = fifo_retr (the_conn ?g)"
    "fifo_app_msg (the_conn g') = fifo_app_msg (the_conn ?g)"
    using hears_beat [OF i(3,4) a(5,3) i(1,5) S(2,3) a(6,7,2)] by blast
  note E = exchanged [OF inv S(2,5,6) R(1-5) a(1)]
  let ?s = "s\<lparr>du_node := (du_node s)(d := h2, other d := g'), du_store := (du_store s)(other d := st)\<rparr>"
  have "talk_step (Beats d x) s = Some ?s" using S(1) E(1) by (simp add: Let_def)
  moreover have "talk_of ?s = talk_spec T (Beats d x) (talk_of s)"
    using S(2,4,7) R(5-8) unat_suc_u64 [OF a(1)]
    by (simp add: talk_of_def fun_of_parties [of _ _ d] spoke_def listened_def from_now_def)
  ultimately show ?thesis using E(2) by blast
qed

lemma reads_simulates:
  assumes inv: "talk_inv T s" and ok: "may_act T (Reads d) (talk_of s)"
  shows "\<exists>s'. talk_step (Reads d) s = Some s' \<and> talk_inv T s' \<and> talk_of s' = talk_spec T (Reads d) (talk_of s)"
proof -
  let ?h = "du_node s d" let ?c = "the_conn ?h"
  have h: "conn_ok T d ?h" "mux_ok ?h" "linked ?h (du_node s (other d))" "linked (du_node s (other d)) ?h"
    using inv [unfolded talk_inv_def] by (metis other_other(1))+
  obtain m ms where "fifo_abs (fifo_app_msg ?c) = m # ms" using ok by (cases "fifo_abs (fifo_app_msg ?c)") (auto simp: talk_of_def)
  moreover have "fifo_inv (fifo_app_msg ?c)" using h(1) by (simp add: conn_ok_def queues_ok_def)
  ultimately obtain f where f: "sr_get_received_data ?c = Some (m, ?c\<lparr>fifo_app_msg := f\<rparr>)" "fifo_inv f" "fifo_abs f = ms"
    "f_max_size f = f_max_size (fifo_app_msg ?c)" "fifo_abs (fifo_app_msg ?c) = m # ms"
    using received_data_first by blast
  let ?d = "?c\<lparr>fifo_app_msg := f\<rparr>" let ?g = "set_connection 0 ?d ?h"
  have "\<exists>c. rl_data (rh_connections ?h) = [c]" using h(1) unfolding conn_ok_def by blast
  then have conn: "the_conn ?g = ?d" "rl_data (rh_connections ?g) = [?d]" by (auto simp: the_conn_def set_connection_def)
  have chan: "chan_index ?g = chan_index ?h" "the_chan ?g = the_chan ?h" by (simp_all add: chan_index_def the_chan_def conn(1))
  have "conn_ok T d ?g" using h(1) conn f(2-4) chan(2) by (simp add: conn_ok_def queues_ok_def)
  moreover have "mux_ok ?g" using h(2) by (simp add: mux_ok_def conn(1) chan)
  moreover have "linked ?g (du_node s (other d))" "linked (du_node s (other d)) ?g"
    using h(3,4) by (simp_all add: linked_def conn(1) chan)
  ultimately have "talk_inv T (s\<lparr>du_node := (du_node s)(d := ?g), du_heard := (du_heard s)(d := du_heard s d @ [m])\<rparr>)"
    using inv by (simp add: talk_inv_def party_cases [of _ d])
  then show ?thesis using f by (simp add: talk_of_def fun_of_parties [of _ _ d] conn(1) chan)
qed

interpretation conversation: simulation talk_step "talk_inv T" talk_of "talk_spec T" "may_act T" for T
proof unfold_locales
  fix s x assume "talk_inv T s" "may_act T x (talk_of s)"
  then show "\<exists>s'. talk_step x s = Some s' \<and> talk_inv T s' \<and> talk_of s' = talk_spec T x (talk_of s)"
    using says_simulates beats_simulates reads_simulates by (cases x) blast+
qed

subsection \<open>Nothing lost, nothing doubled\<close>

text \<open>What a party hands over in a run, as the other one's application gets it.\<close>

fun said :: "terms \<Rightarrow> party \<Rightarrow> talk_act list \<Rightarrow> rastaApplicationMessage list" where
  "said T d [] = []"
| "said T d (Says e ms x # acts) =
     (if e = d then map (\<lambda>m. \<lparr>app_id = ucast (tm_id T d), appMessage = m\<rparr>) ms else []) @ said T d acts"
| "said T d (Beats e x # acts) = said T d acts"
| "said T d (Reads e # acts) = said T d acts"

text \<open>The inbox of the other side has room for the messages.\<close>

fun roomy :: "terms \<Rightarrow> talk_act \<Rightarrow> talk \<Rightarrow> bool" where
  "roomy T (Says d ms x) t \<longleftrightarrow> may_act T (Says d ms x) t \<and> length (tk_inbox t (other d)) + length ms \<le> tm_cap T (other d)"
| "roomy T (Beats d x) t \<longleftrightarrow> may_act T (Beats d x) t"
| "roomy T (Reads d) t \<longleftrightarrow> may_act T (Reads d) t"

lemma roomy_allowed: "allowed_run (roomy T) (talk_spec T) acts t \<Longrightarrow> allowed_run (may_act T) (talk_spec T) acts t"
proof (induction acts arbitrary: t)
  case (Cons x acts)
  then show ?case by (cases x) simp_all
qed simp

lemma talk_stream:
  "allowed_run (roomy T) (talk_spec T) acts t \<Longrightarrow>
   tk_heard (fold (talk_spec T) acts t) d @ tk_inbox (fold (talk_spec T) acts t) d = tk_heard t d @ tk_inbox t d @ said T (other d) acts"
proof (induction acts arbitrary: t)
  case (Cons x acts)
  note IH = Cons.IH [of "talk_spec T x t"]
  show ?case
  proof (cases x)
    case (Says e ms y)
    have "length ms \<le> tm_cap T (other e) - length (tk_inbox t (other e))"
      using conjunct2 [OF conjunct1 [OF Cons.prems [unfolded Says allowed_run.simps roomy.simps]]] by linarith
    then have "bounded_append (tm_cap T (other e)) (tk_inbox t (other e)) ys = tk_inbox t (other e) @ ys" if "length ys = length ms"
      for ys :: "rastaApplicationMessage list"
      using that by (simp add: bounded_append_def)
    moreover have "d = e \<or> d = other e" by (metis (full_types) other.simps party.exhaust)
    ultimately show ?thesis using IH Cons.prems by (auto simp: Says)
  next
    case (Beats e y)
    then show ?thesis using IH Cons.prems by (auto simp: Beats)
  next
    case (Reads e)
    then show ?thesis using IH Cons.prems by (auto simp: Reads)
  qed
qed simp

subsection \<open>Two concrete nodes\<close>

text \<open>The nodes 96 and 97, the first of which sends packets numbered from the largest number on.\<close>

definition demo_terms :: terms where
  "demo_terms = \<lparr>tm_id = (\<lambda>d. if d = Party_A then 96 else 97), tm_cap = (\<lambda>_. 20), tm_limit = (\<lambda>_. 3), tm_delay = (\<lambda>_. 1800)\<rparr>"

definition demo_duo :: duo where
  "demo_duo = \<lparr>du_node = (\<lambda>d. if d = Party_A then demo_node 96 97 [demo_connection 96 97 (- 1) 700]
     else demo_node 97 96 [demo_connection 97 96 700 (- 1)]), du_store = (\<lambda>_. demo_store), du_heard = (\<lambda>_. [])\<rparr>"

definition demo_moment :: moment where
  "demo_moment = \<lparr>mo_env = (\<lambda>_. demo_env), mo_now = 5, mo_addr = 0, mo_host = [49], mo_port = 8000\<rparr>"

definition demo_acts :: "talk_act list" where
  "demo_acts = [Says Party_A [[1, 2], [3]] demo_moment, Beats Party_B demo_moment, Says Party_A [[4]] demo_moment, Reads Party_B,
     Beats Party_A demo_moment, Says Party_B [[5]] demo_moment, Reads Party_A, Says Party_A [[6]] demo_moment]"

lemma demo_conn: "the_conn (demo_node own peer [c]) = c"
  by (simp add: the_conn_def)

lemma demo_chan:
  "chan_index (demo_node own (ucast peer) [demo_connection me peer n m]) = 0"
  "the_chan (demo_node own (ucast peer) [demo_connection me peer n m]) =
     demo_channel\<lparr>rc_associated_id := ucast peer, rc_connected_channel_count := 1\<rparr>"
  by (simp_all add: the_chan_def chan_index_def demo_conn)

lemma demo_mux_ok: "mux_ok (demo_node own (ucast peer) [demo_connection me peer n m])"
proof -
  have "node_ok en (demo_node own (ucast peer) [demo_connection me peer n m])" if "indet_ok (the_indet en)" for en
    using demo_node_ok [of own "ucast peer" "[demo_connection me peer n m]"] that by (simp add: node_ok_def)
  moreover have "fifo_abs (rc_fifo_recv demo_channel) = []" using demo_fields(2) by (simp add: delivered_def)
  ultimately show ?thesis using demo_ok demo_fields
    by (simp add: mux_ok_def demo_chan demo_conn red_channel_ok_def never_deferred_def)
qed

lemma demo_talks: "talk_inv demo_terms demo_duo"
proof -
  have "conn_ok demo_terms Party_A (du_node demo_duo Party_A)" "conn_ok demo_terms Party_B (du_node demo_duo Party_B)"
    by (simp_all add: conn_ok_def demo_duo_def demo_terms_def demo_conn fifo_init_abs numbered_def)
  moreover have "mux_ok (du_node demo_duo Party_A)" "mux_ok (du_node demo_duo Party_B)"
    using demo_mux_ok [of 96 97 96 "- 1" 700] demo_mux_ok [of 97 96 97 700 "- 1"] by (simp_all add: demo_duo_def)
  moreover have "linked (du_node demo_duo Party_A) (du_node demo_duo Party_B)" "linked (du_node demo_duo Party_B) (du_node demo_duo Party_A)"
    using demo_chan [of 96 97 96 "- 1" 700] demo_chan [of 97 96 97 700 "- 1"]
    by (simp_all add: linked_def demo_duo_def demo_conn fifo_init_abs)
  ultimately show ?thesis by (simp add: talk_inv_def party_cases [of _ Party_A] demo_terms_def)
qed

lemma demo_roomy: "allowed_run (roomy demo_terms) (talk_spec demo_terms) demo_acts (talk_of demo_duo)"
proof -
  have start: "talk_of demo_duo = \<lparr>tk_inbox = (\<lambda>_. []), tk_heard = (\<lambda>_. []), tk_open = (\<lambda>_. 0), tk_count = (\<lambda>_. 0),
      tk_seen = (\<lambda>_. 100), tk_told = (\<lambda>_. 100)\<rparr>"
    using demo_chan [of 96 97 96 "- 1" 700] demo_chan [of 97 96 97 700 "- 1"]
    by (simp add: talk_of_def demo_duo_def demo_conn fifo_init_abs fun_of_parties [of _ _ Party_A])
  show ?thesis
    unfolding start by (simp add: demo_acts_def demo_terms_def demo_moment_def in_touch_def bounded_append_def message_bytes_length)
qed

subsection \<open>Properties\<close>

text \<open>C14. Two nodes with one open connection to each other talk for as long as they like: in every run in which
  applications hand over messages and read them and heartbeats go either way, a party speaks only
  while its unconfirmed packets are within the limit and its clock stamps are fresh, and the first
  datagram of each packet arrives, every call is defined, both nodes stay in order, and inboxes,
  unconfirmed packets, packet counters and time stamps are those of an abstract conversation that
  knows nothing of packets. The sequence numbers of the safety layer wrap around.\<close>

theorem conversation_refines:
  assumes "talk_inv T s" "allowed_run (may_act T) (talk_spec T) acts (talk_of s)"
  shows "\<exists>s'. run_steps talk_step acts s = Some s' \<and> talk_inv T s' \<and> talk_of s' = fold (talk_spec T) acts (talk_of s)"
  using assms by (rule conversation.run_refines)

theorem conversation_refines_witness:
  "\<exists>s'. run_steps talk_step demo_acts demo_duo = Some s' \<and> tk_open (talk_of s') Party_A = 1 \<and> tk_open (talk_of s') Party_B = 0 \<and>
    tk_count (talk_of s') Party_A = 4 \<and> sn_t (the_conn (du_node demo_duo Party_A)) = - 1"
proof -
  obtain s' where "run_steps talk_step demo_acts demo_duo = Some s'"
    "talk_of s' = fold (talk_spec demo_terms) demo_acts (talk_of demo_duo)"
    using conversation_refines [OF demo_talks roomy_allowed [OF demo_roomy]] by blast
  moreover have "tk_count (talk_of demo_duo) Party_A = 0"
    using demo_chan [of 96 97 96 "- 1" 700] by (simp add: talk_of_def demo_duo_def)
  ultimately show ?thesis by (simp add: demo_acts_def demo_duo_def demo_conn)
qed

text \<open>C15. Application data arrives exactly once and in order: when moreover the receive queue of the application has
  room for what is handed over, then at the end of every such run, heartbeats included, what an
  application has read, followed by what waits for it, is what it had and after it every message
  the other application handed over, complete, in the order of the calls, with the identifier of
  its sender.\<close>

theorem conversation_in_order:
  assumes "talk_inv T s" "allowed_run (roomy T) (talk_spec T) acts (talk_of s)"
  shows "\<exists>s'. run_steps talk_step acts s = Some s' \<and>
    (\<forall>d. du_heard s' d @ fifo_abs (fifo_app_msg (the_conn (du_node s' d))) =
       du_heard s d @ fifo_abs (fifo_app_msg (the_conn (du_node s d))) @ said T (other d) acts)"
proof -
  have f: "tk_heard (talk_of r) = du_heard r" "tk_inbox (talk_of r) d = fifo_abs (fifo_app_msg (the_conn (du_node r d)))" for r d
    by (simp_all add: talk_of_def)
  show ?thesis
    using conversation.run_refines [OF assms(1) roomy_allowed [OF assms(2)]] talk_stream [OF assms(2)] by (metis f)
qed

theorem conversation_in_order_witness:
  "\<exists>s'. run_steps talk_step demo_acts demo_duo = Some s' \<and>
    du_heard s' Party_B @ fifo_abs (fifo_app_msg (the_conn (du_node s' Party_B))) =
      map (\<lambda>m. \<lparr>app_id = 96, appMessage = m\<rparr>) [[1, 2], [3], [4], [6]]"
proof -
  obtain s' where s: "run_steps talk_step demo_acts demo_duo = Some s'"
    "\<And>d. du_heard s' d @ fifo_abs (fifo_app_msg (the_conn (du_node s' d))) =
       du_heard demo_duo d @ fifo_abs (fifo_app_msg (the_conn (du_node demo_duo d))) @ said demo_terms (other d) demo_acts"
    using conversation_in_order [OF demo_talks demo_roomy] by blast
  show ?thesis using s(1) s(2) [of Party_B] by (simp add: demo_acts_def demo_duo_def demo_conn demo_terms_def fifo_init_abs)
qed

end
