(* ===== verification/Ixl_World.thy ===== *)
theory Ixl_World
  imports Ixl_Stack Sr_Conversation
begin

section \<open>The interlocking process and its controller over time\<close>

text \<open>
  The process, its RaSTA node, the node of the object controller and the controller's application,
  as one transition system: the process runs, the calls of \<open>sr_send\<close> it recorded are carried out
  on its node, the callback for received data takes messages of the node to the process, the
  controller's application says and reads what it likes, and both nodes send heartbeats. The party A
  is the Cloud IXL.
\<close>

subsection \<open>The transition system\<close>

text \<open>
  The calls of \<open>sr_send\<close> carried out so far, and the history of the messages the application of the
  controller handed to its node.
\<close>

record world =
  wd_sys :: sys
  wd_duo :: duo
  wd_handed :: nat
  wd_said :: "u8 list list"

text \<open>The first half of the message handler, given the message the callback took from the queue.\<close>

fun after_head :: "u8 list \<Rightarrow> sys \<Rightarrow> sci_telegram option \<times> pdi_t \<Rightarrow> sys" where
  "after_head msg s (None, p) = on_pdi p s"
| "after_head msg s (Some t, p) = on_pdi p s\<lparr>sys_recv := Some (msg, t, pdi_state p = PDI_WAIT_CONFIRMATION)\<rparr>"

inductive world_step :: "terms \<Rightarrow> world \<Rightarrow> world \<Rightarrow> bool" for T where
  runs: "sys_step (wd_sys w) s \<Longrightarrow> sys_recv s = None \<or> sys_recv s = sys_recv (wd_sys w) \<Longrightarrow>
    world_step T w (w\<lparr>wd_sys := s\<rparr>)"
| hears: "running (wd_sys w) \<Longrightarrow> sys_recv (wd_sys w) = None \<Longrightarrow> length junk = 85 \<Longrightarrow>
    roomy T (Reads Party_A) (talk_of (wd_duo w)) \<Longrightarrow> talk_step (Reads Party_A) (wd_duo w) = Some duo \<Longrightarrow>
    msg = appMessage (last (du_heard duo Party_A)) \<Longrightarrow>
    receive_head junk msg (sys_pdi (wd_sys w)) = Some r \<Longrightarrow>
    world_step T w (w\<lparr>wd_duo := duo, wd_sys := after_head msg (wd_sys w) r\<rparr>)"
| carries: "wd_handed w < length (sent (sys_pdi (wd_sys w))) \<Longrightarrow>
    sent (sys_pdi (wd_sys w)) ! wd_handed w = (ucast (tm_id T Party_B), msg) \<Longrightarrow>
    roomy T (Says Party_A [msg] x) (talk_of (wd_duo w)) \<Longrightarrow> talk_step (Says Party_A [msg] x) (wd_duo w) = Some duo \<Longrightarrow>
    world_step T w (w\<lparr>wd_duo := duo, wd_handed := wd_handed w + 1\<rparr>)"
| answers: "roomy T (Says Party_B ms x) (talk_of (wd_duo w)) \<Longrightarrow> talk_step (Says Party_B ms x) (wd_duo w) = Some duo \<Longrightarrow>
    world_step T w (w\<lparr>wd_duo := duo, wd_said := wd_said w @ ms\<rparr>)"
| reads: "roomy T (Reads Party_B) (talk_of (wd_duo w)) \<Longrightarrow> talk_step (Reads Party_B) (wd_duo w) = Some duo \<Longrightarrow>
    world_step T w (w\<lparr>wd_duo := duo\<rparr>)"
| keeps_alive: "roomy T (Beats d x) (talk_of (wd_duo w)) \<Longrightarrow> talk_step (Beats d x) (wd_duo w) = Some duo \<Longrightarrow>
    world_step T w (w\<lparr>wd_duo := duo\<rparr>)"

inductive world_reachable :: "terms \<Rightarrow> world \<Rightarrow> world \<Rightarrow> bool" for T w0 where
  world_init: "world_reachable T w0 w0"
| world_then: "world_reachable T w0 w \<Longrightarrow> world_step T w w' \<Longrightarrow> world_reachable T w0 w'"

text \<open>The start: both nodes are connected, no application has said or heard anything.\<close>

definition world_start :: "terms \<Rightarrow> sys \<Rightarrow> duo \<Rightarrow> world \<Rightarrow> bool" where
  "world_start T s0 duo w \<longleftrightarrow> wd_sys w = s0 \<and> wd_duo w = duo \<and> wd_handed w = 0 \<and> wd_said w = [] \<and>
     talk_inv T duo \<and> (\<forall>d. du_heard duo d = [] \<and> fifo_abs (fifo_app_msg (the_conn (du_node duo d))) = [])"

subsection \<open>Steps of the process\<close>

lemma receives_step:
  assumes "running s" "sys_recv s = None" "length junk = 85" "receive_head junk msg (sys_pdi s) = Some r"
  shows "sys_step s (after_head msg s r)"
proof (cases r)
  case (Pair t p)
  then show ?thesis
    using sys_step.disposed [OF assms(1-3)] sys_step.received [OF assms(1-3)] assms(4) by (cases t) simp_all
qed

lemma running_before:
  assumes "sys_step s s'" "running s'"
  shows "running s"
  using assms by (cases rule: sys_step.cases) (auto simp: on_pdi_def running_def)

text \<open>The process only adds to the calls it recorded, and only calls for the controller.\<close>

lemma sent_grows:
  assumes "sys_step s s'" "sys_inv s" "running s'"
  shows "\<exists>calls. sent (sys_pdi s') = sent (sys_pdi s) @ calls"
proof -
  have ok: "pdi_ok (sys_pdi s)" using assms running_before [OF assms(1,3)] by (simp add: sys_inv_def)
  show ?thesis
    using assms
  proof (cases rule: running_step)
    case (handled msg t w)
    then show ?thesis using ok by (simp add: ev_apply_sent)
  qed (use ok in \<open>auto simp: main_result_simps\<close>)
qed

text \<open>The awaited payload changes only in the step that orders an aspect.\<close>

lemma expected_kept:
  assumes "sys_step s s'" "sys_inv s" "running s'" "pdi_state (sys_pdi s') \<noteq> PDI_WAIT_CONFIRMATION"
  shows "expected_bytes (sys_pdi s') = expected_bytes (sys_pdi s)"
  using assms(1-3)
proof (cases rule: running_step)
  case (command rq rest a ixl)
  then show ?thesis using assms(4) by simp
next
  case (connection st)
  then show ?thesis by (auto simp: on_connection_change_def fail_pending_signal_confirmation_def split: rasta_sr_state.splits)
qed (auto simp: main_result_simps)

subsection \<open>The invariant\<close>

definition delivered_to :: "duo \<Rightarrow> party \<Rightarrow> rastaApplicationMessage list" where
  "delivered_to duo d = du_heard duo d @ fifo_abs (fifo_app_msg (the_conn (du_node duo d)))"

abbreviation from_party :: "terms \<Rightarrow> party \<Rightarrow> u8 list \<Rightarrow> rastaApplicationMessage" where
  "from_party T d m \<equiv> \<lparr>app_id = ucast (tm_id T d), appMessage = m\<rparr>"

lemma talk_step_delivers:
  assumes "talk_inv T s" "roomy T act (talk_of s)" "talk_step act s = Some s'"
  shows "talk_inv T s'" and "delivered_to s' d = delivered_to s d @ said T (other d) [act]"
proof -
  have r: "allowed_run (roomy T) (talk_spec T) [act] (talk_of s)" using assms(2) by simp
  have ok: "may_act T act (talk_of s)" using roomy_allowed [OF r] by simp
  have t: "talk_inv T s'" "talk_of s' = talk_spec T act (talk_of s)"
    using conversation.simulates [OF assms(1) ok] assms(3) by auto
  show "talk_inv T s'" by (rule t(1))
  have f: "delivered_to r d = tk_heard (talk_of r) d @ tk_inbox (talk_of r) d" for r
    by (simp add: delivered_to_def talk_of_def)
  show "delivered_to s' d = delivered_to s d @ said T (other d) [act]"
    using talk_stream [OF r, of d] t(2) by (simp add: f)
qed

definition world_inv :: "terms \<Rightarrow> sys \<Rightarrow> world \<Rightarrow> bool" where
  "world_inv T s0 w \<longleftrightarrow> sys_reachable s0 (wd_sys w) \<and> talk_inv T (wd_duo w) \<and>
     delivered_to (wd_duo w) Party_A = map (from_party T Party_B) (wd_said w) \<and>
     (\<forall>msg t b. running (wd_sys w) \<and> sys_recv (wd_sys w) = Some (msg, t, b) \<longrightarrow> msg \<in> set (wd_said w)) \<and>
     (running (wd_sys w) \<longrightarrow> wd_handed w \<le> length (sent (sys_pdi (wd_sys w))) \<and>
        delivered_to (wd_duo w) Party_B =
          map (from_party T Party_A) (map snd (take (wd_handed w) (sent (sys_pdi (wd_sys w)))))) \<and>
     (running (wd_sys w) \<and> pdi_state (sys_pdi (wd_sys w)) = PDI_COMMAND_CONFIRMED \<longrightarrow>
        (\<exists>m \<in> set (wd_said w). classify m = Ev_Aspect (expected_bytes (sys_pdi (wd_sys w)))))"

text \<open>A step of the process keeps it when the messages it holds were said.\<close>

lemma process_keeps:
  assumes w: "world_inv T s0 w" and step: "sys_step (wd_sys w) s" and start: "main_start getenv mem stdin x = Some s0"
    and r: "\<And>msg t b. running s \<Longrightarrow> sys_recv s = Some (msg, t, b) \<Longrightarrow> msg \<in> set (wd_said w)"
  shows "world_inv T s0 (w\<lparr>wd_sys := s\<rparr>)"
proof -
  note w' = w [unfolded world_inv_def]
  have inv: "sys_inv (wd_sys w)" by (rule reachable_inv [OF start]) (use w' in blast)
  have reach: "sys_reachable s0 s" using w' step by (blast intro: reach_step)
  have sent: "wd_handed w \<le> length (sent (sys_pdi s)) \<and> delivered_to (wd_duo w) Party_B =
      map (from_party T Party_A) (map snd (take (wd_handed w) (sent (sys_pdi s))))" if run: "running s"
  proof -
    obtain calls where "sent (sys_pdi s) = sent (sys_pdi (wd_sys w)) @ calls" using sent_grows [OF step inv run] by blast
    then show ?thesis using w' running_before [OF step run] by simp
  qed
  have conf: "\<exists>m \<in> set (wd_said w). classify m = Ev_Aspect (expected_bytes (sys_pdi s))"
    if run: "running s" and c: "pdi_state (sys_pdi s) = PDI_COMMAND_CONFIRMED"
  proof -
    have e: "expected_bytes (sys_pdi s) = expected_bytes (sys_pdi (wd_sys w))" using expected_kept [OF step inv run] c by simp
    show ?thesis
    proof (cases "pdi_state (sys_pdi (wd_sys w)) = PDI_COMMAND_CONFIRMED")
      case True
      then show ?thesis using w' running_before [OF step run] e by simp
    next
      case False
      then obtain msg t where "sys_recv (wd_sys w) = Some (msg, t, True)" "classify msg = Ev_Aspect (expected_bytes (sys_pdi (wd_sys w)))"
        using confirmed_step [OF step inv run c] by blast
      then show ?thesis using w' e running_before [OF step run] by (intro bexI [of _ msg]) auto
    qed
  qed
  show ?thesis using w' reach sent conf r by (simp add: world_inv_def)
qed

lemma world_inv_step:
  assumes "world_inv T s0 w" "world_step T w w'" "main_start getenv mem stdin x = Some s0"
  shows "world_inv T s0 w'"
  using assms(2)
proof (cases rule: world_step.cases)
  case (runs s)
  show ?thesis
    unfolding runs(1)
  proof (rule process_keeps [OF assms(1) runs(2) assms(3)])
    fix msg t b
    assume "running s" "sys_recv s = Some (msg, t, b)"
    then have "running (wd_sys w)" "sys_recv (wd_sys w) = Some (msg, t, b)" using running_before [OF runs(2)] runs(3) by auto
    then show "msg \<in> set (wd_said w)" using assms(1) unfolding world_inv_def by blast
  qed
next
  case (hears junk duo msg r)
  note w = assms(1) [unfolded world_inv_def]
  have d: "talk_inv T duo" "delivered_to duo e = delivered_to (wd_duo w) e" for e
    using talk_step_delivers [OF _ hears(5,6)] w by simp_all
  have v: "world_inv T s0 (w\<lparr>wd_duo := duo\<rparr>)" using assms(1) d by (simp add: world_inv_def)
  have "du_heard duo Party_A \<noteq> []" using hears(6) by (auto simp: bind_Some_iff)
  then have "last (du_heard duo Party_A) \<in> set (delivered_to duo Party_A)" by (simp add: delivered_to_def)
  then have m: "msg \<in> set (wd_said w)" using w d(2) hears(7) by auto
  have "world_inv T s0 ((w\<lparr>wd_duo := duo\<rparr>)\<lparr>wd_sys := after_head msg (wd_sys w) r\<rparr>)"
  proof (rule process_keeps [OF v _ assms(3)])
    show "sys_step (wd_sys (w\<lparr>wd_duo := duo\<rparr>)) (after_head msg (wd_sys w) r)"
      using receives_step [OF hears(2,3,4,8)] by simp
    show "m \<in> set (wd_said (w\<lparr>wd_duo := duo\<rparr>))" if "sys_recv (after_head msg (wd_sys w) r) = Some (m, t, b)" for m t b
      using that m hears(3) by (cases r; cases "fst r") auto
  qed
  then show ?thesis unfolding hears(1) by simp
next
  case (carries msg x duo)
  note w = assms(1) [unfolded world_inv_def]
  have d: "talk_inv T duo" "delivered_to duo e = delivered_to (wd_duo w) e @ said T (other e) [Says Party_A [msg] x]" for e
    using talk_step_delivers [OF _ carries(4,5)] w by simp_all
  have "take (Suc (wd_handed w)) (sent (sys_pdi (wd_sys w))) =
      take (wd_handed w) (sent (sys_pdi (wd_sys w))) @ [(ucast (tm_id T Party_B), msg)]"
    using carries(2,3) by (simp add: take_Suc_conv_app_nth)
  then show ?thesis unfolding carries(1) using w d carries(2) by (simp add: world_inv_def)
next
  case (answers ms x duo)
  note w = assms(1) [unfolded world_inv_def]
  have "talk_inv T duo" "delivered_to duo e = delivered_to (wd_duo w) e @ said T (other e) [Says Party_B ms x]" for e
    using talk_step_delivers [OF _ answers(2,3)] w by simp_all
  then show ?thesis unfolding answers(1) using w by (auto simp: world_inv_def)
next
  case (reads duo)
  note w = assms(1) [unfolded world_inv_def]
  have "talk_inv T duo" "delivered_to duo e = delivered_to (wd_duo w) e" for e
    using talk_step_delivers [OF _ reads(2,3)] w by simp_all
  then show ?thesis unfolding reads(1) using assms(1) by (simp add: world_inv_def)
next
  case (keeps_alive d x duo)
  note w = assms(1) [unfolded world_inv_def]
  have "talk_inv T duo" "delivered_to duo e = delivered_to (wd_duo w) e" for e
    using talk_step_delivers [OF _ keeps_alive(2,3)] w by simp_all
  then show ?thesis unfolding keeps_alive(1) using assms(1) by (simp add: world_inv_def)
qed

lemma world_reachable_inv:
  assumes "world_reachable T w0 w" "world_start T s0 duo w0" "main_start getenv mem stdin x = Some s0"
  shows "world_inv T s0 w"
  using assms(1)
proof (induction rule: world_reachable.induct)
  case world_init
  have "sys_recv s0 = None \<and> pdi_state (sys_pdi s0) = PDI_WAIT_RASTA_HANDSHAKE" if "running s0"
    using start_total(3) [OF assms(3) that] by simp
  then show ?case using assms(2) by (auto simp: world_start_def world_inv_def delivered_to_def reach_init)
next
  case (world_then w w')
  then show ?case using world_inv_step [OF _ _ assms(3)] by blast
qed

subsection \<open>A run of everything\<close>

text \<open>
  The concrete process on the concrete nodes. In the run below the controller's application answers
  the requests it expects without having seen them: nothing the process recorded is carried out.
\<close>

definition demo_world :: world where
  "demo_world = \<lparr>wd_sys = demo_start, wd_duo = demo_duo, wd_handed = 0, wd_said = []\<rparr>"

lemma demo_world_starts: "world_start demo_terms demo_start demo_duo demo_world"
proof -
  have "du_heard demo_duo d = [] \<and> fifo_abs (fifo_app_msg (the_conn (du_node demo_duo d))) = []" for d
    by (cases d) (simp_all add: demo_duo_def demo_conn fifo_init_abs)
  then show ?thesis by (simp add: world_start_def demo_world_def demo_talks)
qed

text \<open>What waits for the process, and how many packets of the controller it has not confirmed (no party has sent more).\<close>

definition waits :: "u8 list list \<Rightarrow> nat \<Rightarrow> world \<Rightarrow> bool" where
  "waits msgs k w \<longleftrightarrow> world_reachable demo_terms demo_world w \<and> talk_inv demo_terms (wd_duo w) \<and> wd_handed w = 0 \<and>
     tk_inbox (talk_of (wd_duo w)) Party_A = map (from_party demo_terms Party_B) msgs \<and>
     tk_open (talk_of (wd_duo w)) Party_B = k \<and> (\<forall>e. tk_count (talk_of (wd_duo w)) e \<le> k) \<and>
     tk_seen (talk_of (wd_duo w)) Party_B = 100 \<and> tk_told (talk_of (wd_duo w)) Party_A = 100"

lemma demo_waits: "waits [] 0 demo_world"
  using demo_talks demo_chan [of 97 96 97 700 "- 1"] demo_chan [of 96 97 96 "- 1" 700]
  by (simp add: waits_def demo_world_def talk_of_def demo_duo_def demo_conn fifo_init_abs world_init party_cases [of _ Party_A])

lemma world_runs:
  assumes "waits msgs k w" "sys_step (wd_sys w) s" "sys_recv s = None"
  shows "waits msgs k (w\<lparr>wd_sys := s\<rparr>)"
  using assms world_then [OF _ world_step.runs [of w s]] by (simp add: waits_def)

lemma world_says:
  assumes w: "waits msgs k w" and k: "k \<le> 3" "length msgs < 20" "length msg < 60000"
  shows "\<exists>w'. waits (msgs @ [msg]) (Suc k) w' \<and> wd_sys w' = wd_sys w \<and> wd_said w' = wd_said w @ [msg]"
proof -
  note w' = w [unfolded waits_def]
  let ?t = "talk_of (wd_duo w)" and ?act = "Says Party_B [msg] demo_moment"
  have "\<forall>e. tk_count ?t e < 2 ^ 32 - 1" using w' k(1) by (auto intro: le_less_trans)
  then have ok: "may_act demo_terms ?act ?t"
    using w' k by (simp add: demo_terms_def demo_moment_def message_bytes_length in_touch_def)
  then have r: "roomy demo_terms ?act ?t" using w' k(2) by (simp add: demo_terms_def del: may_act.simps)
  obtain duo where duo: "talk_step ?act (wd_duo w) = Some duo" "talk_inv demo_terms duo" "talk_of duo = talk_spec demo_terms ?act ?t"
    using conversation.simulates [OF _ ok] w' by blast
  have "world_step demo_terms w (w\<lparr>wd_duo := duo, wd_said := wd_said w @ [msg]\<rparr>)"
    by (rule world_step.answers [OF r duo(1)])
  moreover have "length msgs < 20 \<Longrightarrow> bounded_append 20 (map (from_party demo_terms Party_B) msgs) [from_party demo_terms Party_B msg] =
      map (from_party demo_terms Party_B) (msgs @ [msg])"
    by (simp add: bounded_append_def)
  ultimately have "waits (msgs @ [msg]) (Suc k) (w\<lparr>wd_duo := duo, wd_said := wd_said w @ [msg]\<rparr>)"
    using w' duo(2,3) k(2) by (auto simp: waits_def demo_terms_def demo_moment_def le_SucI intro: world_then)
  then show ?thesis by (intro exI [of _ "w\<lparr>wd_duo := duo, wd_said := wd_said w @ [msg]\<rparr>"]) simp
qed

lemma world_takes:
  assumes w: "waits (msg # msgs) k w" and s: "demo_at (wd_sys w) st pc inp" "\<forall>c. pc \<noteq> M_Done c"
    and c: "classify msg \<notin> {Ev_Ignored, Ev_Bad}"
  shows "\<exists>w'. waits msgs k w' \<and> wd_said w' = wd_said w \<and>
    demo_at (wd_sys w') (ev_next (st = PDI_WAIT_CONFIRMATION) (expected_bytes (sys_pdi (wd_sys w))) (classify msg) st) pc inp \<and>
    sys_ixl (wd_sys w') = sys_ixl (wd_sys w) \<and> expected_bytes (sys_pdi (wd_sys w')) = expected_bytes (sys_pdi (wd_sys w))"
proof -
  note w' = w [unfolded waits_def]
  let ?t = "talk_of (wd_duo w)" and ?s = "wd_sys w" and ?j = "replicate 85 0"
  have a: "sys_reachable demo_start ?s" "running ?s" "sys_recv ?s = None" "pdi_state (sys_pdi ?s) = st" "sys_pc ?s = pc"
    "sys_stdin ?s = inp"
    using s by (auto simp: demo_at_def running_def)
  have ok: "may_act demo_terms (Reads Party_A) ?t" using w' by simp
  then have r: "roomy demo_terms (Reads Party_A) ?t" by simp
  obtain duo where duo: "talk_step (Reads Party_A) (wd_duo w) = Some duo" "talk_inv demo_terms duo"
    "talk_of duo = talk_spec demo_terms (Reads Party_A) ?t"
    using conversation.simulates [OF _ ok] w' by blast
  have h: "du_heard duo Party_A = du_heard (wd_duo w) Party_A @ [from_party demo_terms Party_B msg]"
    using arg_cong [OF duo(3), of tk_heard] w' by (simp add: talk_of_def fun_of_parties [of _ _ Party_A])
  obtain t where t: "recv_ok msg t" "receive_head ?j msg (sys_pdi ?s) = Some (Some t, sys_pdi ?s)" using good_head [OF c] by blast
  let ?w = "pdi_state (sys_pdi ?s) = PDI_WAIT_CONFIRMATION"
  let ?w1 = "w\<lparr>wd_duo := duo, wd_sys := after_head msg ?s (Some t, sys_pdi ?s)\<rparr>"
  have step: "world_step demo_terms w ?w1" by (rule world_step.hears [OF a(2,3) _ r duo(1) _ t(2)]) (simp_all add: h)
  have v: "waits msgs k ?w1" using w' duo(2,3) world_then [OF _ step] by (simp add: waits_def demo_terms_def)
  let ?s2 = "on_pdi (ev_apply ?w (classify msg) (sys_pdi ?s)) ?s"
  have ok: "pdi_ok (sys_pdi ?s)" using demo_reachable_inv [OF a(1)] a(2) by (simp add: sys_inv_def)
  have b: "receive_body ?j msg ?w t (sys_pdi (wd_sys ?w1)) = Some (ev_apply ?w (classify msg) (sys_pdi ?s))"
    using recv_body_spec [OF t(1) ok, of ?j ?w] by simp
  have "sys_step (wd_sys ?w1) (on_pdi (ev_apply ?w (classify msg) (sys_pdi ?s)) (wd_sys ?w1)\<lparr>sys_recv := None\<rparr>)"
    using a(2) by (intro sys_step.handled [OF _ _ _ b]) simp_all
  also have "on_pdi (ev_apply ?w (classify msg) (sys_pdi ?s)) (wd_sys ?w1)\<lparr>sys_recv := None\<rparr> = ?s2"
    using a(3) by (simp add: on_pdi_def)
  finally have step2: "sys_step (wd_sys ?w1) ?s2" .
  have "sys_step ?s (wd_sys ?w1)" using receives_step [OF a(2,3) _ t(2)] by simp
  then have "sys_reachable demo_start ?s2" using a(1) step2 by (blast intro: reach_step)
  then have "demo_at ?s2 (ev_next (st = PDI_WAIT_CONFIRMATION) (expected_bytes (sys_pdi ?s)) (classify msg) st) pc inp"
    using a by (simp add: demo_at_def)
  moreover have "waits msgs k (?w1\<lparr>wd_sys := ?s2\<rparr>)" using a(3) by (intro world_runs [OF v step2]) simp
  ultimately show ?thesis by (intro exI [of _ "?w1\<lparr>wd_sys := ?s2\<rparr>"]) simp
qed

text \<open>The first message of the process may be carried out.\<close>

lemma first_words:
  "may_act demo_terms (Says Party_A [VERSION_REQUEST_BYTES] demo_moment) (talk_of demo_duo) \<and>
    length (tk_inbox (talk_of demo_duo) Party_B) + 1 \<le> tm_cap demo_terms Party_B"
  using demo_chan [of 96 97 96 "- 1" 700] demo_chan [of 97 96 97 700 "- 1"]
  by (simp add: party_cases [of _ Party_A] talk_of_def demo_duo_def demo_conn fifo_init_abs demo_terms_def demo_moment_def message_bytes_length in_touch_def
      VERSION_REQUEST_BYTES_def telegram_bytes_def)

text \<open>The controller reports the aspect of an order before the order is given.\<close>

lemma demo_stale_run:
  "\<exists>w. waits [] 4 w \<and> demo_at (wd_sys w) PDI_COMMAND_CONFIRMED
     (M_Waiting (default_request\<lparr>rr_command := ROUTE_COMMAND_REQUEST, rr_route_id := RUTA_AB\<rparr>)) demo_rest \<and>
     expected_bytes (sys_pdi (wd_sys w)) = signal_aspect_payloads VIA_LIBRE"
proof -
  let ?v = "oc_msg SCI_MESSAGE_TYPE_VERSION_RESPONSE [5, 5, 2]" and ?b = "oc_msg SCI_MESSAGE_TYPE_STATUS_BEGIN []"
    and ?f = "oc_msg SCI_MESSAGE_TYPE_STATUS_FINISH []"
    and ?a = "oc_msg SCI_LS_ICD_MESSAGE_TYPE_SIGNAL_ASPECT_STATUS (signal_aspect_payloads VIA_LIBRE)"
  have len: "length ?v < 60000" "length ?b < 60000" "length ?f < 60000" "length ?a < 60000"
    by (simp_all add: oc_msg_def telegram_bytes_def)
  obtain s1 where s1: "sys_step demo_start s1" "demo_at s1 PDI_WAIT_VERSION_RESPONSE M_Establishing demo_input"
    using demo_handshake by blast
  have w1: "waits [] 0 (demo_world\<lparr>wd_sys := s1\<rparr>)"
    by (rule world_runs [OF demo_waits]) (use s1 in \<open>simp_all add: demo_world_def demo_at_def\<close>)
  obtain w2 where w2: "waits [?v] 1 w2" "wd_sys w2 = s1" using world_says [OF w1 _ _ len(1)] by auto
  obtain w3 where w3: "waits [] 1 w3" "demo_at (wd_sys w3) PDI_WAIT_INITIALISATION_START M_Establishing demo_input"
    using world_takes [OF w2(1), of PDI_WAIT_VERSION_RESPONSE M_Establishing demo_input] w2(2) s1(2) by (auto simp: demo_answers)
  obtain w4 where w4: "waits [?b] 2 w4" "wd_sys w4 = wd_sys w3" using world_says [OF w3(1) _ _ len(2)] by (auto simp: numeral_2_eq_2)
  obtain w5 where w5: "waits [] 2 w5" "demo_at (wd_sys w5) PDI_RECEIVING_INITIAL_STATUS M_Establishing demo_input"
    using world_takes [OF w4(1), of PDI_WAIT_INITIALISATION_START M_Establishing demo_input] w4(2) w3(2) by (auto simp: demo_answers)
  obtain w6 where w6: "waits [?f] 3 w6" "wd_sys w6 = wd_sys w5" using world_says [OF w5(1) _ _ len(3)] by (auto simp: numeral_3_eq_3)
  obtain w7 where w7: "waits [] 3 w7" "demo_at (wd_sys w7) PDI_ESTABLISHED M_Establishing demo_input"
    using world_takes [OF w6(1), of PDI_RECEIVING_INITIAL_STATUS M_Establishing demo_input] w6(2) w5(2) by (auto simp: demo_answers)
  obtain s8 where s8: "sys_step (wd_sys w7) s8" "demo_at s8 PDI_ESTABLISHED M_Idle demo_input" "ixl_route (sys_ixl s8) = [FREE, FREE]"
    using demo_establish [OF w7(2)] by blast
  have w8: "waits [] 3 (w7\<lparr>wd_sys := s8\<rparr>)" by (rule world_runs [OF w7(1) s8(1)]) (use s8(2) in \<open>simp add: demo_at_def\<close>)
  obtain w9 where w9: "waits [?a] 4 w9" "wd_sys w9 = s8" using world_says [OF w8 _ _ len(4)] by auto
  obtain s10 where s10: "sys_step s8 s10" "demo_at s10 PDI_WAIT_CONFIRMATION
      (M_Waiting (default_request\<lparr>rr_command := ROUTE_COMMAND_REQUEST, rr_route_id := RUTA_AB\<rparr>)) demo_rest"
    "expected_bytes (sys_pdi s10) = signal_aspect_payloads VIA_LIBRE"
    using demo_asks [OF s8(2,3)] by blast
  have w10: "waits [?a] 4 (w9\<lparr>wd_sys := s10\<rparr>)"
    by (rule world_runs [OF w9(1)]) (use w9(2) s10(1,2) in \<open>simp_all add: demo_at_def\<close>)
  have "classify ?a = Ev_Aspect (signal_aspect_payloads VIA_LIBRE)" by (simp add: classify_oc body_event_def msg_types)
  then show ?thesis using world_takes [OF w10, of PDI_WAIT_CONFIRMATION _ demo_rest] s10(2,3) by fastforce
qed

subsection \<open>Properties\<close>





text \<open>C18. The report need not answer the order: there is a reachable state in which the process counts its command as
  confirmed while no order has reached the controller's node and its application has heard
  nothing at all. A report is matched by its payload only, so one that was on its way when the
  command was given confirms it.\<close>

theorem stale_report_confirms:
  "\<exists>w. world_reachable demo_terms demo_world w \<and> running (wd_sys w) \<and>
    pdi_state (sys_pdi (wd_sys w)) = PDI_COMMAND_CONFIRMED \<and> wd_handed w = 0 \<and> delivered_to (wd_duo w) Party_B = []"
proof -
  obtain w where w: "waits [] 4 w" "demo_at (wd_sys w) PDI_COMMAND_CONFIRMED
      (M_Waiting (default_request\<lparr>rr_command := ROUTE_COMMAND_REQUEST, rr_route_id := RUTA_AB\<rparr>)) demo_rest"
    using demo_stale_run by blast
  then have r: "world_reachable demo_terms demo_world w" "wd_handed w = 0" "running (wd_sys w)"
    by (auto simp: waits_def demo_at_def running_def)
  then show ?thesis
    using world_reachable_inv [OF r(1) demo_world_starts demo_start_some] w(2)
    by (intro exI [of _ w]) (simp add: world_inv_def demo_at_def)
qed

end
