(* ===== verification/Ixl_Format.thy ===== *)
theory Ixl_Format
  imports Ixl_Types Sci_Ls_Icd
begin

section \<open>Names for the operator (cloud_ixl_format.c, main.c)\<close>

text \<open>
  The strings the interlocking prints for its values. The counters of the enumerations and
  the aspects no enumerator names fall into the \<open>default\<close> branch of the C switch.
\<close>

fun route_name_to_string :: "RouteId \<Rightarrow> string" where
  "route_name_to_string RUTA_AB = ''RUTA_AB''"
| "route_name_to_string RUTA_AC = ''RUTA_AC''"
| "route_name_to_string _ = ''UNKNOWN ROUTE NAME''"

fun route_state_to_string :: "RouteState \<Rightarrow> string" where
  "route_state_to_string FREE = ''FREE''"
| "route_state_to_string WRONG_POINTS = ''WRONG_POINTS''"
| "route_state_to_string RESERVED = ''RESERVED''"
| "route_state_to_string OCCUPIED = ''OCCUPIED''"
| "route_state_to_string REQUESTED = ''REQUESTED''"
| "route_state_to_string INVALID = ''INVALID''"

fun point_state_to_string :: "PointState \<Rightarrow> string" where
  "point_state_to_string LEFT = ''LEFT''"
| "point_state_to_string RIGHT = ''RIGHT''"
| "point_state_to_string UNINTENDED = ''UNINTENDED''"
| "point_state_to_string MOVING = ''MOVING''"
| "point_state_to_string NO_END = ''NO_END''"

fun section_state_to_string :: "SectionState \<Rightarrow> string" where
  "section_state_to_string S_FREE = ''S_FREE''"
| "section_state_to_string S_OCCUPIED = ''S_OCCUPIED''"
| "section_state_to_string S_UNKNOWN = ''S_UNKNOWN''"
| "section_state_to_string S_FAILED = ''S_FAILED''"

fun point_name_to_string :: "PointId \<Rightarrow> string" where
  "point_name_to_string P_01 = ''P_01''"
| "point_name_to_string _ = ''UNKNOWN_POINT_ID''"

fun section_name_to_string :: "SectionId \<Rightarrow> string" where
  "section_name_to_string CV_01 = ''CV_01''"
| "section_name_to_string CV_02 = ''CV_02''"
| "section_name_to_string CV_03 = ''CV_03''"
| "section_name_to_string _ = ''UNKNOWN_SECTION_ID''"

fun decision_name_to_string :: "RouteDecision \<Rightarrow> string" where
  "decision_name_to_string STOP = ''STOP''"
| "decision_name_to_string GO = ''GO''"

fun signal_aspect_to_string :: "SignalAspect \<Rightarrow> string" where
  "signal_aspect_to_string VIA_LIBRE = ''VIA_LIBRE''"
| "signal_aspect_to_string PARADA = ''PARADA''"
| "signal_aspect_to_string ANUNCIO_PARADA = ''ANUNCIO_PARADA''"
| "signal_aspect_to_string ANUNCIO_PRECAUCION = ''ANUNCIO_PRECAUCION''"
| "signal_aspect_to_string REBASE = ''REBASE''"
| "signal_aspect_to_string PARADA_SELECTIVA_N2 = ''PARADA_SELECTIVA_N2''"
| "signal_aspect_to_string REBASE_AUTORIZADO = ''REBASE_AUTORIZADO''"
| "signal_aspect_to_string APAGADA = ''APAGADA''"
| "signal_aspect_to_string (OTHER_ASPECT _) = ''UNKNOWN_SIGNAL_ASPECT''"

text \<open>What \<open>main.c\<close> prints for the code of an execution error and for a luminosity.\<close>

definition execution_error_code_to_string :: "u8 \<Rightarrow> string" where
  "execution_error_code_to_string code =
     (if code = SCI_LS_ICD_EXECUTION_ERROR_LAMP_FAILURE then ''lamp failure''
      else if code = SCI_LS_ICD_EXECUTION_ERROR_UNKNOWN_SIGNAL_VECTOR then ''unknown or incomplete signal vector''
      else if code = SCI_LS_ICD_EXECUTION_ERROR_INVALID_HEADER_RECEIVER_OR_TYPE
      then ''invalid header, receiver or message type''
      else if code = SCI_LS_ICD_EXECUTION_ERROR_INVALID_LUMINOSITY then ''invalid luminosity''
      else ''unknown execution error'')"

fun signal_luminosity_to_string :: "SignalLuminosity \<Rightarrow> string" where
  "signal_luminosity_to_string SIGNAL_LUMINOSITY_NIGHT = ''NIGHT''"
| "signal_luminosity_to_string SIGNAL_LUMINOSITY_DAY = ''DAY''"

lemma execution_error_named: "execution_error_code_to_string e \<noteq> ''unknown execution error'' \<longleftrightarrow> e \<in> {1, 2, 3, 4}"
  by (simp add: execution_error_code_to_string_def SCI_LS_ICD_EXECUTION_ERROR_LAMP_FAILURE_def
      SCI_LS_ICD_EXECUTION_ERROR_UNKNOWN_SIGNAL_VECTOR_def SCI_LS_ICD_EXECUTION_ERROR_INVALID_HEADER_RECEIVER_OR_TYPE_def
      SCI_LS_ICD_EXECUTION_ERROR_INVALID_LUMINOSITY_def)

end
