(* ===== verification/Sci_Properties.thy ===== *)
theory Sci_Properties
  imports Scils
begin

section \<open>Properties of the SCI telegrams and their endpoint\<close>

text \<open>
  Round trips of the telegram codec and of the messages of the SCI-LS contract, and the
  registry of names as the endpoint uses it, each with a witness on a concrete telegram.
\<close>

definition a_telegram :: sci_telegram where
  "a_telegram = \<lparr>t_protocol = SCI_PROTOCOL_LS, t_message_type = [0, 1], t_sender = replicate 20 65,
     t_receiver = replicate 20 66, t_payload = \<lparr>payload_data = [7, 8] @ replicate 83 9, used_bytes = 2\<rparr>\<rparr>"

lemma a_telegram_wf: "wf_telegram a_telegram"
  by (simp add: a_telegram_def wf_telegram_def sci_sizes)

text \<open>C25. Encoding and decoding SCI telegrams are inverse to each other: a well-formed telegram
  decodes to its fields and its used payload bytes, and every byte array the decoder accepts is
  what encoding the decoded telegram gives back, whatever the uninitialised payload bytes are.\<close>

theorem telegram_roundtrip:
  assumes j: "length junk = SCI_PAYLOAD_CAPACITY"
  shows "(wf_telegram t \<longrightarrow> (\<exists>bs t'. sci_encode_telegram t = Some bs \<and> sci_decode_telegram junk bs = Some t' \<and>
       wf_telegram t' \<and> telegram_view t' = telegram_view t)) \<and>
    (sci_decode_telegram junk data = Some u \<longrightarrow> sci_encode_telegram u = Some data)"
proof (intro conjI impI)
  assume t: "wf_telegram t"
  then obtain bs where e: "sci_encode_telegram t = Some bs" using encode_wf by blast
  then show "\<exists>bs t'. sci_encode_telegram t = Some bs \<and> sci_decode_telegram junk bs = Some t' \<and>
      wf_telegram t' \<and> telegram_view t' = telegram_view t"
    using decode_encode_view [OF t j e] decode_fields(1) [OF _ j] by blast
qed (rule encode_decode [OF _ j])

theorem telegram_roundtrip_witness:
  "\<exists>bs t'. sci_encode_telegram a_telegram = Some bs \<and> sci_decode_telegram (replicate 85 3) bs = Some t' \<and>
     wf_telegram t' \<and> telegram_view t' = telegram_view a_telegram"
proof -
  have "length (replicate 85 (3 :: u8)) = SCI_PAYLOAD_CAPACITY" by (simp add: sci_sizes)
  from telegram_roundtrip [OF this, of a_telegram] show ?thesis using a_telegram_wf by blast
qed

text \<open>A version response survives the wire: for every valid pair of names and every allowed
  result, the constructed telegram encodes, the encoding decodes, and parsing the decoded telegram
  succeeds with the version numbers and the result it was built from.\<close>

theorem version_response_roundtrip:
  assumes n: "is_valid_sci_name s" "is_valid_sci_name r" and v: "is_icd_version_result res"
    and j: "length junk = SCI_PAYLOAD_CAPACITY"
  shows "\<exists>t bs t'. sci_ls_icd_create_version_response s r requested supported res = Some (Some t) \<and>
    sci_encode_telegram t = Some bs \<and> sci_decode_telegram junk bs = Some t' \<and>
    sci_ls_icd_parse_version_response (Some t') (Some out) =
      Some (SCI_LS_ICD_PARSE_SUCCESS, Some (out\<lparr>requested_version := requested, supported_version := supported,
                                              icd_result := res\<rparr>))"
proof -
  let ?bs = "[requested, supported, version_check_byte res]"
  obtain b t where t: "sci_create_base_telegram SCI_PROTOCOL_LS (the s) (the r) SCI_MESSAGE_TYPE_VERSION_RESPONSE = Some b"
    "set_payload b ?bs = Some t" "wf_telegram t" "t_protocol t = SCI_PROTOCOL_LS"
    "sci_get_message_type t = SCI_MESSAGE_TYPE_VERSION_RESPONSE" "used_bytes (t_payload t) = 3"
    "take 3 (payload_data (t_payload t)) = ?bs"
    using base_telegram_payload [OF n, of ?bs SCI_PROTOCOL_LS SCI_MESSAGE_TYPE_VERSION_RESPONSE]
    by (auto simp: numeral_3_eq_3)
  have c: "sci_ls_icd_create_version_response s r requested supported res = Some (Some t)"
    using n v t(1,2) by (simp add: sci_ls_icd_create_version_response_def)
  obtain bs where e: "sci_encode_telegram t = Some bs" using encode_wf [OF t(3)] by blast
  obtain t' where d: "sci_decode_telegram junk bs = Some t'" "telegram_view t' = telegram_view t"
    "used_bytes (t_payload t') = 3"
    using decode_encode_view [OF t(3) j e] t(6) by auto
  have f: "t_protocol t' = SCI_PROTOCOL_LS" "sci_get_message_type t' = SCI_MESSAGE_TYPE_VERSION_RESPONSE"
    "take 3 (payload_data (t_payload t')) = ?bs"
    using d t(4-7) by (auto simp: telegram_view_def sci_get_message_type_def)
  have p: "payload_data (t_payload t') ! i = ?bs ! i" if "i < 3" for i
    using f(3) that nth_take [of i 3 "payload_data (t_payload t')"] by simp
  have "sci_ls_icd_parse_version_response (Some t') (Some out) =
      Some (SCI_LS_ICD_PARSE_SUCCESS, Some (out\<lparr>requested_version := requested, supported_version := supported,
                                              icd_result := res\<rparr>))"
    using parse_version_total [OF decode_fields(1) [OF d(1) j], of out] f(1,2) d(3) v p [of 0] p [of 1] p [of 2]
    by (simp add: version_byte_of_result)
  then show ?thesis using c e d(1) by blast
qed

text \<open>C26. The registry behaves as a finite map: when \<open>hashmap_put\<close> reports success the table keeps
  its invariant, the key has the new value and every other key has the value it had, across every
  growth and rehashing of the table.\<close>

theorem hashmap_put_is_update:
  assumes "hm_inv m" and "hashmap_put mem m k v = (MAP_OK, m')"
  shows "hm_inv m' \<and> snd (hashmap_get m' k) = Some v \<and>
    (\<forall>k'. k' \<noteq> k \<longrightarrow> hashmap_get m' k' = hashmap_get m k')"
proof -
  have "hm_inv m'" by (rule names.put_inv [OF assms])
  moreover have g: "snd (hashmap_get m' k') = (if k' = k then Some v else snd (hashmap_get m k'))" for k'
    by (rule names.get_put [OF assms])
  moreover have "hashmap_get m' k' = hashmap_get m k'" if "k' \<noteq> k" for k'
    using g [of k'] names.get_status [of m' k'] names.get_status [of m k'] that by (simp add: prod_eq_iff)
  ultimately show ?thesis by auto
qed

lemma new_table_put: "hashmap_put mem hashmap_new k v =
    (MAP_OK, store_at hashmap_new (hashmap_hash_int (hashmap_new :: 'v hashmap_map) k) k (v :: 'v))"
proof -
  have "hashmap_hash (hashmap_new :: 'v hashmap_map) k = Some (hashmap_hash_int (hashmap_new :: 'v hashmap_map) k)"
    using slot_of_new [of k] by (simp add: hashmap_hash_def slot_of_def) (simp add: hashmap_new_def INITIAL_SIZE_def)
  then show ?thesis by (cases mem) simp_all
qed

theorem hashmap_put_is_update_witness:
  "\<exists>m'. hashmap_put 0 (hashmap_new :: u64 hashmap_map) (cstr ''LS'') 97 = (MAP_OK, m') \<and> hm_inv m' \<and>
    snd (hashmap_get m' (cstr ''LS'')) = Some 97"
  using hashmap_put_is_update [OF hashmap_new_inv new_table_put [of 0 "cstr ''LS''" "97 :: u64"]]
    new_table_put [of 0 "cstr ''LS''" "97 :: u64"] by blast

lemma new_table_get: "hashmap_get (hashmap_new :: 'v hashmap_map) k = (MAP_MISSING, None)"
  using hashmap_new_lookup [of k] hashmap_get_status [of "hashmap_new :: 'v hashmap_map" k]
  by (simp add: hm_lookup_def prod_eq_iff)

lemma register_fresh:
  assumes "length n \<le> SCI_NAME_LENGTH"
  shows "scils_register_sci_name mem (scils_init me) n i =
    Some ((scils_init me)\<lparr>sciNamesToRastaIds := snd (hashmap_put mem hashmap_new (key_of n) i)\<rparr>)"
  by (simp add: scils_register_sci_name_def pad_name_fits [OF assms] name_string_of_padded [OF assms]
      scils_init_def new_table_get)

text \<open>C33. A name registered on a fresh endpoint is reached: a status request to it is handed to the
  RaSTA layer exactly once, for the registered identifier, and decodes to a status request of the
  own name for that receiver; a request to any other name is refused and nothing is sent.\<close>

theorem registered_name_reached:
  assumes l: "length me \<le> SCI_NAME_LENGTH" "length n \<le> SCI_NAME_LENGTH" and j: "length junk = SCI_PAYLOAD_CAPACITY"
    and r: "scils_register_sci_name mem (scils_init me) n i = Some ls"
  shows "(\<exists>d t. scils_send_status_request ls n = Some (SUCCESS, ls\<lparr>sr_sent := [(i, d)]\<rparr>) \<and>
      sci_decode_telegram junk d = Some t \<and> sci_get_message_type t = SCI_MESSAGE_TYPE_STATUS_REQUEST \<and>
      sci_get_name_string (t_sender t) = Some (key_of me) \<and> sci_get_name_string (t_receiver t) = Some (key_of n)) \<and>
    (\<forall>m. length m \<le> SCI_NAME_LENGTH \<longrightarrow> key_of m \<noteq> key_of n \<longrightarrow>
      scils_send_status_request ls m = Some (UNKNOWN_SCI_NAME, ls))"
proof -
  have put: "hashmap_put mem (hashmap_new :: u64 hashmap_map) (key_of n) i =
      (MAP_OK, store_at hashmap_new (hashmap_hash_int (hashmap_new :: u64 hashmap_map) (key_of n)) (key_of n) i)"
    by (rule new_table_put)
  have inv: "hm_inv (sciNamesToRastaIds (scils_init me))" by (simp add: scils_init_def hashmap_new_inv)
  have ok: "fst (hashmap_put mem (sciNamesToRastaIds (scils_init me)) (key_of n) i) = MAP_OK"
    by (simp add: scils_init_def put)
  have ls: "ls = (scils_init me)\<lparr>sciNamesToRastaIds := snd (hashmap_put mem hashmap_new (key_of n) i)\<rparr>"
    using r by (simp add: register_fresh [OF l(2)])
  have f: "sciName ls = me" "sr_sent ls = []" by (simp_all add: ls scils_init_def)
  have look: "hm_lookup (sciNamesToRastaIds ls) k = (if k = key_of n then Some i else None)" for k
    using names.get_put [OF hashmap_new_inv put, of k] by (simp add: ls hm_lookup_def put new_table_get)
  let ?t = "\<lambda>m. \<lparr>t_protocol = SCI_PROTOCOL_LS, t_message_type = shortToBytes SCI_MESSAGE_TYPE_STATUS_REQUEST,
           t_sender = me @ replicate (SCI_NAME_LENGTH - length me) SCI_NAME_PADDING_CHAR,
           t_receiver = m @ replicate (SCI_NAME_LENGTH - length m) SCI_NAME_PADDING_CHAR,
           t_payload = \<lparr>payload_data = replicate 85 0, used_bytes = 0\<rparr>\<rparr>"
  have send: "scils_send_status_request ls m = Some (case hm_lookup (sciNamesToRastaIds ls) (key_of m) of
        Some i \<Rightarrow> (SUCCESS, ls\<lparr>sr_sent := [(i, the (sci_encode_telegram (?t m)))]\<rparr>)
      | None \<Rightarrow> (UNKNOWN_SCI_NAME, ls))" if "length m \<le> SCI_NAME_LENGTH" for m
  proof -
    have c: "sci_create_status_request SCI_PROTOCOL_LS me m = Some (?t m)"
      unfolding sci_create_status_request_def by (rule create_base_fits [OF l(1) that])
    have w: "wf_telegram (?t m)" using create_base_wf c by (simp add: sci_create_status_request_def)
    show ?thesis
      using send_telegram_wf [OF w, of "key_of m" _ ls] name_string_of_padded [OF that] encode_wf [OF w] f
      by (simp add: scils_send_status_request_def c split: option.splits)
  qed
  have w: "wf_telegram (?t n)"
    using create_base_wf [OF create_base_fits [OF l]] by simp
  obtain d where d: "sci_encode_telegram (?t n) = Some d" using encode_wf [OF w] by blast
  obtain t where t: "sci_decode_telegram junk d = Some t" "telegram_view t = telegram_view (?t n)"
    using decode_encode_view [OF w j d] by blast
  have "sci_get_message_type t = SCI_MESSAGE_TYPE_STATUS_REQUEST \<and> sci_get_name_string (t_sender t) = Some (key_of me) \<and>
      sci_get_name_string (t_receiver t) = Some (key_of n)"
    using t(2) name_string_of_padded [OF l(1)] name_string_of_padded [OF l(2)]
    by (simp add: telegram_view_def sci_get_message_type_def)
  then show ?thesis using t(1) d send [OF l(2)] send look by auto
qed

theorem registered_name_reached_witness:
  "\<exists>ls d t. scils_register_sci_name 0 (scils_init (cstr ''IXL'')) (cstr ''LS'') 97 = Some ls \<and>
      scils_send_status_request ls (cstr ''LS'') = Some (SUCCESS, ls\<lparr>sr_sent := [(97, d)]\<rparr>) \<and>
      sci_decode_telegram (replicate 85 3) d = Some t \<and> sci_get_message_type t = SCI_MESSAGE_TYPE_STATUS_REQUEST"
proof -
  have l: "length (cstr ''IXL'') \<le> SCI_NAME_LENGTH" "length (cstr ''LS'') \<le> SCI_NAME_LENGTH"
    and j: "length (replicate 85 (3 :: u8)) = SCI_PAYLOAD_CAPACITY"
    by (simp_all add: cstr_def sci_sizes)
  note r = register_fresh [OF l(2), of 0 "cstr ''IXL''" 97]
  from registered_name_reached [OF l j r] r show ?thesis by blast
qed

end
