(* ===== verification/Sr_Liveness.thy ===== *)
theory Sr_Liveness
  imports Sr_Properties Runs
begin

section \<open>What an open connection does over time\<close>

text \<open>
  Heartbeats, silence and backlog: what the threads of one node do to a connection over any
  sequence of their rounds. The steps are the bodies of the receive, send and heartbeat threads
  and the send service, each run to its end as the code runs them.
\<close>

subsection \<open>Steps of a node on one connection\<close>

datatype local_step =
    Receives RastaPacket
  | Send_Round
  | Heartbeat_Round
  | Hands_Over RastaMessageData

fun node_step :: "sr_env \<Rightarrow> local_step \<Rightarrow> rasta_handle \<times> rasta_connection \<Rightarrow> sr_result" where
  "node_step en (Receives p) (h, c) = receive_known en p h c"
| "node_step en Send_Round (h, c) = send_connection en h c"
| "node_step en Heartbeat_Round (h, c) = heartbeat_connection en h c"
| "node_step en (Hands_Over ms) (h, c) = send_on en ms h c"

text \<open>The only packets of the peer are heartbeats: it has nothing to send.\<close>

fun one_way :: "local_step \<Rightarrow> bool" where
  "one_way (Receives p) \<longleftrightarrow> p_type p = RASTA_TYPE_HB"
| "one_way s \<longleftrightarrow> True"

definition backlog :: "sr_env \<Rightarrow> rasta_handle \<Rightarrow> rasta_connection \<Rightarrow> bool" where
  "backlog en h c \<longleftrightarrow> node_ok en h \<and> fifo_inv (fifo_send c) \<and> current_state c \<noteq> RASTA_CONNECTION_START \<and>
     cfg_max_packet (sending h) < sr_retr_data_available c"

subsection \<open>What the rounds keep\<close>

lemma node_ok_notified: "only_notified h h' \<Longrightarrow> node_ok en h' = node_ok en h"
  by (intro node_ok_fields only_notified_fields)

text \<open>A backlog survives every change that leaves the two queues and the configuration alone.\<close>

lemma backlog_kept:
  assumes "backlog en h c" "node_ok en h'" "rh_config h' = rh_config h" "fifo_send c' = fifo_send c"
    "fifo_retr c' = fifo_retr c" "current_state c' \<noteq> RASTA_CONNECTION_START"
  shows "backlog en h' c'"
  using assms by (simp add: backlog_def sr_retr_data_available_def)

lemma backlog_notified:
  assumes "backlog en h c" "only_notified h h'" "fifo_send c' = fifo_send c" "fifo_retr c' = fifo_retr c"
    "current_state c' \<noteq> RASTA_CONNECTION_START"
  shows "backlog en h' c'"
  using assms only_notified_fields(1) [OF assms(2)] node_ok_notified [OF assms(2)]
  by (intro backlog_kept [OF assms(1)]) (auto simp: backlog_def)

text \<open>The outcome of a step of a node with a backlog.\<close>

definition keeps_backlog :: "sr_env \<Rightarrow> rasta_connection \<Rightarrow> sr_result \<Rightarrow> bool" where
  "keeps_backlog en c r \<longleftrightarrow> (\<exists>h' c'. r = Some (h', c') \<and> backlog en h' c' \<and> fifo_retr c' = fifo_retr c)"

lemma keeps_backlogI:
  "r = Some (h', c') \<Longrightarrow> backlog en h' c' \<Longrightarrow> fifo_retr c' = fifo_retr c \<Longrightarrow> keeps_backlog en c r"
  by (auto simp: keeps_backlog_def)

lemma keeps_same: "backlog en h c \<Longrightarrow> keeps_backlog en c (Some (h, c))"
  by (auto simp: keeps_backlog_def)

lemma keeps_bind:
  assumes "keeps_backlog en c r"
    and "\<And>h' c'. backlog en h' c' \<Longrightarrow> fifo_retr c' = fifo_retr c \<Longrightarrow> keeps_backlog en c' (f (h', c'))"
  shows "keeps_backlog en c (Option.bind r f)"
  using assms by (fastforce simp: keeps_backlog_def)

lemma keeps_close:
  assumes "backlog en h c"
  shows "keeps_backlog en c (sr_close_connection en h c r d)"
proof -
  let ?c = "sr_reset_connection c (ucast (remote_id c)) (general h)"
  obtain h' where h': "sr_close_connection en h c r d = Some (h', ?c)" "node_ok en h'" "rh_config h' = rh_config h"
    using close_ok [of en h c r d] assms by (auto simp: backlog_def)
  show ?thesis
    by (rule keeps_backlogI [OF h'(1) backlog_kept [OF assms h'(2,3)]]) (simp_all add: sr_reset_connection_def)
qed

lemma keeps_notified:
  assumes "backlog en h c" "only_notified h h'" "fifo_send c' = fifo_send c" "fifo_retr c' = fifo_retr c"
    "current_state c' \<noteq> RASTA_CONNECTION_START"
  shows "keeps_backlog en c (Some (h', c'))"
  by (rule keeps_backlogI [OF refl backlog_notified [OF assms] assms(4)])

lemma keeps_send: "backlog en h c \<Longrightarrow> send_connection en h c = Some (h, c)"
  by (auto simp: send_connection_def backlog_def)

text \<open>Heartbeats of the peer.\<close>

lemma keeps_heartbeat_received:
  assumes "backlog en h c"
  shows "keeps_backlog en c (handle_hb en h c p)"
proof (cases "up_or_running c \<and> sr_sn_in_seq c p \<and> sr_cts_in_seq c (sending h) p")
  case True
  then obtain h' c' where "handle_hb en h c p = Some (h', c')" "only_notified h h'" "fifo_send c' = fifo_send c"
    "fifo_retr c' = fifo_retr c" "current_state c' = RASTA_CONNECTION_UP"
    using accepted_heartbeat [of c p h en] by auto
  then show ?thesis using keeps_notified [OF assms] by simp
next
  case False
  have "current_state c \<noteq> RASTA_CONNECTION_START" using assms by (simp add: backlog_def)
  then show ?thesis
    using False keeps_close [OF assms] keeps_same [OF assms] keeps_notified [OF assms notified_fire(2)]
    by (auto simp: handle_hb_def Let_def)
qed

lemma keeps_received:
  assumes "backlog en h c" "p_type p = RASTA_TYPE_HB"
  shows "keeps_backlog en c (receive_known en p h c)"
proof -
  have n: "keeps_backlog en c (Some (h, count_error f c))" for f
    using assms(1) by (intro keeps_notified) (auto simp: count_error_def backlog_def)
  show ?thesis
    using n keeps_heartbeat_received [OF assms(1)] assms(2) by (simp add: receive_known_def dispatch_def rasta_types)
qed

text \<open>Heartbeats of the node itself, and its timeout.\<close>

lemma keeps_own_heartbeat:
  assumes "backlog en h c"
  shows "keeps_backlog en c (Option.bind (send_Heartbeat en h c) (\<lambda>(h, c).
    let (now, h) = cur_timestamp en h in Some (h, c\<lparr>ts_last_message := now\<rparr>)))"
proof -
  obtain h' now where h': "send_Heartbeat en h c = Some (h', c\<lparr>sn_t := sn_t c + 1, ts_last_message := now\<rparr>)"
    "node_ok en h'" "only_sent h h'"
    using heartbeat_sent [of en h c] assms by (auto simp: backlog_def)
  have "backlog en (h'\<lparr>rh_clock_reads := n\<rparr>) (c\<lparr>sn_t := sn_t c + 1, ts_last_message := t\<rparr>)" for n t
    using h'(2) only_sent_fields(1) [OF h'(3)] assms by (intro backlog_kept [OF assms]) (auto simp: backlog_def)
  then show ?thesis using h'(1) by (auto simp: cur_timestamp_def keeps_backlog_def)
qed

lemma keeps_heartbeat_round:
  assumes "backlog en h c"
  shows "keeps_backlog en c (heartbeat_connection en h c)"
proof -
  obtain t h1 where 1: "cur_timestamp en h = (t, h1)" by fastforce
  have b: "backlog en h1 c" and n: "only_notified h h1"
    using 1 assms by (auto simp: cur_timestamp_def notified_clock backlog_def)
  have to: "backlog en (fire_on_hearbeat_timeout c h1) c"
    using assms by (intro backlog_notified [OF b notified_fire(5)]) (auto simp: backlog_def)
  have first: "keeps_backlog en c (if timer_expired t c
      then sr_close_connection en (fire_on_hearbeat_timeout c h1) c RASTA_DISC_REASON_TIMEOUT 0 else Some (h1, c))"
    using keeps_close [OF to] keeps_same [OF b] by simp
  show ?thesis
    unfolding heartbeat_connection_def 1
    using keeps_bind [OF first, of "\<lambda>(h, c). if heartbeat_due t (sending h) c
        then Option.bind (send_Heartbeat en h c) (\<lambda>(h, c). let (now, h) = cur_timestamp en h in Some (h, c\<lparr>ts_last_message := now\<rparr>))
        else Some (h, c)"] keeps_own_heartbeat keeps_same keeps_same [OF assms]
    by simp
qed

text \<open>The send service.\<close>

lemma push_all_inv:
  assumes "fifo_inv f"
  shows "\<exists>f'. push_all ms f = Some f' \<and> fifo_inv f'"
  using push_all_spec [OF assms, of ms] by auto

lemma keeps_hand_over:
  assumes "backlog en h c"
  shows "keeps_backlog en c (send_on en ms h c)"
proof -
  obtain f where f: "push_all ms (fifo_send c) = Some f" "fifo_inv f"
    using push_all_inv assms by (meson backlog_def)
  have queued: "backlog en h (c\<lparr>fifo_send := f\<rparr>)"
    using assms f(2) by (simp add: backlog_def sr_retr_data_available_def)
  let ?g = "h\<lparr>rh_clock_reads := rh_clock_reads h + 1\<rparr>"
  have ok: "node_ok en h" using assms by (simp add: backlog_def)
  obtain p where p: "createDisconnectionRequest (the_indet en) (remote_id c) (my_id c) (sn_t c) (cs_t c)
      (se_clock en (rh_clock_reads h)) (ts_r c) \<lparr>dd_details = 0, dd_reason = RASTA_DISC_REASON_SERVICENOTALLOWED\<rparr>
      (rh_hashing_context h) = Some p" "wf_packet (rh_hashing_context h) p" "unat (p_length p) < 65000"
    using disconnection_packet [of "rh_hashing_context h" "the_indet en"] ok by (fastforce simp: node_ok_def)
  obtain h1 where h1: "mux_send en ?g p = Some h1" "node_ok en h1" "only_sent ?g h1"
    using node_send [of en ?g p] ok p by auto
  have d: "send_DisconnectionRequest en h c RASTA_DISC_REASON_SERVICENOTALLOWED 0 = Some h1"
    using p(1) h1(1) ok by (simp add: send_DisconnectionRequest_def cur_timestamp_def node_ok_def)
  have closed: "backlog en (fire_on_connection_state_change x h1) (c\<lparr>current_state := RASTA_CONNECTION_CLOSED\<rparr>)" for x
    using h1(2) only_sent_fields(1) [OF h1(3)] by (intro backlog_kept [OF assms]) simp_all
  have "keeps_backlog en c (Some (fire_on_connection_state_change x h, c\<lparr>current_state := RASTA_CONNECTION_CLOSED\<rparr>))" for x
    by (intro keeps_notified [OF assms notified_fire(2)]) simp_all
  then show ?thesis
    using f(1) d keeps_same [OF assms] keeps_backlogI [OF refl queued] keeps_backlogI [OF refl closed]
    by (simp add: send_on_def Let_def)
qed

lemma keeps_step: "backlog en h c \<Longrightarrow> one_way x \<Longrightarrow> keeps_backlog en c (node_step en x (h, c))"
  by (cases x) (simp_all add: keeps_received keeps_heartbeat_round keeps_hand_over keeps_send keeps_same)

interpretation stalled: simulation "node_step en" "\<lambda>(h, c). backlog en h c" "\<lambda>(h, c). fifo_retr c" "\<lambda>_ q. q"
  "\<lambda>x _. one_way x" for en
proof (unfold_locales, clarify)
  fix h c x
  assume "backlog en h c" "one_way x"
  then obtain h' c' where "node_step en x (h, c) = Some (h', c')" "backlog en h' c'" "fifo_retr c' = fifo_retr c"
    using keeps_step by (fastforce simp: keeps_backlog_def)
  then show "\<exists>s'. node_step en x (h, c) = Some s' \<and> (case s' of (h, c) \<Rightarrow> backlog en h c) \<and>
      (case s' of (h, c) \<Rightarrow> fifo_retr c) = fifo_retr c"
    by (intro exI [of _ "(h', c')"]) simp
qed

subsection \<open>How the backlog comes about\<close>

text \<open>An open connection with \<open>k\<close> unconfirmed packets and nothing waiting to be sent.\<close>

definition unconfirmed :: "sr_env \<Rightarrow> rasta_handle \<Rightarrow> rasta_connection \<Rightarrow> nat \<Rightarrow> bool" where
  "unconfirmed en h c k \<longleftrightarrow> node_ok en h \<and> queues_ok h c \<and> current_state c = RASTA_CONNECTION_UP \<and>
     fifo_abs (fifo_send c) = [] \<and> length (fifo_abs (fifo_retr c)) = k \<and>
     cfg_max_packet (sending h) \<le> f_max_size (fifo_send c) \<and> cfg_max_packet (sending h) < f_max_size (fifo_retr c)"

abbreviation sends :: "RastaMessageData \<Rightarrow> local_step list" where
  "sends ms \<equiv> [Hands_Over ms, Send_Round]"

lemma one_more_unconfirmed:
  assumes u: "unconfirmed en h c k" and k: "k \<le> unat (cfg_max_packet (sending h))"
    and ms: "ms \<noteq> []" "length ms \<le> unat (cfg_max_packet (sending h))" "length (message_bytes ms) < 64000"
  shows "\<exists>h' c'. run_steps (node_step en) (sends ms) (h, c) = Some (h', c') \<and> rh_config h' = rh_config h \<and>
    unconfirmed en h' c' (Suc k)"
proof -
  note u' = u [unfolded unconfirmed_def]
  have room: "length ms \<le> unat (f_max_size (fifo_send c))" using u' ms(2) by (meson le_trans word_le_nat_alt)
  obtain f where f: "push_all ms (fifo_send c) = Some f" "fifo_inv f" "fifo_abs f = ms" "f_max_size f = f_max_size (fifo_send c)"
    using push_all_spec [of "fifo_send c" ms] u' room by (auto simp: queues_ok_def bounded_append_def)
  let ?c = "c\<lparr>fifo_send := f\<rparr>"
  have s: "send_on en ms h c = Some (h, ?c)" using u' ms(2) f(1) by (simp add: send_on_def)
  have q: "queues_ok h ?c" using u' f(2) by (simp add: queues_ok_def)
  obtain h' c' data where t: "send_connection en h ?c = Some (h', c')" "only_sent h h'" "node_ok en h'"
    "fifo_abs (fifo_send c') = []" "current_state c' = RASTA_CONNECTION_UP" "queues_ok h c'"
    "fifo_abs (fifo_retr c') = bounded_append (unat (f_max_size (fifo_retr c))) (fifo_abs (fifo_retr c))
      [packet_bytes (rh_hashing_context h) data]"
    using send_connection_ok [OF _ q, of en "length ms"] u' k ms f(3) by auto
  have cfg: "rh_config h' = rh_config h" "rh_hashing_context h' = rh_hashing_context h" using only_sent_fields(1,3) [OF t(2)] by simp_all
  have "k < unat (f_max_size (fifo_retr c))" using u' k by (simp add: word_less_nat_alt)
  then have "length (fifo_abs (fifo_retr c')) = Suc k" using t(7) u' by simp
  then have "unconfirmed en h' c' (Suc k)"
    using u' t(3-6) cfg send_keeps(5,6) [OF t(1)] f(4) by (simp add: unconfirmed_def queues_ok_def)
  then show ?thesis using s t(1) cfg(1) by (intro exI [of _ h'] exI [of _ c']) simp
qed

lemma many_unconfirmed:
  assumes "unconfirmed en h c k" "k + n \<le> Suc (unat (cfg_max_packet (sending h)))"
    and ms: "ms \<noteq> []" "length ms \<le> unat (cfg_max_packet (sending h))" "length (message_bytes ms) < 64000"
  shows "\<exists>h' c'. run_steps (node_step en) (concat (replicate n (sends ms))) (h, c) = Some (h', c') \<and> rh_config h' = rh_config h \<and>
    unconfirmed en h' c' (k + n)"
  using assms
proof (induction n arbitrary: h c k)
  case (Suc n)
  obtain h1 c1 where 1: "run_steps (node_step en) (sends ms) (h, c) = Some (h1, c1)" "rh_config h1 = rh_config h"
    "unconfirmed en h1 c1 (Suc k)"
    using one_more_unconfirmed [OF Suc.prems(1) _ Suc.prems(3-5)] Suc.prems(2) by auto
  obtain h2 c2 where 2: "run_steps (node_step en) (concat (replicate n (sends ms))) (h1, c1) = Some (h2, c2)" "rh_config h2 = rh_config h1"
    "unconfirmed en h2 c2 (Suc k + n)"
    using Suc.IH [OF 1(3)] Suc.prems 1(2) by auto
  have "run_steps (node_step en) (sends ms @ concat (replicate n (sends ms))) (h, c) = Some (h2, c2)"
    using 1(1) 2(1) by (simp only: run_steps_append) simp
  then show ?case using 1(2) 2(2,3) by (intro exI [of _ h2] exI [of _ c2]) simp
qed simp

lemma backlog_reached:
  assumes "unconfirmed en h c (Suc (unat (cfg_max_packet (sending h))))"
  shows "backlog en h c"
proof -
  have "unat (fifo_get_size (fifo_retr c)) = Suc (unat (cfg_max_packet (sending h)))"
    using assms by (simp add: unconfirmed_def queues_ok_def fifo_len)
  then show ?thesis
    using assms by (simp add: backlog_def unconfirmed_def queues_ok_def sr_retr_data_available_def word_less_nat_alt)
qed

lemma same_ids_None:
  assumes "map rc_associated_id (mux_connected_channels m') = map rc_associated_id (mux_connected_channels m)"
    and "redundancy_mux_get_channel m rid = None"
  shows "redundancy_mux_get_channel m' rid = None"
proof -
  have "rid \<notin> set (map rc_associated_id (mux_connected_channels m))" using assms(2) by (auto simp: get_channel_None)
  then show ?thesis using assms(1) by (auto simp: get_channel_None simp del: set_map) (metis imageI list.set_map)
qed

subsection \<open>Properties\<close>



text \<open>C38. A heartbeat moves the window past packets that are on their way: after an accepted heartbeat, which
  confirms no more than the peer has received, the only confirmed number accepted from the peer is
  that of the last packet sent. A data packet of the peer that is intact, in sequence and confirms
  any earlier packet is counted as an error and discarded.\<close>

theorem heartbeat_discards_late_confirmation:
  assumes "up_or_running c" "sr_sn_in_seq c p" "sr_cts_in_seq c (sending h) p"
  shows "\<exists>h' c'. handle_hb en h c p = Some (h', c') \<and> current_state c' = RASTA_CONNECTION_UP \<and>
    (\<forall>q. p_type q = RASTA_TYPE_DATA \<and> p_checksum_correct q \<and> p_sender_id q = remote_id c \<and> p_receiver_id q = my_id c \<and>
       p_sequence_number q = sn_r c' \<and> p_confirmed_sequence_number q \<noteq> sn_t c - 1 \<longrightarrow>
       receive_known en q h' c' = Some (h', c'\<lparr>errors := (errors c)\<lparr>err_cs := err_cs (errors c) + 1\<rparr>\<rparr>))"
proof -
  obtain h' c' where 1: "handle_hb en h c p = Some (h', c')" "current_state c' = RASTA_CONNECTION_UP" "cs_r c' = sn_t c - 1"
    "sn_t c' = sn_t c" "my_id c' = my_id c" "remote_id c' = remote_id c" "errors c' = errors c"
    using accepted_heartbeat [OF assms, of en] by auto
  have one: "(x :: u32) < 1 \<longleftrightarrow> x = 0" for x
    by (simp add: word_less_nat_alt unat_eq_zero)
  have "\<not> sr_cs_valid c' q" if "p_type q = RASTA_TYPE_DATA" "p_confirmed_sequence_number q \<noteq> sn_t c - 1" for q
    using that 1(3,4) one by (auto simp: sr_cs_valid_def rasta_types)
  then show ?thesis
    using 1 by (auto simp: receive_known_def rasta_types sr_message_authentic_def sr_sn_range_valid_def count_error_def)
qed

theorem heartbeat_discards_late_confirmation_witness:
  "\<exists>h' c'. handle_hb demo_env (demo_node 97 96 []) (demo_connection 97 96 710 500) (demo_control RASTA_TYPE_HB) = Some (h', c') \<and>
    receive_known demo_env ((demo_control RASTA_TYPE_DATA)\<lparr>p_sequence_number := sn_r c', p_confirmed_sequence_number := 708\<rparr>) h' c' =
      Some (h', c'\<lparr>errors := (errors (demo_connection 97 96 710 500))\<lparr>err_cs := err_cs (errors (demo_connection 97 96 710 500)) + 1\<rparr>\<rparr>)"
proof -
  have "up_or_running (demo_connection 97 96 710 500)" "sr_sn_in_seq (demo_connection 97 96 710 500) (demo_control RASTA_TYPE_HB)"
    "sr_cts_in_seq (demo_connection 97 96 710 500) (sending (demo_node 97 96 [])) (demo_control RASTA_TYPE_HB)"
    by (simp_all add: up_or_running_def sr_sn_in_seq_def sr_cts_in_seq_def demo_control_def rasta_types Let_def)
  note hb = heartbeat_discards_late_confirmation [OF this, of demo_env]
  obtain h' c' where hb: "handle_hb demo_env (demo_node 97 96 []) (demo_connection 97 96 710 500) (demo_control RASTA_TYPE_HB) = Some (h', c')"
    and a: "\<forall>q. p_type q = RASTA_TYPE_DATA \<and> p_checksum_correct q \<and> p_sender_id q = remote_id (demo_connection 97 96 710 500) \<and>
       p_receiver_id q = my_id (demo_connection 97 96 710 500) \<and> p_sequence_number q = sn_r c' \<and>
       p_confirmed_sequence_number q \<noteq> sn_t (demo_connection 97 96 710 500) - 1 \<longrightarrow>
       receive_known demo_env q h' c' = Some (h', c'\<lparr>errors := (errors (demo_connection 97 96 710 500))\<lparr>err_cs := err_cs (errors (demo_connection 97 96 710 500)) + 1\<rparr>\<rparr>)"
    using hb by (elim exE conjE) (rule that)
  have "receive_known demo_env ((demo_control RASTA_TYPE_DATA)\<lparr>p_sequence_number := sn_r c', p_confirmed_sequence_number := 708\<rparr>) h' c' =
      Some (h', c'\<lparr>errors := (errors (demo_connection 97 96 710 500))\<lparr>err_cs := err_cs (errors (demo_connection 97 96 710 500)) + 1\<rparr>\<rparr>)"
    by (rule a [rule_format]) (simp add: demo_control_def)
  with hb show ?thesis by (intro exI conjI)
qed



end
