(* ===== verification/Pdi_Runs.thy ===== *)
theory Pdi_Runs
  imports Ixl_Demo Runs
begin

section \<open>The process data interface over many messages\<close>

text \<open>
  The states of the dialogue in the order of the enumeration, and what any sequence of received
  messages can do between two actions of the main thread: the handler follows the abstract dialogue
  and the state only advances.
\<close>

subsection \<open>The order of the states\<close>

text \<open>The value the enumeration gives a state; the code compares states for equality only.\<close>

primrec pdi_value :: "CloudIxlPdiState \<Rightarrow> nat" where
  "pdi_value PDI_DISCONNECTED = 0"
| "pdi_value PDI_WAIT_RASTA_HANDSHAKE = 1"
| "pdi_value PDI_WAIT_VERSION_RESPONSE = 2"
| "pdi_value PDI_WAIT_INITIALISATION_START = 3"
| "pdi_value PDI_RECEIVING_INITIAL_STATUS = 4"
| "pdi_value PDI_ESTABLISHED = 5"
| "pdi_value PDI_WAIT_CONFIRMATION = 6"
| "pdi_value PDI_COMMAND_CONFIRMED = 7"
| "pdi_value PDI_COMMAND_MISMATCH = 8"
| "pdi_value PDI_COMMAND_REJECTED = 9"
| "pdi_value PDI_FAILED = 10"

lemma pdi_value_inj: "pdi_value s = pdi_value t \<longleftrightarrow> s = t"
  by (cases s; cases t) simp_all

lemma pdi_value_max: "pdi_value s \<le> 10"
  by (cases s) simp_all

instantiation CloudIxlPdiState :: "{linorder, order_top, order_bot}"
begin

definition less_eq_CloudIxlPdiState :: "CloudIxlPdiState \<Rightarrow> CloudIxlPdiState \<Rightarrow> bool" where
  "less_eq_CloudIxlPdiState s t \<longleftrightarrow> pdi_value s \<le> pdi_value t"

definition less_CloudIxlPdiState :: "CloudIxlPdiState \<Rightarrow> CloudIxlPdiState \<Rightarrow> bool" where
  "less_CloudIxlPdiState s t \<longleftrightarrow> pdi_value s < pdi_value t"

definition top_CloudIxlPdiState :: CloudIxlPdiState where
  "top_CloudIxlPdiState = PDI_FAILED"

definition bot_CloudIxlPdiState :: CloudIxlPdiState where
  "bot_CloudIxlPdiState = PDI_DISCONNECTED"

instance
proof
  show "s \<le> (top :: CloudIxlPdiState)" for s by (cases s) (simp_all add: less_eq_CloudIxlPdiState_def top_CloudIxlPdiState_def)
qed (auto simp: less_eq_CloudIxlPdiState_def less_CloudIxlPdiState_def bot_CloudIxlPdiState_def pdi_value_inj)

end

lemmas pdi_order = less_eq_CloudIxlPdiState_def less_CloudIxlPdiState_def

lemma failed_top: "PDI_FAILED \<le> s \<longleftrightarrow> s = PDI_FAILED"
  using top_unique [of s] by (simp add: top_CloudIxlPdiState_def)

subsection \<open>One message after the other\<close>

text \<open>A received message, with what the two decoder buffers held before it was decoded.\<close>

fun receive_message :: "u8 list \<times> u8 list \<times> u8 list \<Rightarrow> pdi_t \<Rightarrow> pdi_t option" where
  "receive_message (junk, junk2, msg) p = process_received_message junk junk2 msg p"

definition buffers_ok :: "u8 list \<times> u8 list \<times> u8 list \<Rightarrow> bool" where
  "buffers_ok x \<longleftrightarrow> length (fst x) = 85 \<and> length (fst (snd x)) = 85"

type_synonym dialogue = "CloudIxlPdiState \<times> u8 list \<times> (u64 \<times> u8 list) list"

definition dialogue_of :: "pdi_t \<Rightarrow> dialogue" where
  "dialogue_of p = (pdi_state p, expected_bytes p, sent p)"

fun dialogue_step :: "u8 list \<times> u8 list \<times> u8 list \<Rightarrow> dialogue \<Rightarrow> dialogue" where
  "dialogue_step (junk, junk2, msg) (s, e, out) =
     (ev_next (s = PDI_WAIT_CONFIRMATION) e (classify msg) s, e, out @ map (Pair OC_RASTA_ID) (ev_sends (classify msg) s))"

interpretation dialogue: simulation receive_message pdi_ok dialogue_of dialogue_step "\<lambda>x _. buffers_ok x"
proof unfold_locales
  fix p x assume "pdi_ok p" "buffers_ok x"
  then show "\<exists>p'. receive_message x p = Some p' \<and> pdi_ok p' \<and> dialogue_of p' = dialogue_step x (dialogue_of p)"
    by (cases x) (simp add: buffers_ok_def process_spec dialogue_of_def ev_apply_sent)
qed

lemma ev_next_advances: "s \<le> ev_next (s = PDI_WAIT_CONFIRMATION) e ev s"
  using pdi_value_max [of s] by (cases ev) (auto simp: less_eq_CloudIxlPdiState_def)

text \<open>
  From the start of a sequence: the state has not fallen back, and a status request was sent at most
  once, on the way from the wait for the version response.
\<close>

definition advanced :: "dialogue \<Rightarrow> dialogue \<Rightarrow> bool" where
  "advanced a b \<longleftrightarrow> fst a \<le> fst b \<and> fst (snd b) = fst (snd a) \<and>
     (snd (snd b) = snd (snd a) \<or> snd (snd b) = snd (snd a) @ [(OC_RASTA_ID, STATUS_REQUEST_BYTES)] \<and>
        fst a \<le> PDI_WAIT_VERSION_RESPONSE \<and> PDI_WAIT_VERSION_RESPONSE < fst b)"

lemma advanced_step:
  assumes "advanced a b"
  shows "advanced a (dialogue_step x b)"
proof -
  obtain j j2 msg s e out s0 e0 out0 where [simp]: "x = (j, j2, msg)" "b = (s, e, out)" "a = (s0, e0, out0)"
    by (cases x; cases b; cases a) auto
  let ?t = "ev_next (s = PDI_WAIT_CONFIRMATION) e (classify msg) s"
  have le: "s \<le> ?t" by (rule ev_next_advances)
  show ?thesis
  proof (cases "classify msg = Ev_Version True \<and> s = PDI_WAIT_VERSION_RESPONSE")
    case True
    then have "\<not> PDI_WAIT_VERSION_RESPONSE < s" "PDI_WAIT_VERSION_RESPONSE < ?t" by (simp_all add: pdi_order)
    then show ?thesis using assms le True by (auto simp: advanced_def ev_sends_def pdi_order)
  next
    case False
    then have "ev_sends (classify msg) s = []" by (auto simp: ev_sends_def)
    then show ?thesis using assms le by (auto simp: advanced_def intro: order_trans less_le_trans)
  qed
qed

subsection \<open>Properties\<close>

text \<open>C7. Received messages only advance the dialogue: whatever sequence of messages arrives between two actions of the
  process, each is handled with defined behaviour, the state never falls back in the order of the
  enumeration, so a failed dialogue stays failed, the awaited payload is kept, and at most one
  message is sent: the status request, by a dialogue that had not got past the wait for the
  version response and now has.\<close>

theorem messages_only_advance:
  assumes "pdi_ok p" "list_all buffers_ok xs"
  shows "\<exists>p'. run_steps receive_message xs p = Some p' \<and> pdi_state p \<le> pdi_state p' \<and>
    (pdi_state p = PDI_FAILED \<longrightarrow> pdi_state p' = PDI_FAILED) \<and> expected_bytes p' = expected_bytes p \<and>
    (sent p' = sent p \<or> sent p' = sent p @ [(OC_RASTA_ID, STATUS_REQUEST_BYTES)] \<and>
       pdi_state p \<le> PDI_WAIT_VERSION_RESPONSE \<and> PDI_WAIT_VERSION_RESPONSE < pdi_state p')"
proof -
  have "allowed_run (\<lambda>x _. buffers_ok x) dialogue_step xs (dialogue_of p)" using assms(2) by simp
  then have "\<exists>p'. run_steps receive_message xs p = Some p' \<and> pdi_ok p' \<and> advanced (dialogue_of p) (dialogue_of p')"
    by (rule dialogue.run_keeps [OF assms(1)]) (simp add: advanced_def, rule advanced_step)
  then obtain p' where p': "run_steps receive_message xs p = Some p'" "advanced (dialogue_of p) (dialogue_of p')" by blast
  have "pdi_state p = PDI_FAILED \<longrightarrow> pdi_state p' = PDI_FAILED"
    using p'(2) failed_top [of "pdi_state p'"] unfolding advanced_def dialogue_of_def fst_conv snd_conv by metis
  then show ?thesis using p' unfolding advanced_def dialogue_of_def fst_conv snd_conv by blast
qed

text \<open>Version accepted, a status report out of order, and a late version response.\<close>

theorem messages_only_advance_witness:
  "\<exists>p'. run_steps receive_message (map (\<lambda>msg. (replicate 85 0, replicate 85 7, msg))
      [oc_msg SCI_MESSAGE_TYPE_VERSION_RESPONSE [5, 5, 2], oc_msg SCI_MESSAGE_TYPE_STATUS_FINISH [],
       oc_msg SCI_MESSAGE_TYPE_VERSION_RESPONSE [5, 5, 2]])
      (set_pdi_state PDI_WAIT_VERSION_RESPONSE (sys_pdi demo_start)) = Some p' \<and>
    PDI_WAIT_VERSION_RESPONSE \<le> pdi_state p' \<and> length (sent p') \<le> 1"
  (is "\<exists>p'. run_steps _ ?xs ?p = _ \<and> _")
proof -
  have "pdi_ok (sys_pdi demo_start)"
    using demo_reachable_inv [OF reach_init] demo_start_running by (simp add: sys_inv_def)
  then have ok: "pdi_ok ?p" by simp
  have b: "list_all buffers_ok ?xs" by (simp add: buffers_ok_def)
  have out: "pdi_state ?p = PDI_WAIT_VERSION_RESPONSE" "sent ?p = []"
    using start_total(3) [OF demo_start_some demo_start_running] by simp_all
  obtain p' where p': "run_steps receive_message ?xs ?p = Some p'" "pdi_state ?p \<le> pdi_state p'"
    "sent p' = sent ?p \<or> sent p' = sent ?p @ [(OC_RASTA_ID, STATUS_REQUEST_BYTES)]"
    using messages_only_advance [OF ok b] by blast
  have "length (sent p') \<le> 1" using p'(3) unfolding out by (elim disjE) simp_all
  with p'(1,2) show ?thesis unfolding out by blast
qed

end
