(* ===== verification/Rmemory.thy ===== *)
theory Rmemory
  imports C_Text
begin

section \<open>The memory wrappers\<close>

text \<open>
  \<open>rmemory.c\<close>: the wrappers over the allocator and the block functions of the C library through which
  the protocol layers use memory. Memory is a map from the blocks in use to their bytes; a pointer
  names a block and an offset, or is null. What the allocator answers (no memory, or a block that is
  not in use) and what new bytes hold are parameters. The sizes are \<open>unsigned int\<close>: a caller that
  passes a longer size passes its low 32 bits. The components model the effect of these functions
  on one array with \<open>buf_read\<close> and \<open>buf_write\<close>; the lemmas here justify that.
\<close>

type_synonym memory = "nat \<Rightarrow> u8 list option"
type_synonym ptr = "(nat \<times> nat) option"

text \<open>The answer of the allocator is one for this memory when it is no block in use.\<close>

definition fresh_answer :: "memory \<Rightarrow> nat option \<Rightarrow> bool" where
  "fresh_answer m answer \<longleftrightarrow> (\<forall>a. answer = Some a \<longrightarrow> m a = None)"

subsection \<open>Blocks\<close>

definition rmalloc :: "nat option \<Rightarrow> (nat \<Rightarrow> u8) \<Rightarrow> u32 \<Rightarrow> memory \<Rightarrow> ptr \<times> memory" where
  "rmalloc answer junk sz m =
     (case answer of
        None \<Rightarrow> (None, m)
      | Some a \<Rightarrow> (Some (a, 0), m(a := Some (map junk [0..<unat sz]))))"

text \<open>Only the start of a block in use may be released; releasing null does nothing.\<close>

definition rfree :: "ptr \<Rightarrow> memory \<Rightarrow> memory option" where
  "rfree element m =
     (case element of
        None \<Rightarrow> Some m
      | Some (a, i) \<Rightarrow> if i = 0 \<and> m a \<noteq> None then Some (m(a := None)) else None)"

text \<open>
  The block may move; its bytes up to the smaller size come along. Size 0 releases the block, as
  glibc does. When there is no memory the old block stays.
\<close>

definition rrealloc :: "nat option \<Rightarrow> (nat \<Rightarrow> u8) \<Rightarrow> ptr \<Rightarrow> u32 \<Rightarrow> memory \<Rightarrow> (ptr \<times> memory) option" where
  "rrealloc answer junk element sz m =
     (case element of
        None \<Rightarrow> Some (rmalloc answer junk sz m)
      | Some (a, i) \<Rightarrow>
          if i \<noteq> 0 then None
          else do {
            xs \<leftarrow> m a;
            if sz = 0 then Some (None, m(a := None))
            else case answer of
                None \<Rightarrow> Some (None, m)
              | Some b \<Rightarrow>
                  Some (Some (b, 0), (m(a := None))(b := Some (take (unat sz) xs @ map junk [length xs..<unat sz]))) })"

subsection \<open>Bytes\<close>

definition mem_read :: "memory \<Rightarrow> ptr \<Rightarrow> nat \<Rightarrow> u8 list option" where
  "mem_read m p n = do { (a, i) \<leftarrow> p; xs \<leftarrow> m a; buf_read xs i n }"

definition mem_write :: "memory \<Rightarrow> ptr \<Rightarrow> u8 list \<Rightarrow> memory option" where
  "mem_write m p ys = do { (a, i) \<leftarrow> p; xs \<leftarrow> m a; zs \<leftarrow> buf_write xs i ys; Some (m(a := Some zs)) }"

definition overlap :: "ptr \<Rightarrow> ptr \<Rightarrow> nat \<Rightarrow> nat \<Rightarrow> bool" where
  "overlap p q k n \<longleftrightarrow> (case (p, q) of
     (Some (a, i), Some (b, j)) \<Rightarrow> a = b \<and> i < j + n \<and> j < i + k | _ \<Rightarrow> False)"

definition rmemcpy :: "ptr \<Rightarrow> ptr \<Rightarrow> u32 \<Rightarrow> memory \<Rightarrow> (ptr \<times> memory) option" where
  "rmemcpy dest src n m =
     (if overlap dest src (unat n) (unat n) then None
      else do { ys \<leftarrow> mem_read m src (unat n); m \<leftarrow> mem_write m dest ys; Some (dest, m) })"

definition rmemset :: "ptr \<Rightarrow> u32 \<Rightarrow> u32 \<Rightarrow> memory \<Rightarrow> (ptr \<times> memory) option" where
  "rmemset dest ch n m = do { m \<leftarrow> mem_write m dest (replicate (unat n) (ucast ch)); Some (dest, m) }"

text \<open>The string a pointer points to; without a terminator it is read past the end of its block.\<close>

definition string_at :: "memory \<Rightarrow> ptr \<Rightarrow> cstring option" where
  "string_at m p = do { (a, i) \<leftarrow> p; xs \<leftarrow> m a; if i \<le> length xs then string_in (drop i xs) else None }"

definition advance :: "ptr \<Rightarrow> nat \<Rightarrow> ptr" where
  "advance p k = map_option (\<lambda>(a, i). (a, i + k)) p"

definition rstrcpy :: "ptr \<Rightarrow> ptr \<Rightarrow> memory \<Rightarrow> memory option" where
  "rstrcpy dest src m =
     do { s \<leftarrow> string_at m src;
          if overlap dest src (length s + 1) (length s + 1) then None else mem_write m dest (s @ [0]) }"

definition rstrcat :: "ptr \<Rightarrow> ptr \<Rightarrow> memory \<Rightarrow> memory option" where
  "rstrcat dest src m = do { d \<leftarrow> string_at m dest; rstrcpy (advance dest (length d)) src m }"

text \<open>The sign of the difference of the first two bytes that differ.\<close>

fun compare_bytes :: "u8 list \<Rightarrow> u8 list \<Rightarrow> int" where
  "compare_bytes (x # xs) (y # ys) = (if x = y then compare_bytes xs ys else if x < y then - 1 else 1)"
| "compare_bytes _ _ = 0"

definition rmemcmp :: "ptr \<Rightarrow> ptr \<Rightarrow> u32 \<Rightarrow> memory \<Rightarrow> int option" where
  "rmemcmp a b len m = do { xs \<leftarrow> mem_read m a (unat len); ys \<leftarrow> mem_read m b (unat len); Some (compare_bytes xs ys) }"

subsection \<open>What the components rely on\<close>

lemma mem_write_reads:
  assumes "mem_write m p ys = Some m'"
  shows "mem_read m' p (length ys) = Some ys" and "\<And>b. fst (the p) \<noteq> b \<Longrightarrow> m' b = m b"
proof -
  obtain a i xs zs where "p = Some (a, i)" "m a = Some xs" "buf_write xs i ys = Some zs" "m' = m(a := Some zs)"
    using assms by (auto simp: mem_write_def bind_Some_iff split: prod.splits)
  then show "mem_read m' p (length ys) = Some ys" and "\<And>b. fst (the p) \<noteq> b \<Longrightarrow> m' b = m b"
    by (simp_all add: mem_read_def buf_write_read)
qed

text \<open>Copying between two blocks is a checked read and a checked write.\<close>

lemma rmemcpy_blocks:
  assumes "a \<noteq> b" "m a = Some xs" "m b = Some ys"
  shows "rmemcpy (Some (a, i)) (Some (b, j)) n m =
    do { zs \<leftarrow> buf_read ys j (unat n); xs' \<leftarrow> buf_write xs i zs; Some (Some (a, i), m(a := Some xs')) }"
  using assms by (cases "buf_read ys j (unat n)") (simp_all add: rmemcpy_def overlap_def mem_read_def mem_write_def bind_assoc)

lemma rmemcpy_copies:
  assumes "rmemcpy d s n m = Some (p, m')"
  shows "p = d" and "mem_read m' d (unat n) = mem_read m s (unat n)"
proof -
  obtain ys where ys: "mem_read m s (unat n) = Some ys" "mem_write m d ys = Some m'" "p = d"
    using assms by (auto simp: rmemcpy_def bind_Some_iff split: if_splits)
  show "p = d" by (rule ys(3))
  have "length ys = unat n" using ys(1) by (auto simp: mem_read_def bind_Some_iff dest: buf_read_length)
  then show "mem_read m' d (unat n) = mem_read m s (unat n)" using mem_write_reads(1) [OF ys(2)] ys(1) by simp
qed

lemma compare_bytes_eq: "length xs = length ys \<Longrightarrow> compare_bytes xs ys = 0 \<longleftrightarrow> xs = ys"
  by (induction xs ys rule: compare_bytes.induct) auto

lemma rmemcmp_equal:
  assumes "rmemcmp p q n m = Some r"
  shows "r = 0 \<longleftrightarrow> mem_read m p (unat n) = mem_read m q (unat n)"
proof -
  obtain xs ys where x: "mem_read m p (unat n) = Some xs" "mem_read m q (unat n) = Some ys" "r = compare_bytes xs ys"
    using assms by (auto simp: rmemcmp_def bind_Some_iff)
  then have "length xs = unat n" "length ys = unat n" by (auto simp: mem_read_def bind_Some_iff dest: buf_read_length)
  then show ?thesis using x compare_bytes_eq [of xs ys] by simp
qed

text \<open>Growing keeps the contents, and a block is released at most once.\<close>

lemma rrealloc_grows:
  assumes "m a = Some xs" "length xs \<le> unat sz" "sz \<noteq> 0" "fresh_answer (m(a := None)) (Some b)"
  shows "\<exists>m'. rrealloc (Some b) junk (Some (a, 0)) sz m = Some (Some (b, 0), m') \<and> mem_read m' (Some (b, 0)) (length xs) = Some xs \<and>
    (\<forall>c. c \<noteq> a \<and> m c \<noteq> None \<longrightarrow> m' c = m c)"
  using assms by (auto simp: rrealloc_def mem_read_def buf_read_def fresh_answer_def)

lemma rfree_once: "rfree (Some (a, i)) m = Some m' \<Longrightarrow> rfree (Some (a, i)) m' = None"
  by (auto simp: rfree_def split: if_splits)

lemma rmalloc_rfree:
  assumes "rmalloc (Some a) junk n m = (p, m')" "fresh_answer m (Some a)"
  shows "rfree p m' = Some m" and "\<exists>xs. mem_read m' p (unat n) = Some xs"
  using assms by (auto simp: rmalloc_def rfree_def mem_read_def fresh_answer_def buf_read_def fun_upd_idem)

lemma rstrcpy_copies:
  assumes "rstrcpy d s m = Some m'"
  shows "string_at m' d = string_at m s"
proof -
  obtain t where t: "string_at m s = Some t" "mem_write m d (t @ [0]) = Some m'"
    using assms by (auto simp: rstrcpy_def bind_Some_iff split: if_splits)
  have z: "0 \<notin> set t" using t(1) by (auto simp: string_at_def string_in_def bind_Some_iff split: if_splits dest: set_takeWhileD)
  obtain a i xs zs where w: "d = Some (a, i)" "m a = Some xs" "buf_write xs i (t @ [0]) = Some zs" "m' = m(a := Some zs)"
    using t(2) by (auto simp: mem_write_def bind_Some_iff split: prod.splits)
  have "drop i zs = t @ 0 # drop (i + length t + 1) xs" "i \<le> length zs"
    using w(3) by (auto simp: buf_write_def split: if_splits)
  then show ?thesis using w t(1) string_in_terminated [OF z] by (simp add: string_at_def)
qed

subsection \<open>Arrays of bytes and of messages\<close>

text \<open>
  \<open>struct RastaByteArray\<close> and \<open>struct RastaMessageData\<close> with their pointers (\<open>rastautil.c\<close>,
  \<open>rastafactory.c\<close>); elsewhere they are the lists of what they hold. A structure of a message is 16
  bytes of the array, whose contents are kept as the list of the structures that fit into the block.
\<close>

record byte_array =
  ba_bytes :: ptr
  ba_length :: u32

record message_array =
  ma_count :: u32
  ma_array :: ptr
  ma_elements :: "byte_array list"

definition allocateRastaByteArray :: "nat option \<Rightarrow> (nat \<Rightarrow> u8) \<Rightarrow> u32 \<Rightarrow> memory \<Rightarrow> byte_array \<times> memory" where
  "allocateRastaByteArray answer junk len m =
     (let (p, m) = rmalloc answer junk len m in (\<lparr>ba_bytes = p, ba_length = len\<rparr>, m))"

text \<open>The pointer is kept.\<close>

definition freeRastaByteArray :: "byte_array \<Rightarrow> memory \<Rightarrow> (byte_array \<times> memory) option" where
  "freeRastaByteArray data m = do { m \<leftarrow> rfree (ba_bytes data) m; Some (data\<lparr>ba_length := 0\<rparr>, m) }"

text \<open>The size is computed with 64 bits and passed with 32; the elements are uninitialised.\<close>

definition allocateRastaMessageData ::
  "nat option \<Rightarrow> (nat \<Rightarrow> u8) \<Rightarrow> (nat \<Rightarrow> byte_array) \<Rightarrow> u32 \<Rightarrow> memory \<Rightarrow> message_array \<times> memory" where
  "allocateRastaMessageData answer junk elements count m =
     (let sz = ucast (16 * ucast count :: u64); (p, m) = rmalloc answer junk sz m
      in (\<lparr>ma_count = count, ma_array = p, ma_elements = (if p = None then [] else map elements [0..<unat sz div 16])\<rparr>, m))"

fun free_arrays :: "byte_array list \<Rightarrow> memory \<Rightarrow> (byte_array list \<times> memory) option" where
  "free_arrays [] m = Some ([], m)"
| "free_arrays (x # xs) m = do { (x, m) \<leftarrow> freeRastaByteArray x m; (xs, m) \<leftarrow> free_arrays xs m; Some (x # xs, m) }"

definition freeRastaMessageData :: "message_array \<Rightarrow> memory \<Rightarrow> (message_array \<times> memory) option" where
  "freeRastaMessageData data m =
     do { elements \<leftarrow> buf_read (ma_elements data) 0 (unat (ma_count data));
          (_, m) \<leftarrow> free_arrays elements m;
          m \<leftarrow> rfree (ma_array data) m;
          Some (data\<lparr>ma_count := 0, ma_elements := []\<rparr>, m) }"

lemma byte_array_allocated:
  assumes "allocateRastaByteArray (Some a) junk n m = (d, m')" "fresh_answer m (Some a)"
  shows "\<exists>xs. mem_read m' (ba_bytes d) (unat (ba_length d)) = Some xs"
    and "freeRastaByteArray d m' = Some (d\<lparr>ba_length := 0\<rparr>, m)"
  using assms rmalloc_rfree [of a junk n m] by (auto simp: allocateRastaByteArray_def freeRastaByteArray_def split: prod.splits)

text \<open>An array that was released keeps its pointer: releasing it again is undefined.\<close>

lemma byte_array_freed_once:
  assumes "freeRastaByteArray d m = Some (d', m')" "ba_bytes d \<noteq> None"
  shows "freeRastaByteArray d' m' = None"
  using assms rfree_once by (cases "ba_bytes d") (auto simp: freeRastaByteArray_def bind_Some_iff split: prod.splits)

text \<open>From \<open>2 ^ 28\<close> messages on the array is allocated too small, and releasing it reads past its end.\<close>

lemma message_array_short:
  assumes "allocateRastaMessageData (Some a) junk es (2 ^ 28) m = (d, m')" "fresh_answer m (Some a)"
  shows "m' a = Some []" and "freeRastaMessageData d m'' = None"
  using assms by (auto simp: allocateRastaMessageData_def freeRastaMessageData_def rmalloc_def fresh_answer_def buf_read_def)

end
