(* ===== verification/Waiting.thy ===== *)
theory Waiting
  imports Mux_Receive
begin

section \<open>Clocks and waiting loops\<close>

text \<open>
  What the system clock reads become (\<open>rastautil.c\<close>, the deadlines of \<open>main.c\<close>), and the loops that wait
  for other threads (\<open>rasta_red_multiplexer.c\<close>). Such a loop looks at the multiplexer again and again
  and changes nothing; what it sees is a sequence of states that the other threads make. A loop
  that never ends has the result \<open>None\<close>.
\<close>

subsection \<open>Clocks\<close>

text \<open>A reading of the clock: seconds and nanoseconds, below a thousand million.\<close>

record timespec =
  tv_sec :: int
  tv_nsec :: int

definition in_long :: "int \<Rightarrow> bool" where
  "in_long i \<longleftrightarrow> - (2 ^ 63) \<le> i \<and> i < 2 ^ 63"

text \<open>Milliseconds in 32 bits; an overflow of \<open>long\<close> is undefined.\<close>

definition current_ts :: "timespec \<Rightarrow> u32 option" where
  "current_ts spec =
     (let ms = tv_sec spec * 1000; sum = ms + tv_nsec spec div 1000000
      in if in_long ms \<and> in_long sum then Some (word_of_int sum) else None)"

definition PDI_GLOBAL_TIMEOUT_SECONDS :: int where
  "PDI_GLOBAL_TIMEOUT_SECONDS = 11"

text \<open>The deadline of a wait of the interlocking; the reading fails when the clock answers nothing.\<close>

definition set_global_timeout_deadline :: "timespec option \<Rightarrow> timespec option \<Rightarrow> (bool \<times> timespec option) option" where
  "set_global_timeout_deadline clock deadline =
     (case (deadline, clock) of
        (None, _) \<Rightarrow> Some (False, None)
      | (Some d, None) \<Rightarrow> Some (False, Some d)
      | (Some d, Some now) \<Rightarrow>
          if in_long (tv_sec now + PDI_GLOBAL_TIMEOUT_SECONDS)
          then Some (True, Some (now\<lparr>tv_sec := tv_sec now + PDI_GLOBAL_TIMEOUT_SECONDS\<rparr>)) else None)"

text \<open>The difference of two time stamps is the time between them in milliseconds, across the wrap-around.\<close>

lemma elapsed:
  assumes "current_ts a = Some x" "current_ts b = Some y"
    and "tv_sec b * 1000 + tv_nsec b div 1000000 = tv_sec a * 1000 + tv_nsec a div 1000000 + int n" "n < 2 ^ 32"
  shows "unat (y - x) = n"
proof -
  have "y - x = word_of_int (int n)"
    using assms(1-3) by (auto simp: current_ts_def Let_def split: if_splits)
  then have "y - x = word_of_nat n" by simp
  then show ?thesis using assms(4) by (simp add: unat_of_nat_u32)
qed

subsection \<open>Waiting\<close>

partial_function (option) wait_from :: "(nat \<Rightarrow> 'a option) \<Rightarrow> nat \<Rightarrow> (nat \<times> 'a) option" where
  "wait_from p n = (case p n of Some v \<Rightarrow> Some (n, v) | None \<Rightarrow> wait_from p (Suc n))"

declare wait_from.simps [code]

lemma wait_from_reaches: "p (n + d) = Some v \<Longrightarrow> (\<And>j. j < d \<Longrightarrow> p (n + j) = None) \<Longrightarrow> wait_from p n = Some (n + d, v)"
proof (induction d arbitrary: n)
  case 0
  then show ?case by (subst wait_from.simps) simp
next
  case (Suc d)
  have "p n = None" using Suc.prems(2) [of 0] by simp
  moreover have "wait_from p (Suc n) = Some (Suc n + d, v)"
    using Suc.prems(1) Suc.prems(2) [of "Suc _"] by (intro Suc.IH) simp_all
  ultimately show ?case by (subst wait_from.simps) simp
qed

lemma wait_from_returned:
  assumes "wait_from p n = Some r"
  shows "n \<le> fst r \<and> p (fst r) = Some (snd r) \<and> (\<forall>j. n \<le> j \<and> j < fst r \<longrightarrow> p j = None)"
proof (rule wait_from.raw_induct [where P = "\<lambda>p n r. n \<le> fst r \<and> p (fst r) = Some (snd r) \<and> (\<forall>j. n \<le> j \<and> j < fst r \<longrightarrow> p j = None)",
      OF _ assms])
  fix self :: "(nat \<Rightarrow> 'a option) \<Rightarrow> nat \<Rightarrow> (nat \<times> 'a) option" and p :: "nat \<Rightarrow> 'a option" and n r
  assume IH: "\<And>p n r. self p n = Some r \<Longrightarrow> n \<le> fst r \<and> p (fst r) = Some (snd r) \<and> (\<forall>j. n \<le> j \<and> j < fst r \<longrightarrow> p j = None)"
    and r: "(case p n of Some v \<Rightarrow> Some (n, v) | None \<Rightarrow> self p (Suc n)) = Some r"
  show "n \<le> fst r \<and> p (fst r) = Some (snd r) \<and> (\<forall>j. n \<le> j \<and> j < fst r \<longrightarrow> p j = None)"
  proof (cases "p n")
    case None
    then have a: "Suc n \<le> fst r" "p (fst r) = Some (snd r)" "\<forall>j. Suc n \<le> j \<and> j < fst r \<longrightarrow> p j = None"
      using IH [of p "Suc n" r] r by simp_all
    have "p j = None" if "n \<le> j" "j < fst r" for j using a(3) None that by (cases "j = n") simp_all
    then show ?thesis using a(1,2) by simp
  next
    case (Some v)
    then show ?thesis using r by auto
  qed
qed

text \<open>The loop ends exactly when what it waits for is seen at some time, and then at the first.\<close>

lemma wait_from_ends: "wait_from p n = None \<longleftrightarrow> (\<forall>k \<ge> n. p k = None)"
proof
  assume none: "wait_from p n = None"
  show "\<forall>k \<ge> n. p k = None"
  proof (rule ccontr)
    assume "\<not> (\<forall>k \<ge> n. p k = None)"
    then have ex: "\<exists>d. p (n + d) \<noteq> None" by (metis le_add_diff_inverse)
    define l where "l = (LEAST d. p (n + d) \<noteq> None)"
    obtain v where "p (n + l) = Some v" using LeastI_ex [OF ex] unfolding l_def by blast
    moreover have "p (n + j) = None" if "j < l" for j using not_less_Least [OF that [unfolded l_def]] by blast
    ultimately have "wait_from p n = Some (n + l, v)" by (rule wait_from_reaches)
    then show False using none by simp
  qed
next
  assume "\<forall>k \<ge> n. p k = None"
  then show "wait_from p n = None" using wait_from_returned [of p n] by (cases "wait_from p n") auto
qed

definition redundancy_mux_wait_for_notifications :: "(nat \<Rightarrow> redundancy_mux) \<Rightarrow> nat option" where
  "redundancy_mux_wait_for_notifications seen =
     map_option fst (wait_from (\<lambda>k. if mux_notifications_running (seen k) > 0 then None else Some ()) 0)"

definition redundancy_mux_wait_for_entity :: "(nat \<Rightarrow> redundancy_mux) \<Rightarrow> u64 \<Rightarrow> nat option" where
  "redundancy_mux_wait_for_entity seen rid = map_option fst (wait_from (\<lambda>k. redundancy_mux_get_channel (seen k) rid) 0)"

text \<open>An entity is waited for until its channel exists, and forever when it never does.\<close>

lemma entity_awaited:
  "redundancy_mux_wait_for_entity seen rid = None \<longleftrightarrow> (\<forall>k. redundancy_mux_get_channel (seen k) rid = None)"
  by (simp add: redundancy_mux_wait_for_entity_def wait_from_ends)

lemma entity_found:
  assumes "redundancy_mux_wait_for_entity seen rid = Some k"
  shows "redundancy_mux_get_channel (seen k) rid \<noteq> None" and "\<And>j. j < k \<Longrightarrow> redundancy_mux_get_channel (seen j) rid = None"
proof -
  obtain c where "wait_from (\<lambda>k. redundancy_mux_get_channel (seen k) rid) 0 = Some (k, c)"
    using assms by (auto simp: redundancy_mux_wait_for_entity_def)
  note wait_from_returned [OF this]
  then show "redundancy_mux_get_channel (seen k) rid \<noteq> None" and "\<And>j. j < k \<Longrightarrow> redundancy_mux_get_channel (seen j) rid = None"
    by simp_all
qed

text \<open>
  When the running notification threads end one after the other the wait ends with the last one,
  as long as fewer than \<open>2 ^ 16\<close> run: their number is cut to 16 bits at every end.
\<close>

lemma cut_small:
  assumes "n < 2 ^ 16"
  shows "ucast (ucast (word_of_nat n :: u32) :: u16) = (word_of_nat n :: u32)"
proof -
  have "unat (ucast (word_of_nat n :: u32) :: u16) = take_bit LENGTH(16) (unat (word_of_nat n :: u32))" by (rule unsigned_ucast_eq)
  also have "unat (word_of_nat n :: u32) = n" by (rule unat_of_nat_u32) (use assms in simp)
  also have "take_bit LENGTH(16) n = n" by (rule take_bit_nat_eq_self) (use assms in simp)
  finally have "unat (ucast (word_of_nat n :: u32) :: u16) = n" .
  moreover have "unat (ucast (ucast (word_of_nat n :: u32) :: u16) :: u32) =
      take_bit LENGTH(32) (unat (ucast (word_of_nat n :: u32) :: u16))"
    by (rule unsigned_ucast_eq)
  moreover have "take_bit LENGTH(32) n = n" by (rule take_bit_nat_eq_self) (use assms in simp)
  moreover have "unat (word_of_nat n :: u32) = n" by (rule unat_of_nat_u32) (use assms in simp)
  ultimately have "unat (ucast (ucast (word_of_nat n :: u32) :: u16) :: u32) = unat (word_of_nat n :: u32)" by simp
  then show ?thesis by (rule unsigned_word_eqI)
qed

lemma notifications_end:
  assumes "mux_notifications_running mux = word_of_nat n" "n < 2 ^ 16" "k \<le> n"
  shows "mux_notifications_running ((red_on_new_connection_caller ^^ k) mux) = word_of_nat (n - k)"
  using assms(3)
proof (induction k)
  case (Suc k)
  let ?f = red_on_new_connection_caller
  have "mux_notifications_running ((?f ^^ Suc k) mux) =
      ucast (ucast (mux_notifications_running ((?f ^^ k) mux) - 1) :: u16)"
    by (simp add: red_on_new_connection_caller_def)
  also have "mux_notifications_running ((?f ^^ k) mux) - 1 = word_of_nat (n - Suc k)"
    using Suc.IH Suc.prems by (simp add: Suc_diff_Suc [symmetric])
  also have "ucast (ucast (word_of_nat (n - Suc k) :: u32) :: u16) = (word_of_nat (n - Suc k) :: u32)"
    by (rule cut_small) (use assms(2) in simp)
  finally show ?case .
qed (simp add: assms(1))

lemma notifications_drained:
  assumes "mux_notifications_running mux = word_of_nat n" "n < 2 ^ 16"
  shows "redundancy_mux_wait_for_notifications (\<lambda>k. (red_on_new_connection_caller ^^ k) mux) = Some n"
proof -
  have pos: "(word_of_nat (n - j) :: u32) > 0" if "j < n" for j
  proof -
    have "unat (word_of_nat (n - j) :: u32) = n - j" by (rule unat_of_nat_u32) (use assms(2) in simp)
    then have "0 < unat (word_of_nat (n - j) :: u32)" using that by (simp only: zero_less_diff)
    then show ?thesis by (simp only: word_less_nat_alt unat_0)
  qed
  show ?thesis
    using wait_from_reaches [of "\<lambda>k. if mux_notifications_running ((red_on_new_connection_caller ^^ k) mux) > 0 then None else Some ()" 0 n]
      notifications_end [OF assms] pos
    by (simp add: redundancy_mux_wait_for_notifications_def)
qed

end
