(* ===== verification/Config_Dictionary.thy ===== *)
theory Config_Dictionary
  imports C_Text
begin

section \<open>The dictionary of configuration values (dictionary.h, dictionary.c)\<close>

text \<open>
  A growing array of entries. A key is a C string in an array of 265 bytes; a string value is
  the array of 256 bytes with whatever follows the terminator. An array of strings is
  \<open>None\<close> once its storage was released. Looking an entry up that is not there gives
  \<open>DICTIONARY_ERROR\<close>.
\<close>

type_synonym DictionaryString = "u8 list"
type_synonym DictionaryArray = "DictionaryString list"

datatype DictionaryValue =
    DICTIONARY_STRING DictionaryString
  | DICTIONARY_ARRAY "DictionaryArray option"
  | DICTIONARY_NUMBER int
  | DICTIONARY_ERROR

record DictionaryEntry =
  de_key :: cstring
  de_value :: DictionaryValue

record Dictionary =
  dict_data :: "DictionaryEntry list"
  dict_actual_size :: nat

definition uppercase :: "cstring \<Rightarrow> cstring" where
  "uppercase s = map to_upper s"

definition dictionary_change_size :: "Dictionary \<Rightarrow> nat \<Rightarrow> Dictionary" where
  "dictionary_change_size dict n = \<lparr>dict_data = take n (dict_data dict), dict_actual_size = n\<rparr>"

text \<open>The copy of the key must fit the local array.\<close>

definition dictionary_isin :: "Dictionary \<Rightarrow> cstring \<Rightarrow> bool option" where
  "dictionary_isin dict key =
     (if 265 \<le> strlen key then None else Some (\<exists>e \<in> set (dict_data dict). de_key e = uppercase key))"

definition dictionary_add :: "Dictionary \<Rightarrow> DictionaryEntry \<Rightarrow> (bool \<times> Dictionary) option" where
  "dictionary_add dict entry =
     do { known \<leftarrow> dictionary_isin dict (de_key entry);
          if known then Some (False, dict)
          else let entry = entry\<lparr>de_key := uppercase (de_key entry)\<rparr>;
                   dict = (if dict_actual_size dict \<le> length (dict_data dict)
                           then dictionary_change_size dict (dict_actual_size dict * 2) else dict)
               in if dict_actual_size dict \<le> length (dict_data dict) then None
                  else Some (True, dict\<lparr>dict_data := dict_data dict @ [entry]\<rparr>) }"

definition allocate_DictionaryArray :: "(nat \<Rightarrow> DictionaryArray) \<Rightarrow> nat \<Rightarrow> DictionaryArray" where
  "allocate_DictionaryArray indet n = indet n"

definition reallocate_DictionaryArray :: "(nat \<Rightarrow> DictionaryArray) \<Rightarrow> DictionaryArray \<Rightarrow> nat \<Rightarrow> DictionaryArray" where
  "reallocate_DictionaryArray indet array new_size = take new_size array @ indet (new_size - length array)"

definition dictionary_create :: "nat \<Rightarrow> Dictionary" where
  "dictionary_create initial_size = \<lparr>dict_data = [], dict_actual_size = (if initial_size < 2 then 2 else initial_size)\<rparr>"

text \<open>Arrays that were released before are released again.\<close>

definition dictionary_free :: "Dictionary \<Rightarrow> Dictionary option" where
  "dictionary_free dict =
     (if \<exists>e \<in> set (dict_data dict). de_value e = DICTIONARY_ARRAY None then None
      else if dict_actual_size dict \<noteq> 0 then Some \<lparr>dict_data = [], dict_actual_size = 0\<rparr> else Some dict)"

definition dictionary_addNumber :: "Dictionary \<Rightarrow> cstring \<Rightarrow> int \<Rightarrow> (bool \<times> Dictionary) option" where
  "dictionary_addNumber dict key number =
     (if 265 \<le> strlen key then None
      else dictionary_add dict \<lparr>de_key = key, de_value = DICTIONARY_NUMBER number\<rparr>)"

definition dictionary_addString :: "Dictionary \<Rightarrow> cstring \<Rightarrow> DictionaryString \<Rightarrow> (bool \<times> Dictionary) option" where
  "dictionary_addString dict key string =
     (if 265 \<le> strlen key then None
      else dictionary_add dict \<lparr>de_key = key, de_value = DICTIONARY_STRING string\<rparr>)"

definition dictionary_addArray :: "Dictionary \<Rightarrow> cstring \<Rightarrow> DictionaryArray \<Rightarrow> (bool \<times> Dictionary) option" where
  "dictionary_addArray dict key array =
     (if 265 \<le> strlen key then None
      else dictionary_add dict \<lparr>de_key = key, de_value = DICTIONARY_ARRAY (Some array)\<rparr>)"

definition dictionary_get :: "Dictionary \<Rightarrow> cstring \<Rightarrow> DictionaryValue option" where
  "dictionary_get dict key =
     (if 265 \<le> strlen key then None
      else Some (case find (\<lambda>e. de_key e = uppercase key) (dict_data dict) of
                   None \<Rightarrow> DICTIONARY_ERROR | Some e \<Rightarrow> de_value e))"

subsection \<open>The dictionary as a map in which the first binding stays\<close>

definition dict_inv :: "Dictionary \<Rightarrow> bool" where
  "dict_inv d \<longleftrightarrow> length (dict_data d) \<le> dict_actual_size d \<and> 2 \<le> dict_actual_size d \<and>
     distinct (map de_key (dict_data d))"

definition dict_abs :: "Dictionary \<Rightarrow> cstring \<rightharpoonup> DictionaryValue" where
  "dict_abs d = map_of (map (\<lambda>e. (de_key e, de_value e)) (dict_data d))"

lemma create_dict: "dict_inv (dictionary_create n)" "dict_abs (dictionary_create n) = Map.empty"
  by (simp_all add: dictionary_create_def dict_inv_def dict_abs_def)

lemma find_abs: "find (\<lambda>e. de_key e = k) es = map_option (\<lambda>v. \<lparr>de_key = k, de_value = v\<rparr>)
    (map_of (map (\<lambda>e. (de_key e, de_value e)) es) k)"
  by (induction es) auto

lemma get_abs: "strlen k < 265 \<Longrightarrow> dictionary_get d k =
    Some (case dict_abs d (uppercase k) of None \<Rightarrow> DICTIONARY_ERROR | Some v \<Rightarrow> v)"
  by (auto simp: dictionary_get_def find_abs dict_abs_def split: option.split)

lemma abs_None: "dict_abs d k = None \<longleftrightarrow> (\<forall>e \<in> set (dict_data d). de_key e \<noteq> k)"
  by (auto simp: dict_abs_def map_of_eq_None_iff image_iff)

lemma isin_abs: "strlen k < 265 \<Longrightarrow> dictionary_isin d k = Some (dict_abs d (uppercase k) \<noteq> None)"
  by (auto simp: dictionary_isin_def abs_None simp flip: not_None_eq)

lemma add_abs:
  assumes d: "dict_inv d" and k: "strlen (de_key e) < 265"
  shows "\<exists>d'. dictionary_add d e = Some (dict_abs d (uppercase (de_key e)) = None, d') \<and> dict_inv d' \<and>
    dict_abs d' = (if dict_abs d (uppercase (de_key e)) = None then (dict_abs d)(uppercase (de_key e) \<mapsto> de_value e)
      else dict_abs d)"
proof (cases "dict_abs d (uppercase (de_key e)) = None")
  case True
  let ?e = "e\<lparr>de_key := uppercase (de_key e)\<rparr>"
  let ?d = "if dict_actual_size d \<le> length (dict_data d) then dictionary_change_size d (dict_actual_size d * 2) else d"
  have s: "dict_data ?d = dict_data d" "length (dict_data ?d) < dict_actual_size ?d" "2 \<le> dict_actual_size ?d"
    using d by (auto simp: dict_inv_def dictionary_change_size_def)
  let ?r = "?d\<lparr>dict_data := dict_data ?d @ [?e]\<rparr>"
  have n: "uppercase (de_key e) \<notin> set (map de_key (dict_data d))"
    using True by (force simp: abs_None)
  have "dictionary_add d e = Some (True, ?r)"
    using isin_abs [OF k] True s(2) by (simp add: dictionary_add_def Let_def)
  moreover have "dict_inv ?r" using d n s by (simp add: dict_inv_def)
  moreover have "dict_abs ?r = (dict_abs d)(uppercase (de_key e) \<mapsto> de_value e)"
    using True unfolding dict_abs_def by (simp add: s(1)) (auto simp: map_add_def fun_eq_iff split: option.split)
  ultimately show ?thesis using True by auto
next
  case False
  then show ?thesis using isin_abs [OF k, of d] d by (auto simp: dictionary_add_def)
qed

end
