(* ===== verification/Config_Parser.thy ===== *)
theory Config_Parser
  imports Config_Dictionary
begin

section \<open>The parser of the configuration file (config.c)\<close>

text \<open>
  One line at a time. The parser holds the line as a C string, its position and the current
  character; at the end of the line the position is set to the size of the buffer and the
  current character stays. What a local array holds before it is written is \<open>indet\<close>; a write
  outside it is \<open>None\<close>. Messages to the log are not modelled.
\<close>

definition CONFIG_BUFFER_LENGTH :: nat where "CONFIG_BUFFER_LENGTH = 10000"

record LineParser =
  lp_buf :: cstring
  lp_pos :: nat
  lp_current :: u8

definition parser_init :: "cstring \<Rightarrow> LineParser" where
  "parser_init line = \<lparr>lp_buf = line, lp_pos = 0, lp_current = (case line of [] \<Rightarrow> 0 | c # cs \<Rightarrow> c)\<rparr>"

definition parser_next :: "LineParser \<Rightarrow> bool \<times> LineParser" where
  "parser_next p =
     (let pos = lp_pos p + 1
      in if CONFIG_BUFFER_LENGTH \<le> pos \<or> strlen (lp_buf p) \<le> pos \<or> lp_buf p ! pos = 0x0A
         then (False, p\<lparr>lp_pos := CONFIG_BUFFER_LENGTH\<rparr>)
         else (True, p\<lparr>lp_pos := pos, lp_current := lp_buf p ! pos\<rparr>))"

subsection \<open>Progress\<close>

text \<open>The characters left; the current character changes only with progress.\<close>

definition left :: "LineParser \<Rightarrow> nat" where
  "left p = CONFIG_BUFFER_LENGTH - lp_pos p"

definition advances :: "LineParser \<Rightarrow> LineParser \<Rightarrow> bool" where
  "advances p q \<longleftrightarrow> left q \<le> left p \<and> (lp_current q \<noteq> lp_current p \<longrightarrow> left q < left p)"

lemma advances_refl [simp]: "advances p p"
  by (simp add: advances_def)

lemma advances_trans [trans]: "advances p q \<Longrightarrow> advances q r \<Longrightarrow> advances p r"
  by (auto simp: advances_def)

lemma next_advances: "advances p (snd (parser_next p))"
  by (auto simp: parser_next_def Let_def advances_def left_def CONFIG_BUFFER_LENGTH_def)

lemma next_left [termination_simp]: "parser_next p = (True, q) \<Longrightarrow> left q < left p"
  by (auto simp: parser_next_def Let_def left_def CONFIG_BUFFER_LENGTH_def split: if_splits)

lemma next_left' [termination_simp]: "fst (parser_next p) \<Longrightarrow> left (snd (parser_next p)) < left p"
  by (metis next_left prod.collapse)

subsection \<open>White space and identifiers\<close>

function parser_skipBlanc :: "LineParser \<Rightarrow> LineParser" where
  "parser_skipBlanc p =
     (if lp_current p = 0x20 \<or> lp_current p = 0x09
      then if fst (parser_next p) then parser_skipBlanc (snd (parser_next p)) else snd (parser_next p)
      else p)"
  by pat_completeness auto
termination by (relation "measure left") (auto simp: termination_simp)

definition ident_char :: "u8 \<Rightarrow> bool" where
  "ident_char c \<longleftrightarrow> is_digit c \<or> is_alpha c \<or> c = 0x5F"

text \<open>An identifier that is too long is left without a terminator.\<close>

function identifier_loop :: "LineParser \<Rightarrow> nat \<Rightarrow> u8 list \<Rightarrow> (u8 list \<times> LineParser) option" where
  "identifier_loop p i identifier =
     (if ident_char (lp_current p)
      then if 254 \<le> i then Some (identifier, p)
           else do {
             identifier \<leftarrow> buf_set identifier i (if is_alpha (lp_current p) then to_upper (lp_current p) else lp_current p);
             if fst (parser_next p) then identifier_loop (snd (parser_next p)) (i + 1) identifier
             else do { identifier \<leftarrow> buf_set identifier (i + 1) 0; Some (identifier, snd (parser_next p)) } }
      else do { identifier \<leftarrow> buf_set identifier i 0; Some (identifier, p) })"
  by pat_completeness auto
termination by (relation "measure (\<lambda>(p, i, s). left p)") (auto simp: termination_simp)

definition parser_parseIdentifier :: "LineParser \<Rightarrow> u8 list \<Rightarrow> (u8 list \<times> LineParser) option" where
  "parser_parseIdentifier p identifier = identifier_loop (parser_skipBlanc p) 0 identifier"

subsection \<open>Numbers\<close>

text \<open>
  The digits collected in \<open>num_buf\<close>, or \<open>None\<close> when there are more than its 100 bytes. The
  terminator after exactly 100 digits is written outside.
\<close>

function number_loop :: "(u8 \<Rightarrow> bool) \<Rightarrow> (u8 \<Rightarrow> u8) \<Rightarrow> LineParser \<Rightarrow> u8 list \<Rightarrow> u8 list option \<times> LineParser" where
  "number_loop ok conv p num_buf =
     (if ok (conv (lp_current p))
      then if 100 \<le> length num_buf then (None, p)
           else let num_buf = num_buf @ [conv (lp_current p)]
                in if fst (parser_next p) then number_loop ok conv (snd (parser_next p)) num_buf
                   else (Some num_buf, snd (parser_next p))
      else (Some num_buf, p))"
  by pat_completeness auto
termination by (relation "measure (\<lambda>(ok, c, p, s). left p)") (auto simp: termination_simp)

definition INT_MAX :: nat where "INT_MAX = 2147483647"

text \<open>\<open>atoi\<close> is undefined for values outside \<open>int\<close>.\<close>

definition atoi :: "u8 list \<Rightarrow> int option" where
  "atoi ds = (if digits_value 0 ds \<le> INT_MAX then Some (int (digits_value 0 ds)) else None)"

definition parser_parseNumber :: "LineParser \<Rightarrow> (int option \<times> LineParser) option" where
  "parser_parseNumber p =
     (let (neg, p) = (if lp_current p = 0x2D then (-1, snd (parser_next p)) else (1, p))
      in if \<not> is_digit (lp_current p) then Some (None, p)
         else case number_loop is_digit (\<lambda>c. c) p [] of
                (None, p) \<Rightarrow> Some (None, p)
              | (Some num_buf, p) \<Rightarrow>
                  if 100 \<le> length num_buf then None
                  else do { n \<leftarrow> atoi num_buf; Some (Some (neg * n), p) })"

definition hex_char :: "u8 \<Rightarrow> bool" where
  "hex_char c \<longleftrightarrow> is_digit c \<or> 0x61 \<le> c \<and> c \<le> 0x66"

fun hex_value :: "nat \<Rightarrow> u8 list \<Rightarrow> nat" where
  "hex_value a [] = a"
| "hex_value a (d # ds) = hex_value (a * 16 + (if is_digit d then unat d - 48 else unat d - 87)) ds"

text \<open>\<open>(int)strtol\<close>: saturated at the largest \<open>long\<close>, then cut to 32 bits.\<close>

definition parser_parseHex :: "LineParser \<Rightarrow> (int option \<times> LineParser) option" where
  "parser_parseHex p =
     (let p = (if lp_current p = 0x23 then snd (parser_next p) else p)
      in case number_loop hex_char to_lower p [] of
           (None, p) \<Rightarrow> Some (None, p)
         | (Some num_buf, p) \<Rightarrow>
             if 100 \<le> length num_buf then None
             else Some (Some (sint (word_of_nat (min (hex_value 0 num_buf) (2 ^ 63 - 1)) :: u32)), p))"

subsection \<open>Strings and arrays\<close>

function string_loop :: "LineParser \<Rightarrow> nat \<Rightarrow> u8 list \<Rightarrow> (bool \<times> u8 list \<times> LineParser) option" where
  "string_loop p i string =
     (if lp_current p \<noteq> 0x22
      then if 254 \<le> i then Some (False, string, p)
           else do {
             string \<leftarrow> buf_set string i (lp_current p);
             if fst (parser_next p) then string_loop (snd (parser_next p)) (i + 1) string
             else Some (False, string, snd (parser_next p)) }
      else do { string \<leftarrow> buf_set string i 0; Some (True, string, p) })"
  by pat_completeness auto
termination by (relation "measure (\<lambda>(p, i, s). left p)") (auto simp: termination_simp)

definition parser_parseString :: "LineParser \<Rightarrow> u8 list \<Rightarrow> (bool \<times> u8 list \<times> LineParser) option" where
  "parser_parseString p string = string_loop (if lp_current p = 0x22 then snd (parser_next p) else p) 0 string"

declare parser_skipBlanc.simps [simp del] identifier_loop.simps [simp del] number_loop.simps [simp del] string_loop.simps [simp del]

lemma skip_advances: "advances p (parser_skipBlanc p)"
proof (induction p rule: parser_skipBlanc.induct)
  case (1 p)
  show ?case
    using 1 next_advances [of p] advances_trans by (subst parser_skipBlanc.simps) auto
qed

lemma string_loop_advances: "string_loop p i s = Some (ok, s', q) \<Longrightarrow> advances p q"
proof (induction p i s rule: string_loop.induct)
  case (1 p i s)
  show ?case
    using 1 next_advances [of p] advances_trans
    by (auto simp: string_loop.simps [of p] bind_Some_iff split: if_splits)
qed

lemma string_advances: "parser_parseString p s = Some (ok, s', q) \<Longrightarrow> advances p q"
  using next_advances [of p] advances_trans
  by (auto simp: parser_parseString_def dest!: string_loop_advances split: if_splits)

text \<open>
  \<open>bytes 256\<close> is the local array \<open>string\<close>, \<open>strings n\<close> the content of \<open>n\<close> fresh strings. An
  array of numbers is accepted with the fresh content of its first string.
\<close>

function array_loop ::
  "(nat \<Rightarrow> u8 list) \<Rightarrow> (nat \<Rightarrow> DictionaryArray) \<Rightarrow> LineParser \<Rightarrow> nat \<Rightarrow> DictionaryArray \<Rightarrow>
   (bool \<times> DictionaryArray \<times> LineParser) option" where
  "array_loop bytes strings p i array =
     (if lp_current p = 0x7D then Some (True, array, p)
      else let p1 = parser_skipBlanc p
           in if is_digit (lp_current p1) then Some (True, array, p1)
              else if lp_current p1 \<noteq> 0x22 then Some (False, array, p1)
              else case parser_parseString p1 (bytes 256) of
                     None \<Rightarrow> None
                   | Some (ok, string, p2) \<Rightarrow>
                       if \<not> ok then Some (False, array, p2)
                       else do {
                         array \<leftarrow> Some (if length array \<le> i then reallocate_DictionaryArray strings array (i + 1) else array);
                         old \<leftarrow> buf_get array i;
                         s \<leftarrow> string_in string;
                         new \<leftarrow> strcpy old s;
                         array \<leftarrow> buf_set array i new;
                         let p3 = parser_skipBlanc (if lp_current p2 = 0x22 then snd (parser_next p2) else p2)
                         in if lp_current p3 = 0x3B \<or> lp_current p3 = 0x2C
                            then array_loop bytes strings (snd (parser_next p3)) (i + 1) array
                            else if lp_current p3 = 0x7D then Some (True, array, p3)
                            else Some (False, array, p3) })"
  by pat_completeness auto
termination
proof (relation "measure (\<lambda>(b, s, p, i, a). left p)", goal_cases)
  case (2 bytes strings p i array p1 x ok y string p2 a1 old s new a2 p3)
  have a: "advances p p1" using skip_advances 2(2) by simp
  have b: "advances p1 p2" using string_advances 2 by blast
  have c: "advances p2 p3"
    using advances_trans [OF next_advances skip_advances] skip_advances 2(14) by simp
  have "lp_current p3 \<noteq> lp_current p1" using 2(4) 2(15) by auto
  then have "left p3 < left p1" using advances_trans [OF b c] by (simp add: advances_def)
  moreover have "left (snd (parser_next p3)) \<le> left p3" using next_advances [of p3] by (simp add: advances_def)
  moreover have "left p1 \<le> left p" using a by (simp add: advances_def)
  ultimately show ?case by simp
qed simp

end
