(* ===== verification/Config_Load.thy ===== *)
theory Config_Load
  imports Config_Parser Config_Types
begin

section \<open>Values of the configuration (config.c)\<close>

text \<open>
  A line of the file, the whole file, and the values with their defaults. \<open>config_env\<close> holds
  what the environment decides: the content of fresh storage, of the structure that is filled,
  and the address of a network interface.
\<close>

record config_env =
  ce_bytes :: indet
  ce_strings :: "nat \<Rightarrow> DictionaryArray"
  ce_ips :: "nat \<Rightarrow> RastaIPData list"
  ce_values :: RastaConfigInfo
  ce_crc :: crc_options
  ce_crc_table :: "u64 list"
  ce_nic_ip :: "nat \<Rightarrow> u8 list option"

subsection \<open>A line\<close>

definition parser_parseArray :: "config_env \<Rightarrow> LineParser \<Rightarrow> DictionaryArray \<Rightarrow> (bool \<times> DictionaryArray \<times> LineParser) option" where
  "parser_parseArray en p array =
     array_loop (ce_bytes en) (ce_strings en) (if lp_current p = 0x7B then snd (parser_next p) else p) 0 array"

text \<open>\<open>key\<close> is the array with the key; adding to the dictionary copies it.\<close>

definition parser_parseValue :: "config_env \<Rightarrow> LineParser \<Rightarrow> u8 list \<Rightarrow> Dictionary \<Rightarrow> Dictionary option" where
  "parser_parseValue en p key dict =
     (let p = parser_skipBlanc p
      in if lp_current p = 0x2D \<or> is_digit (lp_current p)
         then do { (number, p) \<leftarrow> parser_parseNumber p;
                   case number of None \<Rightarrow> Some dict
                   | Some n \<Rightarrow> do { k \<leftarrow> string_in key; map_option snd (dictionary_addNumber dict k n) } }
         else if lp_current p = 0x22
         then do { (ok, string, p) \<leftarrow> parser_parseString p (ce_bytes en 256);
                   if ok then do { k \<leftarrow> string_in key; map_option snd (dictionary_addString dict k string) }
                   else Some dict }
         else if lp_current p = 0x7B
         then do { (ok, array, p) \<leftarrow> parser_parseArray en p (allocate_DictionaryArray (ce_strings en) 1);
                   if ok then do { k \<leftarrow> string_in key; map_option snd (dictionary_addArray dict k array) }
                   else Some dict }
         else if lp_current p = 0x23
         then do { (hex, p) \<leftarrow> parser_parseHex p;
                   case hex of None \<Rightarrow> Some dict
                   | Some n \<Rightarrow> do { k \<leftarrow> string_in key; map_option snd (dictionary_addNumber dict k n) } }
         else do { (identifier, p) \<leftarrow> parser_parseIdentifier p (ce_bytes en 256);
                   k \<leftarrow> string_in key;
                   map_option snd (dictionary_addString dict k identifier) })"

definition config_line :: "config_env \<Rightarrow> cstring \<Rightarrow> Dictionary \<Rightarrow> Dictionary option" where
  "config_line en buf dict =
     (let p = parser_skipBlanc (parser_init buf)
      in if lp_current p = 0x3B then Some dict
         else if strlen buf \<le> lp_pos p + 1 then Some dict
         else if \<not> ident_char (lp_current p) then Some dict
         else do {
           (key, p) \<leftarrow> parser_parseIdentifier p (ce_bytes en 256);
           let p = parser_skipBlanc p
           in if lp_current p \<noteq> 0x3D then Some dict
              else let p = parser_skipBlanc (snd (parser_next p)) in parser_parseValue en p key dict })"

subsection \<open>The file\<close>

text \<open>\<open>fgets\<close>: at most \<open>n\<close> characters up to the end of the line, and the rest of the file.\<close>

fun fgets :: "nat \<Rightarrow> u8 list \<Rightarrow> u8 list \<times> u8 list" where
  "fgets 0 s = ([], s)"
| "fgets (Suc n) [] = ([], [])"
| "fgets (Suc n) (c # cs) = (if c = 0x0A then ([c], cs) else let (l, r) = fgets n cs in (c # l, r))"

lemma fgets_rest: "length (snd (fgets n s)) \<le> length s"
  by (induction n s rule: fgets.induct) (auto simp: case_prod_beta)

lemma fgets_less: "0 < n \<Longrightarrow> length (snd (fgets n (c # cs))) < Suc (length cs)"
  using fgets_rest [of "n - 1" cs] by (cases n) (auto simp: case_prod_beta)

function config_lines :: "config_env \<Rightarrow> u8 list \<Rightarrow> Dictionary \<Rightarrow> Dictionary option" where
  "config_lines en [] dict = Some dict"
| "config_lines en (c # cs) dict =
     do { dict \<leftarrow> config_line en (takeWhile (\<lambda>b. b \<noteq> 0) (fst (fgets (CONFIG_BUFFER_LENGTH - 1) (c # cs)))) dict;
          config_lines en (snd (fgets (CONFIG_BUFFER_LENGTH - 1) (c # cs))) dict }"
  by pat_completeness auto
termination by (relation "measure (\<lambda>(en, s, d). length s)") (auto simp: fgets_less CONFIG_BUFFER_LENGTH_def simp del: fgets.simps)

subsection \<open>Addresses\<close>

text \<open>
  The loop over the format of an address: \<open>Inl\<close> is a wrong format, \<open>Inr\<close> the array and the
  position of the colon, which stays 0 when there is none in the right place.
\<close>

fun ip_loop :: "cstring \<Rightarrow> nat \<Rightarrow> nat \<Rightarrow> nat \<Rightarrow> u8 list \<Rightarrow> (u8 list + u8 list \<times> nat) option" where
  "ip_loop [] i points numbers out = Some (Inr (out, 0))"
| "ip_loop (c # cs) i points numbers out =
     (if is_digit c
      then if numbers + 1 > 3 then Some (Inl out)
           else do { out \<leftarrow> buf_set out i c; ip_loop cs (i + 1) points (numbers + 1) out }
      else if c = 0x2E
      then if points + 1 > 3 then Some (Inl out)
           else do { out \<leftarrow> buf_set out i c; ip_loop cs (i + 1) (points + 1) 0 out }
      else if c = 0x3A
      then if points = 3 \<and> numbers > 0 then do { out \<leftarrow> buf_set out i 0; Some (Inr (out, i)) }
           else ip_loop cs (i + 1) points numbers out
      else Some (Inl out))"

definition extractIPData :: "config_env \<Rightarrow> u8 list \<Rightarrow> nat \<Rightarrow> RastaIPData \<Rightarrow> RastaIPData option" where
  "extractIPData en data arrayIndex result =
     do { s \<leftarrow> string_in data;
          r \<leftarrow> (if data ! 0 = 0x2A then map_option (\<lambda>a. Inr (a, 1)) (ce_nic_ip en arrayIndex)
                else ip_loop s 0 0 0 (ip result));
          case r of
            Inl out \<Rightarrow> Some (result\<lparr>ip := out, port := 0\<rparr>)
          | Inr (out, pos) \<Rightarrow>
              let digits = drop (pos + 1) s
              in if 10 < length (takeWhile is_digit digits) then None
                 else if \<not> (\<forall>c \<in> set digits. is_digit c) then Some (result\<lparr>ip := out, port := 0\<rparr>)
                 else if 10 \<le> length digits then None
                 else do { n \<leftarrow> atoi digits; Some (result\<lparr>ip := out, port := n\<rparr>) } }"

text \<open>The addresses of the channels up to the first wrong one, then fresh storage.\<close>

fun read_connections :: "config_env \<Rightarrow> DictionaryArray \<Rightarrow> nat \<Rightarrow> RastaIPData list \<Rightarrow> (bool \<times> RastaIPData list) option" where
  "read_connections en [] i out = Some (True, out)"
| "read_connections en (s # ss) i out =
     do { result \<leftarrow> extractIPData en s i (ce_ips en 1 ! 0);
          if port result = 0 then Some (False, out)
          else do { out \<leftarrow> buf_set out i result; read_connections en ss (i + 1) out } }"

subsection \<open>Values and defaults\<close>

text \<open>A number, or the standard value when it is missing or, for most keys, negative.\<close>

definition number_or :: "'a \<Rightarrow> (int \<Rightarrow> 'a) \<Rightarrow> DictionaryValue \<Rightarrow> 'a" where
  "number_or std f v = (case v of DICTIONARY_NUMBER n \<Rightarrow> if n < 0 then std else f n | _ \<Rightarrow> std)"

definition any_number_or :: "'a \<Rightarrow> (int \<Rightarrow> 'a) \<Rightarrow> DictionaryValue \<Rightarrow> 'a" where
  "any_number_or std f v = (case v of DICTIONARY_NUMBER n \<Rightarrow> f n | _ \<Rightarrow> std)"

text \<open>The choice by name; the string must be terminated.\<close>

fun by_name :: "cstring \<Rightarrow> (cstring \<times> 'a) list \<Rightarrow> 'a \<Rightarrow> 'a" where
  "by_name s [] std = std"
| "by_name s ((n, v) # cs) std = (if s = n then v else by_name s cs std)"

definition string_choice :: "DictionaryValue \<Rightarrow> 'a \<Rightarrow> (cstring \<times> 'a) list \<Rightarrow> 'a \<Rightarrow> 'a option" where
  "string_choice v unset choices other =
     (case v of DICTIONARY_STRING buf \<Rightarrow> do { s \<leftarrow> string_in buf; Some (by_name s choices other) } | _ \<Rightarrow> Some unset)"

definition sending_values :: "(string \<Rightarrow> DictionaryValue option) \<Rightarrow> RastaConfigInfoSending \<Rightarrow> RastaConfigInfoSending option" where
  "sending_values get sending =
     do { t_max \<leftarrow> get ''RASTA_T_MAX'';
          t_h \<leftarrow> get ''RASTA_T_H'';
          ty \<leftarrow> get ''RASTA_MD4_TYPE'';
          ty \<leftarrow> (if ty = DICTIONARY_ERROR then get ''RASTA_SR_CHECKSUM_LEN'' else Some ty);
          md4_type \<leftarrow> string_choice ty RASTA_CHECKSUM_8B
            [(cstr ''NONE'', RASTA_CHECKSUM_NONE), (cstr ''HALF'', RASTA_CHECKSUM_8B), (cstr ''FULL'', RASTA_CHECKSUM_16B)]
            RASTA_CHECKSUM_8B;
          key \<leftarrow> get ''RASTA_SR_CHECKSUM_KEY'';
          algo \<leftarrow> get ''RASTA_SR_CHECKSUM_ALGO'';
          algorithm \<leftarrow> string_choice algo RASTA_ALGO_MD4
            [(cstr ''MD4'', RASTA_ALGO_MD4), (cstr ''BLAKE2B'', RASTA_ALGO_BLAKE2B), (cstr ''SIPHASH-2-4'', RASTA_ALGO_SIPHASH_2_4)]
            (cfg_sr_hash_algorithm sending);
          a \<leftarrow> get ''RASTA_MD4_A''; b \<leftarrow> get ''RASTA_MD4_B''; c \<leftarrow> get ''RASTA_MD4_C''; d \<leftarrow> get ''RASTA_MD4_D'';
          send_max \<leftarrow> get ''RASTA_SEND_MAX'';
          mwa \<leftarrow> get ''RASTA_MWA'';
          max_packet \<leftarrow> get ''RASTA_MAX_PACKET'';
          diag_window \<leftarrow> get ''RASTA_DIAG_WINDOW'';
          Some \<lparr>cfg_t_max = number_or 1800 word_of_int t_max, cfg_t_h = number_or 300 word_of_int t_h,
            cfg_md4_type = md4_type, cfg_md4_a = any_number_or 0x67452301 word_of_int a,
            cfg_md4_b = any_number_or 0xefcdab89 word_of_int b, cfg_md4_c = any_number_or 0x98badcfe word_of_int c,
            cfg_md4_d = any_number_or 0x10325476 word_of_int d, cfg_mwa = number_or 10 word_of_int mwa,
            cfg_send_max = number_or 20 word_of_int send_max, cfg_max_packet = number_or 3 word_of_int max_packet,
            cfg_diag_window = number_or 5000 word_of_int diag_window,
            cfg_sr_hash_key = any_number_or (cfg_sr_hash_key sending) word_of_int key,
            cfg_sr_hash_algorithm = algorithm\<rparr> }"

text \<open>
  The numbers of the redundancy layer pass through \<open>unsigned short\<close>. A wrong address releases
  the array that the dictionary still holds; the count of the connections stays.
\<close>

definition short_number :: "int \<Rightarrow> int" where
  "short_number n = uint (word_of_int n :: u16)"

definition release_array :: "cstring \<Rightarrow> Dictionary \<Rightarrow> Dictionary" where
  "release_array key dict =
     dict\<lparr>dict_data := map (\<lambda>e. if de_key e = key then e\<lparr>de_value := DICTIONARY_ARRAY None\<rparr> else e) (dict_data dict)\<rparr>"

definition connection_values :: "config_env \<Rightarrow> Dictionary \<Rightarrow> (RastaIPData list \<times> Dictionary) option" where
  "connection_values en dict =
     do { v \<leftarrow> dictionary_get dict (cstr ''RASTA_REDUNDANCY_CONNECTIONS'');
          case v of
            DICTIONARY_ARRAY arr \<Rightarrow> do {
              strings \<leftarrow> arr;
              (ok, connections) \<leftarrow> read_connections en strings 0 (ce_ips en (length strings));
              Some (connections, if ok then dict else release_array (cstr ''RASTA_REDUNDANCY_CONNECTIONS'') dict) }
          | _ \<Rightarrow> Some ([], dict) }"

definition redundancy_values ::
  "config_env \<Rightarrow> (string \<Rightarrow> DictionaryValue option) \<Rightarrow> RastaIPData list \<Rightarrow> RastaConfigInfoRedundancy option" where
  "redundancy_values en get connections =
     do { crc \<leftarrow> get ''RASTA_CRC_TYPE'';
          crc_type \<leftarrow> (let a = crc_init_opt_a (ce_crc en); t = ce_crc_table en
                      in string_choice crc a
                           [(cstr ''TYPE_A'', a), (cstr ''TYPE_B'', crc_init_opt_b t), (cstr ''TYPE_C'', crc_init_opt_c t),
                            (cstr ''TYPE_D'', crc_init_opt_d t), (cstr ''TYPE_E'', crc_init_opt_e t)] a);
          t_seq \<leftarrow> get ''RASTA_T_SEQ'';
          n_diagnose \<leftarrow> get ''RASTA_N_DIAGNOSE'';
          n_deferqueue \<leftarrow> get ''RASTA_N_DEFERQUEUE_SIZE'';
          Some \<lparr>cfg_connections = connections, cfg_crc_type = crc_type,
            cfg_t_seq = number_or 100 (\<lambda>n. word_of_int (short_number n)) t_seq,
            cfg_n_diagnose = number_or 200 short_number n_diagnose,
            cfg_n_deferqueue_size = number_or 4 (\<lambda>n. word_of_int (short_number n)) n_deferqueue\<rparr> }"

definition general_values :: "(string \<Rightarrow> DictionaryValue option) \<Rightarrow> RastaConfigInfoGeneral option" where
  "general_values get =
     do { network \<leftarrow> get ''RASTA_NETWORK'';
          rasta_id \<leftarrow> get ''RASTA_ID'';
          Some \<lparr>cfg_rasta_network = number_or 0 word_of_int network, cfg_rasta_id = number_or 0 word_of_int rasta_id\<rparr> }"

record RastaConfig =
  cf_dictionary :: Dictionary
  cf_values :: RastaConfigInfo

definition config_get :: "RastaConfig \<Rightarrow> string \<Rightarrow> DictionaryValue option" where
  "config_get cfg key = dictionary_get (cf_dictionary cfg) (cstr key)"

definition config_setstd :: "config_env \<Rightarrow> RastaConfig \<Rightarrow> RastaConfig option" where
  "config_setstd en cfg =
     do { sending \<leftarrow> sending_values (config_get cfg) (cfg_sending (cf_values cfg));
          (connections, dict) \<leftarrow> connection_values en (cf_dictionary cfg);
          let cfg = cfg\<lparr>cf_dictionary := dict\<rparr> in do {
          redundancy \<leftarrow> redundancy_values en (config_get cfg) connections;
          general \<leftarrow> general_values (config_get cfg);
          Some (cfg\<lparr>cf_values := \<lparr>cfg_sending = sending, cfg_redundancy = redundancy, cfg_general = general\<rparr>\<rparr>) } }"

text \<open>
  \<open>file\<close> is the content, \<open>None\<close> when it cannot be opened: then the structure is returned as it
  is, dictionary and values uninitialised (\<open>Inl\<close>).
\<close>

definition config_load :: "config_env \<Rightarrow> u8 list option \<Rightarrow> (unit + RastaConfig) option" where
  "config_load en file =
     (case file of
        None \<Rightarrow> Some (Inl ())
      | Some content \<Rightarrow> do {
          dict \<leftarrow> config_lines en content (dictionary_create 2);
          map_option Inr (config_setstd en \<lparr>cf_dictionary = dict, cf_values = ce_values en\<rparr>) })"

definition config_free :: "RastaConfig \<Rightarrow> RastaConfig option" where
  "config_free cfg = do { dict \<leftarrow> dictionary_free (cf_dictionary cfg); Some (cfg\<lparr>cf_dictionary := dict\<rparr>) }"

end
