(* ===== verification/Config_Spec.thy ===== *)
theory Config_Spec
  imports Config_Load Module
begin

section \<open>What the configuration parser reads\<close>

text \<open>
  The parser on a line \<open>key=digits\<close>: the loops as operations on the rest of the line, and
  the ranges of the values that are loaded.
\<close>

subsection \<open>The parser at a position\<close>

definition at :: "cstring \<Rightarrow> nat \<Rightarrow> LineParser" where
  "at buf i = \<lparr>lp_buf = buf, lp_pos = i, lp_current = buf ! i\<rparr>"

lemma init_at: "buf \<noteq> [] \<Longrightarrow> parser_init buf = at buf 0"
  by (cases buf) (simp_all add: parser_init_def at_def)

lemma at_fields [simp]: "lp_current (at buf i) = buf ! i" "lp_pos (at buf i) = i" "lp_buf (at buf i) = buf"
  by (simp_all add: at_def)

lemma next_at:
  "i + 1 < length buf \<Longrightarrow> length buf \<le> 10000 \<Longrightarrow> buf ! (i + 1) \<noteq> 0x0A \<Longrightarrow> parser_next (at buf i) = (True, at buf (i + 1))"
  by (simp add: parser_next_def Let_def at_def strlen_def CONFIG_BUFFER_LENGTH_def)

lemma next_end: "buf ! (i + 1) = 0x0A \<Longrightarrow> \<not> fst (parser_next (at buf i))"
  by (simp add: parser_next_def Let_def at_def)

lemma skip_nothing: "lp_current p \<noteq> 0x20 \<Longrightarrow> lp_current p \<noteq> 0x09 \<Longrightarrow> parser_skipBlanc p = p"
  by (simp add: parser_skipBlanc.simps [of p])

subsection \<open>Characters\<close>

lemma digit_ident: "is_digit c \<Longrightarrow> ident_char c \<and> c \<noteq> 0x20 \<and> c \<noteq> 0x09 \<and> c \<noteq> 0x0A \<and> c \<noteq> 0x3B"
  by (auto simp: ident_char_def is_digit_def)

lemma ident_printable: "ident_char c \<Longrightarrow> c \<noteq> 0x20 \<and> c \<noteq> 0x09 \<and> c \<noteq> 0x0A \<and> c \<noteq> 0x3B \<and> c \<noteq> 0"
  by (auto simp: ident_char_def is_digit_def is_alpha_def)

lemma upper_zero: "ident_char c \<Longrightarrow> to_upper c \<noteq> 0"
proof -
  assume i: "ident_char c"
  have "unat (c - 0x20) = unat c - 32" if "0x61 \<le> c" using that by (simp add: unat_sub word_le_nat_alt)
  then have "0x61 \<le> c \<Longrightarrow> c - 0x20 \<noteq> 0" by (auto simp: word_le_nat_alt)
  then show "to_upper c \<noteq> 0" using ident_printable [OF i] by (auto simp: to_upper_def)
qed

lemma upper_alpha: "(if is_alpha c then to_upper c else c) = to_upper c"
  by (auto simp: is_alpha_def to_upper_def)

subsection \<open>An identifier\<close>

lemma take_set_drop:
  "i < length s \<Longrightarrow> take (Suc i) (s[i := v]) = take i s @ [v]"
  by (simp add: take_Suc_conv_app_nth)

lemma identifier_run:
  assumes "buf = pre @ xs @ y # ys" "\<forall>c \<in> set xs. ident_char c" "\<not> ident_char y" "y \<noteq> 0x0A" "length buf \<le> 10000"
    and "i + length xs < 254" "length out = 256"
  shows "\<exists>out'. identifier_loop (at buf (length pre)) i out = Some (out', at buf (length pre + length xs)) \<and>
    length out' = 256 \<and> take (i + length xs + 1) out' = take i out @ uppercase xs @ [0]"
  using assms
proof (induction xs arbitrary: pre i out)
  case Nil
  then show ?case
    unfolding identifier_loop.simps [of "at buf (length pre)"]
    by (simp add: buf_set_def take_Suc_conv_app_nth uppercase_def)
next
  case (Cons x xs)
  let ?p = "at buf (length pre)" and ?out = "out[i := to_upper x]"
  have x: "lp_current ?p = x" "ident_char x" using Cons.prems(1,2) by (simp_all add: nth_append)
  have nx: "buf ! (length pre + 1) \<noteq> 0x0A"
    using Cons.prems(1,2,4) ident_printable by (cases xs) (auto simp: nth_append)
  have "parser_next ?p = (True, at buf (length (pre @ [x])))"
    using next_at [of "length pre" buf] Cons.prems(1,5) nx by simp
  moreover obtain out' where "identifier_loop (at buf (length (pre @ [x]))) (i + 1) ?out =
      Some (out', at buf (length (pre @ [x]) + length xs))" "length out' = 256"
    "take (i + 1 + length xs + 1) out' = take (i + 1) ?out @ uppercase xs @ [0]"
    using Cons.IH [of "pre @ [x]" "i + 1" ?out] Cons.prems by auto
  ultimately show ?case
    using x Cons.prems(6,7) upper_alpha [of x] unfolding identifier_loop.simps [of ?p]
    by (auto simp: buf_set_def take_set_drop uppercase_def)
qed

subsection \<open>A number\<close>

lemma number_run:
  assumes "buf = pre @ xs @ [0x0A]" "xs \<noteq> []" "\<forall>c \<in> set xs. is_digit c" "length buf \<le> 10000"
  shows "fst (number_loop is_digit (\<lambda>c. c) (at buf (length pre)) acc) =
    (if length acc + length xs \<le> 100 then Some (acc @ xs) else None)"
  using assms
proof (induction xs arbitrary: pre acc)
  case (Cons x xs)
  let ?p = "at buf (length pre)"
  have x: "lp_current ?p = x" "is_digit x" using Cons.prems(1,3) by (simp_all add: nth_append)
  show ?case
  proof (cases xs)
    case Nil
    then have "\<not> fst (parser_next ?p)" using Cons.prems(1) by (intro next_end) (simp add: nth_append)
    then show ?thesis using x Nil unfolding number_loop.simps [of _ _ ?p] by (simp add: Let_def)
  next
    case (Cons z zs)
    have nx: "buf ! (length pre + 1) = z" using Cons Cons.prems(1) by (simp add: nth_append)
    have "z \<noteq> 0x0A" using Cons Cons.prems(3) digit_ident by auto
    then have n: "parser_next ?p = (True, at buf (length (pre @ [x])))"
      using next_at [of "length pre" buf] Cons Cons.prems(1,4) nx by simp
    show ?thesis
      using Cons.IH [of "pre @ [x]" "acc @ [x]"] Cons.prems Cons x n unfolding number_loop.simps [of _ _ ?p]
      by (simp add: Let_def)
  qed
qed simp

lemma number_read:
  assumes "buf = pre @ xs @ [0x0A]" "xs \<noteq> []" "\<forall>c \<in> set xs. is_digit c" "length buf \<le> 10000"
  shows "parser_parseNumber (at buf (length pre)) =
    (if 100 < length xs then Some (None, snd (number_loop is_digit (\<lambda>c. c) (at buf (length pre)) []))
     else if length xs = 100 then None
     else map_option (\<lambda>n. (Some n, snd (number_loop is_digit (\<lambda>c. c) (at buf (length pre)) []))) (atoi xs))"
proof -
  have "buf ! length pre = hd xs" "is_digit (hd xs)" using assms by (cases xs; simp add: nth_append)+
  moreover have "hd xs \<noteq> 0x2D" using calculation(2) by auto
  moreover obtain r p where r: "number_loop is_digit (\<lambda>c. c) (at buf (length pre)) [] = (r, p)" by fastforce
  ultimately show ?thesis
    using number_run [OF assms, of "[]"] unfolding parser_parseNumber_def
    by (cases "atoi xs") (auto simp: Let_def r)
qed

subsection \<open>A line with a number\<close>

definition number_line :: "cstring \<Rightarrow> u8 list \<Rightarrow> cstring" where
  "number_line key digits = key @ 0x3D # digits @ [0x0A]"

lemma number_line_value:
  assumes k: "key \<noteq> []" "\<forall>c \<in> set key. ident_char c" "length key < 254"
    and ds: "ds \<noteq> []" "\<forall>c \<in> set ds. is_digit c" "length key + length ds + 2 \<le> 10000"
    and i: "length (ce_bytes en 256) = 256"
  shows "config_line en (number_line key ds) d =
    (if 100 < length ds then Some d else if length ds = 100 then None
     else do { n \<leftarrow> atoi ds; map_option snd (dictionary_addNumber d (uppercase key) n) })"
proof -
  let ?b = "number_line key ds"
  have b: "?b = [] @ key @ 0x3D # (ds @ [0x0A])" "length ?b \<le> 10000" using ds(3) by (simp_all add: number_line_def)
  have eq: "\<not> ident_char 0x3D" by (simp add: ident_char_def is_digit_def is_alpha_def)
  have h: "ident_char (?b ! 0)" "?b ! 0 = hd key" using k by (cases key; simp add: number_line_def)+
  have p0: "parser_skipBlanc (parser_init ?b) = at ?b 0"
    using ident_printable [OF h(1)] by (subst init_at) (simp_all add: number_line_def skip_nothing)
  obtain out where o: "identifier_loop (at ?b 0) 0 (ce_bytes en 256) = Some (out, at ?b (length key))" "length out = 256"
    "take (length key + 1) out = uppercase key @ [0]"
    using identifier_run [OF b(1) k(2) eq _ b(2), of 0 "ce_bytes en 256"] k(3) i by auto
  have si: "string_in out = Some (uppercase key)"
  proof -
    have "out = uppercase key @ 0 # drop (length key + 1) out"
      using o(3) append_take_drop_id [of "length key + 1" out] by simp
    moreover have "0 \<notin> set (uppercase key)" using k(2) upper_zero by (auto simp: uppercase_def)
    ultimately show ?thesis using string_in_terminated [of "uppercase key"] by metis
  qed
  have at1: "?b ! length key = 0x3D" "?b ! (length key + 1) = hd ds" using ds(1) by (cases ds; simp add: number_line_def nth_append)+
  have d1: "is_digit (hd ds)" using ds by (cases ds) auto
  have nx: "parser_next (at ?b (length key)) = (True, at ?b (length key + 1))"
    using b(2) at1 digit_ident [OF d1] by (intro next_at) (auto simp: number_line_def)
  have pk: "parser_parseIdentifier (at ?b 0) (ce_bytes en 256) = Some (out, at ?b (length key))"
    using o(1) ident_printable [OF h(1)] by (simp add: parser_parseIdentifier_def skip_nothing)
  have nr: "parser_parseNumber (at ?b (length key + 1)) =
    (if 100 < length ds then Some (None, snd (number_loop is_digit (\<lambda>c. c) (at ?b (length key + 1)) []))
     else if length ds = 100 then None
     else map_option (\<lambda>n. (Some n, snd (number_loop is_digit (\<lambda>c. c) (at ?b (length key + 1)) []))) (atoi ds))"
    using number_read [of ?b "key @ [0x3D]" ds] ds b(2) by (simp add: number_line_def)
  have s1: "parser_skipBlanc (at ?b (length key)) = at ?b (length key)"
    "parser_skipBlanc (at ?b (length key + 1)) = at ?b (length key + 1)"
    using at1 digit_ident [OF d1] by (simp_all add: skip_nothing)
  have v: "parser_parseValue en (at ?b (length key + 1)) out d =
    (if 100 < length ds then Some d else if length ds = 100 then None
     else do { n \<leftarrow> atoi ds; map_option snd (dictionary_addNumber d (uppercase key) n) })"
    using nr s1(2) at1(2) d1 si by (cases "atoi ds") (simp_all add: parser_parseValue_def Let_def)
  have "config_line en ?b d = parser_parseValue en (at ?b (length key + 1)) out d"
    using p0 pk s1 nx h ident_printable [OF h(1)] at1 k
    by (simp add: config_line_def Let_def strlen_def number_line_def)
  then show ?thesis using v by simp
qed

subsection \<open>Ranges of the values\<close>

lemma choice_range:
  assumes "string_choice v unset cs other = Some x"
  shows "x = unset \<or> x = other \<or> x \<in> snd ` set cs"
proof -
  have "by_name s cs other = other \<or> by_name s cs other \<in> snd ` set cs" for s
    by (induction cs) force+
  then show ?thesis using assms by (auto simp: string_choice_def bind_Some_iff split: DictionaryValue.splits)
qed

lemma sending_range:
  assumes "sending_values get s = Some s'"
  shows "cfg_md4_type s' \<le> 2"
  using assms by (auto simp: sending_values_def bind_Some_iff RASTA_CHECKSUM_8B_def RASTA_CHECKSUM_NONE_def
      RASTA_CHECKSUM_16B_def dest!: choice_range)

lemma redundancy_range:
  assumes "redundancy_values en get cs = Some r"
  shows "crc_bytes (cfg_crc_type r) \<le> 4 \<and> cfg_connections r = cs \<and> unat (cfg_t_seq r) < 65536 \<and>
    0 \<le> cfg_n_diagnose r \<and> cfg_n_diagnose r < 65536 \<and> unat (cfg_n_deferqueue_size r) < 65536"
proof -
  have s: "unat (word_of_int (short_number n) :: u32) < 65536" "0 \<le> short_number n" "short_number n < 65536" for n
  proof -
    show "0 \<le> short_number n" "short_number n < 65536"
      using uint_lt2p [of "word_of_int n :: u16"] by (simp_all add: short_number_def)
    then show "unat (word_of_int (short_number n) :: u32) < 65536"
      by (simp add: unsigned_of_int take_bit_int_eq_self)
  qed
  then have "unat (number_or (100 :: u32) (\<lambda>n. word_of_int (short_number n)) v) < 65536"
    "unat (number_or (4 :: u32) (\<lambda>n. word_of_int (short_number n)) v) < 65536"
    "0 \<le> number_or 200 short_number v \<and> number_or 200 short_number v < 65536" for v
    by (simp_all add: number_or_def split: DictionaryValue.split)
  then show ?thesis
    using assms
    by (auto simp: redundancy_values_def bind_Some_iff Let_def crc_bytes_def crc_init_opt_a_def crc_init_opt_b_def
        crc_init_opt_c_def crc_init_opt_d_def crc_init_opt_e_def crc_option_def dest!: choice_range)
qed

end
