(* ===== verification/Config_Properties.thy ===== *)
theory Config_Properties
  imports Config_Spec
begin

section \<open>Properties of the configuration file\<close>

text \<open>C34. A line \<open>key=digits\<close> is read as its number: the dictionary binds the key, in capitals, to the value of the
  digits unless it already binds it, in which case the first binding stays. More than 100 digits
  are refused and change nothing; exactly 100 digits, or a value outside \<open>int\<close>, are undefined
  behaviour (the terminator is written outside the array, \<open>atoi\<close> overflows).\<close>

theorem number_line_read:
  assumes "dict_inv d" "length (ce_bytes en 256) = 256"
    and "key \<noteq> []" "\<forall>c \<in> set key. ident_char c" "length key < 254"
    and "ds \<noteq> []" "\<forall>c \<in> set ds. is_digit c" "length key + length ds + 2 \<le> 10000"
  shows "(length ds < 100 \<and> digits_value 0 ds \<le> INT_MAX \<longrightarrow>
      (\<exists>d'. config_line en (number_line key ds) d = Some d' \<and> dict_inv d' \<and>
        dict_abs d' = (if dict_abs d (uppercase key) = None
          then (dict_abs d)(uppercase key \<mapsto> DICTIONARY_NUMBER (int (digits_value 0 ds))) else dict_abs d))) \<and>
    (length ds = 100 \<or> length ds < 100 \<and> INT_MAX < digits_value 0 ds \<longrightarrow> config_line en (number_line key ds) d = None) \<and>
    (100 < length ds \<longrightarrow> config_line en (number_line key ds) d = Some d)"
proof -
  let ?e = "\<lparr>de_key = uppercase key, de_value = DICTIONARY_NUMBER (int (digits_value 0 ds))\<rparr>"
  have k: "strlen (de_key ?e) < 265" "uppercase (uppercase key) = uppercase key"
    using assms(5) by (simp_all add: strlen_def uppercase_def)
  note v = number_line_value [OF assms(3-8,2), of d]
  have "\<exists>d'. config_line en (number_line key ds) d = Some d' \<and> dict_inv d' \<and>
      dict_abs d' = (if dict_abs d (uppercase key) = None
        then (dict_abs d)(uppercase key \<mapsto> DICTIONARY_NUMBER (int (digits_value 0 ds))) else dict_abs d)"
    if "length ds < 100" "digits_value 0 ds \<le> INT_MAX"
    using add_abs [OF assms(1) k(1)] v that k by (auto simp: atoi_def dictionary_addNumber_def)
  then show ?thesis using v by (auto simp: atoi_def)
qed

definition demo_config_env :: config_env where
  "demo_config_env = \<lparr>ce_bytes = (\<lambda>n. replicate n 0), ce_strings = (\<lambda>n. replicate n (replicate 256 0)),
     ce_ips = (\<lambda>n. replicate n \<lparr>ip = replicate 16 0, port = 0\<rparr>),
     ce_values = \<lparr>cfg_sending = \<lparr>cfg_t_max = 0, cfg_t_h = 0, cfg_md4_type = 7, cfg_md4_a = 0, cfg_md4_b = 0, cfg_md4_c = 0,
         cfg_md4_d = 0, cfg_mwa = 0, cfg_send_max = 0, cfg_max_packet = 0, cfg_diag_window = 0, cfg_sr_hash_key = 0,
         cfg_sr_hash_algorithm = RASTA_ALGO_MD4\<rparr>,
       cfg_redundancy = \<lparr>cfg_connections = [], cfg_crc_type = crc_init_opt_b (replicate 256 0), cfg_t_seq = 0,
         cfg_n_diagnose = 0, cfg_n_deferqueue_size = 0\<rparr>,
       cfg_general = \<lparr>cfg_rasta_network = 0, cfg_rasta_id = 0\<rparr>\<rparr>,
     ce_crc = crc_init_opt_b (replicate 256 0), ce_crc_table = replicate 256 0, ce_nic_ip = (\<lambda>_. None)\<rparr>"

lemma demo_config_bytes [simp]: "length (ce_bytes demo_config_env 256) = 256"
  by (simp add: demo_config_env_def)

text \<open>\<open>Rasta_T_Max=750\<close> in an empty dictionary.\<close>

theorem number_line_read_witness:
  "\<exists>d'. config_line demo_config_env (number_line (cstr ''Rasta_T_Max'') (cstr ''750'')) (dictionary_create 2) = Some d' \<and>
    dict_abs d' = [cstr ''RASTA_T_MAX'' \<mapsto> DICTIONARY_NUMBER 750]"
proof -
  have k: "uppercase (cstr ''Rasta_T_Max'') = cstr ''RASTA_T_MAX''" by (simp add: uppercase_def cstr_def to_upper_def)
  have v: "digits_value 0 (cstr ''750'') = 750" by (simp add: cstr_def)
  show ?thesis
    using number_line_read [OF create_dict(1), of demo_config_env "cstr ''Rasta_T_Max''" "cstr ''750''" 2] k v
    by (auto simp: create_dict(2) cstr_def ident_char_def is_digit_def is_alpha_def INT_MAX_def)
qed

text \<open>C35. Loaded values are in range: whatever a file that can be opened contains, and whatever storage held
  before, the length of the safety code is one of the three known ones and so the hashing context
  of every layer is usable unless SipHash is configured, the check code has at most four bytes,
  and the numbers of the redundancy layer have 16 bits.\<close>

theorem loaded_values_valid:
  assumes "config_load en (Some file) = Some (Inr c)"
  shows "cfg_md4_type (cfg_sending (cf_values c)) \<le> 2 \<and>
    (cfg_sr_hash_algorithm (cfg_sending (cf_values c)) \<noteq> RASTA_ALGO_SIPHASH_2_4 \<longrightarrow>
      wf_hash (init_hashing_context (cfg_sending (cf_values c)))) \<and>
    crc_bytes (cfg_crc_type (cfg_redundancy (cf_values c))) \<le> 4 \<and>
    unat (cfg_t_seq (cfg_redundancy (cf_values c))) < 65536 \<and>
    0 \<le> cfg_n_diagnose (cfg_redundancy (cf_values c)) \<and> cfg_n_diagnose (cfg_redundancy (cf_values c)) < 65536 \<and>
    unat (cfg_n_deferqueue_size (cfg_redundancy (cf_values c))) < 65536"
proof -
  obtain get s where s: "sending_values get s = Some (cfg_sending (cf_values c))"
    using assms by (auto simp: config_load_def config_setstd_def bind_Some_iff Let_def)
  obtain get cs where r: "redundancy_values en get cs = Some (cfg_redundancy (cf_values c))"
    using assms by (auto simp: config_load_def config_setstd_def bind_Some_iff Let_def)
  show ?thesis
    using sending_range [OF s] redundancy_range [OF r] init_hashing_wf [of "cfg_sending (cf_values c)"] by blast
qed

text \<open>An empty file gives the standard values.\<close>

theorem loaded_values_valid_witness:
  "\<exists>c. config_load demo_config_env (Some []) = Some (Inr c) \<and> cfg_md4_type (cfg_sending (cf_values c)) \<le> 2 \<and>
    wf_hash (init_hashing_context (cfg_sending (cf_values c))) \<and> cfg_t_max (cfg_sending (cf_values c)) = 1800"
proof -
  have g: "dictionary_get (dictionary_create 2) k = Some DICTIONARY_ERROR" if "length k < 265" for k
    using that by (simp add: dictionary_get_def dictionary_create_def strlen_def)
  obtain c where c: "config_load demo_config_env (Some []) = Some (Inr c)" "cfg_t_max (cfg_sending (cf_values c)) = 1800"
    "cfg_sr_hash_algorithm (cfg_sending (cf_values c)) = RASTA_ALGO_MD4"
    by (simp add: config_load_def config_setstd_def config_get_def sending_values_def connection_values_def
        redundancy_values_def general_values_def g cstr_def number_or_def string_choice_def Let_def)
  then show ?thesis using loaded_values_valid [OF c(1)] by auto
qed

end
