(* ===== verification/Config_Handle.thy ===== *)
theory Config_Handle
  imports Config_Load Sr_Node
begin

section \<open>From the configuration file to the node (rastahandle.c, rasta_new.c)\<close>

text \<open>
  What \<open>rasta_handle_init\<close> and \<open>get_initial_seq_num\<close> read through \<open>config_get\<close>, as the record
  that \<open>Sr_Handle\<close> takes. A configuration that was never initialised, because the file could not
  be opened, is read all the same: undefined behaviour.
\<close>

definition number_of :: "DictionaryValue \<Rightarrow> int option" where
  "number_of v = (case v of DICTIONARY_NUMBER n \<Rightarrow> Some n | _ \<Rightarrow> None)"

definition string_of :: "DictionaryValue \<Rightarrow> u8 list option" where
  "string_of v = (case v of DICTIONARY_STRING s \<Rightarrow> Some s | _ \<Rightarrow> None)"

text \<open>The outer \<open>None\<close> is an array that was released.\<close>

definition array_of :: "DictionaryValue \<Rightarrow> u8 list list option option" where
  "array_of v = (case v of DICTIONARY_ARRAY a \<Rightarrow> map_option Some a | _ \<Rightarrow> Some None)"

definition handle_settings :: "RastaConfig \<Rightarrow> loaded_config option" where
  "handle_settings c =
     do { logger_ty \<leftarrow> config_get c ''LOGGER_TYPE'';
          logger_maxlvl \<leftarrow> config_get c ''LOGGER_MAX_LEVEL'';
          logger_file \<leftarrow> config_get c ''LOGGER_FILE'';
          versions \<leftarrow> config_get c ''RASTA_ACCEPTED_VERSIONS'';
          init_seq \<leftarrow> config_get c ''RASTA_INITIAL_SEQ'';
          versions \<leftarrow> array_of versions;
          Some \<lparr>lc_values = cf_values c, lc_initial_seq = number_of init_seq, lc_logger_type = number_of logger_ty,
            lc_logger_max_level = number_of logger_maxlvl, lc_logger_file = string_of logger_file,
            lc_accepted_versions = versions\<rparr> }"

definition sr_init_from_file ::
  "config_env \<Rightarrow> (nat \<Rightarrow> int) \<Rightarrow> rasta_handle \<Rightarrow> u8 list option \<Rightarrow> rasta_handle option exits option" where
  "sr_init_from_file en fds handle file =
     do { r \<leftarrow> config_load en file;
          case r of Inl u \<Rightarrow> None
          | Inr c \<Rightarrow> do { settings \<leftarrow> handle_settings c; Some (sr_init_handle fds handle settings) } }"

end
