(* ===== verification/Udp.thy ===== *)
theory Udp
  imports C_Text Mux_Receive
begin

section \<open>Sockets (udp.h, udp.c)\<close>

text \<open>
  The wrappers around the socket calls. The answers of the operating system are the parameter
  \<open>socket_sys\<close>; what the program asks it to send is a value. A failing call ends the process.
  The conversions between addresses and their text, \<open>inet_ntop\<close>, \<open>inet_aton\<close> and \<open>inet_addr\<close>, are
  modelled, and \<open>deliver\<close> sends the datagrams of the multiplexer.
\<close>

record sockaddr_in =
  sin_port :: u16
  sin_addr :: u32

record socket_sys =
  sk_socket :: "nat \<Rightarrow> int"
  sk_bind :: "int \<Rightarrow> sockaddr_in \<Rightarrow> bool"
  sk_recvfrom :: "int \<Rightarrow> (u8 list \<times> sockaddr_in) option"
  sk_sendto :: "int \<Rightarrow> u8 list \<Rightarrow> sockaddr_in \<Rightarrow> bool"
  sk_getsockopt :: "int \<Rightarrow> bool"
  sk_shutdown :: "int \<Rightarrow> bool"
  sk_shutdown_harmless :: "int \<Rightarrow> bool"
  sk_close :: "int \<Rightarrow> bool"

definition IPV4_STR_LEN :: nat where "IPV4_STR_LEN = 16"

subsection \<open>Addresses and their text\<close>

definition decimal_char :: "nat \<Rightarrow> u8" where
  "decimal_char k = word_of_nat (48 + k)"

definition byte_text :: "u8 \<Rightarrow> cstring" where
  "byte_text b =
     (let n = unat b
      in (if n \<ge> 100 then [decimal_char (n div 100)] else []) @
         (if n \<ge> 10 then [decimal_char (n div 10 mod 10)] else []) @ [decimal_char (n mod 10)])"

definition addr_byte :: "u32 \<Rightarrow> nat \<Rightarrow> u8" where
  "addr_byte a i = ucast (drop_bit (8 * (3 - i)) a)"

definition dotted :: "u32 \<Rightarrow> cstring" where
  "dotted a = byte_text (addr_byte a 0) @ [46] @ byte_text (addr_byte a 1) @ [46] @ byte_text (addr_byte a 2) @ [46] @
     byte_text (addr_byte a 3)"

text \<open>\<open>inet_ntop\<close> refuses a text that does not fit the size it is told, whatever the array has.\<close>

definition inet_ntop :: "u32 \<Rightarrow> u8 list \<Rightarrow> nat \<Rightarrow> u8 list option" where
  "inet_ntop a host len = (if len < length (dotted a) + 1 then Some host else strcpy host (dotted a))"

definition sockaddr_to_host :: "sockaddr_in \<Rightarrow> u8 list \<Rightarrow> u8 list option" where
  "sockaddr_to_host sockaddr host = inet_ntop (sin_addr sockaddr) host IPV4_STR_LEN"

text \<open>\<open>strtoul\<close> with base 0 at a digit: hexadecimal after 0x, octal after 0, decimal otherwise.\<close>

definition hex_digit :: "u8 \<Rightarrow> bool" where
  "hex_digit b \<longleftrightarrow> is_digit b \<or> 0x41 \<le> b \<and> b \<le> 0x46 \<or> 0x61 \<le> b \<and> b \<le> 0x66"

definition digit_value :: "u8 \<Rightarrow> nat" where
  "digit_value b = (if is_digit b then unat b - 48 else unat (to_upper b) - 55)"

definition octal_digit :: "u8 \<Rightarrow> bool" where
  "octal_digit b \<longleftrightarrow> 0x30 \<le> b \<and> b \<le> 0x37"

definition number_of_digits :: "nat \<Rightarrow> u8 list \<Rightarrow> nat" where
  "number_of_digits base ds = foldl (\<lambda>n d. n * base + digit_value d) 0 ds"

definition read_digits :: "nat \<Rightarrow> (u8 \<Rightarrow> bool) \<Rightarrow> cstring \<Rightarrow> nat \<times> cstring" where
  "read_digits base is_one cs = (number_of_digits base (takeWhile is_one cs), dropWhile is_one cs)"

fun strtoul0 :: "cstring \<Rightarrow> nat \<times> cstring" where
  "strtoul0 (c # x # d # cs) =
     (if c = 0x30 \<and> (x = 0x78 \<or> x = 0x58) \<and> hex_digit d then read_digits 16 hex_digit (d # cs)
      else if c = 0x30 then read_digits 8 octal_digit (c # x # d # cs)
      else read_digits 10 is_digit (c # x # d # cs))"
| "strtoul0 cs = read_digits (if take 1 cs = [0x30] then 8 else 10) (if take 1 cs = [0x30] then octal_digit else is_digit) cs"

text \<open>Up to four numbers; the last one fills the bytes that are left. Text after white space is ignored.\<close>

definition last_limit :: "nat \<Rightarrow> nat" where
  "last_limit k = 256 ^ (4 - k) - 1"

fun aton_parts :: "nat \<Rightarrow> nat \<Rightarrow> nat \<Rightarrow> cstring \<Rightarrow> nat option" where
  "aton_parts 0 k acc cs = None"
| "aton_parts (Suc fuel) k acc cs =
     (if cs = [] \<or> \<not> is_digit (hd cs) then None
      else let (v, rest) = strtoul0 cs
           in if v > 0xFFFFFFFF then None
              else case rest of
                     [] \<Rightarrow> if v > last_limit k then None else Some (acc + v)
                   | c # cs \<Rightarrow>
                       if c = 46
                       then if k > 2 \<or> v > 255 then None else aton_parts fuel (k + 1) (acc + v * 256 ^ (3 - k)) cs
                       else if \<not> is_space c then None
                       else if v > last_limit k then None else Some (acc + v))"

definition inet_aton :: "cstring \<Rightarrow> u32 option" where
  "inet_aton host = map_option word_of_nat (aton_parts 5 0 0 host)"

definition inet_addr :: "cstring \<Rightarrow> u32" where
  "inet_addr host = (case inet_aton host of Some a \<Rightarrow> a | None \<Rightarrow> 0xFFFFFFFF)"

subsection \<open>The wrappers\<close>

definition udp_init :: "socket_sys \<Rightarrow> nat \<Rightarrow> int exits" where
  "udp_init sys n = (if sk_socket sys n = -1 then Exits else Continues (sk_socket sys n))"

definition udp_bind :: "socket_sys \<Rightarrow> int \<Rightarrow> u16 \<Rightarrow> unit exits" where
  "udp_bind sys file_descriptor p =
     (if sk_bind sys file_descriptor \<lparr>sin_port = p, sin_addr = 0\<rparr> then Continues () else Exits)"

definition udp_bind_device :: "socket_sys \<Rightarrow> int \<Rightarrow> u16 \<Rightarrow> cstring \<Rightarrow> unit exits" where
  "udp_bind_device sys file_descriptor p host =
     (if sk_bind sys file_descriptor \<lparr>sin_port = p, sin_addr = inet_addr host\<rparr> then Continues () else Exits)"

definition getSO_ERROR :: "socket_sys \<Rightarrow> int \<Rightarrow> unit exits" where
  "getSO_ERROR sys fd = (if sk_getsockopt sys fd then Continues () else Exits)"

definition udp_close :: "socket_sys \<Rightarrow> int \<Rightarrow> unit exits" where
  "udp_close sys file_descriptor =
     (if file_descriptor < 0 then Continues ()
      else case getSO_ERROR sys file_descriptor of
             Exits \<Rightarrow> Exits
           | Continues _ \<Rightarrow>
               if \<not> sk_shutdown sys file_descriptor \<and> \<not> sk_shutdown_harmless sys file_descriptor then Exits
               else if \<not> sk_close sys file_descriptor then Exits
               else Continues ())"

text \<open>A longer datagram is cut off at the size of the buffer.\<close>

definition udp_receive :: "socket_sys \<Rightarrow> int \<Rightarrow> nat \<Rightarrow> (u8 list \<times> sockaddr_in) exits" where
  "udp_receive sys file_descriptor max_buffer_len =
     (case sk_recvfrom sys file_descriptor of
        None \<Rightarrow> Exits
      | Some (bytes, sender) \<Rightarrow> Continues (take max_buffer_len bytes, sender))"

definition udp_send_sockaddr ::
  "socket_sys \<Rightarrow> int \<Rightarrow> u8 list \<Rightarrow> sockaddr_in \<Rightarrow> (int \<times> u8 list \<times> sockaddr_in) exits" where
  "udp_send_sockaddr sys file_descriptor message receiver =
     (if sk_sendto sys file_descriptor message receiver then Continues (file_descriptor, message, receiver) else Exits)"

definition udp_send :: "socket_sys \<Rightarrow> int \<Rightarrow> u8 list \<Rightarrow> cstring \<Rightarrow> u16 \<Rightarrow> (int \<times> u8 list \<times> sockaddr_in) exits" where
  "udp_send sys file_descriptor message host p =
     (case inet_aton host of
        None \<Rightarrow> Exits
      | Some a \<Rightarrow> udp_send_sockaddr sys file_descriptor message \<lparr>sin_port = p, sin_addr = a\<rparr>)"

text \<open>A datagram of the multiplexer on its way: the host is the string in the array of the transport channel.\<close>

definition deliver :: "socket_sys \<Rightarrow> datagram \<Rightarrow> (int \<times> u8 list \<times> sockaddr_in) exits option" where
  "deliver sys d = do { host \<leftarrow> string_in (d_host d); Some (udp_send sys (d_fd d) (d_bytes d) host (d_port d)) }"

subsection \<open>Text and back\<close>

lemma read_digits_spec:
  "list_all P ds \<Longrightarrow> rest = [] \<or> \<not> P (hd rest) \<Longrightarrow> read_digits base P (ds @ rest) = (number_of_digits base ds, rest)"
proof -
  assume p: "list_all P ds" and r: "rest = [] \<or> \<not> P (hd rest)"
  have "takeWhile P (ds @ rest) = ds" "dropWhile P (ds @ rest) = rest"
    using p r by (induction ds) (cases rest; auto)+
  then show ?thesis by (simp add: read_digits_def)
qed

text \<open>What the text of every byte looks like.\<close>

definition good_text :: "nat \<Rightarrow> cstring \<Rightarrow> bool" where
  "good_text n t \<longleftrightarrow> list_all is_digit t \<and> number_of_digits 10 t = n \<and> t \<noteq> [] \<and> length t \<le> 3 \<and>
     (hd t = 0x30 \<longrightarrow> t = [0x30])"

lemma decimal_digit:
  assumes "k < 10"
  shows "is_digit (decimal_char k)" "digit_value (decimal_char k) = k" "decimal_char k = 0x30 \<longleftrightarrow> k = 0"
proof -
  have u: "unat (decimal_char k) = 48 + k"
    unfolding decimal_char_def using assms by (subst unsigned_of_nat) (simp add: take_bit_nat_eq_self)
  then show d: "is_digit (decimal_char k)" using assms by (simp add: is_digit_iff)
  show "digit_value (decimal_char k) = k" using u d by (simp add: digit_value_def)
  show "decimal_char k = 0x30 \<longleftrightarrow> k = 0" using u by (simp add: word_unat_eq_iff)
qed

lemma three_digits: "(n div 100 * 10 + n div 10 mod 10) * 10 + n mod 10 = (n :: nat)"
proof -
  have "n div 100 = n div 10 div 10" by (simp add: div_mult2_eq [symmetric])
  then show ?thesis using div_mult_mod_eq [of "n div 10" 10] div_mult_mod_eq [of n 10] by simp
qed

lemma good_byte_text: "good_text (unat b) (byte_text b)"
proof -
  have n: "unat b < 256" by simp
  have d: "unat b div 100 < 10" "unat b div 10 mod 10 < 10" "unat b mod 10 < 10" using n by linarith+
  note ds = decimal_digit [OF d(1)] decimal_digit [OF d(2)] decimal_digit [OF d(3)]
  show ?thesis
  proof (cases "unat b \<ge> 100")
    case True
    then have "unat b div 100 \<noteq> 0" "unat b \<ge> 10" by auto
    then show ?thesis using True ds three_digits [of "unat b"] by (simp add: good_text_def byte_text_def Let_def number_of_digits_def)
  next
    case False
    show ?thesis
    proof (cases "unat b \<ge> 10")
      case True
      then have "unat b div 10 mod 10 \<noteq> 0" using False by auto
      moreover have "unat b div 10 mod 10 * 10 + unat b mod 10 = unat b" using False three_digits [of "unat b"] by simp
      ultimately show ?thesis
        using True False ds by (simp add: good_text_def byte_text_def Let_def number_of_digits_def div_greater_zero_iff)
    next
      case small: False
      then have "unat b mod 10 = unat b" by simp
      then show ?thesis using False small ds by (simp add: good_text_def byte_text_def Let_def number_of_digits_def)
    qed
  qed
qed

text \<open>A decimal number up to the next dot, or to the end.\<close>

lemma strtoul0_decimal:
  assumes "good_text n t" "rest = [] \<or> hd rest = 46"
  shows "strtoul0 (t @ rest) = (n, rest)"
proof -
  have g: "list_all is_digit t" "number_of_digits 10 t = n" "t \<noteq> []" "hd t = 0x30 \<longrightarrow> t = [0x30]"
    using assms(1) by (auto simp: good_text_def)
  have stop: "rest = [] \<or> \<not> is_digit (hd rest)" "rest = [] \<or> \<not> octal_digit (hd rest)"
    using assms(2) by (auto simp: is_digit_def octal_digit_def)
  have dec: "read_digits 10 is_digit (t @ rest) = (n, rest)" using read_digits_spec [OF g(1) stop(1)] g(2) by simp
  show ?thesis
  proof (cases "hd t = 0x30")
    case True
    then have t: "t = [0x30]" using g(4) by blast
    then have n: "n = 0" using g(2) by (simp add: number_of_digits_def digit_value_def is_digit_iff)
    have "list_all octal_digit [0x30]" by (simp add: octal_digit_def)
    from read_digits_spec [OF this stop(2), of 8] have oct: "read_digits 8 octal_digit (0x30 # rest) = (0, rest)"
      by (simp add: number_of_digits_def digit_value_def is_digit_iff)
    have "\<not> (hd rest = 0x78 \<or> hd rest = 0x58) \<or> rest = []" using assms(2) by auto
    then show ?thesis
      using oct t n by (cases "0x30 # rest" rule: strtoul0.cases) auto
  next
    case False
    then have "hd (t @ rest) \<noteq> 0x30" using g(3) by simp
    then show ?thesis using dec g(3) by (cases "t @ rest" rule: strtoul0.cases) auto
  qed
qed

lemma good_text_start: "good_text n t \<Longrightarrow> t @ rest \<noteq> [] \<and> is_digit (hd (t @ rest))"
  by (cases t) (auto simp: good_text_def)

lemma aton_part:
  assumes "good_text n t" "n < 256" "k \<le> 2"
  shows "aton_parts (Suc fuel) k acc (t @ 46 # rest) = aton_parts fuel (k + 1) (acc + n * 256 ^ (3 - k)) rest"
  using strtoul0_decimal [OF assms(1), of "46 # rest"] good_text_start [OF assms(1), of "46 # rest"] assms(2,3) by simp

lemma aton_last:
  assumes "good_text n t" "n < 256"
  shows "aton_parts (Suc fuel) 3 acc t = Some (acc + n)"
  using strtoul0_decimal [OF assms(1), of "[]"] good_text_start [OF assms(1), of "[]"] assms(2)
  by (simp add: last_limit_def)

lemma aton_dotted:
  "aton_parts 5 0 0 (dotted a) = Some (unat (addr_byte a 0) * 256 ^ 3 + unat (addr_byte a 1) * 256 ^ 2 +
     unat (addr_byte a 2) * 256 + unat (addr_byte a 3))"
proof -
  let ?t = "\<lambda>i. byte_text (addr_byte a i)" and ?n = "\<lambda>i. unat (addr_byte a i)"
  have b: "?n i < 256" for i by simp
  have "aton_parts 5 0 0 (dotted a) = aton_parts 4 1 (?n 0 * 256 ^ 3) (?t 1 @ 46 # ?t 2 @ 46 # ?t 3)"
    using aton_part [OF good_byte_text b, of 0 4 0 0 "?t 1 @ 46 # ?t 2 @ 46 # ?t 3"] by (simp add: dotted_def)
  also have "\<dots> = aton_parts 3 2 (?n 0 * 256 ^ 3 + ?n 1 * 256 ^ 2) (?t 2 @ 46 # ?t 3)"
    using aton_part [OF good_byte_text b, of 1 3 "?n 0 * 256 ^ 3" 1 "?t 2 @ 46 # ?t 3"]
    by (simp add: numeral_2_eq_2 [symmetric])
  also have "\<dots> = aton_parts 2 3 (?n 0 * 256 ^ 3 + ?n 1 * 256 ^ 2 + ?n 2 * 256) (?t 3)"
    using aton_part [OF good_byte_text b, of 2 2 "?n 0 * 256 ^ 3 + ?n 1 * 256 ^ 2" 2 "?t 3"] by simp
  also have "\<dots> = Some (?n 0 * 256 ^ 3 + ?n 1 * 256 ^ 2 + ?n 2 * 256 + ?n 3)"
    using aton_last [OF good_byte_text b, of 1 "?n 0 * 256 ^ 3 + ?n 1 * 256 ^ 2 + ?n 2 * 256" 3]
    by (simp add: numeral_2_eq_2 [symmetric] del: aton_parts.simps)
  finally show ?thesis .
qed

lemma addr_bytes:
  "unat (addr_byte a 0) * 256 ^ 3 + unat (addr_byte a 1) * 256 ^ 2 + unat (addr_byte a 2) * 256 + unat (addr_byte a 3) = unat a"
proof -
  have b: "unat (addr_byte a i) = unat a div 256 ^ (3 - i) mod 256" if "i \<le> 3" for i
  proof -
    have p: "(2 :: nat) ^ (8 * (3 - i)) = 256 ^ (3 - i)" by (simp add: power_mult)
    have "unat (addr_byte a i) = take_bit 8 (drop_bit (8 * (3 - i)) (unat a))"
      unfolding addr_byte_def by (simp only: unsigned_ucast_eq unsigned_take_bit_eq unat_drop_bit_eq) simp
    then show ?thesis by (simp only: drop_bit_eq_div take_bit_eq_mod p) simp
  qed
  let ?n = "unat a"
  have "?n div 256 ^ 3 < 256" by (rule less_mult_imp_div_less) simp
  moreover have "?n div 256 ^ 3 = ?n div 256 div 256 div 256" "?n div 256 ^ 2 = ?n div 256 div 256"
    by (simp_all add: div_mult2_eq [symmetric])
  moreover have "?n div 256 div 256 div 256 * 16777216 + ?n div 256 div 256 mod 256 * 65536 + ?n div 256 mod 256 * 256 +
      ?n mod 256 = ?n"
    using div_mult_mod_eq [of ?n 256] div_mult_mod_eq [of "?n div 256" 256] div_mult_mod_eq [of "?n div 256 div 256" 256]
    by linarith
  ultimately show ?thesis using b [of 0] b [of 1] b [of 2] b [of 3] by simp
qed

lemma aton_ntop: "inet_aton (dotted a) = Some a"
  by (simp only: inet_aton_def aton_dotted addr_bytes option.map) simp

text \<open>The text of an address as a codec.\<close>

interpretation address_text: codec dotted inet_aton "\<lambda>_. True"
  by unfold_locales (rule aton_ntop)

lemma dotted_length: "length (dotted a) \<le> 15"
proof -
  have "length (byte_text b) \<le> 3" for b using good_byte_text [of b] by (simp add: good_text_def)
  then have "length (byte_text (addr_byte a 0)) \<le> 3" "length (byte_text (addr_byte a 1)) \<le> 3"
    "length (byte_text (addr_byte a 2)) \<le> 3" "length (byte_text (addr_byte a 3)) \<le> 3" by blast+
  then show ?thesis by (simp add: dotted_def)
qed

lemma dotted_terminated: "0 \<notin> set (dotted a)"
proof -
  have "0 \<notin> set (byte_text b)" for b
    using good_byte_text [of b] by (auto simp: good_text_def list_all_iff is_digit_def)
  then show ?thesis by (auto simp: dotted_def)
qed

text \<open>What the receive function of the multiplexer does with the sender's address.\<close>

lemma host_written: "sockaddr_to_host s host = buf_write host 0 (dotted (sin_addr s) @ [0])"
  using dotted_length [of "sin_addr s"] by (simp add: sockaddr_to_host_def inet_ntop_def IPV4_STR_LEN_def strcpy_def)

subsection \<open>Property\<close>



end
