(* ===== verification/Config_Nic.thy ===== *)
theory Config_Nic
  imports Config_Load Udp
begin

section \<open>Addresses of network interfaces (config.c)\<close>

text \<open>
  An address \<open>*\<close> in the configuration stands for the address of a wired network interface. The
  answers of the operating system are the parameter \<open>nic_sys\<close>: the list of interface addresses,
  whether an interface name belongs to a wireless device and with which protocol, and the address
  of a name. \<open>ns_buffer\<close> is the static buffer of \<open>inet_ntoa\<close>.
\<close>

record ifaddrs =
  ifa_name :: cstring
  ifa_family :: "u16 option"  \<comment> \<open>\<open>None\<close> for an entry without address\<close>
  ifa_flags :: u32

record nic_sys =
  ns_getifaddrs :: "ifaddrs list option"
  ns_socket :: "cstring \<Rightarrow> bool"
  ns_wireless :: "cstring \<Rightarrow> cstring option"
  ns_address :: "cstring \<Rightarrow> u32"
  ns_buffer :: "u8 list"

definition IFNAMSIZ :: nat where "IFNAMSIZ = 16"
definition AF_PACKET :: u16 where "AF_PACKET = 17"
definition IFF_LOOPBACK :: u32 where "IFF_LOOPBACK = 8"

subsection \<open>The operations\<close>

text \<open>The name is cut to fifteen characters; the protocol is an array of sixteen, or no array.\<close>

definition isWirelessNic :: "nic_sys \<Rightarrow> cstring \<Rightarrow> u8 list option \<Rightarrow> bool \<times> u8 list option" where
  "isWirelessNic sys ifname protocol =
     (let name = take (IFNAMSIZ - 1) ifname
      in if \<not> ns_socket sys name then (False, protocol)
         else case ns_wireless sys name of
                None \<Rightarrow> (False, protocol)
              | Some p \<Rightarrow> (True, map_option (\<lambda>_. take IFNAMSIZ (p @ replicate IFNAMSIZ 0)) protocol))"

text \<open>The loop over the interfaces: the text of the address found last, and a break at the index.\<close>

fun nic_loop :: "nic_sys \<Rightarrow> nat \<Rightarrow> nat \<Rightarrow> cstring option \<Rightarrow> ifaddrs list \<Rightarrow> cstring option" where
  "nic_loop sys index eth_nics_count nic_ip [] = nic_ip"
| "nic_loop sys index eth_nics_count nic_ip (ifa # ifas) =
     (if ifa_family ifa \<noteq> Some AF_PACKET then nic_loop sys index eth_nics_count nic_ip ifas
      else if fst (isWirelessNic sys (ifa_name ifa) (Some (replicate IFNAMSIZ 0)))
      then nic_loop sys index eth_nics_count nic_ip ifas
      else if and (ifa_flags ifa) IFF_LOOPBACK \<noteq> 0 then nic_loop sys index eth_nics_count nic_ip ifas
      else
        let eth_nics_count = eth_nics_count + 1;
            nic_ip = Some (dotted (ns_address sys (take (IFNAMSIZ - 1) (ifa_name ifa))))
        in if eth_nics_count = index + 1 then nic_ip else nic_loop sys index eth_nics_count nic_ip ifas)"

text \<open>\<open>None\<close> is the null pointer; \<open>fresh\<close> is the content of the array the function allocates.\<close>

definition getIpByNic :: "nic_sys \<Rightarrow> u8 list \<Rightarrow> nat \<Rightarrow> u8 list option" where
  "getIpByNic sys fresh index =
     (case ns_getifaddrs sys of
        None \<Rightarrow> None
      | Some ifas \<Rightarrow>
          (case nic_loop sys index 0 None ifas of
             None \<Rightarrow> Some fresh
           | Some t \<Rightarrow> Some (take 16 (t @ 0 # drop (length t + 1) (ns_buffer sys)))))"

text \<open>The environment of the configuration with these answers.\<close>

definition with_nics :: "nic_sys \<Rightarrow> config_env \<Rightarrow> config_env" where
  "with_nics sys en = en\<lparr>ce_nic_ip := getIpByNic sys (ce_bytes en 16)\<rparr>"

subsection \<open>The interface that is chosen\<close>

definition wired :: "nic_sys \<Rightarrow> ifaddrs \<Rightarrow> bool" where
  "wired sys ifa \<longleftrightarrow> ifa_family ifa = Some AF_PACKET \<and> and (ifa_flags ifa) IFF_LOOPBACK = 0 \<and>
     (ns_socket sys (take 15 (ifa_name ifa)) \<longrightarrow> ns_wireless sys (take 15 (ifa_name ifa)) = None)"

definition nic_text :: "nic_sys \<Rightarrow> ifaddrs \<Rightarrow> cstring" where
  "nic_text sys ifa = dotted (ns_address sys (take 15 (ifa_name ifa)))"

lemma nic_loop_skip: "\<not> wired sys ifa \<Longrightarrow> nic_loop sys index n t (ifa # ifas) = nic_loop sys index n t ifas"
  by (auto simp: wired_def isWirelessNic_def IFNAMSIZ_def Let_def split: option.splits)

lemma nic_loop_take: "wired sys ifa \<Longrightarrow> nic_loop sys index n t (ifa # ifas) =
   (if n = index then Some (nic_text sys ifa) else nic_loop sys index (n + 1) (Some (nic_text sys ifa)) ifas)"
  by (auto simp: wired_def nic_text_def isWirelessNic_def IFNAMSIZ_def Let_def)

lemma nic_loop_spec:
  "n \<le> index \<Longrightarrow> nic_loop sys index n t ifas =
     (let ws = filter (wired sys) ifas
      in if ws = [] then t else Some (nic_text sys (ws ! min (index - n) (length ws - 1))))"
proof (induction ifas arbitrary: n t)
  case (Cons ifa ifas)
  show ?case
  proof (cases "wired sys ifa")
    case True
    show ?thesis
    proof (cases "n = index")
      case False
      then have i: "index - n = Suc (index - Suc n)" "Suc n \<le> index" using Cons.prems by simp_all
      show ?thesis
      proof (cases "filter (wired sys) ifas")
        case Nil
        then show ?thesis using Cons.IH [of "n + 1" "Some (nic_text sys ifa)"] i False True by (simp add: nic_loop_take del: nic_loop.simps)
      next
        case (Cons w ws)
        then show ?thesis using Cons.IH [of "n + 1" "Some (nic_text sys ifa)"] i False True by (simp add: nic_loop_take del: nic_loop.simps)
      qed
    qed (simp add: True nic_loop_take del: nic_loop.simps)
  qed (use Cons in \<open>simp add: nic_loop_skip del: nic_loop.simps\<close>)
qed simp

text \<open>
  The address of the wired interface with the index is taken, of the last one when there are
  fewer, in the order of the list; without any, the array keeps what the allocator left in it.
\<close>

theorem wired_interface_chosen:
  assumes "ns_getifaddrs sys = Some ifas"
  shows "case filter (wired sys) ifas of
     [] \<Rightarrow> getIpByNic sys fresh index = Some fresh
   | w # ws \<Rightarrow> \<exists>rest. getIpByNic sys fresh index = Some (nic_text sys ((w # ws) ! min index (length ws)) @ 0 # rest)"
proof (cases "filter (wired sys) ifas")
  case Nil
  then show ?thesis using assms nic_loop_spec [of 0 index sys None ifas] by (simp add: getIpByNic_def)
next
  case (Cons w ws)
  define t where "t = nic_text sys ((w # ws) ! min index (length ws))"
  have "length t \<le> 15" by (simp add: t_def nic_text_def dotted_length)
  then have "take (16 - length t) (0 # b) = 0 # take (15 - length t) b" for b :: "u8 list" by (simp add: take_Cons')
  then have "getIpByNic sys fresh index = Some (t @ 0 # take (15 - length t) (drop (length t + 1) (ns_buffer sys)))"
    using assms nic_loop_spec [of 0 index sys None ifas] Cons \<open>length t \<le> 15\<close>
    by (simp add: getIpByNic_def Let_def flip: t_def)
  then show ?thesis using Cons by (auto simp: t_def)
qed

text \<open>A line \<open>*:port\<close> of the configuration without wired interface gives an address nobody wrote.\<close>

theorem star_without_interface:
  assumes "ns_getifaddrs sys = Some ifas" "filter (wired sys) ifas = []"
    and "string_in data = Some (0x2A # c # digits)" "data ! 0 = 0x2A" "\<forall>c \<in> set digits. is_digit c" "length digits < 10"
    and "atoi digits = Some p"
  shows "extractIPData (with_nics sys en) data i r = Some (r\<lparr>ip := ce_bytes en 16, port := p\<rparr>)"
proof -
  have "length (takeWhile is_digit digits) \<le> length digits" by (rule length_takeWhile_le)
  then show ?thesis
    using assms nic_loop_spec [of 0 i sys None ifas] by (simp add: extractIPData_def with_nics_def getIpByNic_def)
qed

end
