(* ===== verification/Scip.thy ===== *)
theory Scip
  imports Scils Sci_Ls_Icd
begin

section \<open>The optional SCI-P endpoint for point controllers (scip.c, scip_telegram_factory.c)\<close>

text \<open>
  The sibling of the SCI-LS endpoint that the option \<open>BUILD_SCIP_SUPPORT\<close> adds. As there, the
  calls of \<open>sr_send\<close> are recorded in order and a notification is an optional function on the
  endpoint and the state of the application. Enumerations are unsigned integers: a byte of the
  payload is cast to the enumeration without a check.
\<close>

subsection \<open>scip_telegram_factory.c\<close>

definition SCIP_MESSAGE_TYPE_CHANGE_LOCATION :: u16 where "SCIP_MESSAGE_TYPE_CHANGE_LOCATION = 0x0100"
definition SCIP_MESSAGE_TYPE_LOCATION_STATUS :: u16 where "SCIP_MESSAGE_TYPE_LOCATION_STATUS = 0x0B00"
definition SCIP_MESSAGE_TYPE_TIMEOUT :: u16 where "SCIP_MESSAGE_TYPE_TIMEOUT = 0x0C00"

lemmas scip_message_types = SCIP_MESSAGE_TYPE_CHANGE_LOCATION_def SCIP_MESSAGE_TYPE_LOCATION_STATUS_def
  SCIP_MESSAGE_TYPE_TIMEOUT_def

type_synonym scip_point_target_location = u32
type_synonym scip_point_location = u32

definition POINT_LOCATION_CHANGE_TO_RIGHT :: scip_point_target_location where "POINT_LOCATION_CHANGE_TO_RIGHT = 1"
definition POINT_LOCATION_CHANGE_TO_LEFT :: scip_point_target_location where "POINT_LOCATION_CHANGE_TO_LEFT = 2"
definition POINT_LOCATION_RIGHT :: scip_point_location where "POINT_LOCATION_RIGHT = 1"
definition POINT_LOCATION_LEFT :: scip_point_location where "POINT_LOCATION_LEFT = 2"
definition POINT_NO_TARGET_LOCATION :: scip_point_location where "POINT_NO_TARGET_LOCATION = 3"
definition POINT_BUMPED :: scip_point_location where "POINT_BUMPED = 4"

lemmas scip_locations = POINT_LOCATION_CHANGE_TO_RIGHT_def POINT_LOCATION_CHANGE_TO_LEFT_def POINT_LOCATION_RIGHT_def
  POINT_LOCATION_LEFT_def POINT_NO_TARGET_LOCATION_def POINT_BUMPED_def

definition scip_create_change_location_telegram ::
  "cstring \<Rightarrow> cstring \<Rightarrow> scip_point_target_location \<Rightarrow> sci_telegram option" where
  "scip_create_change_location_telegram sender receiver location =
     do { t \<leftarrow> sci_create_base_telegram SCI_PROTOCOL_P sender receiver SCIP_MESSAGE_TYPE_CHANGE_LOCATION;
          set_payload t [ucast location] }"

definition scip_create_location_status_telegram ::
  "cstring \<Rightarrow> cstring \<Rightarrow> scip_point_location \<Rightarrow> sci_telegram option" where
  "scip_create_location_status_telegram sender receiver location =
     do { t \<leftarrow> sci_create_base_telegram SCI_PROTOCOL_P sender receiver SCIP_MESSAGE_TYPE_LOCATION_STATUS;
          set_payload t [ucast location] }"

definition scip_create_timeout_telegram :: "cstring \<Rightarrow> cstring \<Rightarrow> sci_telegram option" where
  "scip_create_timeout_telegram sender receiver =
     sci_create_base_telegram SCI_PROTOCOL_P sender receiver SCIP_MESSAGE_TYPE_TIMEOUT"

definition scip_parse_change_location_payload ::
  "sci_telegram \<Rightarrow> scip_point_target_location \<Rightarrow> (sci_parse_result \<times> scip_point_target_location) option" where
  "scip_parse_change_location_payload telegram location =
     (if sci_get_message_type telegram \<noteq> SCIP_MESSAGE_TYPE_CHANGE_LOCATION
      then Some (SCI_PARSE_INVALID_MESSAGE_TYPE, location)
      else do { b \<leftarrow> buf_get (payload_data (t_payload telegram)) 0; Some (SCI_PARSE_SUCCESS, ucast b) })"

definition scip_parse_location_status_payload ::
  "sci_telegram \<Rightarrow> scip_point_location \<Rightarrow> (sci_parse_result \<times> scip_point_location) option" where
  "scip_parse_location_status_payload telegram location =
     (if sci_get_message_type telegram \<noteq> SCIP_MESSAGE_TYPE_LOCATION_STATUS
      then Some (SCI_PARSE_INVALID_MESSAGE_TYPE, location)
      else do { b \<leftarrow> buf_get (payload_data (t_payload telegram)) 0; Some (SCI_PARSE_SUCCESS, ucast b) })"

subsection \<open>The endpoint\<close>

record scip_t =
  scip_sciName :: cstring
  scip_names :: "u64 hashmap_map"
  scip_sr_sent :: "(u64 \<times> u8 list) list"

type_synonym 's scip_sender_ptr = "(u8 list \<Rightarrow> scip_t \<times> 's \<Rightarrow> scip_t \<times> 's) option"

record 's scip_notification_ptr =
  scip_on_version_request_received :: "(u8 list \<Rightarrow> u8 \<Rightarrow> scip_t \<times> 's \<Rightarrow> scip_t \<times> 's) option"
  scip_on_version_response_received ::
    "(u8 list \<Rightarrow> u8 \<Rightarrow> sci_version_check_result \<Rightarrow> u8 \<Rightarrow> u8 list \<Rightarrow> scip_t \<times> 's \<Rightarrow> scip_t \<times> 's) option"
  scip_on_status_request_received :: "'s scip_sender_ptr"
  scip_on_status_begin_received :: "'s scip_sender_ptr"
  scip_on_status_finish_received :: "'s scip_sender_ptr"
  scip_on_change_location_received :: "(u8 list \<Rightarrow> scip_point_target_location \<Rightarrow> scip_t \<times> 's \<Rightarrow> scip_t \<times> 's) option"
  scip_on_location_status_received :: "(u8 list \<Rightarrow> scip_point_location \<Rightarrow> scip_t \<times> 's \<Rightarrow> scip_t \<times> 's) option"
  scip_on_timeout_received :: "'s scip_sender_ptr"

text \<open>The array for the own name has one byte less than \<open>strcpy\<close> writes.\<close>

definition scip_init :: "(nat \<Rightarrow> u8 list) \<Rightarrow> cstring \<Rightarrow> scip_t option" where
  "scip_init uninitialised sci_name =
     do { mem \<leftarrow> strcpy (take (strlen sci_name) (uninitialised (strlen sci_name))) sci_name;
          name \<leftarrow> string_in mem;
          Some \<lparr>scip_sciName = name, scip_names = hashmap_new, scip_sr_sent = []\<rparr> }"

definition send_telegram :: "scip_t \<Rightarrow> sci_telegram \<Rightarrow> (sci_return_code \<times> scip_t) option" where
  "send_telegram p telegram =
     do { data \<leftarrow> sci_encode_telegram telegram;
          sci_name \<leftarrow> sci_get_name_string (t_receiver telegram);
          case hashmap_get (scip_names p) sci_name of
            (_, Some rastaId) \<Rightarrow> Some (SUCCESS, p\<lparr>scip_sr_sent := scip_sr_sent p @ [(rastaId, data)]\<rparr>)
          | (_, None) \<Rightarrow> Some (UNKNOWN_SCI_NAME, p) }"

definition scip_send_version_request :: "scip_t \<Rightarrow> cstring \<Rightarrow> u8 \<Rightarrow> (sci_return_code \<times> scip_t) option" where
  "scip_send_version_request p receiver estw_version =
     do { telegram \<leftarrow> sci_create_version_request SCI_PROTOCOL_P (scip_sciName p) receiver estw_version;
          send_telegram p telegram }"

definition scip_send_version_response ::
  "scip_t \<Rightarrow> cstring \<Rightarrow> u8 \<Rightarrow> sci_version_check_result \<Rightarrow> u8 \<Rightarrow> u8 list \<Rightarrow> (sci_return_code \<times> scip_t) option" where
  "scip_send_version_response p receiver btp_version result checksum_len checksum =
     do { telegram \<leftarrow> sci_create_version_response SCI_PROTOCOL_P (scip_sciName p) receiver btp_version result
            checksum_len checksum;
          send_telegram p telegram }"

definition scip_send_status_request :: "scip_t \<Rightarrow> cstring \<Rightarrow> (sci_return_code \<times> scip_t) option" where
  "scip_send_status_request p receiver =
     do { telegram \<leftarrow> sci_create_status_request SCI_PROTOCOL_P (scip_sciName p) receiver; send_telegram p telegram }"

definition scip_send_status_begin :: "scip_t \<Rightarrow> cstring \<Rightarrow> (sci_return_code \<times> scip_t) option" where
  "scip_send_status_begin p receiver =
     do { telegram \<leftarrow> sci_create_status_begin SCI_PROTOCOL_P (scip_sciName p) receiver; send_telegram p telegram }"

definition scip_send_status_finish :: "scip_t \<Rightarrow> cstring \<Rightarrow> (sci_return_code \<times> scip_t) option" where
  "scip_send_status_finish p receiver =
     do { telegram \<leftarrow> sci_create_status_finish SCI_PROTOCOL_P (scip_sciName p) receiver; send_telegram p telegram }"

definition scip_send_change_location ::
  "scip_t \<Rightarrow> cstring \<Rightarrow> scip_point_target_location \<Rightarrow> (sci_return_code \<times> scip_t) option" where
  "scip_send_change_location p receiver new_location =
     do { telegram \<leftarrow> scip_create_change_location_telegram (scip_sciName p) receiver new_location;
          send_telegram p telegram }"

definition scip_send_location_status ::
  "scip_t \<Rightarrow> cstring \<Rightarrow> scip_point_location \<Rightarrow> (sci_return_code \<times> scip_t) option" where
  "scip_send_location_status p receiver current_location =
     do { telegram \<leftarrow> scip_create_location_status_telegram (scip_sciName p) receiver current_location;
          send_telegram p telegram }"

definition scip_send_timeout :: "scip_t \<Rightarrow> cstring \<Rightarrow> (sci_return_code \<times> scip_t) option" where
  "scip_send_timeout p receiver =
     do { telegram \<leftarrow> scip_create_timeout_telegram (scip_sciName p) receiver; send_telegram p telegram }"

subsection \<open>Receiving\<close>

text \<open>The results of the parsers are compared after the call; the out parameters start uninitialised.\<close>

definition scip_handle_version_request ::
  "'s scip_notification_ptr \<Rightarrow> sci_telegram \<Rightarrow> scip_t \<times> 's \<Rightarrow> (scip_t \<times> 's) option" where
  "scip_handle_version_request nf telegram s =
     do { (result, estw_version) \<leftarrow> sci_parse_version_request_payload telegram 0;
          Some (case scip_on_version_request_received nf of
                  Some f \<Rightarrow> if result = SCI_PARSE_SUCCESS then f (t_sender telegram) estw_version s else s
                | None \<Rightarrow> s) }"

definition scip_handle_version_response ::
  "version_response_out \<Rightarrow> 's scip_notification_ptr \<Rightarrow> sci_telegram \<Rightarrow> scip_t \<times> 's \<Rightarrow> (scip_t \<times> 's) option" where
  "scip_handle_version_response uninitialised nf telegram s =
     do { (result, out) \<leftarrow> sci_parse_version_response_payload telegram uninitialised;
          Some (case scip_on_version_response_received nf of
                  Some f \<Rightarrow> if result = SCI_PARSE_SUCCESS
                            then f (t_sender telegram) (out_btp_version out) (out_result out) (out_checksum_len out)
                                   (out_checksum out) s
                            else s
                | None \<Rightarrow> s) }"

definition handle_change_location ::
  "'s scip_notification_ptr \<Rightarrow> sci_telegram \<Rightarrow> scip_t \<times> 's \<Rightarrow> (scip_t \<times> 's) option" where
  "handle_change_location nf telegram s =
     do { (result, location) \<leftarrow> scip_parse_change_location_payload telegram 0;
          Some (case scip_on_change_location_received nf of
                  Some f \<Rightarrow> if result = SCI_PARSE_SUCCESS then f (t_sender telegram) location s else s
                | None \<Rightarrow> s) }"

definition handle_location_status ::
  "'s scip_notification_ptr \<Rightarrow> sci_telegram \<Rightarrow> scip_t \<times> 's \<Rightarrow> (scip_t \<times> 's) option" where
  "handle_location_status nf telegram s =
     do { (result, location) \<leftarrow> scip_parse_location_status_payload telegram 0;
          Some (case scip_on_location_status_received nf of
                  Some f \<Rightarrow> if result = SCI_PARSE_SUCCESS then f (t_sender telegram) location s else s
                | None \<Rightarrow> s) }"

text \<open>The name is a pointer to characters: without a terminator it is read past its array.\<close>

definition scip_register_sci_name :: "nat \<Rightarrow> scip_t \<Rightarrow> u8 list \<Rightarrow> u64 \<Rightarrow> scip_t option" where
  "scip_register_sci_name mem p sci_name rasta_id =
     do { name \<leftarrow> string_in sci_name;
          field \<leftarrow> pad_name name;
          key \<leftarrow> sci_get_name_string field;
          case hashmap_get (scip_names p) key of
            (MAP_MISSING, _) \<Rightarrow> Some (p\<lparr>scip_names := snd (hashmap_put mem (scip_names p) key rasta_id)\<rparr>)
          | _ \<Rightarrow> Some p }"

definition scip_dispatch ::
  "version_response_out \<Rightarrow> 's scip_notification_ptr \<Rightarrow> sci_telegram \<Rightarrow> scip_t \<times> 's \<Rightarrow> (scip_t \<times> 's) option" where
  "scip_dispatch uninitialised nf parsed s =
     (let m = sci_get_message_type parsed;
          tell = \<lambda>f. Some (case f of Some f \<Rightarrow> f (t_sender parsed) s | None \<Rightarrow> s)
      in if m = SCI_MESSAGE_TYPE_VERSION_REQUEST then scip_handle_version_request nf parsed s
         else if m = SCI_MESSAGE_TYPE_VERSION_RESPONSE then scip_handle_version_response uninitialised nf parsed s
         else if m = SCI_MESSAGE_TYPE_STATUS_REQUEST then tell (scip_on_status_request_received nf)
         else if m = SCI_MESSAGE_TYPE_STATUS_BEGIN then tell (scip_on_status_begin_received nf)
         else if m = SCI_MESSAGE_TYPE_STATUS_FINISH then tell (scip_on_status_finish_received nf)
         else if m = SCIP_MESSAGE_TYPE_CHANGE_LOCATION then handle_change_location nf parsed s
         else if m = SCIP_MESSAGE_TYPE_LOCATION_STATUS then handle_location_status nf parsed s
         else if m = SCIP_MESSAGE_TYPE_TIMEOUT then tell (scip_on_timeout_received nf)
         else Some s)"

definition scip_on_rasta_receive ::
  "nat \<Rightarrow> u8 list \<Rightarrow> version_response_out \<Rightarrow> 's scip_notification_ptr \<Rightarrow> u64 \<Rightarrow> u8 list \<Rightarrow> scip_t \<times> 's \<Rightarrow>
   (scip_t \<times> 's) option" where
  "scip_on_rasta_receive mem junk uninitialised nf message_id message s =
     (case sci_decode_telegram junk message of
        None \<Rightarrow> Some s
      | Some parsed \<Rightarrow>
          if t_protocol parsed \<noteq> SCI_PROTOCOL_P then Some s
          else do { p \<leftarrow> scip_register_sci_name mem (fst s) (t_sender parsed) message_id;
                    scip_dispatch uninitialised nf parsed (p, snd s) })"

subsection \<open>Telegrams of the endpoint\<close>

lemma scip_init_undefined: "scip_init uninitialised sci_name = None"
  by (simp add: scip_init_def strcpy_def buf_write_def strlen_def)

text \<open>Every telegram of the endpoint is well formed and carries the padded name of its sender.\<close>

definition telegram_from :: "cstring \<Rightarrow> sci_telegram \<Rightarrow> bool" where
  "telegram_from name t \<longleftrightarrow> wf_telegram t \<and> t_protocol t = SCI_PROTOCOL_P \<and> pad_name name = Some (t_sender t)"

lemma base_from: "sci_create_base_telegram SCI_PROTOCOL_P s r m = Some t \<Longrightarrow> telegram_from s t"
  using create_base_wf [of SCI_PROTOCOL_P s r m t]
  by (auto simp: telegram_from_def sci_create_base_telegram_def bind_Some_iff)

lemma payload_from: "telegram_from s t \<Longrightarrow> set_payload t bs = Some t' \<Longrightarrow> telegram_from s t'"
  using set_payload_wf [of t bs t'] by (auto simp: telegram_from_def set_payload_def bind_Some_iff)

lemma pad_name_letters: "pad_name n = Some f \<Longrightarrow> 0 \<notin> set n \<Longrightarrow> 0 \<notin> set f"
  by (cases "length n \<le> SCI_NAME_LENGTH")
    (auto simp: pad_name_fits pad_name_overflow SCI_NAME_PADDING_CHAR_def)

text \<open>What reached \<open>sr_send\<close> when the registry knew the receiver.\<close>

lemma send_telegram_sent:
  assumes "telegram_from s t" "send_telegram p t = Some (SUCCESS, p')"
  shows "\<exists>i bs. scip_sr_sent p' = scip_sr_sent p @ [(i, bs)] \<and> sci_encode_telegram t = Some bs"
proof -
  obtain d k where d: "sci_encode_telegram t = Some d" "sci_get_name_string (t_receiver t) = Some k"
    using assms(2) by (auto simp: send_telegram_def bind_Some_iff)
  obtain i where "snd (hashmap_get (scip_names p) k) = Some i" "p' = p\<lparr>scip_sr_sent := scip_sr_sent p @ [(i, d)]\<rparr>"
    using assms(2) d by (cases "hashmap_get (scip_names p) k"; cases "snd (hashmap_get (scip_names p) k)")
      (auto simp: send_telegram_def)
  then show ?thesis using d(1) by simp
qed

lemma received_undefined:
  assumes t: "telegram_from s t" and z: "0 \<notin> set s" and e: "sci_encode_telegram t = Some bs"
    and j: "length junk = SCI_PAYLOAD_CAPACITY"
  shows "scip_on_rasta_receive mem junk u nf i bs st = None"
proof -
  obtain t' where d: "sci_decode_telegram junk bs = Some t'" "telegram_view t' = telegram_view t"
    using decode_encode_view [OF _ j e] t by (auto simp: telegram_from_def)
  then have "t_protocol t' = SCI_PROTOCOL_P" "0 \<notin> set (t_sender t')"
    using t pad_name_letters [OF _ z] by (auto simp: telegram_view_def telegram_from_def)
  then show ?thesis using d(1) by (simp add: scip_on_rasta_receive_def scip_register_sci_name_def string_in_def)
qed

text \<open>The location of a point and the wanted location survive the wire, every enumerator as itself.\<close>

lemma one_byte_telegram:
  assumes b: "sci_create_base_telegram SCI_PROTOCOL_P s r m = Some b" and t: "set_payload b [x] = Some t"
    and j: "length junk = SCI_PAYLOAD_CAPACITY"
  shows "\<exists>bs t'. sci_encode_telegram t = Some bs \<and> sci_decode_telegram junk bs = Some t' \<and>
    t_protocol t' = SCI_PROTOCOL_P \<and> sci_get_message_type t' = m \<and> buf_get (payload_data (t_payload t')) 0 = Some x"
proof -
  have w: "wf_telegram b" "wf_telegram t" using create_base_wf [OF b] set_payload_wf [OF _ t] by auto
  have bp: "t_protocol b = SCI_PROTOCOL_P" using b by (auto simp: sci_create_base_telegram_def bind_Some_iff)
  have f: "t_protocol t = SCI_PROTOCOL_P" "t_message_type t = t_message_type b" "used_bytes (t_payload t) = 1"
    "take 1 (payload_data (t_payload t)) = [x]"
    using t w(1) bp by (auto simp: set_payload_def bind_Some_iff buf_write_def wf_telegram_def sci_sizes split: if_splits)
  obtain bs where e: "sci_encode_telegram t = Some bs" using encode_wf [OF w(2)] by blast
  obtain t' where d: "sci_decode_telegram junk bs = Some t'" "telegram_view t' = telegram_view t"
    "used_bytes (t_payload t') = used_bytes (t_payload t)"
    using decode_encode_view [OF w(2) j e] by blast
  have "sci_get_message_type b = m" by (rule create_base_type [OF b])
  then have "sci_get_message_type t' = m" "t_protocol t' = SCI_PROTOCOL_P" "take 1 (payload_data (t_payload t')) = [x]"
    using d f by (simp_all add: telegram_view_def sci_get_message_type_def)
  moreover have "buf_get (payload_data (t_payload t')) 0 = Some x"
    using \<open>take 1 (payload_data (t_payload t')) = [x]\<close> by (cases "payload_data (t_payload t')") (simp_all add: buf_get_def)
  ultimately show ?thesis using e d(1) by blast
qed

theorem point_location_roundtrip:
  assumes "length junk = SCI_PAYLOAD_CAPACITY" and "location < 256"
  shows "scip_create_change_location_telegram s r location = Some t \<Longrightarrow>
      \<exists>bs t'. sci_encode_telegram t = Some bs \<and> sci_decode_telegram junk bs = Some t' \<and>
        scip_parse_change_location_payload t' x = Some (SCI_PARSE_SUCCESS, location)"
    and "scip_create_location_status_telegram s r location = Some t \<Longrightarrow>
      \<exists>bs t'. sci_encode_telegram t = Some bs \<and> sci_decode_telegram junk bs = Some t' \<and>
        scip_parse_location_status_payload t' x = Some (SCI_PARSE_SUCCESS, location)"
proof -
  have "unat location < 256" using assms(2) by (simp add: word_less_nat_alt)
  then have cast: "ucast (ucast location :: u8) = location" by (simp add: word_unat_eq_iff unsigned_ucast_eq unsigned_take_bit_eq take_bit_nat_eq_self)
  show "scip_create_change_location_telegram s r location = Some t \<Longrightarrow>
      \<exists>bs t'. sci_encode_telegram t = Some bs \<and> sci_decode_telegram junk bs = Some t' \<and>
        scip_parse_change_location_payload t' x = Some (SCI_PARSE_SUCCESS, location)"
    using one_byte_telegram [OF _ _ assms(1)] cast
    by (fastforce simp: scip_create_change_location_telegram_def scip_parse_change_location_payload_def bind_Some_iff)
  show "scip_create_location_status_telegram s r location = Some t \<Longrightarrow>
      \<exists>bs t'. sci_encode_telegram t = Some bs \<and> sci_decode_telegram junk bs = Some t' \<and>
        scip_parse_location_status_payload t' x = Some (SCI_PARSE_SUCCESS, location)"
    using one_byte_telegram [OF _ _ assms(1)] cast
    by (fastforce simp: scip_create_location_status_telegram_def scip_parse_location_status_payload_def bind_Some_iff)
qed

text \<open>A sender field with a terminator is registered under its padded name before the telegram is handled.\<close>

theorem terminated_sender_registered:
  assumes t: "sci_decode_telegram junk message = Some t" "t_protocol t = SCI_PROTOCOL_P" "0 \<in> set (t_sender t)"
    and n: "n = takeWhile (\<lambda>b. b \<noteq> 0) (t_sender t)" "length n \<le> SCI_NAME_LENGTH"
    and inv: "hm_inv (scip_names (fst s))" and p: "fst (hashmap_put mem (scip_names (fst s)) (key_of n) i) = MAP_OK"
  shows "\<exists>q. scip_on_rasta_receive mem junk u nf i message s = scip_dispatch u nf t (q, snd s) \<and>
    scip_sciName q = scip_sciName (fst s) \<and> scip_sr_sent q = scip_sr_sent (fst s) \<and> hm_inv (scip_names q) \<and>
    hm_lookup (scip_names q) (key_of n) = Some (case hm_lookup (scip_names (fst s)) (key_of n) of Some j \<Rightarrow> j | None \<Rightarrow> i)"
proof -
  let ?m = "scip_names (fst s)"
  have put: "hashmap_put mem ?m (key_of n) i = (MAP_OK, snd (hashmap_put mem ?m (key_of n) i))"
    using p by (metis prod.collapse)
  obtain m where r: "names.register mem ?m (key_of n) i = (MAP_OK, m)"
    using put by (cases "fst (hashmap_get ?m (key_of n)) = MAP_MISSING") (simp_all add: names.register_def)
  have "scip_register_sci_name mem (fst s) (t_sender t) i = Some ((fst s)\<lparr>scip_names := m\<rparr>)"
    using r put t(3) n by (auto simp: scip_register_sci_name_def string_in_def pad_name_fits name_string_of_padded
        names.register_def split: prod.splits map_status.splits if_splits)
  then show ?thesis
    using t names.register_inv [OF inv r] names.register_binds [OF inv r]
    by (intro exI [of _ "(fst s)\<lparr>scip_names := m\<rparr>"]) (simp add: scip_on_rasta_receive_def hm_lookup_def)
qed

text \<open>All send functions of the endpoint.\<close>

inductive scip_sends :: "scip_t \<Rightarrow> cstring \<Rightarrow> (sci_return_code \<times> scip_t) option \<Rightarrow> bool" for p r where
  "scip_sends p r (scip_send_version_request p r v)"
| "scip_sends p r (scip_send_version_response p r v c n cs)"
| "scip_sends p r (scip_send_status_request p r)"
| "scip_sends p r (scip_send_status_begin p r)"
| "scip_sends p r (scip_send_status_finish p r)"
| "scip_sends p r (scip_send_change_location p r l)"
| "scip_sends p r (scip_send_location_status p r k)"
| "scip_sends p r (scip_send_timeout p r)"

lemmas scip_sender_defs = scip_send_version_request_def scip_send_version_response_def scip_send_status_request_def
  scip_send_status_begin_def scip_send_status_finish_def scip_send_change_location_def
  scip_send_location_status_def scip_send_timeout_def

lemmas scip_creator_defs = sci_create_version_request_def sci_create_version_response_def sci_create_status_request_def
  sci_create_status_begin_def sci_create_status_finish_def scip_create_change_location_telegram_def
  scip_create_location_status_telegram_def scip_create_timeout_telegram_def

lemma scip_sends_telegram:
  assumes "scip_sends p r res" and "res = Some out"
  shows "\<exists>t. telegram_from (scip_sciName p) t \<and> send_telegram p t = Some out"
  using assms
  by cases (auto simp: scip_sender_defs scip_creator_defs bind_Some_iff intro: base_from payload_from)

text \<open>C39. No endpoint can receive what another one sends: every telegram that any of the eight send functions
  hands to the safety layer makes the receiving endpoint read its sender field as a string. The field
  is padded with underscores and has no terminator, so the name is read and copied past its end.\<close>

theorem scip_telegrams_not_receivable:
  assumes "scip_sends p r res" and "res = Some (SUCCESS, p')" and "0 \<notin> set (scip_sciName p)"
    and "length junk = SCI_PAYLOAD_CAPACITY"
  shows "\<exists>i bs. scip_sr_sent p' = scip_sr_sent p @ [(i, bs)] \<and>
    (\<forall>mem u nf k st. scip_on_rasta_receive mem junk u nf k bs (st :: scip_t \<times> 's) = None)"
proof -
  obtain t where t: "telegram_from (scip_sciName p) t" "send_telegram p t = Some (SUCCESS, p')"
    using scip_sends_telegram [OF assms(1,2)] by blast
  obtain i bs where s: "scip_sr_sent p' = scip_sr_sent p @ [(i, bs)]" "sci_encode_telegram t = Some bs"
    using send_telegram_sent [OF t] by blast
  then show ?thesis using received_undefined [OF t(1) assms(3) s(2) assms(4)] by blast
qed

lemma fresh_registry_put:
  "\<exists>m. hashmap_put 0 hashmap_new k v = (MAP_OK, m) \<and> hm_inv m \<and> hm_lookup m k = Some v"
proof -
  have "fst (hashmap_put 0 (hashmap_new :: 'a hashmap_map) k v) = MAP_OK"
    by (rule hashmap_put_empty_slot) (simp_all add: slot_of_new, simp add: hashmap_new_def INITIAL_SIZE_def)
  then have p: "hashmap_put 0 hashmap_new k v = (MAP_OK, snd (hashmap_put 0 hashmap_new k v))" by (metis prod.collapse)
  then show ?thesis using put_okD [OF hashmap_put_ok hashmap_new_inv p] by (metis fun_upd_same)
qed

text \<open>An endpoint that knows the name \<open>P\<close>.\<close>

definition demo_scip :: scip_t where
  "demo_scip = \<lparr>scip_sciName = cstr ''I'', scip_names = snd (hashmap_put 0 hashmap_new (key_of (cstr ''P'')) 97), scip_sr_sent = []\<rparr>"

theorem scip_telegrams_not_receivable_witness:
  "\<exists>p' bs. scip_send_change_location demo_scip (cstr ''P'') POINT_LOCATION_CHANGE_TO_LEFT = Some (SUCCESS, p') \<and>
    scip_sr_sent p' = [(97, bs)] \<and>
    (\<forall>u nf. scip_on_rasta_receive 0 (replicate 85 0) u nf 96 bs (demo_scip, 0 :: nat) = None)"
proof -
  obtain m where m: "hashmap_put 0 hashmap_new (key_of (cstr ''P'')) (97 :: u64) = (MAP_OK, m)"
    "hm_lookup m (key_of (cstr ''P'')) = Some 97"
    using fresh_registry_put [of "key_of (cstr ''P'')" "97 :: u64"] by (elim exE conjE) (rule that)
  have l: "length (cstr ''I'') \<le> SCI_NAME_LENGTH" "length (cstr ''P'') \<le> SCI_NAME_LENGTH"
    "length [ucast POINT_LOCATION_CHANGE_TO_LEFT :: u8] \<le> SCI_PAYLOAD_CAPACITY" by (simp_all add: cstr_def sci_sizes)
  note b = create_base_fits [OF l(1,2), of SCI_PROTOCOL_P SCIP_MESSAGE_TYPE_CHANGE_LOCATION]
  note w = conjunct1 [OF create_base_wf [OF b]]
  note pl = set_payload_fits [OF w l(3)]
  obtain t where t: "scip_create_change_location_telegram (cstr ''I'') (cstr ''P'') POINT_LOCATION_CHANGE_TO_LEFT = Some t"
    "wf_telegram t" "sci_get_name_string (t_receiver t) = Some (key_of (cstr ''P''))"
    using b pl set_payload_wf [OF w pl] name_string_of_padded [OF l(2)]
    by (simp add: scip_create_change_location_telegram_def)
  obtain bs where bs: "sci_encode_telegram t = Some bs" using encode_wf [OF t(2)] by blast
  have p: "scip_names demo_scip = m" "scip_sciName demo_scip = cstr ''I''" "scip_sr_sent demo_scip = []"
    using m(1) by (simp_all add: demo_scip_def)
  have "snd (hashmap_get m (key_of (cstr ''P''))) = Some 97" using m(2) by (simp add: hm_lookup_def)
  then have s: "scip_send_change_location demo_scip (cstr ''P'') POINT_LOCATION_CHANGE_TO_LEFT =
      Some (SUCCESS, demo_scip\<lparr>scip_sr_sent := [(97, bs)]\<rparr>)"
    using t(1,3) bs p by (cases "hashmap_get m (key_of (cstr ''P''))")
      (simp add: scip_send_change_location_def send_telegram_def)
  have z: "0 \<notin> set (scip_sciName demo_scip)" "length (replicate 85 (0 :: u8)) = SCI_PAYLOAD_CAPACITY"
    by (simp_all add: demo_scip_def cstr_def sci_sizes)
  have "\<exists>i bs'. scip_sr_sent (demo_scip\<lparr>scip_sr_sent := [(97, bs)]\<rparr>) = scip_sr_sent demo_scip @ [(i, bs')] \<and>
      (\<forall>mem u nf k st. scip_on_rasta_receive mem (replicate 85 0) u nf k bs' (st :: scip_t \<times> nat) = None)"
    by (rule scip_telegrams_not_receivable [OF scip_sends.intros(6) s z])
  then show ?thesis using s p(3) by auto
qed

end
