(* ===== verification/Logger.thy ===== *)
theory Logger
  imports C_Text Sr_Handle Runs
begin

section \<open>The logger (logging.h, logging.c)\<close>

text \<open>
  A logger formats a message into fixed arrays, filters it by level and queues it; a thread of its
  own takes the messages out and prints them to the console, to a file, or to both. Writing past
  an array is undefined (\<open>None\<close>). \<open>sprintf\<close> and \<open>vsprintf\<close> are modelled for the conversions
  the RaSTA layers use. What the C library takes from the system is the environment \<open>log_env\<close>:
  the array \<open>strftime\<close> leaves, the time in milliseconds, the uninitialised array for the level and
  the files that can be opened. The mutex is the atomicity of an operation.
\<close>

type_synonym log_level = u32
type_synonym logger_type = int

definition LOG_LEVEL_DEBUG :: log_level where "LOG_LEVEL_DEBUG = 3"
definition LOG_LEVEL_INFO :: log_level where "LOG_LEVEL_INFO = 2"
definition LOG_LEVEL_ERROR :: log_level where "LOG_LEVEL_ERROR = 1"
definition LOG_LEVEL_NONE :: log_level where "LOG_LEVEL_NONE = 0"

lemmas log_levels = LOG_LEVEL_DEBUG_def LOG_LEVEL_INFO_def LOG_LEVEL_ERROR_def LOG_LEVEL_NONE_def

definition LOGGER_TYPE_CONSOLE :: logger_type where "LOGGER_TYPE_CONSOLE = 0"
definition LOGGER_TYPE_BOTH :: logger_type where "LOGGER_TYPE_BOTH = 2"

lemmas logger_types = LOGGER_TYPE_CONSOLE_def LOGGER_TYPE_FILE_def LOGGER_TYPE_BOTH_def

definition LOGGER_BUFFER_SIZE :: u32 where "LOGGER_BUFFER_SIZE = 10"
definition LOGGER_MAX_MSG_SIZE :: nat where "LOGGER_MAX_MSG_SIZE = 1024"

record log_env =
  le_timestamp :: "u8 list"
  le_millis :: u64
  le_level_str :: "u8 list"
  le_can_open :: "cstring \<Rightarrow> bool"

subsection \<open>Formatting\<close>

fun digits_in :: "nat \<Rightarrow> nat \<Rightarrow> nat \<Rightarrow> u8 list" where
  "digits_in 0 base n = []"
| "digits_in (Suc k) base n =
     (if n < base then [] else digits_in k base (n div base)) @
     [word_of_nat (let d = n mod base in if d < 10 then 48 + d else 55 + d)]"

definition unsigned_text :: "nat \<Rightarrow> nat \<Rightarrow> cstring" where
  "unsigned_text base n = digits_in 64 base n"

definition signed_text :: "int \<Rightarrow> cstring" where
  "signed_text n = (if n < 0 then 45 # unsigned_text 10 (nat (- n)) else unsigned_text 10 (nat n))"

datatype log_arg =
    Log_Int "32 word"
  | Log_Long u64
  | Log_Char u8
  | Log_String cstring
  | Log_Pointer cstring

text \<open>Conversions d, X, c, s, p, lu and lX; an argument that does not fit its conversion is undefined.\<close>

fun conversion :: "cstring \<Rightarrow> log_arg \<Rightarrow> (cstring \<times> cstring) option" where
  "conversion (c # cs) (Log_Int n) =
     (if c = 100 then Some (signed_text (sint n), cs)
      else if c = 88 then Some (unsigned_text 16 (unat n), cs) else None)"
| "conversion (l # c # cs) (Log_Long n) =
     (if l \<noteq> 108 then None
      else if c = 117 then Some (unsigned_text 10 (unat n), cs)
      else if c = 88 then Some (unsigned_text 16 (unat n), cs) else None)"
| "conversion (c # cs) (Log_Char b) = (if c = 99 then Some ([b], cs) else None)"
| "conversion (c # cs) (Log_String s) = (if c = 115 then Some (s, cs) else None)"
| "conversion (c # cs) (Log_Pointer s) = (if c = 112 then Some (s, cs) else None)"
| "conversion _ _ = None"

text \<open>The text of a format; arguments left over are ignored. Each round consumes at least one character.\<close>

fun format_text :: "nat \<Rightarrow> cstring \<Rightarrow> log_arg list \<Rightarrow> cstring option" where
  "format_text k [] args = Some []"
| "format_text 0 (c # cs) args = None"
| "format_text (Suc k) (c # cs) args =
     (if c \<noteq> 37 then map_option ((#) c) (format_text k cs args)
      else case (cs, args) of
             ([], _) \<Rightarrow> None
           | (d # ds, []) \<Rightarrow> if d = 37 then map_option ((#) 37) (format_text k ds []) else None
           | (d # ds, a # as) \<Rightarrow>
               if d = 37 then map_option ((#) 37) (format_text k ds args)
               else do { (s, rest) \<leftarrow> conversion cs a;
                         out \<leftarrow> format_text k rest as;
                         Some (s @ out) })"

definition sprintf_into :: "nat \<Rightarrow> cstring \<Rightarrow> cstring option" where
  "sprintf_into capacity s = (if length s < capacity then Some s else None)"

subsection \<open>Messages\<close>

definition level_text :: "log_env \<Rightarrow> log_level \<Rightarrow> cstring option" where
  "level_text en level =
     (if level = LOG_LEVEL_DEBUG then Some (cstr ''DEBUG'')
      else if level = LOG_LEVEL_ERROR then Some (cstr ''ERROR'')
      else if level = LOG_LEVEL_INFO then Some (cstr ''INFO'')
      else string_in (le_level_str en))"

definition get_log_message_string ::
  "log_env \<Rightarrow> log_level \<Rightarrow> log_level \<Rightarrow> cstring \<Rightarrow> cstring \<Rightarrow> cstring option option" where
  "get_log_message_string en max_log_level level location msg_str =
     (if level > max_log_level then Some None
      else do {
        level_str \<leftarrow> level_text en level;
        timestamp \<leftarrow> string_in (le_timestamp en);
        timestamp2 \<leftarrow> sprintf_into 60
          (timestamp @ cstr '' (Epoch time: '' @ unsigned_text 10 (unat (le_millis en)) @ cstr '')'');
        stringBuffer \<leftarrow> sprintf_into LOGGER_MAX_MSG_SIZE
          (cstr ''['' @ timestamp2 @ cstr '']['' @ level_str @ cstr '']['' @ location @ cstr ''] '' @ msg_str @ [10]);
        Some (Some stringBuffer) })"

subsection \<open>The logger and its writer\<close>

text \<open>
  The buffer is shared by the logger and the writer, so it stands once. The wrapper exists once
  the writer has been started; its copy of the path has no terminator.
\<close>

record write_thread_parameter_wrapper =
  wr_log_file :: "u8 list option"
  wr_type :: logger_type

record logger_t =
  lg_max_log_level :: log_level
  lg_type :: logger_type
  lg_log_file :: "cstring option"
  lg_buffer :: "cstring fifo_t"
  lg_wrapper :: "write_thread_parameter_wrapper option"

definition start_writing :: "bool \<Rightarrow> logger_t \<Rightarrow> logger_t exits option" where
  "start_writing thread_created logger =
     do { file \<leftarrow> (if lg_type logger \<noteq> LOGGER_TYPE_CONSOLE
                  then do { path \<leftarrow> lg_log_file logger; Some (Some (take (strlen path) path)) }
                  else Some None);
          if \<not> thread_created then Some Exits
          else Some (Continues (logger\<lparr>lg_wrapper := Some \<lparr>wr_log_file = file, wr_type = lg_type logger\<rparr>\<rparr>)) }"

definition logger_init :: "bool \<Rightarrow> log_level \<Rightarrow> logger_type \<Rightarrow> logger_t exits option" where
  "logger_init thread_created max_log_level type =
     (let logger = \<lparr>lg_max_log_level = max_log_level, lg_type = type, lg_log_file = None,
                    lg_buffer = fifo_init LOGGER_BUFFER_SIZE, lg_wrapper = None\<rparr>
      in if type = LOGGER_TYPE_CONSOLE then start_writing thread_created logger else Some (Continues logger))"

definition logger_set_log_file :: "bool \<Rightarrow> logger_t \<Rightarrow> cstring \<Rightarrow> logger_t exits option" where
  "logger_set_log_file thread_created logger path =
     start_writing thread_created (logger\<lparr>lg_log_file := Some path\<rparr>)"

definition logger_log ::
  "log_env \<Rightarrow> logger_t option \<Rightarrow> log_level \<Rightarrow> cstring \<Rightarrow> cstring \<Rightarrow> log_arg list \<Rightarrow> logger_t option option" where
  "logger_log en logger level location format args =
     (case logger of
        None \<Rightarrow> Some None
      | Some l \<Rightarrow>
          if lg_max_log_level l = LOG_LEVEL_NONE then Some logger
          else do {
            text \<leftarrow> format_text (length format) format args;
            message \<leftarrow> sprintf_into (LOGGER_MAX_MSG_SIZE div 2) text;
            msg \<leftarrow> get_log_message_string en (lg_max_log_level l) level location (takeWhile (\<lambda>b. b \<noteq> 0) message);
            case msg of
              None \<Rightarrow> Some logger
            | Some m \<Rightarrow> do { f \<leftarrow> fifo_push (lg_buffer l) (Some m); Some (Some (l\<lparr>lg_buffer := f\<rparr>)) } })"

definition logger_log_if ::
  "log_env \<Rightarrow> logger_t option \<Rightarrow> bool \<Rightarrow> log_level \<Rightarrow> cstring \<Rightarrow> cstring \<Rightarrow> log_arg list \<Rightarrow> logger_t option option" where
  "logger_log_if en logger cond level location format args =
     (if \<not> cond then Some logger else logger_log en logger level location format args)"

text \<open>What was printed to the console, and to each file.\<close>

record log_output =
  lo_console :: cstring
  lo_files :: "cstring \<Rightarrow> cstring"

definition log_to_console :: "cstring \<Rightarrow> log_output \<Rightarrow> log_output" where
  "log_to_console message out = out\<lparr>lo_console := lo_console out @ message\<rparr>"

text \<open>A file that is not given or cannot be opened is reported and then used.\<close>

definition log_to_file :: "log_env \<Rightarrow> cstring \<Rightarrow> u8 list option \<Rightarrow> log_output \<Rightarrow> log_output option" where
  "log_to_file en message log_file out =
     do { mem \<leftarrow> log_file;
          path \<leftarrow> string_in mem;
          if le_can_open en path then Some (out\<lparr>lo_files := (lo_files out)(path := lo_files out path @ message)\<rparr>)
          else None }"

text \<open>One round of the writer.\<close>

definition write_log_messages :: "log_env \<Rightarrow> logger_t \<Rightarrow> log_output \<Rightarrow> (logger_t \<times> log_output) option" where
  "write_log_messages en logger out =
     do { wrapper \<leftarrow> lg_wrapper logger;
          (message, f) \<leftarrow> fifo_pop (lg_buffer logger);
          out \<leftarrow> (case message of
                   None \<Rightarrow> Some out
                 | Some m \<Rightarrow>
                     if wr_type wrapper = LOGGER_TYPE_CONSOLE then Some (log_to_console m out)
                     else if wr_type wrapper = LOGGER_TYPE_FILE then log_to_file en m (wr_log_file wrapper) out
                     else if wr_type wrapper = LOGGER_TYPE_BOTH
                     then log_to_file en m (wr_log_file wrapper) (log_to_console m out)
                     else Some out);
          Some (logger\<lparr>lg_buffer := f\<rparr>, out) }"

text \<open>Destroying cancels the writer; without one the thread and the wrapper were never set.\<close>

function drain :: "cstring fifo_t \<Rightarrow> cstring fifo_t option" where
  "drain f = (case fifo_pop f of None \<Rightarrow> None | Some (None, g) \<Rightarrow> Some g | Some (Some m, g) \<Rightarrow> drain g)"
  by pat_completeness auto
termination
proof (relation "measure (\<lambda>f. unat (f_size f))", simp, clarsimp)
  fix f m and g :: "cstring fifo_t"
  assume "fifo_pop f = Some (Some m, g)"
  then show "unat (f_size g) < unat (f_size f)"
    using unat_gt_0 [of "f_size f"] by (auto simp: fifo_pop_def unat_minus_one word_gt_0 split: option.splits if_splits)
qed

declare drain.simps [simp del]

definition logger_destroy :: "logger_t \<Rightarrow> cstring fifo_t option" where
  "logger_destroy logger =
     do { f \<leftarrow> drain (lg_buffer logger); w \<leftarrow> lg_wrapper logger; fifo_destroy f }"

subsection \<open>The logger of a node (rastahandle.c)\<close>

definition handle_logger :: "bool \<Rightarrow> loaded_config \<Rightarrow> logger_t exits option" where
  "handle_logger thread_created c =
     (case (lc_logger_type c, lc_logger_max_level c) of
        (Some ty, Some lvl) \<Rightarrow>
          do { r \<leftarrow> logger_init thread_created (word_of_int lvl) ty;
               case r of
                 Exits \<Rightarrow> Some Exits
               | Continues l \<Rightarrow>
                   if lg_type l = LOGGER_TYPE_FILE
                   then (case lc_logger_file c of
                           Some path \<Rightarrow> logger_set_log_file thread_created l path
                         | None \<Rightarrow> Some Exits)
                   else Some (Continues l) }
      | _ \<Rightarrow> Some Exits)"

subsection \<open>Which calls are defined\<close>

text \<open>What a call puts into the buffer: nothing when its level is above the limit.\<close>

definition log_entry ::
  "log_env \<Rightarrow> log_level \<Rightarrow> log_level \<Rightarrow> cstring \<Rightarrow> cstring \<Rightarrow> log_arg list \<Rightarrow> cstring option option" where
  "log_entry en max_log_level level location format args =
     do { text \<leftarrow> format_text (length format) format args;
          message \<leftarrow> sprintf_into (LOGGER_MAX_MSG_SIZE div 2) text;
          get_log_message_string en max_log_level level location (takeWhile (\<lambda>b. b \<noteq> 0) message) }"

lemma logger_log_entry:
  "logger_log en (Some l) level location format args =
     (if lg_max_log_level l = LOG_LEVEL_NONE then Some (Some l)
      else do { msg \<leftarrow> log_entry en (lg_max_log_level l) level location format args;
                case msg of None \<Rightarrow> Some (Some l)
                | Some m \<Rightarrow> do { f \<leftarrow> fifo_push (lg_buffer l) (Some m); Some (Some (l\<lparr>lg_buffer := f\<rparr>)) } })"
  by (simp add: logger_log_def log_entry_def bind_assoc)

lemma digits_in_length: "0 < j \<Longrightarrow> n < 10 ^ j \<Longrightarrow> length (digits_in k 10 n) \<le> j"
proof (induction k arbitrary: j n)
  case (Suc k)
  show ?case
  proof (cases "n < 10")
    case False
    then obtain i where i: "j = Suc i" "0 < i" using Suc.prems by (cases j) (auto simp: gr0_conv_Suc, cases "j - 1", auto)
    have "n div 10 < 10 ^ i" using Suc.prems(2) i(1) by (simp add: less_mult_imp_div_less mult.commute)
    then show ?thesis using Suc.IH [OF i(2), of "n div 10"] False i(1) by simp
  qed (use Suc.prems in simp)
qed simp

lemma millis_length: "length (unsigned_text 10 (unat (t :: u64))) \<le> 20"
proof -
  have "unat t < 2 ^ 64" using unsigned_less [of t] by simp
  then show ?thesis unfolding unsigned_text_def by (intro digits_in_length) simp_all
qed

text \<open>
  A call with an ordinary time stamp, a place of at most 400 characters and a message of less than
  512 is defined, whatever its level; a longer message is undefined even when its level is filtered.
\<close>

lemma log_entry_defined:
  assumes t: "string_in (le_timestamp en) = Some ts" "length ts \<le> 24"
    and m: "format_text (length format) format args = Some text" "length text < 512"
    and l: "length location \<le> 400" "level \<in> {LOG_LEVEL_DEBUG, LOG_LEVEL_INFO, LOG_LEVEL_ERROR}"
  shows "\<exists>r. log_entry en lim level location format args = Some r \<and> (r = None \<longleftrightarrow> lim < level)"
proof -
  obtain lt where lt: "level_text en level = Some lt" "length lt \<le> 5"
    using l(2) by (auto simp: level_text_def log_levels cstr_def)
  have "length (takeWhile (\<lambda>b. b \<noteq> 0) text) \<le> length text" by (rule length_takeWhile_le)
  then show ?thesis
    using t m l(1) lt millis_length [of "le_millis en"]
    by (auto simp: log_entry_def get_log_message_string_def sprintf_into_def LOGGER_MAX_MSG_SIZE_def cstr_def)
qed

lemma filtered_message_overflows:
  "format_text (length format) format args = Some text \<Longrightarrow> 512 \<le> length text \<Longrightarrow>
   log_entry en lim level location format args = None"
  by (simp add: log_entry_def sprintf_into_def LOGGER_MAX_MSG_SIZE_def)

subsection \<open>The buffer between the callers and the writer\<close>

datatype log_event = Logs log_level cstring cstring "log_arg list" | Writes

fun log_step :: "log_env \<Rightarrow> log_event \<Rightarrow> logger_t \<times> log_output \<Rightarrow> (logger_t \<times> log_output) option" where
  "log_step en (Logs level location format args) (l, out) =
     do { r \<leftarrow> logger_log en (Some l) level location format args; l \<leftarrow> r; Some (l, out) }"
| "log_step en Writes (l, out) = write_log_messages en l out"

text \<open>The contract: a bounded queue of lines that drops what does not fit, and the text printed so far.\<close>

fun abs_log :: "log_env \<Rightarrow> log_level \<Rightarrow> log_event \<Rightarrow> cstring list \<times> cstring \<Rightarrow> cstring list \<times> cstring" where
  "abs_log en lim (Logs level location format args) (q, out) =
     (case the (log_entry en lim level location format args) of
        None \<Rightarrow> (q, out)
      | Some m \<Rightarrow> (if length q < 10 then q @ [m] else q, out))"
| "abs_log en lim Writes (q, out) = (case q of [] \<Rightarrow> (q, out) | m # q \<Rightarrow> (q, out @ m))"

definition console_logger :: "log_level \<Rightarrow> logger_t \<Rightarrow> bool" where
  "console_logger lim l \<longleftrightarrow> fifo_inv (lg_buffer l) \<and> f_max_size (lg_buffer l) = LOGGER_BUFFER_SIZE \<and>
     lg_max_log_level l = lim \<and> lg_wrapper l = Some \<lparr>wr_log_file = None, wr_type = LOGGER_TYPE_CONSOLE\<rparr>"

fun fits_buffers :: "log_env \<Rightarrow> log_level \<Rightarrow> log_event \<Rightarrow> bool" where
  "fits_buffers en lim (Logs level location format args) \<longleftrightarrow> log_entry en lim level location format args \<noteq> None"
| "fits_buffers en lim Writes \<longleftrightarrow> True"

lemma log_step_refines:
  assumes l: "console_logger lim l" and n: "lim \<noteq> LOG_LEVEL_NONE" and f: "fits_buffers en lim x"
  shows "\<exists>l' out'. log_step en x (l, out) = Some (l', out') \<and> console_logger lim l' \<and> lo_files out' = lo_files out \<and>
    (fifo_abs (lg_buffer l'), lo_console out') = abs_log en lim x (fifo_abs (lg_buffer l), lo_console out)"
proof (cases x)
  case (Logs level location format args)
  then obtain r where r: "log_entry en lim level location format args = Some r" using f by auto
  show ?thesis
  proof (cases r)
    case None
    then show ?thesis using l n r Logs by (simp add: logger_log_entry console_logger_def)
  next
    case (Some m)
    obtain g where g: "fifo_push (lg_buffer l) (Some m) = Some g" "fifo_inv g" "f_max_size g = LOGGER_BUFFER_SIZE"
      "fifo_abs g = (if length (fifo_abs (lg_buffer l)) < 10 then fifo_abs (lg_buffer l) @ [m] else fifo_abs (lg_buffer l))"
      using fifo_push_spec [of "lg_buffer l" m] l by (auto simp: console_logger_def LOGGER_BUFFER_SIZE_def)
    then show ?thesis using l n r Logs Some by (simp add: logger_log_entry console_logger_def)
  qed
next
  case Writes
  obtain g where g: "fifo_inv g" "f_max_size g = LOGGER_BUFFER_SIZE"
    "case fifo_abs (lg_buffer l) of [] \<Rightarrow> fifo_pop (lg_buffer l) = Some (None, g) \<and> fifo_abs g = []
     | m # q \<Rightarrow> fifo_pop (lg_buffer l) = Some (Some m, g) \<and> fifo_abs g = q"
    using fifo_pop_spec [of "lg_buffer l"] l by (auto simp: console_logger_def)
  then show ?thesis
    using l Writes by (cases "fifo_abs (lg_buffer l)")
      (simp_all add: write_log_messages_def console_logger_def log_to_console_def)
qed

text \<open>The files at the start are kept beside the contract's state.\<close>

interpretation console: simulation "log_step en"
  "\<lambda>(l, out). console_logger lim l \<and> lim \<noteq> LOG_LEVEL_NONE \<and> lo_files out = files"
  "\<lambda>(l, out). (fifo_abs (lg_buffer l), lo_console out)" "abs_log en lim" "\<lambda>x _. fits_buffers en lim x"
  for en lim files
proof (unfold_locales, clarify)
  fix l out x
  assume a: "console_logger lim l" "lim \<noteq> LOG_LEVEL_NONE" and f: "fits_buffers en lim x"
  obtain l' out' where s: "log_step en x (l, out) = Some (l', out')" "console_logger lim l'" "lo_files out' = lo_files out"
    "(fifo_abs (lg_buffer l'), lo_console out') = abs_log en lim x (fifo_abs (lg_buffer l), lo_console out)"
    using log_step_refines [OF a f, of out] by blast
  then show "\<exists>s'. log_step en x (l, out) = Some s' \<and>
      (case s' of (l, o') \<Rightarrow> console_logger lim l \<and> lim \<noteq> LOG_LEVEL_NONE \<and> lo_files o' = lo_files out) \<and>
      (case s' of (l, out) \<Rightarrow> (fifo_abs (lg_buffer l), lo_console out)) =
        abs_log en lim x (fifo_abs (lg_buffer l), lo_console out)"
    using a(2) by (intro exI [of _ "(l', out')"]) simp
qed

subsection \<open>Properties\<close>

text \<open>C28. A console logger refines a bounded queue: over any interleaving of calls and rounds of the writer whose
  texts fit the fixed arrays, what is printed and what waits is given by the queue of ten lines
  that appends each line whose level is allowed while it has room, silently drops it otherwise,
  and prints the oldest line in each round. No file is touched.\<close>

theorem console_log_refines:
  assumes "logger_init True lim LOGGER_TYPE_CONSOLE = Some (Continues l)" "lim \<noteq> LOG_LEVEL_NONE"
    and "list_all (fits_buffers en lim) xs"
  shows "\<exists>l' out'. run_steps (log_step en) xs (l, out) = Some (l', out') \<and> lo_files out' = lo_files out \<and>
    (fifo_abs (lg_buffer l'), lo_console out') = fold (abs_log en lim) xs ([], lo_console out)"
proof -
  have "console_logger lim l" "fifo_abs (lg_buffer l) = []"
    using assms(1) by (auto simp: logger_init_def start_writing_def Let_def console_logger_def fifo_init_inv fifo_init_abs)
  then show ?thesis using console.run_refines [of lim "lo_files out" "(l, out)" en xs] assms(2,3) by auto
qed

definition demo_log_env :: log_env where
  "demo_log_env = \<lparr>le_timestamp = cstr ''01/02/24|10:11:12'' @ [0], le_millis = 7, le_level_str = [0], le_can_open = (\<lambda>_. True)\<rparr>"

theorem console_log_refines_witness:
  "\<exists>l l' out'. logger_init True LOG_LEVEL_INFO LOGGER_TYPE_CONSOLE = Some (Continues l) \<and>
    run_steps (log_step demo_log_env) [Logs LOG_LEVEL_INFO (cstr ''x'') (cstr ''n=%d'') [Log_Int 5], Logs LOG_LEVEL_DEBUG (cstr ''x'') (cstr ''y'') [], Writes]
      (l, \<lparr>lo_console = [], lo_files = \<lambda>_. []\<rparr>) = Some (l', out') \<and> fifo_abs (lg_buffer l') = [] \<and>
    lo_console out' = cstr ''[01/02/24|10:11:12 (Epoch time: 7)][INFO][x] n=5'' @ [10]"
proof -
  obtain l where l: "logger_init True LOG_LEVEL_INFO LOGGER_TYPE_CONSOLE = Some (Continues l)"
    by (simp add: logger_init_def start_writing_def Let_def)
  have e: "log_entry demo_log_env LOG_LEVEL_INFO LOG_LEVEL_INFO (cstr ''x'') (cstr ''n=%d'') [Log_Int 5] =
      Some (Some (cstr ''[01/02/24|10:11:12 (Epoch time: 7)][INFO][x] n=5'' @ [10]))"
    by code_simp
  have e2: "log_entry demo_log_env LOG_LEVEL_INFO LOG_LEVEL_DEBUG (cstr ''x'') (cstr ''y'') [] = Some None" by code_simp
  show ?thesis
    using console_log_refines [OF l, of demo_log_env "[Logs LOG_LEVEL_INFO (cstr ''x'') (cstr ''n=%d'') [Log_Int 5],
        Logs LOG_LEVEL_DEBUG (cstr ''x'') (cstr ''y'') [], Writes]" "\<lparr>lo_console = [], lo_files = \<lambda>_. []\<rparr>"] l e e2
    by (simp add: log_levels del: run_steps.simps) blast
qed

text \<open>Writing to a file is undefined: the path is copied without its terminator.\<close>

theorem file_logging_undefined:
  assumes "lg_type l = LOGGER_TYPE_FILE \<or> lg_type l = LOGGER_TYPE_BOTH" and "0 \<notin> set path"
    and "logger_set_log_file True l path = Some (Continues l')"
    and "fifo_inv (lg_buffer l)" and "fifo_abs (lg_buffer l) \<noteq> []"
  shows "write_log_messages en l' out = None"
proof -
  obtain m q where q: "fifo_abs (lg_buffer l) = m # q" using assms(5) by (cases "fifo_abs (lg_buffer l)") auto
  then obtain g where "fifo_pop (lg_buffer l) = Some (Some m, g)" using fifo_pop_spec [OF assms(4)] by auto
  moreover have "l' = l\<lparr>lg_log_file := Some path, lg_wrapper := Some \<lparr>wr_log_file = Some path, wr_type = lg_type l\<rparr>\<rparr>"
    using assms(1,3) by (auto simp: logger_set_log_file_def start_writing_def logger_types strlen_def)
  ultimately show ?thesis
    using assms(1,2) by (auto simp: write_log_messages_def log_to_file_def string_in_def logger_types)
qed

text \<open>A node configured to log to both outputs starts no writer: nothing is ever printed and destroying is undefined.\<close>

theorem both_outputs_never_written:
  assumes "lc_logger_type c = Some LOGGER_TYPE_BOTH" "lc_logger_max_level c = Some lvl"
  shows "\<exists>l. handle_logger t c = Some (Continues l) \<and> lg_wrapper l = None \<and> logger_destroy l = None"
  using assms by (auto simp: handle_logger_def logger_init_def logger_types logger_destroy_def)

end
