(* ===== verification/Spec2Isabelle.thy ===== *)
theory Spec2Isabelle
  imports Ixl_World Ixl_Format Sci_Properties Sr_Liveness Sr_Conversation Pdi_Runs Rmemory Waiting Config_Properties Config_Handle Config_Nic Scip Logger Udp
begin

text \<open>
  Verification development of the Cloud IXL: an interlocking process (\<open>src/src/cloud_ixl\<close>) that
  commands one light signal through an object controller. It speaks SCI-LS telegrams
  (\<open>src/src/sci\<close>, with the checks of \<open>src/src/sci_ls_icd\<close>) over the RaSTA protocol
  (\<open>src/src/rasta\<close>): a safety and retransmission layer over a redundancy layer over UDP.

  \<^bold>\<open>How the parts interact.\<close> The operator's dialogue (\<open>cloud_ixl_input.c\<close>) yields a route and an aspect.
  \<open>main.c\<close> asks the interlocking logic (\<open>cloud_ixl_logic.c\<close>) for the route, hands the command to the
  process data interface (PDI) state machine, and the adapter builds an SCI-LS telegram that
  \<open>scils.c\<close> encodes and gives to \<open>sr_send\<close> of \<open>rasta_new.c\<close>. There it waits in a queue, is packed
  with a safety code (\<open>rastamodule.c\<close>, \<open>rastahashing.c\<close>), numbered by the redundancy layer
  (\<open>rasta_red_multiplexer.c\<close>) and sent once per transport channel (\<open>udp.c\<close>). On the way back
  the redundancy channel (\<open>rastaredundancy_new.c\<close>) restores the order, the safety layer checks and
  dispatches packets, and the notification of a received message ends in the message handler of
  \<open>main.c\<close>, which moves the PDI. Configuration files (\<open>config.c\<close>, \<open>dictionary.c\<close>), the node handle
  (\<open>rastahandle.c\<close>) and the logger (\<open>logging.c\<close>) serve all of it.

  \<^bold>\<open>Conventions.\<close> Machine integers are words of their C width on an LP64 host; structures are
  records, enumerations datatypes with the names of the source (plain words where the code casts
  unchecked bytes to them). The result \<open>None\<close> of an operation on memory is undefined behaviour:
  a read or write outside an array, a null or released pointer followed, an unset value used.
  Errors the code reports are values of its own error types; code that calls \<open>exit\<close> returns a
  value of \<open>exits\<close>. A mutex makes an operation one step; a thread loop is modelled by its body,
  and interleavings are lists of such steps (\<open>Runs\<close>) or the inductive relation \<open>sys_step\<close> of the
  interlocking process. What uninitialised storage holds, the clock, random numbers, the answers of
  the operating system and the application's callbacks are parameters.

  \<^bold>\<open>Shared theories.\<close> \<open>Prelude\<close> holds the integer types, checked memory, option chains and the interface
  \<open>codec\<close>, of which the byte order helpers, the SCI telegrams, the RaSTA packets and the textual
  addresses are interpretations. \<open>Rmemory\<close> (\<open>rmemory.c\<close>, the allocation of byte arrays) holds blocks, pointers
  and the C library's functions on them, and why a copy between two blocks is a checked read and
  a checked write; \<open>Waiting\<close> the clock (\<open>rastautil.c\<close>) and the loops that wait for other threads, with
  when they end. \<open>Runs\<close> holds runs of a step function and the interface
  \<open>simulation\<close>; the FIFO (through its own interface \<open>queue\<close>), the console logger, a connection
  with a backlog and two nodes in conversation are interpretations, as is the PDI under any sequence of messages. \<open>C_Text\<close> holds strings and characters of the C library.

  \<^bold>\<open>Interlocking.\<close> \<open>Ixl_Types\<close> (\<open>cloud_ixl_types.h\<close>, \<open>cloud_ixl_routes.c\<close>, \<open>cloud_ixl_state.c\<close>), \<open>Ixl_Logic\<close>
  (\<open>cloud_ixl_logic.c\<close>, \<open>cloud_ixl_output.c\<close>), \<open>Ixl_Input\<close> (the dialogue as a function of the
  characters typed), \<open>Ixl_Format\<close> (names), \<open>Ixl_Adapter\<close> (aspects to telegrams), \<open>Pdi_Config\<close>, \<open>Pdi\<close>
  and \<open>Ixl_Main\<close> (\<open>main.c\<close>: settings from the environment, the PDI state machine with its
  callbacks and message handler, the main thread as a program counter). \<open>Pdi_Spec\<close>, \<open>Ixl_Safety\<close>
  and \<open>Ixl_Runs\<close> hold the abstract PDI and the invariants of reachable states; \<open>Ixl_Demo\<close> a concrete
  run for the witnesses; \<open>Ixl_Properties\<close> the claims: every received message refines the abstract PDI,
  no step is undefined, each command is supervised by one confirmation, an aspect is ordered only
  while established, a route is released only after the stop aspect was confirmed, conflicting
  routes are never both set, the operator's loop makes progress. \<open>Pdi_Runs\<close> orders the states of the PDI as
  their enumeration does and shows that received messages, however many, only advance them. \<open>Ixl_Stack\<close> joins the process with the node
  below it: an order of the operator reaches the application of the controller, and what the
  controller says moves the dialogue, through every layer and as the abstract dialogue says. \<open>Ixl_World\<close>
  makes process, nodes and controller one transition system: in every reachable state each
  application has heard exactly what the other one said, a command is confirmed only by a report
  the controller's application made, and that report may be older than the order.

  \<^bold>\<open>Telegrams.\<close> \<open>Sci\<close> (\<open>sci.c\<close>, \<open>sci_telegram_factory.c\<close>), \<open>Sci_Ls_Icd\<close>, \<open>Hashmap\<close> (\<open>hashmap.c\<close>, with the interface
  \<open>registry\<close>), \<open>Scils\<close> (\<open>scils.c\<close>) and \<open>Scip\<close> (the optional SCI-P endpoint under \<open>src/extra\<close>).
  \<open>Sci_Properties\<close> shows the codec inverse in both directions, the hash table a finite map across
  rehashing, and that a registered name is reached; \<open>Scip\<close> that no SCI-P endpoint can receive what
  another one sends, because a padded name is read as a string.

  \<^bold>\<open>Safety codes.\<close> \<open>Md4\<close>, \<open>Siphash\<close>, \<open>Blake2\<close>, \<open>Crc\<close>, \<open>Hashing\<close>: the algorithms as written, MD4 equal to the digest
  of the padded message, SipHash blind for some bytes.

  \<^bold>\<open>Packets and queues.\<close> \<open>Byte_Util\<close>, \<open>Module\<close>, \<open>Factory\<close> (packing, unpacking, constructors), \<open>Fifo\<close>,
  \<open>Defer_Queue\<close>, \<open>Rasta_State\<close> (connections and their list). \<open>Rasta_Properties\<close>: application
  messages survive packing and wrapping, a packet is marked correct exactly when its safety code
  fits, one short packet poisons the module, the linked queue is a bounded list.

  \<^bold>\<open>Redundancy layer.\<close> \<open>Redundancy\<close>, \<open>Mux\<close>, \<open>Mux_Receive\<close>, \<open>Udp\<close> are the code; \<open>Redundancy_Spec\<close> and \<open>Mux_Spec\<close>
  the abstract channel, which appends a packet exactly when it is intact and next in order, and the
  path from multiplexer to multiplexer; \<open>Redundancy_Properties\<close> and \<open>Mux_Properties\<close> the claims.

  \<^bold>\<open>Safety and retransmission layer.\<close> \<open>Sr_Handle\<close> (\<open>rastahandle.c\<close>), \<open>Sr_Core\<close>, \<open>Sr_Handlers\<close>, \<open>Sr_Node\<close> (\<open>rasta_new.c\<close>:
  checks and timers, the handler of every packet type, the bodies of the three threads and the
  services). \<open>Sr_Spec\<close>, \<open>Sr_Queues\<close>, \<open>Sr_Handshake\<close>, \<open>Sr_Transfer\<close> are the lemmas; \<open>Sr_Properties\<close> shows that
  the handshake opens both ends in step, that application data is delivered in order, that packets
  move the states along the protocol and damaged ones change one counter, and where the
  code loses: retransmission is undefined, unconfirmed packets are dropped, a second connection
  takes over the first. \<open>Sr_Liveness\<close> follows a connection over arbitrary runs of its node:
  traffic in one direction only stops for good, heartbeats discard late confirmations, a silent
  peer is detected. \<open>Sr_Conversation\<close> follows two nodes over arbitrarily many exchanges in both directions, an
  interpretation of \<open>simulation\<close>: of each packet, data or heartbeat, the first datagram arrives, a node numbers
  fewer than \<open>2 ^ 32\<close> redundancy packets (their counter is not reset), while the sequence numbers of the
  safety layer may wrap around; each exchange reads the clocks anew, and no timer runs out.

  \<^bold>\<open>Configuration and logging.\<close> \<open>Ip_Data\<close>, \<open>Config_Types\<close>, \<open>Config_Dictionary\<close>, \<open>Config_Parser\<close>, \<open>Config_Load\<close>,
  \<open>Config_Nic\<close>, \<open>Config_Handle\<close> are the code, \<open>Config_Spec\<close> and \<open>Config_Properties\<close> show what a line means and that every
  loaded value is in range. \<open>Logger\<close> shows the console logger to be a queue of ten lines that
  drops what does not fit, and that logging to a file is undefined.

  \<^bold>\<open>Bounds and fuel.\<close> \<open>hashmap_put\<close> takes the number of doublings the allocator still serves; running out of it
  is the \<open>MAP_OMEM\<close> of the code, and none is needed while the table is half empty. The reader of
  textual addresses has fuel 5 for at most four numbers, of format strings the length of the format, and
  \<open>digits_in\<close> 64 places for numbers below \<open>2 ^ 64\<close>. \<open>remove_confirmed\<close> is a partial function whose
  termination on every well-formed queue is part of the lemmas that use it. \<open>wait_from\<close>, the loop that
  waits for another thread, is one whose result is undefined exactly when what it waits for never
  happens. All other loops are total functions with a measure or structural recursion.

  \<^bold>\<open>Not modelled.\<close> Printing for the operator, sleeping, and log output of the protocol layers have no effect on
  the state. The components keep arrays and structures as lists and
  records and do not allocate them in \<open>Rmemory\<close>; release of memory is modelled where something may
  still point to it (defer queues, FIFO cells). The tests, examples, diagnostics and Java bindings of the upstream
  library hold no logic of the interlocking. Data races between threads on unlocked fields are
  outside the model: every body is one step.
\<close>

end
